(* ===== verification/QA_Prelude.thy ===== *)
theory QA_Prelude
  imports Complex_Main "HOL-Library.AList" "HOL-Library.List_Lexorder" "HOL-Library.Char_ord"
    "HOL-Library.Product_Lexorder"
begin

text \<open>
  The shared vocabulary of the development.  Python exceptions are values of \<open>py_error\<close>, a
  fallible call returns \<open>py_error + 'a\<close> (type \<open>'a res\<close>), \<open>rbind\<close> sequences such calls and
  \<open>rfold\<close> is a \<open>for\<close> loop whose body may raise.  A Python dictionary is an association list
  in insertion order with distinct keys: assignment (\<open>dset\<close>) overwrites in place or appends,
  \<open>dpop\<close> removes.  The two locales at the end are interfaces several components rely on: a
  keyed store, and a loop body that keeps an invariant.
\<close>

section \<open>Collections of rewrite rules\<close>

named_theorems res_simps \<open>equations that drive fallible computations\<close>
named_theorems dict_simps \<open>equations of the dictionary operations\<close>
named_theorems inv_intros \<open>introduction rules for the invariants of the components\<close>

section \<open>Errors as values\<close>

datatype py_error =
    KeyError string
  | ValueError string
  | TypeError string
  | ZeroDivisionError
  | OverflowError
  | IndexError
  | AttributeError string
  | RuntimeError string

type_synonym 'a res = "py_error + 'a"

definition rbind :: "('e + 'a) \<Rightarrow> ('a \<Rightarrow> 'e + 'b) \<Rightarrow> 'e + 'b" where
  "rbind m f = (case m of Inl e \<Rightarrow> Inl e | Inr x \<Rightarrow> f x)"

fun rfold :: "('a \<Rightarrow> 's \<Rightarrow> 'e + 's) \<Rightarrow> 'a list \<Rightarrow> 's \<Rightarrow> 'e + 's" where
  "rfold f [] s = Inr s"
| "rfold f (x # xs) s = rbind (f x s) (rfold f xs)"

fun rmap :: "('a \<Rightarrow> 'e + 'b) \<Rightarrow> 'a list \<Rightarrow> 'e + 'b list" where
  "rmap f [] = Inr []"
| "rmap f (x # xs) = rbind (f x) (\<lambda>y. rbind (rmap f xs) (\<lambda>ys. Inr (y # ys)))"

lemma rbind_Inl [simp]: "rbind (Inl e) f = Inl e"
  by (simp add: rbind_def)

lemma rbind_Inr [simp]: "rbind (Inr x) f = f x"
  by (simp add: rbind_def)

lemma rbind_eq_Inr [res_simps]: "rbind m f = Inr y \<longleftrightarrow> (\<exists>x. m = Inr x \<and> f x = Inr y)"
  by (cases m) auto

lemma rbind_eq_Inl [res_simps]:
  "rbind m f = Inl e \<longleftrightarrow> m = Inl e \<or> (\<exists>x. m = Inr x \<and> f x = Inl e)"
  by (cases m) auto

lemma rfold_append: "rfold f (xs @ ys) s = rbind (rfold f xs s) (rfold f ys)"
proof (induction xs arbitrary: s)
  case (Cons x xs)
  then show ?case by (cases "f x s") auto
qed simp

lemma rfold_total:
  assumes "\<And>x s. x \<in> set xs \<Longrightarrow> P s \<Longrightarrow> \<exists>s'. f x s = Inr s' \<and> P s'" and "P s"
  shows "\<exists>s'. rfold f xs s = Inr s' \<and> P s'"
  using assms
proof (induction xs arbitrary: s)
  case (Cons x xs)
  then obtain s1 where "f x s = Inr s1" and "P s1" by fastforce
  with Cons show ?case by (simp add: Cons.IH)
qed simp

lemma rfold_invariant:
  assumes "\<And>x s s'. x \<in> set xs \<Longrightarrow> P s \<Longrightarrow> f x s = Inr s' \<Longrightarrow> P s'"
    and "P s" and "rfold f xs s = Inr s'"
  shows "P s'"
  using assms
proof (induction xs arbitrary: s)
  case (Cons x xs)
  from Cons.prems(3) obtain s1 where s1: "f x s = Inr s1" "rfold f xs s1 = Inr s'"
    by (auto simp: res_simps)
  from Cons.prems(1)[of x s s1] s1 Cons.prems(2) have "P s1" by simp
  with s1 Cons show ?case by (meson list.set_intros(2))
qed simp

lemma rmap_eq_Inr: "rmap f xs = Inr ys \<longleftrightarrow> list_all2 (\<lambda>x y. f x = Inr y) xs ys"
proof (induction xs arbitrary: ys)
  case Nil
  then show ?case by auto
next
  case (Cons x xs)
  then show ?case by (auto simp: res_simps list_all2_Cons1)
qed

lemma rmap_total: "(\<And>x. x \<in> set xs \<Longrightarrow> \<exists>y. f x = Inr y) \<Longrightarrow> \<exists>ys. rmap f xs = Inr ys"
proof (induction xs)
  case (Cons x xs)
  then obtain y ys where "f x = Inr y" "rmap f xs = Inr ys" by fastforce
  then show ?case by simp
qed simp

section \<open>Python dictionaries\<close>

type_synonym ('k, 'v) dict = "('k \<times> 'v) list"

definition dget :: "('k, 'v) dict \<Rightarrow> 'k \<Rightarrow> 'v option" where
  "dget d k = map_of d k"

definition dset :: "'k \<Rightarrow> 'v \<Rightarrow> ('k, 'v) dict \<Rightarrow> ('k, 'v) dict" where
  "dset k v d = AList.update k v d"

definition dpop :: "'k \<Rightarrow> ('k, 'v) dict \<Rightarrow> ('k, 'v) dict" where
  "dpop k d = AList.delete k d"

definition dkeys :: "('k, 'v) dict \<Rightarrow> 'k list" where
  "dkeys d = map fst d"

definition dvalues :: "('k, 'v) dict \<Rightarrow> 'v list" where
  "dvalues d = map snd d"

definition has_key :: "('k, 'v) dict \<Rightarrow> 'k \<Rightarrow> bool" where
  "has_key d k = (dget d k \<noteq> None)"

text \<open>\<open>a.update(b)\<close>: every binding of \<open>b\<close> is assigned in order.\<close>

definition dupdate :: "('k, 'v) dict \<Rightarrow> ('k, 'v) dict \<Rightarrow> ('k, 'v) dict" where
  "dupdate d e = fold (\<lambda>(k, v). dset k v) e d"

definition dict_ok :: "('k, 'v) dict \<Rightarrow> bool" where
  "dict_ok d = distinct (map fst d)"

lemma dget_Nil [simp]: "dget [] k = None"
  by (simp add: dget_def)

lemma dget_dset [dict_simps]: "dget (dset k v d) k' = (if k' = k then Some v else dget d k')"
  by (simp add: dget_def dset_def update_conv')

lemma dget_dpop [dict_simps]: "dget (dpop k d) k' = (if k' = k then None else dget d k')"
  by (simp add: dget_def dpop_def delete_conv')

lemma dict_ok_Nil [simp, inv_intros]: "dict_ok []"
  by (simp add: dict_ok_def)

lemma dict_ok_dset [inv_intros]: "dict_ok d \<Longrightarrow> dict_ok (dset k v d)"
  by (simp add: dict_ok_def dset_def distinct_update)

lemma dict_ok_dpop [inv_intros]: "dict_ok d \<Longrightarrow> dict_ok (dpop k d)"
  by (simp add: dict_ok_def dpop_def distinct_delete)

lemma set_dkeys_dset [dict_simps]: "set (dkeys (dset k v d)) = insert k (set (dkeys d))"
  by (induction d) (auto simp: dkeys_def dset_def)

lemma set_dkeys_dpop [dict_simps]: "set (dkeys (dpop k d)) = set (dkeys d) - {k}"
  by (force simp: dkeys_def dpop_def AList.delete_eq)

lemma dget_eq_None_iff [dict_simps]: "dget d k = None \<longleftrightarrow> k \<notin> set (dkeys d)"
  by (auto simp: dget_def dkeys_def map_of_eq_None_iff)

lemma has_key_iff [dict_simps]: "has_key d k \<longleftrightarrow> k \<in> set (dkeys d)"
  by (simp add: has_key_def dict_simps)

lemma dget_in_set: "dget d k = Some v \<Longrightarrow> (k, v) \<in> set d"
  by (simp add: dget_def map_of_SomeD)

lemma dget_SomeI: "dict_ok d \<Longrightarrow> (k, v) \<in> set d \<Longrightarrow> dget d k = Some v"
  by (simp add: dget_def dict_ok_def)

lemma length_dset [dict_simps]:
  "length (dset k v d) = (if has_key d k then length d else Suc (length d))"
  by (induction d) (auto simp: dset_def has_key_def dget_def)

lemma length_dpop_le: "length (dpop k d) \<le> length d"
  by (simp add: dpop_def length_delete_le)

lemma length_dpop: "dict_ok d \<Longrightarrow> dget d k = Some v \<Longrightarrow> length d = Suc (length (dpop k d))"
proof (induction d)
  case (Cons p d)
  have "filter (\<lambda>(k', _). k \<noteq> k') d = d" if "k \<notin> fst ` set d"
    using that by (intro filter_True) force
  with Cons show ?case
    by (auto simp: dict_ok_def dpop_def dget_def AList.delete_eq split: if_splits)
qed simp

lemma set_dset_subset: "set (dset k v d) \<subseteq> insert (k, v) (set d)"
  by (induction d) (auto simp: dset_def)

lemma set_dset: "dict_ok d \<Longrightarrow> set (dset k v d) = insert (k, v) {(k', w) \<in> set d. k' \<noteq> k}"
  by (induction d) (auto simp: dset_def dict_ok_def rev_image_eqI)

lemma set_dpop: "set (dpop k d) = {(k', w) \<in> set d. k' \<noteq> k}"
  by (auto simp: dpop_def AList.delete_eq)

lemma dget_dupdate: "dget (dupdate d e) k = (case map_of (rev e) k of Some v \<Rightarrow> Some v | None \<Rightarrow> dget d k)"
proof (induction e arbitrary: d)
  case (Cons p e)
  obtain k' v where "p = (k', v)" by (cases p)
  with Cons[of "dset k' v d"] show ?case
    by (auto simp: dupdate_def dict_simps map_add_def split: option.splits)
qed (simp add: dupdate_def)

lemma dict_ok_dupdate [inv_intros]: "dict_ok d \<Longrightarrow> dict_ok (dupdate d e)"
  by (induction e arbitrary: d) (auto simp: dupdate_def inv_intros)

section \<open>Strings\<close>

text \<open>
  The string methods the code uses, on ASCII text.  \<open>is_space\<close> are the ASCII characters for
  which \<open>str.isspace\<close> holds.
\<close>

definition is_space :: "char \<Rightarrow> bool" where
  "is_space c = (let n = of_char c :: nat in n = 32 \<or> (9 \<le> n \<and> n \<le> 13) \<or> (28 \<le> n \<and> n \<le> 31))"

definition lower_char :: "char \<Rightarrow> char" where
  "lower_char c = (let n = of_char c :: nat in if 65 \<le> n \<and> n \<le> 90 then char_of (n + 32) else c)"

definition py_lower :: "string \<Rightarrow> string" where
  "py_lower s = map lower_char s"

definition py_strip :: "string \<Rightarrow> string" where
  "py_strip s = rev (dropWhile is_space (rev (dropWhile is_space s)))"

fun join_with :: "string \<Rightarrow> string list \<Rightarrow> string" where
  "join_with sep [] = []"
| "join_with sep [x] = x"
| "join_with sep (x # y # ys) = x @ sep @ join_with sep (y # ys)"

text \<open>\<open>x or default\<close> on an optional string: empty counts as missing.\<close>

definition or_text :: "string option \<Rightarrow> string \<Rightarrow> string" where
  "or_text x d = (case x of None \<Rightarrow> d | Some s \<Rightarrow> if s = [] then d else s)"

definition text_set :: "string option \<Rightarrow> bool" where
  "text_set x = (case x of None \<Rightarrow> False | Some s \<Rightarrow> s \<noteq> [])"

lemma is_space_lower_char [simp]: "is_space (lower_char c) = is_space c"
proof -
  have "of_char (char_of (n + 32) :: char) = n + 32" if "n \<le> 90" for n :: nat
    using that by simp
  then show ?thesis by (auto simp: is_space_def lower_char_def Let_def)
qed

lemma lower_char_idem [simp]: "lower_char (lower_char c) = lower_char c"
  by (auto simp: lower_char_def Let_def)

lemma py_lower_idem [simp]: "py_lower (py_lower s) = py_lower s"
  by (simp add: py_lower_def)

lemma py_strip_id:
  assumes "s = [] \<or> (\<not> is_space (hd s) \<and> \<not> is_space (last s))"
  shows "py_strip s = s"
proof (cases "s = []")
  case False
  with assms have "dropWhile is_space s = s" by (cases s) auto
  moreover from False assms have "dropWhile is_space (rev s) = rev s"
    by (cases s rule: rev_cases) auto
  ultimately show ?thesis by (simp add: py_strip_def)
qed (simp add: py_strip_def)

lemma py_strip_ends: "py_strip s = [] \<or> (\<not> is_space (hd (py_strip s)) \<and> \<not> is_space (last (py_strip s)))"
proof -
  define t where "t = dropWhile is_space s"
  define u where "u = dropWhile is_space (rev t)"
  have u: "py_strip s = rev u" by (simp add: py_strip_def t_def u_def)
  show ?thesis
  proof (cases "u = []")
    case False
    then have "\<not> is_space (hd u)" by (simp add: u_def hd_dropWhile)
    moreover from False have "t \<noteq> []" by (auto simp: u_def)
    then have "\<not> is_space (hd t)" by (simp add: t_def hd_dropWhile)
    moreover have "last u = last (rev t)"
      using False by (metis u_def dropWhile_eq_Nil_conv takeWhile_dropWhile_id last_appendR)
    ultimately show ?thesis using False u \<open>t \<noteq> []\<close> by (simp add: hd_rev last_rev)
  qed (simp add: u)
qed

lemma py_strip_idem: "py_strip (py_strip s) = py_strip s"
  using py_strip_ends[of s] by (intro py_strip_id)

text \<open>More string methods: \<open>upper\<close>, \<open>isdigit\<close>, \<open>int\<close> and \<open>str\<close> of a number, \<open>rsplit(c, 1)\<close>.\<close>

definition upper_char :: "char \<Rightarrow> char" where
  "upper_char c = (let n = of_char c :: nat in if 97 \<le> n \<and> n \<le> 122 then char_of (n - 32) else c)"

definition py_upper :: "string \<Rightarrow> string" where
  "py_upper s = map upper_char s"

definition digit_char :: "char \<Rightarrow> bool" where
  "digit_char c = (let n = of_char c :: nat in 48 \<le> n \<and> n \<le> 57)"

definition py_isdigit :: "string \<Rightarrow> bool" where
  "py_isdigit s = (s \<noteq> [] \<and> list_all digit_char s)"

definition digits_value :: "string \<Rightarrow> nat" where
  "digits_value s = fold (\<lambda>c n. 10 * n + (of_char c - 48)) s 0"

fun show_nat :: "nat \<Rightarrow> string" where
  "show_nat n = (if n < 10 then [char_of (n + 48)] else show_nat (n div 10) @ [char_of (n mod 10 + 48)])"

declare show_nat.simps [simp del]

definition show_int :: "int \<Rightarrow> string" where
  "show_int n = (if n < 0 then CHR ''-'' # show_nat (nat (- n)) else show_nat (nat n))"

text \<open>\<open>s.rsplit(c, 1)\<close>: the parts around the last occurrence of the separator, if there is one.\<close>

definition rsplit_last :: "char \<Rightarrow> string \<Rightarrow> (string \<times> string) option" where
  "rsplit_last c s =
     (if c \<in> set s
      then Some (rev (tl (dropWhile (\<lambda>x. x \<noteq> c) (rev s))), rev (takeWhile (\<lambda>x. x \<noteq> c) (rev s)))
      else None)"

lemma rsplit_last_join: "rsplit_last c s = Some (a, b) \<Longrightarrow> s = a @ c # b \<and> c \<notin> set b"
proof -
  assume *: "rsplit_last c s = Some (a, b)"
  then have mem: "c \<in> set s" by (auto simp: rsplit_last_def split: if_splits)
  define t where "t = dropWhile (\<lambda>x. x \<noteq> c) (rev s)"
  have t: "t \<noteq> []" "hd t = c" using mem hd_dropWhile[of "\<lambda>x. x \<noteq> c" "rev s"] by (auto simp: t_def dropWhile_eq_Nil_conv)
  have ab: "a = rev (tl t)" "b = rev (takeWhile (\<lambda>x. x \<noteq> c) (rev s))"
    using * mem by (auto simp: rsplit_last_def t_def)
  have "rev s = rev b @ c # tl t"
    using t takeWhile_dropWhile_id[of "\<lambda>x. x \<noteq> c" "rev s"] by (simp add: ab t_def[symmetric]) (metis list.collapse)
  then have "rev s = rev (a @ c # b)" by (simp add: ab(1))
  then have "s = a @ c # b" by (simp only: rev_is_rev_conv)
  moreover have "c \<notin> set b" by (auto simp: ab(2) dest: set_takeWhileD)
  ultimately show ?thesis by blast
qed

lemma digits_value_snoc: "digits_value (s @ [c]) = 10 * digits_value s + (of_char c - 48)"
  by (simp add: digits_value_def)

lemma digit_code:
  assumes "k < 10"
  shows "digit_char (char_of (k + 48 :: nat))" "of_char (char_of (k + 48 :: nat) :: char) - 48 = k"
proof -
  have "(of_char (char_of (k + 48 :: nat) :: char) :: nat) = k + 48" using assms by simp
  then show "digit_char (char_of (k + 48 :: nat))" "of_char (char_of (k + 48 :: nat) :: char) - 48 = k"
    using assms by (simp_all add: digit_char_def)
qed

lemma show_nat_digits: "py_isdigit (show_nat n) \<and> digits_value (show_nat n) = n"
proof (induction n rule: show_nat.induct)
  case (1 n)
  show ?case
  proof (cases "n < 10")
    case True
    then have "show_nat n = [char_of (n + 48)]" using show_nat.simps[of n] by simp
    with digit_code[OF True] show ?thesis by (simp add: py_isdigit_def digits_value_def)
  next
    case False
    then have "show_nat n = show_nat (n div 10) @ [char_of (n mod 10 + 48)]" using show_nat.simps[of n] by simp
    moreover have "n mod 10 < 10" by simp
    note digit_code[OF this]
    ultimately show ?thesis using 1[OF False] by (simp add: digits_value_snoc py_isdigit_def)
  qed
qed

section \<open>Interfaces\<close>

text \<open>
  A keyed store: what a reader observes after a write and after a removal.  The engine's
  position book, the job table and the event buffers all rely on exactly these laws.
\<close>

locale keyed_store =
  fixes get :: "'m \<Rightarrow> 'k \<Rightarrow> 'v option"
    and put :: "'k \<Rightarrow> 'v \<Rightarrow> 'm \<Rightarrow> 'm"
    and remove :: "'k \<Rightarrow> 'm \<Rightarrow> 'm"
    and invar :: "'m \<Rightarrow> bool"
  assumes get_put: "get (put k v m) k' = (if k' = k then Some v else get m k')"
    and get_remove: "get (remove k m) k' = (if k' = k then None else get m k')"
    and invar_put: "invar m \<Longrightarrow> invar (put k v m)"
    and invar_remove: "invar m \<Longrightarrow> invar (remove k m)"
begin

definition modify :: "'k \<Rightarrow> ('v \<Rightarrow> 'v) \<Rightarrow> 'm \<Rightarrow> 'm" where
  "modify k f m = (case get m k of None \<Rightarrow> m | Some v \<Rightarrow> put k (f v) m)"

lemma get_modify:
  "get (modify k f m) k' = (if k' = k then map_option f (get m k) else get m k')"
  by (auto simp: modify_def get_put split: option.splits)

lemma put_all_preserves:
  assumes "\<forall>k v. get m k = Some v \<longrightarrow> P v" and "P w"
  shows "\<forall>k v. get (put k0 w m) k = Some v \<longrightarrow> P v"
  using assms by (auto simp: get_put)

lemma remove_all_preserves:
  assumes "\<forall>k v. get m k = Some v \<longrightarrow> P v"
  shows "\<forall>k v. get (remove k0 m) k = Some v \<longrightarrow> P v"
  using assms by (auto simp: get_remove)

end

interpretation pydict: keyed_store dget dset dpop dict_ok
  by unfold_locales (auto simp: dict_simps inv_intros)

text \<open>
  A loop body that keeps an invariant whenever it returns, and, in the stronger locale, that
  also always returns.
\<close>

locale guarded_loop =
  fixes body :: "'a \<Rightarrow> 's \<Rightarrow> 'e + 's"
    and ok :: "'a \<Rightarrow> bool"
    and inv :: "'s \<Rightarrow> bool"
  assumes body_keeps: "ok x \<Longrightarrow> inv s \<Longrightarrow> body x s = Inr s' \<Longrightarrow> inv s'"
begin

lemma loop_keeps:
  assumes "list_all ok xs" and "inv s" and "rfold body xs s = Inr s'"
  shows "inv s'"
  using assms by (intro rfold_invariant[of xs inv body s s']) (auto simp: list_all_iff intro: body_keeps)

end

locale total_loop = guarded_loop +
  assumes body_returns: "ok x \<Longrightarrow> inv s \<Longrightarrow> \<exists>s'. body x s = Inr s'"
begin

lemma loop_returns:
  assumes "list_all ok xs" and "inv s"
  shows "\<exists>s'. rfold body xs s = Inr s' \<and> inv s'"
proof (rule rfold_total)
  fix x s assume "x \<in> set xs" and "inv s"
  moreover from \<open>x \<in> set xs\<close> assms(1) have "ok x" by (simp add: list_all_iff)
  ultimately show "\<exists>s'. body x s = Inr s' \<and> inv s'" by (meson body_returns body_keeps)
qed (rule assms(2))

end

end
