(* ===== verification/Py_Float.thy ===== *)
theory Py_Float
  imports QA_Prelude
begin

text \<open>
  Python's \<open>float\<close> as the engine uses it: a finite value, the two infinities and NaN.  Finite
  values are exact rationals, so the model has Python's special values, its comparison rules
  (every ordering test with NaN is false), its \<open>ZeroDivisionError\<close> and its conversion errors,
  but no rounding of finite results and no overflow.  \<open>round(x, n)\<close> rounds halves to even,
  \<open>Decimal.quantize\<close> is modelled with the two rounding modes the cost model offers.
\<close>

datatype pyfloat = Fin rat | PInf | NInf | NaN

named_theorems float_simps \<open>evaluation of float arithmetic on finite arguments\<close>

section \<open>Arithmetic and comparison\<close>

instantiation pyfloat :: "{zero, plus, uminus, minus, times, ord}"
begin

definition zero_pyfloat :: pyfloat where
  "zero_pyfloat = Fin 0"

fun plus_pyfloat :: "pyfloat \<Rightarrow> pyfloat \<Rightarrow> pyfloat" where
  "plus_pyfloat (Fin a) (Fin b) = Fin (a + b)"
| "plus_pyfloat NaN _ = NaN"
| "plus_pyfloat _ NaN = NaN"
| "plus_pyfloat PInf NInf = NaN"
| "plus_pyfloat NInf PInf = NaN"
| "plus_pyfloat PInf _ = PInf"
| "plus_pyfloat _ PInf = PInf"
| "plus_pyfloat NInf _ = NInf"
| "plus_pyfloat _ NInf = NInf"

fun uminus_pyfloat :: "pyfloat \<Rightarrow> pyfloat" where
  "uminus_pyfloat (Fin a) = Fin (- a)"
| "uminus_pyfloat PInf = NInf"
| "uminus_pyfloat NInf = PInf"
| "uminus_pyfloat NaN = NaN"

definition minus_pyfloat :: "pyfloat \<Rightarrow> pyfloat \<Rightarrow> pyfloat" where
  "minus_pyfloat a b = a + (- b)"

fun times_pyfloat :: "pyfloat \<Rightarrow> pyfloat \<Rightarrow> pyfloat" where
  "times_pyfloat (Fin a) (Fin b) = Fin (a * b)"
| "times_pyfloat NaN _ = NaN"
| "times_pyfloat _ NaN = NaN"
| "times_pyfloat (Fin a) PInf = (if a = 0 then NaN else if 0 < a then PInf else NInf)"
| "times_pyfloat PInf (Fin a) = (if a = 0 then NaN else if 0 < a then PInf else NInf)"
| "times_pyfloat (Fin a) NInf = (if a = 0 then NaN else if 0 < a then NInf else PInf)"
| "times_pyfloat NInf (Fin a) = (if a = 0 then NaN else if 0 < a then NInf else PInf)"
| "times_pyfloat PInf PInf = PInf"
| "times_pyfloat NInf NInf = PInf"
| "times_pyfloat PInf NInf = NInf"
| "times_pyfloat NInf PInf = NInf"

fun less_pyfloat :: "pyfloat \<Rightarrow> pyfloat \<Rightarrow> bool" where
  "less_pyfloat (Fin a) (Fin b) = (a < b)"
| "less_pyfloat NInf (Fin b) = True"
| "less_pyfloat NInf PInf = True"
| "less_pyfloat (Fin a) PInf = True"
| "less_pyfloat _ _ = False"

fun less_eq_pyfloat :: "pyfloat \<Rightarrow> pyfloat \<Rightarrow> bool" where
  "less_eq_pyfloat (Fin a) (Fin b) = (a \<le> b)"
| "less_eq_pyfloat NInf NInf = True"
| "less_eq_pyfloat PInf PInf = True"
| "less_eq_pyfloat NInf (Fin b) = True"
| "less_eq_pyfloat NInf PInf = True"
| "less_eq_pyfloat (Fin a) PInf = True"
| "less_eq_pyfloat _ _ = False"

instance ..

end

text \<open>\<open>==\<close> and \<open>!=\<close>: NaN is different from everything, itself included.\<close>

fun py_eq :: "pyfloat \<Rightarrow> pyfloat \<Rightarrow> bool" where
  "py_eq NaN _ = False"
| "py_eq _ NaN = False"
| "py_eq a b = (a = b)"

fun isfinite :: "pyfloat \<Rightarrow> bool" where
  "isfinite (Fin _) = True"
| "isfinite _ = False"

text \<open>Truth value of a float: false for zero only (NaN and the infinities are true).\<close>

definition truthy :: "pyfloat \<Rightarrow> bool" where
  "truthy x = (x \<noteq> Fin 0)"

text \<open>\<open>a / b\<close> and \<open>a // b\<close>.\<close>

fun py_div :: "pyfloat \<Rightarrow> pyfloat \<Rightarrow> pyfloat res" where
  "py_div NaN (Fin b) = (if b = 0 then Inl ZeroDivisionError else Inr NaN)"
| "py_div (Fin a) (Fin b) = (if b = 0 then Inl ZeroDivisionError else Inr (Fin (a / b)))"
| "py_div PInf (Fin b) =
     (if b = 0 then Inl ZeroDivisionError else Inr (if 0 < b then PInf else NInf))"
| "py_div NInf (Fin b) =
     (if b = 0 then Inl ZeroDivisionError else Inr (if 0 < b then NInf else PInf))"
| "py_div (Fin a) PInf = Inr (Fin 0)"
| "py_div (Fin a) NInf = Inr (Fin 0)"
| "py_div _ _ = Inr NaN"

fun py_floordiv :: "pyfloat \<Rightarrow> pyfloat \<Rightarrow> pyfloat res" where
  "py_floordiv (Fin a) (Fin b) =
     (if b = 0 then Inl ZeroDivisionError else Inr (Fin (of_int \<lfloor>a / b\<rfloor>)))"
| "py_floordiv _ (Fin b) = (if b = 0 then Inl ZeroDivisionError else Inr NaN)"
| "py_floordiv (Fin a) PInf = Inr (if a < 0 then Fin (-1) else Fin 0)"
| "py_floordiv (Fin a) NInf = Inr (if 0 < a then Fin (-1) else Fin 0)"
| "py_floordiv _ _ = Inr NaN"

text \<open>\<open>int(x)\<close>: truncation toward zero; NaN and the infinities raise.\<close>

definition trunc :: "rat \<Rightarrow> int" where
  "trunc x = (if x < 0 then \<lceil>x\<rceil> else \<lfloor>x\<rfloor>)"

fun py_int :: "pyfloat \<Rightarrow> int res" where
  "py_int (Fin a) = Inr (trunc a)"
| "py_int NaN = Inl (ValueError ''cannot convert float NaN to integer'')"
| "py_int _ = Inl OverflowError"

text \<open>
  The built-in \<open>min\<close> and \<open>max\<close> scan from the left and replace the current value only when the
  next one is strictly smaller (larger), which decides what they do with NaN.
\<close>

definition py_min :: "pyfloat \<Rightarrow> pyfloat \<Rightarrow> pyfloat" where
  "py_min a b = (if b < a then b else a)"

definition py_max :: "pyfloat \<Rightarrow> pyfloat \<Rightarrow> pyfloat" where
  "py_max a b = (if a < b then b else a)"

definition py_sum :: "pyfloat list \<Rightarrow> pyfloat" where
  "py_sum xs = fold (\<lambda>x acc. acc + x) xs (Fin 0)"

abbreviation of_int_float :: "int \<Rightarrow> pyfloat" where
  "of_int_float n \<equiv> Fin (of_int n)"

section \<open>Rounding\<close>

definition half_even :: "rat \<Rightarrow> int" where
  "half_even x =
     (let f = \<lfloor>x\<rfloor>; d = x - of_int f
      in if d < 1 / 2 then f else if 1 / 2 < d then f + 1 else if even f then f else f + 1)"

definition half_up :: "rat \<Rightarrow> int" where
  \<comment> \<open>\<open>ROUND_HALF_UP\<close> of the decimal module: ties go away from zero.\<close>
  "half_up x = (if 0 \<le> x then \<lfloor>x + 1 / 2\<rfloor> else - \<lfloor>- x + 1 / 2\<rfloor>)"

fun py_round :: "nat \<Rightarrow> pyfloat \<Rightarrow> pyfloat" where
  "py_round n (Fin a) = Fin (of_int (half_even (a * 10 ^ n)) / 10 ^ n)"
| "py_round n x = x"

section \<open>Lemmas\<close>

lemma fin_arith [simp, float_simps]:
  "Fin a + Fin b = Fin (a + b)" "Fin a - Fin b = Fin (a - b)" "Fin a * Fin b = Fin (a * b)"
  "Fin a < Fin b \<longleftrightarrow> a < b" "Fin a \<le> Fin b \<longleftrightarrow> a \<le> b"
  by (simp_all add: minus_pyfloat_def)

lemma isfinite_iff: "isfinite x \<longleftrightarrow> (\<exists>a. x = Fin a)"
  by (cases x) auto

lemma py_minmax_fin [simp]:
  "py_min (Fin a) (Fin b) = Fin (min a b)" "py_max (Fin a) (Fin b) = Fin (max a b)"
  by (auto simp: py_min_def py_max_def)

lemma NaN_absorbs [simp]:
  "NaN + x = NaN" "x + NaN = NaN" "NaN * x = NaN" "x * NaN = NaN" "NaN - x = NaN"
  "\<not> NaN < x" "\<not> x < NaN" "\<not> NaN \<le> x" "\<not> x \<le> NaN"
  by (cases x; simp add: minus_pyfloat_def)+

lemma plus_eq_Fin: "x + y = Fin c \<longleftrightarrow> (\<exists>a b. x = Fin a \<and> y = Fin b \<and> c = a + b)"
  by (cases x; cases y) auto

lemma py_sum_fin: "py_sum (map (\<lambda>x. Fin (f x)) xs) = Fin (\<Sum>x\<leftarrow>xs. f x)"
proof -
  have "fold (\<lambda>x acc. acc + x) (map (\<lambda>x. Fin (f x)) xs) (Fin c) = Fin (c + (\<Sum>x\<leftarrow>xs. f x))" for c
    by (induction xs arbitrary: c) (auto simp: add.assoc)
  from this[of 0] show ?thesis by (simp add: py_sum_def)
qed

lemma trunc_nonneg: "0 \<le> x \<Longrightarrow> trunc x = \<lfloor>x\<rfloor>"
  by (simp add: trunc_def)

lemma trunc_of_int [simp]: "trunc (of_int n) = n"
  by (simp add: trunc_def)

lemma half_even_dist: "\<bar>x - of_int (half_even x)\<bar> \<le> 1 / 2"
proof -
  have "of_int \<lfloor>x\<rfloor> \<le> x" "x < of_int \<lfloor>x\<rfloor> + 1" by linarith+
  then show ?thesis unfolding half_even_def Let_def abs_if by (simp, linarith)
qed

lemma half_even_mono_nonneg: "0 \<le> x \<Longrightarrow> 0 \<le> half_even x"
  by (auto simp: half_even_def Let_def)

lemma py_round_error: "py_round n (Fin a) = Fin b \<Longrightarrow> \<bar>a - b\<bar> \<le> 1 / (2 * 10 ^ n)"
proof -
  assume "py_round n (Fin a) = Fin b"
  then have b: "b = of_int (half_even (a * 10 ^ n)) / 10 ^ n" by simp
  have "a - b = (a * 10 ^ n - of_int (half_even (a * 10 ^ n))) / 10 ^ n"
    by (simp add: b field_simps)
  then have "\<bar>a - b\<bar> = \<bar>a * 10 ^ n - of_int (half_even (a * 10 ^ n))\<bar> / 10 ^ n"
    by (simp add: abs_divide)
  also have "\<dots> \<le> (1 / 2) / 10 ^ n"
    by (intro divide_right_mono half_even_dist) simp
  finally show ?thesis by simp
qed

lemma half_up_dist: "\<bar>x - of_int (half_up x)\<bar> \<le> 1 / 2"
  unfolding half_up_def by (auto simp: abs_if) linarith+

lemma floor_div_le: "0 < b \<Longrightarrow> of_int \<lfloor>a / b\<rfloor> * b \<le> (a :: rat)"
  by (simp add: floor_divide_lower)

end
