(* ===== verification/Bt_Models.thy ===== *)
theory Bt_Models
  imports Py_Float
begin

text \<open>
  \<^verbatim>\<open>backtest_module/models.py\<close>: the pydantic models that configure a backtest.  Every model is a
  record with the source's fields (prefixed to keep them apart), every \<open>Field\<close> bound and every
  \<open>model_validator\<close> is part of the model's \<open>validate_\<dots>\<close> function, which returns the validated
  value or the \<open>ValueError\<close> pydantic would report.  Configuration floats are finite
  rationals, dates are proleptic ordinals, datetimes are microseconds since the epoch.  The
  field defaults are the \<open>default_\<dots>\<close> constants.
\<close>

type_synonym date = int
type_synonym datetime = int
type_synonym ticker = string

section \<open>Enumerations\<close>

datatype StrategyLifecycle = Confirmed | Provisional | Rejected
datatype Market = KRX
datatype AssetType = Equity | Etf | Sector | Index
datatype LogicMode = Logic_All | Logic_Any
datatype ConditionOperator = LT | LTE | GT | GTE | EQ | NE | BETWEEN | CROSS_ABOVE | CROSS_BELOW
datatype PositionSizingMethod = EQUAL_WEIGHT | FIXED_PERCENT | FIXED_RISK
datatype ExecutionTiming = NEXT_OPEN | NEXT_CLOSE
datatype ReportSummaryMode = Beginner | Practitioner | Both
datatype RiskProfile = Conservative | Moderate | Aggressive
datatype SignalAction = BUY | SELL | HOLD | WATCH
datatype TargetPriceChange = Price_Up | Price_Down | Price_Unchanged | Price_Unknown

section \<open>User intent\<close>

record UserIntent =
  ui_market :: Market
  ui_asset_type :: AssetType
  ui_strategy_goal :: string
  ui_strategy_family_hint :: "string option"
  ui_indicator_preferences :: "string list"
  ui_use_report_filter :: bool
  ui_risk_profile :: RiskProfile

record UserIntentSpec =
  us_lifecycle :: StrategyLifecycle
  us_fit_confidence :: rat
  us_missing_fields :: "string list"
  us_ambiguity_flags :: "string list"
  us_clarification_questions :: "string list"
  us_assumptions :: "string list"
  us_user_intent :: UserIntent

definition validate_user_intent_spec :: "UserIntentSpec \<Rightarrow> UserIntentSpec res" where
  "validate_user_intent_spec u =
     (if 0 \<le> us_fit_confidence u \<and> us_fit_confidence u \<le> 1 then Inr u
      else Inl (ValueError ''fit_confidence''))"

section \<open>Conditions\<close>

text \<open>\<open>right\<close> is a number, a metric name or a list of numbers.\<close>

datatype cond_right = RNum rat | RName string | RList "rat list"

record Condition =
  c_left :: string
  c_operator :: ConditionOperator
  c_right :: cond_right
  c_description :: "string option"

definition validate_condition :: "Condition \<Rightarrow> Condition res" where
  "validate_condition c =
     (if c_operator c = BETWEEN
      then (case c_right c of
              RList [low, high] \<Rightarrow>
                if high < low then Inl (ValueError ''between expects [low, high] in order'') else Inr c
            | _ \<Rightarrow> Inl (ValueError ''between expects right = [low, high]''))
      else Inr c)"

section \<open>Sizing, capacity, risk and walk-forward settings\<close>

record PositionSizing =
  ps_method :: PositionSizingMethod
  ps_max_positions :: "int option"
  ps_fixed_percent :: "rat option"
  ps_risk_per_position :: "rat option"

definition unit_interval_opt :: "rat option \<Rightarrow> bool" where
  "unit_interval_opt x = (case x of None \<Rightarrow> True | Some v \<Rightarrow> 0 < v \<and> v \<le> 1)"

definition validate_position_sizing :: "PositionSizing \<Rightarrow> PositionSizing res" where
  "validate_position_sizing s =
     (if (case ps_max_positions s of None \<Rightarrow> False | Some m \<Rightarrow> m < 1)
      then Inl (ValueError ''max_positions'')
      else if \<not> unit_interval_opt (ps_fixed_percent s) then Inl (ValueError ''fixed_percent'')
      else if \<not> unit_interval_opt (ps_risk_per_position s)
      then Inl (ValueError ''risk_per_position'')
      else if ps_method s = FIXED_PERCENT \<and> ps_fixed_percent s = None
      then Inl (ValueError ''fixed_percent sizing needs fixed_percent'')
      else if ps_method s = FIXED_RISK \<and> ps_risk_per_position s = None
      then Inl (ValueError ''fixed_risk sizing needs risk_per_position'')
      else Inr s)"

record ExecutionCapacityConfig =
  ec_enabled :: bool
  ec_max_participation_rate :: rat

definition validate_execution_capacity :: "ExecutionCapacityConfig \<Rightarrow> ExecutionCapacityConfig res" where
  "validate_execution_capacity e =
     (if 0 < ec_max_participation_rate e \<and> ec_max_participation_rate e \<le> 1 then Inr e
      else Inl (ValueError ''max_participation_rate''))"

record RiskControls =
  rc_max_gross_exposure_pct :: rat
  rc_stop_loss_pct :: "rat option"
  rc_take_profit_pct :: "rat option"
  rc_max_single_position_pct :: rat

definition validate_risk_controls :: "RiskControls \<Rightarrow> RiskControls res" where
  "validate_risk_controls r =
     (if \<not> (0 < rc_max_gross_exposure_pct r \<and> rc_max_gross_exposure_pct r \<le> 1)
      then Inl (ValueError ''max_gross_exposure_pct'')
      else if \<not> unit_interval_opt (rc_stop_loss_pct r) then Inl (ValueError ''stop_loss_pct'')
      else if (case rc_take_profit_pct r of None \<Rightarrow> False | Some v \<Rightarrow> v \<le> 0)
      then Inl (ValueError ''take_profit_pct'')
      else if \<not> (0 < rc_max_single_position_pct r \<and> rc_max_single_position_pct r \<le> 1)
      then Inl (ValueError ''max_single_position_pct'')
      else Inr r)"

record WalkForwardConfig =
  wf_in_sample_months :: int
  wf_out_of_sample_months :: int
  wf_roll_months :: int

definition validate_walk_forward :: "WalkForwardConfig \<Rightarrow> WalkForwardConfig res" where
  "validate_walk_forward w =
     (if 1 \<le> wf_in_sample_months w \<and> 1 \<le> wf_out_of_sample_months w \<and> 1 \<le> wf_roll_months w
      then Inr w else Inl (ValueError ''walk_forward''))"

section \<open>The cost model\<close>

datatype RoundingMode = Round_None | Round_Floor | Round_Half_Up

record CostModel =
  cm_commission_pct :: rat
  cm_tax_pct :: rat
  cm_slippage_pct :: rat
  cm_policy_id :: "string option"
  cm_policy_version :: "string option"
  cm_applicable_market :: "string option"
  cm_applicable_account :: "string option"
  cm_applicable_channel :: "string option"
  cm_applicable_tier :: "string option"
  cm_effective_from :: "date option"
  cm_effective_to :: "date option"
  cm_source_urls :: "string list"
  cm_document_hash :: "string option"
  cm_verified_at :: "datetime option"
  cm_rounding_mode :: RoundingMode
  cm_rounding_decimals :: nat

definition validate_cost_model :: "CostModel \<Rightarrow> CostModel res" where
  "validate_cost_model m =
     (if cm_commission_pct m < 0 then Inl (ValueError ''commission_pct'')
      else if cm_tax_pct m < 0 then Inl (ValueError ''tax_pct'')
      else if cm_slippage_pct m < 0 then Inl (ValueError ''slippage_pct'')
      else if 10 < cm_rounding_decimals m then Inl (ValueError ''rounding_decimals'')
      else (case (cm_effective_from m, cm_effective_to m) of
              (Some f, Some t) \<Rightarrow>
                if t < f
                then Inl (ValueError ''cost policy effective_from must not be after effective_to'')
                else Inr m
            | _ \<Rightarrow> Inr m))"

definition cost_production_eligible :: "CostModel \<Rightarrow> bool" where
  "cost_production_eligible m \<longleftrightarrow>
     text_set (cm_policy_id m) \<and> text_set (cm_policy_version m)
     \<and> text_set (cm_applicable_market m) \<and> text_set (cm_applicable_account m)
     \<and> text_set (cm_applicable_channel m) \<and> text_set (cm_applicable_tier m)
     \<and> cm_effective_from m \<noteq> None \<and> cm_effective_to m \<noteq> None
     \<and> cm_source_urls m \<noteq> [] \<and> text_set (cm_document_hash m) \<and> cm_verified_at m \<noteq> None"

section \<open>Corporate actions\<close>

datatype ca_type = Ca_Split | Ca_Cash_Dividend | Ca_Delist

record CorporateActionEvent =
  ca_event_type :: ca_type
  ca_ticker :: ticker
  ca_effective_date :: date
  ca_split_ratio :: "rat option"
  ca_cash_dividend_per_share :: "rat option"
  ca_recovery_price :: "rat option"
  ca_recovery_verified :: bool
  ca_source_urls :: "string list"
  ca_document_hash :: "string option"
  ca_verified_at :: "datetime option"

definition nonneg_opt :: "rat option \<Rightarrow> bool" where
  "nonneg_opt x = (case x of None \<Rightarrow> True | Some v \<Rightarrow> 0 \<le> v)"

definition validate_event :: "CorporateActionEvent \<Rightarrow> CorporateActionEvent res" where
  "validate_event e =
     (if (case ca_split_ratio e of None \<Rightarrow> False | Some v \<Rightarrow> v \<le> 0)
      then Inl (ValueError ''split_ratio'')
      else if \<not> nonneg_opt (ca_cash_dividend_per_share e)
      then Inl (ValueError ''cash_dividend_per_share'')
      else if \<not> nonneg_opt (ca_recovery_price e) then Inl (ValueError ''recovery_price'')
      else if ca_event_type e = Ca_Split \<and> ca_split_ratio e = None
      then Inl (ValueError ''split event requires split_ratio'')
      else if ca_event_type e = Ca_Cash_Dividend \<and> ca_cash_dividend_per_share e = None
      then Inl (ValueError ''cash_dividend event requires cash_dividend_per_share'')
      else if ca_event_type e = Ca_Delist \<and> ca_recovery_price e = None
      then Inl (ValueError ''delist event requires recovery_price; use zero for explicit zero recovery'')
      else Inr e)"

definition source_verified :: "CorporateActionEvent \<Rightarrow> bool" where
  "source_verified e \<longleftrightarrow>
     ca_source_urls e \<noteq> [] \<and> text_set (ca_document_hash e) \<and> ca_verified_at e \<noteq> None"

section \<open>Backtest, reporting and the strategy specification\<close>

record BacktestConfig =
  bc_execution_timing :: ExecutionTiming
  bc_use_adjusted_price :: bool
  bc_walk_forward :: WalkForwardConfig
  bc_cost_model :: CostModel
  bc_execution_capacity :: ExecutionCapacityConfig
  bc_corporate_actions :: "CorporateActionEvent list"

definition validate_backtest_config :: "BacktestConfig \<Rightarrow> BacktestConfig res" where
  "validate_backtest_config b =
     rbind (validate_walk_forward (bc_walk_forward b)) (\<lambda>_.
     rbind (validate_cost_model (bc_cost_model b)) (\<lambda>_.
     rbind (validate_execution_capacity (bc_execution_capacity b)) (\<lambda>_.
     rbind (rmap validate_event (bc_corporate_actions b)) (\<lambda>_. Inr b))))"

record ReportingConfig =
  rp_daily_email_time :: "nat \<times> nat"
  rp_summary_mode :: ReportSummaryMode
  rp_include_wts_archive :: bool
  rp_include_ab_comparison_in_user_report :: bool
  rp_include_ab_comparison_in_analyst_mode :: bool
  rp_include_candidate_reason_trace :: bool

record StrategySpec =
  sp_schema_version :: string
  sp_strategy_id :: string
  sp_strategy_name :: string
  sp_description :: "string option"
  sp_created_at :: datetime
  sp_market :: Market
  sp_asset_type :: AssetType
  sp_user_intent :: "UserIntentSpec option"
  sp_entry_rules :: "Condition list"
  sp_entry_logic :: LogicMode
  sp_exit_rules :: "Condition list"
  sp_exit_logic :: LogicMode
  sp_position_sizing :: PositionSizing
  sp_risk_controls :: RiskControls
  sp_backtest :: BacktestConfig
  sp_reporting :: ReportingConfig

text \<open>\<open>value.strip().lower().replace(" ", "_")\<close>.\<close>

definition normalize_strategy_id :: "string \<Rightarrow> string" where
  "normalize_strategy_id v =
     map (\<lambda>c. if c = CHR '' '' then CHR ''_'' else c) (py_lower (py_strip v))"

definition validate_strategy_spec :: "StrategySpec \<Rightarrow> StrategySpec res" where
  "validate_strategy_spec s =
     rbind (case sp_user_intent s of
              None \<Rightarrow> Inr None
            | Some u \<Rightarrow> rbind (validate_user_intent_spec u) (\<lambda>v. Inr (Some v))) (\<lambda>_.
     rbind (rmap validate_condition (sp_entry_rules s)) (\<lambda>_.
     rbind (rmap validate_condition (sp_exit_rules s)) (\<lambda>_.
     rbind (validate_position_sizing (sp_position_sizing s)) (\<lambda>_.
     rbind (validate_risk_controls (sp_risk_controls s)) (\<lambda>_.
     rbind (validate_backtest_config (sp_backtest s)) (\<lambda>_.
       if sp_entry_rules s = [] then Inl (ValueError ''entry_rules needs at least one rule'')
       else if ps_method (sp_position_sizing s) = FIXED_RISK
               \<and> rc_stop_loss_pct (sp_risk_controls s) = None
       then Inl (ValueError ''fixed_risk sizing needs stop_loss_pct'')
       else Inr (s\<lparr>sp_strategy_id := normalize_strategy_id (sp_strategy_id s)\<rparr>)))))))"

section \<open>Reports, snapshots, decisions and plans\<close>

record ParsedReport =
  pr_document_id :: string
  pr_ticker :: ticker
  pr_sector :: "string option"
  pr_source_published_at :: "datetime option"
  pr_source_discovered_at :: "datetime option"
  pr_parsed_at :: datetime
  pr_available_at :: "datetime option"
  pr_report_date :: "date option"
  pr_target_price :: "rat option"
  pr_rating :: "string option"
  pr_coverage_status :: "string option"
  pr_target_price_change :: TargetPriceChange
  pr_llm_sentiment :: rat
  pr_extraction_confidence :: rat
  pr_reasoning :: "string option"

definition validate_parsed_report :: "ParsedReport \<Rightarrow> ParsedReport res" where
  "validate_parsed_report p =
     (if \<not> (- 1 \<le> pr_llm_sentiment p \<and> pr_llm_sentiment p \<le> 1)
      then Inl (ValueError ''llm_sentiment'')
      else if \<not> (0 \<le> pr_extraction_confidence p \<and> pr_extraction_confidence p \<le> 1)
      then Inl (ValueError ''extraction_confidence'')
      else Inr p)"

type_synonym metrics = "(string, pyfloat) dict"

record MarketSnapshot =
  ms_ticker :: ticker
  ms_timestamp :: datetime
  ms_metrics :: metrics
  ms_previous_metrics :: "metrics option"

text \<open>
  The label of a matched rule: its description, or the text \<open>_humanize\<close> renders from the
  rule.  The rendering itself (\<open>str\<close> of a float) is not part of the model, so the label keeps
  the rule.
\<close>

datatype rule_label = Described string | Humanized Condition

record SignalDecision =
  sd_strategy_id :: string
  sd_ticker :: ticker
  sd_action :: SignalAction
  sd_confidence :: rat
  sd_reasons :: "string list"
  sd_matching_entry_rules :: "rule_label list"
  sd_matching_exit_rules :: "rule_label list"

record BacktestPlan =
  bp_strategy_id :: string
  bp_strategy_name :: string
  bp_market :: Market
  bp_asset_type :: AssetType
  bp_allowed_modules :: "string list"
  bp_network_access_allowed :: bool
  bp_execution_timing :: ExecutionTiming
  bp_use_adjusted_price :: bool
  bp_walk_forward :: WalkForwardConfig
  bp_cost_model :: CostModel
  bp_notes :: "string list"

section \<open>Field defaults\<close>

definition default_position_sizing :: PositionSizing where
  "default_position_sizing = \<lparr>ps_method = EQUAL_WEIGHT, ps_max_positions = Some 10,
     ps_fixed_percent = None, ps_risk_per_position = None\<rparr>"

definition default_risk_controls :: RiskControls where
  "default_risk_controls = \<lparr>rc_max_gross_exposure_pct = 1, rc_stop_loss_pct = Some (8 / 100),
     rc_take_profit_pct = None, rc_max_single_position_pct = 2 / 10\<rparr>"

definition default_walk_forward :: WalkForwardConfig where
  "default_walk_forward =
     \<lparr>wf_in_sample_months = 12, wf_out_of_sample_months = 3, wf_roll_months = 1\<rparr>"

definition default_cost_model :: CostModel where
  "default_cost_model = \<lparr>cm_commission_pct = 15 / 100000, cm_tax_pct = 23 / 10000,
     cm_slippage_pct = 1 / 1000, cm_policy_id = None, cm_policy_version = None,
     cm_applicable_market = None, cm_applicable_account = None, cm_applicable_channel = None,
     cm_applicable_tier = None, cm_effective_from = None, cm_effective_to = None,
     cm_source_urls = [], cm_document_hash = None, cm_verified_at = None,
     cm_rounding_mode = Round_None, cm_rounding_decimals = 6\<rparr>"

definition default_execution_capacity :: ExecutionCapacityConfig where
  "default_execution_capacity = \<lparr>ec_enabled = True, ec_max_participation_rate = 1 / 100\<rparr>"

definition default_backtest_config :: BacktestConfig where
  "default_backtest_config = \<lparr>bc_execution_timing = NEXT_OPEN, bc_use_adjusted_price = True,
     bc_walk_forward = default_walk_forward, bc_cost_model = default_cost_model,
     bc_execution_capacity = default_execution_capacity, bc_corporate_actions = []\<rparr>"

definition default_reporting :: ReportingConfig where
  "default_reporting = \<lparr>rp_daily_email_time = (8, 0), rp_summary_mode = Both,
     rp_include_wts_archive = True, rp_include_ab_comparison_in_user_report = False,
     rp_include_ab_comparison_in_analyst_mode = True,
     rp_include_candidate_reason_trace = False\<rparr>"

lemmas default_defs = default_position_sizing_def default_risk_controls_def
  default_walk_forward_def default_cost_model_def default_execution_capacity_def
  default_backtest_config_def default_reporting_def

section \<open>What a validated specification guarantees\<close>

definition spec_valid :: "StrategySpec \<Rightarrow> bool" where
  "spec_valid s = (validate_strategy_spec s = Inr s)"

abbreviation "spec_cost s \<equiv> bc_cost_model (sp_backtest s)"
abbreviation "spec_capacity s \<equiv> bc_execution_capacity (sp_backtest s)"
abbreviation "spec_actions s \<equiv> bc_corporate_actions (sp_backtest s)"

lemma validate_condition_Inr:
  "validate_condition c = Inr c' \<longleftrightarrow>
     c' = c \<and> (c_operator c = BETWEEN \<longrightarrow> (\<exists>low high. c_right c = RList [low, high] \<and> low \<le> high))"
  by (auto simp: validate_condition_def split: cond_right.splits list.splits if_splits)

lemma rmap_validate_condition:
  assumes "rmap validate_condition cs = Inr ds" and "c \<in> set cs"
  shows "validate_condition c = Inr c"
proof -
  from assms(1) have "list_all2 (\<lambda>c d. validate_condition c = Inr d) cs ds"
    by (simp add: rmap_eq_Inr)
  with assms(2) obtain d where "validate_condition c = Inr d"
    by (auto simp: in_set_conv_nth list_all2_conv_all_nth)
  then show ?thesis by (simp add: validate_condition_Inr)
qed

lemma strategy_id_fixed: "s\<lparr>sp_strategy_id := v\<rparr> = s \<Longrightarrow> v = sp_strategy_id s"
  by (drule arg_cong[where f = sp_strategy_id]) simp

lemma spec_valid_unfold:
  assumes "spec_valid s"
  shows "\<exists>ds. rmap validate_condition (sp_entry_rules s) = Inr ds"
    and "\<exists>ds. rmap validate_condition (sp_exit_rules s) = Inr ds"
    and "\<exists>p. validate_position_sizing (sp_position_sizing s) = Inr p"
    and "\<exists>r. validate_risk_controls (sp_risk_controls s) = Inr r"
    and "\<exists>b. validate_backtest_config (sp_backtest s) = Inr b"
    and "sp_entry_rules s \<noteq> []"
    and "ps_method (sp_position_sizing s) = FIXED_RISK \<Longrightarrow> rc_stop_loss_pct (sp_risk_controls s) \<noteq> None"
    and "normalize_strategy_id (sp_strategy_id s) = sp_strategy_id s"
  using assms unfolding spec_valid_def validate_strategy_spec_def
  by (auto simp: res_simps split: if_splits dest: strategy_id_fixed)

lemma spec_valid_conditions:
  assumes "spec_valid s" and "c \<in> set (sp_entry_rules s) \<union> set (sp_exit_rules s)"
  shows "validate_condition c = Inr c"
  using assms spec_valid_unfold(1,2) rmap_validate_condition by blast

lemma spec_valid_cost:
  assumes "spec_valid s"
  shows "0 \<le> cm_commission_pct (spec_cost s)" "0 \<le> cm_tax_pct (spec_cost s)"
    "0 \<le> cm_slippage_pct (spec_cost s)"
  using spec_valid_unfold(5)[OF assms]
  by (auto simp: validate_backtest_config_def validate_cost_model_def res_simps split: if_splits)

lemma spec_valid_capacity:
  "spec_valid s \<Longrightarrow> 0 < ec_max_participation_rate (spec_capacity s)"
  using spec_valid_unfold(5)[of s]
  by (auto simp: validate_backtest_config_def validate_execution_capacity_def res_simps split: if_splits)

lemma spec_valid_risk:
  assumes "spec_valid s"
  shows "0 < rc_max_gross_exposure_pct (sp_risk_controls s)"
    "rc_max_gross_exposure_pct (sp_risk_controls s) \<le> 1"
    "rc_stop_loss_pct (sp_risk_controls s) = Some sl \<Longrightarrow> 0 < sl \<and> sl \<le> 1"
    "rc_take_profit_pct (sp_risk_controls s) = Some tp \<Longrightarrow> 0 < tp"
    "0 < rc_max_single_position_pct (sp_risk_controls s)"
    "rc_max_single_position_pct (sp_risk_controls s) \<le> 1"
  using spec_valid_unfold(4)[OF assms]
  by (auto simp: validate_risk_controls_def unit_interval_opt_def split: if_splits option.splits)

lemma spec_valid_sizing:
  assumes "spec_valid s"
  shows "ps_max_positions (sp_position_sizing s) = Some m \<Longrightarrow> 1 \<le> m"
    "ps_method (sp_position_sizing s) = FIXED_PERCENT \<Longrightarrow>
       \<exists>p. ps_fixed_percent (sp_position_sizing s) = Some p \<and> 0 < p \<and> p \<le> 1"
    "ps_method (sp_position_sizing s) = FIXED_RISK \<Longrightarrow>
       \<exists>p. ps_risk_per_position (sp_position_sizing s) = Some p \<and> 0 < p \<and> p \<le> 1"
  using spec_valid_unfold(3)[OF assms]
  by (auto simp: validate_position_sizing_def unit_interval_opt_def split: if_splits option.splits)

lemma spec_valid_event:
  assumes "spec_valid s" and "e \<in> set (spec_actions s)"
  shows "ca_event_type e = Ca_Split \<Longrightarrow> \<exists>r. ca_split_ratio e = Some r \<and> 0 < r"
    "ca_event_type e = Ca_Cash_Dividend \<Longrightarrow> \<exists>r. ca_cash_dividend_per_share e = Some r \<and> 0 \<le> r"
    "ca_event_type e = Ca_Delist \<Longrightarrow> \<exists>r. ca_recovery_price e = Some r \<and> 0 \<le> r"
proof -
  from spec_valid_unfold(5)[OF assms(1)] obtain es
    where "rmap validate_event (spec_actions s) = Inr es"
    by (auto simp: validate_backtest_config_def res_simps)
  with assms(2) obtain e' where "validate_event e = Inr e'"
    by (auto simp: rmap_eq_Inr in_set_conv_nth list_all2_conv_all_nth)
  then show "ca_event_type e = Ca_Split \<Longrightarrow> \<exists>r. ca_split_ratio e = Some r \<and> 0 < r"
    "ca_event_type e = Ca_Cash_Dividend \<Longrightarrow> \<exists>r. ca_cash_dividend_per_share e = Some r \<and> 0 \<le> r"
    "ca_event_type e = Ca_Delist \<Longrightarrow> \<exists>r. ca_recovery_price e = Some r \<and> 0 \<le> r"
    by (auto simp: validate_event_def nonneg_opt_def split: if_splits option.splits)
qed

definition id_char :: "char \<Rightarrow> char" where
  "id_char c = (if lower_char c = CHR '' '' then CHR ''_'' else lower_char c)"

lemma underscore_facts: "\<not> is_space (CHR ''_'')" "lower_char (CHR ''_'') = CHR ''_''"
  by code_simp+

lemma id_char_idem: "id_char (id_char c) = id_char c"
  by (cases "lower_char c = CHR '' ''") (simp_all add: id_char_def underscore_facts)

lemma id_char_not_space: "\<not> is_space c \<Longrightarrow> \<not> is_space (id_char c)"
  using is_space_lower_char[of c] by (simp add: id_char_def underscore_facts)

lemma normalize_strategy_id_alt: "normalize_strategy_id v = map id_char (py_strip v)"
  unfolding normalize_strategy_id_def py_lower_def map_map by (rule map_cong) (simp_all only: comp_def id_char_def)

lemma normalize_strategy_id_idem:
  "normalize_strategy_id (normalize_strategy_id v) = normalize_strategy_id v"
proof -
  define t where "t = py_strip v"
  have t: "t = [] \<or> \<not> is_space (hd t) \<and> \<not> is_space (last t)"
    unfolding t_def by (rule py_strip_ends)
  have "py_strip (map id_char t) = map id_char t"
  proof (rule py_strip_id, cases "t = []")
    case False
    with t show "map id_char t = [] \<or>
        \<not> is_space (hd (map id_char t)) \<and> \<not> is_space (last (map id_char t))"
      by (simp only: hd_map last_map id_char_not_space simp_thms)
  qed simp
  then show ?thesis
    unfolding normalize_strategy_id_alt t_def[symmetric] by (simp only: map_map comp_def id_char_idem)
qed

end
