(* ===== verification/Bt_Strategy.thy ===== *)
theory Bt_Strategy
  imports Bt_Models
begin

text \<open>
  \<^verbatim>\<open>backtest_module/strategy.py\<close>: the runtime that turns a strategy specification and a market
  snapshot into a BUY, SELL, HOLD or WATCH decision.  Metric lookups raise \<open>KeyError\<close> and
  operands that are no scalar raise \<open>ValueError\<close>, exactly where the source does.  The lemmas
  relate the decision to the decision table it implements and show when it returns.
\<close>

definition ALLOWED_BACKTEST_MODULES :: "string list" where
  "ALLOWED_BACKTEST_MODULES = [''math'', ''statistics'', ''datetime'', ''pandas'', ''numpy'']"

definition METRIC_ALIASES :: "(string, string) dict" where
  "METRIC_ALIASES =
     [(''rsi'', ''rsi_14''), (''RSI'', ''rsi_14''), (''MA5'', ''ma_5''), (''MA_5'', ''ma_5''),
      (''5ma'', ''ma_5''), (''ma5'', ''ma_5''), (''MA20'', ''ma_20''), (''MA_20'', ''ma_20''),
      (''ma20'', ''ma_20''), (''MA60'', ''ma_60''), (''MA_60'', ''ma_60''), (''ma60'', ''ma_60''),
      (''signal'', ''macd_signal''), (''price'', ''close'')]"

definition alias_of :: "string \<Rightarrow> string" where
  "alias_of name = (case dget METRIC_ALIASES name of None \<Rightarrow> name | Some a \<Rightarrow> a)"

definition compile_backtest_plan :: "StrategySpec \<Rightarrow> BacktestPlan" where
  "compile_backtest_plan s =
     \<lparr>bp_strategy_id = sp_strategy_id s, bp_strategy_name = sp_strategy_name s,
      bp_market = sp_market s, bp_asset_type = sp_asset_type s,
      bp_allowed_modules = ALLOWED_BACKTEST_MODULES, bp_network_access_allowed = False,
      bp_execution_timing = bc_execution_timing (sp_backtest s),
      bp_use_adjusted_price = bc_use_adjusted_price (sp_backtest s),
      bp_walk_forward = bc_walk_forward (sp_backtest s),
      bp_cost_model = bc_cost_model (sp_backtest s),
      bp_notes = [''template compile only'', ''new external libraries are forbidden'',
        ''network calls are forbidden during code execution'',
        ''all condition matches are evaluated without score-based candidate filtering'']\<rparr>"

section \<open>Evaluating conditions\<close>

definition resolve_metric :: "string \<Rightarrow> metrics \<Rightarrow> pyfloat res" where
  "resolve_metric name pool =
     (case dget pool (alias_of name) of
        Some v \<Rightarrow> Inr v
      | None \<Rightarrow> (case dget pool name of None \<Rightarrow> Inl (KeyError name) | Some v \<Rightarrow> Inr v))"

fun resolve_right :: "cond_right \<Rightarrow> metrics \<Rightarrow> pyfloat res" where
  "resolve_right (RNum x) pool = Inr (Fin x)"
| "resolve_right (RName n) pool = resolve_metric n pool"
| "resolve_right (RList xs) pool = Inl (ValueError ''right side cannot be resolved as scalar'')"

fun compare_scalar :: "pyfloat \<Rightarrow> pyfloat \<Rightarrow> ConditionOperator \<Rightarrow> bool res" where
  "compare_scalar l r LT = Inr (l < r)"
| "compare_scalar l r LTE = Inr (l \<le> r)"
| "compare_scalar l r GT = Inr (r < l)"
| "compare_scalar l r GTE = Inr (r \<le> l)"
| "compare_scalar l r EQ = Inr (py_eq l r)"
| "compare_scalar l r NE = Inr (\<not> py_eq l r)"
| "compare_scalar l r op = Inl (ValueError ''Unsupported scalar operator'')"

text \<open>
  Unpacking \<open>low, high = rule.right\<close>.  A validated BETWEEN condition always carries a list of
  two numbers, every other operand fails here.
\<close>

fun unpack_between :: "cond_right \<Rightarrow> (rat \<times> rat) res" where
  "unpack_between (RList [low, high]) = Inr (low, high)"
| "unpack_between (RNum x) = Inl (TypeError ''cannot unpack non-iterable float object'')"
| "unpack_between _ = Inl (ValueError ''cannot unpack between bounds'')"

definition evaluate_condition :: "Condition \<Rightarrow> MarketSnapshot \<Rightarrow> bool res" where
  "evaluate_condition rule market =
     rbind (resolve_metric (c_left rule) (ms_metrics market)) (\<lambda>current_left.
       if c_operator rule \<in> {LT, LTE, GT, GTE, EQ, NE}
       then rbind (resolve_right (c_right rule) (ms_metrics market)) (\<lambda>right.
              compare_scalar current_left right (c_operator rule))
       else if c_operator rule = BETWEEN
       then rbind (unpack_between (c_right rule)) (\<lambda>(low, high).
              Inr (Fin low \<le> current_left \<and> current_left \<le> Fin high))
       else (case ms_previous_metrics market of
               None \<Rightarrow> Inr False
             | Some prev \<Rightarrow>
                 if prev = [] then Inr False
                 else rbind (resolve_right (c_right rule) (ms_metrics market)) (\<lambda>current_right.
                      rbind (resolve_metric (c_left rule) prev) (\<lambda>prev_left.
                      rbind (resolve_right (c_right rule) prev) (\<lambda>prev_right.
                        if c_operator rule = CROSS_ABOVE
                        then Inr (prev_left \<le> prev_right \<and> current_right < current_left)
                        else Inr (prev_right \<le> prev_left \<and> current_left < current_right))))))"

definition rule_hit_label :: "Condition \<Rightarrow> rule_label" where
  "rule_hit_label rule =
     (if text_set (c_description rule) then Described (the (c_description rule))
      else Humanized rule)"

fun collect_hits :: "Condition list \<Rightarrow> MarketSnapshot \<Rightarrow> rule_label list res" where
  "collect_hits [] market = Inr []"
| "collect_hits (rule # rules) market =
     rbind (evaluate_condition rule market) (\<lambda>hit.
     rbind (collect_hits rules market) (\<lambda>hits.
       Inr (if hit then rule_hit_label rule # hits else hits)))"

definition evaluate_rules :: "Condition list \<Rightarrow> LogicMode \<Rightarrow> MarketSnapshot \<Rightarrow> rule_label list res" where
  "evaluate_rules rules logic market =
     (if rules = [] then Inr []
      else rbind (collect_hits rules market) (\<lambda>hits.
             if logic = Logic_All
             then Inr (if length hits = length rules then hits else [])
             else Inr hits))"

definition generate_signal :: "StrategySpec \<Rightarrow> MarketSnapshot \<Rightarrow> bool \<Rightarrow> SignalDecision res" where
  "generate_signal spec market has_position =
     rbind (evaluate_rules (sp_entry_rules spec) (sp_entry_logic spec) market) (\<lambda>entry_hits.
     rbind (evaluate_rules (sp_exit_rules spec) (sp_exit_logic spec) market) (\<lambda>exit_hits.
       Inr
         (if has_position \<and> exit_hits \<noteq> []
          then \<lparr>sd_strategy_id = sp_strategy_id spec, sd_ticker = ms_ticker market,
                sd_action = SELL, sd_confidence = 1, sd_reasons = [''exit condition matched''],
                sd_matching_entry_rules = [], sd_matching_exit_rules = exit_hits\<rparr>
          else if \<not> has_position \<and> entry_hits \<noteq> []
          then \<lparr>sd_strategy_id = sp_strategy_id spec, sd_ticker = ms_ticker market,
                sd_action = BUY, sd_confidence = 1, sd_reasons = [''entry condition matched''],
                sd_matching_entry_rules = entry_hits, sd_matching_exit_rules = []\<rparr>
          else \<lparr>sd_strategy_id = sp_strategy_id spec, sd_ticker = ms_ticker market,
                sd_action = (if has_position then HOLD else WATCH), sd_confidence = 1,
                sd_reasons = [''no actionable rule matched''],
                sd_matching_entry_rules = [], sd_matching_exit_rules = []\<rparr>)))"

section \<open>The decision table\<close>

text \<open>
  What a rule set promises, independently of the order of evaluation: a non-empty set of
  rules of which all (or some) hold on the snapshot.
\<close>

definition holds_on :: "MarketSnapshot \<Rightarrow> Condition \<Rightarrow> bool" where
  "holds_on market rule = (evaluate_condition rule market = Inr True)"

definition rules_match :: "Condition list \<Rightarrow> LogicMode \<Rightarrow> MarketSnapshot \<Rightarrow> bool" where
  "rules_match rules logic market \<longleftrightarrow> rules \<noteq> [] \<and>
     (case logic of
        Logic_All \<Rightarrow> list_all (holds_on market) rules
      | Logic_Any \<Rightarrow> list_ex (holds_on market) rules)"

definition decision_table :: "StrategySpec \<Rightarrow> MarketSnapshot \<Rightarrow> bool \<Rightarrow> SignalAction" where
  "decision_table spec market has_position =
     (if has_position
      then if rules_match (sp_exit_rules spec) (sp_exit_logic spec) market then SELL else HOLD
      else if rules_match (sp_entry_rules spec) (sp_entry_logic spec) market then BUY else WATCH)"

lemma collect_hits_Inr:
  "collect_hits rules market = Inr hits \<Longrightarrow>
     hits = map rule_hit_label (filter (holds_on market) rules)"
  by (induction rules arbitrary: hits) (auto simp: res_simps holds_on_def)

lemma length_filter_eq: "length (filter P xs) = length xs \<longleftrightarrow> list_all P xs"
  by (metis filter_True length_filter_less less_irrefl list_all_iff)

lemma evaluate_rules_nonempty:
  assumes "evaluate_rules rules logic market = Inr hits"
  shows "hits \<noteq> [] \<longleftrightarrow> rules_match rules logic market"
proof (cases "rules = []")
  case True
  with assms show ?thesis by (simp add: evaluate_rules_def rules_match_def)
next
  case False
  with assms obtain hs where hs: "collect_hits rules market = Inr hs"
    by (auto simp: evaluate_rules_def res_simps)
  with assms False have hits: "hits = (if logic = Logic_All \<and> length hs \<noteq> length rules then [] else hs)"
    by (auto simp: evaluate_rules_def split: if_splits)
  from hs have hs: "hs = map rule_hit_label (filter (holds_on market) rules)"
    by (rule collect_hits_Inr)
  show ?thesis
  proof (cases logic)
    case Logic_All
    have "hits \<noteq> [] \<longleftrightarrow> length (filter (holds_on market) rules) = length rules"
      using hits False Logic_All by (auto simp: hs)
    then show ?thesis using Logic_All False by (simp add: rules_match_def length_filter_eq)
  next
    case Logic_Any
    then show ?thesis using False hits hs
      by (auto simp: rules_match_def list_ex_iff filter_empty_conv)
  qed
qed

lemma generate_signal_action:
  assumes "generate_signal spec market has_position = Inr d"
  shows "sd_action d = decision_table spec market has_position"
proof -
  from assms obtain en ex where
      en: "evaluate_rules (sp_entry_rules spec) (sp_entry_logic spec) market = Inr en"
      and ex: "evaluate_rules (sp_exit_rules spec) (sp_exit_logic spec) market = Inr ex"
    by (auto simp: generate_signal_def res_simps)
  with evaluate_rules_nonempty[OF en] evaluate_rules_nonempty[OF ex] assms show ?thesis
    by (auto simp: generate_signal_def decision_table_def split: if_splits)
qed

lemma generate_signal_ticker: "generate_signal spec market hp = Inr d \<Longrightarrow> sd_ticker d = ms_ticker market"
  by (auto simp: generate_signal_def res_simps split: if_splits)

section \<open>When a decision is returned\<close>

definition metric_present :: "string \<Rightarrow> metrics \<Rightarrow> bool" where
  "metric_present name m \<longleftrightarrow> has_key m name \<or> has_key m (alias_of name)"

definition scalar_right :: "Condition \<Rightarrow> bool" where
  "scalar_right c \<longleftrightarrow> (case c_right c of RList _ \<Rightarrow> c_operator c = BETWEEN | _ \<Rightarrow> True)"

definition metrics_cover :: "metrics \<Rightarrow> Condition \<Rightarrow> bool" where
  "metrics_cover m c \<longleftrightarrow> metric_present (c_left c) m \<and>
     (case c_right c of RName n \<Rightarrow> c_operator c \<noteq> BETWEEN \<longrightarrow> metric_present n m | _ \<Rightarrow> True)"

lemma resolve_metric_returns: "metric_present name m \<longleftrightarrow> (\<exists>v. resolve_metric name m = Inr v)"
  by (auto simp: metric_present_def resolve_metric_def has_key_def split: option.splits)

lemma resolve_right_returns:
  assumes "metrics_cover m c" and "scalar_right c" and "c_operator c \<noteq> BETWEEN"
  shows "\<exists>v. resolve_right (c_right c) m = Inr v"
  using assms by (cases "c_right c") (auto simp: metrics_cover_def scalar_right_def resolve_metric_returns)

lemma evaluate_condition_returns:
  assumes valid: "validate_condition c = Inr c" and scalar: "scalar_right c"
    and cur: "metrics_cover (ms_metrics market) c"
    and prev: "\<And>p. ms_previous_metrics market = Some p \<Longrightarrow> p \<noteq> [] \<Longrightarrow> metrics_cover p c"
  shows "\<exists>b. evaluate_condition c market = Inr b"
proof -
  from cur obtain l where l: "resolve_metric (c_left c) (ms_metrics market) = Inr l"
    by (auto simp: metrics_cover_def resolve_metric_returns)
  show ?thesis
  proof (cases "c_operator c = BETWEEN")
    case True
    with valid l show ?thesis by (auto simp: evaluate_condition_def validate_condition_Inr)
  next
    case False
    obtain r where r: "resolve_right (c_right c) (ms_metrics market) = Inr r"
      using resolve_right_returns[OF cur scalar False] by blast
    show ?thesis
    proof (cases "ms_previous_metrics market")
      case None
      with l r False show ?thesis by (cases "c_operator c") (auto simp: evaluate_condition_def)
    next
      case (Some p)
      show ?thesis
      proof (cases "p = []")
        case True
        with Some l r False show ?thesis
          by (cases "c_operator c") (auto simp: evaluate_condition_def)
      next
        case np: False
        from prev[OF Some np] obtain pl where "resolve_metric (c_left c) p = Inr pl"
          by (auto simp: metrics_cover_def resolve_metric_returns)
        moreover obtain pr where "resolve_right (c_right c) p = Inr pr"
          using resolve_right_returns[OF prev[OF Some np] scalar False] by blast
        ultimately show ?thesis using Some l r False np
          by (cases "c_operator c") (auto simp: evaluate_condition_def)
      qed
    qed
  qed
qed

lemma collect_hits_returns:
  "(\<And>c. c \<in> set rules \<Longrightarrow> \<exists>b. evaluate_condition c market = Inr b) \<Longrightarrow>
     \<exists>hits. collect_hits rules market = Inr hits"
proof (induction rules)
  case (Cons c rules)
  then obtain b hits where "evaluate_condition c market = Inr b" "collect_hits rules market = Inr hits"
    by fastforce
  then show ?case by simp
qed simp

lemma generate_signal_returns:
  assumes "spec_valid spec"
    and "\<And>c. c \<in> set (sp_entry_rules spec) \<union> set (sp_exit_rules spec) \<Longrightarrow>
           scalar_right c \<and> metrics_cover (ms_metrics market) c
           \<and> (\<forall>p. ms_previous_metrics market = Some p \<longrightarrow> p \<noteq> [] \<longrightarrow> metrics_cover p c)"
  shows "\<exists>d. generate_signal spec market has_position = Inr d"
proof -
  have ev: "\<exists>b. evaluate_condition c market = Inr b"
    if "c \<in> set (sp_entry_rules spec) \<union> set (sp_exit_rules spec)" for c
    using that assms(2)[OF that] spec_valid_conditions[OF assms(1) that]
    by (intro evaluate_condition_returns) auto
  have rules: "\<exists>hits. evaluate_rules rules logic market = Inr hits"
    if "set rules \<subseteq> set (sp_entry_rules spec) \<union> set (sp_exit_rules spec)" for rules logic
  proof -
    have "\<exists>hits. collect_hits rules market = Inr hits"
      using that ev by (intro collect_hits_returns) blast
    then show ?thesis by (auto simp: evaluate_rules_def)
  qed
  from rules[of "sp_entry_rules spec" "sp_entry_logic spec"]
       rules[of "sp_exit_rules spec" "sp_exit_logic spec"]
  show ?thesis by (auto simp: generate_signal_def)
qed

end
