(* ===== verification/Bt_Records.thy ===== *)
theory Bt_Records
  imports Bt_Strategy "HOL-Library.Multiset"
begin

text \<open>
  The data types of \<^verbatim>\<open>backtest_module/backtest.py\<close>: bars, positions, pending orders, the records
  the engine appends to its ledgers, and the run configuration.  A position or a bar holds
  \<open>pyfloat\<close> prices.  Order sides and audit statuses, closed sets of strings in the source, are
  enumerations.  A reason is its text, or one of the two risk reasons, whose text embeds the
  threshold.  \<open>isoformat\<close> dates are kept as dates, \<open>str\<close> of a decimal as the decimal, and the
  free-text \<open>detail\<close> of an audit record is left out.
\<close>

section \<open>Bars, positions and orders\<close>

record OhlcvBar =
  bar_date :: date
  bar_ticker :: ticker
  bar_open :: pyfloat
  bar_high :: pyfloat
  bar_low :: pyfloat
  bar_close :: pyfloat
  bar_volume :: pyfloat
  bar_raw_notional :: "pyfloat option"
  bar_name :: string
  bar_market :: string

definition bar_metrics :: "OhlcvBar \<Rightarrow> metrics" where
  "bar_metrics b = [(''open'', bar_open b), (''high'', bar_high b), (''low'', bar_low b),
     (''close'', bar_close b), (''volume'', bar_volume b)]"

record ExcludedTicker =
  ex_ticker :: ticker
  ex_reason :: string
  ex_first_missing_date :: "date option"
  ex_missing_metrics :: "string list"

datatype order_reason = Reason string | Stop_Loss_Reason rat | Take_Profit_Reason rat

record Position =
  pos_ticker :: ticker
  pos_quantity :: int
  pos_entry_date :: date
  pos_entry_price :: pyfloat
  pos_entry_notional :: pyfloat
  pos_entry_cost :: pyfloat
  pos_last_price :: pyfloat
  pos_entry_reason :: order_reason

datatype order_side = Side_Buy | Side_Sell | Side_Corporate_Action

record PendingOrder =
  po_ticker :: ticker
  po_side :: order_side
  po_signal_date :: date
  po_reason :: order_reason
  po_prior_raw_notional :: "pyfloat option"
  po_signal_score :: "pyfloat option"

section \<open>Ledger records\<close>

record TradeRecord =
  tr_ticker :: ticker
  tr_entry_date :: date
  tr_exit_date :: date
  tr_entry_price :: pyfloat
  tr_exit_price :: pyfloat
  tr_quantity :: int
  tr_entry_cost :: pyfloat
  tr_exit_cost :: pyfloat
  tr_gross_pnl :: pyfloat
  tr_net_pnl :: pyfloat
  tr_return_pct :: pyfloat
  tr_reason :: order_reason

record EquityPoint =
  eq_date :: date
  eq_cash :: pyfloat
  eq_positions_value :: pyfloat
  eq_total_equity :: pyfloat
  eq_daily_return :: pyfloat

datatype match_text = Labels "rule_label list" | Match_Reason order_reason

record SignalRecord =
  sr_date :: date
  sr_ticker :: ticker
  sr_action :: SignalAction
  sr_reasons :: order_reason
  sr_matching_entry_rules :: match_text
  sr_matching_exit_rules :: match_text

datatype audit_status =
    Submitted | Executed | Expired_Next_Session | Unfilled_Invalid_Open
  | Ignored_Missing_Position | Unfilled_Capacity | Skipped_Max_Positions | Unfilled
  | Expired_No_Next_Session | Delisted_Write_Off
  | Applied_Split | Applied_Cash_Dividend | Applied_Delist_Recovery

record OrderAuditRecord =
  au_date :: date
  au_ticker :: ticker
  au_side :: order_side
  au_status :: audit_status
  au_signal_date :: date
  au_reason :: order_reason
  au_price :: "pyfloat option"
  au_quantity :: "int option"
  au_requested_quantity :: "int option"
  au_filled_quantity :: "int option"
  au_fill_rate :: "pyfloat option"
  au_notional :: "pyfloat option"
  au_cost :: "pyfloat option"
  au_cost_policy_id :: "string option"
  au_commission_cost :: "pyfloat option"
  au_tax_cost :: "pyfloat option"
  au_slippage_cost :: "pyfloat option"
  au_commission_cost_text :: "pyfloat option"
  au_tax_cost_text :: "pyfloat option"
  au_slippage_cost_text :: "pyfloat option"
  au_total_cost_text :: "pyfloat option"

text \<open>The constructor call with only the required fields; the others default to \<open>None\<close>.\<close>

definition audit_record ::
  "date \<Rightarrow> ticker \<Rightarrow> order_side \<Rightarrow> audit_status \<Rightarrow> date \<Rightarrow> order_reason \<Rightarrow> OrderAuditRecord" where
  "audit_record d t side st sd r =
     \<lparr>au_date = d, au_ticker = t, au_side = side, au_status = st, au_signal_date = sd,
      au_reason = r, au_price = None, au_quantity = None, au_requested_quantity = None,
      au_filled_quantity = None, au_fill_rate = None, au_notional = None, au_cost = None,
      au_cost_policy_id = None, au_commission_cost = None, au_tax_cost = None,
      au_slippage_cost = None, au_commission_cost_text = None, au_tax_cost_text = None,
      au_slippage_cost_text = None, au_total_cost_text = None\<rparr>"

lemma audit_record_simps [simp]:
  "au_date (audit_record d t side st sd r) = d"
  "au_ticker (audit_record d t side st sd r) = t"
  "au_side (audit_record d t side st sd r) = side"
  "au_status (audit_record d t side st sd r) = st"
  "au_signal_date (audit_record d t side st sd r) = sd"
  "au_reason (audit_record d t side st sd r) = r"
  "au_quantity (audit_record d t side st sd r) = None"
  "au_requested_quantity (audit_record d t side st sd r) = None"
  "au_filled_quantity (audit_record d t side st sd r) = None"
  "au_notional (audit_record d t side st sd r) = None"
  "au_cost (audit_record d t side st sd r) = None"
  by (simp_all add: audit_record_def)

section \<open>Run configuration and prepared data\<close>

datatype talib_mode = Talib_Required | Talib_All | Talib_None
datatype metrics_mode = Mode_Selection | Mode_Full

text \<open>A parameter of a TA-Lib function: TA-Lib takes integers and floats.  Two parameters with
  the same \<open>str\<close> are the same constructor on the same number.\<close>

datatype talib_num = Int_Param int | Float_Param rat

fun param_int :: "talib_num \<Rightarrow> int" where
  "param_int (Int_Param n) = n"
| "param_int (Float_Param x) = trunc x"

fun param_float :: "talib_num \<Rightarrow> rat" where
  "param_float (Int_Param n) = of_int n"
| "param_float (Float_Param x) = x"

type_synonym talib_params = "(string, talib_num) dict"

record TalibComputation =
  tc_function_name :: string
  tc_parameters :: talib_params

record TalibIndicatorConfig =
  ti_enabled :: bool
  ti_mode :: talib_mode
  ti_functions :: "string list"
  ti_parameters :: "(string, talib_params) dict"

record BacktestRunConfig =
  cf_initial_capital :: pyfloat
  cf_max_tickers :: "int option"
  cf_write_outputs :: bool
  cf_talib :: TalibIndicatorConfig
  cf_metrics_mode :: metrics_mode
  cf_delisting_grace_days :: int
  cf_delisting_recovery_rate :: rat

definition default_talib_config :: TalibIndicatorConfig where
  "default_talib_config =
     \<lparr>ti_enabled = True, ti_mode = Talib_Required, ti_functions = [], ti_parameters = []\<rparr>"

definition default_run_config :: BacktestRunConfig where
  "default_run_config =
     \<lparr>cf_initial_capital = Fin 100000000, cf_max_tickers = None, cf_write_outputs = True,
      cf_talib = default_talib_config, cf_metrics_mode = Mode_Full,
      cf_delisting_grace_days = 20, cf_delisting_recovery_rate = 0\<rparr>"

type_synonym day_bars = "(ticker, OhlcvBar) dict"
type_synonym metric_table = "(date \<times> ticker, metrics) dict"

record PreparedMarketData =
  pm_ohlcv_rows :: "OhlcvBar list"
  pm_bars_by_ticker :: "(ticker, OhlcvBar list) dict"
  pm_bars_by_date :: "(date, day_bars) dict"
  pm_metrics_by_key :: metric_table
  pm_previous_metrics_by_key :: "(date \<times> ticker, metrics option) dict"
  pm_dates :: "date list"
  pm_row_index_by_key :: "(date \<times> ticker, nat) dict"

section \<open>Buy priority\<close>

text \<open>
  \<open>_buy_priority\<close>: the sort key \<open>(0, -score, ticker)\<close> of a scored order and \<open>(1, 0.0, ticker)\<close>
  of an unscored one.  Only finite scores reach the second component, so the key is a triple
  of linearly ordered values.
\<close>

definition buy_priority :: "PendingOrder \<Rightarrow> int \<times> rat \<times> ticker" where
  "buy_priority order =
     (case po_signal_score order of
        None \<Rightarrow> (1, 0, po_ticker order)
      | Some score \<Rightarrow> (case score of
            Fin s \<Rightarrow> (0, - s, po_ticker order)
          | _ \<Rightarrow> (1, 0, po_ticker order)))"

definition has_score :: "PendingOrder \<Rightarrow> rat \<Rightarrow> bool" where
  "has_score order s = (po_signal_score order = Some (Fin s))"

lemma buy_priority_scored_first:
  assumes "has_score a s" and "\<nexists>r. has_score b r"
  shows "buy_priority a < buy_priority b"
  using assms by (auto simp: buy_priority_def has_score_def split: option.splits pyfloat.splits)

lemma buy_priority_higher_score_first:
  "has_score a s \<Longrightarrow> has_score b r \<Longrightarrow> r < s \<Longrightarrow> buy_priority a < buy_priority b"
  by (simp add: buy_priority_def has_score_def)

lemma buy_priority_tie: "po_signal_score a = po_signal_score b \<Longrightarrow>
    buy_priority a < buy_priority b \<longleftrightarrow> po_ticker a < po_ticker b"
  by (auto simp: buy_priority_def split: option.splits pyfloat.splits)

lemma buy_priority_ticker: "buy_priority a = buy_priority b \<Longrightarrow> po_ticker a = po_ticker b"
  by (auto simp: buy_priority_def split: option.splits pyfloat.splits)

end
