(* ===== verification/Bt_Metrics.thy ===== *)
theory Bt_Metrics
  imports Bt_Records
begin

text \<open>
  The indicator side of \<^verbatim>\<open>backtest.py\<close>: which metrics a specification needs, the plan of TA-Lib
  computations, the metrics computed by TA-Lib and the derived ones (volume ratio, rolling
  highs, days since the last breakout).  TA-Lib itself is a parameter: \<open>talib\<close> is what
  \<open>_import_talib\<close> yields, \<open>None\<close> when the package is missing, and \<open>talib_info\<close> is what
  \<open>abstract.Function(name)\<close> exposes of one function.  A Python set is a list without
  repetition, in the order the loop over it visits the elements; the plan is a function of that
  order.  \<open>_default_parameters\<close> is memoised and its callers receive the memoised dictionary, so
  the memo is a state that is passed along.
\<close>

section \<open>Required metrics\<close>

definition condition_metric_names :: "Condition \<Rightarrow> string list" where
  "condition_metric_names rule =
     (c_left rule #
      (if c_operator rule \<in> {LT, LTE, GT, GTE, EQ, NE, CROSS_ABOVE, CROSS_BELOW}
       then (case c_right rule of RName n \<Rightarrow> if n = c_left rule then [] else [n] | _ \<Rightarrow> [])
       else []))"

definition required_metric_names :: "StrategySpec \<Rightarrow> string list" where
  "required_metric_names spec =
     remdups (concat (map condition_metric_names (sp_entry_rules spec @ sp_exit_rules spec)))"

section \<open>The TA-Lib plan\<close>

record talib_info =
  tf_inputs :: "string list"
  tf_parameters :: talib_params
  tf_outputs :: "string list"
  tf_call :: "(string, pyfloat list) dict \<Rightarrow> talib_params \<Rightarrow> pyfloat list list option"

record talib_api =
  ta_functions :: "string list"
  ta_function :: "string \<Rightarrow> talib_info option"

type_synonym param_memo = "(string, talib_params) dict"

definition OHLCV_FIELDS :: "string list" where
  "OHLCV_FIELDS = [''open'', ''high'', ''low'', ''close'', ''volume'']"

definition TALIB_BASE_INPUTS :: "string list" where
  "TALIB_BASE_INPUTS = [''open'', ''high'', ''low'', ''close'', ''volume'']"

definition DERIVED_METRICS :: "string list" where
  "DERIVED_METRICS = [''volume_ratio_20'', ''rolling_high_60'', ''rolling_high_252'', ''days_since_breakout'']"

definition import_talib :: "talib_api option \<Rightarrow> talib_api res" where
  "import_talib talib =
     (case talib of None \<Rightarrow> Inl (RuntimeError ''TA-Lib is required for indicator calculation'')
                  | Some api \<Rightarrow> Inr api)"

definition abstract_function :: "talib_api \<Rightarrow> string \<Rightarrow> talib_info res" where
  "abstract_function api name =
     (case ta_function api name of None \<Rightarrow> Inl (RuntimeError ''not supported by TA-Lib'') | Some f \<Rightarrow> Inr f)"

definition is_talib_calculable :: "talib_info \<Rightarrow> bool" where
  "is_talib_calculable f = list_all (\<lambda>i. i \<in> set TALIB_BASE_INPUTS) (tf_inputs f)"

text \<open>The calculable functions and the skipped ones with their missing inputs.\<close>

definition catalog_step ::
  "talib_api \<Rightarrow> string \<Rightarrow> string list \<times> (string, string list) dict
     \<Rightarrow> (string list \<times> (string, string list) dict) res" where
  "catalog_step api name cat =
     rbind (abstract_function api name) (\<lambda>f.
       let missing = sort (remdups (filter (\<lambda>i. i \<notin> set TALIB_BASE_INPUTS) (tf_inputs f)))
       in case cat of (calculable, skipped) \<Rightarrow>
            if missing \<noteq> [] then Inr (calculable, dset name missing skipped)
            else Inr (calculable @ [name], skipped))"

definition talib_function_catalog ::
  "talib_api option \<Rightarrow> (string list \<times> (string, string list) dict) res" where
  "talib_function_catalog talib =
     rbind (import_talib talib) (\<lambda>api. rfold (catalog_step api) (ta_functions api) ([], []))"

text \<open>\<open>_default_parameters\<close>: the first call for a name fills the memo, later calls return the
  memoised dictionary, whatever it holds by then.\<close>

definition default_parameters ::
  "talib_api option \<Rightarrow> string \<Rightarrow> param_memo \<Rightarrow> (talib_params \<times> param_memo) res" where
  "default_parameters talib name memo =
     (case dget memo name of
        Some parameters \<Rightarrow> Inr (parameters, memo)
      | None \<Rightarrow>
          rbind (import_talib talib) (\<lambda>api.
          rbind (abstract_function api name) (\<lambda>f.
            Inr (tf_parameters f, dset name (tf_parameters f) memo))))"

definition single_timeperiod_computation ::
  "talib_api option \<Rightarrow> string \<Rightarrow> nat \<Rightarrow> param_memo \<Rightarrow> (TalibComputation option \<times> param_memo) res" where
  "single_timeperiod_computation talib name timeperiod memo =
     rbind (default_parameters talib name memo) (\<lambda>(parameters, memo').
       if \<not> has_key parameters ''timeperiod'' then Inr (None, memo')
       else Inr (Some \<lparr>tc_function_name = py_upper name,
                       tc_parameters = dset ''timeperiod'' (Int_Param (int timeperiod)) parameters\<rparr>, memo'))"

definition timeperiod_names :: "string \<Rightarrow> talib_params \<Rightarrow> string list" where
  "timeperiod_names fn parameters =
     (case dget parameters ''timeperiod'' of
        None \<Rightarrow> []
      | Some p \<Rightarrow>
          let period = show_int (param_int p)
          in [fn @ ''_'' @ period]
             @ (if fn = ''sma'' then [''ma_'' @ period, ''sma_'' @ period] else [])
             @ (if fn = ''ema'' then [''ema_'' @ period] else []))"

definition metric_output_names :: "string \<Rightarrow> string \<Rightarrow> nat \<Rightarrow> talib_params \<Rightarrow> string list" where
  "metric_output_names function_name output_name output_count parameters =
     (let fn = py_lower function_name; out = py_lower output_name
      in remdups
           ([fn @ ''_'' @ out]
            @ (if output_count = 1 then fn # timeperiod_names fn parameters else [out])
            @ (if fn = ''macd'' then
                 (case dget [(''macd'', ''macd''), (''macdsignal'', ''macd_signal''), (''macdhist'', ''macd_hist'')] out of
                    None \<Rightarrow> [] | Some a \<Rightarrow> [a]) else [])
            @ (if fn = ''bbands'' then
                 (case dget [(''upperband'', ''bbands_upper''), (''middleband'', ''bbands_middle''),
                             (''lowerband'', ''bbands_lower'')] out of None \<Rightarrow> [] | Some a \<Rightarrow> [a])
                 @ (if out = ''lowerband''
                       \<and> (case dget parameters ''timeperiod'' of None \<Rightarrow> False | Some p \<Rightarrow> param_int p = 20)
                       \<and> (case dget parameters ''nbdevdn'' of
                            Some p \<Rightarrow> param_float p = 2
                          | None \<Rightarrow> (case dget parameters ''nbdev'' of None \<Rightarrow> False | Some p \<Rightarrow> param_float p = 2))
                    then [''bollinger_lower_20_2''] else [])
               else [])))"

text \<open>\<open>mapping.setdefault(name, computation)\<close> for each metric name of each output.\<close>

definition set_default :: "'k \<Rightarrow> 'v \<Rightarrow> ('k, 'v) dict \<Rightarrow> ('k, 'v) dict" where
  "set_default k v d = (if has_key d k then d else dset k v d)"

definition name_map_step ::
  "talib_api \<Rightarrow> string \<Rightarrow> (string, TalibComputation) dict \<Rightarrow> (string, TalibComputation) dict res" where
  "name_map_step api name mapping =
     rbind (abstract_function api name) (\<lambda>f.
       let computation = \<lparr>tc_function_name = name, tc_parameters = tf_parameters f\<rparr>;
           names = concat (map (\<lambda>out. metric_output_names name out (length (tf_outputs f)) (tf_parameters f))
                             (tf_outputs f))
       in Inr (fold (\<lambda>m. set_default m computation) names mapping))"

definition talib_metric_name_map :: "talib_api option \<Rightarrow> (string, TalibComputation) dict res" where
  "talib_metric_name_map talib =
     rbind (import_talib talib) (\<lambda>api.
     rbind (talib_function_catalog talib) (\<lambda>(calculable, skipped).
       rfold (name_map_step api) calculable []))"

definition parameterized_computation ::
  "talib_api option \<Rightarrow> string \<Rightarrow> param_memo \<Rightarrow> TalibComputation option \<times> param_memo" where
  "parameterized_computation talib name memo =
     (case rsplit_last (CHR ''_'') name of
        None \<Rightarrow> (None, memo)
      | Some (base, raw_period) \<Rightarrow>
          if \<not> py_isdigit raw_period then (None, memo)
          else (case single_timeperiod_computation talib
                       (if base = ''ma'' then ''SMA'' else py_upper base) (digits_value raw_period) memo of
                  Inr r \<Rightarrow> r
                | Inl _ \<Rightarrow> (None, memo)))"

definition resolve_talib_computation_for_metric ::
  "talib_api option \<Rightarrow> string \<Rightarrow> param_memo \<Rightarrow> (TalibComputation option \<times> param_memo) res" where
  "resolve_talib_computation_for_metric talib metric memo =
     (let name = py_lower (alias_of metric)
      in if name \<in> set OHLCV_FIELDS then Inr (None, memo)
         else if name = ''bollinger_lower_20_2''
         then Inr (Some \<lparr>tc_function_name = ''BBANDS'',
                         tc_parameters = [(''timeperiod'', Int_Param 20), (''nbdevup'', Float_Param 2),
                                          (''nbdevdn'', Float_Param 2), (''matype'', Int_Param 0)]\<rparr>, memo)
         else if name \<in> set DERIVED_METRICS then Inr (None, memo)
         else rbind (talib_metric_name_map talib) (\<lambda>mapping.
                case dget mapping name of
                  Some computation \<Rightarrow> Inr (Some computation, memo)
                | None \<Rightarrow> Inr (parameterized_computation talib name memo)))"

definition config_overrides :: "TalibIndicatorConfig \<Rightarrow> string \<Rightarrow> talib_params" where
  "config_overrides config function_name =
     dupdate (case dget (ti_parameters config) (py_upper function_name) of None \<Rightarrow> [] | Some p \<Rightarrow> p)
             (case dget (ti_parameters config) (py_lower function_name) of None \<Rightarrow> [] | Some p \<Rightarrow> p)"

text \<open>\<open>_parameters_for_function\<close> updates the dictionary it got from \<open>_default_parameters\<close> in
  place, so the memo holds the updated parameters afterwards.\<close>

definition parameters_for_function ::
  "talib_api option \<Rightarrow> string \<Rightarrow> TalibIndicatorConfig \<Rightarrow> param_memo \<Rightarrow> (talib_params \<times> param_memo) res" where
  "parameters_for_function talib function_name config memo =
     rbind (default_parameters talib (py_upper function_name) memo) (\<lambda>(parameters, memo').
       let updated = dupdate parameters (config_overrides config function_name)
       in Inr (updated, dset (py_upper function_name) updated memo'))"

definition computation_key :: "TalibComputation \<Rightarrow> string \<times> talib_params" where
  "computation_key c = (py_upper (tc_function_name c), sort_key fst (tc_parameters c))"

fun dedupe_from :: "(string \<times> talib_params) list \<Rightarrow> TalibComputation list \<Rightarrow> TalibComputation list" where
  "dedupe_from seen [] = []"
| "dedupe_from seen (c # cs) =
     (if computation_key c \<in> set seen then dedupe_from seen cs
      else c # dedupe_from (computation_key c # seen) cs)"

definition dedupe_computations :: "TalibComputation list \<Rightarrow> TalibComputation list" where
  "dedupe_computations cs = dedupe_from [] cs"

type_synonym plan_state = "TalibComputation list \<times> param_memo"

definition plan_required_step ::
  "talib_api option \<Rightarrow> TalibIndicatorConfig \<Rightarrow> string \<Rightarrow> plan_state \<Rightarrow> plan_state res" where
  "plan_required_step talib config metric st =
     (case st of (cs, memo) \<Rightarrow>
        rbind (resolve_talib_computation_for_metric talib metric memo) (\<lambda>(computation, memo').
          case computation of
            None \<Rightarrow> Inr (cs, memo')
          | Some c \<Rightarrow>
              let overrides = config_overrides config (tc_function_name c)
              in Inr (cs @ [if overrides = [] then c
                            else c\<lparr>tc_parameters := dupdate (tc_parameters c) overrides\<rparr>], memo')))"

definition plan_function_step ::
  "talib_api option \<Rightarrow> TalibIndicatorConfig \<Rightarrow> (string \<Rightarrow> string) \<Rightarrow> string \<Rightarrow> plan_state \<Rightarrow> plan_state res" where
  "plan_function_step talib config spelling name st =
     (case st of (cs, memo) \<Rightarrow>
        rbind (parameters_for_function talib name config memo) (\<lambda>(parameters, memo').
          Inr (cs @ [\<lparr>tc_function_name = spelling name, tc_parameters = parameters\<rparr>], memo')))"

definition talib_computations ::
  "talib_api option \<Rightarrow> string list \<Rightarrow> TalibIndicatorConfig \<Rightarrow> param_memo \<Rightarrow> plan_state res" where
  "talib_computations talib required config memo =
     (if \<not> ti_enabled config \<or> ti_mode config = Talib_None then Inr ([], memo)
      else
        rbind (import_talib talib) (\<lambda>_.
        rbind (if ti_mode config = Talib_All
               then rbind (talib_function_catalog talib) (\<lambda>(calculable, skipped).
                      rfold (plan_function_step talib config (\<lambda>n. n)) calculable ([], memo))
               else rfold (plan_required_step talib config) required ([], memo)) (\<lambda>st.
        rbind (rfold (plan_function_step talib config py_upper) (ti_functions config) st) (\<lambda>(cs, memo').
          Inr (dedupe_computations cs, memo')))))"

section \<open>Metrics computed by TA-Lib\<close>

type_synonym metric_rows = "(date \<times> ticker, metrics) dict"

definition put_metric :: "date \<times> ticker \<Rightarrow> string \<Rightarrow> pyfloat \<Rightarrow> metric_rows \<Rightarrow> metric_rows" where
  "put_metric key name v rows =
     (case dget rows key of None \<Rightarrow> rows | Some m \<Rightarrow> dset key (dset name v m) rows)"

definition put_column :: "ticker \<Rightarrow> OhlcvBar list \<Rightarrow> pyfloat list \<Rightarrow> string \<Rightarrow> metric_rows \<Rightarrow> metric_rows" where
  "put_column t bars vals name rows =
     fold (\<lambda>(bar, v). put_metric (bar_date bar, t) name v) (zip bars vals) rows"

definition empty_rows :: "ticker \<Rightarrow> OhlcvBar list \<Rightarrow> metric_rows" where
  "empty_rows t bars = fold (\<lambda>bar. dset (bar_date bar, t) []) bars []"

definition talib_inputs :: "OhlcvBar list \<Rightarrow> (string, pyfloat list) dict" where
  "talib_inputs bars =
     [(''open'', map bar_open bars), (''high'', map bar_high bars), (''low'', map bar_low bars),
      (''close'', map bar_close bars), (''volume'', map bar_volume bars)]"

record talib_report =
  rp_computed :: "string list"
  rp_failed :: "string list"
  rp_names :: "string list"

definition talib_compute_step ::
  "talib_api \<Rightarrow> ticker \<Rightarrow> OhlcvBar list \<Rightarrow> TalibComputation \<Rightarrow> metric_rows \<times> talib_report
     \<Rightarrow> metric_rows \<times> talib_report" where
  "talib_compute_step api t bars computation st =
     (case st of (rows, report) \<Rightarrow>
        let name = tc_function_name computation
        in (case ta_function api name of
             None \<Rightarrow> (rows, report\<lparr>rp_failed := rp_failed report @ [name]\<rparr>)
           | Some f \<Rightarrow>
               if \<not> is_talib_calculable f then st
               else (case tf_call f (talib_inputs bars) (tc_parameters computation) of
                 None \<Rightarrow> (rows, report\<lparr>rp_failed := rp_failed report @ [name]\<rparr>)
               | Some arrays \<Rightarrow>
                   let outputs = zip (tf_outputs f) arrays;
                       names = (\<lambda>out. metric_output_names name out (length (tf_outputs f)) (tc_parameters computation));
                       rows' = fold (\<lambda>(out, vals). fold (put_column t bars vals) (names out)) outputs rows
                   in (rows', report\<lparr>rp_computed := rp_computed report @ [name],
                                     rp_names := rp_names report @ concat (map (names \<circ> fst) outputs)\<rparr>))))"

definition compute_talib_metrics_for_bars ::
  "talib_api option \<Rightarrow> OhlcvBar list \<Rightarrow> TalibComputation list \<Rightarrow> (metric_rows \<times> talib_report) res" where
  "compute_talib_metrics_for_bars talib bars computations =
     (let empty_report = \<lparr>rp_computed = [], rp_failed = [], rp_names = []\<rparr>
      in if computations = [] \<or> bars = [] then Inr ([], empty_report)
         else rbind (import_talib talib) (\<lambda>api.
           let sorted_bars = sort_key bar_date bars; t = bar_ticker (hd sorted_bars)
           in case fold (talib_compute_step api t sorted_bars) computations (empty_rows t sorted_bars, empty_report) of
                (rows, report) \<Rightarrow>
                  Inr (rows, report\<lparr>rp_computed := sort (remdups (rp_computed report)),
                                    rp_failed := remdups (rp_failed report),
                                    rp_names := sort (remdups (rp_names report))\<rparr>)))"

section \<open>Derived metrics\<close>

definition last_n :: "nat \<Rightarrow> 'a list \<Rightarrow> 'a list" where
  "last_n n xs = drop (length xs - n) xs"

definition volume_ratio :: "pyfloat \<Rightarrow> pyfloat list \<Rightarrow> pyfloat" where
  "volume_ratio volume window =
     (case (if window = [] then Inr NaN else py_div (py_sum window) (of_int_float (int (length window)))) of
        Inl _ \<Rightarrow> NaN
      | Inr avg \<Rightarrow>
          if truthy avg \<and> isfinite avg
          then (case py_div volume avg of Inr q \<Rightarrow> q | Inl _ \<Rightarrow> NaN)
          else NaN)"

fun volume_ratios :: "pyfloat list \<Rightarrow> OhlcvBar list \<Rightarrow> pyfloat list" where
  "volume_ratios volumes [] = []"
| "volume_ratios volumes (bar # bars) =
     (let volumes' = volumes @ [bar_volume bar]
      in volume_ratio (bar_volume bar) (last_n 20 volumes') # volume_ratios volumes' bars)"

text \<open>The built-in \<open>max\<close> of a non-empty list.\<close>

fun list_max :: "pyfloat list \<Rightarrow> pyfloat" where
  "list_max [] = NaN"
| "list_max (x # xs) = fold (\<lambda>y m. py_max m y) xs x"

fun rolling_highs :: "nat \<Rightarrow> pyfloat list \<Rightarrow> OhlcvBar list \<Rightarrow> pyfloat list" where
  "rolling_highs period closes [] = []"
| "rolling_highs period closes (bar # bars) =
     (let closes' = closes @ [bar_close bar]
      in list_max (last_n period closes') # rolling_highs period closes' bars)"

fun days_since_breakout :: "nat \<Rightarrow> nat option \<Rightarrow> (OhlcvBar \<times> pyfloat) list \<Rightarrow> pyfloat list" where
  "days_since_breakout index seen [] = []"
| "days_since_breakout index seen ((bar, high) # rest) =
     (let seen' = (if high \<le> bar_close bar then Some index else seen)
      in (case seen' of None \<Rightarrow> NaN | Some i \<Rightarrow> of_int_float (int index - int i))
         # days_since_breakout (Suc index) seen' rest)"

definition compute_derived_metrics_for_bars ::
  "OhlcvBar list \<Rightarrow> string list \<Rightarrow> bool \<Rightarrow> metric_rows \<times> string list" where
  "compute_derived_metrics_for_bars bars required rows_are_sorted =
     (let requested = map (py_lower \<circ> alias_of) required;
          sorted_bars = (if rows_are_sorted then bars else sort_key bar_date bars)
      in if list_all (\<lambda>m. m \<notin> set requested) DERIVED_METRICS \<or> sorted_bars = [] then ([], [])
         else
           let t = bar_ticker (hd sorted_bars);
               column = (\<lambda>name vals rows.
                 if name \<in> set requested then put_column t sorted_bars vals name rows else rows);
               highs = rolling_highs 252 [] sorted_bars
           in (column ''days_since_breakout'' (days_since_breakout 0 None (zip sorted_bars highs))
                (column ''rolling_high_252'' highs
                  (column ''rolling_high_60'' (rolling_highs 60 [] sorted_bars)
                    (column ''volume_ratio_20'' (volume_ratios [] sorted_bars)
                      (empty_rows t sorted_bars)))),
               sort (filter (\<lambda>m. m \<in> set requested) DERIVED_METRICS)))"

end
