(* ===== verification/Bt_Execution.thy ===== *)
theory Bt_Execution
  imports Bt_Records
begin

text \<open>
  The part of \<open>BacktestEngine\<close> that moves cash and positions: execution capacity, cost
  rounding, corporate actions, the execution of pending orders at the next open (sells, then
  buys in priority order) and the write-off of names that stopped trading.  The position book
  is a dictionary from ticker to position; where the source mutates a \<open>Position\<close> in place, the
  model stores the changed record under the same key.
\<close>

type_synonym book = "(ticker, Position) dict"

record exec_state =
  xs_positions :: book
  xs_cash :: pyfloat
  xs_trades :: "TradeRecord list"
  xs_audit :: "OrderAuditRecord list"

section \<open>Capacity and cost rounding\<close>

text \<open>A capacity is \<open>math.inf\<close> when the limit is switched off, a share count otherwise.\<close>

datatype capacity = Unbounded | Shares int

fun cap_min :: "int \<Rightarrow> capacity \<Rightarrow> int" where
  "cap_min q Unbounded = q"
| "cap_min q (Shares c) = min q c"

fun cap_nonpos :: "capacity \<Rightarrow> bool" where
  "cap_nonpos Unbounded = False"
| "cap_nonpos (Shares c) = (c \<le> 0)"

definition capacity_quantity ::
  "StrategySpec \<Rightarrow> PendingOrder \<Rightarrow> pyfloat \<Rightarrow> (capacity \<times> string option) res" where
  "capacity_quantity spec order price =
     (if \<not> ec_enabled (spec_capacity spec) then Inr (Unbounded, None)
      else case po_prior_raw_notional order of
             None \<Rightarrow> Inr (Shares 0, Some ''raw_notional_unavailable'')
           | Some raw \<Rightarrow>
               if \<not> isfinite raw then Inr (Shares 0, Some ''raw_notional_unavailable'')
               else if raw \<le> Fin 0 then Inr (Shares 0, Some ''zero_raw_notional'')
               else rbind (py_floordiv (raw * Fin (ec_max_participation_rate (spec_capacity spec))) price)
                      (\<lambda>shares. rbind (py_int shares) (\<lambda>n. Inr (Shares (max 0 n), None))))"

text \<open>
  \<open>Decimal(str(value))\<close>, quantized to the configured number of decimals.  Quantizing an
  infinity raises \<open>InvalidOperation\<close>, a NaN stays a NaN.
\<close>

definition cost_decimal :: "StrategySpec \<Rightarrow> pyfloat \<Rightarrow> pyfloat res" where
  "cost_decimal spec x =
     (let d = cm_rounding_decimals (spec_cost spec)
      in case cm_rounding_mode (spec_cost spec) of
           Round_None \<Rightarrow> Inr x
         | Round_Floor \<Rightarrow> (case x of
               Fin v \<Rightarrow> Inr (Fin (of_int \<lfloor>v * 10 ^ d\<rfloor> / 10 ^ d))
             | NaN \<Rightarrow> Inr NaN
             | _ \<Rightarrow> Inl (RuntimeError ''InvalidOperation''))
         | Round_Half_Up \<Rightarrow> (case x of
               Fin v \<Rightarrow> Inr (Fin (of_int (half_up (v * 10 ^ d)) / 10 ^ d))
             | NaN \<Rightarrow> Inr NaN
             | _ \<Rightarrow> Inl (RuntimeError ''InvalidOperation'')))"

section \<open>Corporate actions\<close>

text \<open>One iteration of the loop over \<open>spec.backtest.corporate_actions\<close>.\<close>

definition corporate_step ::
  "date \<Rightarrow> CorporateActionEvent \<Rightarrow> book \<times> pyfloat \<times> OrderAuditRecord list
     \<Rightarrow> (book \<times> pyfloat \<times> OrderAuditRecord list) res" where
  "corporate_step current_date event st =
     (case st of (positions, cash, audit) \<Rightarrow>
        if ca_effective_date event \<noteq> current_date then Inr st
        else case dget positions (ca_ticker event) of
          None \<Rightarrow> Inr st
        | Some position \<Rightarrow>
            let reason = Reason (if source_verified event then ''verified'' else ''fixture_unverified'');
                entry = (\<lambda>status. audit_record current_date (ca_ticker event) Side_Corporate_Action
                                    status current_date reason)
            in (case ca_event_type event of
                  Ca_Split \<Rightarrow>
                    (case ca_split_ratio event of
                       None \<Rightarrow> Inl (TypeError ''split_ratio'')
                     | Some ratio \<Rightarrow>
                         let old_quantity = pos_quantity position;
                             new_quantity = trunc (of_int old_quantity * ratio)
                         in if new_quantity \<le> 0
                            then Inl (ValueError ''split ratio produced no whole shares'')
                            else let price = pos_entry_price position
                                       * Fin (of_int old_quantity / of_int new_quantity);
                                     position' = position\<lparr>pos_quantity := new_quantity,
                                       pos_entry_price := price,
                                       pos_entry_notional := of_int_float new_quantity * price\<rparr>
                                 in Inr (dset (ca_ticker event) position' positions, cash,
                                         audit @ [(entry Applied_Split)\<lparr>au_quantity := Some new_quantity\<rparr>]))
                | Ca_Cash_Dividend \<Rightarrow>
                    (case ca_cash_dividend_per_share event of
                       None \<Rightarrow> Inl (TypeError ''cash_dividend_per_share'')
                     | Some per_share \<Rightarrow>
                         let amount = of_int_float (pos_quantity position) * Fin per_share
                         in Inr (positions, cash + amount,
                                 audit @ [(entry Applied_Cash_Dividend)\<lparr>au_notional := Some amount\<rparr>]))
                | Ca_Delist \<Rightarrow>
                    (case ca_recovery_price event of
                       None \<Rightarrow> Inl (TypeError ''recovery_price'')
                     | Some recovery \<Rightarrow>
                         let amount = of_int_float (pos_quantity position) * Fin recovery
                         in Inr (dpop (ca_ticker event) positions, cash + amount,
                                 audit @ [(entry Applied_Delist_Recovery)\<lparr>au_notional := Some amount\<rparr>]))))"

definition apply_corporate_actions ::
  "StrategySpec \<Rightarrow> date \<Rightarrow> book \<Rightarrow> pyfloat \<Rightarrow> (book \<times> pyfloat \<times> OrderAuditRecord list) res" where
  "apply_corporate_actions spec current_date positions cash =
     rfold (corporate_step current_date) (spec_actions spec) (positions, cash, [])"

section \<open>Sorting pending orders into executable and expired\<close>

fun classify_pending ::
  "date \<Rightarrow> day_bars \<Rightarrow> PendingOrder list \<Rightarrow> PendingOrder list \<times> OrderAuditRecord list" where
  "classify_pending current_date today [] = ([], [])"
| "classify_pending current_date today (order # orders) =
     (case classify_pending current_date today orders of (executable, audit) \<Rightarrow>
        if current_date \<le> po_signal_date order then (executable, audit)
        else case dget today (po_ticker order) of
          None \<Rightarrow>
            (executable,
             audit_record current_date (po_ticker order) (po_side order) Expired_Next_Session
               (po_signal_date order) (Reason ''next_session_missing_bar'') # audit)
        | Some bar \<Rightarrow>
            if \<not> isfinite (bar_open bar) \<or> bar_open bar \<le> Fin 0
            then (executable,
                  audit_record current_date (po_ticker order) (po_side order) Unfilled_Invalid_Open
                    (po_signal_date order) (Reason ''invalid_open'') # audit)
            else (order # executable, audit))"

section \<open>Trade records\<close>

text \<open>\<open>round((proceeds - invested) / invested, 10) if invested else 0.0\<close>; the guard keeps the
  division from raising.\<close>

definition return_pct :: "pyfloat \<Rightarrow> pyfloat \<Rightarrow> pyfloat" where
  "return_pct proceeds invested =
     (if truthy invested
      then (case py_div (proceeds - invested) invested of Inr q \<Rightarrow> py_round 10 q | Inl _ \<Rightarrow> Fin 0)
      else Fin 0)"

definition trade_record ::
  "ticker \<Rightarrow> Position \<Rightarrow> date \<Rightarrow> pyfloat \<Rightarrow> int \<Rightarrow> pyfloat \<Rightarrow> pyfloat \<Rightarrow> pyfloat \<Rightarrow> pyfloat
     \<Rightarrow> order_reason \<Rightarrow> TradeRecord" where
  "trade_record t position exit_date exit_price quantity gross entry_notional entry_cost exit_cost reason =
     (let proceeds = gross - exit_cost; invested = entry_notional + entry_cost
      in \<lparr>tr_ticker = t, tr_entry_date = pos_entry_date position, tr_exit_date = exit_date,
          tr_entry_price = py_round 6 (pos_entry_price position), tr_exit_price = py_round 6 exit_price,
          tr_quantity = quantity, tr_entry_cost = py_round 6 entry_cost,
          tr_exit_cost = py_round 6 exit_cost, tr_gross_pnl = py_round 6 (gross - entry_notional),
          tr_net_pnl = py_round 6 (proceeds - invested), tr_return_pct = return_pct proceeds invested,
          tr_reason = reason\<rparr>)"

definition unfilled_capacity_audit ::
  "date \<Rightarrow> PendingOrder \<Rightarrow> string \<Rightarrow> int \<Rightarrow> OrderAuditRecord" where
  "unfilled_capacity_audit current_date order reason requested =
     (audit_record current_date (po_ticker order) (po_side order) Unfilled_Capacity
        (po_signal_date order) (Reason reason))
       \<lparr>au_requested_quantity := Some requested, au_filled_quantity := Some 0,
        au_fill_rate := Some (Fin 0)\<rparr>"

section \<open>Sells\<close>

definition sell_audit ::
  "StrategySpec \<Rightarrow> date \<Rightarrow> PendingOrder \<Rightarrow> pyfloat \<Rightarrow> int \<Rightarrow> int \<Rightarrow> pyfloat \<Rightarrow> pyfloat \<Rightarrow> pyfloat
     \<Rightarrow> pyfloat \<Rightarrow> pyfloat \<Rightarrow> OrderAuditRecord" where
  "sell_audit spec current_date order sell_price quantity requested gross commission_cost tax_cost
       slippage_cost fill_rate =
     (audit_record current_date (po_ticker order) (po_side order) Executed
        (po_signal_date order) (po_reason order))
       \<lparr>au_price := Some (py_round 6 sell_price), au_quantity := Some quantity,
        au_requested_quantity := Some requested, au_filled_quantity := Some quantity,
        au_fill_rate := Some (py_round 10 fill_rate),
        au_notional := Some (py_round 6 gross), au_cost := Some (py_round 6 (commission_cost + tax_cost)),
        au_cost_policy_id := cm_policy_id (spec_cost spec),
        au_commission_cost := Some commission_cost, au_tax_cost := Some tax_cost,
        au_slippage_cost := Some slippage_cost, au_commission_cost_text := Some commission_cost,
        au_tax_cost_text := Some tax_cost, au_slippage_cost_text := Some slippage_cost,
        au_total_cost_text := Some (commission_cost + tax_cost)\<rparr>"

text \<open>The filled branch of a sell order: book keeping for \<open>quantity\<close> shares at \<open>sell_price\<close>.\<close>

definition fill_sell ::
  "StrategySpec \<Rightarrow> date \<Rightarrow> OhlcvBar \<Rightarrow> PendingOrder \<Rightarrow> Position \<Rightarrow> pyfloat \<Rightarrow> int
     \<Rightarrow> exec_state \<Rightarrow> exec_state res" where
  "fill_sell spec current_date bar order position sell_price quantity st =
     (let cost = spec_cost spec; gross = of_int_float quantity * sell_price;
          requested = pos_quantity position
      in rbind (cost_decimal spec (gross * Fin (cm_commission_pct cost))) (\<lambda>commission_cost.
         rbind (cost_decimal spec (gross * Fin (cm_tax_pct cost))) (\<lambda>tax_cost.
         rbind (cost_decimal spec (of_int_float quantity * (bar_open bar - sell_price))) (\<lambda>slippage_cost.
         let exit_cost = commission_cost + tax_cost; proceeds = gross - exit_cost
         in rbind (py_div (pos_entry_notional position * of_int_float quantity) (of_int_float requested))
              (\<lambda>entry_notional.
            rbind (py_div (pos_entry_cost position * of_int_float quantity) (of_int_float requested))
              (\<lambda>entry_cost.
            rbind (py_div (of_int_float quantity) (of_int_float requested)) (\<lambda>fill_rate.
              Inr (st
                \<lparr>xs_cash := xs_cash st + proceeds,
                 xs_trades := xs_trades st @ [trade_record (po_ticker order) position current_date
                    sell_price quantity gross entry_notional entry_cost exit_cost (po_reason order)],
                 xs_positions :=
                   (if quantity = requested then dpop (po_ticker order) (xs_positions st)
                    else dset (po_ticker order)
                      (position\<lparr>pos_quantity := requested - quantity,
                         pos_entry_notional := pos_entry_notional position - entry_notional,
                         pos_entry_cost := pos_entry_cost position - entry_cost\<rparr>) (xs_positions st)),
                 xs_audit := xs_audit st @
                   [sell_audit spec current_date order sell_price quantity requested gross
                      commission_cost tax_cost slippage_cost fill_rate]\<rparr>))))))))"

definition sell_step ::
  "StrategySpec \<Rightarrow> date \<Rightarrow> day_bars \<Rightarrow> PendingOrder \<Rightarrow> exec_state \<Rightarrow> exec_state res" where
  "sell_step spec current_date today order st =
     (case dget (xs_positions st) (po_ticker order) of
        None \<Rightarrow>
          Inr (st\<lparr>xs_audit := xs_audit st @
            [audit_record current_date (po_ticker order) (po_side order) Ignored_Missing_Position
               (po_signal_date order) (po_reason order)]\<rparr>)
      | Some position \<Rightarrow>
          (case dget today (po_ticker order) of
             None \<Rightarrow> Inl (KeyError (po_ticker order))
           | Some bar \<Rightarrow>
               let sell_price = bar_open bar * Fin (1 - cm_slippage_pct (spec_cost spec))
               in rbind (capacity_quantity spec order sell_price) (\<lambda>(capacity, capacity_reason).
                    case capacity_reason of
                      Some reason \<Rightarrow>
                        Inr (st\<lparr>xs_audit := xs_audit st @
                          [unfilled_capacity_audit current_date order reason (pos_quantity position)]\<rparr>)
                    | None \<Rightarrow>
                        let quantity = cap_min (pos_quantity position) capacity
                        in if quantity \<le> 0
                           then Inr (st\<lparr>xs_audit := xs_audit st @
                             [unfilled_capacity_audit current_date order ''zero_capacity''
                                (pos_quantity position)]\<rparr>)
                           else fill_sell spec current_date bar order position sell_price quantity st)))"

section \<open>Buys\<close>

text \<open>The value of the book at today's opens, falling back to the last price.\<close>

definition open_value :: "day_bars \<Rightarrow> book \<Rightarrow> pyfloat" where
  "open_value today positions =
     py_sum (map (\<lambda>(t, position). of_int_float (pos_quantity position) *
                    (case dget today t of Some bar \<Rightarrow> bar_open bar | None \<Rightarrow> pos_last_price position))
               positions)"

definition strategy_budget :: "StrategySpec \<Rightarrow> pyfloat \<Rightarrow> int \<Rightarrow> pyfloat res" where
  "strategy_budget spec current_equity slots =
     (let sizing = sp_position_sizing spec
      in case ps_method sizing of
           EQUAL_WEIGHT \<Rightarrow> py_div current_equity (of_int_float slots)
         | FIXED_PERCENT \<Rightarrow>
             (case ps_fixed_percent sizing of
                None \<Rightarrow> Inl (TypeError ''fixed_percent'')
              | Some p \<Rightarrow> Inr (current_equity * Fin p))
         | FIXED_RISK \<Rightarrow>
             (case (ps_risk_per_position sizing, rc_stop_loss_pct (sp_risk_controls spec)) of
                (Some r, Some sl) \<Rightarrow> py_div (current_equity * Fin r) (Fin sl)
              | _ \<Rightarrow> Inl (TypeError ''fixed_risk'')))"

definition buy_budget :: "StrategySpec \<Rightarrow> pyfloat \<Rightarrow> pyfloat \<Rightarrow> int \<Rightarrow> pyfloat res" where
  "buy_budget spec current_equity positions_value slots =
     rbind (strategy_budget spec current_equity slots) (\<lambda>budget.
       Inr (py_min (py_min budget (current_equity * Fin (rc_max_single_position_pct (sp_risk_controls spec))))
              (py_max (Fin 0)
                 (current_equity * Fin (rc_max_gross_exposure_pct (sp_risk_controls spec)) - positions_value))))"

text \<open>\<open>max_positions or max(1, len(positions) + len(buy_orders))\<close>.\<close>

definition slot_count :: "StrategySpec \<Rightarrow> nat \<Rightarrow> nat \<Rightarrow> int" where
  "slot_count spec n_positions n_orders =
     (case ps_max_positions (sp_position_sizing spec) of
        Some m \<Rightarrow> if m = 0 then max 1 (int n_positions + int n_orders) else m
      | None \<Rightarrow> max 1 (int n_positions + int n_orders))"

definition whole_shares :: "pyfloat \<Rightarrow> pyfloat \<Rightarrow> int res" where
  "whole_shares amount unit_cash =
     rbind (py_floordiv amount unit_cash) (\<lambda>q. rbind (py_int q) (\<lambda>n. Inr (max 0 n)))"

definition buy_audit ::
  "StrategySpec \<Rightarrow> date \<Rightarrow> PendingOrder \<Rightarrow> pyfloat \<Rightarrow> int \<Rightarrow> int \<Rightarrow> pyfloat \<Rightarrow> pyfloat \<Rightarrow> pyfloat
     \<Rightarrow> pyfloat \<Rightarrow> OrderAuditRecord" where
  "buy_audit spec current_date order buy_price quantity requested notional commission_cost
       slippage_cost fill_rate =
     (audit_record current_date (po_ticker order) (po_side order) Executed
        (po_signal_date order) (po_reason order))
       \<lparr>au_price := Some (py_round 6 buy_price), au_quantity := Some quantity,
        au_requested_quantity := Some requested, au_filled_quantity := Some quantity,
        au_fill_rate := Some fill_rate,
        au_notional := Some (py_round 6 notional), au_cost := Some (py_round 6 commission_cost),
        au_cost_policy_id := cm_policy_id (spec_cost spec),
        au_commission_cost := Some commission_cost, au_tax_cost := Some (Fin 0),
        au_slippage_cost := Some slippage_cost, au_commission_cost_text := Some commission_cost,
        au_tax_cost_text := Some (Fin 0), au_slippage_cost_text := Some slippage_cost,
        au_total_cost_text := Some commission_cost\<rparr>"

definition opened_position ::
  "date \<Rightarrow> OhlcvBar \<Rightarrow> PendingOrder \<Rightarrow> pyfloat \<Rightarrow> int \<Rightarrow> pyfloat \<Rightarrow> pyfloat \<Rightarrow> Position" where
  "opened_position current_date bar order buy_price quantity notional entry_cost =
     \<lparr>pos_ticker = po_ticker order, pos_quantity = quantity, pos_entry_date = current_date,
      pos_entry_price = buy_price, pos_entry_notional = notional, pos_entry_cost = entry_cost,
      pos_last_price = bar_close bar, pos_entry_reason = po_reason order\<rparr>"

definition fill_buy ::
  "StrategySpec \<Rightarrow> date \<Rightarrow> OhlcvBar \<Rightarrow> PendingOrder \<Rightarrow> pyfloat \<Rightarrow> int \<Rightarrow> int
     \<Rightarrow> exec_state \<Rightarrow> exec_state res" where
  "fill_buy spec current_date bar order buy_price requested quantity st =
     (let cost = spec_cost spec; notional = of_int_float quantity * buy_price
      in rbind (cost_decimal spec (notional * Fin (cm_commission_pct cost))) (\<lambda>commission_cost.
         rbind (cost_decimal spec (of_int_float quantity * (buy_price - bar_open bar))) (\<lambda>slippage_cost.
         rbind (if requested \<noteq> 0 then rbind (py_div (of_int_float quantity) (of_int_float requested))
                                         (\<lambda>q. Inr (py_round 10 q))
                else Inr (Fin 0)) (\<lambda>fill_rate.
           Inr (st
             \<lparr>xs_cash := xs_cash st - (notional + commission_cost),
              xs_positions := dset (po_ticker order)
                (opened_position current_date bar order buy_price quantity notional commission_cost) (xs_positions st),
              xs_audit := xs_audit st @
                [buy_audit spec current_date order buy_price quantity requested notional
                   commission_cost slippage_cost fill_rate]\<rparr>)))))"

definition unfilled_buy_reason :: "int \<Rightarrow> capacity \<Rightarrow> string" where
  "unfilled_buy_reason cash_quantity capacity =
     (if cash_quantity \<le> 0 then ''insufficient_cash''
      else if cap_nonpos capacity then ''zero_capacity''
      else ''strategy_budget_below_one_share'')"

text \<open>The end of a buy iteration, once the requested, the affordable and the available share
  counts are known.\<close>

definition finish_buy ::
  "StrategySpec \<Rightarrow> date \<Rightarrow> OhlcvBar \<Rightarrow> PendingOrder \<Rightarrow> pyfloat \<Rightarrow> int \<Rightarrow> int \<Rightarrow> exec_state
     \<Rightarrow> capacity \<times> string option \<Rightarrow> exec_state res" where
  "finish_buy spec current_date bar order buy_price requested cash_quantity st limit =
     (case limit of (capacity, capacity_reason) \<Rightarrow>
        case capacity_reason of
          Some reason \<Rightarrow>
            Inr (st\<lparr>xs_audit := xs_audit st @
              [unfilled_capacity_audit current_date order reason requested]\<rparr>)
        | None \<Rightarrow>
            let quantity = cap_min (min requested cash_quantity) capacity
            in if quantity \<le> 0
               then Inr (st\<lparr>xs_audit := xs_audit st @
                 [(audit_record current_date (po_ticker order) (po_side order) Unfilled
                     (po_signal_date order) (Reason (unfilled_buy_reason cash_quantity capacity)))
                    \<lparr>au_price := Some (py_round 6 buy_price),
                     au_requested_quantity := Some requested, au_filled_quantity := Some 0,
                     au_fill_rate := Some (Fin 0)\<rparr>]\<rparr>)
               else fill_buy spec current_date bar order buy_price requested quantity st)"

text \<open>
  One iteration of the buy loop; \<open>n_orders\<close> is the length of the sorted list of buy orders.
\<close>

definition buy_step ::
  "StrategySpec \<Rightarrow> date \<Rightarrow> day_bars \<Rightarrow> nat \<Rightarrow> PendingOrder \<Rightarrow> exec_state \<Rightarrow> exec_state res" where
  "buy_step spec current_date today n_orders order st =
     (if (case ps_max_positions (sp_position_sizing spec) of
            None \<Rightarrow> False | Some m \<Rightarrow> m \<le> int (length (xs_positions st)))
      then Inr (st\<lparr>xs_audit := xs_audit st @
             [audit_record current_date (po_ticker order) (po_side order) Skipped_Max_Positions
                (po_signal_date order) (po_reason order)]\<rparr>)
      else case dget today (po_ticker order) of
        None \<Rightarrow> Inl (KeyError (po_ticker order))
      | Some bar \<Rightarrow>
          let buy_price = bar_open bar * Fin (1 + cm_slippage_pct (spec_cost spec));
              unit_cash = buy_price * Fin (1 + cm_commission_pct (spec_cost spec))
          in if \<not> isfinite unit_cash \<or> unit_cash \<le> Fin 0
             then Inr (st\<lparr>xs_audit := xs_audit st @
                    [audit_record current_date (po_ticker order) (po_side order) Unfilled_Invalid_Open
                       (po_signal_date order) (Reason ''invalid_open'')]\<rparr>)
             else
               let positions_value = open_value today (xs_positions st);
                   current_equity = xs_cash st + positions_value;
                   slots = slot_count spec (length (xs_positions st)) n_orders
               in rbind (buy_budget spec current_equity positions_value slots) (\<lambda>budget.
                  rbind (whole_shares budget unit_cash) (\<lambda>requested.
                  rbind (whole_shares (xs_cash st) unit_cash) (\<lambda>cash_quantity.
                  rbind (capacity_quantity spec order buy_price)
                    (finish_buy spec current_date bar order buy_price requested cash_quantity st)))))"

section \<open>Executing the pending orders of a session\<close>

definition execute_sells ::
  "StrategySpec \<Rightarrow> date \<Rightarrow> day_bars \<Rightarrow> PendingOrder list \<Rightarrow> exec_state \<Rightarrow> exec_state res" where
  "execute_sells spec current_date today executable st =
     rfold (sell_step spec current_date today) (filter (\<lambda>x. po_side x = Side_Sell) executable) st"

definition buy_queue :: "book \<Rightarrow> PendingOrder list \<Rightarrow> PendingOrder list" where
  "buy_queue positions executable =
     sort_key buy_priority
       (filter (\<lambda>x. po_side x = Side_Buy \<and> \<not> has_key positions (po_ticker x)) executable)"

definition execute_pending_orders ::
  "StrategySpec \<Rightarrow> date \<Rightarrow> day_bars \<Rightarrow> book \<Rightarrow> pyfloat \<Rightarrow> PendingOrder list \<Rightarrow> exec_state res" where
  "execute_pending_orders spec current_date today positions cash pending =
     (case classify_pending current_date today pending of (executable, audit) \<Rightarrow>
        rbind (execute_sells spec current_date today executable
                 \<lparr>xs_positions = positions, xs_cash = cash, xs_trades = [], xs_audit = audit\<rparr>) (\<lambda>st.
          let queue = buy_queue (xs_positions st) executable
          in rfold (buy_step spec current_date today (length queue)) queue st))"

section \<open>Writing off names that stopped trading\<close>

record write_off_state =
  wo_exec :: exec_state
  wo_stale :: "(ticker, int) dict"

text \<open>One iteration of the loop over \<open>list(positions)\<close>.\<close>

definition write_off_step ::
  "StrategySpec \<Rightarrow> BacktestRunConfig \<Rightarrow> date \<Rightarrow> day_bars \<Rightarrow> ticker \<Rightarrow> write_off_state \<Rightarrow> write_off_state" where
  "write_off_step spec config current_date today t w =
     (let st = wo_exec w; stale = wo_stale w; grace = cf_delisting_grace_days config
      in if has_key today t then w\<lparr>wo_stale := dset t 0 stale\<rparr>
         else
           let days = (case dget stale t of None \<Rightarrow> 0 | Some n \<Rightarrow> n) + 1;
               stale' = dset t days stale
           in if days < grace then w\<lparr>wo_stale := stale'\<rparr>
              else case dget (xs_positions st) t of
                None \<Rightarrow> w\<lparr>wo_stale := stale'\<rparr>
              | Some position \<Rightarrow>
                  let exit_price = pos_last_price position * Fin (cf_delisting_recovery_rate config);
                      gross = of_int_float (pos_quantity position) * exit_price;
                      exit_cost = gross * Fin (cm_commission_pct (spec_cost spec) + cm_tax_pct (spec_cost spec));
                      proceeds = gross - exit_cost
                  in w\<lparr>wo_exec := st
                       \<lparr>xs_positions := dpop t (xs_positions st), xs_cash := xs_cash st + proceeds,
                        xs_trades := xs_trades st @ [trade_record t position current_date exit_price
                          (pos_quantity position) gross (pos_entry_notional position)
                          (pos_entry_cost position) exit_cost (Reason ''delisted_write_off'')],
                        xs_audit := xs_audit st @
                          [(audit_record current_date t Side_Sell Delisted_Write_Off current_date
                              (Reason ''delisted_write_off''))
                             \<lparr>au_price := Some (py_round 6 exit_price),
                              au_quantity := Some (pos_quantity position)\<rparr>]\<rparr>,
                      wo_stale := dpop t stale'\<rparr>)"

definition write_off_stale_positions ::
  "StrategySpec \<Rightarrow> BacktestRunConfig \<Rightarrow> date \<Rightarrow> day_bars \<Rightarrow> book \<Rightarrow> pyfloat \<Rightarrow> PendingOrder list
     \<Rightarrow> (ticker, int) dict \<Rightarrow> exec_state \<times> PendingOrder list \<times> (ticker, int) dict" where
  "write_off_stale_positions spec config current_date today positions cash pending stale =
     (let st0 = \<lparr>xs_positions = positions, xs_cash = cash, xs_trades = [], xs_audit = []\<rparr>
      in if cf_delisting_grace_days config \<le> 0 then (st0, pending, stale)
         else
           let w = fold (write_off_step spec config current_date today) (dkeys positions)
                     \<lparr>wo_exec = st0, wo_stale = stale\<rparr>;
               written_off = map tr_ticker (xs_trades (wo_exec w))
           in (wo_exec w, filter (\<lambda>x. po_ticker x \<notin> set written_off) pending, wo_stale w))"

end
