(* ===== verification/Bt_Signals.thy ===== *)
theory Bt_Signals
  imports Bt_Execution
begin

text \<open>
  Signal generation at the close of a session: the rule-driven variant
  (\<open>_generate_signals_for_date\<close>), the variant that consumes a precomputed action per row
  (\<open>_generate_compact_signals_for_date\<close>) and the stop-loss and take-profit exits they share.
  A signal step appends pending orders, signal records and audit records; the record
  \<open>signal_out\<close> collects the three lists.
\<close>

record signal_out =
  so_orders :: "PendingOrder list"
  so_signals :: "SignalRecord list"
  so_audit :: "OrderAuditRecord list"

definition no_signals :: signal_out where
  "no_signals = \<lparr>so_orders = [], so_signals = [], so_audit = []\<rparr>"

definition risk_exit_reason :: "StrategySpec \<Rightarrow> Position \<Rightarrow> OhlcvBar \<Rightarrow> order_reason option" where
  "risk_exit_reason spec position bar =
     (let entry = pos_entry_price position;
          stopped = (case rc_stop_loss_pct (sp_risk_controls spec) of
                       None \<Rightarrow> None
                     | Some sl \<Rightarrow> if sl \<noteq> 0 \<and> bar_close bar \<le> entry * Fin (1 - sl)
                                 then Some (Stop_Loss_Reason sl) else None)
      in case stopped of
           Some r \<Rightarrow> Some r
         | None \<Rightarrow>
             (case rc_take_profit_pct (sp_risk_controls spec) of
                None \<Rightarrow> None
              | Some tp \<Rightarrow> if tp \<noteq> 0 \<and> entry * Fin (1 + tp) \<le> bar_close bar
                          then Some (Take_Profit_Reason tp) else None))"

definition signal_record :: "date \<Rightarrow> SignalDecision \<Rightarrow> SignalRecord" where
  "signal_record current_date decision =
     \<lparr>sr_date = current_date, sr_ticker = sd_ticker decision, sr_action = sd_action decision,
      sr_reasons = Reason (join_with '';'' (sd_reasons decision)),
      sr_matching_entry_rules = Labels (sd_matching_entry_rules decision),
      sr_matching_exit_rules = Labels (sd_matching_exit_rules decision)\<rparr>"

text \<open>A queued order together with its \<open>submitted\<close> audit record.\<close>

definition submit_order ::
  "date \<Rightarrow> ticker \<Rightarrow> order_side \<Rightarrow> order_reason \<Rightarrow> OhlcvBar \<Rightarrow> pyfloat option \<Rightarrow> signal_out \<Rightarrow> signal_out" where
  "submit_order current_date t side reason bar score out =
     out\<lparr>so_orders := so_orders out @
           [\<lparr>po_ticker = t, po_side = side, po_signal_date = current_date, po_reason = reason,
             po_prior_raw_notional = bar_raw_notional bar, po_signal_score = score\<rparr>],
         so_audit := so_audit out @
           [audit_record current_date t side Submitted current_date reason]\<rparr>"

definition add_signal :: "SignalRecord \<Rightarrow> signal_out \<Rightarrow> signal_out" where
  "add_signal r out = out\<lparr>so_signals := so_signals out @ [r]\<rparr>"

definition risk_signal :: "date \<Rightarrow> ticker \<Rightarrow> order_reason \<Rightarrow> SignalRecord" where
  "risk_signal current_date t reason =
     \<lparr>sr_date = current_date, sr_ticker = t, sr_action = SELL, sr_reasons = reason,
      sr_matching_entry_rules = Labels [], sr_matching_exit_rules = Match_Reason reason\<rparr>"

definition risk_exit ::
  "StrategySpec \<Rightarrow> date \<Rightarrow> ticker \<Rightarrow> Position \<Rightarrow> OhlcvBar \<Rightarrow> signal_out \<Rightarrow> signal_out" where
  "risk_exit spec current_date t position bar out =
     (case risk_exit_reason spec position bar of
        None \<Rightarrow> out
      | Some reason \<Rightarrow>
          add_signal (risk_signal current_date t reason)
            (submit_order current_date t Side_Sell reason bar None out))"

definition pending_keys :: "PendingOrder list \<Rightarrow> (order_side \<times> ticker) list" where
  "pending_keys pending = map (\<lambda>order. (po_side order, po_ticker order)) pending"

section \<open>Rule-driven signals\<close>

definition snapshot_of ::
  "date \<Rightarrow> ticker \<Rightarrow> metrics \<Rightarrow> (date \<times> ticker, metrics option) dict \<Rightarrow> MarketSnapshot" where
  "snapshot_of current_date t metrics previous =
     \<lparr>ms_ticker = t, ms_timestamp = (current_date * 86400 + 15 * 3600 + 30 * 60) * 1000000,
      ms_metrics = metrics,
      ms_previous_metrics = (case dget previous (current_date, t) of None \<Rightarrow> None | Some m \<Rightarrow> m)\<rparr>"

text \<open>The three branches on a decision: queue a buy, queue a sell, or check the risk exits.\<close>

definition act_on_decision ::
  "StrategySpec \<Rightarrow> date \<Rightarrow> ticker \<Rightarrow> OhlcvBar \<Rightarrow> book \<Rightarrow> (order_side \<times> ticker) list \<Rightarrow> SignalDecision
     \<Rightarrow> signal_out \<Rightarrow> signal_out" where
  "act_on_decision spec current_date t bar positions keys decision out =
     (let reason = Reason (join_with '';'' (sd_reasons decision))
      in if sd_action decision = BUY \<and> \<not> has_key positions t \<and> (Side_Buy, t) \<notin> set keys
         then submit_order current_date t Side_Buy reason bar None out
         else if sd_action decision = SELL \<and> has_key positions t \<and> (Side_Sell, t) \<notin> set keys
         then submit_order current_date t Side_Sell reason bar None out
         else (case dget positions t of
                 None \<Rightarrow> out
               | Some position \<Rightarrow>
                   if (Side_Sell, t) \<notin> set keys
                   then risk_exit spec current_date t position bar out else out))"

definition signal_step ::
  "StrategySpec \<Rightarrow> date \<Rightarrow> day_bars \<Rightarrow> book \<Rightarrow> metric_table \<Rightarrow> (date \<times> ticker, metrics option) dict
     \<Rightarrow> PendingOrder list \<Rightarrow> ticker \<Rightarrow> signal_out \<Rightarrow> signal_out res" where
  "signal_step spec current_date today positions metrics_by_key previous pending t out =
     (case dget metrics_by_key (current_date, t) of
        None \<Rightarrow> Inl (KeyError t)
      | Some metrics \<Rightarrow>
          rbind (generate_signal spec (snapshot_of current_date t metrics previous) (has_key positions t))
            (\<lambda>decision. (case dget today t of
               None \<Rightarrow> Inl (KeyError t)
             | Some bar \<Rightarrow>
                 Inr (act_on_decision spec current_date t bar positions (pending_keys pending) decision
                        (add_signal (signal_record current_date decision) out)))))"

definition generate_rule_signals ::
  "StrategySpec \<Rightarrow> date \<Rightarrow> day_bars \<Rightarrow> book \<Rightarrow> metric_table \<Rightarrow> (date \<times> ticker, metrics option) dict
     \<Rightarrow> PendingOrder list \<Rightarrow> signal_out res" where
  "generate_rule_signals spec current_date today positions metrics_by_key previous pending =
     rfold (signal_step spec current_date today positions metrics_by_key previous pending)
       (sort (dkeys today)) no_signals"

section \<open>Compact signals\<close>

definition py_index :: "'a list \<Rightarrow> nat \<Rightarrow> 'a res" where
  "py_index xs i = (if i < length xs then Inr (xs ! i) else Inl IndexError)"

definition generated_score :: "pyfloat list option \<Rightarrow> nat \<Rightarrow> pyfloat option res" where
  "generated_score scores row_index =
     (case scores of
        None \<Rightarrow> Inr None
      | Some xs \<Rightarrow> rbind (py_index xs row_index) (\<lambda>score. Inr (if isfinite score then Some score else None)))"

definition compact_record :: "date \<Rightarrow> ticker \<Rightarrow> SignalAction \<Rightarrow> SignalRecord" where
  "compact_record current_date t action =
     (let buy = Reason ''generated BUY signal''; sell = Reason ''generated SELL signal''
      in \<lparr>sr_date = current_date, sr_ticker = t, sr_action = action,
          sr_reasons = (if action = BUY then buy else if action = SELL then sell
                        else Reason ''no actionable rule matched''),
          sr_matching_entry_rules = (if action = BUY then Match_Reason buy else Labels []),
          sr_matching_exit_rules = (if action = SELL then Match_Reason sell else Labels [])\<rparr>)"

text \<open>
  One ticker of the compact loop.  The set of pending keys grows with the orders queued in the
  same pass, so the loop state carries it.
\<close>

definition compact_action ::
  "date \<Rightarrow> ticker \<Rightarrow> OhlcvBar \<Rightarrow> bool \<Rightarrow> int \<Rightarrow> pyfloat option res \<Rightarrow> signal_out \<times> (order_side \<times> ticker) list
     \<Rightarrow> (SignalAction \<times> signal_out \<times> (order_side \<times> ticker) list) res" where
  "compact_action current_date t bar has_position action_value score st =
     (case st of (out, keys) \<Rightarrow>
        if action_value = 1 \<and> \<not> has_position
        then (if (Side_Buy, t) \<in> set keys then Inr (BUY, out, keys)
              else rbind score (\<lambda>s.
                     Inr (BUY, submit_order current_date t Side_Buy (Reason ''generated BUY signal'') bar s out,
                          keys @ [(Side_Buy, t)])))
        else if action_value = -1 \<and> has_position
        then (if (Side_Sell, t) \<in> set keys then Inr (SELL, out, keys)
              else Inr (SELL, submit_order current_date t Side_Sell (Reason ''generated SELL signal'') bar None out,
                        keys @ [(Side_Sell, t)]))
        else Inr (if has_position then HOLD else WATCH, out, keys))"

definition compact_risk ::
  "StrategySpec \<Rightarrow> date \<Rightarrow> ticker \<Rightarrow> OhlcvBar \<Rightarrow> book \<Rightarrow> (order_side \<times> ticker) list \<Rightarrow> signal_out \<Rightarrow> signal_out" where
  "compact_risk spec current_date t bar positions keys out =
     (case dget positions t of
        None \<Rightarrow> out
      | Some position \<Rightarrow>
          if (Side_Sell, t) \<notin> set keys then risk_exit spec current_date t position bar out else out)"

definition compact_step ::
  "StrategySpec \<Rightarrow> date \<Rightarrow> day_bars \<Rightarrow> book \<Rightarrow> (date \<times> ticker, nat) dict \<Rightarrow> int list
     \<Rightarrow> pyfloat list option \<Rightarrow> ticker \<Rightarrow> signal_out \<times> (order_side \<times> ticker) list
     \<Rightarrow> (signal_out \<times> (order_side \<times> ticker) list) res" where
  "compact_step spec current_date today positions row_index actions scores t st =
     (case dget row_index (current_date, t) of
        None \<Rightarrow> Inl (KeyError t)
      | Some i \<Rightarrow>
          rbind (py_index actions i) (\<lambda>action_value. (case dget today t of
            None \<Rightarrow> Inl (KeyError t)
          | Some bar \<Rightarrow>
              rbind (compact_action current_date t bar (has_key positions t) action_value
                       (generated_score scores i) st) (\<lambda>(action, out, keys).
                Inr (compact_risk spec current_date t bar positions keys
                       (add_signal (compact_record current_date t action) out), keys)))))"

definition generate_compact_signals ::
  "StrategySpec \<Rightarrow> date \<Rightarrow> day_bars \<Rightarrow> book \<Rightarrow> (date \<times> ticker, nat) dict \<Rightarrow> int list
     \<Rightarrow> pyfloat list option \<Rightarrow> PendingOrder list \<Rightarrow> signal_out res" where
  "generate_compact_signals spec current_date today positions row_index actions scores pending =
     rbind (rfold (compact_step spec current_date today positions row_index actions scores)
              (sort (dkeys today)) (no_signals, pending_keys pending))
       (\<lambda>(out, keys). Inr out)"

section \<open>What one ticker contributes\<close>

text \<open>
  The orders of a pass: one per ticker at most, on the side the book allows, dated today and
  matched one to one by the submitted records of the audit.
\<close>

definition order_fits :: "date \<Rightarrow> book \<Rightarrow> PendingOrder \<Rightarrow> bool" where
  "order_fits d b x \<longleftrightarrow> po_signal_date x = d \<and>
     (case po_side x of
        Side_Buy \<Rightarrow> \<not> has_key b (po_ticker x)
      | Side_Sell \<Rightarrow> has_key b (po_ticker x)
      | Side_Corporate_Action \<Rightarrow> False)"

definition submitted_record :: "PendingOrder \<Rightarrow> OrderAuditRecord" where
  "submitted_record x =
     audit_record (po_signal_date x) (po_ticker x) (po_side x) Submitted (po_signal_date x) (po_reason x)"

definition pass_ok :: "date \<Rightarrow> book \<Rightarrow> ticker list \<Rightarrow> signal_out \<Rightarrow> bool" where
  "pass_ok d b seen out \<longleftrightarrow>
     distinct (map po_ticker (so_orders out)) \<and> set (map po_ticker (so_orders out)) \<subseteq> set seen
     \<and> list_all (order_fits d b) (so_orders out)
     \<and> so_audit out = map submitted_record (so_orders out)"

lemma pass_ok_empty: "pass_ok d b [] no_signals"
  by (simp add: pass_ok_def no_signals_def)

lemma pass_ok_add_signal [simp]: "pass_ok d b seen (add_signal r out) = pass_ok d b seen out"
  by (simp add: pass_ok_def add_signal_def)

lemma pass_ok_mono: "pass_ok d b seen out \<Longrightarrow> set seen \<subseteq> set ts \<Longrightarrow> pass_ok d b ts out"
  by (auto simp: pass_ok_def)

lemma pass_ok_submit:
  assumes "pass_ok d b seen out" and "t \<notin> set seen" and "t \<in> set ts" and "set seen \<subseteq> set ts"
    and "side = Side_Buy \<and> \<not> has_key b t \<or> side = Side_Sell \<and> has_key b t"
  shows "pass_ok d b ts (submit_order d t side reason bar score out)"
  using assms by (auto simp: pass_ok_def submit_order_def order_fits_def submitted_record_def)

lemma pass_ok_risk:
  assumes "pass_ok d b seen out" and "t \<notin> set seen" and "dget b t = Some p"
  shows "pass_ok d b (t # seen) (risk_exit spec d t p bar out)"
  using assms pass_ok_submit[OF assms(1,2), of "t # seen" Side_Sell]
  by (auto simp: risk_exit_def has_key_def intro: pass_ok_mono split: option.splits)

lemma act_pass:
  assumes "pass_ok d b seen out" and "t \<notin> set seen"
  shows "pass_ok d b (t # seen) (act_on_decision spec d t bar b keys decision out)"
  using pass_ok_submit[OF assms, of "t # seen"] pass_ok_risk[OF assms] pass_ok_mono[OF assms(1), of "t # seen"]
  by (auto simp: act_on_decision_def Let_def split: option.splits)

lemma signal_step_pass:
  assumes "pass_ok d b seen out" and "t \<notin> set seen"
    and "signal_step spec d today b mk prev pending t out = Inr out'"
  shows "pass_ok d b (t # seen) out'"
  using assms by (auto simp: signal_step_def rbind_eq_Inr intro!: act_pass split: option.splits)

lemma compact_action_pass:
  assumes "pass_ok d b seen out" and "t \<notin> set seen"
    and "compact_action d t bar (has_key b t) v score (out, keys) = Inr (action, out1, keys1)"
  shows "(out1 = out \<and> keys1 = keys) \<or>
    (pass_ok d b (t # seen) out1 \<and> ((Side_Sell, t) \<in> set keys1 \<or> \<not> has_key b t))"
  using assms(3) pass_ok_submit[OF assms(1,2), of "t # seen"]
  by (auto simp: compact_action_def rbind_eq_Inr split: if_splits)

lemma compact_risk_skip:
  "(Side_Sell, t) \<in> set keys \<or> \<not> has_key b t \<Longrightarrow> compact_risk spec d t bar b keys out = out"
  by (auto simp: compact_risk_def has_key_def split: option.splits)

lemma compact_risk_pass:
  assumes "pass_ok d b seen out" and "t \<notin> set seen"
  shows "pass_ok d b (t # seen) (compact_risk spec d t bar b keys out)"
  using pass_ok_risk[OF assms] pass_ok_mono[OF assms(1), of "t # seen"]
  by (auto simp: compact_risk_def split: option.splits)

lemma compact_step_pass:
  assumes ok: "pass_ok d b seen (fst st)" and t: "t \<notin> set seen"
    and st: "compact_step spec d today b ri actions scores t st = Inr st'"
  shows "pass_ok d b (t # seen) (fst st')"
proof -
  obtain out keys where os: "st = (out, keys)" by (cases st)
  from st os obtain bar v sc action out1 keys1 where
      a: "compact_action d t bar (has_key b t) v sc (out, keys) = Inr (action, out1, keys1)"
      and st': "st' = (compact_risk spec d t bar b keys1 (add_signal (compact_record d t action) out1), keys1)"
    unfolding compact_step_def by (auto simp: rbind_eq_Inr split: option.splits)
  from compact_action_pass[OF _ t a] ok os compact_risk_pass[OF _ t, of d b "add_signal (compact_record d t action) out"]
  show ?thesis by (auto simp: st' compact_risk_skip)
qed

section \<open>A whole pass\<close>

lemma pass_induct:
  assumes step: "\<And>t s s' seen. pass_ok d b seen (proj s) \<Longrightarrow> t \<notin> set seen \<Longrightarrow> f t s = Inr s' \<Longrightarrow>
      pass_ok d b (t # seen) (proj s')"
    and "distinct (rev ts @ seen)" and "pass_ok d b seen (proj s)" and "rfold f ts s = Inr s'"
  shows "pass_ok d b (rev ts @ seen) (proj s')"
  using assms(2-)
proof (induction ts arbitrary: s seen)
  case (Cons t ts)
  then obtain s1 where s1: "f t s = Inr s1" "rfold f ts s1 = Inr s'" by (auto simp: rbind_eq_Inr)
  have "pass_ok d b (t # seen) (proj s1)" using step[OF Cons.prems(2) _ s1(1)] Cons.prems(1) by auto
  from Cons.IH[OF _ this s1(2)] Cons.prems(1) show ?case by simp
qed simp

lemma rule_signals_pass:
  assumes "dict_ok today" and "generate_rule_signals spec d today b mk prev pending = Inr out"
  shows "pass_ok d b (rev (sort (dkeys today))) out"
proof -
  have "distinct (rev (sort (dkeys today)) @ [])" using assms(1) by (simp add: dict_ok_def dkeys_def)
  from pass_induct[where proj = "\<lambda>x. x", OF _ this pass_ok_empty
      assms(2)[unfolded generate_rule_signals_def]]
  show ?thesis by (simp add: signal_step_pass)
qed

lemma compact_signals_pass:
  assumes "dict_ok today" and "generate_compact_signals spec d today b ri actions scores pending = Inr out"
  shows "pass_ok d b (rev (sort (dkeys today))) out"
proof -
  from assms(2) obtain keys where r: "rfold (compact_step spec d today b ri actions scores) (sort (dkeys today))
      (no_signals, pending_keys pending) = Inr (out, keys)"
    by (auto simp: generate_compact_signals_def rbind_eq_Inr)
  have "distinct (rev (sort (dkeys today)) @ [])" using assms(1) by (simp add: dict_ok_def dkeys_def)
  from pass_induct[where proj = fst, OF _ this _ r] show ?thesis
    by (simp add: compact_step_pass pass_ok_empty)
qed

end
