(* ===== verification/Bt_Summary.thy ===== *)
theory Bt_Summary
  imports Bt_Execution
begin

text \<open>
  The numbers a run reports: \<open>_calculate_selection_metrics\<close>, which ranks candidates, and
  \<open>_summary\<close>.  \<open>math.sqrt\<close> and the power operator leave the rationals, so both are arguments
  (\<open>sqrt_fn\<close>, \<open>pow_fn\<close>) of the definitions that use them.  The metrics dictionary that quantstats
  fills is an argument too: the summary only copies entries out of it.
\<close>

section \<open>Array operations\<close>

text \<open>Unlike the built-ins, numpy's \<open>maximum\<close> and \<open>min\<close> propagate NaN.\<close>

definition np_maximum :: "pyfloat \<Rightarrow> pyfloat \<Rightarrow> pyfloat" where
  "np_maximum a b = (if a = NaN \<or> b = NaN then NaN else if a < b then b else a)"

definition np_minimum :: "pyfloat \<Rightarrow> pyfloat \<Rightarrow> pyfloat" where
  "np_minimum a b = (if a = NaN \<or> b = NaN then NaN else if b < a then b else a)"

fun accumulate_max :: "pyfloat \<Rightarrow> pyfloat list \<Rightarrow> pyfloat list" where
  "accumulate_max m [] = []"
| "accumulate_max m (x # xs) = (let m' = np_maximum m x in m' # accumulate_max m' xs)"

fun peaks_of :: "pyfloat list \<Rightarrow> pyfloat list" where
  "peaks_of [] = []"
| "peaks_of (x # xs) = x # accumulate_max x xs"

text \<open>A division whose divisor the code has checked to be non-zero.\<close>

definition checked_div :: "pyfloat \<Rightarrow> pyfloat \<Rightarrow> pyfloat" where
  "checked_div a b = (case py_div a b of Inr q \<Rightarrow> q | Inl _ \<Rightarrow> NaN)"

definition drawdown_series :: "pyfloat list \<Rightarrow> pyfloat list" where
  "drawdown_series equity =
     map (\<lambda>(e, p). (if py_eq p (Fin 0) then Fin 1 else checked_div e p) - Fin 1)
       (zip equity (peaks_of equity))"

fun np_min :: "pyfloat list \<Rightarrow> pyfloat" where
  "np_min [] = NaN"
| "np_min (x # xs) = fold (\<lambda>y m. np_minimum m y) xs x"

definition np_mean :: "pyfloat list \<Rightarrow> pyfloat" where
  "np_mean xs = checked_div (py_sum xs) (of_int_float (int (length xs)))"

definition np_var :: "pyfloat list \<Rightarrow> pyfloat" where
  "np_var xs =
     (let m = np_mean xs
      in checked_div (py_sum (map (\<lambda>x. (x - m) * (x - m)) xs)) (of_int_float (int (length xs) - 1)))"

section \<open>Selection metrics\<close>

record selection_metrics =
  sm_total_return :: pyfloat
  sm_cagr :: pyfloat
  sm_sharpe :: pyfloat
  sm_max_drawdown :: pyfloat
  sm_win_rate :: pyfloat
  sm_profit_factor :: pyfloat
  sm_volatility :: "pyfloat option"

definition calculate_selection_metrics ::
  "(pyfloat \<Rightarrow> pyfloat) \<Rightarrow> (pyfloat \<Rightarrow> pyfloat \<Rightarrow> pyfloat) \<Rightarrow> EquityPoint list \<Rightarrow> selection_metrics" where
  "calculate_selection_metrics sqrt_fn pow_fn curve =
     (if curve = []
      then \<lparr>sm_total_return = Fin 0, sm_cagr = Fin 0, sm_sharpe = Fin 0, sm_max_drawdown = Fin 0,
            sm_win_rate = Fin 0, sm_profit_factor = Fin 0, sm_volatility = None\<rparr>
      else
        let initial = eq_total_equity (hd curve);
            final = eq_total_equity (last curve);
            total_return = (if truthy initial then checked_div final initial - Fin 1 else Fin 0);
            usable = tl (map eq_daily_return curve);
            mean_return = (if usable \<noteq> [] then np_mean usable else Fin 0);
            variance = (if 1 < length usable then np_var usable else Fin 0);
            volatility = sqrt_fn variance;
            sharpe = (if Fin 0 < volatility then checked_div mean_return volatility * sqrt_fn (Fin 252) else Fin 0);
            max_drawdown = np_min (drawdown_series (map eq_total_equity curve));
            positive = py_sum (filter (\<lambda>r. Fin 0 < r) usable);
            negative = Fin 0 - py_sum (filter (\<lambda>r. r < Fin 0) usable);
            profit_factor = (if Fin 0 < negative then checked_div positive negative
                             else if Fin 0 < positive then Fin 1 else Fin 0);
            elapsed_days = max 1 (eq_date (last curve) - eq_date (hd curve));
            cagr = (if Fin 0 < initial \<and> Fin 0 < final
                    then pow_fn (checked_div final initial) (Fin (365 / of_int elapsed_days)) - Fin 1 else Fin 0);
            win_rate = (if usable = [] then Fin 0
                        else Fin (of_nat (length (filter (\<lambda>r. Fin 0 < r) usable)) / of_nat (length usable)))
        in \<lparr>sm_total_return = py_round 10 total_return, sm_cagr = py_round 10 cagr,
            sm_sharpe = py_round 10 sharpe, sm_max_drawdown = py_round 10 max_drawdown,
            sm_win_rate = py_round 10 win_rate, sm_profit_factor = py_round 10 profit_factor,
            sm_volatility = Some (py_round 10 (volatility * sqrt_fn (Fin 252)))\<rparr>)"

section \<open>The summary\<close>

record run_summary =
  su_strategy_id :: string
  su_strategy_name :: string
  su_metrics_mode :: metrics_mode
  su_initial_capital :: pyfloat
  su_final_equity :: pyfloat
  su_final_cash :: pyfloat
  su_open_positions :: nat
  su_open_position_tickers :: "ticker list"
  su_trade_count :: nat
  su_trade_win_rate :: pyfloat
  su_trade_profit_factor :: "pyfloat option"
  su_gross_trade_profit :: pyfloat
  su_gross_trade_loss :: pyfloat
  su_signal_count :: nat
  su_avg_holding_days :: pyfloat
  su_excluded_tickers :: "ExcludedTicker list"
  su_execution_timing :: ExecutionTiming
  su_cost_model :: CostModel
  su_position_sizing :: PositionSizing
  su_turnover :: pyfloat
  su_total_cost :: pyfloat
  su_commission_cost :: pyfloat
  su_tax_cost :: pyfloat
  su_slippage_cost :: pyfloat
  su_commission_cost_exact :: pyfloat
  su_tax_cost_exact :: pyfloat
  su_slippage_cost_exact :: pyfloat
  su_total_cost_exact :: pyfloat
  su_requested_quantity :: int
  su_filled_quantity :: int
  su_fill_rate :: pyfloat
  su_cost_policy_eligible :: bool
  su_reliability_limited :: bool
  su_reliability_reasons :: "string list"
  su_cost_policy_capability :: string
  su_terminal_recovery_capability :: string

definition or_zero :: "pyfloat option \<Rightarrow> pyfloat" where
  "or_zero x = (case x of None \<Rightarrow> Fin 0 | Some v \<Rightarrow> if truthy v then v else Fin 0)"

definition executed_sum :: "(OrderAuditRecord \<Rightarrow> pyfloat option) \<Rightarrow> OrderAuditRecord list \<Rightarrow> pyfloat" where
  "executed_sum field audit = py_sum (map (or_zero \<circ> field) (filter (\<lambda>a. au_status a = Executed) audit))"

definition buy_sum :: "(OrderAuditRecord \<Rightarrow> int option) \<Rightarrow> OrderAuditRecord list \<Rightarrow> int" where
  "buy_sum field audit =
     (\<Sum>a\<leftarrow>filter (\<lambda>a. au_side a = Side_Buy) audit. case field a of None \<Rightarrow> 0 | Some q \<Rightarrow> q)"

definition interval_uncovered :: "CostModel \<Rightarrow> EquityPoint list \<Rightarrow> bool" where
  "interval_uncovered policy curve \<longleftrightarrow> curve \<noteq> [] \<and>
     ((case cm_effective_from policy of None \<Rightarrow> False | Some f \<Rightarrow> eq_date (hd curve) < f)
      \<or> (case cm_effective_to policy of None \<Rightarrow> False | Some t \<Rightarrow> t < eq_date (last curve)))"

definition reliability_reasons :: "StrategySpec \<Rightarrow> EquityPoint list \<Rightarrow> book \<Rightarrow> string list" where
  "reliability_reasons spec curve positions =
     (if list_ex (\<lambda>e. \<not> source_verified e) (spec_actions spec)
      then [''corporate_action_provenance_incomplete''] else [])
     @ (if \<not> cost_production_eligible (spec_cost spec) then [''cost_policy_provenance_incomplete''] else [])
     @ (if interval_uncovered (spec_cost spec) curve
        then [''cost_policy_effective_interval_not_covering_run''] else [])
     @ (if positions \<noteq> [] then [''terminal_open_positions_without_recovery_policy''] else [])"

definition trade_profit_factor :: "pyfloat \<Rightarrow> pyfloat \<Rightarrow> pyfloat option" where
  "trade_profit_factor profit loss =
     (if Fin 0 < loss then Some (py_round 10 (checked_div profit loss)) else None)"

definition summary_of ::
  "StrategySpec \<Rightarrow> BacktestRunConfig \<Rightarrow> pyfloat \<Rightarrow> book \<Rightarrow> TradeRecord list \<Rightarrow> EquityPoint list
     \<Rightarrow> SignalRecord list \<Rightarrow> ExcludedTicker list \<Rightarrow> pyfloat \<Rightarrow> OrderAuditRecord list \<Rightarrow> run_summary" where
  "summary_of spec config cash positions trades curve signals exclusions final_equity audit =
     (let winners = filter (\<lambda>t. Fin 0 < tr_net_pnl t) trades;
          losers = filter (\<lambda>t. tr_net_pnl t < Fin 0) trades;
          win_rate = (if trades = [] then Fin 0
                      else py_round 10 (Fin (of_nat (length winners) / of_nat (length trades))));
          profit = py_sum (map tr_net_pnl winners);
          loss = Fin 0 - py_sum (map tr_net_pnl losers);
          holding = map (\<lambda>t. tr_exit_date t - tr_entry_date t) trades;
          avg_holding = (if holding = [] then Fin 0
                         else py_round 6 (Fin (of_int (sum_list holding) / of_nat (length holding))));
          requested = buy_sum au_requested_quantity audit;
          filled = buy_sum au_filled_quantity audit;
          commission = executed_sum au_commission_cost audit;
          tax = executed_sum au_tax_cost audit;
          slippage = executed_sum au_slippage_cost audit;
          commission_x = executed_sum au_commission_cost_text audit;
          tax_x = executed_sum au_tax_cost_text audit;
          slippage_x = executed_sum au_slippage_cost_text audit;
          reasons = reliability_reasons spec curve positions
      in \<lparr>su_strategy_id = sp_strategy_id spec, su_strategy_name = sp_strategy_name spec,
          su_metrics_mode = cf_metrics_mode config, su_initial_capital = cf_initial_capital config,
          su_final_equity = py_round 6 final_equity, su_final_cash = py_round 6 cash,
          su_open_positions = length positions, su_open_position_tickers = sort (dkeys positions),
          su_trade_count = length trades, su_trade_win_rate = win_rate,
          su_trade_profit_factor = trade_profit_factor profit loss,
          su_gross_trade_profit = py_round 10 profit, su_gross_trade_loss = py_round 10 loss,
          su_signal_count = length signals, su_avg_holding_days = avg_holding,
          su_excluded_tickers = exclusions,
          su_execution_timing = bc_execution_timing (sp_backtest spec),
          su_cost_model = spec_cost spec, su_position_sizing = sp_position_sizing spec,
          su_turnover = py_round 6 (executed_sum au_notional audit),
          su_total_cost = py_round 6 (commission + tax + slippage),
          su_commission_cost = py_round 6 commission, su_tax_cost = py_round 6 tax,
          su_slippage_cost = py_round 6 slippage,
          su_commission_cost_exact = commission_x, su_tax_cost_exact = tax_x,
          su_slippage_cost_exact = slippage_x,
          su_total_cost_exact = commission_x + tax_x + slippage_x,
          su_requested_quantity = requested, su_filled_quantity = filled,
          su_fill_rate = (if requested = 0 then Fin 0
                          else py_round 10 (Fin (of_int filled / of_int requested))),
          su_cost_policy_eligible = cost_production_eligible (spec_cost spec),
          su_reliability_limited = (reasons \<noteq> []), su_reliability_reasons = reasons,
          su_cost_policy_capability =
            (if cost_production_eligible (spec_cost spec) \<and> \<not> interval_uncovered (spec_cost spec) curve
             then ''eligible'' else ''limited''),
          su_terminal_recovery_capability =
            (if positions \<noteq> [] then ''unsupported_source_unavailable'' else ''not_required'')\<rparr>)"

text \<open>The entries the summary copies from the metrics dictionary under another name.\<close>

definition RENAMED_METRICS :: "(string, string) dict" where
  "RENAMED_METRICS =
     [(''period_return'', ''total_return''), (''daily_sharpe_like'', ''sharpe''), (''return_win_rate'', ''win_rate'')]"

definition summary_metric :: "(string, 'v) dict \<Rightarrow> string \<Rightarrow> 'v option" where
  "summary_metric metrics key =
     dget metrics (case dget RENAMED_METRICS key of None \<Rightarrow> key | Some k \<Rightarrow> k)"

end
