(* ===== verification/Bt_Engine.thy ===== *)
theory Bt_Engine
  imports Bt_Metrics Bt_Signals Bt_Summary
begin

text \<open>
  \<open>BacktestEngine\<close> as a whole: construction, the indexes built from the rows, the selection of
  tickers, and the day loop of \<open>run\<close>.  The state the loop carries is \<open>run_state\<close>; one day is
  \<open>run_day\<close>, which calls the corporate actions, the execution of the pending orders, the
  write-offs, the signal generation and the marking of the book in the order of the source.
\<close>

section \<open>Construction\<close>

record engine =
  en_spec :: StrategySpec
  en_config :: BacktestRunConfig
  en_rows :: "OhlcvBar list"
  en_metric_rows :: metric_rows
  en_prepared :: "PreparedMarketData option"
  en_actions :: "int list option"
  en_scores :: "pyfloat list option"
  en_normalized :: bool

text \<open>\<open>xs[:n]\<close>.\<close>

definition py_slice_to :: "int \<Rightarrow> 'a list \<Rightarrow> 'a list" where
  "py_slice_to n xs = (if 0 \<le> n then take (nat n) xs else take (nat (int (length xs) + n)) xs)"

definition limit_tickers :: "int option \<Rightarrow> OhlcvBar list \<Rightarrow> OhlcvBar list" where
  "limit_tickers max_tickers rows =
     (case max_tickers of
        None \<Rightarrow> rows
      | Some n \<Rightarrow>
          let allowed = py_slice_to n (sort (remdups (map bar_ticker rows)))
          in filter (\<lambda>row. bar_ticker row \<in> set allowed) rows)"

definition aligned :: "'a list option \<Rightarrow> OhlcvBar list \<Rightarrow> bool" where
  "aligned xs rows = (case xs of None \<Rightarrow> True | Some ys \<Rightarrow> length ys = length rows)"

definition new_engine ::
  "StrategySpec \<Rightarrow> OhlcvBar list \<Rightarrow> metric_rows \<Rightarrow> BacktestRunConfig \<Rightarrow> PreparedMarketData option
     \<Rightarrow> int list option \<Rightarrow> pyfloat list option \<Rightarrow> bool \<Rightarrow> engine res" where
  "new_engine spec rows metric_rows config prepared actions scores normalized =
     (let build = (\<lambda>rows metric_rows.
            \<lparr>en_spec = spec, en_config = config, en_rows = limit_tickers (cf_max_tickers config) rows,
             en_metric_rows = metric_rows, en_prepared = prepared, en_actions = actions,
             en_scores = scores, en_normalized = normalized\<rparr>)
      in case prepared of
           None \<Rightarrow>
             Inr (build (if normalized then rows else sort_key (\<lambda>row. (bar_date row, bar_ticker row)) rows) metric_rows)
         | Some data \<Rightarrow>
             if \<not> aligned actions (pm_ohlcv_rows data)
             then Inl (ValueError ''generated_actions must align one-to-one with prepared OHLCV rows'')
             else if \<not> aligned scores (pm_ohlcv_rows data)
             then Inl (ValueError ''generated_scores must align one-to-one with prepared OHLCV rows'')
             else Inr (build (pm_ohlcv_rows data) []))"

section \<open>Market data\<close>

definition index_bar ::
  "OhlcvBar \<Rightarrow> (ticker, OhlcvBar list) dict \<times> (date, day_bars) dict \<times> metric_table
     \<Rightarrow> (ticker, OhlcvBar list) dict \<times> (date, day_bars) dict \<times> metric_table" where
  "index_bar bar idx =
     (case idx of (by_ticker, by_date, metrics) \<Rightarrow>
        (dset (bar_ticker bar) ((case dget by_ticker (bar_ticker bar) of None \<Rightarrow> [] | Some bs \<Rightarrow> bs) @ [bar]) by_ticker,
         dset (bar_date bar)
           (dset (bar_ticker bar) bar (case dget by_date (bar_date bar) of None \<Rightarrow> [] | Some day \<Rightarrow> day)) by_date,
         dset (bar_date bar, bar_ticker bar) (bar_metrics bar) metrics))"

text \<open>\<open>metrics_by_key.setdefault(key, {}).update(row)\<close> for every row.\<close>

definition merge_rows :: "metric_rows \<Rightarrow> metric_table \<Rightarrow> metric_table" where
  "merge_rows rows table =
     fold (\<lambda>(key, row) tb. dset key (dupdate (case dget tb key of None \<Rightarrow> [] | Some m \<Rightarrow> m) row) tb) rows table"

definition metrics_for_ticker ::
  "talib_api option \<Rightarrow> TalibComputation list \<Rightarrow> string list \<Rightarrow> bool \<Rightarrow> ticker \<times> OhlcvBar list \<Rightarrow> metric_table
     \<Rightarrow> metric_table res" where
  "metrics_for_ticker talib computations required normalized entry table =
     (case entry of (t, bars) \<Rightarrow>
        rbind (compute_talib_metrics_for_bars talib bars computations) (\<lambda>(talib_rows, report).
          Inr (merge_rows (fst (compute_derived_metrics_for_bars bars required normalized))
                 (merge_rows talib_rows table))))"

fun previous_for_ticker ::
  "ticker \<Rightarrow> metric_table \<Rightarrow> metrics option \<Rightarrow> OhlcvBar list \<Rightarrow> (date \<times> ticker, metrics option) dict
     \<Rightarrow> (date \<times> ticker, metrics option) dict" where
  "previous_for_ticker t table previous [] acc = acc"
| "previous_for_ticker t table previous (bar # bars) acc =
     previous_for_ticker t table (dget table (bar_date bar, t)) bars (dset (bar_date bar, t) previous acc)"

definition order_bars :: "bool \<Rightarrow> OhlcvBar list \<Rightarrow> OhlcvBar list" where
  "order_bars normalized bars = (if normalized then bars else sort_key bar_date bars)"

definition prepare_market_data ::
  "talib_api option \<Rightarrow> param_memo \<Rightarrow> engine \<Rightarrow> (PreparedMarketData \<times> param_memo) res" where
  "prepare_market_data talib memo eng =
     (case en_prepared eng of
        Some data \<Rightarrow> Inr (data, memo)
      | None \<Rightarrow>
          case fold index_bar (en_rows eng) ([], [], []) of (by_ticker, by_date, table0) \<Rightarrow>
            let required = required_metric_names (en_spec eng); normalized = en_normalized eng
            in rbind (talib_computations talib required (cf_talib (en_config eng)) memo) (\<lambda>(computations, memo').
               rbind (rfold (metrics_for_ticker talib computations required normalized) by_ticker table0) (\<lambda>table1.
                 let table = merge_rows (en_metric_rows eng) table1;
                     previous = fold (\<lambda>(t, bars). previous_for_ticker t table None (order_bars normalized bars)) by_ticker [];
                     dates = (if normalized then dkeys by_date else sort (dkeys by_date));
                     day_of = (\<lambda>day. case dget by_date day of None \<Rightarrow> [] | Some bars \<Rightarrow> bars);
                     rows = (if normalized then en_rows eng
                             else concat (map (\<lambda>day. map snd (sort_key fst (day_of day))) dates))
                 in Inr (\<lparr>pm_ohlcv_rows = rows,
                          pm_bars_by_ticker = map (\<lambda>(t, bars). (t, order_bars normalized bars)) by_ticker,
                          pm_bars_by_date = map (\<lambda>(day, bars). (day, if normalized then bars else sort_key fst bars)) by_date,
                          pm_metrics_by_key = table, pm_previous_metrics_by_key = previous, pm_dates = dates,
                          pm_row_index_by_key =
                            fold (\<lambda>(i, bar). dset (bar_date bar, bar_ticker bar) i) (enumerate 0 rows) []\<rparr>, memo'))))"

section \<open>Selecting tickers\<close>

fun first_missing :: "string list \<Rightarrow> metric_table \<Rightarrow> ticker \<Rightarrow> OhlcvBar list \<Rightarrow> ExcludedTicker option res" where
  "first_missing required table t [] = Inr None"
| "first_missing required table t (bar # bars) =
     (case dget table (bar_date bar, t) of
        None \<Rightarrow> Inl (KeyError t)
      | Some m \<Rightarrow>
          let missing = filter (\<lambda>name. \<not> metric_present name m) required
          in if missing \<noteq> []
             then Inr (Some \<lparr>ex_ticker = t, ex_reason = ''missing_required_metric'',
                             ex_first_missing_date = Some (bar_date bar), ex_missing_metrics = missing\<rparr>)
             else first_missing required table t bars)"

definition select_step ::
  "string list \<Rightarrow> metric_table \<Rightarrow> ticker \<times> OhlcvBar list \<Rightarrow> ticker list \<times> ExcludedTicker list
     \<Rightarrow> (ticker list \<times> ExcludedTicker list) res" where
  "select_step required table entry acc =
     (case entry of (t, bars) \<Rightarrow> case acc of (included, exclusions) \<Rightarrow>
        rbind (first_missing required table t bars) (\<lambda>excluded.
          Inr (case excluded of
                 Some x \<Rightarrow> (included, exclusions @ [x])
               | None \<Rightarrow> (included @ [t], exclusions))))"

definition needed_metrics :: "engine \<Rightarrow> string list" where
  "needed_metrics eng =
     (let required = sort (required_metric_names (en_spec eng))
      in if en_actions eng \<noteq> None then filter (\<lambda>name. name \<noteq> ''generated_signal'') required else required)"

definition select_tickers ::
  "engine \<Rightarrow> PreparedMarketData \<Rightarrow> (ticker list \<times> ExcludedTicker list) res" where
  "select_tickers eng data =
     rfold (select_step (needed_metrics eng) (pm_metrics_by_key data)) (pm_bars_by_ticker data) ([], [])"

section \<open>Marking the book\<close>

definition positions_value :: "book \<Rightarrow> day_bars \<Rightarrow> pyfloat" where
  "positions_value positions today =
     py_sum (map (\<lambda>(t, position). of_int_float (pos_quantity position) *
                    (case dget today t of Some bar \<Rightarrow> bar_close bar | None \<Rightarrow> pos_last_price position)) positions)"

definition equity_point ::
  "date \<Rightarrow> pyfloat \<Rightarrow> book \<Rightarrow> day_bars \<Rightarrow> pyfloat option \<Rightarrow> EquityPoint" where
  "equity_point current_date cash positions today previous_equity =
     (let value = positions_value positions today;
          total = cash + value;
          daily_return =
            (case previous_equity of
               None \<Rightarrow> Fin 0
             | Some prev \<Rightarrow> if py_eq prev (Fin 0) then Fin 0 else checked_div total prev - Fin 1)
      in \<lparr>eq_date = current_date, eq_cash = py_round 6 cash, eq_positions_value = py_round 6 value,
          eq_total_equity = py_round 6 total, eq_daily_return = py_round 10 daily_return\<rparr>)"

definition mark_prices :: "day_bars \<Rightarrow> book \<Rightarrow> book" where
  "mark_prices today positions =
     map (\<lambda>(t, position). (t, case dget today t of
                                 Some bar \<Rightarrow> position\<lparr>pos_last_price := bar_close bar\<rparr>
                               | None \<Rightarrow> position)) positions"

section \<open>The day loop\<close>

record run_state =
  rs_cash :: pyfloat
  rs_positions :: book
  rs_pending :: "PendingOrder list"
  rs_curve :: "EquityPoint list"
  rs_trades :: "TradeRecord list"
  rs_signals :: "SignalRecord list"
  rs_audit :: "OrderAuditRecord list"
  rs_previous_equity :: "pyfloat option"
  rs_stale :: "(ticker, int) dict"
  rs_forced :: nat

definition start_state :: "BacktestRunConfig \<Rightarrow> run_state" where
  "start_state config =
     \<lparr>rs_cash = cf_initial_capital config, rs_positions = [], rs_pending = [], rs_curve = [], rs_trades = [],
      rs_signals = [], rs_audit = [], rs_previous_equity = None, rs_stale = [], rs_forced = 0\<rparr>"

definition generate_signals ::
  "engine \<Rightarrow> PreparedMarketData \<Rightarrow> date \<Rightarrow> day_bars \<Rightarrow> book \<Rightarrow> PendingOrder list \<Rightarrow> signal_out res" where
  "generate_signals eng data current_date today positions pending =
     (case (en_actions eng, en_prepared eng) of
        (Some actions, Some prepared) \<Rightarrow>
          generate_compact_signals (en_spec eng) current_date today positions (pm_row_index_by_key prepared)
            actions (en_scores eng) pending
      | _ \<Rightarrow>
          generate_rule_signals (en_spec eng) current_date today positions (pm_metrics_by_key data)
            (pm_previous_metrics_by_key data) pending)"

text \<open>The state after the book was marked: the day's ledgers appended and the equity recorded.\<close>

definition close_day ::
  "date \<Rightarrow> day_bars \<Rightarrow> OrderAuditRecord list \<Rightarrow> exec_state \<Rightarrow> exec_state \<Rightarrow> PendingOrder list
     \<Rightarrow> (ticker, int) dict \<Rightarrow> signal_out \<Rightarrow> run_state \<Rightarrow> run_state" where
  "close_day current_date today corporate executed forced pending stale out st =
     (let positions = mark_prices today (xs_positions forced);
          point = equity_point current_date (xs_cash forced) positions today (rs_previous_equity st)
      in \<lparr>rs_cash = xs_cash forced, rs_positions = positions, rs_pending = pending @ so_orders out,
          rs_curve = rs_curve st @ [point],
          rs_trades = rs_trades st @ xs_trades executed @ xs_trades forced,
          rs_signals = rs_signals st @ so_signals out,
          rs_audit = rs_audit st @ corporate @ xs_audit executed @ xs_audit forced @ so_audit out,
          rs_previous_equity = Some (eq_total_equity point), rs_stale = stale,
          rs_forced = rs_forced st + length (xs_trades forced)\<rparr>)"

definition run_day :: "engine \<Rightarrow> PreparedMarketData \<Rightarrow> date \<times> day_bars \<Rightarrow> run_state \<Rightarrow> run_state res" where
  "run_day eng data day st =
     (case day of (current_date, today) \<Rightarrow>
        rbind (apply_corporate_actions (en_spec eng) current_date (rs_positions st) (rs_cash st))
          (\<lambda>(positions, cash, corporate).
        rbind (execute_pending_orders (en_spec eng) current_date today positions cash (rs_pending st)) (\<lambda>executed.
        case write_off_stale_positions (en_spec eng) (en_config eng) current_date today
               (xs_positions executed) (xs_cash executed) [] (rs_stale st) of (forced, pending, stale) \<Rightarrow>
          rbind (generate_signals eng data current_date today (xs_positions forced) pending) (\<lambda>out.
            Inr (close_day current_date today corporate executed forced pending stale out st)))))"

definition session_days :: "ticker list \<Rightarrow> PreparedMarketData \<Rightarrow> (date \<times> day_bars) list" where
  "session_days included data =
     filter (\<lambda>(day, bars). bars \<noteq> [])
       (map (\<lambda>day. (day, filter (\<lambda>(t, bar). t \<in> set included)
                           (case dget (pm_bars_by_date data) day of None \<Rightarrow> [] | Some bars \<Rightarrow> bars)))
          (pm_dates data))"

definition expired_orders :: "date \<Rightarrow> PendingOrder list \<Rightarrow> OrderAuditRecord list" where
  "expired_orders final_date pending =
     map (\<lambda>order. audit_record final_date (po_ticker order) (po_side order) Expired_No_Next_Session
                    (po_signal_date order) (Reason ''next_session_unavailable'')) pending"

record BacktestResult =
  br_strategy_id :: string
  br_summary :: run_summary
  br_curve :: "EquityPoint list"
  br_trades :: "TradeRecord list"
  br_signals :: "SignalRecord list"
  br_audit :: "OrderAuditRecord list"
  br_forced_exits :: nat
  br_unrealizable_equity :: pyfloat

definition unrealizable_equity :: "run_state \<Rightarrow> pyfloat" where
  "unrealizable_equity st =
     py_round 6 (py_sum (map (\<lambda>(t, position). of_int_float (pos_quantity position) * pos_last_price position)
       (filter (\<lambda>(t, position). 0 < (case dget (rs_stale st) t of None \<Rightarrow> 0 | Some n \<Rightarrow> n)) (rs_positions st))))"

definition finish_run ::
  "engine \<Rightarrow> ExcludedTicker list \<Rightarrow> (date \<times> day_bars) list \<Rightarrow> run_state \<Rightarrow> BacktestResult" where
  "finish_run eng exclusions days st =
     (let audit = (if days = [] then rs_audit st
                   else rs_audit st @ expired_orders (fst (last days)) (rs_pending st));
          final_equity = (if rs_curve st = [] then rs_cash st else eq_total_equity (last (rs_curve st)))
      in \<lparr>br_strategy_id = sp_strategy_id (en_spec eng),
          br_summary = summary_of (en_spec eng) (en_config eng) (rs_cash st) (rs_positions st) (rs_trades st)
             (rs_curve st) (rs_signals st) exclusions final_equity audit,
          br_curve = rs_curve st, br_trades = rs_trades st, br_signals = rs_signals st, br_audit = audit,
          br_forced_exits = rs_forced st, br_unrealizable_equity = unrealizable_equity st\<rparr>)"

definition run_days ::
  "engine \<Rightarrow> PreparedMarketData \<Rightarrow> (date \<times> day_bars) list \<Rightarrow> run_state res" where
  "run_days eng data days = rfold (run_day eng data) days (start_state (en_config eng))"

definition run_engine :: "talib_api option \<Rightarrow> param_memo \<Rightarrow> engine \<Rightarrow> BacktestResult res" where
  "run_engine talib memo eng =
     (if en_rows eng = [] then Inl (ValueError ''No OHLCV rows supplied'')
      else if bc_execution_timing (sp_backtest (en_spec eng)) \<noteq> NEXT_OPEN
      then Inl (ValueError ''BacktestEngine currently supports execution_timing=next_open only'')
      else
        rbind (prepare_market_data talib memo eng) (\<lambda>(data, memo').
        rbind (select_tickers eng data) (\<lambda>(included, exclusions).
          let days = session_days included data
          in rbind (run_days eng data days) (\<lambda>st. Inr (finish_run eng exclusions days st)))))"

end
