(* ===== verification/Bt_Ledger.thy ===== *)
theory Bt_Ledger
  imports Bt_Execution
begin

text \<open>
  An abstract ledger for the execution of orders, and the proof that the sell and buy loops of
  \<open>_execute_pending_orders\<close> refine it.  A move of the ledger notes an order that did not fill,
  sells shares of an open position or buys shares of a name; its rules say how cash, book and
  audit trail change and within which bounds the fee lies.  Everything the later theories state
  about cash and positions is proved on these three rules.
\<close>

section \<open>Well-formed books, bars and cost settings\<close>

definition pos_ok :: "Position \<Rightarrow> bool" where
  "pos_ok p \<longleftrightarrow> 0 < pos_quantity p
     \<and> (\<exists>ep. 0 < ep \<and> pos_entry_price p = Fin ep
            \<and> pos_entry_notional p = Fin (of_int (pos_quantity p) * ep))
     \<and> (\<exists>ec. 0 \<le> ec \<and> pos_entry_cost p = Fin ec)
     \<and> (\<exists>lp. 0 \<le> lp \<and> pos_last_price p = Fin lp)"

definition book_ok :: "book \<Rightarrow> bool" where
  "book_ok b \<longleftrightarrow> dict_ok b \<and> (\<forall>(t, p) \<in> set b. pos_ok p)"

definition bar_ok :: "OhlcvBar \<Rightarrow> bool" where
  "bar_ok b \<longleftrightarrow> (\<exists>c. 0 \<le> c \<and> bar_close b = Fin c)"

definition day_ok :: "day_bars \<Rightarrow> bool" where
  "day_ok today \<longleftrightarrow> dict_ok today \<and> (\<forall>(t, b) \<in> set today. bar_ok b)"

definition opens_finite :: "day_bars \<Rightarrow> bool" where
  "opens_finite today \<longleftrightarrow> (\<forall>(t, b) \<in> set today. isfinite (bar_open b))"

definition exec_ok :: "exec_state \<Rightarrow> bool" where
  "exec_ok st \<longleftrightarrow> book_ok (xs_positions st) \<and> isfinite (xs_cash st)"

text \<open>An order that passed \<open>classify_pending\<close>.\<close>

definition executable_order :: "date \<Rightarrow> day_bars \<Rightarrow> PendingOrder \<Rightarrow> bool" where
  "executable_order d today x \<longleftrightarrow> po_signal_date x < d
     \<and> (\<exists>bar op. dget today (po_ticker x) = Some bar \<and> bar_open bar = Fin op \<and> 0 < op)"

text \<open>Half a unit of the last rounded decimal when fees are rounded half up, else nothing.\<close>

definition fee_slack :: "StrategySpec \<Rightarrow> rat" where
  "fee_slack spec =
     (if cm_rounding_mode (spec_cost spec) = Round_Half_Up
      then 1 / (2 * 10 ^ cm_rounding_decimals (spec_cost spec)) else 0)"

definition sane_prices :: "StrategySpec \<Rightarrow> bool" where
  "sane_prices spec \<longleftrightarrow> spec_valid spec \<and> cm_slippage_pct (spec_cost spec) < 1"

lemma book_okD: "book_ok b \<Longrightarrow> dget b t = Some p \<Longrightarrow> pos_ok p"
  by (auto simp: book_ok_def dest!: dget_in_set)

lemma book_ok_dset [inv_intros]: "book_ok b \<Longrightarrow> pos_ok p \<Longrightarrow> book_ok (dset t p b)"
  using set_dset_subset[of t p b] by (auto simp: book_ok_def inv_intros)

lemma book_ok_dpop [inv_intros]: "book_ok b \<Longrightarrow> book_ok (dpop t b)"
  by (auto simp: book_ok_def inv_intros set_dpop)

lemma book_ok_Nil [simp, inv_intros]: "book_ok []"
  by (simp add: book_ok_def)

lemma classify_executable:
  assumes "classify_pending d today pending = (executable, audit)" and "x \<in> set executable"
  shows "executable_order d today x" and "x \<in> set pending"
proof -
  have "executable_order d today x \<and> x \<in> set pending"
    using assms
  proof (induction pending arbitrary: executable audit)
    case (Cons y pending)
    obtain ex au where ea: "classify_pending d today pending = (ex, au)" by fastforce
    show ?case
    proof (cases "x \<in> set ex")
      case True
      with Cons.IH[OF ea] show ?thesis by simp
    next
      case False
      with Cons.prems ea have "x = y" and "executable_order d today y"
        by (auto simp: executable_order_def isfinite_iff not_le split: if_splits option.splits)
      then show ?thesis by simp
    qed
  qed simp
  then show "executable_order d today x" and "x \<in> set pending" by auto
qed

lemma classify_filter:
  "fst (classify_pending d today pending) = filter (\<lambda>x. executable_order d today x) pending"
proof (induction pending)
  case (Cons x pending)
  obtain ex au where ea: "classify_pending d today pending = (ex, au)" by fastforce
  with Cons show ?case
    by (cases "dget today (po_ticker x)")
       (auto simp: executable_order_def isfinite_iff not_le split: if_splits)
qed simp

lemma classify_audit_status:
  "a \<in> set (snd (classify_pending d today pending)) \<Longrightarrow>
     au_status a \<in> {Expired_Next_Session, Unfilled_Invalid_Open} \<and> au_date a = d \<and> au_signal_date a < d"
proof (induction pending)
  case (Cons x pending)
  obtain ex au where ea: "classify_pending d today pending = (ex, au)" by fastforce
  with Cons show ?case by (auto split: if_splits option.splits)
qed simp

section \<open>Fees\<close>

lemma cost_decimal_bounds:
  "\<exists>w. cost_decimal spec (Fin v) = Inr (Fin w) \<and> (0 \<le> v \<longrightarrow> 0 \<le> w) \<and> w \<le> v + fee_slack spec"
proof -
  let ?d = "cm_rounding_decimals (spec_cost spec)"
  have "of_int \<lfloor>v * 10 ^ ?d\<rfloor> \<le> v * 10 ^ ?d" by simp
  then have fl: "of_int \<lfloor>v * 10 ^ ?d\<rfloor> / 10 ^ ?d \<le> v" by (simp add: divide_le_eq)
  have "of_int (half_up (v * 10 ^ ?d)) \<le> v * 10 ^ ?d + 1 / 2"
    using half_up_dist[of "v * 10 ^ ?d"] by linarith
  then have "of_int (half_up (v * 10 ^ ?d)) / 10 ^ ?d \<le> (v * 10 ^ ?d + 1 / 2) / 10 ^ ?d"
    by (rule divide_right_mono) simp
  also have "\<dots> = v + 1 / (2 * 10 ^ ?d)" by (simp add: field_simps)
  finally have hu: "of_int (half_up (v * 10 ^ ?d)) / 10 ^ ?d \<le> v + 1 / (2 * 10 ^ ?d)" .
  show ?thesis
    using fl hu by (cases "cm_rounding_mode (spec_cost spec)")
      (auto simp: cost_decimal_def Let_def fee_slack_def half_up_def)
qed

lemma fee_slack_nonneg [simp]: "0 \<le> fee_slack spec"
  by (simp add: fee_slack_def)

section \<open>The abstract ledger\<close>

definition executed_record ::
  "OrderAuditRecord \<Rightarrow> date \<Rightarrow> ticker \<Rightarrow> order_side \<Rightarrow> int \<Rightarrow> rat \<Rightarrow> rat \<Rightarrow> bool" where
  "executed_record a d t side q gross fee \<longleftrightarrow>
     au_status a = Executed \<and> au_date a = d \<and> au_signal_date a < d \<and> au_ticker a = t
     \<and> au_side a = side \<and> au_filled_quantity a = Some q
     \<and> au_notional a = Some (py_round 6 (Fin gross)) \<and> au_cost a = Some (py_round 6 (Fin fee))"

definition reduce_position :: "Position \<Rightarrow> int \<Rightarrow> Position" where
  "reduce_position p q =
     (let share = of_int q / of_int (pos_quantity p)
      in p\<lparr>pos_quantity := pos_quantity p - q,
           pos_entry_notional := pos_entry_notional p - pos_entry_notional p * Fin share,
           pos_entry_cost := pos_entry_cost p - pos_entry_cost p * Fin share\<rparr>)"

definition sell_positions :: "ticker \<Rightarrow> Position \<Rightarrow> int \<Rightarrow> book \<Rightarrow> book" where
  "sell_positions t p q b =
     (if q = pos_quantity p then dpop t b else dset t (reduce_position p q) b)"

inductive ledger_move :: "StrategySpec \<Rightarrow> date \<Rightarrow> exec_state \<Rightarrow> exec_state \<Rightarrow> bool"
  for spec d where
  noted: "au_status a \<noteq> Executed \<Longrightarrow> au_date a = d \<Longrightarrow>
    ledger_move spec d st (st\<lparr>xs_audit := xs_audit st @ [a]\<rparr>)"
| sold: "dget (xs_positions st) t = Some p \<Longrightarrow> 0 < q \<Longrightarrow> q \<le> pos_quantity p \<Longrightarrow> 0 < price \<Longrightarrow>
    xs_cash st = Fin c \<Longrightarrow> 0 \<le> fee \<Longrightarrow>
    fee \<le> of_int q * price * (cm_commission_pct (spec_cost spec) + cm_tax_pct (spec_cost spec))
            + 2 * fee_slack spec \<Longrightarrow>
    executed_record a d t Side_Sell q (of_int q * price) fee \<Longrightarrow>
    tr_ticker r = t \<Longrightarrow> tr_quantity r = q \<Longrightarrow>
    st' = st\<lparr>xs_positions := sell_positions t p q (xs_positions st),
             xs_cash := Fin (c + (of_int q * price - fee)),
             xs_trades := xs_trades st @ [r], xs_audit := xs_audit st @ [a]\<rparr> \<Longrightarrow>
    ledger_move spec d st st'"
| bought: "0 < q \<Longrightarrow> 0 < price \<Longrightarrow> xs_cash st = Fin c \<Longrightarrow> 0 \<le> fee \<Longrightarrow>
    of_int q * price + fee \<le> c + fee_slack spec \<Longrightarrow>
    (case ps_max_positions (sp_position_sizing spec) of
       None \<Rightarrow> True | Some m \<Rightarrow> int (length (xs_positions st)) < m) \<Longrightarrow>
    executed_record a d t Side_Buy q (of_int q * price) fee \<Longrightarrow>
    pos_ok p \<Longrightarrow> pos_quantity p = q \<Longrightarrow> pos_ticker p = t \<Longrightarrow>
    pos_entry_price p = Fin price \<Longrightarrow> pos_entry_cost p = Fin fee \<Longrightarrow>
    st' = st\<lparr>xs_positions := dset t p (xs_positions st),
             xs_cash := Fin (c - (of_int q * price + fee)),
             xs_audit := xs_audit st @ [a]\<rparr> \<Longrightarrow>
    ledger_move spec d st st'"

inductive ledger_run :: "StrategySpec \<Rightarrow> date \<Rightarrow> exec_state \<Rightarrow> exec_state \<Rightarrow> bool"
  for spec d where
  done_run: "ledger_run spec d st st"
| next_move: "ledger_run spec d st st' \<Longrightarrow> ledger_move spec d st' st'' \<Longrightarrow> ledger_run spec d st st''"

lemma ledger_run_trans: "ledger_run spec d b c \<Longrightarrow> ledger_run spec d a b \<Longrightarrow> ledger_run spec d a c"
  by (induction rule: ledger_run.induct) (auto intro: ledger_run.intros)

lemma ledger_run_one: "ledger_move spec d a b \<Longrightarrow> ledger_run spec d a b"
  by (rule next_move[OF done_run])

lemma pos_ok_reduce:
  assumes "pos_ok p" and "0 < q" and "q < pos_quantity p"
  shows "pos_ok (reduce_position p q)"
proof -
  from assms(1) obtain ep ec lp where ep: "0 < ep" "pos_entry_price p = Fin ep"
      "pos_entry_notional p = Fin (of_int (pos_quantity p) * ep)"
    and ec: "0 \<le> ec" "pos_entry_cost p = Fin ec" and lp: "0 \<le> lp" "pos_last_price p = Fin lp"
    by (auto simp: pos_ok_def)
  let ?Q = "pos_quantity p"
  have Q: "(of_int ?Q :: rat) > 0" using assms by simp
  have "ec - ec * (of_int q / of_int ?Q) = ec * (of_int (?Q - q) / of_int ?Q)"
    using Q by (simp add: field_simps)
  also have "\<dots> \<ge> 0" using ec assms by simp
  finally have "0 \<le> ec - ec * (of_int q / of_int ?Q)" .
  moreover have "of_int ?Q * ep - of_int ?Q * ep * (of_int q / of_int ?Q) = of_int (?Q - q) * ep"
    using Q by (simp add: field_simps)
  ultimately show ?thesis using assms ep ec lp
    by (simp add: pos_ok_def reduce_position_def Let_def)
qed

lemma ledger_move_ok: "ledger_move spec d st st' \<Longrightarrow> exec_ok st \<Longrightarrow> exec_ok st'"
proof (induction rule: ledger_move.induct)
  case (sold st t p q price c fee a r st')
  then have "pos_ok p" by (auto simp: exec_ok_def dest: book_okD)
  with sold show ?case
    by (auto simp: exec_ok_def sell_positions_def intro!: book_ok_dset book_ok_dpop pos_ok_reduce)
qed (auto simp: exec_ok_def inv_intros)

lemma ledger_run_ok: "ledger_run spec d st st' \<Longrightarrow> exec_ok st \<Longrightarrow> exec_ok st'"
  by (induction rule: ledger_run.induct) (auto dest: ledger_move_ok)

end
