(* ===== verification/Bt_Refine.thy ===== *)
theory Bt_Refine
  imports Bt_Ledger
begin

text \<open>
  The sell and buy loops of \<open>_execute_pending_orders\<close> are runs of the abstract ledger: every
  iteration that returns is a ledger move, and under finite opens every iteration returns.
\<close>

section \<open>Filling a sell\<close>

lemma trade_record_simps [simp]:
  "tr_ticker (trade_record t p d price q gross en ec xc r) = t"
  "tr_quantity (trade_record t p d price q gross en ec xc r) = q"
  "tr_reason (trade_record t p d price q gross en ec xc r) = r"
  by (simp_all add: trade_record_def Let_def)

lemma sell_audit_executed:
  assumes "po_side x = Side_Sell" and "po_signal_date x < d"
  shows "executed_record (sell_audit spec d x price q requested (Fin gross) (Fin cc) (Fin tc) sc rate)
    d (po_ticker x) Side_Sell q gross (cc + tc)"
  using assms by (simp add: executed_record_def sell_audit_def)

lemma buy_audit_executed:
  assumes "po_side x = Side_Buy" and "po_signal_date x < d"
  shows "executed_record (buy_audit spec d x price q requested (Fin gross) (Fin cc) sc rate)
    d (po_ticker x) Side_Buy q gross cc"
  using assms by (simp add: executed_record_def buy_audit_def)

lemma fill_sell_move:
  assumes valid: "spec_valid spec" and p: "dget (xs_positions st) (po_ticker x) = Some p" "pos_ok p"
    and q: "0 < q" "q \<le> pos_quantity p" and sp: "0 < sp" and op: "bar_open bar = Fin op"
    and c: "xs_cash st = Fin c" and x: "po_side x = Side_Sell" "po_signal_date x < d"
  shows "\<exists>st'. fill_sell spec d bar x p (Fin sp) q st = Inr st' \<and> ledger_move spec d st st'"
proof -
  let ?Q = "pos_quantity p" and ?cm = "spec_cost spec"
  have Q: "(of_int ?Q :: rat) \<noteq> 0" using q by simp
  have g0: "0 \<le> of_int q * sp" using q sp by simp
  obtain cc where cc: "cost_decimal spec (Fin (of_int q * sp * cm_commission_pct ?cm)) = Inr (Fin cc)"
      "0 \<le> cc" "cc \<le> of_int q * sp * cm_commission_pct ?cm + fee_slack spec"
    using cost_decimal_bounds[of spec "of_int q * sp * cm_commission_pct ?cm"]
      mult_nonneg_nonneg[OF g0 spec_valid_cost(1)[OF valid]] by auto
  obtain tc where tc: "cost_decimal spec (Fin (of_int q * sp * cm_tax_pct ?cm)) = Inr (Fin tc)"
      "0 \<le> tc" "tc \<le> of_int q * sp * cm_tax_pct ?cm + fee_slack spec"
    using cost_decimal_bounds[of spec "of_int q * sp * cm_tax_pct ?cm"]
      mult_nonneg_nonneg[OF g0 spec_valid_cost(2)[OF valid]] by auto
  obtain sc where sc: "cost_decimal spec (Fin (of_int q * (op - sp))) = Inr (Fin sc)"
    using cost_decimal_bounds[of spec "of_int q * (op - sp)"] by auto
  from p(2) obtain ep ec where ep: "pos_entry_notional p = Fin (of_int ?Q * ep)" and ec: "pos_entry_cost p = Fin ec"
    by (auto simp: pos_ok_def)
  have fee: "cc + tc \<le> of_int q * sp * (cm_commission_pct ?cm + cm_tax_pct ?cm) + 2 * fee_slack spec"
    using cc(3) tc(3) by (simp add: algebra_simps)
  let ?a = "sell_audit spec d x (Fin sp) q ?Q (Fin (of_int q * sp)) (Fin cc) (Fin tc) (Fin sc)
      (Fin (of_int q / of_int ?Q))"
  let ?r = "trade_record (po_ticker x) p d (Fin sp) q (Fin (of_int q * sp))
      (Fin (of_int ?Q * ep * of_int q / of_int ?Q)) (Fin (ec * of_int q / of_int ?Q))
      (Fin (cc + tc)) (po_reason x)"
  let ?st = "st\<lparr>xs_positions := sell_positions (po_ticker x) p q (xs_positions st),
      xs_cash := Fin (c + (of_int q * sp - (cc + tc))),
      xs_trades := xs_trades st @ [?r], xs_audit := xs_audit st @ [?a]\<rparr>"
  have "fill_sell spec d bar x p (Fin sp) q st = Inr ?st"
    using Q by (simp add: fill_sell_def Let_def op ep ec cc(1) tc(1) sc c
        sell_positions_def reduce_position_def)
  moreover have "ledger_move spec d st ?st"
    by (rule ledger_move.sold[OF p(1) q sp c _ fee sell_audit_executed[OF x] _ _ refl])
       (use cc tc in simp_all)
  ultimately show ?thesis by blast
qed

lemma capacity_quantity_cases:
  assumes "0 < price"
  shows "\<exists>cap reason. capacity_quantity spec x (Fin price) = Inr (cap, reason)"
  using assms
  by (auto simp: capacity_quantity_def isfinite_iff split: option.splits)

lemma cap_min_le: "cap_min q cap \<le> q"
  by (cases cap) auto

lemma sell_step_move:
  assumes sane: "sane_prices spec" and ok: "exec_ok st" and ex: "executable_order d today x"
    and side: "po_side x = Side_Sell"
  shows "\<exists>st'. sell_step spec d today x st = Inr st' \<and> ledger_move spec d st st'"
proof (cases "dget (xs_positions st) (po_ticker x)")
  case None
  then show ?thesis by (auto simp: sell_step_def intro!: ledger_move.noted)
next
  case (Some p)
  from ex obtain bar op where bar: "dget today (po_ticker x) = Some bar" "bar_open bar = Fin op" "0 < op"
    and sd: "po_signal_date x < d" by (auto simp: executable_order_def)
  let ?sp = "op * (1 - cm_slippage_pct (spec_cost spec))"
  have sp: "0 < ?sp" using bar sane by (simp add: sane_prices_def)
  from ok obtain c where c: "xs_cash st = Fin c" by (auto simp: exec_ok_def isfinite_iff)
  have p: "pos_ok p" using ok Some by (auto simp: exec_ok_def dest: book_okD)
  obtain cap reason where cap: "capacity_quantity spec x (Fin ?sp) = Inr (cap, reason)"
    using capacity_quantity_cases[OF sp] by blast
  let ?q = "cap_min (pos_quantity p) cap"
  show ?thesis
  proof (cases "reason = None \<and> 0 < ?q")
    case False
    with Some bar cap show ?thesis
      by (auto simp: sell_step_def Let_def unfilled_capacity_audit_def
          intro!: ledger_move.noted split: option.splits)
  next
    case True
    have "\<exists>st'. fill_sell spec d bar x p (Fin ?sp) ?q st = Inr st' \<and> ledger_move spec d st st'"
      by (rule fill_sell_move) (use True Some p sp bar c side sd sane in
          \<open>auto simp: sane_prices_def cap_min_le\<close>)
    with True Some bar cap show ?thesis by (simp add: sell_step_def Let_def)
  qed
qed

section \<open>Filling a buy\<close>

lemma whole_shares_fin:
  assumes "0 < u" and "whole_shares (Fin a) (Fin u) = Inr n" and "0 < n"
  shows "of_int n * u \<le> a"
proof -
  have "n = max 0 \<lfloor>a / u\<rfloor>"
    using assms by (simp add: whole_shares_def)
  with assms(3) have "n = \<lfloor>a / u\<rfloor>" by simp
  then show ?thesis using floor_div_le[OF assms(1), of a] by simp
qed

lemma whole_shares_nonneg: "whole_shares a u = Inr n \<Longrightarrow> 0 \<le> n"
  by (auto simp: whole_shares_def res_simps)

lemma fill_buy_move:
  assumes valid: "spec_valid spec" and bar: "bar_open bar = Fin op" "0 < op" "bar_ok bar"
    and bp: "bp = op * (1 + cm_slippage_pct (spec_cost spec))"
    and q: "0 < q" "of_int q * (bp * (1 + cm_commission_pct (spec_cost spec))) \<le> c" "q \<le> requested"
    and c: "xs_cash st = Fin c" and x: "po_side x = Side_Buy" "po_signal_date x < d"
    and room: "case ps_max_positions (sp_position_sizing spec) of
       None \<Rightarrow> True | Some m \<Rightarrow> int (length (xs_positions st)) < m"
  shows "\<exists>st'. fill_buy spec d bar x (Fin bp) requested q st = Inr st' \<and> ledger_move spec d st st'"
proof -
  let ?cm = "spec_cost spec"
  have bp0: "0 < bp" using bp bar spec_valid_cost(3)[OF valid] by simp
  have g0: "0 \<le> of_int q * bp" using q bp0 by simp
  obtain cc where cc: "cost_decimal spec (Fin (of_int q * bp * cm_commission_pct ?cm)) = Inr (Fin cc)"
      "0 \<le> cc" "cc \<le> of_int q * bp * cm_commission_pct ?cm + fee_slack spec"
    using cost_decimal_bounds[of spec "of_int q * bp * cm_commission_pct ?cm"]
      mult_nonneg_nonneg[OF g0 spec_valid_cost(1)[OF valid]] by auto
  obtain sc where sc: "cost_decimal spec (Fin (of_int q * (bp - op))) = Inr (Fin sc)"
    using cost_decimal_bounds[of spec "of_int q * (bp - op)"] by auto
  have le: "of_int q * bp + cc \<le> c + fee_slack spec"
    using cc(3) q(2) by (simp add: algebra_simps)
  from bar(3) obtain cl where cl: "0 \<le> cl" "bar_close bar = Fin cl" by (auto simp: bar_ok_def)
  have rq: "requested \<noteq> 0" using q by simp
  let ?p = "opened_position d bar x (Fin bp) q (Fin (of_int q * bp)) (Fin cc)"
  let ?a = "buy_audit spec d x (Fin bp) q requested (Fin (of_int q * bp)) (Fin cc) (Fin sc)
      (py_round 10 (Fin (of_int q / of_int requested)))"
  let ?st = "st\<lparr>xs_positions := dset (po_ticker x) ?p (xs_positions st),
      xs_cash := Fin (c - (of_int q * bp + cc)), xs_audit := xs_audit st @ [?a]\<rparr>"
  have "fill_buy spec d bar x (Fin bp) requested q st = Inr ?st"
    using rq by (simp add: fill_buy_def Let_def bar(1) cc(1) sc c)
  moreover have "ledger_move spec d st ?st"
    by (rule ledger_move.bought[OF q(1) bp0 c cc(2) le room buy_audit_executed[OF x] _ _ _ _ _ refl])
       (use q bp0 cc cl in \<open>simp_all add: opened_position_def pos_ok_def\<close>)
  ultimately show ?thesis by blast
qed

lemma finish_buy_cases:
  assumes "finish_buy spec d bar x bp requested cashq st limit = Inr st'"
  obtains (noted) a where "au_status a \<noteq> Executed" "au_date a = d"
      "st' = st\<lparr>xs_audit := xs_audit st @ [a]\<rparr>"
  | (filled) cap where "0 < cap_min (min requested cashq) cap"
      "fill_buy spec d bar x bp requested (cap_min (min requested cashq) cap) st = Inr st'"
proof -
  obtain cap reason where l: "limit = (cap, reason)" by fastforce
  consider (cap) r where "reason = Some r" | (none) "reason = None" "cap_min (min requested cashq) cap \<le> 0"
    | (fill) "reason = None" "0 < cap_min (min requested cashq) cap"
    by (cases reason) force+
  then show thesis
  proof cases
    case (cap r)
    with assms l have "st' = st\<lparr>xs_audit := xs_audit st @ [unfilled_capacity_audit d x r requested]\<rparr>"
      by (simp add: finish_buy_def)
    then show thesis by (rule noted[rotated 2]) (simp_all add: unfilled_capacity_audit_def)
  next
    case none
    with assms l have "st' = st\<lparr>xs_audit := xs_audit st @
        [(audit_record d (po_ticker x) (po_side x) Unfilled (po_signal_date x)
            (Reason (unfilled_buy_reason cashq cap)))
           \<lparr>au_price := Some (py_round 6 bp), au_requested_quantity := Some requested,
            au_filled_quantity := Some 0, au_fill_rate := Some (Fin 0)\<rparr>]\<rparr>"
      by (simp add: finish_buy_def)
    then show thesis by (rule noted[rotated 2]) simp_all
  next
    case fill
    with assms l show thesis by (intro filled[of cap]) (simp_all add: finish_buy_def)
  qed
qed

lemma buy_step_cases:
  assumes st': "buy_step spec d today n x st = Inr st'"
    and bar: "dget today (po_ticker x) = Some bar" "bar_open bar = Fin op"
    and bp: "bp = op * (1 + cm_slippage_pct (spec_cost spec))"
    and u: "0 < bp * (1 + cm_commission_pct (spec_cost spec))"
  obtains (noted) a where "au_status a \<noteq> Executed" "au_date a = d"
      "st' = st\<lparr>xs_audit := xs_audit st @ [a]\<rparr>"
  | (filled) requested cashq cap where
      "case ps_max_positions (sp_position_sizing spec) of
         None \<Rightarrow> True | Some m \<Rightarrow> int (length (xs_positions st)) < m"
      "whole_shares (xs_cash st) (Fin (bp * (1 + cm_commission_pct (spec_cost spec)))) = Inr cashq"
      "0 < cap_min (min requested cashq) cap"
      "fill_buy spec d bar x (Fin bp) requested (cap_min (min requested cashq) cap) st = Inr st'"
proof (cases "case ps_max_positions (sp_position_sizing spec) of
    None \<Rightarrow> True | Some m \<Rightarrow> int (length (xs_positions st)) < m")
  case False
  then have "st' = st\<lparr>xs_audit := xs_audit st @ [audit_record d (po_ticker x) (po_side x)
      Skipped_Max_Positions (po_signal_date x) (po_reason x)]\<rparr>"
    using st' by (auto simp: buy_step_def split: option.splits)
  then show ?thesis by (rule noted[rotated 2]) simp_all
next
  case True
  let ?u = "Fin (bp * (1 + cm_commission_pct (spec_cost spec)))"
  from True have "\<not> (case ps_max_positions (sp_position_sizing spec) of
      None \<Rightarrow> False | Some m \<Rightarrow> m \<le> int (length (xs_positions st)))"
    by (auto split: option.splits)
  then obtain requested cashq limit where
      cashq: "whole_shares (xs_cash st) ?u = Inr cashq"
      and fin: "finish_buy spec d bar x (Fin bp) requested cashq st limit = Inr st'"
    using st' bar u unfolding bp buy_step_def Let_def by (auto simp: rbind_eq_Inr)
  from fin show ?thesis
  proof (cases rule: finish_buy_cases)
    case (noted a)
    with that(1) show ?thesis by blast
  next
    case (filled cap)
    with that(2) True cashq show ?thesis by blast
  qed
qed

lemma buy_step_move:
  assumes valid: "spec_valid spec" and ok: "exec_ok st" and day: "day_ok today"
    and ex: "executable_order d today x" and side: "po_side x = Side_Buy"
    and st': "buy_step spec d today n x st = Inr st'"
  shows "ledger_move spec d st st'"
proof -
  from ex obtain bar op where bar: "dget today (po_ticker x) = Some bar" "bar_open bar = Fin op" "0 < op"
    and sd: "po_signal_date x < d" by (auto simp: executable_order_def)
  let ?bp = "op * (1 + cm_slippage_pct (spec_cost spec))"
  let ?u = "?bp * (1 + cm_commission_pct (spec_cost spec))"
  have u: "0 < ?u" using bar spec_valid_cost[OF valid] by simp
  from ok obtain c where c: "xs_cash st = Fin c" by (auto simp: exec_ok_def isfinite_iff)
  have bok: "bar_ok bar" using day bar(1) by (auto simp: day_ok_def dest!: dget_in_set)
  from st' bar(1,2) refl u show ?thesis
  proof (cases rule: buy_step_cases)
    case (noted a)
    then show ?thesis by (auto intro: ledger_move.noted)
  next
    case (filled requested cashq cap)
    let ?q = "cap_min (min requested cashq) cap"
    have qle: "?q \<le> requested" "?q \<le> cashq" using cap_min_le[of "min requested cashq" cap] by auto
    have "of_int ?q * ?u \<le> of_int cashq * ?u" using qle(2) u by (intro mult_right_mono) auto
    also have "\<dots> \<le> c" using whole_shares_fin[OF u] filled(2,3) qle(2) c by simp
    finally have "of_int ?q * ?u \<le> c" .
    from fill_buy_move[OF valid bar(2,3) bok refl filled(3) this qle(1) c side sd filled(1)] filled(4)
    show ?thesis by auto
  qed
qed

end
