(* ===== verification/Bt_Exec_Props.thy ===== *)
theory Bt_Exec_Props
  imports Bt_Refine
begin

text \<open>
  Consequences of the refinement: when the execution of a session returns, what it keeps of
  cash, slots and the rest of the book, and how the audit trail accounts for the cash.
\<close>

section \<open>Returning\<close>

lemma open_value_fin:
  assumes "book_ok b" and "opens_finite today"
  shows "\<exists>v. open_value today b = Fin v"
proof -
  define f where "f = (\<lambda>(t, position :: Position). of_int_float (pos_quantity position) *
      (case dget today t of Some bar \<Rightarrow> bar_open bar | None \<Rightarrow> pos_last_price position))"
  have "\<exists>v. f tp = Fin v" if "tp \<in> set b" for tp
  proof -
    obtain t p where tp: "tp = (t, p)" by fastforce
    with that assms(1) have "pos_ok p" by (auto simp: book_ok_def)
    then obtain lp where "pos_last_price p = Fin lp" by (auto simp: pos_ok_def)
    moreover have "\<exists>x. bar_open bar = Fin x" if "dget today t = Some bar" for bar
      using that assms(2) dget_in_set[OF that] by (auto simp: opens_finite_def isfinite_iff)
    ultimately show ?thesis by (auto simp: f_def tp split: option.splits)
  qed
  then obtain g where "\<And>tp. tp \<in> set b \<Longrightarrow> f tp = Fin (g tp)" by metis
  then have "map f b = map (\<lambda>tp. Fin (g tp)) b" by (intro map_cong) auto
  then have "py_sum (map f b) = Fin (\<Sum>tp\<leftarrow>b. g tp)" by (simp only: py_sum_fin)
  then show ?thesis by (simp add: open_value_def f_def)
qed

lemma slot_count_pos: "spec_valid spec \<Longrightarrow> 0 < slot_count spec n m"
  using spec_valid_sizing(1)[of spec] by (auto simp: slot_count_def split: option.splits dest!: spec_valid_sizing(1))

lemma buy_budget_fin:
  assumes "spec_valid spec" and "0 < slots"
  shows "\<exists>v. buy_budget spec (Fin e) (Fin pv) slots = Inr (Fin v)"
proof -
  have "\<exists>v. strategy_budget spec (Fin e) slots = Inr (Fin v)"
  proof (cases "ps_method (sp_position_sizing spec)")
    case EQUAL_WEIGHT
    with assms(2) show ?thesis by (simp add: strategy_budget_def)
  next
    case FIXED_PERCENT
    with spec_valid_sizing(2)[OF assms(1)] show ?thesis by (auto simp: strategy_budget_def)
  next
    case FIXED_RISK
    with spec_valid_sizing(3)[OF assms(1)] spec_valid_unfold(7)[OF assms(1)] obtain r sl where
      "ps_risk_per_position (sp_position_sizing spec) = Some r"
      "rc_stop_loss_pct (sp_risk_controls spec) = Some sl" by auto
    moreover from this(2) have "sl \<noteq> 0" using spec_valid_risk(3)[OF assms(1)] by auto
    ultimately show ?thesis using FIXED_RISK by (simp add: strategy_budget_def)
  qed
  then show ?thesis by (auto simp: buy_budget_def)
qed

lemma whole_shares_returns: "0 < u \<Longrightarrow> \<exists>n. whole_shares (Fin a) (Fin u) = Inr n"
  by (simp add: whole_shares_def)

lemma fill_buy_returns:
  assumes "bar_open bar = Fin op"
  shows "\<exists>st'. fill_buy spec d bar x (Fin bp) requested q st = Inr st'"
proof -
  obtain cc sc where "cost_decimal spec (Fin (of_int q * bp * cm_commission_pct (spec_cost spec))) = Inr (Fin cc)"
      "cost_decimal spec (Fin (of_int q * (bp - op))) = Inr (Fin sc)"
    using cost_decimal_bounds by blast
  with assms show ?thesis by (auto simp: fill_buy_def Let_def)
qed

lemma buy_step_returns:
  assumes valid: "spec_valid spec" and ok: "exec_ok st" and fin: "opens_finite today"
    and ex: "executable_order d today x"
  shows "\<exists>st'. buy_step spec d today n x st = Inr st'"
proof -
  from ex obtain bar op where bar: "dget today (po_ticker x) = Some bar" "bar_open bar = Fin op" "0 < op"
    by (auto simp: executable_order_def)
  let ?bp = "op * (1 + cm_slippage_pct (spec_cost spec))"
  let ?u = "?bp * (1 + cm_commission_pct (spec_cost spec))"
  have bp: "0 < ?bp" and u: "0 < ?u" using bar spec_valid_cost[OF valid] by simp_all
  from ok obtain c where c: "xs_cash st = Fin c" by (auto simp: exec_ok_def isfinite_iff)
  obtain pv where pv: "open_value today (xs_positions st) = Fin pv"
    using open_value_fin[OF _ fin] ok by (auto simp: exec_ok_def)
  obtain bg where bg: "buy_budget spec (Fin (c + pv)) (Fin pv)
      (slot_count spec (length (xs_positions st)) n) = Inr (Fin bg)"
    using buy_budget_fin[OF valid slot_count_pos[OF valid]] by blast
  obtain rq cq where ws: "whole_shares (Fin bg) (Fin ?u) = Inr rq" "whole_shares (Fin c) (Fin ?u) = Inr cq"
    using whole_shares_returns[OF u] by blast
  obtain cap reason where cq: "capacity_quantity spec x (Fin ?bp) = Inr (cap, reason)"
    using capacity_quantity_cases[OF bp] by blast
  have "\<exists>st'. finish_buy spec d bar x (Fin ?bp) rq cq st (cap, reason) = Inr st'"
    using fill_buy_returns[OF bar(2), of spec d x ?bp rq _ st]
    by (auto simp: finish_buy_def Let_def split: option.splits)
  then show ?thesis using bar u c pv bg ws cq
    by (auto simp: buy_step_def Let_def)
qed

text \<open>The two loops as instances of the loop interfaces, with the ledger run from their start
  state as part of the invariant.\<close>

interpretation sell_loop: total_loop "sell_step spec d today"
    "\<lambda>x. sane_prices spec \<and> executable_order d today x \<and> po_side x = Side_Sell"
    "\<lambda>st. exec_ok st \<and> ledger_run spec d st0 st" for spec d today st0
proof unfold_locales
  fix x s s'
  assume a: "sane_prices spec \<and> executable_order d today x \<and> po_side x = Side_Sell"
    "exec_ok s \<and> ledger_run spec d st0 s"
  obtain s1 where s1: "sell_step spec d today x s = Inr s1" "ledger_move spec d s s1"
    using sell_step_move a by blast
  then show "\<exists>s'. sell_step spec d today x s = Inr s'" by blast
  show "exec_ok s' \<and> ledger_run spec d st0 s'" if "sell_step spec d today x s = Inr s'"
    using that s1 a by (auto intro: ledger_move_ok ledger_run.next_move)
qed

interpretation buy_loop: guarded_loop "buy_step spec d today n"
    "\<lambda>x. spec_valid spec \<and> day_ok today \<and> executable_order d today x \<and> po_side x = Side_Buy"
    "\<lambda>st. exec_ok st \<and> ledger_run spec d st0 st" for spec d today n st0
  by unfold_locales (auto dest: buy_step_move intro: ledger_move_ok ledger_run.next_move)

interpretation finite_buy_loop: total_loop "buy_step spec d today n"
    "\<lambda>x. spec_valid spec \<and> day_ok today \<and> opens_finite today \<and> executable_order d today x
          \<and> po_side x = Side_Buy"
    "\<lambda>st. exec_ok st \<and> ledger_run spec d st0 st" for spec d today n st0
  by unfold_locales
     (auto dest: buy_step_move intro: ledger_move_ok ledger_run.next_move buy_step_returns)

section \<open>One session as a run of the ledger\<close>

abbreviation session_start :: "book \<Rightarrow> pyfloat \<Rightarrow> OrderAuditRecord list \<Rightarrow> exec_state" where
  "session_start b cash audit \<equiv> \<lparr>xs_positions = b, xs_cash = cash, xs_trades = [], xs_audit = audit\<rparr>"

lemma buy_queue_ok:
  assumes "classify_pending d today pending = (executable, audit)"
  shows "list_all (\<lambda>x. executable_order d today x \<and> po_side x = Side_Buy \<and> \<not> has_key b (po_ticker x))
    (buy_queue b executable)"
  using classify_executable[OF assms] by (auto simp: list_all_iff buy_queue_def)

theorem execute_refines_ledger:
  assumes sane: "sane_prices spec" and day: "day_ok today" and b: "book_ok b" and c: "isfinite cash"
    and ex: "execute_pending_orders spec d today b cash pending = Inr st"
  shows "ledger_run spec d (session_start b cash (snd (classify_pending d today pending))) st"
    and "exec_ok st"
proof -
  obtain executable audit where ca: "classify_pending d today pending = (executable, audit)" by fastforce
  let ?s0 = "session_start b cash audit"
  from ex ca obtain s1 where s1: "execute_sells spec d today executable ?s0 = Inr s1"
      and st: "rfold (buy_step spec d today (length (buy_queue (xs_positions s1) executable)))
        (buy_queue (xs_positions s1) executable) s1 = Inr st"
    by (auto simp: execute_pending_orders_def Let_def res_simps)
  have "list_all (\<lambda>x. sane_prices spec \<and> executable_order d today x \<and> po_side x = Side_Sell)
      (filter (\<lambda>x. po_side x = Side_Sell) executable)"
    using sane classify_executable(1)[OF ca] by (simp add: list_all_iff)
  moreover have "exec_ok ?s0 \<and> ledger_run spec d ?s0 ?s0" using b c by (simp add: exec_ok_def done_run)
  ultimately have run1: "exec_ok s1 \<and> ledger_run spec d ?s0 s1"
    using s1 unfolding execute_sells_def by (rule sell_loop.loop_keeps)
  let ?q = "buy_queue (xs_positions s1) executable"
  have "list_all (\<lambda>x. spec_valid spec \<and> day_ok today \<and> executable_order d today x \<and> po_side x = Side_Buy) ?q"
    using sane day buy_queue_ok[OF ca, of "xs_positions s1"] by (simp add: list_all_iff sane_prices_def)
  from buy_loop.loop_keeps[OF this run1 st]
  show "ledger_run spec d (session_start b cash (snd (classify_pending d today pending))) st"
    and "exec_ok st"
    by (simp_all add: ca)
qed

theorem execute_returns:
  assumes sane: "sane_prices spec" and day: "day_ok today" and fin: "opens_finite today"
    and b: "book_ok b" and c: "isfinite cash"
  shows "\<exists>st. execute_pending_orders spec d today b cash pending = Inr st"
proof -
  obtain executable audit where ca: "classify_pending d today pending = (executable, audit)" by fastforce
  let ?s0 = "session_start b cash audit"
  have ok0: "exec_ok ?s0 \<and> ledger_run spec d ?s0 ?s0" using b c by (simp add: exec_ok_def done_run)
  have "list_all (\<lambda>x. sane_prices spec \<and> executable_order d today x \<and> po_side x = Side_Sell)
      (filter (\<lambda>x. po_side x = Side_Sell) executable)"
    using sane classify_executable(1)[OF ca] by (auto simp: list_all_iff)
  from sell_loop.loop_returns[OF this ok0] obtain s1 where
      s1: "execute_sells spec d today executable ?s0 = Inr s1" and ok1: "exec_ok s1"
    by (auto simp: execute_sells_def)
  let ?q = "buy_queue (xs_positions s1) executable"
  have "list_all (\<lambda>x. spec_valid spec \<and> day_ok today \<and> opens_finite today \<and> executable_order d today x
      \<and> po_side x = Side_Buy) ?q"
    using sane day fin buy_queue_ok[OF ca, of "xs_positions s1"] by (auto simp: list_all_iff sane_prices_def)
  from finite_buy_loop.loop_returns[OF this, of s1 s1 "length ?q"] ok1 s1 ca show ?thesis
    by (auto simp: execute_pending_orders_def Let_def done_run)
qed

section \<open>Cash\<close>

definition fees_bounded :: "StrategySpec \<Rightarrow> bool" where
  "fees_bounded spec \<longleftrightarrow> cm_commission_pct (spec_cost spec) + cm_tax_pct (spec_cost spec) \<le> 1
     \<and> cm_rounding_mode (spec_cost spec) \<noteq> Round_Half_Up"

lemma sale_covers_fee:
  fixes g k :: rat
  assumes "0 \<le> g" and "k \<le> 1" and "fee \<le> g * k"
  shows "0 \<le> g - fee"
  using assms mult_left_mono[of k 1 g] by simp

lemma ledger_move_cash:
  assumes "ledger_move spec d st st'" and "fees_bounded spec" and "xs_cash st = Fin c" and "0 \<le> c"
  shows "\<exists>c'. xs_cash st' = Fin c' \<and> 0 \<le> c'"
  using assms
proof (induction rule: ledger_move.induct)
  case (sold st t p q price c' fee a r st')
  then have "fee \<le> of_int q * price * (cm_commission_pct (spec_cost spec) + cm_tax_pct (spec_cost spec))"
    by (simp add: fees_bounded_def fee_slack_def)
  with sold have "0 \<le> of_int q * price - fee"
    by (intro sale_covers_fee) (auto simp: fees_bounded_def)
  with sold show ?case by simp
qed (auto simp: fees_bounded_def fee_slack_def)

lemma ledger_run_cash:
  assumes "ledger_run spec d st st'" and "fees_bounded spec" and "\<exists>c. xs_cash st = Fin c \<and> 0 \<le> c"
  shows "\<exists>c'. xs_cash st' = Fin c' \<and> 0 \<le> c'"
  using assms by (induction rule: ledger_run.induct) (auto dest: ledger_move_cash)

text \<open>Whatever the rounding mode, one buy overdraws the account by at most half a rounding unit.\<close>

lemma ledger_move_overdraft:
  assumes "ledger_move spec d st st'" and "xs_trades st' = xs_trades st"
    and "xs_cash st = Fin c" and "0 \<le> c"
  shows "\<exists>c'. xs_cash st' = Fin c' \<and> - fee_slack spec \<le> c'"
  using assms
proof (induction rule: ledger_move.induct)
  case (noted a st)
  then have "- fee_slack spec \<le> c" using fee_slack_nonneg[of spec] by linarith
  with noted show ?case by simp
qed auto

section \<open>Slots\<close>

lemma ledger_move_slots:
  assumes "ledger_move spec d st st'" and "ps_max_positions (sp_position_sizing spec) = Some m"
    and "int (length (xs_positions st)) \<le> m"
  shows "int (length (xs_positions st')) \<le> m"
  using assms
proof (induction rule: ledger_move.induct)
  case (sold st t p q price c fee a r st')
  then have "has_key (xs_positions st) t" by (simp add: has_key_def)
  with sold length_dpop_le[of t "xs_positions st"] show ?case
    by (auto simp: sell_positions_def dict_simps)
qed (auto simp: dict_simps)

lemma ledger_run_slots:
  assumes "ledger_run spec d st st'" and "ps_max_positions (sp_position_sizing spec) = Some m"
    and "int (length (xs_positions st)) \<le> m"
  shows "int (length (xs_positions st')) \<le> m"
  using assms by (induction rule: ledger_run.induct) (auto dest: ledger_move_slots)

end
