(* ===== verification/Bt_Audit.thy ===== *)
theory Bt_Audit
  imports Bt_Exec_Props
begin

text \<open>
  What the order audit of a session tells about the account.  \<open>audit_flow\<close> is the cash a record
  reports, \<open>share_flow\<close> the shares; both are summed over the records a session appends and
  compared with the cash and the holdings before and after it.
\<close>

section \<open>Cash accounted for by the audit\<close>

definition audit_flow :: "OrderAuditRecord \<Rightarrow> rat" where
  "audit_flow a =
     (if au_status a \<noteq> Executed then 0
      else case (au_notional a, au_cost a) of
             (Some (Fin n), Some (Fin c)) \<Rightarrow> if au_side a = Side_Sell then n - c else - (n + c)
           | _ \<Rightarrow> 0)"

definition n_executed :: "OrderAuditRecord list \<Rightarrow> nat" where
  "n_executed as = length (filter (\<lambda>a. au_status a = Executed) as)"

definition reconciles :: "exec_state \<Rightarrow> exec_state \<Rightarrow> bool" where
  "reconciles st st' \<longleftrightarrow>
     (\<exists>new c c'. xs_audit st' = xs_audit st @ new \<and> xs_cash st = Fin c \<and> xs_cash st' = Fin c'
        \<and> \<bar>c' - (c + (\<Sum>a\<leftarrow>new. audit_flow a))\<bar> \<le> of_nat (n_executed new) / 10 ^ 6)"

lemma rounded_gap:
  obtains b where "py_round n (Fin a) = Fin b" and "\<bar>a - b\<bar> \<le> 1 / (2 * 10 ^ n)"
  using py_round_error[of n a] by simp

lemma executed_flow:
  assumes "executed_record a d t side q gross fee" and "side = Side_Sell \<or> side = Side_Buy"
  shows "\<bar>(if side = Side_Sell then gross - fee else - (gross + fee)) - audit_flow a\<bar> \<le> 1 / 10 ^ 6"
proof -
  obtain g where g: "py_round 6 (Fin gross) = Fin g" "\<bar>gross - g\<bar> \<le> 1 / (2 * 10 ^ 6)"
    by (rule rounded_gap)
  obtain f where f: "py_round 6 (Fin fee) = Fin f" "\<bar>fee - f\<bar> \<le> 1 / (2 * 10 ^ 6)"
    by (rule rounded_gap)
  have "audit_flow a = (if side = Side_Sell then g - f else - (g + f))"
    using assms(1) g(1) f(1) by (simp add: audit_flow_def executed_record_def)
  moreover have "\<bar>(gross - fee) - (g - f)\<bar> \<le> 1 / 10 ^ 6" "\<bar>- (gross + fee) - - (g + f)\<bar> \<le> 1 / 10 ^ 6"
    using g(2) f(2) by linarith+
  ultimately show ?thesis by (simp split: if_split)
qed

lemma reconcilesI:
  assumes "xs_audit st' = xs_audit st @ [a]" and "au_status a = Executed"
    and "xs_cash st = Fin c" and "xs_cash st' = Fin c'" and "\<bar>(c' - c) - audit_flow a\<bar> \<le> 1 / 10 ^ 6"
  shows "reconciles st st'"
proof -
  have "\<bar>c' - (c + audit_flow a)\<bar> \<le> 1 / 10 ^ 6" using assms(5) by (simp add: algebra_simps)
  with assms(1-4) show ?thesis unfolding reconciles_def
    by (intro exI[of _ "[a]"]) (simp add: n_executed_def)
qed

lemma ledger_move_reconciles:
  assumes "ledger_move spec d st st'" and "isfinite (xs_cash st)"
  shows "reconciles st st'"
  using assms
proof (induction rule: ledger_move.induct)
  case (noted a st)
  then show ?case unfolding reconciles_def
    by (intro exI[of _ "[a]"]) (auto simp: audit_flow_def isfinite_iff)
next
  case (sold st t p q price c fee a r st')
  then show ?case using executed_flow[OF sold(8)]
    by (intro reconcilesI[of _ _ a c]) (auto simp: executed_record_def)
next
  case (bought q price st c fee a t p st')
  then show ?case using executed_flow[OF bought(7)]
    by (intro reconcilesI[of _ _ a c]) (auto simp: executed_record_def)
qed

lemma reconciles_trans:
  assumes "reconciles a b" and "reconciles b c"
  shows "reconciles a c"
proof -
  from assms obtain n m x y z where
    ab: "xs_audit b = xs_audit a @ n" "xs_cash a = Fin x" "xs_cash b = Fin y"
      "\<bar>y - (x + (\<Sum>a\<leftarrow>n. audit_flow a))\<bar> \<le> of_nat (n_executed n) / 10 ^ 6" and
    bc: "xs_audit c = xs_audit b @ m" "xs_cash c = Fin z"
      "\<bar>z - (y + (\<Sum>a\<leftarrow>m. audit_flow a))\<bar> \<le> of_nat (n_executed m) / 10 ^ 6"
    by (auto simp: reconciles_def)
  have len: "(of_nat (n_executed (n @ m)) :: rat) = of_nat (n_executed n) + of_nat (n_executed m)"
    by (simp add: n_executed_def)
  have "\<bar>z - (x + (\<Sum>a\<leftarrow>n @ m. audit_flow a))\<bar> \<le> of_nat (n_executed (n @ m)) / 10 ^ 6"
    using ab(4) bc(3) unfolding len map_append sum_list_append add_divide_distrib by linarith
  with ab bc show ?thesis unfolding reconciles_def by (intro exI[of _ "n @ m"]) simp
qed

lemma reconciles_refl: "isfinite (xs_cash st) \<Longrightarrow> reconciles st st"
  by (auto simp: reconciles_def isfinite_iff intro!: exI[of _ "[]"])

lemma ledger_run_reconciles:
  assumes "ledger_run spec d st st'" and "exec_ok st"
  shows "reconciles st st'"
  using assms
proof (induction rule: ledger_run.induct)
  case (done_run st)
  then show ?case by (simp add: reconciles_refl exec_ok_def)
next
  case (next_move st st' st'')
  then have "exec_ok st'" by (auto intro: ledger_run_ok)
  with next_move show ?case
    by (auto intro: reconciles_trans ledger_move_reconciles simp: exec_ok_def)
qed

section \<open>Shares accounted for by the audit\<close>

definition share_flow :: "ticker \<Rightarrow> OrderAuditRecord \<Rightarrow> int" where
  "share_flow t a =
     (if au_status a = Executed \<and> au_ticker a = t
      then (case au_filled_quantity a of
              None \<Rightarrow> 0 | Some q \<Rightarrow> if au_side a = Side_Sell then - q else q)
      else 0)"

definition held :: "book \<Rightarrow> ticker \<Rightarrow> int" where
  "held b t = (case dget b t of None \<Rightarrow> 0 | Some p \<Rightarrow> pos_quantity p)"

text \<open>A step changed the holdings exactly by what the records it appended say.\<close>

definition shares_match :: "exec_state \<Rightarrow> exec_state \<Rightarrow> bool" where
  "shares_match st st' \<longleftrightarrow>
     (\<exists>new. xs_audit st' = xs_audit st @ new
        \<and> (\<forall>t. held (xs_positions st') t = held (xs_positions st) t + (\<Sum>a\<leftarrow>new. share_flow t a)))"

lemma shares_match_refl: "shares_match st st"
  by (auto simp: shares_match_def intro!: exI[of _ "[]"])

lemma shares_match_trans:
  assumes "shares_match a b" and "shares_match b c"
  shows "shares_match a c"
proof -
  from assms obtain n m where
    "xs_audit b = xs_audit a @ n" "xs_audit c = xs_audit b @ m"
    "\<forall>t. held (xs_positions b) t = held (xs_positions a) t + (\<Sum>a\<leftarrow>n. share_flow t a)"
    "\<forall>t. held (xs_positions c) t = held (xs_positions b) t + (\<Sum>a\<leftarrow>m. share_flow t a)"
    unfolding shares_match_def by blast
  then show ?thesis unfolding shares_match_def by (intro exI[of _ "n @ m"]) simp
qed

text \<open>The audit record of a bought position names a ticker that was not held.\<close>

definition fresh_buys :: "exec_state \<Rightarrow> exec_state \<Rightarrow> bool" where
  "fresh_buys st st' \<longleftrightarrow>
     (\<forall>a. xs_audit st' = xs_audit st @ [a] \<and> au_side a = Side_Buy
        \<longrightarrow> dget (xs_positions st) (au_ticker a) = None)"

lemma ledger_move_shares:
  assumes "ledger_move spec d st st'" and "fresh_buys st st'"
  shows "shares_match st st'"
  using assms
proof (induction rule: ledger_move.induct)
  case (noted a st)
  then show ?case unfolding shares_match_def
    by (intro exI[of _ "[a]"]) (simp add: share_flow_def)
next
  case (sold st t p q price c fee a r st')
  then show ?case unfolding shares_match_def
    by (intro exI[of _ "[a]"])
       (auto simp: share_flow_def executed_record_def held_def sell_positions_def
          reduce_position_def Let_def dict_simps)
next
  case (bought q price st c fee a t p st')
  then have "dget (xs_positions st) t = None"
    by (auto simp: fresh_buys_def executed_record_def)
  with bought show ?case unfolding shares_match_def
    by (intro exI[of _ "[a]"])
       (auto simp: share_flow_def executed_record_def held_def dget_dset)
qed

text \<open>A record that answers an order: its outcome at session \<open>d\<close>.\<close>

definition outcome :: "audit_status \<Rightarrow> bool" where
  "outcome s \<longleftrightarrow> s \<in> {Executed, Expired_Next_Session, Unfilled_Invalid_Open, Ignored_Missing_Position,
     Unfilled_Capacity, Skipped_Max_Positions, Unfilled, Expired_No_Next_Session}"

definition answers :: "date \<Rightarrow> PendingOrder \<Rightarrow> OrderAuditRecord \<Rightarrow> bool" where
  "answers d x a \<longleftrightarrow> au_date a = d \<and> au_ticker a = po_ticker x \<and> au_side a = po_side x
     \<and> au_signal_date a = po_signal_date x \<and> outcome (au_status a)"

definition noted_by :: "date \<Rightarrow> PendingOrder \<Rightarrow> exec_state \<Rightarrow> exec_state \<Rightarrow> bool" where
  "noted_by d x st st' \<longleftrightarrow> (\<exists>a. xs_audit st' = xs_audit st @ [a] \<and> answers d x a)"

lemma noted_byI: "answers d x a \<Longrightarrow> noted_by d x st (st\<lparr>xs_audit := xs_audit st @ [a]\<rparr>)"
  by (simp add: noted_by_def)

lemma answers_audit_record [simp]:
  "answers d x (audit_record d (po_ticker x) (po_side x) s (po_signal_date x) r) = outcome s"
  "answers d x (unfilled_capacity_audit d x reason requested)"
  by (simp_all add: answers_def unfilled_capacity_audit_def outcome_def)

lemma fill_buy_shape:
  assumes "fill_buy spec d bar x bp requested q st = Inr st'"
  shows "noted_by d x st st' \<and> (\<exists>p. xs_positions st' = dset (po_ticker x) p (xs_positions st))"
  using assms unfolding fill_buy_def Let_def
  by (auto simp: rbind_eq_Inr buy_audit_def noted_by_def answers_def outcome_def split: if_splits)

lemma finish_buy_shape:
  assumes "finish_buy spec d bar x bp requested cashq st limit = Inr st'"
  shows "noted_by d x st st' \<and> (\<forall>t. t \<noteq> po_ticker x \<longrightarrow> dget (xs_positions st') t = dget (xs_positions st) t)"
proof -
  obtain cap reason where l: "limit = (cap, reason)" by fastforce
  consider (cap) r where "reason = Some r" | (none) "reason = None" "cap_min (min requested cashq) cap \<le> 0"
    | (fill) "reason = None" "0 < cap_min (min requested cashq) cap"
    by (cases reason) force+
  then show ?thesis
  proof cases
    case fill
    with assms l have "fill_buy spec d bar x bp requested (cap_min (min requested cashq) cap) st = Inr st'"
      by (simp add: finish_buy_def)
    from fill_buy_shape[OF this] show ?thesis by (auto simp: dget_dset)
  next
    case (cap r)
    with assms l show ?thesis by (auto simp: finish_buy_def intro!: noted_byI)
  next
    case none
    with assms l show ?thesis
      by (auto simp: finish_buy_def answers_def outcome_def intro!: noted_byI)
  qed
qed

lemma buy_step_shape:
  assumes "buy_step spec d today n x st = Inr st'"
  shows "noted_by d x st st' \<and> (\<forall>t. t \<noteq> po_ticker x \<longrightarrow> dget (xs_positions st') t = dget (xs_positions st) t)"
  using assms unfolding buy_step_def Let_def
  by (auto simp: rbind_eq_Inr outcome_def intro!: noted_byI split: if_splits option.splits dest!: finish_buy_shape)

lemma fill_sell_shape:
  assumes "fill_sell spec d bar x p sp q st = Inr st'" and "dget (xs_positions st) (po_ticker x) = Some p"
  shows "noted_by d x st st' \<and> set (dkeys (xs_positions st')) \<subseteq> set (dkeys (xs_positions st))"
proof -
  have "po_ticker x \<in> set (dkeys (xs_positions st))"
    using assms(2) dget_eq_None_iff[of "xs_positions st" "po_ticker x"] by auto
  with assms(1) show ?thesis unfolding fill_sell_def Let_def
    by (auto simp: rbind_eq_Inr sell_audit_def noted_by_def answers_def outcome_def
        set_dkeys_dset set_dkeys_dpop split: if_splits)
qed

lemma sell_step_shape:
  assumes "sell_step spec d today x st = Inr st'"
  shows "noted_by d x st st' \<and> set (dkeys (xs_positions st')) \<subseteq> set (dkeys (xs_positions st))"
  using assms unfolding sell_step_def Let_def
  by (auto simp: rbind_eq_Inr outcome_def intro!: noted_byI split: if_splits option.splits
      dest!: fill_sell_shape)

lemma sell_step_fresh:
  assumes "sell_step spec d today x st = Inr st'" and "po_side x = Side_Sell"
  shows "fresh_buys st st'"
  using sell_step_shape[OF assms(1)] assms(2) by (auto simp: noted_by_def answers_def fresh_buys_def)

lemma sells_match:
  assumes "sane_prices spec" and "exec_ok st"
    and "list_all (\<lambda>x. executable_order d today x \<and> po_side x = Side_Sell) xs"
    and "rfold (sell_step spec d today) xs st = Inr st'"
  shows "shares_match st st'"
  using assms
proof (induction xs arbitrary: st)
  case Nil
  then show ?case by (simp add: shares_match_refl)
next
  case (Cons x xs)
  then obtain s1 where s1: "sell_step spec d today x st = Inr s1" "rfold (sell_step spec d today) xs s1 = Inr st'"
    by (auto simp: rbind_eq_Inr)
  with sell_step_move[OF Cons.prems(1,2), of d today x] Cons.prems(3)
  have mv: "ledger_move spec d st s1" by simp
  moreover have "fresh_buys st s1" using sell_step_fresh s1(1) Cons.prems(3) by simp
  ultimately have "shares_match st s1" by (rule ledger_move_shares)
  moreover have "shares_match s1 st'"
    using Cons.IH[of s1] Cons.prems mv s1 ledger_move_ok by auto
  ultimately show ?case by (rule shares_match_trans)
qed

lemma buys_match:
  assumes "spec_valid spec" and "day_ok today" and "exec_ok st" and "distinct (map po_ticker xs)"
    and "list_all (\<lambda>x. executable_order d today x \<and> po_side x = Side_Buy) xs"
    and "\<forall>x\<in>set xs. dget (xs_positions st) (po_ticker x) = None"
    and "rfold (buy_step spec d today n) xs st = Inr st'"
  shows "shares_match st st'"
  using assms
proof (induction xs arbitrary: st)
  case Nil
  then show ?case by (simp add: shares_match_refl)
next
  case (Cons x xs)
  then obtain s1 where s1: "buy_step spec d today n x st = Inr s1" "rfold (buy_step spec d today n) xs s1 = Inr st'"
    by (auto simp: rbind_eq_Inr)
  have mv: "ledger_move spec d st s1"
    using buy_step_move[OF Cons.prems(1,3,2) _ _ s1(1)] Cons.prems(5) by simp
  from buy_step_shape[OF s1(1)] obtain a where a: "xs_audit s1 = xs_audit st @ [a]" "au_ticker a = po_ticker x"
    and fr: "\<And>t. t \<noteq> po_ticker x \<Longrightarrow> dget (xs_positions s1) t = dget (xs_positions st) t"
    by (auto simp: noted_by_def answers_def)
  have "fresh_buys st s1" using a Cons.prems(6) by (auto simp: fresh_buys_def)
  with mv have "shares_match st s1" by (rule ledger_move_shares)
  moreover have "\<forall>y\<in>set xs. dget (xs_positions s1) (po_ticker y) = None"
  proof
    fix y assume "y \<in> set xs"
    moreover from this Cons.prems(4) have "po_ticker y \<noteq> po_ticker x" by (metis distinct.simps(2) image_eqI list.set_map list.simps(9))
    ultimately show "dget (xs_positions s1) (po_ticker y) = None" using fr Cons.prems(6) by simp
  qed
  then have "shares_match s1 st'"
    using Cons.IH[of s1] Cons.prems mv s1(2) ledger_move_ok by auto
  ultimately show ?case by (rule shares_match_trans)
qed

section \<open>Every order is answered\<close>

definition order_key :: "PendingOrder \<Rightarrow> order_side \<times> ticker \<times> date" where
  "order_key x = (po_side x, po_ticker x, po_signal_date x)"

definition record_key :: "OrderAuditRecord \<Rightarrow> order_side \<times> ticker \<times> date" where
  "record_key a = (au_side a, au_ticker a, au_signal_date a)"

definition answered :: "date \<Rightarrow> PendingOrder list \<Rightarrow> OrderAuditRecord list \<Rightarrow> bool" where
  "answered d xs as \<longleftrightarrow> mset (map record_key as) = mset (map order_key xs)
     \<and> (\<forall>a\<in>set as. au_date a = d \<and> outcome (au_status a))"

lemma answers_key: "answers d x a \<Longrightarrow> record_key a = order_key x \<and> au_date a = d \<and> outcome (au_status a)"
  by (simp add: answers_def record_key_def order_key_def)

lemma rfold_answers:
  assumes "\<And>x s s'. f x s = Inr s' \<Longrightarrow> noted_by d x s s'" and "rfold f xs s = Inr s'"
  shows "\<exists>as. xs_audit s' = xs_audit s @ as \<and> answered d xs as"
  using assms(2)
proof (induction xs arbitrary: s)
  case (Cons x xs)
  then obtain s1 where s1: "f x s = Inr s1" "rfold f xs s1 = Inr s'" by (auto simp: rbind_eq_Inr)
  from assms(1)[OF s1(1)] obtain a where a: "xs_audit s1 = xs_audit s @ [a]" "answers d x a"
    by (auto simp: noted_by_def)
  from Cons.IH[OF s1(2)] obtain as where "xs_audit s' = xs_audit s1 @ as" "answered d xs as" by blast
  with a answers_key[OF a(2)] show ?case
    by (intro exI[of _ "a # as"]) (simp add: answered_def)
qed (simp add: answered_def)

lemma classify_answers:
  assumes "classify_pending d today pending = (executable, audit)" and "\<forall>x\<in>set pending. po_signal_date x < d"
  shows "mset (map record_key audit) + mset (map order_key executable) = mset (map order_key pending)
    \<and> (\<forall>a\<in>set audit. au_date a = d \<and> outcome (au_status a))"
  using assms
proof (induction pending arbitrary: executable audit)
  case (Cons x pending)
  obtain ex au where ea: "classify_pending d today pending = (ex, au)" by fastforce
  from Cons.IH[OF ea] Cons.prems ea show ?case
    by (auto simp: record_key_def order_key_def outcome_def split: if_splits option.splits)
qed simp

lemma sells_keys:
  assumes "rfold (sell_step spec d today) xs st = Inr st'"
  shows "set (dkeys (xs_positions st')) \<subseteq> set (dkeys (xs_positions st))"
  by (rule rfold_invariant[where P = "\<lambda>s. set (dkeys (xs_positions s)) \<subseteq> set (dkeys (xs_positions st))", OF _ _ assms])
     (use sell_step_shape in blast)+

lemma session_answers:
  assumes dates: "\<forall>x\<in>set pending. po_signal_date x < d"
    and sides: "\<forall>x\<in>set pending. po_side x = Side_Sell \<or> po_side x = Side_Buy \<and> \<not> has_key b (po_ticker x)"
    and ex: "execute_pending_orders spec d today b cash pending = Inr st"
  shows "answered d pending (xs_audit st)"
proof -
  obtain executable audit where ca: "classify_pending d today pending = (executable, audit)" by fastforce
  let ?s0 = "session_start b cash audit" and ?sells = "filter (\<lambda>x. po_side x = Side_Sell) executable"
  from ex ca obtain s1 where s1: "rfold (sell_step spec d today) ?sells ?s0 = Inr s1"
      and st: "rfold (buy_step spec d today (length (buy_queue (xs_positions s1) executable)))
        (buy_queue (xs_positions s1) executable) s1 = Inr st"
    by (auto simp: execute_pending_orders_def execute_sells_def Let_def rbind_eq_Inr)
  from rfold_answers[OF _ s1] sell_step_shape obtain as1 where
    as1: "xs_audit s1 = audit @ as1" "answered d ?sells as1" by fastforce
  from rfold_answers[OF _ st] buy_step_shape obtain as2 where
    as2: "xs_audit st = xs_audit s1 @ as2" "answered d (buy_queue (xs_positions s1) executable) as2" by blast
  have sub: "x \<in> set pending" if "x \<in> set executable" for x using classify_executable(2)[OF ca that] .
  have "has_key b t" if "has_key (xs_positions s1) t" for t
    using sells_keys[OF s1] that by (auto simp: has_key_iff)
  then have "filter (\<lambda>x. po_side x = Side_Buy \<and> \<not> has_key (xs_positions s1) (po_ticker x)) executable
      = filter (\<lambda>x. \<not> po_side x = Side_Sell) executable"
    using sides sub by (intro filter_cong) fastforce+
  then have "mset (buy_queue (xs_positions s1) executable) = mset (filter (\<lambda>x. \<not> po_side x = Side_Sell) executable)"
    by (simp add: buy_queue_def)
  then have "mset (map order_key executable)
      = mset (map order_key ?sells) + mset (map order_key (buy_queue (xs_positions s1) executable))"
    by (metis image_mset_union mset_filter mset_map multiset_partition)
  with classify_answers[OF ca dates] as1 as2 show ?thesis
    by (auto simp: answered_def)
qed

section \<open>The whole session\<close>

lemma session_shares:
  assumes sane: "sane_prices spec" and day: "day_ok today" and b: "book_ok b" and c: "isfinite cash"
    and dist: "distinct (map po_ticker (filter (\<lambda>x. po_side x = Side_Buy) pending))"
    and ex: "execute_pending_orders spec d today b cash pending = Inr st"
  shows "shares_match (session_start b cash (snd (classify_pending d today pending))) st"
proof -
  obtain executable audit where ca: "classify_pending d today pending = (executable, audit)" by fastforce
  let ?s0 = "session_start b cash audit"
  from ex ca obtain s1 where s1: "execute_sells spec d today executable ?s0 = Inr s1"
      and st: "rfold (buy_step spec d today (length (buy_queue (xs_positions s1) executable)))
        (buy_queue (xs_positions s1) executable) s1 = Inr st"
    by (auto simp: execute_pending_orders_def Let_def rbind_eq_Inr)
  let ?q = "buy_queue (xs_positions s1) executable"
  let ?sells = "filter (\<lambda>x. po_side x = Side_Sell) executable"
  have ok0: "exec_ok ?s0" using b c by (simp add: exec_ok_def)
  have sells: "list_all (\<lambda>x. executable_order d today x \<and> po_side x = Side_Sell) ?sells"
    using classify_executable(1)[OF ca] by (simp add: list_all_iff)
  have "shares_match ?s0 s1"
    using sells_match[OF sane ok0 sells] s1 by (simp add: execute_sells_def)
  moreover have "exec_ok s1"
    using sell_loop.loop_keeps[of spec d today ?sells ?s0 ?s0 s1] sells sane ok0 s1
    by (simp add: list_all_iff execute_sells_def done_run)
  moreover have "distinct (map po_ticker ?q)"
  proof -
    let ?open = "\<lambda>x. po_side x = Side_Buy \<and> \<not> has_key (xs_positions s1) (po_ticker x)"
    have "executable = filter (executable_order d today) pending"
      using classify_filter[of d today pending] ca by simp
    then have "filter ?open executable = filter (\<lambda>x. executable_order d today x
        \<and> \<not> has_key (xs_positions s1) (po_ticker x)) (filter (\<lambda>x. po_side x = Side_Buy) pending)"
      by (auto intro: filter_cong)
    then have "distinct (map po_ticker (filter ?open executable))"
      using distinct_map_filter[OF dist] by simp
    then show ?thesis by (simp add: buy_queue_def distinct_map)
  qed
  ultimately show ?thesis
    using buys_match[OF _ day _ _ _ _ st] buy_queue_ok[OF ca, of "xs_positions s1"] sane
    by (auto simp: ca list_all_iff has_key_def sane_prices_def intro: shares_match_trans)
qed

end
