(* ===== verification/Bt_Corporate.thy ===== *)
theory Bt_Corporate
  imports Bt_Ledger
begin

text \<open>
  Corporate actions and the write-off of names that stopped trading: what they keep of the
  book, how the cash they move is accounted for, and exactly which names a write-off closes.
\<close>

section \<open>Corporate actions\<close>

definition event_ok :: "CorporateActionEvent \<Rightarrow> bool" where
  "event_ok e \<longleftrightarrow>
     (case ca_event_type e of
        Ca_Split \<Rightarrow> \<exists>r. ca_split_ratio e = Some r \<and> 0 < r
      | Ca_Cash_Dividend \<Rightarrow> \<exists>r. ca_cash_dividend_per_share e = Some r \<and> 0 \<le> r
      | Ca_Delist \<Rightarrow> \<exists>r. ca_recovery_price e = Some r \<and> 0 \<le> r)"

lemma spec_valid_events: "spec_valid spec \<Longrightarrow> list_all event_ok (spec_actions spec)"
  unfolding list_all_iff event_ok_def
  by (auto split: ca_type.splits dest: spec_valid_event)

text \<open>The cash a corporate-action record reports.\<close>

definition action_flow :: "OrderAuditRecord \<Rightarrow> rat" where
  "action_flow a = (case au_notional a of Some (Fin n) \<Rightarrow> n | _ \<Rightarrow> 0)"

definition actions_ok :: "rat \<Rightarrow> book \<times> pyfloat \<times> OrderAuditRecord list \<Rightarrow> bool" where
  "actions_ok c0 st \<longleftrightarrow>
     (case st of (b, cash, audit) \<Rightarrow> book_ok b \<and> cash = Fin (c0 + (\<Sum>a\<leftarrow>audit. action_flow a))
        \<and> (\<forall>a\<in>set audit. 0 \<le> action_flow a))"

lemma split_position_ok:
  assumes "pos_ok p" and "0 < n"
  shows "pos_ok (p\<lparr>pos_quantity := n,
      pos_entry_price := pos_entry_price p * Fin (of_int (pos_quantity p) / of_int n),
      pos_entry_notional := of_int_float n * (pos_entry_price p * Fin (of_int (pos_quantity p) / of_int n))\<rparr>)"
  using assms by (auto simp: pos_ok_def)

text \<open>A split keeps the cost basis: the entry notional stays what it was.\<close>

lemma split_keeps_basis:
  assumes "pos_ok p" and "0 < n"
  shows "of_int_float n * (pos_entry_price p * Fin (of_int (pos_quantity p) / of_int n)) = pos_entry_notional p"
  using assms by (auto simp: pos_ok_def)

lemma corporate_step_cases:
  assumes ok: "event_ok e" and st: "actions_ok c0 (b, cash, audit)"
  shows "(\<exists>st'. corporate_step d e (b, cash, audit) = Inr st' \<and> actions_ok c0 st')
    \<or> (corporate_step d e (b, cash, audit) = Inl (ValueError ''split ratio produced no whole shares'')
        \<and> ca_event_type e = Ca_Split \<and> ca_effective_date e = d \<and> has_key b (ca_ticker e))"
proof (cases "ca_effective_date e = d")
  case True
  show ?thesis
  proof (cases "dget b (ca_ticker e)")
    case (Some p)
    from st Some have p: "pos_ok p" by (auto simp: actions_ok_def dest: book_okD)
    then have q: "0 < pos_quantity p" by (simp add: pos_ok_def)
    show ?thesis
    proof (cases "ca_event_type e")
      case Ca_Split
      with ok obtain r where r: "ca_split_ratio e = Some r" by (auto simp: event_ok_def)
      let ?n = "trunc (of_int (pos_quantity p) * r)"
      show ?thesis
      proof (cases "0 < ?n")
        case pos: True
        from split_position_ok[OF p pos] st Some True Ca_Split r pos show ?thesis
          by (auto simp: corporate_step_def Let_def actions_ok_def action_flow_def intro!: book_ok_dset)
      next
        case False
        with Some True Ca_Split r show ?thesis
          by (simp add: corporate_step_def Let_def has_key_def)
      qed
    next
      case Ca_Cash_Dividend
      with ok obtain r where r: "ca_cash_dividend_per_share e = Some r" "0 \<le> r" by (auto simp: event_ok_def)
      with st Some True Ca_Cash_Dividend q show ?thesis
        by (simp add: corporate_step_def Let_def actions_ok_def action_flow_def add.assoc)
    next
      case Ca_Delist
      with ok obtain r where r: "ca_recovery_price e = Some r" "0 \<le> r" by (auto simp: event_ok_def)
      with st Some True Ca_Delist q show ?thesis
        by (simp add: corporate_step_def Let_def actions_ok_def action_flow_def add.assoc book_ok_dpop)
    qed
  qed (use True st in \<open>simp add: corporate_step_def\<close>)
qed (use st in \<open>simp add: corporate_step_def\<close>)

interpretation actions_loop: guarded_loop "corporate_step d" event_ok "actions_ok c0" for d c0
proof unfold_locales
  fix e s s'
  assume "event_ok e" and ok: "actions_ok c0 s" and st: "corporate_step d e s = Inr s'"
  moreover obtain b cash audit where "s = (b, cash, audit)" by (cases s)
  ultimately show "actions_ok c0 s'" using corporate_step_cases[of e c0 b cash audit d] by auto
qed

lemma corporate_actions_keep:
  assumes "spec_valid spec" and "book_ok b"
    and "apply_corporate_actions spec d b (Fin c) = Inr (b', cash, audit)"
  shows "book_ok b'" and "cash = Fin (c + (\<Sum>a\<leftarrow>audit. action_flow a))"
    and "0 \<le> (\<Sum>a\<leftarrow>audit. action_flow a)"
proof -
  have "actions_ok c (b, Fin c, [])" using assms(2) by (simp add: actions_ok_def)
  from actions_loop.loop_keeps[OF spec_valid_events[OF assms(1)] this
      assms(3)[unfolded apply_corporate_actions_def]]
  show "book_ok b'" and "cash = Fin (c + (\<Sum>a\<leftarrow>audit. action_flow a))"
    and "0 \<le> (\<Sum>a\<leftarrow>audit. action_flow a)"
    by (auto simp: actions_ok_def intro!: sum_list_nonneg)
qed

lemma corporate_actions_error:
  assumes "list_all event_ok es" and "actions_ok c0 st" and "rfold (corporate_step d) es st = Inl e"
  shows "e = ValueError ''split ratio produced no whole shares''
    \<and> (\<exists>x\<in>set es. ca_event_type x = Ca_Split \<and> ca_effective_date x = d)"
  using assms
proof (induction es arbitrary: st)
  case (Cons x es)
  obtain b cash audit where st: "st = (b, cash, audit)" by (cases st)
  from corporate_step_cases[of x c0 b cash audit d] Cons.prems st show ?case
    by (auto simp: rbind_eq_Inl dest: Cons.IH)
qed simp

lemma corporate_step_length:
  assumes "corporate_step d e st = Inr st'"
  shows "length (fst st') \<le> length (fst st)"
proof -
  obtain b cash audit where st: "st = (b, cash, audit)" by (cases st)
  show ?thesis
    using assms length_dpop_le[of "ca_ticker e" b] unfolding st corporate_step_def Let_def
    by (auto simp: length_dset has_key_def split: if_splits option.splits ca_type.splits)
qed

lemma corporate_actions_length:
  assumes "apply_corporate_actions spec d b c = Inr (b', c', au)"
  shows "length b' \<le> length b"
proof -
  have "length (fst (b', c', au)) \<le> length b"
  proof (rule rfold_invariant[where P = "\<lambda>st. length (fst st) \<le> length b"])
    show "rfold (corporate_step d) (spec_actions spec) (b, c, []) = Inr (b', c', au)"
      using assms by (simp add: apply_corporate_actions_def)
  qed (auto dest: corporate_step_length)
  then show ?thesis by simp
qed

section \<open>Write-offs\<close>

definition stale_count :: "(ticker, int) dict \<Rightarrow> ticker \<Rightarrow> int" where
  "stale_count stale t = (case dget stale t of None \<Rightarrow> 0 | Some n \<Rightarrow> n)"

text \<open>The names a write-off closes: no bar today, for the \<open>grace\<close>-th session in a row.\<close>

definition stale_out :: "int \<Rightarrow> day_bars \<Rightarrow> (ticker, int) dict \<Rightarrow> ticker \<Rightarrow> bool" where
  "stale_out grace today stale t \<longleftrightarrow> \<not> has_key today t \<and> grace \<le> stale_count stale t + 1"

definition stale_after :: "int \<Rightarrow> day_bars \<Rightarrow> (ticker, int) dict \<Rightarrow> ticker \<Rightarrow> int option" where
  "stale_after grace today stale t =
     (if has_key today t then Some 0
      else if stale_out grace today stale t then None else Some (stale_count stale t + 1))"

lemma write_off_step_effect:
  assumes "has_key (xs_positions (wo_exec w)) t"
  shows "dget (xs_positions (wo_exec (write_off_step spec config d today t w))) k
      = (if k = t \<and> stale_out (cf_delisting_grace_days config) today (wo_stale w) t then None
         else dget (xs_positions (wo_exec w)) k)"
    and "dget (wo_stale (write_off_step spec config d today t w)) k
      = (if k = t then stale_after (cf_delisting_grace_days config) today (wo_stale w) t
         else dget (wo_stale w) k)"
    and "map tr_ticker (xs_trades (wo_exec (write_off_step spec config d today t w)))
      = map tr_ticker (xs_trades (wo_exec w)) @
          (if stale_out (cf_delisting_grace_days config) today (wo_stale w) t then [t] else [])"
  using assms
  by (auto simp: write_off_step_def Let_def stale_out_def stale_after_def stale_count_def dget_dset dget_dpop
      trade_record_def has_key_def split: option.splits)

lemma write_off_loop_effect:
  fixes config :: BacktestRunConfig
  defines "grace \<equiv> cf_delisting_grace_days config"
  assumes "distinct ts" and "\<forall>t\<in>set ts. has_key (xs_positions (wo_exec w)) t"
    and "w' = fold (write_off_step spec config d today) ts w"
  shows "(\<forall>k. dget (xs_positions (wo_exec w')) k
        = (if k \<in> set ts \<and> stale_out grace today (wo_stale w) k then None else dget (xs_positions (wo_exec w)) k))
    \<and> (\<forall>k. dget (wo_stale w') k
        = (if k \<in> set ts then stale_after grace today (wo_stale w) k else dget (wo_stale w) k))
    \<and> map tr_ticker (xs_trades (wo_exec w'))
        = map tr_ticker (xs_trades (wo_exec w)) @ filter (stale_out grace today (wo_stale w)) ts"
  using assms(2-)
proof (induction ts arbitrary: w)
  case (Cons t ts)
  define w1 where "w1 = write_off_step spec config d today t w"
  note eff = write_off_step_effect[of w t spec config d today, folded w1_def grace_def]
  have t: "has_key (xs_positions (wo_exec w)) t" using Cons.prems by simp
  have dist: "distinct ts" "t \<notin> set ts" using Cons.prems by auto
  have keys: "\<forall>k\<in>set ts. has_key (xs_positions (wo_exec w1)) k"
    using Cons.prems(2) dist eff(1)[OF t] by (auto simp: has_key_def)
  have same: "stale_out grace today (wo_stale w1) k = stale_out grace today (wo_stale w) k"
      "stale_after grace today (wo_stale w1) k = stale_after grace today (wo_stale w) k"
    if "k \<in> set ts" for k
    using that dist eff(2)[OF t, of k] by (auto simp: stale_out_def stale_after_def stale_count_def)
  have w': "w' = fold (write_off_step spec config d today) ts w1"
    using Cons.prems(3) by (simp add: w1_def)
  note IH = Cons.IH[OF dist(1) keys w']
  have "filter (stale_out grace today (wo_stale w1)) ts = filter (stale_out grace today (wo_stale w)) ts"
    using same by (intro filter_cong) auto
  with IH eff(1,2)[OF t] eff(3)[OF t] same dist show ?case by auto
qed simp

lemma write_off_effect:
  assumes ok: "dict_ok b" and grace: "0 < cf_delisting_grace_days config"
    and w: "write_off_stale_positions spec config d today b cash pending stale = (st, pending', stale')"
  shows "dget (xs_positions st) k
      = (if stale_out (cf_delisting_grace_days config) today stale k then None else dget b k)"
    and "dget stale' k = (if has_key b k then stale_after (cf_delisting_grace_days config) today stale k
                          else dget stale k)"
    and "map tr_ticker (xs_trades st) = filter (stale_out (cf_delisting_grace_days config) today stale) (dkeys b)"
    and "pending' = filter (\<lambda>x. \<not> (has_key b (po_ticker x)
            \<and> stale_out (cf_delisting_grace_days config) today stale (po_ticker x))) pending"
proof -
  define w0 where "w0 = \<lparr>wo_exec = \<lparr>xs_positions = b, xs_cash = cash, xs_trades = [], xs_audit = []\<rparr>,
      wo_stale = stale\<rparr>"
  define w' where "w' = fold (write_off_step spec config d today) (dkeys b) w0"
  have "distinct (dkeys b)" using ok by (simp add: dict_ok_def dkeys_def)
  moreover have "\<forall>t\<in>set (dkeys b). has_key (xs_positions (wo_exec w0)) t"
    by (simp add: w0_def has_key_iff)
  moreover have "xs_positions (wo_exec w0) = b" "wo_stale w0 = stale" "xs_trades (wo_exec w0) = []"
    by (simp_all add: w0_def)
  ultimately have eff: "\<And>k. dget (xs_positions (wo_exec w')) k
        = (if k \<in> set (dkeys b) \<and> stale_out (cf_delisting_grace_days config) today stale k then None else dget b k)"
      "\<And>k. dget (wo_stale w') k = (if k \<in> set (dkeys b)
         then stale_after (cf_delisting_grace_days config) today stale k else dget stale k)"
      "map tr_ticker (xs_trades (wo_exec w')) = filter (stale_out (cf_delisting_grace_days config) today stale) (dkeys b)"
    using write_off_loop_effect[OF _ _ w'_def] by simp_all
  have r: "st = wo_exec w'" "stale' = wo_stale w'"
      "pending' = filter (\<lambda>x. po_ticker x \<notin> set (map tr_ticker (xs_trades (wo_exec w')))) pending"
    using w grace by (auto simp: write_off_stale_positions_def Let_def w'_def w0_def)
  show "dget (xs_positions st) k
      = (if stale_out (cf_delisting_grace_days config) today stale k then None else dget b k)"
    using eff(1) by (auto simp: r dget_eq_None_iff)
  show "dget stale' k = (if has_key b k then stale_after (cf_delisting_grace_days config) today stale k
                          else dget stale k)"
    using eff(2) by (simp add: r has_key_iff)
  show "map tr_ticker (xs_trades st) = filter (stale_out (cf_delisting_grace_days config) today stale) (dkeys b)"
    using eff(3) by (simp add: r)
  show "pending' = filter (\<lambda>x. \<not> (has_key b (po_ticker x)
            \<and> stale_out (cf_delisting_grace_days config) today stale (po_ticker x))) pending"
    unfolding r(3) eff(3) by (intro filter_cong) (auto simp: has_key_iff)
qed

definition recovery_ok :: "StrategySpec \<Rightarrow> BacktestRunConfig \<Rightarrow> bool" where
  "recovery_ok spec config \<longleftrightarrow> 0 \<le> cf_delisting_recovery_rate config
     \<and> cm_commission_pct (spec_cost spec) + cm_tax_pct (spec_cost spec) \<le> 1"

definition write_off_ok :: "rat \<Rightarrow> nat \<Rightarrow> write_off_state \<Rightarrow> bool" where
  "write_off_ok c n w \<longleftrightarrow> book_ok (xs_positions (wo_exec w)) \<and> (\<exists>c'. xs_cash (wo_exec w) = Fin c' \<and> c \<le> c')
     \<and> length (xs_positions (wo_exec w)) \<le> n"

lemma write_off_step_ok:
  assumes ok: "write_off_ok c n w" and r: "recovery_ok spec config"
  shows "write_off_ok c n (write_off_step spec config d today t w)"
proof (cases "has_key today t \<or> \<not> stale_out (cf_delisting_grace_days config) today (wo_stale w) t
    \<or> dget (xs_positions (wo_exec w)) t = None")
  case True
  then have "wo_exec (write_off_step spec config d today t w) = wo_exec w"
    by (auto simp: write_off_step_def Let_def stale_out_def stale_count_def)
  with ok show ?thesis by (simp add: write_off_ok_def)
next
  case False
  then obtain p where p: "dget (xs_positions (wo_exec w)) t = Some p" and nt: "\<not> has_key today t"
    and g: "cf_delisting_grace_days config \<le> stale_count (wo_stale w) t + 1" by (auto simp: stale_out_def)
  from ok p have pok: "pos_ok p" by (auto simp: write_off_ok_def dest: book_okD)
  then obtain lp where lp: "pos_last_price p = Fin lp" "0 \<le> lp" by (auto simp: pos_ok_def)
  from ok obtain c' where c': "xs_cash (wo_exec w) = Fin c'" "c \<le> c'" by (auto simp: write_off_ok_def)
  let ?g = "of_int (pos_quantity p) * (lp * cf_delisting_recovery_rate config)"
  let ?k = "cm_commission_pct (spec_cost spec) + cm_tax_pct (spec_cost spec)"
  have "0 \<le> ?g" using pok lp r by (simp add: pos_ok_def recovery_ok_def)
  then have "?g * ?k \<le> ?g" using r mult_left_mono[of ?k 1 ?g] by (simp add: recovery_ok_def)
  then have up: "c \<le> c' + (?g - ?g * ?k)" using c'(2) by linarith
  let ?x = "wo_exec (write_off_step spec config d today t w)"
  have "xs_positions ?x = dpop t (xs_positions (wo_exec w))" "xs_cash ?x = Fin (c' + (?g - ?g * ?k))"
    using p nt g lp c' by (simp_all add: write_off_step_def Let_def stale_count_def)
  with up ok length_dpop_le[of t "xs_positions (wo_exec w)"] show ?thesis
    by (auto simp: write_off_ok_def book_ok_dpop)
qed

lemma write_off_keeps:
  assumes "book_ok b" and "recovery_ok spec config"
    and w: "write_off_stale_positions spec config d today b (Fin c) pending stale = (st, pending', stale')"
  shows "book_ok (xs_positions st)" and "\<exists>c'. xs_cash st = Fin c' \<and> c \<le> c'"
    and "length (xs_positions st) \<le> length b"
proof -
  define w0 where "w0 = \<lparr>wo_exec = \<lparr>xs_positions = b, xs_cash = Fin c, xs_trades = [], xs_audit = []\<rparr>,
      wo_stale = stale\<rparr>"
  have w0: "write_off_ok c (length b) w0" using assms(1) by (simp add: write_off_ok_def w0_def)
  have "write_off_ok c (length b) (fold (write_off_step spec config d today) ts w0)" for ts
    by (rule fold_invariant[where Q = "\<lambda>_. True"]) (use w0 write_off_step_ok assms(2) in auto)
  with w0 w have "write_off_ok c (length b) \<lparr>wo_exec = st, wo_stale = stale'\<rparr>"
    by (auto simp: write_off_stale_positions_def Let_def w0_def write_off_ok_def split: if_splits)
  then show "book_ok (xs_positions st)" and "\<exists>c'. xs_cash st = Fin c' \<and> c \<le> c'"
    and "length (xs_positions st) \<le> length b"
    by (auto simp: write_off_ok_def)
qed

end
