(* ===== verification/Bt_Metric_Props.thy ===== *)
theory Bt_Metric_Props
  imports Bt_Metrics "HOL-Library.Sublist"
begin

text \<open>
  What the derived metrics promise: each value depends only on the bars up to its own day, a
  rolling high is the maximum of its window, and the breakout counter counts the sessions since
  the last close at its high.  The last section is about the TA-Lib plan: the memoised default
  parameters and the removal of duplicate computations.
\<close>

section \<open>Causality\<close>

lemma length_rolling_highs [simp]: "length (rolling_highs p cs bars) = length bars"
  by (induction bars arbitrary: cs) (auto simp: Let_def)

lemma length_volume_ratios [simp]: "length (volume_ratios vs bars) = length bars"
  by (induction bars arbitrary: vs) (auto simp: Let_def)

lemma length_days_since [simp]: "length (days_since_breakout n s xs) = length xs"
  by (induction n s xs rule: days_since_breakout.induct) (auto simp: Let_def)

lemma rolling_highs_append:
  "rolling_highs p cs (xs @ ys) = rolling_highs p cs xs @ rolling_highs p (cs @ map bar_close xs) ys"
  by (induction xs arbitrary: cs) (auto simp: Let_def)

lemma volume_ratios_append:
  "volume_ratios vs (xs @ ys) = volume_ratios vs xs @ volume_ratios (vs @ map bar_volume xs) ys"
  by (induction xs arbitrary: vs) (auto simp: Let_def)

fun breakout_seen :: "nat \<Rightarrow> nat option \<Rightarrow> (OhlcvBar \<times> pyfloat) list \<Rightarrow> nat option" where
  "breakout_seen index seen [] = seen"
| "breakout_seen index seen ((bar, high) # rest) =
     breakout_seen (Suc index) (if high \<le> bar_close bar then Some index else seen) rest"

lemma days_since_append:
  "days_since_breakout n s (xs @ ys)
     = days_since_breakout n s xs @ days_since_breakout (n + length xs) (breakout_seen n s xs) ys"
  by (induction n s xs rule: days_since_breakout.induct) (auto simp: Let_def)

section \<open>Rolling highs\<close>

lemma rolling_highs_nth:
  "i < length bars \<Longrightarrow>
     rolling_highs p cs bars ! i = list_max (last_n p (cs @ map bar_close (take (Suc i) bars)))"
proof (induction bars arbitrary: cs i)
  case (Cons b bars)
  then show ?case by (cases i) (auto simp: Let_def)
qed simp

lemma fold_py_max_fin: "fold (\<lambda>y m. py_max m y) (map Fin xs) (Fin x) = Fin (fold max xs x)"
proof (induction xs arbitrary: x)
  case (Cons y xs)
  then show ?case by (simp add: max.commute)
qed simp

lemma list_max_fin: "xs \<noteq> [] \<Longrightarrow> list_max (map Fin xs) = Fin (Max (set xs))"
proof (induction xs)
  case (Cons x xs)
  have "list_max (map Fin (x # xs)) = Fin (fold max xs x)" by (simp add: fold_py_max_fin)
  also have "fold max xs x = Max (set (x # xs))" by (metis Max.set_eq_fold)
  finally show ?case .
qed simp

lemma last_n_map: "last_n n (map f xs) = map f (last_n n xs)"
  by (simp add: last_n_def drop_map)

lemma last_n_nonempty: "0 < n \<Longrightarrow> xs \<noteq> [] \<Longrightarrow> last_n n xs \<noteq> []"
  by (cases xs) (auto simp: last_n_def)

lemma rolling_high_is_max:
  assumes closes: "map bar_close bars = map Fin cs" and i: "i < length bars" and p: "0 < p"
  shows "rolling_highs p [] bars ! i = Fin (Max (set (last_n p (take (Suc i) cs))))"
proof -
  have "cs \<noteq> []" using closes i by auto
  have "map bar_close (take (Suc i) bars) = map Fin (take (Suc i) cs)"
    by (metis closes take_map)
  then have "rolling_highs p [] bars ! i = list_max (map Fin (last_n p (take (Suc i) cs)))"
    using rolling_highs_nth[OF i, of p "[]"] by (simp add: last_n_map)
  moreover have "last_n p (take (Suc i) cs) \<noteq> []"
    using \<open>cs \<noteq> []\<close> p by (intro last_n_nonempty) auto
  ultimately show ?thesis by (simp add: list_max_fin)
qed

section \<open>Days since the last breakout\<close>

text \<open>The last index up to \<open>i\<close> at which the close is at its high.\<close>

definition last_breakout :: "(OhlcvBar \<times> pyfloat) list \<Rightarrow> nat \<Rightarrow> nat option" where
  "last_breakout xs i =
     (let hits = filter (\<lambda>j. snd (xs ! j) \<le> bar_close (fst (xs ! j))) [0..<Suc i]
      in if hits = [] then None else Some (last hits))"

lemma breakout_seen_snoc:
  "breakout_seen n s (xs @ [(bar, high)]) =
     (if high \<le> bar_close bar then Some (n + length xs) else breakout_seen n s xs)"
  by (induction n s xs rule: breakout_seen.induct) auto

lemma breakout_seen_last:
  "i < length xs \<Longrightarrow> breakout_seen 0 None (take (Suc i) xs) = last_breakout xs i"
proof (induction i)
  case 0
  obtain b h where "xs ! 0 = (b, h)" by fastforce
  with 0 show ?case by (auto simp: take_Suc_conv_app_nth last_breakout_def breakout_seen_snoc)
next
  case (Suc i)
  obtain b h where bh: "xs ! Suc i = (b, h)" by fastforce
  have "take (Suc (Suc i)) xs = take (Suc i) xs @ [(b, h)]"
    using Suc.prems bh by (simp add: take_Suc_conv_app_nth)
  with Suc bh show ?case
    by (simp add: breakout_seen_snoc last_breakout_def Let_def del: upt_Suc add: upt_Suc_append)
qed

lemma days_since_nth:
  assumes "i < length xs"
  shows "days_since_breakout 0 None xs ! i =
    (case last_breakout xs i of None \<Rightarrow> NaN | Some j \<Rightarrow> of_int_float (int i - int j))"
proof -
  obtain b h where bh: "xs ! i = (b, h)" by fastforce
  have xs: "xs = take i xs @ (b, h) # drop (Suc i) xs"
    using assms bh by (metis id_take_nth_drop)
  have "take (Suc i) xs = take i xs @ [(b, h)]"
    using assms bh by (simp add: take_Suc_conv_app_nth)
  then have "last_breakout xs i = (if h \<le> bar_close b then Some i else breakout_seen 0 None (take i xs))"
    using breakout_seen_last[OF assms] assms by (auto simp: breakout_seen_snoc split: if_splits)
  moreover have "days_since_breakout 0 None xs ! i
      = days_since_breakout i (breakout_seen 0 None (take i xs)) ((b, h) # drop (Suc i) xs) ! 0"
    using assms by (subst xs, subst days_since_append) (simp add: nth_append)
  ultimately show ?thesis by (auto simp: Let_def)
qed

section \<open>Required metrics\<close>

lemma required_covers:
  assumes "c \<in> set (sp_entry_rules spec) \<union> set (sp_exit_rules spec)"
    and "\<forall>n\<in>set (required_metric_names spec). metric_present n m"
  shows "metrics_cover m c"
proof -
  have sub: "set (condition_metric_names c) \<subseteq> set (required_metric_names spec)"
    using assms(1) by (auto simp: required_metric_names_def)
  have "c_left c \<in> set (condition_metric_names c)"
    unfolding condition_metric_names_def by (rule list.set_intros)
  with sub assms(2) have "metric_present (c_left c) m" by blast
  moreover have "metric_present n m" if "c_right c = RName n" "c_operator c \<noteq> BETWEEN" for n
  proof -
    have "c_operator c \<in> {LT, LTE, GT, GTE, EQ, NE, CROSS_ABOVE, CROSS_BELOW}"
      using that(2) by (cases "c_operator c") auto
    then have "n = c_left c \<or> n \<in> set (condition_metric_names c)"
      using that(1) by (simp add: condition_metric_names_def)
    then show ?thesis using sub assms(2) \<open>metric_present (c_left c) m\<close> by auto
  qed
  ultimately show ?thesis by (auto simp: metrics_cover_def split: cond_right.splits)
qed

section \<open>The TA-Lib plan\<close>

lemma dedupe_from_facts:
  "distinct (map computation_key (dedupe_from seen cs))
   \<and> set (map computation_key (dedupe_from seen cs)) = computation_key ` set cs - set seen
   \<and> subseq (dedupe_from seen cs) cs"
proof (induction seen cs rule: dedupe_from.induct)
  case (2 seen c cs)
  then show ?case by (cases "computation_key c \<in> set seen") auto
qed simp

text \<open>The names of the memo are the function names the callers pass, in upper case.\<close>

lemma parameters_leak:
  assumes "parameters_for_function talib f config memo = Inr (p, memo')"
    and "config_overrides config' f = []"
  shows "parameters_for_function talib f config' memo' = Inr (p, memo')"
proof -
  have "dget memo' (py_upper f) = Some p"
    using assms(1) by (auto simp: parameters_for_function_def rbind_eq_Inr Let_def dget_dset split: prod.splits)
  moreover from this have "dset (py_upper f) p memo' = memo'"
    by (induction memo') (auto simp: dset_def dget_def split: if_splits)
  ultimately show ?thesis using assms(2)
    by (simp add: parameters_for_function_def default_parameters_def Let_def dupdate_def)
qed

lemma overrides_win:
  assumes "parameters_for_function talib f config memo = Inr (p, memo')"
    and "map_of (rev (config_overrides config f)) k = Some v"
  shows "dget p k = Some v"
  using assms by (auto simp: parameters_for_function_def rbind_eq_Inr Let_def dget_dupdate split: prod.splits)

end
