(* ===== verification/Bt_Engine_Props.thy ===== *)
theory Bt_Engine_Props
  imports Bt_Engine Bt_Audit Bt_Corporate Bt_Metric_Props
begin

text \<open>
  Invariants of a whole run.  A day is taken apart into its stages once (\<open>run_day_stages\<close>); the
  facts about corporate actions, execution, write-offs and signals then combine into an
  invariant of the day loop: the book is well formed, cash is finite and not negative, the
  position cap holds and every held name traded within the grace period.
\<close>

section \<open>The stages of a day\<close>

lemma run_day_stages:
  assumes "run_day eng data (d, today) st = Inr st'"
  obtains b cash corporate executed forced pending stale out where
    "apply_corporate_actions (en_spec eng) d (rs_positions st) (rs_cash st) = Inr (b, cash, corporate)"
    "execute_pending_orders (en_spec eng) d today b cash (rs_pending st) = Inr executed"
    "write_off_stale_positions (en_spec eng) (en_config eng) d today
       (xs_positions executed) (xs_cash executed) [] (rs_stale st) = (forced, pending, stale)"
    "generate_signals eng data d today (xs_positions forced) pending = Inr out"
    "st' = close_day d today corporate executed forced pending stale out st"
proof -
  from assms obtain b cash corporate executed where
    ca: "apply_corporate_actions (en_spec eng) d (rs_positions st) (rs_cash st) = Inr (b, cash, corporate)" and
    ex: "execute_pending_orders (en_spec eng) d today b cash (rs_pending st) = Inr executed"
    by (auto simp: run_day_def rbind_eq_Inr)
  obtain forced pending stale where wo: "write_off_stale_positions (en_spec eng) (en_config eng) d today
       (xs_positions executed) (xs_cash executed) [] (rs_stale st) = (forced, pending, stale)"
    by (metis prod_cases3)
  from assms obtain out where "generate_signals eng data d today (xs_positions forced) pending = Inr out"
    and "st' = close_day d today corporate executed forced pending stale out st"
    by (auto simp: run_day_def ca ex wo rbind_eq_Inr)
  with that ca ex wo show thesis by blast
qed

lemma write_off_pending: "write_off_stale_positions spec config d today b cash [] stale = (forced, pending, stale') \<Longrightarrow> pending = []"
  by (auto simp: write_off_stale_positions_def Let_def split: if_splits)

lemma generate_signals_pass:
  assumes "dict_ok today" and "generate_signals eng data d today b pending = Inr out"
  shows "pass_ok d b (rev (sort (dkeys today))) out"
  using assms by (auto simp: generate_signals_def intro: rule_signals_pass compact_signals_pass split: option.splits)

section \<open>Marking keeps the book\<close>

lemma dget_mark_prices:
  "dget (mark_prices today b) t =
     map_option (\<lambda>p. case dget today t of Some bar \<Rightarrow> p\<lparr>pos_last_price := bar_close bar\<rparr> | None \<Rightarrow> p) (dget b t)"
  by (induction b) (auto simp: mark_prices_def dget_def split: option.splits)

lemma keys_mark_prices [simp]: "map fst (mark_prices today b) = map fst b"
  by (auto simp: mark_prices_def)

lemma length_mark_prices [simp]: "length (mark_prices today b) = length b"
  by (simp add: mark_prices_def)

lemma has_key_mark_prices [simp]: "has_key (mark_prices today b) t = has_key b t"
  by (simp add: has_key_def dget_mark_prices)

lemma book_ok_mark_prices:
  assumes "book_ok b" and "day_ok today"
  shows "book_ok (mark_prices today b)"
proof -
  have "pos_ok (case dget today t of Some bar \<Rightarrow> p\<lparr>pos_last_price := bar_close bar\<rparr> | None \<Rightarrow> p)"
    if "(t, p) \<in> set b" for t p
  proof (cases "dget today t")
    case None
    with assms that show ?thesis by (auto simp: book_ok_def)
  next
    case (Some bar)
    then have "bar_ok bar" using assms(2) by (auto simp: day_ok_def dest!: dget_in_set)
    with Some assms(1) that show ?thesis by (auto simp: book_ok_def pos_ok_def bar_ok_def)
  qed
  with assms(1) show ?thesis by (auto simp: book_ok_def dict_ok_def) (auto simp: mark_prices_def)
qed

section \<open>The invariant of the day loop\<close>

definition market_ok :: "engine \<Rightarrow> bool" where
  "market_ok eng \<longleftrightarrow> sane_prices (en_spec eng) \<and> fees_bounded (en_spec eng)
     \<and> recovery_ok (en_spec eng) (en_config eng)"

definition solvent :: "run_state \<Rightarrow> bool" where
  "solvent st \<longleftrightarrow> book_ok (rs_positions st) \<and> (\<exists>c. rs_cash st = Fin c \<and> 0 \<le> c)"

definition within_slots :: "engine \<Rightarrow> run_state \<Rightarrow> bool" where
  "within_slots eng st \<longleftrightarrow>
     (case ps_max_positions (sp_position_sizing (en_spec eng)) of
        None \<Rightarrow> True | Some m \<Rightarrow> int (length (rs_positions st)) \<le> m)"

definition fresh_enough :: "engine \<Rightarrow> run_state \<Rightarrow> bool" where
  "fresh_enough eng st \<longleftrightarrow>
     (0 < cf_delisting_grace_days (en_config eng) \<longrightarrow>
        (\<forall>t. has_key (rs_positions st) t \<longrightarrow>
               stale_count (rs_stale st) t < cf_delisting_grace_days (en_config eng)))"

text \<open>Orders wait for the session after the one that queued them, one per name.\<close>

definition queue_ok :: "run_state \<Rightarrow> bool" where
  "queue_ok st \<longleftrightarrow> distinct (map po_ticker (rs_pending st)) \<and>
     (\<forall>x\<in>set (rs_pending st). rs_curve st \<noteq> [] \<and> order_fits (eq_date (last (rs_curve st))) (rs_positions st) x)"

lemma stage_cash:
  assumes m: "market_ok eng" and day: "day_ok today" and s: "solvent st"
    and ca: "apply_corporate_actions (en_spec eng) d (rs_positions st) (rs_cash st) = Inr (b, cash, corporate)"
    and ex: "execute_pending_orders (en_spec eng) d today b cash (rs_pending st) = Inr executed"
    and wo: "write_off_stale_positions (en_spec eng) (en_config eng) d today
       (xs_positions executed) (xs_cash executed) [] (rs_stale st) = (forced, pending, stale)"
  shows "book_ok b" and "\<exists>c. cash = Fin c \<and> 0 \<le> c" and "exec_ok executed"
    and "\<exists>c. xs_cash executed = Fin c \<and> 0 \<le> c"
    and "book_ok (xs_positions forced)" and "\<exists>c. xs_cash forced = Fin c \<and> 0 \<le> c"
proof -
  from s obtain c where c: "rs_cash st = Fin c" "0 \<le> c" and b0: "book_ok (rs_positions st)"
    by (auto simp: solvent_def)
  have sane: "sane_prices (en_spec eng)" and valid: "spec_valid (en_spec eng)"
    using m by (auto simp: market_ok_def sane_prices_def)
  note keep = corporate_actions_keep[OF valid b0 ca[unfolded c(1)]]
  show b: "book_ok b" by (rule keep(1))
  show cash: "\<exists>c. cash = Fin c \<and> 0 \<le> c" using keep(2,3) c(2) by auto
  have fin: "isfinite cash" using cash by auto
  note run = execute_refines_ledger[OF sane day b fin ex]
  show ok: "exec_ok executed" by (rule run(2))
  show ec: "\<exists>c. xs_cash executed = Fin c \<and> 0 \<le> c"
    using ledger_run_cash[OF run(1)] m cash by (simp add: market_ok_def)
  then obtain c1 where c1: "xs_cash executed = Fin c1" "0 \<le> c1" by blast
  have rec: "recovery_ok (en_spec eng) (en_config eng)" using m by (simp add: market_ok_def)
  have b1: "book_ok (xs_positions executed)" using ok by (simp add: exec_ok_def)
  from write_off_keeps[OF b1 rec wo[unfolded c1(1)]] c1(2)
  show "book_ok (xs_positions forced)" and "\<exists>c. xs_cash forced = Fin c \<and> 0 \<le> c" by auto
qed

lemma run_day_solvent:
  assumes m: "market_ok eng" and day: "day_ok today" and s: "solvent st"
    and run: "run_day eng data (d, today) st = Inr st'"
  shows "solvent st'"
  using run
proof (rule run_day_stages)
  fix b cash corporate executed forced pending stale out
  assume st: "apply_corporate_actions (en_spec eng) d (rs_positions st) (rs_cash st) = Inr (b, cash, corporate)"
    "execute_pending_orders (en_spec eng) d today b cash (rs_pending st) = Inr executed"
    "write_off_stale_positions (en_spec eng) (en_config eng) d today
       (xs_positions executed) (xs_cash executed) [] (rs_stale st) = (forced, pending, stale)"
    "st' = close_day d today corporate executed forced pending stale out st"
  from stage_cash[OF m day s st(1,2,3)] st(4) day show "solvent st'"
    by (auto simp: solvent_def close_day_def Let_def book_ok_mark_prices)
qed

lemma run_day_slots:
  assumes m: "market_ok eng" and day: "day_ok today" and s: "solvent st" and w: "within_slots eng st"
    and run: "run_day eng data (d, today) st = Inr st'"
  shows "within_slots eng st'"
proof (cases "ps_max_positions (sp_position_sizing (en_spec eng))")
  case None
  then show ?thesis by (simp add: within_slots_def)
next
  case (Some n)
  from run show ?thesis
  proof (rule run_day_stages)
    fix b cash corporate executed forced pending stale out
    assume st: "apply_corporate_actions (en_spec eng) d (rs_positions st) (rs_cash st) = Inr (b, cash, corporate)"
      "execute_pending_orders (en_spec eng) d today b cash (rs_pending st) = Inr executed"
      "write_off_stale_positions (en_spec eng) (en_config eng) d today
         (xs_positions executed) (xs_cash executed) [] (rs_stale st) = (forced, pending, stale)"
      "st' = close_day d today corporate executed forced pending stale out st"
    note stage = stage_cash[OF m day s st(1,2,3)]
    have sane: "sane_prices (en_spec eng)" and rec: "recovery_ok (en_spec eng) (en_config eng)"
      using m by (auto simp: market_ok_def)
    have fin: "isfinite cash" using stage(2) by auto
    have "int (length b) \<le> n"
      using corporate_actions_length[OF st(1)] w Some by (simp add: within_slots_def)
    then have le: "int (length (xs_positions executed)) \<le> n"
      using ledger_run_slots[OF execute_refines_ledger(1)[OF sane day stage(1) fin st(2)] Some] by simp
    from stage(4) obtain c1 where c1: "xs_cash executed = Fin c1" by blast
    have b1: "book_ok (xs_positions executed)" using stage(3) by (simp add: exec_ok_def)
    from write_off_keeps(3)[OF b1 rec st(3)[unfolded c1]] le Some st(4)
    show "within_slots eng st'" by (simp add: within_slots_def close_day_def Let_def)
  qed
qed

lemma run_day_fresh:
  assumes m: "market_ok eng" and day: "day_ok today" and s: "solvent st"
    and run: "run_day eng data (d, today) st = Inr st'"
  shows "fresh_enough eng st'"
  using run
proof (rule run_day_stages)
  fix b cash corporate executed forced pending stale out
  assume st: "apply_corporate_actions (en_spec eng) d (rs_positions st) (rs_cash st) = Inr (b, cash, corporate)"
    "execute_pending_orders (en_spec eng) d today b cash (rs_pending st) = Inr executed"
    "write_off_stale_positions (en_spec eng) (en_config eng) d today
       (xs_positions executed) (xs_cash executed) [] (rs_stale st) = (forced, pending, stale)"
    "st' = close_day d today corporate executed forced pending stale out st"
  have "dict_ok (xs_positions executed)"
    using stage_cash(3)[OF m day s st(1,2,3)] by (simp add: exec_ok_def book_ok_def)
  note eff = write_off_effect[OF this _ st(3)]
  have "stale_count stale t < cf_delisting_grace_days (en_config eng)"
    if g: "0 < cf_delisting_grace_days (en_config eng)" and t: "has_key (xs_positions forced) t" for t
  proof -
    from t eff(1)[OF g, of t] have "\<not> stale_out (cf_delisting_grace_days (en_config eng)) today (rs_stale st) t"
      and "has_key (xs_positions executed) t" by (auto simp: has_key_def split: if_splits)
    with g eff(2)[OF g, of t] show ?thesis
      by (auto simp: stale_count_def[of stale] stale_after_def stale_out_def)
  qed
  then show "fresh_enough eng st'"
    by (simp add: fresh_enough_def st(4) close_day_def Let_def)
qed

lemma run_day_queue:
  assumes day: "dict_ok today" and run: "run_day eng data (d, today) st = Inr st'"
  shows "queue_ok st'"
  using run
proof (rule run_day_stages)
  fix b cash corporate executed forced pending stale out
  assume st: "write_off_stale_positions (en_spec eng) (en_config eng) d today
       (xs_positions executed) (xs_cash executed) [] (rs_stale st) = (forced, pending, stale)"
    "generate_signals eng data d today (xs_positions forced) pending = Inr out"
    "st' = close_day d today corporate executed forced pending stale out st"
  have "pass_ok d (xs_positions forced) (rev (sort (dkeys today))) out"
    by (rule generate_signals_pass[OF day st(2)])
  moreover have "pending = []" by (rule write_off_pending[OF st(1)])
  moreover have "order_fits d (mark_prices today b') x = order_fits d b' x" for b' x
    by (auto simp: order_fits_def split: order_side.splits)
  ultimately show "queue_ok st'"
    by (auto simp: queue_ok_def st(3) close_day_def Let_def pass_ok_def list_all_iff equity_point_def)
qed

text \<open>The loop invariant, and the loop as an instance of the interface.\<close>

definition run_ok :: "engine \<Rightarrow> run_state \<Rightarrow> bool" where
  "run_ok eng st \<longleftrightarrow> solvent st \<and> within_slots eng st \<and> fresh_enough eng st \<and> queue_ok st"

lemma start_state_ok:
  assumes "spec_valid (en_spec eng)" and "cf_initial_capital (en_config eng) = Fin c" and "0 \<le> c"
  shows "run_ok eng (start_state (en_config eng))"
  using assms spec_valid_sizing(1)[OF assms(1)]
  by (auto simp: run_ok_def solvent_def within_slots_def fresh_enough_def queue_ok_def start_state_def
      has_key_def split: option.splits dest!: spec_valid_sizing(1)[OF assms(1)])

interpretation day_loop: guarded_loop "run_day eng data" "\<lambda>(d, today). market_ok eng \<and> day_ok today" "run_ok eng"
  for eng data
proof unfold_locales
  fix x :: "date \<times> day_bars" and s s'
  obtain d today where x: "x = (d, today)" by (cases x)
  assume "case x of (d, today) \<Rightarrow> market_ok eng \<and> day_ok today" and "run_ok eng s"
    and run: "run_day eng data x s = Inr s'"
  then have a: "market_ok eng" "day_ok today" "solvent s" "within_slots eng s"
    by (auto simp: x run_ok_def)
  have "dict_ok today" using a(2) by (simp add: day_ok_def)
  with run[unfolded x] a show "run_ok eng s'"
    unfolding run_ok_def
    by (blast intro: run_day_solvent run_day_slots run_day_fresh run_day_queue)
qed

lemma run_days_ok:
  assumes "market_ok eng" and "\<forall>(d, today)\<in>set days. day_ok today"
    and "cf_initial_capital (en_config eng) = Fin c" and "0 \<le> c"
    and "run_days eng data days = Inr st"
  shows "run_ok eng st"
proof (rule day_loop.loop_keeps)
  show "list_all (\<lambda>(d, today). market_ok eng \<and> day_ok today) days"
    using assms(1,2) by (auto simp: list_all_iff)
  show "run_ok eng (start_state (en_config eng))"
    using assms(1,3,4) by (intro start_state_ok) (auto simp: market_ok_def sane_prices_def)
  show "rfold (run_day eng data) days (start_state (en_config eng)) = Inr st"
    using assms(5) by (simp add: run_days_def)
qed

end
