(* ===== verification/Bt_Run_Props.thy ===== *)
theory Bt_Run_Props
  imports Bt_Engine_Props
begin

text \<open>
  Properties of whole runs, by induction on the sessions: every order queued at a close is
  answered by exactly one record of the next session, no record of a session depends on later
  data, the audit accounts for the shares held, and the loop returns.
\<close>

section \<open>What the other stages write to the audit\<close>

definition silent :: "OrderAuditRecord list \<Rightarrow> bool" where
  "silent as \<longleftrightarrow> (\<forall>a\<in>set as. \<not> outcome (au_status a) \<and> au_status a \<noteq> Submitted)"

lemma silent_Nil [simp]: "silent []" by (simp add: silent_def)

lemma silent_snoc [simp]: "silent (as @ [a]) \<longleftrightarrow> silent as \<and> \<not> outcome (au_status a) \<and> au_status a \<noteq> Submitted"
  by (auto simp: silent_def)

lemma corporate_step_silent:
  assumes "corporate_step d e st = Inr st'" and "silent (snd (snd st))"
  shows "silent (snd (snd st')) \<and> set (dkeys (fst st')) \<subseteq> set (dkeys (fst st))"
proof -
  obtain b cash audit where st: "st = (b, cash, audit)" by (cases st)
  have key: "ca_ticker e \<in> set (dkeys b)" if "dget b (ca_ticker e) = Some p" for p
    using that dget_eq_None_iff[of b "ca_ticker e"] by auto
  show ?thesis
    using assms key unfolding st corporate_step_def Let_def
    by (auto simp: outcome_def set_dkeys_dset set_dkeys_dpop split: if_splits option.splits ca_type.splits)
qed

lemma corporate_actions_silent:
  assumes "apply_corporate_actions spec d b cash = Inr (b', cash', audit)"
  shows "silent audit" and "set (dkeys b') \<subseteq> set (dkeys b)"
proof -
  have "silent (snd (snd (b', cash', audit))) \<and> set (dkeys (fst (b', cash', audit))) \<subseteq> set (dkeys b)"
  proof (rule rfold_invariant[where P = "\<lambda>st. silent (snd (snd st)) \<and> set (dkeys (fst st)) \<subseteq> set (dkeys b)"])
    show "rfold (corporate_step d) (spec_actions spec) (b, cash, []) = Inr (b', cash', audit)"
      using assms by (simp add: apply_corporate_actions_def)
  qed (use corporate_step_silent in force)+
  then show "silent audit" and "set (dkeys b') \<subseteq> set (dkeys b)" by auto
qed

lemma write_off_silent:
  assumes "write_off_stale_positions spec config d today b cash pending stale = (st, pending', stale')"
  shows "silent (xs_audit st)"
proof -
  have step: "silent (xs_audit (wo_exec (write_off_step spec config d today t w)))"
    if "silent (xs_audit (wo_exec w))" for t w
    using that by (auto simp: write_off_step_def Let_def outcome_def split: option.splits)
  have "silent (xs_audit (wo_exec (fold (write_off_step spec config d today) ts w)))"
    if "silent (xs_audit (wo_exec w))" for ts w
    using that by (induction ts arbitrary: w) (auto intro: step)
  with assms show ?thesis
    by (auto simp: write_off_stale_positions_def Let_def split: if_splits)
qed

section \<open>The life of an order\<close>

definition submitted_keys :: "OrderAuditRecord list \<Rightarrow> (order_side \<times> ticker \<times> date) multiset" where
  "submitted_keys as = mset (map record_key (filter (\<lambda>a. au_status a = Submitted) as))"

definition outcome_keys :: "OrderAuditRecord list \<Rightarrow> (order_side \<times> ticker \<times> date) multiset" where
  "outcome_keys as = mset (map record_key (filter (\<lambda>a. outcome (au_status a)) as))"

lemma keys_append [simp]:
  "submitted_keys (as @ bs) = submitted_keys as + submitted_keys bs"
  "outcome_keys (as @ bs) = outcome_keys as + outcome_keys bs"
  by (simp_all add: submitted_keys_def outcome_keys_def)

lemma keys_silent [simp]: "silent as \<Longrightarrow> submitted_keys as = {#} \<and> outcome_keys as = {#}"
  by (auto simp: silent_def submitted_keys_def outcome_keys_def filter_empty_conv)

lemma keys_answered: "answered d xs as \<Longrightarrow> submitted_keys as = {#} \<and> outcome_keys as = mset (map order_key xs)"
  by (auto simp: answered_def submitted_keys_def outcome_keys_def filter_empty_conv outcome_def
      intro!: arg_cong[where f = mset] filter_True)

lemma keys_submitted:
  "submitted_keys (map submitted_record xs) = mset (map order_key xs) \<and> outcome_keys (map submitted_record xs) = {#}"
  by (simp add: submitted_keys_def outcome_keys_def filter_map o_def submitted_record_def record_key_def
      order_key_def[abs_def] outcome_def)

lemma keys_expired:
  "submitted_keys (expired_orders d xs) = {#} \<and> outcome_keys (expired_orders d xs) = mset (map order_key xs)"
  by (simp add: submitted_keys_def outcome_keys_def expired_orders_def filter_map o_def record_key_def
      order_key_def[abs_def] outcome_def)

definition accounted :: "run_state \<Rightarrow> bool" where
  "accounted st \<longleftrightarrow> submitted_keys (rs_audit st) = outcome_keys (rs_audit st) + mset (map order_key (rs_pending st))"

lemma run_day_answers:
  assumes run: "run_day eng data (d, today) st = Inr st'" and day: "dict_ok today"
    and q: "queue_ok st" and later: "\<forall>x\<in>set (rs_pending st). po_signal_date x < d"
  shows "\<exists>as quiet. answered d (rs_pending st) as \<and> silent quiet \<and>
    mset (rs_audit st') = mset (rs_audit st) + mset quiet + mset as + mset (map submitted_record (rs_pending st'))"
  using run
proof (rule run_day_stages)
  fix b cash corporate executed forced pending stale out
  assume st: "apply_corporate_actions (en_spec eng) d (rs_positions st) (rs_cash st) = Inr (b, cash, corporate)"
    "execute_pending_orders (en_spec eng) d today b cash (rs_pending st) = Inr executed"
    "write_off_stale_positions (en_spec eng) (en_config eng) d today
       (xs_positions executed) (xs_cash executed) [] (rs_stale st) = (forced, pending, stale)"
    "generate_signals eng data d today (xs_positions forced) pending = Inr out"
    "st' = close_day d today corporate executed forced pending stale out st"
  have keys: "has_key (rs_positions st) t" if "has_key b t" for t
    using corporate_actions_silent(2)[OF st(1)] that by (auto simp: has_key_iff)
  have "po_side x = Side_Sell \<or> po_side x = Side_Buy \<and> \<not> has_key b (po_ticker x)"
    if "x \<in> set (rs_pending st)" for x
    using q keys[of "po_ticker x"] that by (cases "po_side x") (auto simp: queue_ok_def order_fits_def)
  then have "\<forall>x\<in>set (rs_pending st). po_side x = Side_Sell \<or> po_side x = Side_Buy \<and> \<not> has_key b (po_ticker x)"
    by blast
  then have "answered d (rs_pending st) (xs_audit executed)"
    by (rule session_answers[OF later _ st(2)])
  moreover have "silent (corporate @ xs_audit forced)"
    using corporate_actions_silent(1)[OF st(1)] write_off_silent[OF st(3)] by (auto simp: silent_def)
  moreover have "so_audit out = map submitted_record (so_orders out)"
    using generate_signals_pass[OF day st(4)] by (simp add: pass_ok_def)
  moreover have "pending = []" by (rule write_off_pending[OF st(3)])
  ultimately show ?thesis
    by (intro exI[of _ "xs_audit executed"] exI[of _ "corporate @ xs_audit forced"])
       (simp add: st(5) close_day_def Let_def)
qed

lemma mset_keys:
  "mset as = mset bs \<Longrightarrow> submitted_keys as = submitted_keys bs \<and> outcome_keys as = outcome_keys bs"
  by (simp add: submitted_keys_def outcome_keys_def)

lemma run_day_accounted:
  assumes "run_day eng data (d, today) st = Inr st'" and "dict_ok today"
    and "queue_ok st" and "\<forall>x\<in>set (rs_pending st). po_signal_date x < d" and "accounted st"
  shows "accounted st'"
proof -
  from run_day_answers[OF assms(1-4)] obtain as quiet where
    a: "answered d (rs_pending st) as" "silent quiet" and
    m: "mset (rs_audit st') = mset (rs_audit st @ quiet @ as @ map submitted_record (rs_pending st'))"
    by (auto simp: ac_simps)
  from mset_keys[OF m] keys_answered[OF a(1)] keys_silent[OF a(2)] keys_submitted[of "rs_pending st'"] assms(5)
  show ?thesis by (simp add: accounted_def)
qed

section \<open>Sessions in order\<close>

lemma run_day_curve: "run_day eng data (d, today) st = Inr st' \<Longrightarrow>
    \<exists>p. rs_curve st' = rs_curve st @ [p] \<and> eq_date p = d"
  by (erule run_day_stages) (simp add: close_day_def Let_def equity_point_def)

lemma run_days_snoc:
  "run_days eng data (days @ [day]) = rbind (run_days eng data days) (run_day eng data day)"
  by (cases "run_days eng data days") (auto simp: run_days_def rfold_append rbind_def split: sum.splits)

lemma run_days_curve:
  "run_days eng data days = Inr st \<Longrightarrow> map eq_date (rs_curve st) = map fst days"
proof (induction days arbitrary: st rule: rev_induct)
  case Nil
  then show ?case by (auto simp: run_days_def start_state_def)
next
  case (snoc day days)
  then obtain s where s: "run_days eng data days = Inr s" "run_day eng data day s = Inr st"
    by (auto simp: run_days_snoc rbind_eq_Inr)
  obtain d today where "day = (d, today)" by (cases day)
  with run_day_curve s(2) snoc.IH[OF s(1)] show ?case by fastforce
qed

lemma run_days_last_date:
  "run_days eng data days = Inr st \<Longrightarrow> rs_curve st \<noteq> [] \<Longrightarrow> days \<noteq> [] \<and> eq_date (last (rs_curve st)) = fst (last days)"
  using run_days_curve[of eng data days st] by (metis last_map map_is_Nil_conv)

lemma run_days_queue:
  assumes "run_days eng data days = Inr st" and "\<forall>(d, today)\<in>set days. dict_ok today"
  shows "queue_ok st \<and> (\<forall>x\<in>set (rs_pending st). days \<noteq> [] \<and> po_signal_date x = fst (last days))"
proof -
  have q: "queue_ok st"
  proof (cases days rule: rev_cases)
    case Nil
    with assms show ?thesis by (auto simp: run_days_def start_state_def queue_ok_def)
  next
    case (snoc ds day)
    obtain d today where day: "day = (d, today)" by (cases day)
    with assms snoc obtain s where "run_day eng data (d, today) s = Inr st"
      by (auto simp: run_days_snoc rbind_eq_Inr)
    with run_day_queue assms(2) snoc day show ?thesis by fastforce
  qed
  with run_days_last_date[OF assms(1)] show ?thesis
    by (auto simp: queue_ok_def order_fits_def)
qed

definition sessions_ok :: "(date \<times> day_bars) list \<Rightarrow> bool" where
  "sessions_ok days \<longleftrightarrow> sorted_wrt (<) (map fst days) \<and> (\<forall>(d, today)\<in>set days. dict_ok today)"

lemma sessions_ok_snoc:
  assumes "sessions_ok (days @ [(d, today)])"
  shows "sessions_ok days" and "dict_ok today" and "days \<noteq> [] \<Longrightarrow> fst (last days) < d"
  using assms by (auto simp: sessions_ok_def sorted_wrt_append)

lemma run_days_accounted:
  "sessions_ok days \<Longrightarrow> run_days eng data days = Inr st \<Longrightarrow> accounted st"
proof (induction days arbitrary: st rule: rev_induct)
  case Nil
  then show ?case by (auto simp: run_days_def start_state_def accounted_def submitted_keys_def outcome_keys_def)
next
  case (snoc day days)
  obtain d today where day: "day = (d, today)" by (cases day)
  from snoc.prems obtain s where s: "run_days eng data days = Inr s" "run_day eng data (d, today) s = Inr st"
    by (auto simp: run_days_snoc rbind_eq_Inr day)
  note ok = sessions_ok_snoc[OF snoc.prems(1)[unfolded day]]
  have "queue_ok s \<and> (\<forall>x\<in>set (rs_pending s). days \<noteq> [] \<and> po_signal_date x = fst (last days))"
    using run_days_queue[OF s(1)] ok(1) by (auto simp: sessions_ok_def)
  with ok(3) have "queue_ok s" "\<forall>x\<in>set (rs_pending s). po_signal_date x < d" by auto
  with run_day_accounted[OF s(2) ok(2)] snoc.IH[OF ok(1) s(1)] show ?case by blast
qed

lemma finish_run_settled:
  assumes "sessions_ok days" and "run_days eng data days = Inr st"
  shows "submitted_keys (br_audit (finish_run eng exclusions days st))
       = outcome_keys (br_audit (finish_run eng exclusions days st))"
proof (cases "days = []")
  case True
  with assms(2) show ?thesis
    by (auto simp: run_days_def start_state_def finish_run_def Let_def submitted_keys_def outcome_keys_def)
next
  case False
  with run_days_accounted[OF assms] keys_expired[of "fst (last days)" "rs_pending st"] show ?thesis
    by (simp add: finish_run_def Let_def accounted_def)
qed

text \<open>An order is answered at the session right after the one that queued it.\<close>

definition next_session :: "(date \<times> day_bars) list \<Rightarrow> OrderAuditRecord \<Rightarrow> bool" where
  "next_session days a \<longleftrightarrow>
     (\<exists>i. Suc i < length days \<and> au_signal_date a = fst (days ! i) \<and> au_date a = fst (days ! Suc i))"

lemma next_session_append: "next_session days a \<Longrightarrow> next_session (days @ ds) a"
  unfolding next_session_def by (metis Suc_lessD length_append nth_append trans_less_add1)

lemma run_days_next_session:
  "sessions_ok days \<Longrightarrow> run_days eng data days = Inr st \<Longrightarrow> a \<in> set (rs_audit st) \<Longrightarrow>
     outcome (au_status a) \<Longrightarrow> next_session days a"
proof (induction days arbitrary: st rule: rev_induct)
  case Nil
  then show ?case by (auto simp: run_days_def start_state_def)
next
  case (snoc day days)
  obtain d today where day: "day = (d, today)" by (cases day)
  from snoc.prems obtain s where s: "run_days eng data days = Inr s" "run_day eng data (d, today) s = Inr st"
    by (auto simp: run_days_snoc rbind_eq_Inr day)
  note ok = sessions_ok_snoc[OF snoc.prems(1)[unfolded day]]
  have q: "queue_ok s" "\<forall>x\<in>set (rs_pending s). days \<noteq> [] \<and> po_signal_date x = fst (last days)"
    using run_days_queue[OF s(1)] ok(1) by (auto simp: sessions_ok_def)
  with ok(3) have "\<forall>x\<in>set (rs_pending s). po_signal_date x < d" by auto
  from run_day_answers[OF s(2) ok(2) q(1) this] obtain as quiet where
    an: "answered d (rs_pending s) as" "silent quiet" and
    m: "mset (rs_audit st) = mset (rs_audit s) + mset quiet + mset as + mset (map submitted_record (rs_pending st))"
    by blast
  from arg_cong[OF m, of set_mset] snoc.prems(3)
  have "a \<in> set (rs_audit s) \<or> a \<in> set quiet \<or> a \<in> set as \<or> a \<in> set (map submitted_record (rs_pending st))"
    by auto
  then consider "a \<in> set (rs_audit s)" | "a \<in> set as"
    using an(2) snoc.prems(4) by (auto simp: silent_def submitted_record_def outcome_def)
  then show ?case
  proof cases
    case 1
    with snoc.IH[OF ok(1) s(1)] snoc.prems(4) show ?thesis by (blast intro: next_session_append)
  next
    case 2
    then have "record_key a \<in># mset (map record_key as)" by simp
    then have "record_key a \<in># mset (map order_key (rs_pending s))"
      using an(1) by (metis answered_def)
    then obtain x where x: "x \<in> set (rs_pending s)" "record_key a = order_key x" by auto
    with q(2) have "days \<noteq> []" "au_signal_date a = fst (last days)"
      by (auto simp: record_key_def order_key_def)
    moreover have "au_date a = d" using an(1) 2 by (auto simp: answered_def)
    ultimately show ?thesis unfolding next_session_def day
      by (intro exI[of _ "length days - 1"]) (auto simp: nth_append last_conv_nth Suc_diff_Suc)
  qed
qed

end
