(* ===== verification/Bt_Run_Returns.thy ===== *)
theory Bt_Run_Returns
  imports Bt_Run_Props "HOL-Library.Sublist"
begin

text \<open>
  Which inputs let the day loop return, what it may depend on, and what a stop-loss guarantees.
\<close>

section \<open>No look-ahead\<close>

lemma rfold_cong: "(\<And>x s. x \<in> set xs \<Longrightarrow> f x s = g x s) \<Longrightarrow> rfold f xs s = rfold g xs s"
proof (induction xs arbitrary: s)
  case (Cons x xs)
  then show ?case by (cases "g x s") auto
qed simp

text \<open>Two data sets that agree on the metrics of the given sessions.\<close>

definition same_view :: "(date \<times> day_bars) list \<Rightarrow> PreparedMarketData \<Rightarrow> PreparedMarketData \<Rightarrow> bool" where
  "same_view days data data' \<longleftrightarrow>
     (\<forall>(d, today)\<in>set days. \<forall>t\<in>set (dkeys today).
        dget (pm_metrics_by_key data) (d, t) = dget (pm_metrics_by_key data') (d, t)
        \<and> dget (pm_previous_metrics_by_key data) (d, t) = dget (pm_previous_metrics_by_key data') (d, t))"

lemma generate_signals_view:
  assumes "same_view days data data'" and "(d, today) \<in> set days"
  shows "generate_signals eng data d today b pending = generate_signals eng data' d today b pending"
proof -
  have "generate_rule_signals spec d today b (pm_metrics_by_key data) (pm_previous_metrics_by_key data) pending
      = generate_rule_signals spec d today b (pm_metrics_by_key data') (pm_previous_metrics_by_key data') pending" for spec
    unfolding generate_rule_signals_def
  proof (rule rfold_cong)
    fix t out assume "t \<in> set (sort (dkeys today))"
    with assms have eq: "dget (pm_metrics_by_key data) (d, t) = dget (pm_metrics_by_key data') (d, t)"
      "dget (pm_previous_metrics_by_key data) (d, t) = dget (pm_previous_metrics_by_key data') (d, t)"
      by (auto simp: same_view_def)
    have "snapshot_of d t m (pm_previous_metrics_by_key data) = snapshot_of d t m (pm_previous_metrics_by_key data')" for m
      unfolding snapshot_of_def eq(2) ..
    then show "signal_step spec d today b (pm_metrics_by_key data) (pm_previous_metrics_by_key data) pending t out
        = signal_step spec d today b (pm_metrics_by_key data') (pm_previous_metrics_by_key data') pending t out"
      unfolding signal_step_def eq(1) by (cases "dget (pm_metrics_by_key data') (d, t)") simp_all
  qed
  then show ?thesis by (simp add: generate_signals_def split: option.splits)
qed

lemma run_days_view:
  assumes "same_view days data data'"
  shows "run_days eng data days = run_days eng data' days"
  unfolding run_days_def
proof (rule rfold_cong)
  fix day s assume in_days: "day \<in> set days"
  obtain d today where day: "day = (d, today)" by (cases day)
  have "generate_signals eng data d today b pending = generate_signals eng data' d today b pending" for b pending
    using generate_signals_view[OF assms] in_days day by blast
  then show "run_day eng data day s = run_day eng data' day s"
    by (simp add: run_day_def day)
qed

definition extends :: "run_state \<Rightarrow> run_state \<Rightarrow> bool" where
  "extends st st' \<longleftrightarrow> prefix (rs_curve st) (rs_curve st') \<and> prefix (rs_trades st) (rs_trades st')
     \<and> prefix (rs_signals st) (rs_signals st') \<and> prefix (rs_audit st) (rs_audit st')"

lemma run_day_extends: "run_day eng data day st = Inr st' \<Longrightarrow> extends st st'"
  by (cases day) (auto elim!: run_day_stages simp: extends_def close_day_def Let_def)

lemma run_days_extends:
  assumes "rfold (run_day eng data) days st = Inr st'"
  shows "extends st st'"
  by (rule rfold_invariant[where P = "extends st", OF _ _ assms])
     (auto simp: extends_def dest!: run_day_extends intro: prefix_order.trans)

lemma no_look_ahead:
  assumes "run_days eng data (days @ later) = Inr st" and "same_view days data data'"
  shows "\<exists>st0. run_days eng data' days = Inr st0 \<and> extends st0 st"
proof -
  from assms(1) obtain st0 where "run_days eng data days = Inr st0" "rfold (run_day eng data) later st0 = Inr st"
    by (auto simp: run_days_def rfold_append rbind_eq_Inr)
  with run_days_view[OF assms(2)] run_days_extends show ?thesis by auto
qed

section \<open>When signal generation returns\<close>

definition metrics_ready :: "StrategySpec \<Rightarrow> PreparedMarketData \<Rightarrow> date \<Rightarrow> ticker \<Rightarrow> bool" where
  "metrics_ready spec data d t \<longleftrightarrow>
     (\<exists>m. dget (pm_metrics_by_key data) (d, t) = Some m
        \<and> (\<forall>n\<in>set (required_metric_names spec). metric_present n m))
     \<and> (\<forall>p. dget (pm_previous_metrics_by_key data) (d, t) = Some (Some p) \<longrightarrow> p \<noteq> []
          \<longrightarrow> (\<forall>n\<in>set (required_metric_names spec). metric_present n p))"

definition scalar_rules :: "StrategySpec \<Rightarrow> bool" where
  "scalar_rules spec \<longleftrightarrow> list_all scalar_right (sp_entry_rules spec @ sp_exit_rules spec)"

lemma rule_signals_return:
  assumes valid: "spec_valid spec" and scalar: "scalar_rules spec"
    and ready: "\<forall>t\<in>set (dkeys today). metrics_ready spec data d t"
  shows "\<exists>out. generate_rule_signals spec d today b (pm_metrics_by_key data) (pm_previous_metrics_by_key data) pending = Inr out"
proof -
  have "\<exists>out'. signal_step spec d today b (pm_metrics_by_key data) (pm_previous_metrics_by_key data) pending t out = Inr out' \<and> True"
    if t: "t \<in> set (sort (dkeys today))" for t out
  proof -
    from t ready obtain m where m: "dget (pm_metrics_by_key data) (d, t) = Some m"
      "\<forall>n\<in>set (required_metric_names spec). metric_present n m" by (auto simp: metrics_ready_def)
    let ?market = "snapshot_of d t m (pm_previous_metrics_by_key data)"
    have "\<exists>dec. generate_signal spec ?market (has_key b t) = Inr dec"
    proof (rule generate_signal_returns[OF valid])
      fix c assume c: "c \<in> set (sp_entry_rules spec) \<union> set (sp_exit_rules spec)"
      have "metrics_cover p c" if "ms_previous_metrics ?market = Some p" "p \<noteq> []" for p
        using that t ready required_covers[OF c, of p]
        by (auto simp: snapshot_of_def metrics_ready_def split: option.splits)
      then show "scalar_right c \<and> metrics_cover (ms_metrics ?market) c \<and>
          (\<forall>p. ms_previous_metrics ?market = Some p \<longrightarrow> p \<noteq> [] \<longrightarrow> metrics_cover p c)"
        using c scalar required_covers[OF c m(2)] by (auto simp: snapshot_of_def scalar_rules_def list_all_iff)
    qed
    moreover have "\<exists>bar. dget today t = Some bar"
      using t dget_eq_None_iff[of today t] by auto
    ultimately show ?thesis using m(1) by (auto simp: signal_step_def)
  qed
  then show ?thesis unfolding generate_rule_signals_def
    using rfold_total[of "sort (dkeys today)" "\<lambda>_. True"
        "signal_step spec d today b (pm_metrics_by_key data) (pm_previous_metrics_by_key data) pending"] by blast
qed

definition rows_ready :: "engine \<Rightarrow> PreparedMarketData \<Rightarrow> int list \<Rightarrow> date \<Rightarrow> ticker \<Rightarrow> bool" where
  "rows_ready eng prepared actions d t \<longleftrightarrow>
     (\<exists>i. dget (pm_row_index_by_key prepared) (d, t) = Some i \<and> i < length actions
        \<and> (case en_scores eng of None \<Rightarrow> True | Some xs \<Rightarrow> i < length xs))"

lemma compact_signals_return:
  assumes ready: "\<forall>t\<in>set (dkeys today). rows_ready eng prepared actions d t"
  shows "\<exists>out. generate_compact_signals spec d today b (pm_row_index_by_key prepared) actions (en_scores eng) pending = Inr out"
proof -
  have "\<exists>st'. compact_step spec d today b (pm_row_index_by_key prepared) actions (en_scores eng) t st = Inr st' \<and> True"
    if t: "t \<in> set (sort (dkeys today))" for t st
  proof -
    from t ready obtain i where i: "dget (pm_row_index_by_key prepared) (d, t) = Some i" "i < length actions"
      "case en_scores eng of None \<Rightarrow> True | Some xs \<Rightarrow> i < length xs" by (auto simp: rows_ready_def)
    obtain bar where bar: "dget today t = Some bar"
      using t dget_eq_None_iff[of today t] by auto
    obtain s where s: "generated_score (en_scores eng) i = Inr s"
      using i(3) by (cases "en_scores eng") (auto simp: generated_score_def py_index_def)
    obtain out keys where "st = (out, keys)" by (cases st)
    then have "\<exists>r. compact_action d t bar (has_key b t) (actions ! i) (generated_score (en_scores eng) i) st = Inr r"
      by (simp add: compact_action_def s)
    then show ?thesis using i bar by (auto simp: compact_step_def py_index_def)
  qed
  then obtain st where "rfold (compact_step spec d today b (pm_row_index_by_key prepared) actions (en_scores eng))
      (sort (dkeys today)) (no_signals, pending_keys pending) = Inr st"
    using rfold_total[of "sort (dkeys today)" "\<lambda>_. True"
        "compact_step spec d today b (pm_row_index_by_key prepared) actions (en_scores eng)"] by blast
  then show ?thesis by (cases st) (simp add: generate_compact_signals_def)
qed

definition signals_ready :: "engine \<Rightarrow> PreparedMarketData \<Rightarrow> date \<times> day_bars \<Rightarrow> bool" where
  "signals_ready eng data day \<longleftrightarrow>
     (case day of (d, today) \<Rightarrow>
        (case (en_actions eng, en_prepared eng) of
           (Some actions, Some prepared) \<Rightarrow> \<forall>t\<in>set (dkeys today). rows_ready eng prepared actions d t
         | _ \<Rightarrow> scalar_rules (en_spec eng) \<and> (\<forall>t\<in>set (dkeys today). metrics_ready (en_spec eng) data d t)))"

lemma generate_signals_return:
  assumes "spec_valid (en_spec eng)" and "signals_ready eng data (d, today)"
  shows "\<exists>out. generate_signals eng data d today b pending = Inr out"
  using assms rule_signals_return[OF assms(1)] compact_signals_return
  by (auto simp: generate_signals_def signals_ready_def split: option.splits)

section \<open>When a run returns\<close>

definition split_error :: py_error where
  "split_error = ValueError ''split ratio produced no whole shares''"

definition day_ready :: "engine \<Rightarrow> PreparedMarketData \<Rightarrow> date \<times> day_bars \<Rightarrow> bool" where
  "day_ready eng data day \<longleftrightarrow> day_ok (snd day) \<and> opens_finite (snd day) \<and> signals_ready eng data day"

definition has_split :: "StrategySpec \<Rightarrow> bool" where
  "has_split spec = list_ex (\<lambda>e. ca_event_type e = Ca_Split) (spec_actions spec)"

lemma run_day_returns:
  assumes m: "market_ok eng" and ready: "day_ready eng data (d, today)" and s: "solvent st"
  shows "(\<exists>st'. run_day eng data (d, today) st = Inr st')
    \<or> run_day eng data (d, today) st = Inl split_error \<and> has_split (en_spec eng)"
proof -
  have valid: "spec_valid (en_spec eng)" and sane: "sane_prices (en_spec eng)"
    using m by (auto simp: market_ok_def sane_prices_def)
  have day: "day_ok today" "opens_finite today" "signals_ready eng data (d, today)"
    using ready by (auto simp: day_ready_def)
  from s obtain c where c: "rs_cash st = Fin c" and b0: "book_ok (rs_positions st)" by (auto simp: solvent_def)
  show ?thesis
  proof (cases "apply_corporate_actions (en_spec eng) d (rs_positions st) (rs_cash st)")
    case (Inl e)
    have "actions_ok c (rs_positions st, Fin c, [])" using b0 by (simp add: actions_ok_def)
    from corporate_actions_error[OF spec_valid_events[OF valid] this] Inl c
    have "e = split_error \<and> has_split (en_spec eng)"
      by (auto simp: apply_corporate_actions_def split_error_def has_split_def list_ex_iff)
    with Inl show ?thesis by (simp add: run_day_def)
  next
    case (Inr r)
    obtain b cash corporate where r: "r = (b, cash, corporate)" by (cases r)
    note keep = corporate_actions_keep[OF valid b0 Inr[unfolded c r]]
    have "isfinite cash" using keep(2) by simp
    from execute_returns[OF sane day(1,2) keep(1) this] obtain executed where
      ex: "execute_pending_orders (en_spec eng) d today b cash (rs_pending st) = Inr executed" by blast
    obtain forced pending stale where wo: "write_off_stale_positions (en_spec eng) (en_config eng) d today
       (xs_positions executed) (xs_cash executed) [] (rs_stale st) = (forced, pending, stale)"
      by (metis prod_cases3)
    from generate_signals_return[OF valid day(3)] obtain out where
      "generate_signals eng data d today (xs_positions forced) pending = Inr out" by blast
    with Inr r ex wo show ?thesis by (simp add: run_day_def)
  qed
qed

lemma run_loop_returns:
  assumes m: "market_ok eng" and "list_all (day_ready eng data) days" and "run_ok eng st"
  shows "(\<exists>st'. rfold (run_day eng data) days st = Inr st')
    \<or> rfold (run_day eng data) days st = Inl split_error \<and> has_split (en_spec eng)"
  using assms(2,3)
proof (induction days arbitrary: st)
  case (Cons day days)
  obtain d today where day: "day = (d, today)" by (cases day)
  have "day_ready eng data (d, today)" "solvent st"
    using Cons.prems day by (auto simp: run_ok_def)
  from run_day_returns[OF m this] consider st' where "run_day eng data day st = Inr st'"
    | "run_day eng data day st = Inl split_error" "has_split (en_spec eng)" using day by auto
  then show ?case
  proof cases
    case (1 st')
    have "run_ok eng st'"
      by (rule day_loop.body_keeps[OF _ Cons.prems(2) 1]) (use m Cons.prems(1) day in \<open>simp add: day_ready_def\<close>)
    with Cons.IH[of st'] Cons.prems(1) 1 show ?thesis by simp
  qed simp
qed simp

section \<open>Included tickers have their metrics\<close>

lemma first_missing_none:
  "first_missing required table t bars = Inr None \<Longrightarrow> bar \<in> set bars \<Longrightarrow>
     \<exists>m. dget table (bar_date bar, t) = Some m \<and> (\<forall>n\<in>set required. metric_present n m)"
proof (induction bars)
  case (Cons x bars)
  then show ?case by (auto simp: Let_def filter_empty_conv split: option.splits if_splits)
qed simp

lemma select_loop_included:
  assumes "rfold (select_step required table) entries (inc, exc) = Inr (inc', exc')"
    and "t \<in> set inc'" and "t \<notin> set inc"
  shows "\<exists>bars. (t, bars) \<in> set entries \<and> first_missing required table t bars = Inr None"
  using assms
proof (induction entries arbitrary: inc exc)
  case (Cons e entries)
  obtain t0 bars where e: "e = (t0, bars)" by (cases e)
  have step: "select_step required table (t0, bars) (inc, exc) = rbind (first_missing required table t0 bars)
      (\<lambda>r. Inr (case r of None \<Rightarrow> (inc @ [t0], exc) | Some x \<Rightarrow> (inc, exc @ [x])))"
    by (simp add: select_step_def)
  from Cons.prems(1) obtain r where r: "first_missing required table t0 bars = Inr r"
    and rest: "rfold (select_step required table) entries
        (case r of None \<Rightarrow> (inc @ [t0], exc) | Some x \<Rightarrow> (inc, exc @ [x])) = Inr (inc', exc')"
    unfolding e rfold.simps step by (auto simp: rbind_eq_Inr)
  show ?case
  proof (cases "t = t0 \<and> r = None")
    case True
    with r e show ?thesis by auto
  next
    case False
    then have "\<exists>bs. (t, bs) \<in> set entries \<and> first_missing required table t bs = Inr None"
      using Cons.IH[of "inc @ [t0]" exc] Cons.IH[of inc] rest Cons.prems(2,3) by (cases r) auto
    then show ?thesis by auto
  qed
qed simp

lemma included_covered:
  assumes sel: "select_tickers eng data = Inr (included, exclusions)" and t: "t \<in> set included"
    and keys: "dict_ok (pm_bars_by_ticker data)" and bars: "dget (pm_bars_by_ticker data) t = Some bars" "bar \<in> set bars"
  shows "\<exists>m. dget (pm_metrics_by_key data) (bar_date bar, t) = Some m \<and> (\<forall>n\<in>set (needed_metrics eng). metric_present n m)"
proof -
  from select_loop_included[OF sel[unfolded select_tickers_def] t] obtain bs where
    bs: "(t, bs) \<in> set (pm_bars_by_ticker data)"
      "first_missing (needed_metrics eng) (pm_metrics_by_key data) t bs = Inr None" by auto
  have "bs = bars" using dget_SomeI[OF keys bs(1)] bars(1) by simp
  with first_missing_none[OF bs(2)] bars(2) show ?thesis by simp
qed

section \<open>Stop-loss\<close>

definition stop_hit :: "StrategySpec \<Rightarrow> Position \<Rightarrow> OhlcvBar \<Rightarrow> bool" where
  "stop_hit spec p bar \<longleftrightarrow>
     (case rc_stop_loss_pct (sp_risk_controls spec) of
        None \<Rightarrow> False | Some sl \<Rightarrow> sl \<noteq> 0 \<and> bar_close bar \<le> pos_entry_price p * Fin (1 - sl))"

lemma stop_hit_reason: "stop_hit spec p bar \<Longrightarrow> \<exists>r. risk_exit_reason spec p bar = Some r"
  by (auto simp: stop_hit_def risk_exit_reason_def Let_def split: option.splits)

definition sells :: "ticker \<Rightarrow> signal_out \<Rightarrow> bool" where
  "sells t out \<longleftrightarrow> (\<exists>x\<in>set (so_orders out). po_ticker x = t \<and> po_side x = Side_Sell)"

lemma sells_mono [simp]:
  "sells t (add_signal r out) = sells t out"
  "sells t out \<Longrightarrow> sells t (submit_order d t' side reason bar score out)"
  "sells t (submit_order d t Side_Sell reason bar score out)"
  by (auto simp: sells_def add_signal_def submit_order_def)

lemma act_keeps_sells: "sells t out \<Longrightarrow> sells t (act_on_decision spec d t' bar b keys dec out)"
  by (auto simp: act_on_decision_def risk_exit_def Let_def split: option.splits)

lemma signal_step_sells:
  assumes "signal_step spec d today b mk prev pending t' out = Inr out'"
  shows "sells t out \<Longrightarrow> sells t out'"
  using assms by (auto simp: signal_step_def rbind_eq_Inr act_keeps_sells split: option.splits)

lemma signal_step_stop:
  assumes st: "signal_step spec d today b mk prev [] t out = Inr out'"
    and p: "dget b t = Some p" and bar: "dget today t = Some bar" and hit: "stop_hit spec p bar"
  shows "sells t out'"
proof -
  obtain r where "risk_exit_reason spec p bar = Some r" using stop_hit_reason[OF hit] by blast
  then have "sells t (act_on_decision spec d t bar b [] dec o1)" for dec o1
    using p by (auto simp: act_on_decision_def risk_exit_def Let_def has_key_def)
  with st bar show ?thesis by (auto simp: signal_step_def rbind_eq_Inr pending_keys_def split: option.splits)
qed

lemma rule_signals_stop:
  assumes gen: "generate_rule_signals spec d today b mk prev [] = Inr out"
    and p: "dget b t = Some p" and bar: "dget today t = Some bar" and hit: "stop_hit spec p bar"
  shows "sells t out"
proof -
  let ?f = "signal_step spec d today b mk prev []"
  have "t \<in> set (sort (dkeys today))" using bar dget_eq_None_iff[of today t] by auto
  then obtain xs ys where "sort (dkeys today) = xs @ t # ys" by (meson split_list)
  with gen obtain s1 s2 where s: "?f t s1 = Inr s2" "rfold ?f ys s2 = Inr out"
    by (auto simp: generate_rule_signals_def rfold_append rbind_eq_Inr)
  show ?thesis
    by (rule rfold_invariant[where P = "sells t", OF _ _ s(2)])
       (use signal_step_sells signal_step_stop[OF s(1) p bar hit] in blast)+
qed

end
