(* ===== verification/Bt_Sample.thy ===== *)
theory Bt_Sample
  imports Bt_Engine
begin

text \<open>
  The two demo specifications the module ships (\<open>build_sample_spec\<close>, \<open>build_sample_talib_spec\<close>)
  and small market data on which the properties are evaluated.  \<open>created_at\<close> is the clock
  reading at construction, an argument here.
\<close>

definition sample_rule :: "string \<Rightarrow> ConditionOperator \<Rightarrow> cond_right \<Rightarrow> string \<Rightarrow> Condition" where
  "sample_rule l op r text = \<lparr>c_left = l, c_operator = op, c_right = r, c_description = Some text\<rparr>"

definition build_sample_spec :: "datetime \<Rightarrow> StrategySpec" where
  "build_sample_spec created_at =
     \<lparr>sp_schema_version = ''1.0.0'', sp_strategy_id = ''sample_close_above_open'',
      sp_strategy_name = ''Sample Close Above Open'',
      sp_description = Some ''Demo strategy using only built-in OHLCV metrics.'',
      sp_created_at = created_at, sp_market = KRX, sp_asset_type = Equity, sp_user_intent = None,
      sp_entry_rules = [sample_rule ''close'' GT (RName ''open'') ''close > open''], sp_entry_logic = Logic_All,
      sp_exit_rules = [sample_rule ''close'' LT (RName ''open'') ''close < open''], sp_exit_logic = Logic_Any,
      sp_position_sizing = default_position_sizing\<lparr>ps_max_positions := Some 5\<rparr>,
      sp_risk_controls = default_risk_controls\<lparr>rc_stop_loss_pct := Some (8 / 100), rc_take_profit_pct := None\<rparr>,
      sp_backtest = default_backtest_config
        \<lparr>bc_cost_model := default_cost_model\<lparr>cm_commission_pct := 0, cm_tax_pct := 0, cm_slippage_pct := 0\<rparr>\<rparr>,
      sp_reporting = default_reporting\<rparr>"

definition build_sample_talib_spec :: "datetime \<Rightarrow> StrategySpec" where
  "build_sample_talib_spec created_at =
     (build_sample_spec created_at)
       \<lparr>sp_strategy_id := ''sample_rsi_talib'', sp_strategy_name := ''Sample RSI TA-Lib'',
        sp_description := Some ''Demo strategy that requires TA-Lib RSI calculation from OHLCV.'',
        sp_entry_rules := [sample_rule ''rsi_14'' LTE (RNum 30) ''RSI(14) <= 30''],
        sp_exit_rules := [sample_rule ''rsi_14'' GTE (RNum 70) ''RSI(14) >= 70''],
        sp_position_sizing := default_position_sizing\<lparr>ps_max_positions := Some 10\<rparr>,
        sp_backtest := default_backtest_config
          \<lparr>bc_cost_model := default_cost_model
             \<lparr>cm_commission_pct := 15 / 100000, cm_tax_pct := 23 / 10000, cm_slippage_pct := 1 / 1000\<rparr>\<rparr>\<rparr>"

section \<open>Market data for the examples\<close>

definition demo_bar :: "date \<Rightarrow> ticker \<Rightarrow> rat \<Rightarrow> rat \<Rightarrow> OhlcvBar" where
  "demo_bar d t op cl =
     \<lparr>bar_date = d, bar_ticker = t, bar_open = Fin op, bar_high = Fin (max op cl), bar_low = Fin (min op cl),
      bar_close = Fin cl, bar_volume = Fin 1000, bar_raw_notional = Some (Fin 1000000), bar_name = '''', bar_market = ''''\<rparr>"

text \<open>Three sessions of one name: an up day, a flat day with a fill, a down day, and one more.\<close>

definition demo_rows :: "OhlcvBar list" where
  "demo_rows = [demo_bar 1 ''A'' 100 110, demo_bar 2 ''A'' 100 90, demo_bar 3 ''A'' 95 96]"

definition demo_config :: BacktestRunConfig where
  "demo_config = default_run_config
     \<lparr>cf_initial_capital := Fin 10000, cf_write_outputs := False,
      cf_talib := default_talib_config\<lparr>ti_mode := Talib_None\<rparr>\<rparr>"

definition demo_engine :: engine where
  "demo_engine =
     \<lparr>en_spec = build_sample_spec 0, en_config = demo_config, en_rows = demo_rows, en_metric_rows = [],
      en_prepared = None, en_actions = None, en_scores = None, en_normalized = False\<rparr>"

definition demo_data :: PreparedMarketData where
  "demo_data = (case prepare_market_data None [] demo_engine of
     Inr (data, memo) \<Rightarrow> data
   | Inl _ \<Rightarrow> \<lparr>pm_ohlcv_rows = [], pm_bars_by_ticker = [], pm_bars_by_date = [], pm_metrics_by_key = [],
               pm_previous_metrics_by_key = [], pm_dates = [], pm_row_index_by_key = []\<rparr>)"

definition demo_days :: "(date \<times> day_bars) list" where
  "demo_days = session_days [''A''] demo_data"

definition res_is :: "'a res \<Rightarrow> bool" where
  "res_is r = (case r of Inr _ \<Rightarrow> True | Inl _ \<Rightarrow> False)"

lemma res_is_Inr: "res_is r \<Longrightarrow> \<exists>x. r = Inr x"
  by (cases r) (auto simp: res_is_def)

definition demo_outcomes :: "OrderAuditRecord list" where
  "demo_outcomes = (case run_days demo_engine demo_data demo_days of
     Inr st \<Rightarrow> filter (\<lambda>a. au_status a = Executed) (rs_audit st) | Inl _ \<Rightarrow> [])"

definition clipped_data :: PreparedMarketData where
  "clipped_data = demo_data\<lparr>pm_metrics_by_key := filter (\<lambda>((d, t), m). d \<le> 2) (pm_metrics_by_key demo_data)\<rparr>"

definition demo_ready :: "date \<Rightarrow> bool" where
  "demo_ready d =
     ((case dget (pm_metrics_by_key demo_data) (d, ''A'') of
         None \<Rightarrow> False
       | Some m \<Rightarrow> list_all (\<lambda>n. metric_present n m) (required_metric_names (build_sample_spec 0)))
      \<and> (case dget (pm_previous_metrics_by_key demo_data) (d, ''A'') of
           Some (Some p) \<Rightarrow> list_all (\<lambda>n. metric_present n p) (required_metric_names (build_sample_spec 0))
         | _ \<Rightarrow> True))"

definition demo_held :: bool where
  "demo_held = (case run_days demo_engine demo_data (take 2 demo_days) of
     Inr st \<Rightarrow> has_key (rs_positions st) ''A'' | Inl _ \<Rightarrow> False)"

text \<open>One evaluation of the demo run; the facts below are its parts.\<close>

lemma demo_evaluation:
  "res_is (run_days demo_engine demo_data demo_days) \<and> res_is (run_engine None [] demo_engine)
   \<and> demo_days = [(1, [(''A'', demo_bar 1 ''A'' 100 110)]), (2, [(''A'', demo_bar 2 ''A'' 100 90)]),
       (3, [(''A'', demo_bar 3 ''A'' 95 96)])]
   \<and> length demo_outcomes = 2 \<and> demo_held \<and> list_all demo_ready [1, 2, 3]
   \<and> list_all (\<lambda>d. dget (pm_metrics_by_key demo_data) (d, ''A'') = dget (pm_metrics_by_key clipped_data) (d, ''A'')) [1, 2]
   \<and> select_tickers demo_engine demo_data = Inr ([''A''], []) \<and> pm_bars_by_ticker demo_data = [(''A'', demo_rows)]
   \<and> validate_strategy_spec (build_sample_spec 0) = Inr (build_sample_spec 0)"
  by code_simp

lemma demo_valid: "validate_strategy_spec (build_sample_spec 0) = Inr (build_sample_spec 0)"
  using demo_evaluation by (elim conjE)

lemma demo_run: "res_is (run_days demo_engine demo_data demo_days)"
  using demo_evaluation by (elim conjE)

lemma demo_run_engine: "res_is (run_engine None [] demo_engine)"
  using demo_evaluation by (elim conjE)

lemma demo_days_eq:
  "demo_days = [(1, [(''A'', demo_bar 1 ''A'' 100 110)]), (2, [(''A'', demo_bar 2 ''A'' 100 90)]),
    (3, [(''A'', demo_bar 3 ''A'' 95 96)])]"
  using demo_evaluation by (elim conjE)

lemma demo_outcomes_two: "length demo_outcomes = 2"
  using demo_evaluation by (elim conjE)

lemma demo_held: demo_held
  using demo_evaluation by (elim conjE)

lemma demo_all_ready: "list_all demo_ready [1, 2, 3]"
  using demo_evaluation by (elim conjE)

lemma demo_clipped:
  "dget (pm_metrics_by_key demo_data) (1, ''A'') = dget (pm_metrics_by_key clipped_data) (1, ''A'')"
  "dget (pm_metrics_by_key demo_data) (2, ''A'') = dget (pm_metrics_by_key clipped_data) (2, ''A'')"
  using demo_evaluation by simp_all

lemma demo_selection: "select_tickers demo_engine demo_data = Inr ([''A''], [])"
  using demo_evaluation by (elim conjE)

lemma demo_bars: "pm_bars_by_ticker demo_data = [(''A'', demo_rows)]"
  using demo_evaluation by (elim conjE)

end
