(* ===== verification/Bt_Properties.thy ===== *)
theory Bt_Properties
  imports Bt_Run_Returns Bt_Sample
begin

text \<open>
  The properties of the backtest engine, each with an evaluation on the demo data where it has
  hypotheses.  The proofs apply the lemmas of the component theories.
\<close>

section \<open>Facts about the demo data\<close>

lemma demo_spec_valid: "spec_valid (build_sample_spec 0)"
  by (simp add: spec_valid_def demo_valid)

lemma demo_market_ok: "market_ok demo_engine"
  by (simp add: market_ok_def sane_prices_def fees_bounded_def recovery_ok_def demo_engine_def demo_spec_valid)
     (simp add: build_sample_spec_def default_defs demo_config_def default_run_config_def)

lemma demo_days_ok: "\<forall>(d, today)\<in>set demo_days. day_ok today"
  by (simp add: demo_days_eq day_ok_def bar_ok_def dict_ok_def demo_bar_def)

lemma demo_sessions_ok: "sessions_ok demo_days"
  by (simp add: demo_days_eq sessions_ok_def dict_ok_def)

lemma demo_capital: "cf_initial_capital (en_config demo_engine) = Fin 10000"
  by (simp add: demo_engine_def demo_config_def)

section \<open>Runs\<close>



text \<open>C2. The position cap holds after every run: never more open positions than
  \<open>max_positions\<close>.\<close>

theorem run_within_slots:
  assumes "market_ok eng" and "\<forall>(d, today)\<in>set days. day_ok today"
    and "cf_initial_capital (en_config eng) = Fin c" and "0 \<le> c"
    and "run_days eng data days = Inr st"
    and "ps_max_positions (sp_position_sizing (en_spec eng)) = Some m"
  shows "int (length (rs_positions st)) \<le> m"
  using run_days_ok[OF assms(1-5)] assms(6) by (simp add: run_ok_def within_slots_def)

theorem run_within_slots_witness:
  "\<exists>st. run_days demo_engine demo_data demo_days = Inr st \<and> int (length (rs_positions st)) \<le> 5"
proof -
  obtain st where st: "run_days demo_engine demo_data demo_days = Inr st"
    using res_is_Inr[OF demo_run] by blast
  have "ps_max_positions (sp_position_sizing (en_spec demo_engine)) = Some 5"
    by (simp add: demo_engine_def build_sample_spec_def)
  from run_within_slots[OF demo_market_ok demo_days_ok demo_capital _ st this] st show ?thesis by auto
qed

text \<open>C3. Every submitted order has exactly one outcome: in the audit of a finished run the
  submitted records and the outcome records (executed, unfilled, skipped, ignored or expired)
  carry the same orders, with multiplicity.\<close>

theorem every_order_settled:
  assumes "sessions_ok days" and "run_days eng data days = Inr st"
  shows "submitted_keys (br_audit (finish_run eng exclusions days st))
       = outcome_keys (br_audit (finish_run eng exclusions days st))"
  using assms by (rule finish_run_settled)

theorem every_order_settled_witness:
  "\<exists>st. run_days demo_engine demo_data demo_days = Inr st
     \<and> submitted_keys (br_audit (finish_run demo_engine [] demo_days st))
       = outcome_keys (br_audit (finish_run demo_engine [] demo_days st))"
proof -
  obtain st where st: "run_days demo_engine demo_data demo_days = Inr st"
    using res_is_Inr[OF demo_run] by blast
  from every_order_settled[OF demo_sessions_ok st] st show ?thesis by blast
qed

text \<open>C4. Orders execute at the next session only: every outcome the day loop records for an
  order is dated at the session that follows the one whose close queued the order.\<close>

theorem fills_next_session:
  assumes "sessions_ok days" and "run_days eng data days = Inr st"
    and "a \<in> set (rs_audit st)" and "outcome (au_status a)"
  shows "\<exists>i. Suc i < length days \<and> au_signal_date a = fst (days ! i) \<and> au_date a = fst (days ! Suc i)"
  using run_days_next_session[OF assms] by (simp add: next_session_def)

theorem fills_next_session_witness:
  "\<exists>a i. a \<in> set demo_outcomes \<and> Suc i < length demo_days \<and> au_signal_date a = fst (demo_days ! i)
     \<and> au_date a = fst (demo_days ! Suc i)"
proof -
  obtain st where st: "run_days demo_engine demo_data demo_days = Inr st"
    using res_is_Inr[OF demo_run] by blast
  have "demo_outcomes \<noteq> []" using demo_outcomes_two by auto
  then have a: "hd demo_outcomes \<in> set demo_outcomes" by simp
  then have "hd demo_outcomes \<in> set (rs_audit st)" "outcome (au_status (hd demo_outcomes))"
    unfolding demo_outcomes_def st by (auto simp: outcome_def)
  from fills_next_session[OF demo_sessions_ok st this] a show ?thesis by blast
qed

text \<open>C5. No look-ahead: replacing every metric of later sessions, and dropping the later bars,
  leaves the equity curve, trades, signals and audit of the earlier sessions as they were; a
  longer run only appends to them.\<close>

theorem no_look_ahead_run:
  assumes "run_days eng data (days @ later) = Inr st" and "same_view days data data'"
  shows "\<exists>st0. run_days eng data' days = Inr st0 \<and> extends st0 st"
  using assms by (rule no_look_ahead)

lemma demo_same_view: "same_view (take 2 demo_days) demo_data clipped_data"
proof -
  have "dget (pm_metrics_by_key demo_data) (d, ''A'') = dget (pm_metrics_by_key clipped_data) (d, ''A'')"
    if "d = 1 \<or> d = 2" for d
    using that demo_clipped by auto
  then show ?thesis by (simp add: same_view_def demo_days_eq dkeys_def) (simp add: clipped_data_def)
qed

theorem no_look_ahead_witness:
  "\<exists>st st0. run_days demo_engine demo_data demo_days = Inr st
     \<and> run_days demo_engine clipped_data (take 2 demo_days) = Inr st0 \<and> extends st0 st"
proof -
  obtain st where st: "run_days demo_engine demo_data demo_days = Inr st"
    using res_is_Inr[OF demo_run] by blast
  then have "run_days demo_engine demo_data (take 2 demo_days @ drop 2 demo_days) = Inr st" by simp
  from no_look_ahead_run[OF this demo_same_view] st show ?thesis by blast
qed





text \<open>A held name has traded recently: after every run with a positive grace period, each open
  position has gone without a bar for fewer sessions than the grace period.\<close>

theorem held_names_fresh:
  assumes "market_ok eng" and "\<forall>(d, today)\<in>set days. day_ok today"
    and "cf_initial_capital (en_config eng) = Fin c" and "0 \<le> c"
    and "run_days eng data days = Inr st"
    and "0 < cf_delisting_grace_days (en_config eng)" and "has_key (rs_positions st) t"
  shows "stale_count (rs_stale st) t < cf_delisting_grace_days (en_config eng)"
  using run_days_ok[OF assms(1-5)] assms(6,7) by (simp add: run_ok_def fresh_enough_def)

theorem held_names_fresh_witness:
  "\<exists>st. run_days demo_engine demo_data (take 2 demo_days) = Inr st \<and> stale_count (rs_stale st) ''A'' < 20"
proof -
  from demo_held obtain st where st: "run_days demo_engine demo_data (take 2 demo_days) = Inr st"
    and held: "has_key (rs_positions st) ''A''"
    by (auto simp: demo_held_def split: sum.splits)
  have "\<forall>(d, today)\<in>set (take 2 demo_days). day_ok today"
    using demo_days_ok by (auto dest: in_set_takeD)
  moreover have "cf_delisting_grace_days (en_config demo_engine) = 20"
    by (simp add: demo_engine_def demo_config_def default_run_config_def)
  ultimately show ?thesis
    using held_names_fresh[OF demo_market_ok _ demo_capital _ st _ held] st by auto
qed

end
