(* ===== verification/Bt_Session_Properties.thy ===== *)
theory Bt_Session_Properties
  imports Bt_Run_Returns Bt_Sample
begin

text \<open>
  Properties of one session: the execution of pending orders against the abstract ledger and the
  audit, corporate actions, write-offs and the risk exits; and two behaviours at the edge, the
  overdraft that rounding fees half up allows and the failure on an open that is not a number.
\<close>

section \<open>A session of the demo data\<close>

definition demo_order :: PendingOrder where
  "demo_order = \<lparr>po_ticker = ''A'', po_side = Side_Buy, po_signal_date = 1, po_reason = Reason ''entry'',
     po_prior_raw_notional = Some (Fin 1000000), po_signal_score = None\<rparr>"

abbreviation demo_today :: day_bars where
  "demo_today \<equiv> [(''A'', demo_bar 2 ''A'' 100 90)]"

lemma demo_session: "res_is (execute_pending_orders (build_sample_spec 0) 2 demo_today [] (Fin 10000) [demo_order])"
  by code_simp

lemma demo_sane: "sane_prices (build_sample_spec 0)"
  by (simp add: sane_prices_def spec_valid_def demo_valid) (simp add: build_sample_spec_def default_defs)

lemma demo_today_ok: "day_ok demo_today" "opens_finite demo_today"
  by (simp_all add: day_ok_def bar_ok_def dict_ok_def opens_finite_def demo_bar_def)

section \<open>Execution\<close>



text \<open>The audit accounts for the cash: over a session the cash changes by the notionals and
  costs the executed records report, up to one millionth per executed record (the records are
  rounded to six decimals, the account is not).\<close>

theorem session_cash_audit:
  assumes "sane_prices spec" and "day_ok today" and "book_ok b"
    and "execute_pending_orders spec d today b (Fin c) pending = Inr st"
  shows "\<exists>c' new. xs_cash st = Fin c' \<and> xs_audit st = snd (classify_pending d today pending) @ new
    \<and> \<bar>c' - (c + (\<Sum>a\<leftarrow>new. audit_flow a))\<bar> \<le> of_nat (n_executed new) / 10 ^ 6"
proof -
  have "isfinite (Fin c)" by simp
  note run = execute_refines_ledger[OF assms(1-3) this assms(4)]
  have "exec_ok (session_start b (Fin c) (snd (classify_pending d today pending)))"
    using assms(3) by (simp add: exec_ok_def)
  from ledger_run_reconciles[OF run(1) this] show ?thesis by (auto simp: reconciles_def)
qed

theorem session_cash_audit_witness:
  "\<exists>st c' new. execute_pending_orders (build_sample_spec 0) 2 demo_today [] (Fin 10000) [demo_order] = Inr st
     \<and> xs_cash st = Fin c' \<and> xs_audit st = snd (classify_pending 2 demo_today [demo_order]) @ new
     \<and> \<bar>c' - (10000 + (\<Sum>a\<leftarrow>new. audit_flow a))\<bar> \<le> of_nat (n_executed new) / 10 ^ 6"
proof -
  obtain st where st: "execute_pending_orders (build_sample_spec 0) 2 demo_today [] (Fin 10000) [demo_order] = Inr st"
    using res_is_Inr[OF demo_session] by blast
  from session_cash_audit[OF demo_sane demo_today_ok(1) book_ok_Nil st] st show ?thesis by blast
qed

text \<open>The audit accounts for the shares: when no two pending buys name the same ticker, the
  holding of every ticker changes over a session by exactly the filled quantities of its executed
  records, and no name without such a record changes.\<close>

theorem session_share_audit:
  assumes "sane_prices spec" and "day_ok today" and "book_ok b" and "isfinite cash"
    and "distinct (map po_ticker (filter (\<lambda>x. po_side x = Side_Buy) pending))"
    and "execute_pending_orders spec d today b cash pending = Inr st"
  shows "\<exists>new. xs_audit st = snd (classify_pending d today pending) @ new
    \<and> (\<forall>t. held (xs_positions st) t = held b t + (\<Sum>a\<leftarrow>new. share_flow t a))"
  using session_shares[OF assms] by (simp add: shares_match_def)

theorem session_share_audit_witness:
  "\<exists>st new. execute_pending_orders (build_sample_spec 0) 2 demo_today [] (Fin 10000) [demo_order] = Inr st
     \<and> xs_audit st = snd (classify_pending 2 demo_today [demo_order]) @ new
     \<and> (\<forall>t. held (xs_positions st) t = held [] t + (\<Sum>a\<leftarrow>new. share_flow t a))"
proof -
  obtain st where st: "execute_pending_orders (build_sample_spec 0) 2 demo_today [] (Fin 10000) [demo_order] = Inr st"
    using res_is_Inr[OF demo_session] by blast
  from session_share_audit[OF demo_sane demo_today_ok(1) book_ok_Nil _ _ st] st show ?thesis by auto
qed

text \<open>Executing the pending orders returns whenever the opens of the session, the cash and the
  book are finite: no order, size or capacity makes it raise.\<close>

theorem session_returns:
  assumes "sane_prices spec" and "day_ok today" and "opens_finite today" and "book_ok b" and "isfinite cash"
  shows "\<exists>st. execute_pending_orders spec d today b cash pending = Inr st"
  using assms by (rule execute_returns)

theorem session_returns_witness:
  "\<exists>st. execute_pending_orders (build_sample_spec 0) 2 demo_today [] (Fin 10000) [demo_order] = Inr st"
  using session_returns[OF demo_sane demo_today_ok book_ok_Nil, of "Fin 10000" 2 "[demo_order]"] by simp

text \<open>A session that opens at NaN for a held name.\<close>

definition nan_today :: day_bars where
  "nan_today = [(''A'', demo_bar 2 ''A'' 100 90), (''B'', (demo_bar 2 ''B'' 100 90)\<lparr>bar_open := NaN\<rparr>)]"

definition demo_position :: "ticker \<Rightarrow> Position" where
  "demo_position t = \<lparr>pos_ticker = t, pos_quantity = 10, pos_entry_date = 0, pos_entry_price = Fin 100,
     pos_entry_notional = Fin 1000, pos_entry_cost = Fin 0, pos_last_price = Fin 100, pos_entry_reason = Reason ''entry''\<rparr>"

text \<open>The finiteness is needed: if a held name opens at NaN, sizing a buy of another name
  raises \<open>ValueError\<close>, because the book is valued at the opens before the buy is sized.\<close>

theorem nan_open_raises:
  "execute_pending_orders (build_sample_spec 0) 2 nan_today [(''B'', demo_position ''B'')] (Fin 10000) [demo_order]
     = Inl (ValueError ''cannot convert float NaN to integer'')"
  by code_simp

text \<open>Rounding fees half up can overdraw the account: affordability is checked with the
  unrounded commission, and the commission charged may be half a rounding unit larger.\<close>

definition half_up_spec :: StrategySpec where
  "half_up_spec = (build_sample_spec 0)
     \<lparr>sp_position_sizing := default_position_sizing\<lparr>ps_max_positions := Some 1\<rparr>,
      sp_risk_controls := default_risk_controls\<lparr>rc_max_single_position_pct := 1\<rparr>,
      sp_backtest := default_backtest_config
        \<lparr>bc_cost_model := default_cost_model\<lparr>cm_commission_pct := 5 / 1000, cm_tax_pct := 0, cm_slippage_pct := 0,
           cm_rounding_mode := Round_Half_Up, cm_rounding_decimals := 0\<rparr>\<rparr>\<rparr>"

definition cash_after :: "exec_state res \<Rightarrow> pyfloat" where
  "cash_after r = (case r of Inr st \<Rightarrow> xs_cash st | Inl _ \<Rightarrow> NaN)"

theorem half_up_overdraft:
  "validate_strategy_spec half_up_spec = Inr half_up_spec
   \<and> cash_after (execute_pending_orders half_up_spec 2 demo_today [] (Fin (201 / 2)) [demo_order]) = Fin (- 1 / 2)"
  by code_simp

section \<open>Corporate actions\<close>

text \<open>Corporate actions keep the book well formed and only add cash, by exactly the amounts
  their audit records report.\<close>

theorem corporate_accounted:
  assumes "spec_valid spec" and "book_ok b"
    and "apply_corporate_actions spec d b (Fin c) = Inr (b', cash, audit)"
  shows "book_ok b' \<and> cash = Fin (c + (\<Sum>a\<leftarrow>audit. action_flow a)) \<and> 0 \<le> (\<Sum>a\<leftarrow>audit. action_flow a)"
  using corporate_actions_keep[OF assms] by blast

definition dividend_spec :: StrategySpec where
  "dividend_spec = (build_sample_spec 0)
     \<lparr>sp_backtest := default_backtest_config
        \<lparr>bc_corporate_actions := [\<lparr>ca_event_type = Ca_Cash_Dividend, ca_ticker = ''B'', ca_effective_date = 2,
           ca_split_ratio = None, ca_cash_dividend_per_share = Some 3, ca_recovery_price = None,
           ca_recovery_verified = False, ca_source_urls = [], ca_document_hash = None, ca_verified_at = None\<rparr>]\<rparr>\<rparr>"

lemma dividend_valid: "validate_strategy_spec dividend_spec = Inr dividend_spec"
  by code_simp

lemma dividend_applied: "res_is (apply_corporate_actions dividend_spec 2 [(''B'', demo_position ''B'')] (Fin 5))"
  by code_simp

lemma demo_book_ok: "book_ok [(''B'', demo_position ''B'')]"
  by (simp add: book_ok_def dict_ok_def pos_ok_def demo_position_def)

theorem corporate_accounted_witness:
  "\<exists>b' audit. apply_corporate_actions dividend_spec 2 [(''B'', demo_position ''B'')] (Fin 5)
       = Inr (b', Fin (5 + (\<Sum>a\<leftarrow>audit. action_flow a)), audit)
     \<and> book_ok b' \<and> 0 \<le> (\<Sum>a\<leftarrow>audit. action_flow a)"
proof -
  obtain b' cash audit where r: "apply_corporate_actions dividend_spec 2 [(''B'', demo_position ''B'')] (Fin 5)
      = Inr (b', cash, audit)"
    using res_is_Inr[OF dividend_applied] by (metis prod_cases3)
  have "spec_valid dividend_spec" by (simp add: spec_valid_def dividend_valid)
  from corporate_accounted[OF this demo_book_ok r] r show ?thesis by blast
qed

text \<open>A split keeps the cost basis: the entry notional after the split equals the one before,
  so the realised gain of a later sale does not depend on the split ratio.\<close>

theorem split_keeps_cost_basis:
  assumes "book_ok b" and "dget b (ca_ticker e) = Some p" and "ca_event_type e = Ca_Split"
    and "ca_effective_date e = d" and "corporate_step d e (b, cash, audit) = Inr (b', cash', audit')"
  shows "\<exists>p'. dget b' (ca_ticker e) = Some p' \<and> pos_entry_notional p' = pos_entry_notional p
    \<and> pos_entry_cost p' = pos_entry_cost p \<and> cash' = cash"
proof -
  from assms obtain r where r: "ca_split_ratio e = Some r" "0 < trunc (of_int (pos_quantity p) * r)"
    by (auto simp: corporate_step_def Let_def split: option.splits if_splits)
  have "pos_ok p" using assms(1,2) by (auto dest: book_okD)
  from split_keeps_basis[OF this r(2)] assms r show ?thesis
    by (auto simp: corporate_step_def Let_def dget_dset split: option.splits if_splits)
qed

definition demo_split :: CorporateActionEvent where
  "demo_split = \<lparr>ca_event_type = Ca_Split, ca_ticker = ''B'', ca_effective_date = 2, ca_split_ratio = Some 2,
     ca_cash_dividend_per_share = None, ca_recovery_price = None, ca_recovery_verified = False,
     ca_source_urls = [], ca_document_hash = None, ca_verified_at = None\<rparr>"

lemma demo_split_applied: "res_is (corporate_step 2 demo_split ([(''B'', demo_position ''B'')], Fin 5, []))"
  by code_simp

theorem split_keeps_cost_basis_witness:
  "\<exists>b' audit' p'. corporate_step 2 demo_split ([(''B'', demo_position ''B'')], Fin 5, []) = Inr (b', Fin 5, audit')
     \<and> dget b' ''B'' = Some p' \<and> pos_entry_notional p' = Fin 1000"
proof -
  obtain b' cash' audit' where r: "corporate_step 2 demo_split ([(''B'', demo_position ''B'')], Fin 5, [])
      = Inr (b', cash', audit')"
    using res_is_Inr[OF demo_split_applied] by (metis prod_cases3)
  have "dget [(''B'', demo_position ''B'')] (ca_ticker demo_split) = Some (demo_position ''B'')"
    by (simp add: demo_split_def dget_def)
  from split_keeps_cost_basis[OF demo_book_ok this _ _ r] r show ?thesis
    by (auto simp: demo_split_def demo_position_def)
qed

section \<open>Write-offs\<close>

text \<open>A write-off closes exactly the held names without a bar today whose count of sessions
  without a bar reaches the grace period; the other positions, their counters apart, and the
  pending orders of other names are left alone.\<close>

theorem write_off_exact:
  assumes "dict_ok b" and "0 < cf_delisting_grace_days config"
    and "write_off_stale_positions spec config d today b cash pending stale = (st, pending', stale')"
  shows "(\<forall>t. dget (xs_positions st) t
        = (if stale_out (cf_delisting_grace_days config) today stale t then None else dget b t))
    \<and> map tr_ticker (xs_trades st) = filter (stale_out (cf_delisting_grace_days config) today stale) (dkeys b)
    \<and> pending' = filter (\<lambda>x. \<not> (has_key b (po_ticker x)
        \<and> stale_out (cf_delisting_grace_days config) today stale (po_ticker x))) pending"
  using write_off_effect[OF assms] by blast

theorem write_off_exact_witness:
  "\<exists>st pending' stale'. write_off_stale_positions (build_sample_spec 0) (default_run_config\<lparr>cf_delisting_grace_days := 3\<rparr>)
       9 demo_today [(''B'', demo_position ''B'')] (Fin 5) [demo_order] [(''B'', 2)] = (st, pending', stale')
     \<and> dget (xs_positions st) ''B'' = None \<and> map tr_ticker (xs_trades st) = [''B'']"
proof -
  obtain st pending' stale' where r: "write_off_stale_positions (build_sample_spec 0)
      (default_run_config\<lparr>cf_delisting_grace_days := 3\<rparr>)
      9 demo_today [(''B'', demo_position ''B'')] (Fin 5) [demo_order] [(''B'', 2)] = (st, pending', stale')"
    by (metis prod_cases3)
  have "stale_out 3 demo_today [(''B'', 2)] ''B''"
    by (simp add: stale_out_def stale_count_def has_key_def dget_def)
  with write_off_exact[OF _ _ r] r show ?thesis
    by (simp add: dict_ok_def dkeys_def default_run_config_def)
qed

section \<open>Signals\<close>

text \<open>The stop-loss is honoured: if the close of a held name is at or below its entry price less
  the stop-loss fraction, the rule-driven signals of that session queue a sell of the name.\<close>

theorem stop_loss_sells:
  assumes "generate_rule_signals spec d today b mk prev [] = Inr out"
    and "dget b t = Some p" and "dget today t = Some bar"
    and "rc_stop_loss_pct (sp_risk_controls spec) = Some sl" and "sl \<noteq> 0"
    and "bar_close bar \<le> pos_entry_price p * Fin (1 - sl)"
  shows "\<exists>x\<in>set (so_orders out). po_ticker x = t \<and> po_side x = Side_Sell"
proof -
  have "stop_hit spec p bar" using assms(4-6) by (simp add: stop_hit_def)
  from rule_signals_stop[OF assms(1-3) this] show ?thesis by (simp add: sells_def)
qed

definition crash_today :: day_bars where
  "crash_today = [(''B'', demo_bar 2 ''B'' 80 85)]"

definition crash_metrics :: metric_table where
  "crash_metrics = [((2, ''B''), bar_metrics (demo_bar 2 ''B'' 80 85))]"

lemma crash_signals: "res_is (generate_rule_signals (build_sample_spec 0) 2 crash_today [(''B'', demo_position ''B'')] crash_metrics [] [])"
  by code_simp

theorem stop_loss_sells_witness:
  "\<exists>out. generate_rule_signals (build_sample_spec 0) 2 crash_today [(''B'', demo_position ''B'')] crash_metrics [] [] = Inr out
     \<and> (\<exists>x\<in>set (so_orders out). po_ticker x = ''B'' \<and> po_side x = Side_Sell)"
proof -
  obtain out where gen: "generate_rule_signals (build_sample_spec 0) 2 crash_today [(''B'', demo_position ''B'')]
      crash_metrics [] [] = Inr out" using res_is_Inr[OF crash_signals] by blast
  have "dget [(''B'', demo_position ''B'')] ''B'' = Some (demo_position ''B'')"
    "dget crash_today ''B'' = Some (demo_bar 2 ''B'' 80 85)"
    "rc_stop_loss_pct (sp_risk_controls (build_sample_spec 0)) = Some (8 / 100)"
    by (simp_all add: dget_def crash_today_def build_sample_spec_def)
  from stop_loss_sells[OF gen this] gen show ?thesis by (simp add: demo_position_def demo_bar_def)
qed

text \<open>A decision is the decision table: exit rules decide a held name between SELL and HOLD,
  entry rules decide any other between BUY and WATCH, whatever the order of the rules.\<close>

theorem decision_is_table:
  assumes "generate_signal spec market has_position = Inr decision"
  shows "sd_action decision = decision_table spec market has_position \<and> sd_ticker decision = ms_ticker market"
  using generate_signal_action[OF assms] generate_signal_ticker[OF assms] by simp

definition demo_market :: MarketSnapshot where
  "demo_market = snapshot_of 2 ''B'' (bar_metrics (demo_bar 2 ''B'' 80 85)) []"

lemma demo_decides: "res_is (generate_signal (build_sample_spec 0) demo_market False)"
  by code_simp

theorem decision_is_table_witness:
  "\<exists>decision. generate_signal (build_sample_spec 0) demo_market False = Inr decision
     \<and> sd_action decision = decision_table (build_sample_spec 0) demo_market False"
proof -
  obtain decision where "generate_signal (build_sample_spec 0) demo_market False = Inr decision"
    using res_is_Inr[OF demo_decides] by blast
  with decision_is_table[OF this] show ?thesis by blast
qed

text \<open>A list operand passes validation with a scalar operator and only fails at run time: the
  specification is accepted, and the first evaluation of the rule raises \<open>ValueError\<close>.\<close>

definition list_rule_spec :: StrategySpec where
  "list_rule_spec = (build_sample_spec 0)\<lparr>sp_entry_rules := [sample_rule ''close'' GT (RList [1, 2]) '''']\<rparr>"

theorem list_operand_fails_late:
  "validate_strategy_spec list_rule_spec = Inr list_rule_spec
   \<and> generate_signal list_rule_spec demo_market False
     = Inl (ValueError ''right side cannot be resolved as scalar'')"
  by code_simp

end
