(* ===== verification/Bt_Metric_Properties.thy ===== *)
theory Bt_Metric_Properties
  imports Bt_Run_Returns Bt_Sample
begin

text \<open>
  Properties of the indicators, of the selection of tickers and orders, and of the reported
  numbers.
\<close>

section \<open>Selection\<close>

text \<open>An included ticker has every required metric on every bar it has, so evaluating the rules
  on it cannot miss a metric.\<close>

theorem included_have_metrics:
  assumes "select_tickers eng data = Inr (included, exclusions)" and "t \<in> set included"
    and "dict_ok (pm_bars_by_ticker data)" and "dget (pm_bars_by_ticker data) t = Some bars" and "bar \<in> set bars"
  shows "\<exists>m. dget (pm_metrics_by_key data) (bar_date bar, t) = Some m \<and> (\<forall>n\<in>set (needed_metrics eng). metric_present n m)"
  using assms by (rule included_covered)

theorem included_have_metrics_witness:
  "\<exists>m. dget (pm_metrics_by_key demo_data) (bar_date (demo_bar 2 ''A'' 100 90), ''A'') = Some m
     \<and> (\<forall>n\<in>set (needed_metrics demo_engine). metric_present n m)"
proof (rule included_have_metrics[OF demo_selection, where bars = demo_rows])
  show "demo_bar 2 ''A'' 100 90 \<in> set demo_rows" unfolding demo_rows_def by simp
qed (simp_all add: demo_bars dict_ok_def dget_def)

text \<open>Buys are filled best score first: in the queue of a session a scored order is preceded
  only by orders with a score at least as high, and the queue holds exactly the executable buys
  of names that are not held.\<close>

theorem buys_by_score:
  assumes "i < j" and "j < length (buy_queue b executable)" and "has_score (buy_queue b executable ! j) r"
  shows "(\<exists>s. has_score (buy_queue b executable ! i) s \<and> r \<le> s)
    \<and> mset (buy_queue b executable)
      = filter_mset (\<lambda>x. po_side x = Side_Buy \<and> \<not> has_key b (po_ticker x)) (mset executable)"
proof -
  let ?q = "buy_queue b executable"
  have "sorted (map buy_priority ?q)" by (simp add: buy_queue_def)
  then have "sorted_wrt (\<lambda>x y. buy_priority x \<le> buy_priority y) ?q" by (simp add: sorted_map)
  from sorted_wrt_nth_less[OF this assms(1,2)]
  have le: "buy_priority (?q ! i) \<le> buy_priority (?q ! j)" .
  have "\<exists>s. has_score (?q ! i) s"
  proof (rule ccontr)
    assume "\<nexists>s. has_score (?q ! i) s"
    from buy_priority_scored_first[OF assms(3) this] le show False by simp
  qed
  then obtain s where s: "has_score (?q ! i) s" by blast
  have "r \<le> s"
  proof (rule ccontr)
    assume "\<not> r \<le> s"
    from buy_priority_higher_score_first[OF assms(3) s] this le show False by simp
  qed
  with s show ?thesis by (auto simp: buy_queue_def)
qed

definition scored_order :: "ticker \<Rightarrow> rat \<Rightarrow> PendingOrder" where
  "scored_order t s = \<lparr>po_ticker = t, po_side = Side_Buy, po_signal_date = 1, po_reason = Reason ''entry'',
     po_prior_raw_notional = None, po_signal_score = Some (Fin s)\<rparr>"

lemma demo_queue: "buy_queue [] [scored_order ''A'' 1, scored_order ''B'' 2] = [scored_order ''B'' 2, scored_order ''A'' 1]"
  by code_simp

theorem buys_by_score_witness:
  "\<exists>s. has_score (buy_queue [] [scored_order ''A'' 1, scored_order ''B'' 2] ! 0) s \<and> 1 \<le> s"
proof -
  have "has_score (buy_queue [] [scored_order ''A'' 1, scored_order ''B'' 2] ! 1) 1"
    unfolding demo_queue by (simp add: has_score_def scored_order_def)
  with buys_by_score[of 0 1 "[]" "[scored_order ''A'' 1, scored_order ''B'' 2]" 1] show ?thesis
    by (simp add: demo_queue)
qed

section \<open>Derived metrics\<close>

text \<open>A rolling high is the maximum of its window: for finite closes the value at a bar is the
  largest of the last \<open>period\<close> closes up to and including that bar.\<close>

theorem rolling_high_correct:
  assumes "map bar_close bars = map Fin cs" and "i < length bars" and "0 < p"
  shows "rolling_highs p [] bars ! i = Fin (Max (set (last_n p (take (Suc i) cs))))"
  using assms by (rule rolling_high_is_max)

theorem rolling_high_correct_witness:
  "rolling_highs 2 [] demo_rows ! 2 = Fin (Max (set (last_n 2 (take (Suc 2) [110, 90, 96]))))"
  by (rule rolling_high_correct) (simp_all add: demo_rows_def demo_bar_def)

text \<open>\<open>days_since_breakout\<close> counts the bars since the last close at its rolling high, and is
  NaN before the first such close.\<close>

theorem days_since_breakout_correct:
  assumes "i < length xs"
  shows "days_since_breakout 0 None xs ! i =
    (case last_breakout xs i of None \<Rightarrow> NaN | Some j \<Rightarrow> of_int_float (int i - int j))"
  using assms by (rule days_since_nth)

theorem days_since_breakout_correct_witness:
  "days_since_breakout 0 None (zip demo_rows (rolling_highs 252 [] demo_rows)) ! 2 =
    (case last_breakout (zip demo_rows (rolling_highs 252 [] demo_rows)) 2 of
       None \<Rightarrow> NaN | Some j \<Rightarrow> of_int_float (int 2 - int j))"
  by (rule days_since_breakout_correct) (simp add: demo_rows_def)

section \<open>The TA-Lib plan\<close>

text \<open>The plan has no duplicates: the computations that remain have distinct keys, every key of
  the input remains, and the order of the input is kept.\<close>

theorem plan_without_duplicates:
  "distinct (map computation_key (dedupe_computations cs))
   \<and> set (map computation_key (dedupe_computations cs)) = computation_key ` set cs
   \<and> subseq (dedupe_computations cs) cs"
  using dedupe_from_facts[of "[]" cs] by (simp add: dedupe_computations_def)

text \<open>Parameter overrides outlive the run that set them: \<open>_parameters_for_function\<close> updates
  the memoised default dictionary in place, so a later call without overrides returns the
  overridden parameters.\<close>

theorem overrides_leak:
  assumes "parameters_for_function talib f config memo = Inr (p, memo')"
    and "config_overrides config' f = []"
  shows "parameters_for_function talib f config' memo' = Inr (p, memo')"
  using assms by (rule parameters_leak)

definition demo_talib :: talib_api where
  "demo_talib = \<lparr>ta_functions = [''SMA''],
     ta_function = (\<lambda>name. if name = ''SMA'' then Some \<lparr>tf_inputs = [''close''],
       tf_parameters = [(''timeperiod'', Int_Param 30)], tf_outputs = [''real''],
       tf_call = (\<lambda>inputs params. case dget params ''timeperiod'' of
          None \<Rightarrow> None | Some n \<Rightarrow> Some [map (\<lambda>_. Fin (param_float n)) (the (dget inputs ''close''))])\<rparr> else None)\<rparr>"

definition override_config :: TalibIndicatorConfig where
  "override_config = default_talib_config\<lparr>ti_parameters := [(''SMA'', [(''timeperiod'', Int_Param 5)])]\<rparr>"

lemma demo_override: "parameters_for_function (Some demo_talib) ''SMA'' override_config []
    = Inr ([(''timeperiod'', Int_Param 5)], [(''SMA'', [(''timeperiod'', Int_Param 5)])])"
  by code_simp

lemma demo_no_override: "config_overrides default_talib_config ''SMA'' = []"
  by code_simp

theorem overrides_leak_witness:
  "parameters_for_function (Some demo_talib) ''SMA'' default_talib_config [(''SMA'', [(''timeperiod'', Int_Param 5)])]
     = Inr ([(''timeperiod'', Int_Param 5)], [(''SMA'', [(''timeperiod'', Int_Param 5)])])"
  by (rule overrides_leak[OF demo_override demo_no_override])

text \<open>The value of a metric can depend on the iteration order of a set: a strategy that needs
  both \<open>sma\<close> and \<open>ma_60\<close> plans two SMA computations, both write the column \<open>sma\<close>, and the one
  planned last wins.\<close>

definition sma_value :: "string list \<Rightarrow> pyfloat option" where
  "sma_value required =
     (case talib_computations (Some demo_talib) required default_talib_config [] of
        Inl _ \<Rightarrow> None
      | Inr (computations, memo) \<Rightarrow>
          (case compute_talib_metrics_for_bars (Some demo_talib) demo_rows computations of
             Inl _ \<Rightarrow> None
           | Inr (rows, report) \<Rightarrow> (case dget rows (1, ''A'') of None \<Rightarrow> None | Some m \<Rightarrow> dget m ''sma'')))"

theorem set_order_matters:
  "sma_value [''sma'', ''ma_60''] = Some (Fin 60) \<and> sma_value [''ma_60'', ''sma''] = Some (Fin 30)"
  by code_simp

section \<open>Reported numbers\<close>

lemma half_even_between: "of_int a \<le> x \<Longrightarrow> x \<le> of_int b \<Longrightarrow> a \<le> half_even x \<and> half_even x \<le> b"
proof -
  assume a: "of_int a \<le> x" and b: "x \<le> of_int b"
  have fl: "a \<le> \<lfloor>x\<rfloor>" using a by (simp add: le_floor_iff)
  have "\<lfloor>x\<rfloor> \<le> b" using b by (metis floor_mono floor_of_int)
  moreover have "\<lfloor>x\<rfloor> + 1 \<le> b" if "0 < x - of_int \<lfloor>x\<rfloor>"
  proof -
    from that b have "of_int \<lfloor>x\<rfloor> < (of_int b :: rat)" by linarith
    then show ?thesis by simp
  qed
  ultimately show ?thesis using fl by (auto simp: half_even_def Let_def)
qed

lemma py_round_between:
  assumes "of_int a \<le> x" and "x \<le> of_int b"
  obtains y where "py_round n (Fin x) = Fin y" "of_int a \<le> y" "y \<le> of_int b"
proof -
  let ?k = "10 ^ n :: rat"
  have k: "?k = of_int (10 ^ n)" by simp
  have "of_int (a * 10 ^ n) \<le> x * ?k" "x * ?k \<le> of_int (b * 10 ^ n)"
    using assms by (simp_all add: mult_right_mono)
  from half_even_between[OF this]
  have "of_int (a * 10 ^ n) \<le> (of_int (half_even (x * ?k)) :: rat)"
    "(of_int (half_even (x * ?k)) :: rat) \<le> of_int (b * 10 ^ n)"
    by (simp_all only: of_int_le_iff)
  then have "of_int a \<le> of_int (half_even (x * ?k)) / ?k" "of_int (half_even (x * ?k)) / ?k \<le> of_int b"
    by (simp_all add: pos_le_divide_eq pos_divide_le_eq)
  then show thesis by (intro that) simp_all
qed

lemma peaks_above:
  assumes "\<forall>e\<in>set es. 0 < e" and "0 < m"
  shows "\<exists>ps. accumulate_max (Fin m) (map Fin es) = map Fin ps \<and> list_all2 (\<lambda>e p. e \<le> p) es ps"
  using assms
proof (induction es arbitrary: m)
  case (Cons e es)
  have "0 < max m e" using Cons.prems by simp
  from Cons.IH[OF _ this] Cons.prems(1) obtain ps where
    "accumulate_max (Fin (max m e)) (map Fin es) = map Fin ps" "list_all2 (\<lambda>e p. e \<le> p) es ps" by auto
  moreover have "np_maximum (Fin m) (Fin e) = Fin (max m e)" by (simp add: np_maximum_def)
  ultimately show ?case by (intro exI[of _ "max m e # ps"]) simp
qed simp

lemma drawdowns_between:
  assumes pos: "\<forall>e\<in>set es. 0 < e"
  shows "\<exists>ds. drawdown_series (map Fin es) = map Fin ds \<and> length ds = length es \<and> (\<forall>d\<in>set ds. -1 \<le> d \<and> d \<le> 0)"
proof -
  obtain ps where ps: "peaks_of (map Fin es) = map Fin ps" "list_all2 (\<lambda>e p. e \<le> p) es ps"
  proof (cases es)
    case (Cons e es')
    with peaks_above[of es' e] pos obtain qs where
      "accumulate_max (Fin e) (map Fin es') = map Fin qs" "list_all2 (\<lambda>e p. e \<le> p) es' qs" by auto
    with Cons that[of "e # qs"] show thesis by simp
  qed (use that in simp)
  let ?ds = "map (\<lambda>(e, p). e / p - 1) (zip es ps)"
  have each: "0 < p \<and> e \<le> p \<and> 0 < e" if "(e, p) \<in> set (zip es ps)" for e p
  proof -
    from that ps(2) have "e \<le> p" by (auto simp: list_all2_iff)
    moreover have "0 < e" using that pos by (auto dest: set_zip_leftD)
    ultimately show ?thesis by simp
  qed
  have "drawdown_series (map Fin es) = map Fin ?ds"
    unfolding drawdown_series_def ps(1) zip_map_map map_map
  proof (rule map_cong[OF refl])
    fix ep assume ep: "ep \<in> set (zip es ps)"
    obtain e p where "ep = (e, p)" by (cases ep)
    with each[of e p] ep show "((\<lambda>(e, p). (if py_eq p (Fin 0) then Fin 1 else checked_div e p) - Fin 1) \<circ>
        (\<lambda>(x, y). (Fin x, Fin y))) ep = (Fin \<circ> (\<lambda>(e, p). e / p - 1)) ep"
      by (simp add: checked_div_def)
  qed
  moreover have "length ?ds = length es" using ps(2) by (simp add: list_all2_lengthD)
  moreover have "-1 \<le> e / p - 1 \<and> e / p - 1 \<le> 0" if "(e, p) \<in> set (zip es ps)" for e p
    using each[OF that] by (simp add: field_simps)
  then have "\<forall>d\<in>set ?ds. -1 \<le> d \<and> d \<le> 0" by auto
  ultimately show ?thesis by blast
qed

lemma np_min_between:
  assumes "ds \<noteq> []" and "\<forall>d\<in>set ds. a \<le> d \<and> d \<le> b"
  shows "\<exists>m. np_min (map Fin ds) = Fin m \<and> a \<le> m \<and> m \<le> b"
proof -
  obtain x xs where ds: "ds = x # xs" using assms(1) by (cases ds) auto
  have "\<exists>m. fold (\<lambda>y m. np_minimum m y) (map Fin xs) (Fin x) = Fin m \<and> a \<le> m \<and> m \<le> b"
    if "a \<le> x" "x \<le> b" "\<forall>d\<in>set xs. a \<le> d \<and> d \<le> b" for x xs
    using that
  proof (induction xs arbitrary: x)
    case (Cons y ys)
    have "np_minimum (Fin x) (Fin y) = Fin (min x y)" by (simp add: np_minimum_def)
    with Cons show ?case by simp
  qed simp
  with assms(2) ds show ?thesis by simp
qed

text \<open>The reported maximum drawdown of a run whose equity stays positive lies between minus one
  and zero, whatever the square root and power used for the other metrics.\<close>

theorem max_drawdown_bounds:
  assumes "curve \<noteq> []" and "map eq_total_equity curve = map Fin es" and "\<forall>e\<in>set es. 0 < e"
  shows "\<exists>m. sm_max_drawdown (calculate_selection_metrics sqrt_fn pow_fn curve) = Fin m \<and> -1 \<le> m \<and> m \<le> 0"
proof -
  obtain ds where ds: "drawdown_series (map Fin es) = map Fin ds" "length ds = length es"
      "\<forall>d\<in>set ds. -1 \<le> d \<and> d \<le> 0"
    using drawdowns_between[OF assms(3)] by blast
  have "ds \<noteq> []" using assms(1,2) ds(2) by auto
  from np_min_between[OF this ds(3)] obtain m where m: "np_min (map Fin ds) = Fin m" "-1 \<le> m" "m \<le> 0" by blast
  have "of_int (-1) \<le> m" "m \<le> of_int 0" using m by simp_all
  then obtain y where "py_round 10 (Fin m) = Fin y" "of_int (-1) \<le> y" "y \<le> of_int 0"
    by (rule py_round_between)
  moreover have "sm_max_drawdown (calculate_selection_metrics sqrt_fn pow_fn curve) = py_round 10 (Fin m)"
    using assms(1,2) ds(1) m(1) by (simp add: calculate_selection_metrics_def Let_def)
  ultimately show ?thesis by (metis of_int_0 of_int_minus of_int_1)
qed

definition demo_curve :: "EquityPoint list" where
  "demo_curve = map (\<lambda>(d, e). \<lparr>eq_date = d, eq_cash = Fin e, eq_positions_value = Fin 0, eq_total_equity = Fin e,
     eq_daily_return = Fin 0\<rparr>) [(1, 100), (2, 120), (3, 90)]"

theorem max_drawdown_bounds_witness:
  "\<exists>m. sm_max_drawdown (calculate_selection_metrics (\<lambda>x. x) (\<lambda>x y. x) demo_curve) = Fin m \<and> -1 \<le> m \<and> m \<le> 0"
  by (rule max_drawdown_bounds[where es = "[100, 120, 90]"]) (simp_all add: demo_curve_def)

end
