(* ===== verification/Ai_Events.thy ===== *)
theory Ai_Events
  imports QA_Prelude
begin

text \<open>
  \<^verbatim>\<open>ai_graph/job_events.py\<close>: the bounded per-job buffer between the analysis worker and the
  readers of its live activity.  Each method holds the buffer's lock for its whole body, so an
  interleaving of threads is a sequence of method calls.  The specification is a log that only
  grows; the locale \<open>bounded_log\<close> states what a bounded buffer promises of that log, and what a
  polling reader may rely on is proved there once.
\<close>

type_synonym job_id = string

record 'e JobEventBuffer =
  jb_max_events :: nat
  jb_events :: "(job_id, 'e list) dict"
  jb_dropped :: "(job_id, nat) dict"
  jb_closed :: "job_id list"

definition new_buffer :: "nat \<Rightarrow> 'e JobEventBuffer" where
  "new_buffer max_events = \<lparr>jb_max_events = max_events, jb_events = [], jb_dropped = [], jb_closed = []\<rparr>"

definition buffered :: "'e JobEventBuffer \<Rightarrow> job_id \<Rightarrow> 'e list" where
  "buffered b job = (case dget (jb_events b) job of None \<Rightarrow> [] | Some es \<Rightarrow> es)"

definition dropped_count :: "'e JobEventBuffer \<Rightarrow> job_id \<Rightarrow> nat" where
  "dropped_count b job = (case dget (jb_dropped b) job of None \<Rightarrow> 0 | Some n \<Rightarrow> n)"

definition publish :: "job_id \<Rightarrow> 'e \<Rightarrow> 'e JobEventBuffer \<Rightarrow> 'e JobEventBuffer" where
  "publish job event b =
     (let events = buffered b job @ [event];
          overflow = int (length events) - int (jb_max_events b)
      in if 0 < overflow
         then b\<lparr>jb_events := dset job (drop (nat overflow) events) (jb_events b),
                jb_dropped := dset job (dropped_count b job + nat overflow) (jb_dropped b)\<rparr>
         else b\<lparr>jb_events := dset job events (jb_events b)\<rparr>)"

definition close :: "job_id \<Rightarrow> 'e JobEventBuffer \<Rightarrow> 'e JobEventBuffer" where
  "close job b = b\<lparr>jb_closed := List.insert job (jb_closed b)\<rparr>"

definition read_since :: "'e JobEventBuffer \<Rightarrow> job_id \<Rightarrow> int \<Rightarrow> 'e list \<times> nat \<times> bool" where
  "read_since b job cursor =
     (let events = buffered b job; dropped = dropped_count b job;
          start = max (cursor - int dropped) 0
      in (drop (nat start) events, dropped + length events, job \<in> set (jb_closed b)))"

definition forget :: "job_id \<Rightarrow> 'e JobEventBuffer \<Rightarrow> 'e JobEventBuffer" where
  "forget job b = b\<lparr>jb_events := dpop job (jb_events b), jb_dropped := dpop job (jb_dropped b),
                      jb_closed := removeAll job (jb_closed b)\<rparr>"

section \<open>The log a buffer stands for\<close>

text \<open>
  \<open>hist job\<close> are all the events ever published for a job.  The buffer holds a suffix of it of at
  most \<open>max_events\<close> entries, and counts the rest as dropped.
\<close>

definition stands_for :: "(job_id \<Rightarrow> 'e list) \<Rightarrow> 'e JobEventBuffer \<Rightarrow> bool" where
  "stands_for hist b \<longleftrightarrow>
     (\<forall>job. buffered b job = drop (dropped_count b job) (hist job)
          \<and> dropped_count b job = length (hist job) - jb_max_events b)"

lemma stands_for_new: "stands_for (\<lambda>_. []) (new_buffer n)"
  by (simp add: stands_for_def new_buffer_def buffered_def dropped_count_def)

lemma buffered_publish:
  "buffered (publish job e b) k = (if k = job then drop (Suc (length (buffered b job)) - jb_max_events b)
      (buffered b job @ [e]) else buffered b k)"
  "dropped_count (publish job e b) k = (if k = job
      then dropped_count b job + (Suc (length (buffered b job)) - jb_max_events b) else dropped_count b k)"
proof -
  have n: "nat (int (length (xs @ [e])) - int m) = Suc (length xs) - m"
    "(0 < int (length (xs @ [e])) - int m) = (m < Suc (length xs))" for xs :: "'a list" and m
    by auto
  show "buffered (publish job e b) k = (if k = job then drop (Suc (length (buffered b job)) - jb_max_events b)
      (buffered b job @ [e]) else buffered b k)"
    unfolding publish_def Let_def n
    by (simp add: buffered_def dget_dset)
  show "dropped_count (publish job e b) k = (if k = job
      then dropped_count b job + (Suc (length (buffered b job)) - jb_max_events b) else dropped_count b k)"
    unfolding publish_def Let_def n
    by (simp add: dropped_count_def dget_dset)
qed

lemma publish_max [simp]: "jb_max_events (publish job e b) = jb_max_events b"
  by (simp add: publish_def Let_def)

lemma stands_for_publish:
  assumes "stands_for hist b"
  shows "stands_for (hist(job := hist job @ [e])) (publish job e b)"
proof -
  let ?n = "length (hist job)" and ?m = "jb_max_events b"
  have b: "buffered b job = drop (?n - ?m) (hist job)" "dropped_count b job = ?n - ?m"
    using assms by (auto simp: stands_for_def)
  have len: "length (buffered b job) = min ?n ?m" using b by simp
  have "buffered (publish job e b) job = drop (Suc ?n - ?m) (hist job @ [e])"
  proof (cases "?n < ?m")
    case True
    with b len show ?thesis by (simp add: buffered_publish)
  next
    case False
    then have "buffered (publish job e b) job = drop 1 (drop (?n - ?m) (hist job @ [e]))"
      using b len by (simp add: buffered_publish)
    also have "\<dots> = drop (Suc ?n - ?m) (hist job @ [e])"
      using False by (simp add: Suc_diff_le)
    finally show ?thesis .
  qed
  moreover have "dropped_count (publish job e b) job = Suc ?n - ?m"
    using b len by (auto simp: buffered_publish min_def)
  ultimately show ?thesis
    using assms by (auto simp: stands_for_def buffered_publish)
qed

lemma stands_for_publish_all:
  "stands_for hist b \<Longrightarrow> stands_for (hist(job := hist job @ es)) (fold (publish job) es b)"
proof (induction es arbitrary: hist b)
  case (Cons e es)
  from Cons.IH[OF stands_for_publish[OF Cons.prems, of job e]] show ?case
    by (simp only: fun_upd_upd fun_upd_same append_assoc append.simps fold_simps)
qed simp

lemma stands_for_close: "stands_for hist b \<Longrightarrow> stands_for hist (close job b)"
  by (simp add: stands_for_def close_def buffered_def dropped_count_def)

lemma stands_for_forget: "stands_for hist b \<Longrightarrow> stands_for (hist(job := [])) (forget job b)"
  by (simp add: stands_for_def forget_def buffered_def dropped_count_def dget_dpop)

section \<open>The interface of a reader\<close>

text \<open>
  What a reader sees: \<open>entries s j\<close> is the log of job \<open>j\<close>, \<open>lost s j\<close> how many of its oldest
  entries are gone, \<open>poll s j c\<close> the entries from cursor \<open>c\<close> on and the next cursor.
\<close>

locale bounded_log =
  fixes entries :: "'s \<Rightarrow> 'j \<Rightarrow> 'e list"
    and lost :: "'s \<Rightarrow> 'j \<Rightarrow> nat"
    and append :: "'j \<Rightarrow> 'e \<Rightarrow> 's \<Rightarrow> 's"
    and poll :: "'s \<Rightarrow> 'j \<Rightarrow> nat \<Rightarrow> 'e list \<times> nat"
    and keep :: "'s \<Rightarrow> nat"
    and ok :: "'s \<Rightarrow> bool"
  assumes entries_append: "ok s \<Longrightarrow> entries (append j e s) k = (if k = j then entries s j @ [e] else entries s k)"
    and ok_append: "ok s \<Longrightarrow> ok (append j e s)"
    and keep_append: "ok s \<Longrightarrow> keep (append j e s) = keep s"
    and lost_le: "ok s \<Longrightarrow> lost s j = length (entries s j) - keep s"
    and poll_law: "ok s \<Longrightarrow> poll s j c = (drop (max c (lost s j)) (entries s j), length (entries s j))"
begin

definition append_all :: "'j \<Rightarrow> 'e list \<Rightarrow> 's \<Rightarrow> 's" where
  "append_all j es s = fold (append j) es s"

lemma append_all_facts:
  assumes "ok s"
  shows "ok (append_all j es s)" and "entries (append_all j es s) j = entries s j @ es"
    and "keep (append_all j es s) = keep s"
proof -
  have "ok (append_all j es s) \<and> entries (append_all j es s) j = entries s j @ es \<and> keep (append_all j es s) = keep s"
    using assms
    by (induction es arbitrary: s) (simp_all add: append_all_def ok_append entries_append keep_append)
  then show "ok (append_all j es s)" and "entries (append_all j es s) j = entries s j @ es"
    and "keep (append_all j es s) = keep s" by auto
qed

text \<open>A reader that polls before the buffer overtakes it gets every entry once and in order: the
  entries published since its last poll, and nothing else.\<close>

lemma poll_complete:
  assumes s: "ok s" and polled: "poll s j c = (seen, cursor)" and small: "length es \<le> keep s"
  shows "fst (poll (append_all j es s) j cursor) = es"
proof -
  note a = append_all_facts[OF s, of j es]
  have cursor: "cursor = length (entries s j)" using poll_law[OF s] polled by simp
  have "lost (append_all j es s) j \<le> cursor"
    using lost_le[OF a(1)] a small cursor by simp
  then show ?thesis using poll_law[OF a(1)] a cursor by simp
qed

text \<open>A reader that fell behind skips the lost entries and never sees an entry twice.\<close>

lemma poll_no_repeat:
  assumes s: "ok s" and polled: "poll s j c = (seen, cursor)"
  shows "\<exists>k. fst (poll (append_all j es s) j cursor) = drop k es"
proof -
  note a = append_all_facts[OF s, of j es]
  have cursor: "cursor = length (entries s j)" using poll_law[OF s] polled by simp
  then have "fst (poll (append_all j es s) j cursor)
      = drop (max cursor (lost (append_all j es s) j) - cursor) es"
    using poll_law[OF a(1)] a by simp
  then show ?thesis by blast
qed

end

text \<open>A buffer together with the log it stands for, the ghost state of the interpretation.\<close>

type_synonym 'e traced = "(job_id \<Rightarrow> 'e list) \<times> 'e JobEventBuffer"

definition traced_publish :: "job_id \<Rightarrow> 'e \<Rightarrow> 'e traced \<Rightarrow> 'e traced" where
  "traced_publish job e s = ((fst s)(job := fst s job @ [e]), publish job e (snd s))"

definition traced_poll :: "'e traced \<Rightarrow> job_id \<Rightarrow> nat \<Rightarrow> 'e list \<times> nat" where
  "traced_poll s job cursor = (case read_since (snd s) job (int cursor) of (es, n, ended) \<Rightarrow> (es, n))"

definition traced_ok :: "'e traced \<Rightarrow> bool" where
  "traced_ok s = stands_for (fst s) (snd s)"

lemma read_since_log:
  assumes "stands_for hist b"
  shows "read_since b job (int c) = (drop (max c (dropped_count b job)) (hist job), length (hist job), job \<in> set (jb_closed b))"
proof -
  have b: "buffered b job = drop (dropped_count b job) (hist job)"
    and d: "dropped_count b job = length (hist job) - jb_max_events b"
    using assms by (auto simp: stands_for_def)
  have "dropped_count b job \<le> length (hist job)" using d by simp
  then show ?thesis by (simp add: read_since_def Let_def b max_def nat_diff_distrib)
qed

interpretation job_log: bounded_log "\<lambda>s. fst s" "\<lambda>s. dropped_count (snd s)" traced_publish traced_poll
    "\<lambda>s. jb_max_events (snd s)" traced_ok
proof unfold_locales
  fix s :: "'e traced" and j k e and c :: nat
  assume ok: "traced_ok s"
  show "fst (traced_publish j e s) k = (if k = j then fst s j @ [e] else fst s k)"
    by (simp add: traced_publish_def)
  show "traced_ok (traced_publish j e s)"
    using ok by (simp add: traced_ok_def traced_publish_def stands_for_publish)
  show "jb_max_events (snd (traced_publish j e s)) = jb_max_events (snd s)"
    by (simp add: traced_publish_def)
  show "dropped_count (snd s) j = length (fst s j) - jb_max_events (snd s)"
    using ok by (simp add: traced_ok_def stands_for_def)
  show "traced_poll s j c = (drop (max c (dropped_count (snd s) j)) (fst s j), length (fst s j))"
    using ok by (simp add: traced_poll_def traced_ok_def read_since_log)
qed

lemma append_all_buffer: "snd (job_log.append_all job es s) = fold (publish job) es (snd s)"
  by (induction es arbitrary: s) (simp_all add: job_log.append_all_def traced_publish_def)

text \<open>C36. A reader never sees an event twice and misses none that the buffer could keep: polling with
  the cursor of its last poll, it gets a suffix of the events published in between, and all of
  them, in order, when no more than the buffer holds were published.\<close>

theorem reader_gets_every_event:
  assumes "stands_for hist b" and "read_since b job (int c) = (seen, cursor, finished)"
  shows "(\<exists>k. fst (read_since (fold (publish job) es b) job (int cursor)) = drop k es)
    \<and> (length es \<le> jb_max_events b \<longrightarrow> fst (read_since (fold (publish job) es b) job (int cursor)) = es)"
proof -
  have polled: "traced_poll (hist, b) job c = (seen, cursor)" using assms(2) by (simp add: traced_poll_def)
  have ok: "traced_ok (hist, b)" using assms(1) by (simp add: traced_ok_def)
  have poll: "fst (traced_poll (job_log.append_all job es (hist, b)) job cursor)
      = fst (read_since (fold (publish job) es b) job (int cursor))"
    by (simp add: traced_poll_def append_all_buffer split: prod.split)
  from job_log.poll_no_repeat[OF ok polled, of es] job_log.poll_complete[OF ok polled, of es] show ?thesis
    unfolding poll by simp
qed

theorem reader_gets_every_event_witness:
  "fst (read_since (fold (publish ''job'') [4, 5] (fold (publish ''job'') [1, 2, 3 :: nat] (new_buffer 2))) ''job'' (int 3)) = [4, 5]"
proof -
  have "stands_for ((\<lambda>_. [])(''job'' := [1, 2, 3])) (fold (publish ''job'') [1, 2, 3 :: nat] (new_buffer 2))"
    using stands_for_publish_all[OF stands_for_new, of "''job''" "[1, 2, 3 :: nat]" 2] by simp
  moreover have "read_since (fold (publish ''job'') [1, 2, 3 :: nat] (new_buffer 2)) ''job'' (int 0) = ([2, 3], 3, False)"
    by code_simp
  moreover have "length [4, 5 :: nat] \<le> jb_max_events (fold (publish ''job'') [1, 2, 3 :: nat] (new_buffer 2))"
    by code_simp
  ultimately show ?thesis using reader_gets_every_event by blast
qed

end
