(* ===== verification/Py_Text.thy ===== *)
theory Py_Text
  imports Py_Float
begin

text \<open>
  \<open>int(text)\<close> and \<open>float(text)\<close> as the services use them to read settings and response headers:
  \<open>None\<close> where Python raises \<open>ValueError\<close>.  The grammar is Python's, on ASCII text: an optional
  sign, digits with single underscores between them, and for floats a fraction, an exponent or
  one of the names of the special values.
\<close>

text \<open>The longest run of digits at the front of a text, underscores dropped, and the rest.\<close>

fun digit_run :: "string \<Rightarrow> string \<times> string" where
  "digit_run [] = ([], [])"
| "digit_run [c] = (if digit_char c then ([c], []) else ([], [c]))"
| "digit_run (c # d # cs) =
     (if \<not> digit_char c then ([], c # d # cs)
      else if d = CHR ''_'' then
        (if cs \<noteq> [] \<and> digit_char (hd cs) then (c # fst (digit_run cs), snd (digit_run cs)) else ([c], d # cs))
      else (c # fst (digit_run (d # cs)), snd (digit_run (d # cs))))"

definition take_sign :: "string \<Rightarrow> bool \<times> string" where
  "take_sign s = (case s of [] \<Rightarrow> (False, [])
     | c # cs \<Rightarrow> if c = CHR ''-'' then (True, cs) else if c = CHR ''+'' then (False, cs) else (False, c # cs))"

text \<open>\<open>int(text)\<close>; texts of more than 4300 digits raise as well.\<close>

definition int_of_text :: "string \<Rightarrow> int option" where
  "int_of_text s =
     (case take_sign (py_strip s) of (neg, body) \<Rightarrow>
      (case digit_run body of (ds, rest) \<Rightarrow>
         if ds = [] \<or> rest \<noteq> [] \<or> 4300 < length ds then None
         else Some (if neg then - int (digits_value ds) else int (digits_value ds))))"

definition exponent_of_text :: "string \<Rightarrow> int option" where
  "exponent_of_text s =
     (case s of [] \<Rightarrow> Some 0
      | c # cs \<Rightarrow> if c \<noteq> CHR ''e'' \<and> c \<noteq> CHR ''E'' then None
          else (case take_sign cs of (neg, body) \<Rightarrow>
            (case digit_run body of (ds, rest) \<Rightarrow>
               if ds = [] \<or> rest \<noteq> [] then None
               else Some (if neg then - int (digits_value ds) else int (digits_value ds)))))"

definition power_of_ten :: "int \<Rightarrow> rat" where
  "power_of_ten e = (if 0 \<le> e then 10 ^ nat e else 1 / 10 ^ nat (- e))"

definition magnitude_of_text :: "string \<Rightarrow> rat option" where
  "magnitude_of_text s =
     (case digit_run s of (ws, rest) \<Rightarrow>
      (case (if rest \<noteq> [] \<and> hd rest = CHR ''.'' then digit_run (tl rest) else ([], rest)) of (fs, tail) \<Rightarrow>
         if ws = [] \<and> fs = [] then None
         else map_option (\<lambda>e. of_nat (digits_value (ws @ fs)) * power_of_ten (e - int (length fs)))
                (exponent_of_text tail)))"

definition float_of_text :: "string \<Rightarrow> pyfloat option" where
  "float_of_text s =
     (case take_sign (py_strip s) of (neg, body) \<Rightarrow>
        let name = py_lower body in
        if name = ''inf'' \<or> name = ''infinity'' then Some (if neg then NInf else PInf)
        else if name = ''nan'' then Some NaN
        else map_option (\<lambda>x. Fin (if neg then - x else x)) (magnitude_of_text body))"

lemma digit_run_digits: "list_all digit_char s \<Longrightarrow> digit_run s = (s, [])"
proof (induction s rule: digit_run.induct)
  case (3 c d cs)
  have "d \<noteq> CHR ''_''" using "3.prems" by (auto simp: digit_char_def)
  with 3 show ?case by simp
qed simp_all

lemma is_space_digit: "digit_char c \<Longrightarrow> \<not> is_space c \<and> c \<noteq> CHR ''-'' \<and> c \<noteq> CHR ''+''"
  by (auto simp: digit_char_def is_space_def Let_def)

lemma strip_digits: "list_all digit_char s \<Longrightarrow> py_strip s = s"
  by (rule py_strip_id) (metis hd_in_set is_space_digit last_in_set list_all_iff)

text \<open>What \<open>str\<close> prints of a natural number, \<open>int\<close> reads back.\<close>

lemma int_of_text_show:
  assumes "length (show_nat n) \<le> 4300"
  shows "int_of_text (show_nat n) = Some (int n)"
proof -
  have d: "list_all digit_char (show_nat n)" "show_nat n \<noteq> []" "digits_value (show_nat n) = n"
    using show_nat_digits[of n] by (auto simp: py_isdigit_def)
  then have "take_sign (show_nat n) = (False, show_nat n)"
    by (cases "show_nat n") (auto simp: take_sign_def dest: is_space_digit)
  with d assms show ?thesis by (simp add: int_of_text_def strip_digits digit_run_digits)
qed

text \<open>
  The dynamic values that documents, graph states and market rows are made of: the JSON-like data of
  Python with its truth values, texts and numeric conversions.
\<close>

datatype pyval = PNone | PBool bool | PInt int | PFloat pyfloat | PStr string | PDateTime int
  | PList "pyval list" | PDict "(string \<times> pyval) list"

fun pv_truthy :: "pyval \<Rightarrow> bool" where
  "pv_truthy PNone = False"
| "pv_truthy (PBool b) = b"
| "pv_truthy (PInt n) = (n \<noteq> 0)"
| "pv_truthy (PFloat x) = truthy x"
| "pv_truthy (PStr s) = (s \<noteq> [])"
| "pv_truthy (PDateTime t) = True"
| "pv_truthy (PList xs) = (xs \<noteq> [])"
| "pv_truthy (PDict d) = (d \<noteq> [])"

definition pget :: "(string, pyval) dict \<Rightarrow> string \<Rightarrow> pyval" where
  "pget d k = (case dget d k of None \<Rightarrow> PNone | Some v \<Rightarrow> v)"

definition pget_or :: "(string, pyval) dict \<Rightarrow> string \<Rightarrow> pyval \<Rightarrow> pyval" where
  "pget_or d k v = (case dget d k of None \<Rightarrow> v | Some w \<Rightarrow> w)"

text \<open>\<open>str(value)\<close>: plain text, integers, truth values and \<open>None\<close> print as themselves.\<close>

fun pv_str :: "(pyval \<Rightarrow> string) \<Rightarrow> pyval \<Rightarrow> string" where
  "pv_str f (PStr s) = s"
| "pv_str f (PInt n) = show_int n"
| "pv_str f (PBool b) = (if b then ''True'' else ''False'')"
| "pv_str f PNone = ''None''"
| "pv_str f v = f v"

fun pv_float :: "pyval \<Rightarrow> pyfloat option" where
  "pv_float (PFloat x) = Some x"
| "pv_float (PInt n) = Some (Fin (of_int n))"
| "pv_float (PBool b) = Some (Fin (if b then 1 else 0))"
| "pv_float (PStr s) = float_of_text s"
| "pv_float _ = None"

fun pv_int :: "pyval \<Rightarrow> int res" where
  "pv_int (PInt n) = Inr n"
| "pv_int (PBool b) = Inr (if b then 1 else 0)"
| "pv_int (PFloat x) = py_int x"
| "pv_int (PStr s) = (case int_of_text s of Some n \<Rightarrow> Inr n | None \<Rightarrow> Inl (ValueError ''invalid literal for int()''))"
| "pv_int _ = Inl (TypeError ''int() argument'')"

end
