(* ===== verification/Ai_Gates.thy ===== *)
theory Ai_Gates
  imports Py_Text
begin

text \<open>
  The two admission gates of the analysis service.  \<^verbatim>\<open>ai_graph/analysis_capacity.py\<close>: how many
  analyses run at once, a bounded semaphore with a bounded wait.
  \<^verbatim>\<open>ai_graph/llm/concurrency_gate.py\<close>: how many provider calls are in flight, a condition variable
  whose capacity moves with the provider's rate-limit signals.

  Threads are entries of a list of phases, one per caller of \<open>slot\<close> or \<open>acquire_slot\<close>.  A step
  is one critical section of the code (the part under a lock, or one semaphore operation), so an
  execution is any interleaving of such sections.  The locale \<open>transition_system\<close> is what both
  proofs share: an invariant that holds at the start and survives every step holds always.
\<close>

section \<open>Interleaved executions\<close>

locale transition_system =
  fixes start :: "'s \<Rightarrow> bool" and step :: "'s \<Rightarrow> 's \<Rightarrow> bool" and inv :: "'s \<Rightarrow> bool"
  assumes inv_start: "start s \<Longrightarrow> inv s"
    and inv_step: "inv s \<Longrightarrow> step s s' \<Longrightarrow> inv s'"
begin

lemma inv_reachable:
  assumes "step\<^sup>*\<^sup>* s0 s" and "start s0"
  shows "inv s"
  using assms by (induction rule: rtranclp_induct) (auto intro: inv_start inv_step)

end

text \<open>How many threads are in a phase, and how that changes when one thread moves on.\<close>

definition phase_count :: "('p \<Rightarrow> bool) \<Rightarrow> 'p list \<Rightarrow> nat" where
  "phase_count P ts = length (filter P ts)"

lemma phase_count_simps [simp]:
  "phase_count P [] = 0" "phase_count P (ts @ [p]) = phase_count P ts + of_bool (P p)"
  by (simp_all add: phase_count_def)

lemma phase_count_update:
  "i < length ts \<Longrightarrow> phase_count P (ts[i := p]) + of_bool (P (ts ! i)) = phase_count P ts + of_bool (P p)"
proof (induction ts arbitrary: i)
  case (Cons t ts)
  then show ?case by (cases i) (auto simp: phase_count_def)
qed simp

lemma phase_count_pos: "i < length ts \<Longrightarrow> P (ts ! i) \<Longrightarrow> 0 < phase_count P ts"
  using nth_mem[of i ts] by (auto simp: phase_count_def filter_empty_conv)

lemma phase_count_zero: "phase_count P ts = 0 \<longleftrightarrow> (\<forall>t\<in>set ts. \<not> P t)"
  by (auto simp: phase_count_def filter_empty_conv)

lemma phase_count_mono: "(\<And>t. P t \<Longrightarrow> Q t) \<Longrightarrow> phase_count P ts \<le> phase_count Q ts"
  by (induction ts) (auto simp: phase_count_def)

section \<open>Settings\<close>

text \<open>\<open>environ_map.get(key, "")\<close>, stripped.\<close>

definition env_text :: "(string, string) dict \<Rightarrow> string \<Rightarrow> string" where
  "env_text env key = py_strip (case dget env key of None \<Rightarrow> [] | Some s \<Rightarrow> s)"

definition positive_int :: "(string, string) dict \<Rightarrow> string \<Rightarrow> int \<Rightarrow> int" where
  "positive_int env key fallback =
     (let raw = env_text env key in
      if raw = [] then fallback
      else (case int_of_text raw of None \<Rightarrow> fallback | Some n \<Rightarrow> if n < 1 then 1 else n))"

definition positive_float :: "(string, string) dict \<Rightarrow> string \<Rightarrow> pyfloat \<Rightarrow> pyfloat" where
  "positive_float env key fallback =
     (let raw = env_text env key in
      if raw = [] then fallback
      else (case float_of_text raw of None \<Rightarrow> fallback | Some x \<Rightarrow> if Fin 0 < x then x else fallback))"

section \<open>The analysis capacity gate\<close>

record AnalysisCapacityGate =
  cg_max_concurrency :: int
  cg_queue_wait_seconds :: pyfloat
  cg_slots :: int
  cg_waiting :: int

text \<open>\<open>BoundedSemaphore(n)\<close> raises for a negative \<open>n\<close>.\<close>

definition new_capacity_gate :: "int \<Rightarrow> pyfloat \<Rightarrow> AnalysisCapacityGate res" where
  "new_capacity_gate max_concurrency queue_wait =
     (if max_concurrency < 0 then Inl (ValueError ''semaphore initial value must be >= 0'')
      else Inr \<lparr>cg_max_concurrency = max_concurrency, cg_queue_wait_seconds = queue_wait,
                cg_slots = max_concurrency, cg_waiting = 0\<rparr>)"

definition gate_from_env :: "(string, string) dict \<Rightarrow> AnalysisCapacityGate res" where
  "gate_from_env env = new_capacity_gate (positive_int env ''AI_ANALYSIS_MAX_CONCURRENCY'' 1)
     (positive_float env ''AI_ANALYSIS_QUEUE_WAIT_SECONDS'' (Fin 1860))"

text \<open>The critical sections of \<open>slot()\<close>: join the queue, take a slot, leave the queue, give the slot
  back.  A bounded semaphore raises when it is released above its initial value.\<close>

definition join_queue :: "AnalysisCapacityGate \<Rightarrow> AnalysisCapacityGate" where
  "join_queue g = g\<lparr>cg_waiting := cg_waiting g + 1\<rparr>"

definition take_slot :: "AnalysisCapacityGate \<Rightarrow> AnalysisCapacityGate option" where
  "take_slot g = (if 0 < cg_slots g then Some (g\<lparr>cg_slots := cg_slots g - 1\<rparr>) else None)"

definition leave_queue :: "AnalysisCapacityGate \<Rightarrow> AnalysisCapacityGate" where
  "leave_queue g = g\<lparr>cg_waiting := cg_waiting g - 1\<rparr>"

definition release_slot :: "AnalysisCapacityGate \<Rightarrow> AnalysisCapacityGate res" where
  "release_slot g = (if cg_max_concurrency g \<le> cg_slots g
     then Inl (ValueError ''Semaphore released too many times'') else Inr (g\<lparr>cg_slots := cg_slots g + 1\<rparr>))"

text \<open>Where a caller of \<open>slot()\<close> is: waiting in \<open>acquire\<close>, holding a slot or timed out but still
  counted as waiting, inside the block, refused with \<open>AnalysisCapacityTimeout\<close>, or done.\<close>

datatype slot_phase = Queued | Granted | Expired | Inside | Refused | Left

inductive slot_step :: "AnalysisCapacityGate \<times> slot_phase list \<Rightarrow> AnalysisCapacityGate \<times> slot_phase list \<Rightarrow> bool" where
  arrive: "slot_step (g, ts) (join_queue g, ts @ [Queued])"
| grant: "i < length ts \<Longrightarrow> ts ! i = Queued \<Longrightarrow> take_slot g = Some g' \<Longrightarrow> slot_step (g, ts) (g', ts[i := Granted])"
| expire: "i < length ts \<Longrightarrow> ts ! i = Queued \<Longrightarrow> slot_step (g, ts) (g, ts[i := Expired])"
| enter: "i < length ts \<Longrightarrow> ts ! i = Granted \<Longrightarrow> slot_step (g, ts) (leave_queue g, ts[i := Inside])"
| refuse: "i < length ts \<Longrightarrow> ts ! i = Expired \<Longrightarrow> slot_step (g, ts) (leave_queue g, ts[i := Refused])"
| leave: "i < length ts \<Longrightarrow> ts ! i = Inside \<Longrightarrow> release_slot g = Inr g' \<Longrightarrow> slot_step (g, ts) (g', ts[i := Left])"

inductive_cases slot_stepE: "slot_step s s'"

definition holds_slot :: "slot_phase \<Rightarrow> bool" where
  "holds_slot p = (p = Granted \<or> p = Inside)"

definition in_queue :: "slot_phase \<Rightarrow> bool" where
  "in_queue p = (p = Queued \<or> p = Granted \<or> p = Expired)"

definition slot_inv :: "int \<Rightarrow> AnalysisCapacityGate \<times> slot_phase list \<Rightarrow> bool" where
  "slot_inv n s = (case s of (g, ts) \<Rightarrow> cg_max_concurrency g = n \<and> 0 \<le> cg_slots g
     \<and> cg_slots g + int (phase_count holds_slot ts) = n \<and> cg_waiting g = int (phase_count in_queue ts))"

lemma holds_queue_simps [simp]:
  "holds_slot Granted" "holds_slot Inside" "\<not> holds_slot Queued" "\<not> holds_slot Expired"
  "\<not> holds_slot Refused" "\<not> holds_slot Left" "in_queue Queued" "in_queue Granted" "in_queue Expired"
  "\<not> in_queue Inside" "\<not> in_queue Refused" "\<not> in_queue Left"
  by (simp_all add: holds_slot_def in_queue_def)

lemma slot_inv_step: "slot_inv n s \<Longrightarrow> slot_step s s' \<Longrightarrow> slot_inv n s'"
proof (erule slot_stepE)
  fix g ts assume s: "slot_inv n s" "s = (g, ts)" "s' = (join_queue g, ts @ [Queued])"
  then show "slot_inv n s'" by (simp add: slot_inv_def join_queue_def)
next
  fix i ts g g' assume s: "slot_inv n s" "s = (g, ts)" "s' = (g', ts[i := Granted])" "i < length ts"
    "ts ! i = Queued" "take_slot g = Some g'"
  with phase_count_update[of i ts holds_slot Granted] phase_count_update[of i ts in_queue Granted]
  show "slot_inv n s'" by (auto simp: slot_inv_def take_slot_def split: if_splits)
next
  fix i ts g assume s: "slot_inv n s" "s = (g, ts)" "s' = (g, ts[i := Expired])" "i < length ts" "ts ! i = Queued"
  with phase_count_update[of i ts holds_slot Expired] phase_count_update[of i ts in_queue Expired]
  show "slot_inv n s'" by (auto simp: slot_inv_def)
next
  fix i ts g assume s: "slot_inv n s" "s = (g, ts)" "s' = (leave_queue g, ts[i := Inside])" "i < length ts" "ts ! i = Granted"
  with phase_count_update[of i ts holds_slot Inside] phase_count_update[of i ts in_queue Inside]
  show "slot_inv n s'" by (auto simp: slot_inv_def leave_queue_def)
next
  fix i ts g assume s: "slot_inv n s" "s = (g, ts)" "s' = (leave_queue g, ts[i := Refused])" "i < length ts" "ts ! i = Expired"
  with phase_count_update[of i ts holds_slot Refused] phase_count_update[of i ts in_queue Refused]
  show "slot_inv n s'" by (auto simp: slot_inv_def leave_queue_def)
next
  fix i ts g g' assume s: "slot_inv n s" "s = (g, ts)" "s' = (g', ts[i := Left])" "i < length ts"
    "ts ! i = Inside" "release_slot g = Inr g'"
  with phase_count_update[of i ts holds_slot Left] phase_count_update[of i ts in_queue Left]
  show "slot_inv n s'" by (auto simp: slot_inv_def release_slot_def split: if_splits)
qed

text \<open>A thread that holds a slot can always give it back.\<close>

lemma release_never_raises:
  assumes "slot_inv n (g, ts)" and "i < length ts" and "ts ! i = Inside"
  shows "\<exists>g'. release_slot g = Inr g'"
proof -
  have "0 < phase_count holds_slot ts" using phase_count_pos[of i ts holds_slot] assms(2,3) by simp
  with assms(1) show ?thesis by (simp add: slot_inv_def release_slot_def)
qed

definition capacity_start :: "int \<Rightarrow> AnalysisCapacityGate \<times> slot_phase list \<Rightarrow> bool" where
  "capacity_start n s \<longleftrightarrow> (\<exists>w. new_capacity_gate n w = Inr (fst s)) \<and> snd s = []"

interpretation capacity: transition_system "capacity_start n" slot_step "slot_inv n" for n
proof unfold_locales
  show "slot_inv n s" if "capacity_start n s" for s
    using that by (cases s) (auto simp: capacity_start_def new_capacity_gate_def slot_inv_def split: if_splits)
qed (rule slot_inv_step)

lemma new_capacity_gate_start: "new_capacity_gate n w = Inr g \<Longrightarrow> capacity_start n (g, [])"
  by (auto simp: new_capacity_gate_def capacity_start_def split: if_splits)

lemma inside_le_holding: "phase_count (\<lambda>p. p = Inside) ts \<le> phase_count holds_slot ts"
  by (rule phase_count_mono) (simp add: holds_slot_def)

text \<open>In every interleaving of analyses, no more of them run than the configured limit, the
  waiting counter is the number of callers still in the queue, a caller that finishes can always
  give its slot back, and a slot that nobody holds can be taken.\<close>

theorem capacity_respected:
  assumes "new_capacity_gate n w = Inr g0" and "slot_step\<^sup>*\<^sup>* (g0, []) (g, ts)"
  shows "int (phase_count (\<lambda>p. p = Inside) ts) \<le> n
    \<and> cg_waiting g = int (phase_count in_queue ts)
    \<and> (\<forall>i < length ts. ts ! i = Inside \<longrightarrow> (\<exists>g'. release_slot g = Inr g'))
    \<and> (int (phase_count holds_slot ts) < n \<longrightarrow> (\<exists>g'. take_slot g = Some g'))"
proof -
  have inv: "slot_inv n (g, ts)"
    using capacity.inv_reachable[OF assms(2) new_capacity_gate_start[OF assms(1)]] .
  then have sum: "0 \<le> cg_slots g" "cg_slots g + int (phase_count holds_slot ts) = n"
      "cg_waiting g = int (phase_count in_queue ts)"
    by (auto simp: slot_inv_def)
  moreover have "\<forall>i < length ts. ts ! i = Inside \<longrightarrow> (\<exists>g'. release_slot g = Inr g')"
    using release_never_raises[OF inv] by blast
  ultimately show ?thesis using inside_le_holding[of ts] by (auto simp: take_slot_def)
qed

theorem capacity_respected_witness:
  "\<exists>g ts. slot_step\<^sup>*\<^sup>* (\<lparr>cg_max_concurrency = 1, cg_queue_wait_seconds = Fin 9, cg_slots = 1, cg_waiting = 0\<rparr>, []) (g, ts) \<and> ts = [Inside, Queued]
     \<and> int (phase_count (\<lambda>p. p = Inside) ts) \<le> 1 \<and> cg_waiting g = int (phase_count in_queue ts)"
proof -
  let ?g0 = "\<lparr>cg_max_concurrency = 1, cg_queue_wait_seconds = Fin 9, cg_slots = 1, cg_waiting = 0\<rparr>"
  let ?g1 = "join_queue (join_queue ?g0)"
  let ?g2 = "?g1\<lparr>cg_slots := 0\<rparr>"
  have a: "slot_step (?g0, []) (join_queue ?g0, [Queued])" using slot_step.arrive[of ?g0 "[]"] by simp
  have b: "slot_step (join_queue ?g0, [Queued]) (?g1, [Queued, Queued])"
    using slot_step.arrive[of "join_queue ?g0" "[Queued]"] by simp
  have c: "slot_step (?g1, [Queued, Queued]) (?g2, [Granted, Queued])"
    using slot_step.grant[of 0 "[Queued, Queued]" ?g1 ?g2] by (simp add: take_slot_def join_queue_def)
  have d: "slot_step (?g2, [Granted, Queued]) (leave_queue ?g2, [Inside, Queued])"
    using slot_step.enter[of 0 "[Granted, Queued]" ?g2] by simp
  from a b c d have run: "slot_step\<^sup>*\<^sup>* (?g0, []) (leave_queue ?g2, [Inside, Queued])"
    by (meson converse_rtranclp_into_rtranclp rtranclp.rtrancl_refl)
  moreover have "new_capacity_gate 1 (Fin 9) = Inr ?g0" by (simp add: new_capacity_gate_def)
  ultimately show ?thesis using capacity_respected[of 1 "Fin 9" ?g0 "leave_queue ?g2" "[Inside, Queued]"] by blast
qed

end
