(* ===== verification/Ai_Aoai_Gate.thy ===== *)
theory Ai_Aoai_Gate
  imports Ai_Gates
begin

text \<open>
  \<^verbatim>\<open>ai_graph/llm/concurrency_gate.py\<close>: the admission gate in front of the model provider.  A
  caller checks for a free place under the condition's lock and, when there is none, parks on the
  condition until it is notified or its wait runs out; capacity shrinks at once on a rate-limit
  signal and grows by one after a run of healthy responses.  Logging is left out.
\<close>

section \<open>The gate\<close>

record AOAIConcurrencyGate =
  ag_min_capacity :: int
  ag_max_capacity :: int
  ag_max_wait_seconds :: pyfloat
  ag_healthy_to_grow :: int
  ag_capacity :: int
  ag_in_flight :: int
  ag_healthy_streak :: int

definition clamp :: "int \<Rightarrow> int \<Rightarrow> int \<Rightarrow> int" where
  "clamp value low high = max low (min value high)"

definition new_aoai_gate :: "int \<Rightarrow> int \<Rightarrow> int \<Rightarrow> pyfloat \<Rightarrow> int \<Rightarrow> AOAIConcurrencyGate res" where
  "new_aoai_gate initial lo hi wait grow =
     (if lo < 1 then Inl (ValueError ''min_capacity must be at least 1'')
      else if hi < lo then Inl (ValueError ''max_capacity must be at least min_capacity'')
      else Inr \<lparr>ag_min_capacity = lo, ag_max_capacity = hi, ag_max_wait_seconds = wait,
                ag_healthy_to_grow = grow, ag_capacity = clamp initial lo hi,
                ag_in_flight = 0, ag_healthy_streak = 0\<rparr>)"

text \<open>\<open>acquire_slot\<close>: the deadline of a caller, and one turn of its loop under the lock at time \<open>now\<close>.\<close>

definition wait_deadline :: "AOAIConcurrencyGate \<Rightarrow> pyfloat option \<Rightarrow> rat \<Rightarrow> pyfloat" where
  "wait_deadline g max_wait now = Fin now + (case max_wait of None \<Rightarrow> ag_max_wait_seconds g | Some w \<Rightarrow> w)"

datatype admission = Admitted AOAIConcurrencyGate | ParkFor pyfloat | GateBusy

definition try_acquire :: "AOAIConcurrencyGate \<Rightarrow> pyfloat \<Rightarrow> rat \<Rightarrow> admission" where
  "try_acquire g deadline now =
     (if ag_in_flight g < ag_capacity g then Admitted (g\<lparr>ag_in_flight := ag_in_flight g + 1\<rparr>)
      else let remaining = deadline - Fin now in
           if remaining \<le> Fin 0 then GateBusy else ParkFor remaining)"

definition release_aoai :: "AOAIConcurrencyGate \<Rightarrow> AOAIConcurrencyGate" where
  "release_aoai g = g\<lparr>ag_in_flight := ag_in_flight g - 1\<rparr>"

definition shrink :: "AOAIConcurrencyGate \<Rightarrow> AOAIConcurrencyGate" where
  "shrink g =
     (let g = g\<lparr>ag_healthy_streak := 0\<rparr> in
      if ag_capacity g \<le> ag_min_capacity g then g else g\<lparr>ag_capacity := ag_capacity g - 1\<rparr>)"

text \<open>\<open>_record_healthy\<close>: the new gate, and whether every parked caller is notified.\<close>

definition record_healthy :: "AOAIConcurrencyGate \<Rightarrow> AOAIConcurrencyGate \<times> bool" where
  "record_healthy g =
     (if ag_max_capacity g \<le> ag_capacity g then (g, False)
      else let g = g\<lparr>ag_healthy_streak := ag_healthy_streak g + 1\<rparr> in
           if ag_healthy_streak g < ag_healthy_to_grow g then (g, False)
           else (g\<lparr>ag_healthy_streak := 0, ag_capacity := ag_capacity g + 1\<rparr>, True))"

section \<open>Rate-limit headers\<close>

text \<open>\<open>_int_header\<close> catches \<open>TypeError\<close> and \<open>ValueError\<close> of \<open>int(float(...))\<close>, no other error.\<close>

definition int_header :: "(string, string) dict \<Rightarrow> string \<Rightarrow> int option res" where
  "int_header headers name =
     (case dget headers name of None \<Rightarrow> Inr None
      | Some raw \<Rightarrow> (case float_of_text (py_strip raw) of None \<Rightarrow> Inr None
          | Some x \<Rightarrow> (case py_int x of Inr n \<Rightarrow> Inr (Some n)
              | Inl (ValueError m) \<Rightarrow> Inr None | Inl e \<Rightarrow> Inl e)))"

text \<open>One pass of the loop: \<open>Some b\<close> is a \<open>return b\<close>, \<open>None\<close> goes on to the next pair.\<close>

definition budget_low :: "(string, string) dict \<Rightarrow> string \<Rightarrow> string \<Rightarrow> bool option res" where
  "budget_low headers remaining_header limit_header =
     rbind (int_header headers remaining_header) (\<lambda>r. case r of None \<Rightarrow> Inr None
       | Some remaining \<Rightarrow> if remaining \<le> 0 then Inr (Some True)
           else rbind (int_header headers limit_header) (\<lambda>l. case l of None \<Rightarrow> Inr None
             | Some limit \<Rightarrow> if limit \<noteq> 0 \<and> (of_int remaining / of_int limit :: rat) \<le> 1 / 10
                             then Inr (Some True) else Inr None))"

definition is_near_exhaustion :: "(string, string) dict \<Rightarrow> bool res" where
  "is_near_exhaustion headers =
     rbind (budget_low headers ''x-ratelimit-remaining-requests'' ''x-ratelimit-limit-requests'') (\<lambda>a.
       case a of Some b \<Rightarrow> Inr b
       | None \<Rightarrow> rbind (budget_low headers ''x-ratelimit-remaining-tokens'' ''x-ratelimit-limit-tokens'')
           (\<lambda>b. Inr (case b of Some c \<Rightarrow> c | None \<Rightarrow> False)))"

definition observe_rate_limit_headers ::
  "(string, string) dict \<Rightarrow> AOAIConcurrencyGate \<Rightarrow> (AOAIConcurrencyGate \<times> bool) res" where
  "observe_rate_limit_headers headers g =
     rbind (is_near_exhaustion headers) (\<lambda>near. Inr (if near then (shrink g, False) else record_healthy g))"

definition observe_rate_limited_response :: "AOAIConcurrencyGate \<Rightarrow> AOAIConcurrencyGate" where
  "observe_rate_limited_response g = shrink g"

definition max_wait_seconds_from_env :: "(string, string) dict \<Rightarrow> pyfloat" where
  "max_wait_seconds_from_env env =
     (let raw = env_text env ''AI_AOAI_GATE_MAX_WAIT_SECONDS'' in
      if raw = [] then Fin 300
      else (case float_of_text raw of None \<Rightarrow> Fin 300 | Some x \<Rightarrow> if x \<le> Fin 0 then Fin 300 else x))"

text \<open>\<open>get_shared_gate\<close> and \<open>reset_shared_gate\<close>: the process-wide gate, made on first use.\<close>

definition get_shared_gate ::
  "(string, string) dict \<Rightarrow> AOAIConcurrencyGate option \<Rightarrow> (AOAIConcurrencyGate \<times> AOAIConcurrencyGate option) res" where
  "get_shared_gate env shared =
     (case shared of Some g \<Rightarrow> Inr (g, shared)
      | None \<Rightarrow> rbind (new_aoai_gate 2 1 8 (max_wait_seconds_from_env env) 10) (\<lambda>g. Inr (g, Some g)))"

definition reset_shared_gate :: "AOAIConcurrencyGate option \<Rightarrow> AOAIConcurrencyGate option" where
  "reset_shared_gate shared = None"

section \<open>Interleavings\<close>

text \<open>
  A caller is awake with its deadline, parked on the condition, in flight, refused with
  \<open>AOAIGateBusyError\<close>, or done.  A parked caller whose wait has run out stays parked until it has
  the lock again, because until then a \<open>notify\<close> may still pick it.
\<close>

datatype call_phase = Awake pyfloat | Parked pyfloat | InFlight | Busy | Ended

fun is_awake :: "call_phase \<Rightarrow> bool" where
  "is_awake (Awake d) = True" | "is_awake _ = False"

fun is_parked :: "call_phase \<Rightarrow> bool" where
  "is_parked (Parked d) = True" | "is_parked _ = False"

fun wake :: "call_phase \<Rightarrow> call_phase" where
  "wake (Parked d) = Awake d" | "wake p = p"

text \<open>\<open>notify()\<close> after a release wakes one parked caller if there is one.\<close>

inductive call_step :: "AOAIConcurrencyGate \<times> call_phase list \<Rightarrow> AOAIConcurrencyGate \<times> call_phase list \<Rightarrow> bool" where
  call: "call_step (g, ts) (g, ts @ [Awake (wait_deadline g w now)])"
| admit: "i < length ts \<Longrightarrow> ts ! i = Awake d \<Longrightarrow> try_acquire g d now = Admitted g'
    \<Longrightarrow> call_step (g, ts) (g', ts[i := InFlight])"
| park: "i < length ts \<Longrightarrow> ts ! i = Awake d \<Longrightarrow> try_acquire g d now = ParkFor r
    \<Longrightarrow> call_step (g, ts) (g, ts[i := Parked d])"
| busy: "i < length ts \<Longrightarrow> ts ! i = Awake d \<Longrightarrow> try_acquire g d now = GateBusy
    \<Longrightarrow> call_step (g, ts) (g, ts[i := Busy])"
| timeout: "i < length ts \<Longrightarrow> ts ! i = Parked d \<Longrightarrow> call_step (g, ts) (g, ts[i := Awake d])"
| finish_notify: "i < length ts \<Longrightarrow> ts ! i = InFlight \<Longrightarrow> j < length ts \<Longrightarrow> ts ! j = Parked d
    \<Longrightarrow> call_step (g, ts) (release_aoai g, ts[i := Ended, j := Awake d])"
| finish: "i < length ts \<Longrightarrow> ts ! i = InFlight \<Longrightarrow> phase_count is_parked ts = 0
    \<Longrightarrow> call_step (g, ts) (release_aoai g, ts[i := Ended])"
| rate_limited: "call_step (g, ts) (observe_rate_limited_response g, ts)"
| headers: "observe_rate_limit_headers hs g = Inr (g', notified)
    \<Longrightarrow> call_step (g, ts) (g', if notified then map wake ts else ts)"

inductive_cases call_stepE: "call_step s s'"

section \<open>Invariants\<close>

definition gate_ok :: "AOAIConcurrencyGate \<Rightarrow> bool" where
  "gate_ok g \<longleftrightarrow> 1 \<le> ag_min_capacity g \<and> ag_min_capacity g \<le> ag_capacity g \<and> ag_capacity g \<le> ag_max_capacity g
     \<and> 0 \<le> ag_healthy_streak g \<and> ag_healthy_streak g < max 1 (ag_healthy_to_grow g)"

definition same_settings :: "AOAIConcurrencyGate \<Rightarrow> AOAIConcurrencyGate \<Rightarrow> bool" where
  "same_settings g g' \<longleftrightarrow> ag_min_capacity g' = ag_min_capacity g \<and> ag_max_capacity g' = ag_max_capacity g
     \<and> ag_max_wait_seconds g' = ag_max_wait_seconds g \<and> ag_healthy_to_grow g' = ag_healthy_to_grow g"

text \<open>No caller sleeps while a place is free: there are at least as many awake callers as free places.\<close>

definition no_lost_wakeup :: "AOAIConcurrencyGate \<times> call_phase list \<Rightarrow> bool" where
  "no_lost_wakeup s = (case s of (g, ts) \<Rightarrow>
     phase_count is_parked ts = 0 \<or> ag_capacity g - ag_in_flight g \<le> int (phase_count is_awake ts))"

definition call_inv :: "AOAIConcurrencyGate \<Rightarrow> AOAIConcurrencyGate \<times> call_phase list \<Rightarrow> bool" where
  "call_inv g0 s = (case s of (g, ts) \<Rightarrow> gate_ok g \<and> same_settings g0 g \<and> ag_in_flight g \<le> ag_max_capacity g
     \<and> ag_in_flight g = int (phase_count (\<lambda>p. p = InFlight) ts) \<and> no_lost_wakeup s)"

lemma new_aoai_gate_ok: "new_aoai_gate i lo hi w n = Inr g \<Longrightarrow> gate_ok g \<and> ag_in_flight g = 0"
  by (auto simp: new_aoai_gate_def gate_ok_def clamp_def split: if_splits)

lemma shrink_facts:
  "same_settings g (shrink g)" "ag_in_flight (shrink g) = ag_in_flight g" "gate_ok g \<Longrightarrow> gate_ok (shrink g)"
  "ag_capacity (shrink g) \<le> ag_capacity g" "ag_healthy_streak (shrink g) = 0"
  by (auto simp: shrink_def Let_def same_settings_def gate_ok_def)

lemma record_healthy_facts:
  assumes "record_healthy g = (g', b)"
  shows "same_settings g g'" "ag_in_flight g' = ag_in_flight g" "gate_ok g \<Longrightarrow> gate_ok g'"
    "\<not> b \<Longrightarrow> ag_capacity g' = ag_capacity g"
  using assms by (auto simp: record_healthy_def Let_def same_settings_def gate_ok_def split: if_splits)

lemma same_settings_trans: "same_settings a b \<Longrightarrow> same_settings b c \<Longrightarrow> same_settings a c"
  by (simp add: same_settings_def)

lemma same_settings_in_flight [simp]: "same_settings g (h\<lparr>ag_in_flight := n\<rparr>) = same_settings g h"
  by (simp add: same_settings_def)

lemma gate_ok_in_flight [simp]: "gate_ok (g\<lparr>ag_in_flight := n\<rparr>) = gate_ok g"
  by (simp add: gate_ok_def)

lemma wake_counts:
  "phase_count is_parked (map wake ts) = 0"
  "phase_count (\<lambda>p. p = InFlight) (map wake ts) = phase_count (\<lambda>p. p = InFlight) ts"
proof -
  have "is_parked (wake p) = False" and "(wake p = InFlight) = (p = InFlight)" for p by (cases p; simp)+
  then show "phase_count is_parked (map wake ts) = 0"
    "phase_count (\<lambda>p. p = InFlight) (map wake ts) = phase_count (\<lambda>p. p = InFlight) ts"
    by (simp_all add: phase_count_def filter_map o_def)
qed

text \<open>How the three counts change when caller \<open>i\<close> moves on.\<close>

lemma call_moves:
  assumes "i < length ts"
  shows "int (phase_count is_parked (ts[i := p])) = int (phase_count is_parked ts) + of_bool (is_parked p) - of_bool (is_parked (ts ! i))"
    "int (phase_count is_awake (ts[i := p])) = int (phase_count is_awake ts) + of_bool (is_awake p) - of_bool (is_awake (ts ! i))"
    "int (phase_count (\<lambda>q. q = InFlight) (ts[i := p])) =
       int (phase_count (\<lambda>q. q = InFlight) ts) + of_bool (p = InFlight) - of_bool (ts ! i = InFlight)"
  using phase_count_update[OF assms, of is_parked p] phase_count_update[OF assms, of is_awake p]
    phase_count_update[OF assms, of "\<lambda>q. q = InFlight" p] by (auto simp: of_bool_def split: if_splits)

lemma call_inv_I:
  assumes "gate_ok g" "same_settings g0 g" "ag_in_flight g \<le> ag_max_capacity g"
    "ag_in_flight g = int (phase_count (\<lambda>p. p = InFlight) ts)"
    "int (phase_count is_parked ts) = 0 \<or> ag_capacity g - ag_in_flight g \<le> int (phase_count is_awake ts)"
  shows "call_inv g0 (g, ts)"
  using assms by (simp add: call_inv_def no_lost_wakeup_def)

lemma call_inv_D:
  assumes "call_inv g0 (g, ts)"
  shows "gate_ok g" "same_settings g0 g" "ag_in_flight g \<le> ag_max_capacity g"
    "ag_in_flight g = int (phase_count (\<lambda>p. p = InFlight) ts)"
    "int (phase_count is_parked ts) = 0 \<or> ag_capacity g - ag_in_flight g \<le> int (phase_count is_awake ts)"
  using assms by (auto simp: call_inv_def no_lost_wakeup_def)

lemma inv_admit:
  assumes inv: "call_inv g0 (g, ts)" and i: "i < length ts" "ts ! i = Awake d" and "try_acquire g d now = Admitted g'"
  shows "call_inv g0 (g', ts[i := InFlight])"
proof -
  from assms(4) have g': "ag_in_flight g < ag_capacity g" "g' = g\<lparr>ag_in_flight := ag_in_flight g + 1\<rparr>"
    by (auto simp: try_acquire_def Let_def split: if_splits)
  from call_inv_D[OF inv] g' call_moves[OF i(1), of InFlight] i(2) show ?thesis
    by (intro call_inv_I) (auto simp: gate_ok_def)
qed

lemma inv_wait:
  assumes inv: "call_inv g0 (g, ts)" and i: "i < length ts" "ts ! i = Awake d" and full: "ag_capacity g \<le> ag_in_flight g"
    and p: "p = Parked d \<or> p = Busy"
  shows "call_inv g0 (g, ts[i := p])"
  using call_inv_D[OF inv] call_moves[OF i(1), of p] i(2) p full by (intro call_inv_I) auto

lemma inv_timeout:
  assumes inv: "call_inv g0 (g, ts)" and i: "i < length ts" "ts ! i = Parked d"
  shows "call_inv g0 (g, ts[i := Awake d])"
  using call_inv_D[OF inv] call_moves[OF i(1), of "Awake d"] i(2) by (intro call_inv_I) auto

lemma inv_finish_notify:
  assumes inv: "call_inv g0 (g, ts)" and i: "i < length ts" "ts ! i = InFlight" and j: "j < length ts" "ts ! j = Parked d"
  shows "call_inv g0 (release_aoai g, ts[i := Ended, j := Awake d])"
proof -
  let ?us = "ts[i := Ended]"
  have ij: "?us ! j = Parked d" "j < length ?us" using i j by (auto simp: nth_list_update)
  have "int (phase_count is_parked ts) \<noteq> 0" using phase_count_pos[of j ts is_parked] j by simp
  with call_inv_D[OF inv] call_moves[OF i(1), of Ended] call_moves[OF ij(2), of "Awake d"] i(2) ij(1) show ?thesis
    by (intro call_inv_I) (auto simp: release_aoai_def)
qed

lemma inv_finish:
  assumes inv: "call_inv g0 (g, ts)" and i: "i < length ts" "ts ! i = InFlight" and "phase_count is_parked ts = 0"
  shows "call_inv g0 (release_aoai g, ts[i := Ended])"
  using call_inv_D[OF inv] call_moves[OF i(1), of Ended] i(2) assms(4)
  by (intro call_inv_I) (auto simp: release_aoai_def)

lemma inv_shrink: "call_inv g0 (g, ts) \<Longrightarrow> call_inv g0 (shrink g, ts)"
  using call_inv_D[of g0 g ts] shrink_facts[of g] same_settings_trans[of g0 g "shrink g"]
  by (intro call_inv_I) (auto simp: same_settings_def)

lemma inv_healthy:
  assumes inv: "call_inv g0 (g, ts)" and h: "record_healthy g = (g', b)"
  shows "call_inv g0 (g', if b then map wake ts else ts)"
proof -
  note f = record_healthy_facts[OF h] and d = call_inv_D[OF inv]
  have "same_settings g0 g'" using same_settings_trans[OF d(2) f(1)] .
  moreover have "ag_in_flight g' \<le> ag_max_capacity g'" using f(1,2) d(3) by (simp add: same_settings_def)
  ultimately show ?thesis using f d by (cases b) (auto intro!: call_inv_I simp: wake_counts)
qed

lemma call_inv_step:
  assumes "call_inv g0 s" and "call_step s s'"
  shows "call_inv g0 s'"
  using assms(2,1)
proof (induction rule: call_step.induct)
  case (call g ts w now)
  then show ?case using call_inv_D[of g0 g ts] by (intro call_inv_I) auto
next
  case (park i ts d g now r)
  then show ?case by (intro inv_wait) (auto simp: try_acquire_def Let_def split: if_splits)
next
  case (busy i ts d g now)
  then show ?case by (intro inv_wait) (auto simp: try_acquire_def Let_def split: if_splits)
next
  case (headers hs g g' notified ts)
  then show ?case
    using inv_shrink[of g0 g ts] inv_healthy[of g0 g ts]
    by (auto simp: observe_rate_limit_headers_def res_simps split: if_splits)
qed (simp_all add: inv_admit inv_timeout inv_finish_notify inv_finish inv_shrink observe_rate_limited_response_def)

definition aoai_start :: "AOAIConcurrencyGate \<Rightarrow> AOAIConcurrencyGate \<times> call_phase list \<Rightarrow> bool" where
  "aoai_start g s \<longleftrightarrow> s = (g, []) \<and> gate_ok g \<and> ag_in_flight g = 0"

interpretation aoai: transition_system "aoai_start g" call_step "call_inv g" for g
proof unfold_locales
  show "call_inv g s" if "aoai_start g s" for s
    using that by (auto simp: aoai_start_def same_settings_def gate_ok_def intro!: call_inv_I)
qed (rule call_inv_step)

text \<open>C37. In every interleaving of provider calls, releases, time-outs and rate-limit signals, no
  more calls are in flight than the configured maximum, the capacity stays between its bounds, and
  no caller is left asleep next to a free place.\<close>

theorem provider_gate_safe:
  assumes "new_aoai_gate i lo hi w n = Inr g0" and "call_step\<^sup>*\<^sup>* (g0, []) (g, ts)"
  shows "int (phase_count (\<lambda>p. p = InFlight) ts) \<le> hi \<and> lo \<le> ag_capacity g \<and> ag_capacity g \<le> hi
    \<and> (phase_count is_parked ts \<noteq> 0 \<longrightarrow> ag_capacity g - int (phase_count (\<lambda>p. p = InFlight) ts) \<le> int (phase_count is_awake ts))"
proof -
  have "call_inv g0 (g, ts)"
    using aoai.inv_reachable[OF assms(2)] new_aoai_gate_ok[OF assms(1)] by (simp add: aoai_start_def)
  from call_inv_D[OF this] assms(1) show ?thesis
    by (auto simp: gate_ok_def same_settings_def new_aoai_gate_def split: if_splits)
qed

theorem provider_gate_safe_witness:
  "\<exists>g0 g. new_aoai_gate 1 1 8 (Fin 300) 10 = Inr g0 \<and> call_step\<^sup>*\<^sup>* (g0, []) (g, [InFlight, Parked (Fin 300)])
     \<and> ag_capacity g - int (phase_count (\<lambda>p. p = InFlight) [InFlight, Parked (Fin 300)])
         \<le> int (phase_count is_awake [InFlight, Parked (Fin 300)])"
proof -
  define g0 where "g0 = \<lparr>ag_min_capacity = 1, ag_max_capacity = 8, ag_max_wait_seconds = Fin 300,
      ag_healthy_to_grow = 10, ag_capacity = 1, ag_in_flight = 0, ag_healthy_streak = 0\<rparr>"
  define g1 where "g1 = g0\<lparr>ag_in_flight := 1\<rparr>"
  have w: "wait_deadline g None 0 = Fin 300" if "g \<in> {g0, g1}" for g
    using that by (auto simp: wait_deadline_def g0_def g1_def)
  have a: "call_step (g0, []) (g0, [Awake (Fin 300)])" using call_step.call[of g0 "[]" None 0] w by simp
  have b: "call_step (g0, [Awake (Fin 300)]) (g1, [InFlight])"
    using call_step.admit[of 0 "[Awake (Fin 300)]" "Fin 300" g0 0 g1] by (simp add: try_acquire_def g0_def g1_def)
  have c: "call_step (g1, [InFlight]) (g1, [InFlight, Awake (Fin 300)])"
    using call_step.call[of g1 "[InFlight]" None 0] w by simp
  have d: "call_step (g1, [InFlight, Awake (Fin 300)]) (g1, [InFlight, Parked (Fin 300)])"
    using call_step.park[of 1 "[InFlight, Awake (Fin 300)]" "Fin 300" g1 0 "Fin 300"]
    by (simp add: try_acquire_def g0_def g1_def)
  have run: "call_step\<^sup>*\<^sup>* (g0, []) (g1, [InFlight, Parked (Fin 300)])"
    using a b c d by (meson converse_rtranclp_into_rtranclp rtranclp.rtrancl_refl)
  have new: "new_aoai_gate 1 1 8 (Fin 300) 10 = Inr g0" by (simp add: new_aoai_gate_def clamp_def g0_def)
  have "phase_count is_parked [InFlight, Parked (Fin 300)] \<noteq> 0" by (simp add: phase_count_def)
  with provider_gate_safe[OF new run] new run show ?thesis by blast
qed

section \<open>Slow growth\<close>

definition healthy_times :: "nat \<Rightarrow> AOAIConcurrencyGate \<Rightarrow> AOAIConcurrencyGate" where
  "healthy_times k g = ((\<lambda>h. fst (record_healthy h)) ^^ k) g"

lemma healthy_streak_counts:
  assumes "ag_capacity g < ag_max_capacity g" and "ag_healthy_streak g = 0" and "int k < ag_healthy_to_grow g"
  shows "healthy_times k g = g\<lparr>ag_healthy_streak := int k\<rparr>"
  using assms(3)
proof (induction k)
  case 0
  then show ?case using assms(2) by (simp add: healthy_times_def)
next
  case (Suc k)
  then have "healthy_times k g = g\<lparr>ag_healthy_streak := int k\<rparr>" by simp
  then have "healthy_times (Suc k) g = fst (record_healthy (g\<lparr>ag_healthy_streak := int k\<rparr>))"
    by (simp add: healthy_times_def)
  then show ?case using Suc.prems assms(1) by (simp add: record_healthy_def Let_def)
qed

text \<open>After a rate limit, capacity comes back one place at a time and only after the configured
  number of healthy responses in a row: fewer leave it where it is, that many add exactly one.\<close>

theorem slow_growth:
  assumes "gate_ok g" and "g' = observe_rate_limited_response g" and "ag_capacity g' < ag_max_capacity g'"
    and "1 \<le> ag_healthy_to_grow g" and "int k \<le> ag_healthy_to_grow g"
  shows "ag_capacity (healthy_times k g') = ag_capacity g' + (if int k = ag_healthy_to_grow g then 1 else 0)"
proof -
  have s: "ag_healthy_streak g' = 0" "ag_healthy_to_grow g' = ag_healthy_to_grow g"
    using shrink_facts[of g] assms(2) by (auto simp: observe_rate_limited_response_def same_settings_def)
  show ?thesis
  proof (cases "int k = ag_healthy_to_grow g")
    case False
    with healthy_streak_counts[OF assms(3) s(1), of k] s assms(5) show ?thesis by simp
  next
    case True
    then obtain j where j: "k = Suc j" using assms(4) by (cases k) auto
    with True s healthy_streak_counts[OF assms(3) s(1), of j]
    have "healthy_times k g' = fst (record_healthy (g'\<lparr>ag_healthy_streak := int j\<rparr>))"
      by (simp add: healthy_times_def)
    with True j s assms(3) show ?thesis by (simp add: record_healthy_def Let_def)
  qed
qed

theorem slow_growth_witness:
  "\<exists>g. gate_ok g \<and> ag_capacity (healthy_times 9 (observe_rate_limited_response g)) = 3
     \<and> ag_capacity (healthy_times 10 (observe_rate_limited_response g)) = 4"
proof -
  define g where "g = \<lparr>ag_min_capacity = 1, ag_max_capacity = 8, ag_max_wait_seconds = Fin 300,
      ag_healthy_to_grow = 10, ag_capacity = 4, ag_in_flight = 2, ag_healthy_streak = 7\<rparr>"
  have ok: "gate_ok g" by (simp add: g_def gate_ok_def)
  have c: "ag_capacity (observe_rate_limited_response g) = 3" "ag_max_capacity (observe_rate_limited_response g) = 8"
    "ag_healthy_to_grow g = 10" by (simp_all add: g_def observe_rate_limited_response_def shrink_def Let_def)
  from slow_growth[OF ok refl, of 9] slow_growth[OF ok refl, of 10] ok c show ?thesis
    by (intro exI[of _ g]) simp
qed

section \<open>Odd inputs\<close>

text \<open>A header whose text is an infinity escapes the parser's handlers, and a setting that spells NaN
  is taken as the wait budget, with which a caller is never refused.\<close>

lemma header_inf_raises:
  "observe_rate_limit_headers [(''x-ratelimit-remaining-requests'', ''inf'')] g = Inl OverflowError"
proof -
  have "is_near_exhaustion [(''x-ratelimit-remaining-requests'', ''inf'')] = Inl OverflowError" by code_simp
  then show ?thesis by (simp add: observe_rate_limit_headers_def)
qed

lemma nan_budget_accepted: "max_wait_seconds_from_env [(''AI_AOAI_GATE_MAX_WAIT_SECONDS'', ''nan'')] = NaN"
  by code_simp

lemma nan_budget_never_busy: "try_acquire g (wait_deadline g (Some NaN) t) now \<noteq> GateBusy"
  by (simp add: try_acquire_def wait_deadline_def Let_def)

end
