(* ===== verification/Ai_Schemas.thy ===== *)
theory Ai_Schemas
  imports Py_Text
begin

text \<open>
  The part of \<^verbatim>\<open>ai_graph/schemas.py\<close> the job layer works with: stages, statuses, the typed failure
  diagnostic with its closed vocabularies, and the public result envelope with its terminal
  contract.  Fields of the envelope that the job layer neither reads nor writes are left out, and
  documents it only passes on are values of \<open>pyval\<close>, the JSON-like data of Python.
\<close>

text \<open>Instants of \<open>datetime\<close> in microseconds.\<close>

type_synonym instant = int

section \<open>Stages and statuses\<close>

datatype Stage = INTERPRETING | CODE_GENERATION | BACKTEST | DEBATE | FINALIZING

definition stage_order :: "Stage list" where
  "stage_order = [INTERPRETING, CODE_GENERATION, BACKTEST, DEBATE, FINALIZING]"

fun stage_value :: "Stage \<Rightarrow> string" where
  "stage_value INTERPRETING = ''interpreting''"
| "stage_value CODE_GENERATION = ''code_generation''"
| "stage_value BACKTEST = ''backtest''"
| "stage_value DEBATE = ''debate''"
| "stage_value FINALIZING = ''finalizing''"

text \<open>\<open>Stage(text)\<close>.\<close>

definition stage_of :: "string \<Rightarrow> Stage res" where
  "stage_of s = (case find (\<lambda>st. stage_value st = s) stage_order of
     Some st \<Rightarrow> Inr st | None \<Rightarrow> Inl (ValueError ''not a valid Stage''))"

fun stage_index :: "Stage \<Rightarrow> nat" where
  "stage_index INTERPRETING = 0"
| "stage_index CODE_GENERATION = 1"
| "stage_index BACKTEST = 2"
| "stage_index DEBATE = 3"
| "stage_index FINALIZING = 4"

datatype EnvelopeStatus = READY | NEED_CLARIFICATION | REJECTED | FAILED_ENVELOPE

datatype StageStatus = STAGE_QUEUED | STAGE_RUNNING | STAGE_SUCCEEDED | STAGE_FAILED

section \<open>Failure diagnostics\<close>

definition FailureCategory :: "string list" where
  "FailureCategory = [''infrastructure_failure'', ''semantic_failure'', ''data_gap'', ''clarification_failure'',
     ''ui_failure'', ''debug_failure'', ''cancelled'', ''unknown_failure'']"

definition FailureSubcause :: "string list" where
  "FailureSubcause = [''db_connection_unavailable'', ''db_connect_timeout'', ''db_statement_timeout'',
     ''db_lock_capacity_exhausted'', ''semantic_drift'', ''missing_data_policy_gap'', ''clarification_quality_gap'',
     ''ui_state_stale'', ''contract_shape_error'', ''debug_unavailable'', ''krx_api_error'', ''dart_api_error'',
     ''websearch_unavailable'', ''source_mapping_gap'', ''disclosure_mapping_gap'', ''freshness_gap'',
     ''external_source_rate_limited'', ''aoai_capacity_exhausted'', ''aoai_response_timeout'',
     ''aoai_connection_error'', ''aoai_response_invalid_json'', ''aoai_http_4xx'', ''aoai_http_5xx'',
     ''aoai_http_error'', ''aoai_web_search_unsupported'', ''aoai_model_unsupported'',
     ''strategy_research_provider_failure'', ''strategy_research_contract_invalid'', ''parser_low_confidence'',
     ''source_conflict'', ''data_required'', ''exploration_policy_unavailable'', ''exploration_policy_stale'',
     ''fixture_mode_forbidden_in_release'', ''no_screening_matches'', ''no_price_rows'', ''empty_analysis_result'',
     ''user_cancelled'', ''job_deadline_exceeded'', ''outside_owner'', ''product_data_gap'', ''unknown'']"

definition failure_owners :: "string list" where
  "failure_owners = [''ai_graph'', ''data_source_config'', ''fe_state'', ''outside_owner'', ''product_data_gap'',
     ''user'', ''unknown'']"

record FailureDiagnostic =
  fd_category :: string
  fd_subcause :: string
  fd_failure_stage :: Stage
  fd_owner :: string
  fd_retryable :: bool
  fd_safe_message :: string
  fd_evidence_refs :: "string list"

text \<open>Construction validates the closed vocabularies.\<close>

definition diagnostic_ok :: "FailureDiagnostic \<Rightarrow> bool" where
  "diagnostic_ok d \<longleftrightarrow> fd_category d \<in> set FailureCategory \<and> fd_subcause d \<in> set FailureSubcause
     \<and> fd_owner d \<in> set failure_owners \<and> fd_safe_message d \<noteq> []"

definition new_diagnostic :: "string \<Rightarrow> string \<Rightarrow> Stage \<Rightarrow> string \<Rightarrow> bool \<Rightarrow> string \<Rightarrow> string list \<Rightarrow> FailureDiagnostic res" where
  "new_diagnostic category subcause stage owner retryable message refs =
     (let d = \<lparr>fd_category = category, fd_subcause = subcause, fd_failure_stage = stage, fd_owner = owner,
               fd_retryable = retryable, fd_safe_message = message, fd_evidence_refs = refs\<rparr>
      in if diagnostic_ok d then Inr d else Inl (ValueError ''FailureDiagnostic''))"

section \<open>The result envelope\<close>

datatype PublicPerformance = PerformanceAvailable (method_manifest: pyval) (benchmark_method: pyval) | PerformanceUnavailable

record UserPayload =
  up_headline :: string
  up_message :: string
  up_next_actions :: "string list"
  up_report :: "pyval option"
  up_performance :: "PublicPerformance option"

record EnvelopeStrategySpec =
  ss_strategy_id :: string
  ss_dump :: pyval

record APIEnvelope =
  ev_status :: EnvelopeStatus
  ev_trace_id :: string
  ev_user_payload :: UserPayload
  ev_strategy_spec :: "EnvelopeStrategySpec option"
  ev_debug_ref :: string
  ev_retryable :: bool
  ev_failure_cause :: "FailureDiagnostic option"

text \<open>\<open>validate_public_terminal_contract\<close> and the length constraints: a failed envelope has a typed
  cause, no other one has.\<close>

definition terminal_contract :: "APIEnvelope \<Rightarrow> bool" where
  "terminal_contract e \<longleftrightarrow> (ev_failure_cause e \<noteq> None \<longleftrightarrow> ev_status e = FAILED_ENVELOPE)"

definition new_envelope :: "APIEnvelope \<Rightarrow> APIEnvelope res" where
  "new_envelope e =
     (if ev_trace_id e = [] \<or> ev_debug_ref e = [] \<or> up_headline (ev_user_payload e) = [] \<or> up_message (ev_user_payload e) = []
      then Inl (ValueError ''APIEnvelope'')
      else if ev_failure_cause e \<noteq> None \<and> ev_status e \<noteq> FAILED_ENVELOPE
      then Inl (ValueError ''only failed envelopes may expose a failure cause'')
      else if ev_status e = FAILED_ENVELOPE \<and> ev_failure_cause e = None
      then Inl (ValueError ''failed envelopes require a typed failure cause'')
      else Inr e)"

lemma stage_order_index: "i < 5 \<Longrightarrow> stage_index (stage_order ! i) = i" "stage_order ! stage_index st = st"
  "length stage_order = 5" "stage_index st < 5"
proof -
  show "stage_index (stage_order ! i) = i" if "i < 5"
  proof -
    from that have "i \<in> {0, 1, 2, 3, 4}" by auto
    then show ?thesis by (auto simp: stage_order_def)
  qed
  show "stage_order ! stage_index st = st" "stage_index st < 5" by (cases st; simp add: stage_order_def)+
  show "length stage_order = 5" by (simp add: stage_order_def)
qed

lemma stage_of_value [simp]: "stage_of (stage_value st) = Inr st"
  by (cases st) (simp_all add: stage_of_def stage_order_def)

lemma new_diagnostic_Inr:
  "new_diagnostic c s st ow r m refs = Inr d \<Longrightarrow> diagnostic_ok d \<and> fd_failure_stage d = st \<and> fd_safe_message d = m
     \<and> fd_subcause d = s \<and> fd_evidence_refs d = refs \<and> fd_category d = c \<and> fd_retryable d = r"
  by (auto simp: new_diagnostic_def Let_def split: if_splits)

lemma new_envelope_Inr: "new_envelope e = Inr e' \<longleftrightarrow> e' = e \<and> terminal_contract e \<and> ev_trace_id e \<noteq> [] \<and> ev_debug_ref e \<noteq> []
     \<and> up_headline (ev_user_payload e) \<noteq> [] \<and> up_message (ev_user_payload e) \<noteq> []"
  by (auto simp: new_envelope_def terminal_contract_def split: if_splits)

end
