(* ===== verification/Ai_Manifest.thy ===== *)
theory Ai_Manifest
  imports Ai_Schemas
begin

text \<open>
  The execution manifest of \<^verbatim>\<open>ai_graph/jobs.py\<close>: the versioned ledger that is kept with every job,
  its session times, and how the engine's storage ledger is copied into it when a job completes.
  What the functions take from outside the module is collected in \<open>Services\<close>: the digest of a JSON
  document, the texts of instants and of values that are not plain text, the ledger that the debug
  store keeps under a reference, and the identifier derived from a request.
\<close>

record Services =
  sv_stable_hash :: "pyval \<Rightarrow> string"
  sv_fromisoformat :: "string \<Rightarrow> instant option"
  sv_str :: "pyval \<Rightarrow> string"
  sv_storage_ledger :: "string \<Rightarrow> (string, pyval) dict option"
  sv_trace_id :: "string \<Rightarrow> instant \<Rightarrow> string"

section \<open>Records\<close>

datatype AnalysisJobStatus = QUEUED | RUNNING | COMPLETED | FAILED

record ExecutionRunIdentity =
  ri_job_id :: string
  ri_trace_id :: string
  ri_strategy_id :: "string option"
  ri_run_id :: "string option"

record ExecutionSession =
  xs_requested_at :: instant
  xs_started_at :: "instant option"
  xs_ended_at :: "instant option"

record ExecutionCapabilities =
  xc_terminal_event_documents :: bool
  xc_corporate_action_events :: bool

record ExecutionEvent =
  xe_event_id :: string
  xe_occurred_at :: instant
  xe_requested_qty :: pyfloat
  xe_filled_qty :: pyfloat
  xe_reason :: string
  xe_component_costs :: "(string, pyfloat) dict"
  xe_document :: "(string, pyval) dict"

record ExecutionEvents =
  xv_signals :: "ExecutionEvent list"
  xv_orders :: "ExecutionEvent list"
  xv_fills :: "ExecutionEvent list"
  xv_positions :: "ExecutionEvent list"
  xv_trades :: "ExecutionEvent list"
  xv_equity :: "ExecutionEvent list"

record ExecutionManifest =
  em_contract_hash :: string
  em_run_identity :: ExecutionRunIdentity
  em_policy_hashes :: "(string, string) dict"
  em_session :: ExecutionSession
  em_capabilities :: ExecutionCapabilities
  em_events :: ExecutionEvents
  em_ledger_event_count :: int
  em_ledger_event_hash :: string

definition MANIFEST_CONTRACT_HASH :: string where
  "MANIFEST_CONTRACT_HASH = ''3bb9a4727895b08f6d7a396e9179c2f7263bbea5d7a1d5130c7a079b9e808e0f''"

definition no_events :: ExecutionEvents where
  "no_events = \<lparr>xv_signals = [], xv_orders = [], xv_fills = [], xv_positions = [], xv_trades = [], xv_equity = []\<rparr>"

section \<open>Documents\<close>

definition nonnegative_float :: "pyval \<Rightarrow> pyfloat" where
  "nonnegative_float v =
     (case pv_float (if pv_truthy v then v else PInt 0) of Some x \<Rightarrow> py_max (Fin 0) x | None \<Rightarrow> Fin 0)"

definition scalar_document_value :: "(pyval \<Rightarrow> string) \<Rightarrow> pyval \<Rightarrow> pyval" where
  "scalar_document_value f v = (case v of PList xs \<Rightarrow> PStr (f v) | PDict d \<Rightarrow> PStr (f v) | PDateTime t \<Rightarrow> PStr (f v) | _ \<Rightarrow> v)"

definition document_keys :: "string list" where
  "document_keys = [''date'', ''exit_date'', ''signal_date'', ''ticker'', ''side'', ''status'', ''reason'', ''price'',
     ''quantity'', ''fill_quantity'', ''requested_quantity'', ''filled_quantity'', ''fill_rate'', ''notional'', ''cost'',
     ''cost_policy_id'', ''commission_cost'', ''tax_cost'', ''slippage_cost'', ''cash'', ''positions_value'',
     ''total_equity'', ''daily_return'', ''cumulative_return'', ''gross_pnl'', ''net_pnl'', ''return_pct'',
     ''entry_cost'', ''exit_cost'']"

definition safe_document :: "(pyval \<Rightarrow> string) \<Rightarrow> (string, pyval) dict \<Rightarrow> (string, pyval) dict" where
  "safe_document f d = [(k, scalar_document_value f v). (k, v) \<leftarrow> d, k \<in> set document_keys, scalar_document_value f v \<noteq> PNone]"

definition event_timestamp :: "Services \<Rightarrow> pyval \<Rightarrow> instant \<Rightarrow> instant" where
  "event_timestamp sv v t =
     (case v of PDateTime d \<Rightarrow> d
      | PStr s \<Rightarrow> (case sv_fromisoformat sv s of Some d \<Rightarrow> d | None \<Rightarrow> t)
      | _ \<Rightarrow> t)"

section \<open>Ledger records\<close>

definition ledger_records :: "(string, pyval) dict \<Rightarrow> string \<Rightarrow> (string, pyval) dict list" where
  "ledger_records ledger name =
     (case pget_or ledger name (PList []) of PList xs \<Rightarrow> [d. PDict d \<leftarrow> xs] | _ \<Rightarrow> [])"

definition first_truthy :: "pyval \<Rightarrow> pyval \<Rightarrow> pyval" where
  "first_truthy a b = (if pv_truthy a then a else b)"

definition audit_execution_event :: "Services \<Rightarrow> (string, pyval) dict \<Rightarrow> string \<Rightarrow> instant \<Rightarrow> ExecutionEvent res" where
  "audit_execution_event sv event event_id occurred_at =
     (let requested = nonnegative_float (pget_or event ''requested_quantity'' (pget event ''quantity''));
          filled = nonnegative_float (pget event ''filled_quantity'');
          filled = (if pv_str (sv_str sv) (pget event ''status'') = ''executed'' \<and> filled = Fin 0 then requested else filled);
          costs = [(name, nonnegative_float (pget event name)).
                     name \<leftarrow> [''commission_cost'', ''tax_cost'', ''slippage_cost''], pget event name \<noteq> PNone];
          reason = pv_str (sv_str sv) (first_truthy (pget event ''reason'')
                     (first_truthy (pget event ''status'') (PStr ''engine_execution'')))
      in if reason = [] then Inl (ValueError ''ExecutionEvent.reason'')
         else Inr \<lparr>xe_event_id = event_id, xe_occurred_at = occurred_at, xe_requested_qty = requested,
                   xe_filled_qty = filled, xe_reason = reason, xe_component_costs = costs,
                   xe_document = safe_document (sv_str sv) event\<rparr>)"

definition mapped_events :: "Services \<Rightarrow> (string, pyval) dict \<Rightarrow> instant \<Rightarrow> string \<Rightarrow> string \<Rightarrow> ExecutionEvent list res" where
  "mapped_events sv ledger occurred_at name prefix =
     rmap (\<lambda>(index, event). audit_execution_event sv event (prefix @ '':'' @ show_nat index)
             (event_timestamp sv (pget_or event ''exit_date'' (pget event ''date'')) occurred_at))
       (enumerate 0 (ledger_records ledger name))"

text \<open>Signals are counted and hashed but not copied.\<close>

definition events_from_storage_ledger :: "Services \<Rightarrow> (string, pyval) dict \<Rightarrow> instant \<Rightarrow> ExecutionEvents res" where
  "events_from_storage_ledger sv ledger occurred_at =
     rbind (mapped_events sv ledger occurred_at ''order_audit'' ''order'') (\<lambda>orders.
     rbind (mapped_events sv ledger occurred_at ''fills'' ''fill'') (\<lambda>fills.
     rbind (mapped_events sv ledger occurred_at ''positions'' ''position'') (\<lambda>positions.
     rbind (mapped_events sv ledger occurred_at ''trades'' ''trade'') (\<lambda>trades.
     rbind (mapped_events sv ledger occurred_at ''equity'' ''equity'') (\<lambda>equity.
     Inr \<lparr>xv_signals = [], xv_orders = orders, xv_fills = fills, xv_positions = positions,
          xv_trades = trades, xv_equity = equity\<rparr>)))))"

definition event_count :: "ExecutionEvents \<Rightarrow> nat" where
  "event_count ev = length (xv_signals ev) + length (xv_orders ev) + length (xv_fills ev) + length (xv_positions ev)
     + length (xv_trades ev) + length (xv_equity ev)"

definition ledger_sections :: "string list" where
  "ledger_sections = [''signals'', ''order_audit'', ''fills'', ''positions'', ''trades'', ''equity'']"

definition ledger_source :: "(string, pyval) dict \<Rightarrow> pyval" where
  "ledger_source ledger = PDict [(k, pget_or ledger k (PList [])). k \<leftarrow> ledger_sections]"

text \<open>\<open>for event in audit_events: event.get(...)\<close>: the items must be mappings.\<close>

fun audit_mappings :: "pyval \<Rightarrow> (string, pyval) dict list res" where
  "audit_mappings (PList xs) =
     rmap (\<lambda>x. case x of PDict d \<Rightarrow> Inr d | _ \<Rightarrow> Inl (AttributeError ''get'')) xs"
| "audit_mappings (PDict d) = (if d = [] then Inr [] else Inl (AttributeError ''get''))"
| "audit_mappings (PStr s) = (if s = [] then Inr [] else Inl (AttributeError ''get''))"
| "audit_mappings _ = Inl (TypeError ''object is not iterable'')"

definition policy_hashes :: "Services \<Rightarrow> APIEnvelope \<Rightarrow> (string, pyval) dict \<Rightarrow> pyval \<Rightarrow> string option \<Rightarrow> (string, string) dict res" where
  "policy_hashes sv envelope engine_summary audit_events strategy_id =
     rbind (audit_mappings audit_events) (\<lambda>audits.
       let h = sv_stable_hash sv;
           performance = up_performance (ev_user_payload envelope);
           strategy = (case ev_strategy_spec envelope of Some s \<Rightarrow> ss_dump s
             | None \<Rightarrow> PDict [(''strategy_id'', (case strategy_id of None \<Rightarrow> PNone | Some i \<Rightarrow> PStr i))]);
           manifest = (case performance of Some (PerformanceAvailable m b) \<Rightarrow> m | _ \<Rightarrow> PNone);
           benchmark = (case performance of Some (PerformanceAvailable m b) \<Rightarrow> b | _ \<Rightarrow> PNone);
           policy_ids = sort [pv_str (sv_str sv) (pget e ''cost_policy_id''). e \<leftarrow> audits, pv_truthy (pget e ''cost_policy_id'')];
           components = [PDict (safe_document (sv_str sv) e). e \<leftarrow> audits, pget e ''cost'' \<noteq> PNone]
       in Inr [(''execution_contract'', MANIFEST_CONTRACT_HASH),
               (''strategy'', h strategy),
               (''data'', h (PDict [(''method_manifest'', manifest)])),
               (''cost'', h (PDict [(''cost_policy_ids'', PList (map PStr policy_ids)), (''cost_components'', PList components)])),
               (''sizing'', h (pget_or engine_summary ''ai_backtest_context'' (PDict []))),
               (''benchmark'', h (PDict [(''benchmark_method'', benchmark),
                                         (''provenance'', pget_or engine_summary ''benchmark_provenance'' (PDict []))]))])"

section \<open>Manifest updates\<close>

definition manifest_with_session_update ::
  "ExecutionManifest \<Rightarrow> AnalysisJobStatus \<Rightarrow> instant \<Rightarrow> string option \<Rightarrow> ExecutionManifest" where
  "manifest_with_session_update manifest status timestamp strategy_id =
     (let session = em_session manifest;
          session = (if status = RUNNING \<and> xs_started_at session = None then session\<lparr>xs_started_at := Some timestamp\<rparr>
                     else if status = COMPLETED \<or> status = FAILED then session\<lparr>xs_ended_at := Some timestamp\<rparr>
                     else session);
          identity = em_run_identity manifest;
          identity = (if strategy_id \<noteq> None \<and> ri_strategy_id identity \<noteq> strategy_id
                      then identity\<lparr>ri_strategy_id := strategy_id\<rparr> else identity)
      in manifest\<lparr>em_session := session, em_run_identity := identity\<rparr>)"

definition storage_ledger :: "Services \<Rightarrow> APIEnvelope \<Rightarrow> (string, pyval) dict option" where
  "storage_ledger sv envelope = sv_storage_ledger sv (ev_debug_ref envelope)"

definition manifest_from_completion ::
  "Services \<Rightarrow> ExecutionManifest \<Rightarrow> APIEnvelope \<Rightarrow> instant \<Rightarrow> string option \<Rightarrow> ExecutionManifest res" where
  "manifest_from_completion sv manifest envelope completed_at strategy_id =
     (let manifest = manifest_with_session_update manifest COMPLETED completed_at strategy_id in
      (case up_performance (ev_user_payload envelope) of
         Some (PerformanceAvailable mm bm) \<Rightarrow>
           (case storage_ledger sv envelope of None \<Rightarrow> Inr manifest
            | Some ledger \<Rightarrow>
                rbind (events_from_storage_ledger sv ledger completed_at) (\<lambda>events.
                rbind (pv_int (pget_or ledger ''source_event_count'' (PInt (-1)))) (\<lambda>source_count.
                let source_hash = pv_str (sv_str sv) (pget_or ledger ''source_event_hash'' (PStr []));
                    persisted_count = event_count events + length (ledger_records ledger ''signals'')
                in if source_count \<noteq> int persisted_count \<or> source_hash \<noteq> sv_stable_hash sv (ledger_source ledger)
                   then Inl (RuntimeError ''storage execution ledger count/hash reconciliation failed.'')
                   else rbind (policy_hashes sv envelope [] (pget_or ledger ''order_audit'' (PList []))
                                 (ri_strategy_id (em_run_identity manifest))) (\<lambda>hashes.
                     Inr (manifest\<lparr>em_events := events, em_ledger_event_count := source_count,
                                   em_ledger_event_hash := source_hash, em_policy_hashes := hashes\<rparr>)))))
       | _ \<Rightarrow> Inr manifest))"

section \<open>Reconciliation\<close>

lemma mapped_events_facts:
  assumes "mapped_events sv ledger t name prefix = Inr evs"
  shows "length evs = length (ledger_records ledger name)"
    and "ev \<in> set evs \<Longrightarrow> Fin 0 \<le> xe_requested_qty ev \<and> Fin 0 \<le> xe_filled_qty ev \<and> xe_reason ev \<noteq> []"
proof -
  have l: "list_all2 (\<lambda>p ev. audit_execution_event sv (snd p) (prefix @ '':'' @ show_nat (fst p))
      (event_timestamp sv (pget_or (snd p) ''exit_date'' (pget (snd p) ''date'')) t) = Inr ev)
      (enumerate 0 (ledger_records ledger name)) evs"
    using assms unfolding mapped_events_def rmap_eq_Inr by (simp add: case_prod_beta)
  from list_all2_lengthD[OF l] show "length evs = length (ledger_records ledger name)" by simp
  have nn: "Fin 0 \<le> nonnegative_float v" for v
  proof -
    have "Fin 0 \<le> py_max (Fin 0) x" for x by (cases x) (auto simp: py_max_def)
    then show ?thesis by (simp add: nonnegative_float_def split: option.split)
  qed
  show "Fin 0 \<le> xe_requested_qty ev \<and> Fin 0 \<le> xe_filled_qty ev \<and> xe_reason ev \<noteq> []" if "ev \<in> set evs"
  proof -
    from that obtain j where "j < length evs" "evs ! j = ev" by (auto simp: in_set_conv_nth)
    with list_all2_nthD2[OF l] obtain event i u where "audit_execution_event sv event i u = Inr ev" by blast
    then show ?thesis by (auto simp: audit_execution_event_def Let_def nn split: if_splits prod.splits)
  qed
qed

definition all_events :: "ExecutionEvents \<Rightarrow> ExecutionEvent list" where
  "all_events ev = xv_signals ev @ xv_orders ev @ xv_fills ev @ xv_positions ev @ xv_trades ev @ xv_equity ev"

definition ledger_record_count :: "(string, pyval) dict \<Rightarrow> nat" where
  "ledger_record_count ledger = (\<Sum>name\<leftarrow>ledger_sections. length (ledger_records ledger name))"

lemma events_from_storage_ledger_facts:
  assumes "events_from_storage_ledger sv ledger t = Inr evs"
  shows "event_count evs + length (ledger_records ledger ''signals'') = ledger_record_count ledger"
    and "ev \<in> set (all_events evs) \<Longrightarrow> Fin 0 \<le> xe_requested_qty ev \<and> Fin 0 \<le> xe_filled_qty ev \<and> xe_reason ev \<noteq> []"
    and "xv_signals evs = []"
proof -
  from assms obtain os fs ps ts es where parts:
    "mapped_events sv ledger t ''order_audit'' ''order'' = Inr os" "mapped_events sv ledger t ''fills'' ''fill'' = Inr fs"
    "mapped_events sv ledger t ''positions'' ''position'' = Inr ps" "mapped_events sv ledger t ''trades'' ''trade'' = Inr ts"
    "mapped_events sv ledger t ''equity'' ''equity'' = Inr es"
    and evs: "evs = \<lparr>xv_signals = [], xv_orders = os, xv_fills = fs, xv_positions = ps, xv_trades = ts, xv_equity = es\<rparr>"
    by (auto simp: events_from_storage_ledger_def res_simps)
  show "event_count evs + length (ledger_records ledger ''signals'') = ledger_record_count ledger"
    using parts[THEN mapped_events_facts(1)] by (simp add: evs event_count_def ledger_record_count_def ledger_sections_def)
  show "ev \<in> set (all_events evs) \<Longrightarrow> Fin 0 \<le> xe_requested_qty ev \<and> Fin 0 \<le> xe_filled_qty ev \<and> xe_reason ev \<noteq> []"
    using parts[THEN mapped_events_facts(2)] by (auto simp: evs all_events_def)
  show "xv_signals evs = []" by (simp add: evs)
qed

lemma session_update_keeps [simp]:
  "em_events (manifest_with_session_update m st t sid) = em_events m"
  "ri_job_id (em_run_identity (manifest_with_session_update m st t sid)) = ri_job_id (em_run_identity m)"
  "xs_requested_at (em_session (manifest_with_session_update m st t sid)) = xs_requested_at (em_session m)"
  by (simp_all add: manifest_with_session_update_def Let_def)

text \<open>A completed job whose performance is published carries a ledger that reconciles: the
  recorded count is the number of records of all six sections of the engine's ledger, the recorded
  digest is the digest of those sections, every copied event has nonnegative quantities and a
  reason, and the session is closed at the completion time.\<close>

theorem completed_ledger_reconciles:
  assumes "manifest_from_completion sv m e t sid = Inr m'"
    and "up_performance (ev_user_payload e) = Some (PerformanceAvailable mm bm)"
    and "storage_ledger sv e = Some ledger"
  shows "em_ledger_event_count m' = int (ledger_record_count ledger)
    \<and> em_ledger_event_hash m' = sv_stable_hash sv (ledger_source ledger)
    \<and> event_count (em_events m') + length (ledger_records ledger ''signals'') = ledger_record_count ledger
    \<and> (\<forall>ev \<in> set (all_events (em_events m')). Fin 0 \<le> xe_requested_qty ev \<and> Fin 0 \<le> xe_filled_qty ev \<and> xe_reason ev \<noteq> [])
    \<and> xs_ended_at (em_session m') = Some t"
proof -
  from assms obtain evs where evs: "events_from_storage_ledger sv ledger t = Inr evs"
    and m': "em_events m' = evs" "em_ledger_event_count m' = int (event_count evs + length (ledger_records ledger ''signals''))"
      "em_ledger_event_hash m' = sv_stable_hash sv (ledger_source ledger)"
      "em_session m' = em_session (manifest_with_session_update m COMPLETED t sid)"
    by (auto simp: manifest_from_completion_def Let_def res_simps split: if_splits)
  have "xs_ended_at (em_session m') = Some t"
    by (simp add: m' manifest_with_session_update_def Let_def)
  with m' events_from_storage_ledger_facts[OF evs] show ?thesis by simp
qed

definition demo_services :: Services where
  "demo_services = \<lparr>sv_stable_hash = (\<lambda>v. ''digest''), sv_fromisoformat = (\<lambda>s. None), sv_str = (\<lambda>v. ''value''),
     sv_storage_ledger = (\<lambda>ref. if ref = ''dbg'' then Some [(''fills'', PList [PDict [(''status'', PStr ''executed''), (''quantity'', PInt 3)]]),
        (''signals'', PList [PDict [], PDict []]), (''source_event_count'', PInt 3), (''source_event_hash'', PStr ''digest'')] else None),
     sv_trace_id = (\<lambda>q t. ''trace'')\<rparr>"

definition demo_manifest :: ExecutionManifest where
  "demo_manifest = \<lparr>em_contract_hash = MANIFEST_CONTRACT_HASH,
     em_run_identity = \<lparr>ri_job_id = ''job_1'', ri_trace_id = ''trace'', ri_strategy_id = None, ri_run_id = None\<rparr>,
     em_policy_hashes = [], em_session = \<lparr>xs_requested_at = 0, xs_started_at = Some 1, xs_ended_at = None\<rparr>,
     em_capabilities = \<lparr>xc_terminal_event_documents = False, xc_corporate_action_events = False\<rparr>,
     em_events = no_events, em_ledger_event_count = 0, em_ledger_event_hash = []\<rparr>"

definition demo_envelope :: APIEnvelope where
  "demo_envelope = \<lparr>ev_status = READY, ev_trace_id = ''trace'',
     ev_user_payload = \<lparr>up_headline = ''h'', up_message = ''m'', up_next_actions = [], up_report = None,
        up_performance = Some (PerformanceAvailable PNone PNone)\<rparr>,
     ev_strategy_spec = None, ev_debug_ref = ''dbg'', ev_retryable = False, ev_failure_cause = None\<rparr>"

theorem completed_ledger_reconciles_witness:
  "\<exists>m'. manifest_from_completion demo_services demo_manifest demo_envelope 9 None = Inr m'
     \<and> em_ledger_event_count m' = 3 \<and> em_ledger_event_hash m' = ''digest'' \<and> xs_ended_at (em_session m') = Some 9"
proof -
  have "(case manifest_from_completion demo_services demo_manifest demo_envelope 9 None of Inr m \<Rightarrow> True | Inl x \<Rightarrow> False)"
    by code_simp
  then obtain m' where m': "manifest_from_completion demo_services demo_manifest demo_envelope 9 None = Inr m'"
    by (auto split: sum.splits)
  have p: "up_performance (ev_user_payload demo_envelope) = Some (PerformanceAvailable PNone PNone)"
    by (simp add: demo_envelope_def)
  obtain ledger where l: "storage_ledger demo_services demo_envelope = Some ledger"
    by (simp add: storage_ledger_def demo_services_def demo_envelope_def)
  have "map_option ledger_record_count (storage_ledger demo_services demo_envelope) = Some 3" by code_simp
  with l completed_ledger_reconciles[OF m' p l] m' show ?thesis by (simp add: demo_services_def)
qed

end
