(* ===== verification/Ai_Failures.thy ===== *)
theory Ai_Failures
  imports Ai_Schemas
begin

text \<open>
  Failure classification of \<^verbatim>\<open>ai_graph/jobs.py\<close>: how an exception becomes the typed, public diagnostic
  of a failed job.  Exceptions are objects on a heap, because the explicit causes link them and
  the code guards against a cycle of causes by object identity.  An exception's kind keeps its
  class and the attributes the classifier reads; the class hierarchy is in the \<open>is_\<close> predicates.
  The user-facing texts are Korean in the source and stand here under an English gloss.
\<close>

section \<open>Exceptions\<close>

datatype exc_kind =
    EmptyAnalysisResultError
  | ExplorationPolicyUnavailableError (policy_code: string)
  | StrategyResearchError (cause_code: string)
  | AOAIGateBusyError
  | LLMTimeoutError
  | LLMConnectionError
  | LLMResponseParseError
  | LLMHTTPStatusError (status_code: int) (provider_failure_hint: "string option")
  | LLMProviderConfigError
  | LLMClientError
  | HttpxTimeoutException
  | HttpxHTTPStatusError (response_status: "int option")
  | HttpxTransportError
  | PipelineDataUnavailableError (gap_reason: string)
  | ValidationError
  | AnalysisDeadlineExceeded
  | AnalysisCancelled
  | OtherError (exc_module: string) (exc_name: string) (exc_sqlstate: "string option")

type_synonym exc_ref = nat
type_synonym exc_heap = "(exc_ref, exc_kind \<times> exc_ref option) dict"

text \<open>\<open>_exception_chain\<close>: follow \<open>__cause__\<close> until it ends or an exception comes back.\<close>

function exception_chain :: "exc_heap \<Rightarrow> exc_ref option \<Rightarrow> exc_ref list \<Rightarrow> exc_ref list" where
  "exception_chain h current seen =
     (case current of None \<Rightarrow> []
      | Some a \<Rightarrow> if a \<in> set seen then []
          else (case dget h a of None \<Rightarrow> []
            | Some (k, cause) \<Rightarrow> a # exception_chain h cause (a # seen)))"
  by pat_completeness auto

lemma fewer_unseen:
  assumes "a \<notin> set seen" and "dget h a = Some v"
  shows "length (filter (\<lambda>k. k \<notin> set (a # seen)) (dkeys h)) < length (filter (\<lambda>k. k \<notin> set seen) (dkeys h))"
proof -
  have "a \<in> set (dkeys h)" using assms(2) by (metis dget_eq_None_iff option.distinct(1))
  then have "filter (\<lambda>k. k \<notin> set seen) (dkeys h) \<noteq> [] \<and> a \<in> set (filter (\<lambda>k. k \<notin> set seen) (dkeys h))"
    using assms(1) by (auto simp: filter_empty_conv)
  then show ?thesis
    using length_filter_less[of a "filter (\<lambda>k. k \<notin> set seen) (dkeys h)" "\<lambda>k. k \<noteq> a"]
    by (simp add: conj_commute)
qed

termination exception_chain
  by (relation "measure (\<lambda>(h, current, seen). length (filter (\<lambda>k. k \<notin> set seen) (dkeys h)))")
     (auto simp only: in_measure prod.case wf_measure intro: fewer_unseen)

declare exception_chain.simps [simp del]

definition kinds_of :: "exc_heap \<Rightarrow> exc_ref list \<Rightarrow> exc_kind list" where
  "kinds_of h as = map (\<lambda>a. case dget h a of Some (k, c) \<Rightarrow> k | None \<Rightarrow> OtherError [] [] None) as"

fun is_llm_client_error :: "exc_kind \<Rightarrow> bool" where
  "is_llm_client_error AOAIGateBusyError = True"
| "is_llm_client_error LLMTimeoutError = True"
| "is_llm_client_error LLMConnectionError = True"
| "is_llm_client_error LLMResponseParseError = True"
| "is_llm_client_error (LLMHTTPStatusError c h) = True"
| "is_llm_client_error LLMProviderConfigError = True"
| "is_llm_client_error LLMClientError = True"
| "is_llm_client_error _ = False"

fun is_typed_provider_failure :: "exc_kind \<Rightarrow> bool" where
  "is_typed_provider_failure LLMTimeoutError = True"
| "is_typed_provider_failure LLMConnectionError = True"
| "is_typed_provider_failure LLMResponseParseError = True"
| "is_typed_provider_failure (LLMHTTPStatusError c h) = True"
| "is_typed_provider_failure _ = False"

text \<open>\<open>httpx.TimeoutException\<close> is a transport error, \<open>HTTPStatusError\<close> is not.\<close>

fun is_transport_failure :: "exc_kind \<Rightarrow> bool" where
  "is_transport_failure HttpxTimeoutException = True"
| "is_transport_failure (HttpxHTTPStatusError s) = True"
| "is_transport_failure HttpxTransportError = True"
| "is_transport_failure _ = False"

fun is_policy_unavailable :: "exc_kind \<Rightarrow> bool" where
  "is_policy_unavailable (ExplorationPolicyUnavailableError c) = True"
| "is_policy_unavailable _ = False"

fun is_strategy_research :: "exc_kind \<Rightarrow> bool" where
  "is_strategy_research (StrategyResearchError c) = True"
| "is_strategy_research _ = False"

fun is_data_gap :: "exc_kind \<Rightarrow> bool" where
  "is_data_gap (PipelineDataUnavailableError r) = True"
| "is_data_gap _ = False"

definition starts_with :: "string \<Rightarrow> string \<Rightarrow> bool" where
  "starts_with p s = (take (length p) s = p)"

definition ends_with :: "string \<Rightarrow> string \<Rightarrow> bool" where
  "ends_with p s = starts_with (rev p) (rev s)"

fun is_postgres_connection_failure :: "exc_kind \<Rightarrow> bool" where
  "is_postgres_connection_failure (OtherError m n sqlstate) =
     (if (case sqlstate of Some s \<Rightarrow> starts_with ''08'' s | None \<Rightarrow> False) then starts_with ''psycopg'' m
      else m = ''psycopg'' \<and> n \<in> set [''OperationalError'', ''InterfaceError''])"
| "is_postgres_connection_failure _ = False"

fun is_postgres_lock_capacity_failure :: "exc_kind \<Rightarrow> bool" where
  "is_postgres_lock_capacity_failure (OtherError m n sqlstate) = (starts_with ''psycopg'' m \<and> sqlstate = Some ''53200'')"
| "is_postgres_lock_capacity_failure _ = False"

definition closed_failure_stage :: "string \<Rightarrow> Stage" where
  "closed_failure_stage s = (case stage_of s of Inr st \<Rightarrow> st | Inl e \<Rightarrow> INTERPRETING)"

section \<open>The texts a user may see\<close>

definition safe_messages :: "string list" where
  "safe_messages = [
     ''No result was produced; adjust the conditions and try again.'',
     ''The confirmed exploration policy changed; confirm the strategy again.'',
     ''The exploration policy could not be checked; try again shortly.'',
     ''The research provider did not respond; try again shortly.'',
     ''Research could not complete the rules; the same request can be retried.'',
     ''Research could not build an executable contract; try again shortly.'',
     ''Too many analysis requests; the wait ran out, try again shortly.'',
     ''The AI response did not arrive in time; try again shortly.'',
     ''The AI provider connection had a problem; try again shortly.'',
     ''The AI response was incomplete; try again shortly.'',
     ''The AI provider response could not be processed; try again shortly.'',
     ''The deployment lacks the web search tool; choose another deployment.'',
     ''The deployment cannot use the selected model; check its name.'',
     ''The data query hit a server resource limit; try again shortly.'',
     ''Analysis needs a verifiable data source; try again when it is ready.'',
     ''No stock matches the condition; relax it and try again.'',
     ''No price data is loaded for the selected stocks.'',
     ''The market data the analysis needs is not ready.'',
     ''The data source cannot be reached; try again shortly.'',
     ''The AI pipeline contract check failed; the debug_ref is kept.'',
     ''An unclassified error occurred; it is traced by its debug_ref.'']"

section \<open>Classification\<close>

text \<open>\<open>evidence_refs=["failure:" + subcause]\<close> throughout.\<close>

definition typed :: "string \<Rightarrow> string \<Rightarrow> Stage \<Rightarrow> string \<Rightarrow> bool \<Rightarrow> nat \<Rightarrow> FailureDiagnostic res" where
  "typed category subcause stage owner retryable message =
     new_diagnostic category subcause stage owner retryable (safe_messages ! message) [''failure:'' @ subcause]"

definition aoai_failure_diagnostic :: "string \<Rightarrow> Stage \<Rightarrow> bool \<Rightarrow> nat \<Rightarrow> FailureDiagnostic res" where
  "aoai_failure_diagnostic subcause stage retryable message =
     typed ''infrastructure_failure'' subcause stage ''ai_graph'' retryable message"

definition http_subcause :: "int \<Rightarrow> string" where
  "http_subcause code = (if 500 \<le> code then ''aoai_http_5xx'' else if 400 \<le> code then ''aoai_http_4xx'' else ''aoai_http_error'')"

definition http_retryable :: "int \<Rightarrow> bool" where
  "http_retryable code \<longleftrightarrow> 500 \<le> code \<or> code \<in> set [408, 409, 429]"

definition http_diagnostic :: "int \<Rightarrow> Stage \<Rightarrow> FailureDiagnostic res" where
  "http_diagnostic code stage = aoai_failure_diagnostic (http_subcause code) stage (http_retryable code) 10"

definition policy_diagnostic :: "string \<Rightarrow> Stage \<Rightarrow> FailureDiagnostic res" where
  "policy_diagnostic code stage =
     (if ends_with ''_stale'' code
      then typed ''data_gap'' ''exploration_policy_stale'' stage ''data_source_config'' True 1
      else typed ''infrastructure_failure'' ''exploration_policy_unavailable'' stage ''data_source_config'' True 2)"

text \<open>\<open>_research_provider_diagnostic\<close>: the typed provider failure behind a research failure, if any.\<close>

definition research_provider_diagnostic :: "exc_kind list \<Rightarrow> Stage \<Rightarrow> FailureDiagnostic res option" where
  "research_provider_diagnostic chain stage =
     (case find is_typed_provider_failure chain of
        Some LLMTimeoutError \<Rightarrow> Some (aoai_failure_diagnostic ''aoai_response_timeout'' stage True 7)
      | Some LLMConnectionError \<Rightarrow> Some (aoai_failure_diagnostic ''aoai_connection_error'' stage True 8)
      | Some LLMResponseParseError \<Rightarrow> Some (aoai_failure_diagnostic ''aoai_response_invalid_json'' stage True 9)
      | Some (LLMHTTPStatusError code hint) \<Rightarrow>
          Some (if hint = Some ''web_search_unsupported'' then aoai_failure_diagnostic ''aoai_web_search_unsupported'' stage False 11
                else if hint = Some ''model_unsupported'' then aoai_failure_diagnostic ''aoai_model_unsupported'' stage False 12
                else http_diagnostic code stage)
      | _ \<Rightarrow> None)"

definition research_diagnostic :: "string \<Rightarrow> exc_kind list \<Rightarrow> Stage \<Rightarrow> FailureDiagnostic res" where
  "research_diagnostic code chain stage =
     (if code = ''research_provider_failure''
      then (case research_provider_diagnostic chain stage of Some d \<Rightarrow> d
            | None \<Rightarrow> typed ''infrastructure_failure'' ''strategy_research_provider_failure'' stage ''ai_graph'' True 3)
      else if code = ''research_resolution_invalid_after_repair''
      then typed ''semantic_failure'' ''strategy_research_contract_invalid'' stage ''ai_graph'' True 4
      else typed ''semantic_failure'' ''strategy_research_contract_invalid'' stage ''ai_graph'' True 5)"

definition provider_diagnostic :: "exc_kind list \<Rightarrow> Stage \<Rightarrow> FailureDiagnostic res option" where
  "provider_diagnostic chain stage =
     (case find is_typed_provider_failure chain of
        Some LLMTimeoutError \<Rightarrow> Some (aoai_failure_diagnostic ''aoai_response_timeout'' stage True 7)
      | Some LLMConnectionError \<Rightarrow> Some (aoai_failure_diagnostic ''aoai_connection_error'' stage True 8)
      | Some LLMResponseParseError \<Rightarrow> Some (aoai_failure_diagnostic ''aoai_response_invalid_json'' stage True 9)
      | Some (LLMHTTPStatusError code hint) \<Rightarrow> Some (http_diagnostic code stage)
      | _ \<Rightarrow> None)"

text \<open>Transport causes count only under the provider adapter's own error.\<close>

definition transport_diagnostic :: "exc_kind list \<Rightarrow> Stage \<Rightarrow> FailureDiagnostic res option" where
  "transport_diagnostic chain stage =
     (if \<not> list_ex is_llm_client_error chain then None
      else (case find is_transport_failure chain of
        Some HttpxTimeoutException \<Rightarrow> Some (aoai_failure_diagnostic ''aoai_response_timeout'' stage True 7)
      | Some (HttpxHTTPStatusError status) \<Rightarrow>
          Some (case status of None \<Rightarrow> aoai_failure_diagnostic ''aoai_http_error'' stage True 10
                | Some code \<Rightarrow> http_diagnostic code stage)
      | Some HttpxTransportError \<Rightarrow> Some (aoai_failure_diagnostic ''aoai_connection_error'' stage True 8)
      | _ \<Rightarrow> None))"

definition data_gap_diagnostic :: "string \<Rightarrow> Stage \<Rightarrow> FailureDiagnostic res" where
  "data_gap_diagnostic reason stage =
     (if reason = ''fixture_mode_forbidden_in_release''
      then typed ''infrastructure_failure'' ''fixture_mode_forbidden_in_release'' stage ''data_source_config'' False 14
      else if reason = ''no_screening_matches''
      then typed ''data_gap'' ''no_screening_matches'' stage ''data_source_config'' False 15
      else if reason = ''no_price_rows''
      then typed ''data_gap'' ''no_price_rows'' stage ''data_source_config'' False 16
      else typed ''data_gap'' ''data_required'' stage ''data_source_config'' False 17)"

definition classify_chain :: "exc_kind list \<Rightarrow> Stage \<Rightarrow> FailureDiagnostic res" where
  "classify_chain chain stage =
     (case find is_policy_unavailable chain of Some e \<Rightarrow> policy_diagnostic (policy_code e) stage | None \<Rightarrow>
     (case find is_strategy_research chain of Some e \<Rightarrow> research_diagnostic (cause_code e) chain stage | None \<Rightarrow>
     (if AOAIGateBusyError \<in> set chain
      then typed ''infrastructure_failure'' ''aoai_capacity_exhausted'' stage ''ai_graph'' True 6 else
     (case provider_diagnostic chain stage of Some d \<Rightarrow> d | None \<Rightarrow>
     (case transport_diagnostic chain stage of Some d \<Rightarrow> d | None \<Rightarrow>
     (if list_ex is_postgres_lock_capacity_failure chain
      then typed ''infrastructure_failure'' ''db_lock_capacity_exhausted'' stage ''data_source_config'' True 13 else
     (case find is_data_gap chain of Some e \<Rightarrow> data_gap_diagnostic (gap_reason e) stage | None \<Rightarrow>
     (if list_ex is_postgres_connection_failure chain
      then typed ''infrastructure_failure'' ''db_connection_unavailable'' stage ''data_source_config'' True 18
      else if ValidationError \<in> set chain
      then typed ''semantic_failure'' ''contract_shape_error'' stage ''ai_graph'' False 19
      else typed ''unknown_failure'' ''unknown'' stage ''unknown'' True 20))))))))"

definition classify_failure :: "exc_heap \<Rightarrow> exc_ref \<Rightarrow> string \<Rightarrow> FailureDiagnostic res" where
  "classify_failure h exc stage_text =
     (let stage = closed_failure_stage stage_text in
      if map_option fst (dget h exc) = Some EmptyAnalysisResultError
      then typed ''data_gap'' ''empty_analysis_result'' stage ''ai_graph'' False 0
      else classify_chain (kinds_of h (exception_chain h (Some exc) [])) stage)"

section \<open>Every failure gets a public diagnosis\<close>

text \<open>What a diagnostic of the classifier looks like: it is accepted by the closed public contract, its
  text is one of the fixed texts, and its evidence names the subcause.\<close>

definition public_diagnosis :: "Stage \<Rightarrow> FailureDiagnostic res \<Rightarrow> bool" where
  "public_diagnosis stage r \<longleftrightarrow> (\<exists>d. r = Inr d \<and> diagnostic_ok d \<and> fd_failure_stage d = stage
     \<and> fd_safe_message d \<in> set safe_messages \<and> fd_evidence_refs d = [''failure:'' @ fd_subcause d])"

lemma safe_messages_nonempty: "m < 21 \<Longrightarrow> safe_messages ! m \<in> set safe_messages \<and> safe_messages ! m \<noteq> []"
proof -
  assume "m < 21"
  moreover have "length safe_messages = 21" "[] \<notin> set safe_messages" by (simp_all add: safe_messages_def)
  ultimately show ?thesis by (metis nth_mem)
qed

lemma typed_public [simp]:
  assumes "c \<in> set FailureCategory" and "s \<in> set FailureSubcause" and "ow \<in> set failure_owners" and "m < 21"
  shows "public_diagnosis stage (typed c s stage ow r m)"
  using assms safe_messages_nonempty[of m]
  by (auto simp: public_diagnosis_def typed_def new_diagnostic_def Let_def diagnostic_ok_def)

lemma typed_subcause: "typed c s stage ow r m = Inr d \<Longrightarrow> fd_subcause d = s"
  by (auto simp: typed_def dest: new_diagnostic_Inr)

lemma vocabulary [simp]:
  "''infrastructure_failure'' \<in> set FailureCategory" "''semantic_failure'' \<in> set FailureCategory"
  "''data_gap'' \<in> set FailureCategory" "''unknown_failure'' \<in> set FailureCategory"
  "''ai_graph'' \<in> set failure_owners" "''data_source_config'' \<in> set failure_owners" "''unknown'' \<in> set failure_owners"
  by (simp_all add: FailureCategory_def failure_owners_def)

lemma subcauses [simp]:
  "''db_connection_unavailable'' \<in> set FailureSubcause" "''db_lock_capacity_exhausted'' \<in> set FailureSubcause"
  "''contract_shape_error'' \<in> set FailureSubcause" "''aoai_capacity_exhausted'' \<in> set FailureSubcause"
  "''aoai_response_timeout'' \<in> set FailureSubcause" "''aoai_connection_error'' \<in> set FailureSubcause"
  "''aoai_response_invalid_json'' \<in> set FailureSubcause" "''aoai_http_4xx'' \<in> set FailureSubcause"
  "''aoai_http_5xx'' \<in> set FailureSubcause" "''aoai_http_error'' \<in> set FailureSubcause"
  "''aoai_web_search_unsupported'' \<in> set FailureSubcause" "''aoai_model_unsupported'' \<in> set FailureSubcause"
  "''strategy_research_provider_failure'' \<in> set FailureSubcause" "''strategy_research_contract_invalid'' \<in> set FailureSubcause"
  "''data_required'' \<in> set FailureSubcause" "''exploration_policy_unavailable'' \<in> set FailureSubcause"
  "''exploration_policy_stale'' \<in> set FailureSubcause" "''fixture_mode_forbidden_in_release'' \<in> set FailureSubcause"
  "''no_screening_matches'' \<in> set FailureSubcause" "''no_price_rows'' \<in> set FailureSubcause"
  "''empty_analysis_result'' \<in> set FailureSubcause" "''user_cancelled'' \<in> set FailureSubcause"
  "''job_deadline_exceeded'' \<in> set FailureSubcause" "''unknown'' \<in> set FailureSubcause"
  by (simp_all add: FailureSubcause_def)

lemma aoai_public [simp]:
  "s \<in> set FailureSubcause \<Longrightarrow> m < 21 \<Longrightarrow> public_diagnosis stage (aoai_failure_diagnostic s stage r m)"
  by (simp add: aoai_failure_diagnostic_def)

lemma http_public [simp]: "public_diagnosis stage (http_diagnostic code stage)"
  by (simp add: http_diagnostic_def http_subcause_def)

lemma policy_public [simp]: "public_diagnosis stage (policy_diagnostic code stage)"
  by (simp add: policy_diagnostic_def)

lemma provider_public: "provider_diagnostic chain stage = Some d \<Longrightarrow> public_diagnosis stage d"
  by (auto simp: provider_diagnostic_def split: option.splits exc_kind.splits)

lemma research_provider_public: "research_provider_diagnostic chain stage = Some d \<Longrightarrow> public_diagnosis stage d"
  by (auto simp: research_provider_diagnostic_def split: option.splits exc_kind.splits)

lemma research_public [simp]: "public_diagnosis stage (research_diagnostic code chain stage)"
  by (auto simp: research_diagnostic_def research_provider_public split: option.split)

lemma transport_public: "transport_diagnostic chain stage = Some d \<Longrightarrow> public_diagnosis stage d"
  by (auto simp: transport_diagnostic_def split: option.splits exc_kind.splits if_splits)

lemma data_gap_public [simp]: "public_diagnosis stage (data_gap_diagnostic reason stage)"
  by (simp add: data_gap_diagnostic_def)

lemma classify_chain_public: "public_diagnosis stage (classify_chain chain stage)"
  unfolding classify_chain_def
  by (simp add: provider_public transport_public split: option.split)

text \<open>The chain of causes is finite, starts at the exception itself and never repeats one, whatever
  cycle the causes form.\<close>

lemma exception_chain_distinct: "distinct (exception_chain h c seen) \<and> set (exception_chain h c seen) \<inter> set seen = {}"
proof (induction h c seen rule: exception_chain.induct)
  case (1 h c seen)
  show ?case
  proof (cases "\<exists>a k cause. c = Some a \<and> a \<notin> set seen \<and> dget h a = Some (k, cause)")
    case True
    then obtain a k cause where a: "c = Some a" "a \<notin> set seen" "dget h a = Some (k, cause)" by blast
    then have "exception_chain h c seen = a # exception_chain h cause (a # seen)"
      by (simp add: exception_chain.simps[of h "Some a" seen])
    with 1[OF a refl] a show ?thesis by auto
  next
    case False
    then have "exception_chain h c seen = []"
      by (auto simp: exception_chain.simps[of h c seen] split: option.split)
    then show ?thesis by simp
  qed
qed

lemma exception_chain_self: "dget h a = Some v \<Longrightarrow> a \<in> set (exception_chain h (Some a) [])"
  by (cases v) (simp add: exception_chain.simps[of h "Some a" "[]"])

text \<open>A diagnosis that blames the provider rests on an error of the provider's client.\<close>

definition blames_provider :: "FailureDiagnostic res \<Rightarrow> bool" where
  "blames_provider r = (case r of Inr d \<Rightarrow> starts_with ''aoai'' (fd_subcause d) | Inl e \<Rightarrow> False)"

lemma blames_typed: "blames_provider (typed c s stage ow r m) \<Longrightarrow> starts_with ''aoai'' s"
  by (auto simp: blames_provider_def dest: typed_subcause split: sum.splits)

lemma not_blamed [simp]: "\<not> starts_with ''aoai'' s \<Longrightarrow> \<not> blames_provider (typed c s stage ow r m)"
  using blames_typed by blast

lemma provider_needs_client: "provider_diagnostic chain stage = Some d \<Longrightarrow> list_ex is_llm_client_error chain"
  "research_provider_diagnostic chain stage = Some d \<Longrightarrow> list_ex is_llm_client_error chain"
proof -
  have "is_typed_provider_failure k \<Longrightarrow> is_llm_client_error k" for k by (cases k) simp_all
  moreover have "find P xs = Some x \<Longrightarrow> x \<in> set xs \<and> P x" for P :: "exc_kind \<Rightarrow> bool" and xs x
    by (metis find_Some_iff nth_mem)
  ultimately have "find is_typed_provider_failure chain \<noteq> None \<Longrightarrow> list_ex is_llm_client_error chain"
    by (auto simp: list_ex_iff) blast
  then show "provider_diagnostic chain stage = Some d \<Longrightarrow> list_ex is_llm_client_error chain"
    "research_provider_diagnostic chain stage = Some d \<Longrightarrow> list_ex is_llm_client_error chain"
    by (auto simp: provider_diagnostic_def research_provider_diagnostic_def split: option.splits)
qed

lemma chain_blame:
  assumes none: "\<not> list_ex is_llm_client_error chain"
  shows "\<not> blames_provider (classify_chain chain stage)"
proof -
  have p: "provider_diagnostic chain stage = None" "research_provider_diagnostic chain stage = None"
    using provider_needs_client none by (metis option.exhaust)+
  have t: "transport_diagnostic chain stage = None" using none by (simp add: transport_diagnostic_def)
  have g: "AOAIGateBusyError \<notin> set chain" using none by (auto simp: list_ex_iff)
  have parts: "\<not> blames_provider (policy_diagnostic code stage)" "\<not> blames_provider (research_diagnostic code chain stage)"
      "\<not> blames_provider (data_gap_diagnostic code stage)" for code
    by (auto simp: policy_diagnostic_def research_diagnostic_def data_gap_diagnostic_def p starts_with_def)
  show ?thesis
    unfolding classify_chain_def p t using g by (simp add: parts starts_with_def split: option.split)
qed

text \<open>C38. Every exception, whatever its class and whatever cycle its causes form, gets a diagnosis that
  the closed public contract accepts, with one of the fixed user-facing texts and evidence that
  names its subcause, at the stage the job had reached.\<close>

theorem every_failure_diagnosed:
  "\<exists>d. classify_failure h exc stage = Inr d \<and> diagnostic_ok d \<and> fd_failure_stage d = closed_failure_stage stage
     \<and> fd_safe_message d \<in> set safe_messages \<and> fd_evidence_refs d = [''failure:'' @ fd_subcause d]"
proof -
  have "public_diagnosis (closed_failure_stage stage) (classify_failure h exc stage)"
    by (simp add: classify_failure_def Let_def classify_chain_public)
  then show ?thesis by (simp add: public_diagnosis_def)
qed

text \<open>A failure is blamed on the model provider only when an error of the provider's client is in
  its chain of causes: a bare transport error from elsewhere is never reported as one.\<close>

theorem provider_blamed_with_evidence:
  assumes "classify_failure h exc stage = Inr d" and "starts_with ''aoai'' (fd_subcause d)"
  shows "list_ex is_llm_client_error (kinds_of h (exception_chain h (Some exc) []))"
proof (rule ccontr)
  assume none: "\<not> ?thesis"
  have "\<not> blames_provider (classify_failure h exc stage)"
    using chain_blame[OF none] by (simp add: classify_failure_def Let_def starts_with_def)
  with assms show False by (simp add: blames_provider_def)
qed

theorem provider_blamed_with_evidence_witness:
  "list_ex is_llm_client_error (kinds_of [(0, LLMClientError, Some 1), (1, HttpxTimeoutException, Some 0)]
     (exception_chain [(0, LLMClientError, Some 1), (1, HttpxTimeoutException, Some 0)] (Some 0) []))"
proof -
  let ?h = "[(0, LLMClientError, Some 1), (1, HttpxTimeoutException, Some 0)] :: exc_heap"
  have "map_option (\<lambda>d. fd_subcause d) (case classify_failure ?h 0 ''backtest'' of Inr d \<Rightarrow> Some d | Inl e \<Rightarrow> None)
      = Some ''aoai_response_timeout''"
    by code_simp
  then obtain d where "classify_failure ?h 0 ''backtest'' = Inr d" "fd_subcause d = ''aoai_response_timeout''"
    by (auto split: sum.splits)
  with provider_blamed_with_evidence[of ?h 0 "''backtest''" d] show ?thesis by (simp add: starts_with_def)
qed

end
