(* ===== verification/Ai_Jobs.thy ===== *)
theory Ai_Jobs
  imports Ai_Manifest Ai_Failures
begin

text \<open>
  The job records and the in-memory job store of \<^verbatim>\<open>ai_graph/jobs.py\<close>.  A store operation takes the
  store and returns its result, or the exception it raises, together with the store it leaves
  behind: an operation that raises half way keeps what it had already written.  The clock, the
  fresh identifiers and the normalisation of an execution spec are arguments.  Operations hold the
  store's lock for their whole body, so concurrent callers are sequences of operations.
\<close>

section \<open>Jobs\<close>

record StageProgress =
  sp_stage :: Stage
  sp_status :: StageStatus
  sp_updated_at :: instant
  sp_message :: "string option"

record ExecutionSpec =
  es_classification :: "string option"
  es_dump :: pyval

record AnalysisJob =
  aj_job_id :: string
  aj_trace_id :: string
  aj_query :: string
  aj_user_id :: "string option"
  aj_strategy_id :: "string option"
  aj_run_id :: "string option"
  aj_report_id :: "string option"
  aj_execution_spec_version :: "string option"
  aj_execution_spec_hash :: "string option"
  aj_execution_spec :: "ExecutionSpec option"
  aj_client_idempotency_key :: "string option"
  aj_status :: AnalysisJobStatus
  aj_polling_stage :: Stage
  aj_created_at :: instant
  aj_updated_at :: instant
  aj_completed_at :: "instant option"
  aj_stages :: "StageProgress list"
  aj_result :: "APIEnvelope option"
  aj_debug_ref :: "string option"
  aj_fallback_reasons :: "string list"
  aj_error_message :: "string option"
  aj_owner_incarnation :: "string option"
  aj_execution_manifest :: ExecutionManifest

definition stage_status_for :: "nat \<Rightarrow> nat \<Rightarrow> AnalysisJobStatus \<Rightarrow> StageStatus" where
  "stage_status_for index current status =
     (case status of QUEUED \<Rightarrow> STAGE_QUEUED
      | RUNNING \<Rightarrow> if index < current then STAGE_SUCCEEDED else if index = current then STAGE_RUNNING else STAGE_QUEUED
      | COMPLETED \<Rightarrow> STAGE_SUCCEEDED
      | FAILED \<Rightarrow> if index < current then STAGE_SUCCEEDED else if index = current then STAGE_FAILED else STAGE_QUEUED)"

definition stage_progresses :: "Stage \<Rightarrow> AnalysisJobStatus \<Rightarrow> instant \<Rightarrow> string option \<Rightarrow> StageProgress list" where
  "stage_progresses polling_stage status updated_at message =
     map (\<lambda>(index, stage). \<lparr>sp_stage = stage, sp_status = stage_status_for index (stage_index polling_stage) status,
            sp_updated_at = updated_at, sp_message = (if stage = polling_stage then message else None)\<rparr>)
       (enumerate 0 stage_order)"

text \<open>\<open>_failure_envelope\<close>: without a given cause the message is classified as a plain \<open>RuntimeError\<close>.\<close>

definition failure_envelope :: "AnalysisJob \<Rightarrow> string \<Rightarrow> FailureDiagnostic option \<Rightarrow> APIEnvelope res" where
  "failure_envelope job error_message failure_cause =
     rbind (case failure_cause of Some d \<Rightarrow> Inr d
            | None \<Rightarrow> classify_failure [(0, OtherError ''builtins'' ''RuntimeError'' None, None)] 0 (stage_value FINALIZING))
       (\<lambda>diagnostic. new_envelope
          \<lparr>ev_status = FAILED_ENVELOPE, ev_trace_id = aj_trace_id job,
           ev_user_payload = \<lparr>up_headline = ''The AI analysis could not be completed.'', up_message = fd_safe_message diagnostic,
              up_next_actions = [''narrow the conditions and retry'', ''share the debug_ref if it happens again''],
              up_report = None, up_performance = None\<rparr>,
           ev_strategy_spec = None, ev_debug_ref = ''job-error:'' @ aj_job_id job,
           ev_retryable = fd_retryable diagnostic, ev_failure_cause = Some diagnostic\<rparr>)"

section \<open>The store\<close>

record ParseToken =
  pt_user_id :: string
  pt_spec_version :: string
  pt_spec_hash :: string
  pt_expires_at :: instant
  pt_used :: bool

datatype outbox_state = Pending | Claimed | Delivered

record OutboxRecord =
  ob_job_id :: string
  ob_state :: outbox_state
  ob_claimed_at :: "instant option"

record ResearchAppendix =
  ra_status :: string
  ra_payload :: "(string, pyval) dict"

record InMemoryAnalysisJobStore =
  st_jobs :: "(string, AnalysisJob) dict"
  st_parse_tokens :: "(string, ParseToken) dict"
  st_parse_idempotency :: "(string \<times> string, string \<times> string) dict"
  st_analysis_job_outbox :: "(string, OutboxRecord) dict"
  st_research_appendix_outbox :: "(string, OutboxRecord) dict"
  st_research_appendix :: "(string, ResearchAppendix) dict"

type_synonym store = InMemoryAnalysisJobStore

definition empty_store :: store where
  "empty_store = \<lparr>st_jobs = [], st_parse_tokens = [], st_parse_idempotency = [], st_analysis_job_outbox = [],
     st_research_appendix_outbox = [], st_research_appendix = []\<rparr>"

record ParseBoundJobAdmission =
  ad_job :: AnalysisJob
  ad_created :: bool
  ad_outbox_id :: "string option"

text \<open>What one call draws from the clock and from \<open>uuid4\<close>; \<open>fr_process\<close> is the process incarnation
  and \<open>fr_validate_spec\<close> the normalisation of an execution spec.\<close>

record Fresh =
  fr_now :: instant
  fr_job_hex :: string
  fr_outbox_id :: string
  fr_appendix_outbox_id :: string
  fr_process :: string
  fr_validate_spec :: "ExecutionSpec \<Rightarrow> ExecutionSpec res"

definition get_job :: "store \<Rightarrow> string \<Rightarrow> AnalysisJob option" where
  "get_job s job_id = dget (st_jobs s) job_id"

definition put_job :: "AnalysisJob \<Rightarrow> store \<Rightarrow> store" where
  "put_job job s = s\<lparr>st_jobs := dset (aj_job_id job) job (st_jobs s)\<rparr>"

definition require_job :: "store \<Rightarrow> string \<Rightarrow> AnalysisJob res" where
  "require_job s job_id =
     (case get_job s job_id of Some job \<Rightarrow> Inr job | None \<Rightarrow> Inl (KeyError (''analysis job not found: '' @ job_id)))"

text \<open>The field constraints of \<open>AnalysisJob\<close> that its construction checks.\<close>

definition hex64 :: "string \<Rightarrow> bool" where
  "hex64 s \<longleftrightarrow> length s = 64 \<and> list_all (\<lambda>c. c \<in> set ''0123456789abcdef'') s"

record JobRequest =
  jr_request_text :: string
  jr_user_id :: "string option"
  jr_strategy_id :: "string option"
  jr_run_id :: "string option"
  jr_fallback_reasons :: "string list"
  jr_execution_spec_version :: "string option"
  jr_execution_spec_hash :: "string option"
  jr_execution_spec :: "ExecutionSpec option"
  jr_client_idempotency_key :: "string option"

definition job_fields_ok :: "JobRequest \<Rightarrow> string \<Rightarrow> bool" where
  "job_fields_ok r trace_id \<longleftrightarrow> jr_request_text r \<noteq> [] \<and> trace_id \<noteq> []
     \<and> (case jr_execution_spec_hash r of None \<Rightarrow> True | Some h \<Rightarrow> hex64 h)"

definition new_job :: "Services \<Rightarrow> Fresh \<Rightarrow> JobRequest \<Rightarrow> ExecutionSpec option \<Rightarrow> AnalysisJob res" where
  "new_job sv fresh r spec =
     (let now = fr_now fresh; job_id = ''job_'' @ take 12 (fr_job_hex fresh); trace_id = sv_trace_id sv (jr_request_text r) now in
      if \<not> job_fields_ok r trace_id then Inl (ValueError ''AnalysisJob'')
      else Inr \<lparr>aj_job_id = job_id, aj_trace_id = trace_id, aj_query = jr_request_text r, aj_user_id = jr_user_id r,
        aj_strategy_id = jr_strategy_id r, aj_run_id = jr_run_id r, aj_report_id = None,
        aj_execution_spec_version = jr_execution_spec_version r, aj_execution_spec_hash = jr_execution_spec_hash r,
        aj_execution_spec = spec, aj_client_idempotency_key = jr_client_idempotency_key r,
        aj_status = QUEUED, aj_polling_stage = INTERPRETING, aj_created_at = now, aj_updated_at = now, aj_completed_at = None,
        aj_stages = stage_progresses INTERPRETING QUEUED now None, aj_result = None, aj_debug_ref = None,
        aj_fallback_reasons = jr_fallback_reasons r, aj_error_message = None, aj_owner_incarnation = Some (fr_process fresh),
        aj_execution_manifest =
          \<lparr>em_contract_hash = MANIFEST_CONTRACT_HASH,
           em_run_identity = \<lparr>ri_job_id = job_id, ri_trace_id = trace_id, ri_strategy_id = jr_strategy_id r, ri_run_id = jr_run_id r\<rparr>,
           em_policy_hashes = [(''execution_contract'', MANIFEST_CONTRACT_HASH)],
           em_session = \<lparr>xs_requested_at = now, xs_started_at = None, xs_ended_at = None\<rparr>,
           em_capabilities = \<lparr>xc_terminal_event_documents = False, xc_corporate_action_events = False\<rparr>,
           em_events = no_events, em_ledger_event_count = 0, em_ledger_event_hash = sv_stable_hash sv (PDict [])\<rparr>\<rparr>)"

definition normalized_execution_spec :: "Fresh \<Rightarrow> JobRequest \<Rightarrow> ExecutionSpec option res" where
  "normalized_execution_spec fresh r =
     (case jr_execution_spec r of None \<Rightarrow> Inr None
      | Some spec \<Rightarrow> rbind (fr_validate_spec fresh spec) (\<lambda>x. Inr (Some x)))"

definition create_job :: "Services \<Rightarrow> Fresh \<Rightarrow> JobRequest \<Rightarrow> store \<Rightarrow> AnalysisJob res \<times> store" where
  "create_job sv fresh r s =
     (case rbind (normalized_execution_spec fresh r) (new_job sv fresh r) of
        Inl e \<Rightarrow> (Inl e, s)
      | Inr job \<Rightarrow> (Inr job, put_job job s))"

section \<open>Parse-bound admission\<close>

definition register_parse_token :: "string \<Rightarrow> string \<Rightarrow> string \<Rightarrow> string \<Rightarrow> instant \<Rightarrow> store \<Rightarrow> store" where
  "register_parse_token nonce_hash user_id spec_version spec_hash expires_at s =
     (if has_key (st_parse_tokens s) nonce_hash then s
      else s\<lparr>st_parse_tokens := dset nonce_hash
              \<lparr>pt_user_id = user_id, pt_spec_version = spec_version, pt_spec_hash = spec_hash,
               pt_expires_at = expires_at, pt_used = False\<rparr> (st_parse_tokens s)\<rparr>)"

definition token_refused :: "ParseToken option \<Rightarrow> string \<Rightarrow> string \<Rightarrow> string \<Rightarrow> instant \<Rightarrow> bool" where
  "token_refused token user_id spec_version spec_hash now =
     (case token of None \<Rightarrow> True
      | Some t \<Rightarrow> pt_user_id t \<noteq> user_id \<or> pt_spec_version t \<noteq> spec_version \<or> pt_spec_hash t \<noteq> spec_hash
          \<or> pt_expires_at t \<le> now \<or> pt_used t)"

record ParseBoundRequest =
  pr_request_text :: string
  pr_nonce_hash :: string
  pr_user_id :: string
  pr_spec_version :: string
  pr_spec_hash :: string
  pr_execution_spec :: "ExecutionSpec option"
  pr_client_idempotency_key :: string

definition job_request_of :: "ParseBoundRequest \<Rightarrow> JobRequest" where
  "job_request_of p = \<lparr>jr_request_text = pr_request_text p, jr_user_id = Some (pr_user_id p), jr_strategy_id = None,
     jr_run_id = None, jr_fallback_reasons = [], jr_execution_spec_version = Some (pr_spec_version p),
     jr_execution_spec_hash = Some (pr_spec_hash p), jr_execution_spec = pr_execution_spec p,
     jr_client_idempotency_key = Some (pr_client_idempotency_key p)\<rparr>"

definition pending_record :: "string \<Rightarrow> OutboxRecord" where
  "pending_record job_id = \<lparr>ob_job_id = job_id, ob_state = Pending, ob_claimed_at = None\<rparr>"

definition enqueue_admitted :: "Fresh \<Rightarrow> ParseBoundRequest \<Rightarrow> string \<Rightarrow> store \<Rightarrow> store" where
  "enqueue_admitted fresh p job_id s =
     (let s = s\<lparr>st_parse_idempotency := dset (pr_user_id p, pr_client_idempotency_key p) (pr_spec_hash p, job_id) (st_parse_idempotency s)\<rparr>;
          s = s\<lparr>st_analysis_job_outbox := dset (fr_outbox_id fresh) (pending_record job_id) (st_analysis_job_outbox s)\<rparr>
      in if Option.bind (pr_execution_spec p) es_classification = Some ''exploratory_return_seeking''
         then s\<lparr>st_research_appendix_outbox := dset (fr_appendix_outbox_id fresh) (pending_record job_id) (st_research_appendix_outbox s),
                st_research_appendix := dset job_id \<lparr>ra_status = ''pending'', ra_payload = []\<rparr> (st_research_appendix s)\<rparr>
         else s)"

definition admit_parse_bound_job :: "Services \<Rightarrow> Fresh \<Rightarrow> ParseBoundRequest \<Rightarrow> store \<Rightarrow> ParseBoundJobAdmission res \<times> store" where
  "admit_parse_bound_job sv fresh p s =
     (case dget (st_parse_idempotency s) (pr_user_id p, pr_client_idempotency_key p) of
        Some (existing_hash, existing_job_id) \<Rightarrow>
          (if existing_hash \<noteq> pr_spec_hash p then Inl (RuntimeError ''idempotency_key_reused'')
           else (case get_job s existing_job_id of
                   None \<Rightarrow> Inl (RuntimeError ''parse_token_unavailable'')
                 | Some job \<Rightarrow> Inr \<lparr>ad_job = job, ad_created = False, ad_outbox_id = None\<rparr>), s)
      | None \<Rightarrow>
          (case dget (st_parse_tokens s) (pr_nonce_hash p) of
             None \<Rightarrow> (Inl (RuntimeError ''parse_token_unavailable''), s)
           | Some token \<Rightarrow>
               if token_refused (Some token) (pr_user_id p) (pr_spec_version p) (pr_spec_hash p) (fr_now fresh)
               then (Inl (RuntimeError ''parse_token_unavailable''), s)
               else let s = s\<lparr>st_parse_tokens := dset (pr_nonce_hash p) (token\<lparr>pt_used := True\<rparr>) (st_parse_tokens s)\<rparr> in
                    (case create_job sv fresh (job_request_of p) s of
                       (Inl e, s) \<Rightarrow> (Inl e, s)
                     | (Inr job, s) \<Rightarrow> (Inr \<lparr>ad_job = job, ad_created = True, ad_outbox_id = Some (fr_outbox_id fresh)\<rparr>,
                                        enqueue_admitted fresh p (aj_job_id job) s))))"

definition find_parse_bound_job :: "store \<Rightarrow> string \<Rightarrow> string \<Rightarrow> string \<Rightarrow> AnalysisJob option res" where
  "find_parse_bound_job s user_id spec_hash client_idempotency_key =
     (case dget (st_parse_idempotency s) (user_id, client_idempotency_key) of
        None \<Rightarrow> Inr None
      | Some (existing_hash, job_id) \<Rightarrow>
          if existing_hash \<noteq> spec_hash then Inl (RuntimeError ''idempotency_key_reused'')
          else (case get_job s job_id of None \<Rightarrow> Inl (RuntimeError ''parse_token_unavailable'') | Some job \<Rightarrow> Inr (Some job)))"

section \<open>The outboxes\<close>

type_synonym outbox = "(string, OutboxRecord) dict"

text \<open>The loop both claims run: claim the eligible records in order, stop at the limit.  A record that is
  claimed is overwritten in place, which the iteration has already passed.\<close>

fun claim_loop :: "(OutboxRecord \<Rightarrow> bool) \<Rightarrow> instant \<Rightarrow> int \<Rightarrow> outbox \<Rightarrow> (string \<times> string) list \<Rightarrow> outbox
    \<Rightarrow> (string \<times> string) list \<times> outbox" where
  "claim_loop eligible now limit [] claimed ob = (claimed, ob)"
| "claim_loop eligible now limit ((outbox_id, r) # rest) claimed ob =
     (if eligible r then
        (let ob = dset outbox_id \<lparr>ob_job_id = ob_job_id r, ob_state = Claimed, ob_claimed_at = Some now\<rparr> ob;
             claimed = claimed @ [(outbox_id, ob_job_id r)]
         in if limit \<le> int (length claimed) then (claimed, ob) else claim_loop eligible now limit rest claimed ob)
      else claim_loop eligible now limit rest claimed ob)"

definition LEASE_MICROSECONDS :: int where
  "LEASE_MICROSECONDS = 300 * 1000000"

definition analysis_claimable :: "store \<Rightarrow> instant \<Rightarrow> OutboxRecord \<Rightarrow> bool" where
  "analysis_claimable s now r \<longleftrightarrow>
     (let stale_claim = (case ob_claimed_at r of None \<Rightarrow> False | Some t \<Rightarrow> t < now - LEASE_MICROSECONDS) in
      (ob_state r = Pending \<or> (ob_state r = Claimed \<and> stale_claim))
      \<and> (case get_job s (ob_job_id r) of None \<Rightarrow> False | Some job \<Rightarrow> aj_status job = QUEUED))"

definition claim_analysis_job_outbox :: "instant \<Rightarrow> int \<Rightarrow> store \<Rightarrow> (string \<times> string) list \<times> store" where
  "claim_analysis_job_outbox now limit s =
     (if limit < 1 then ([], s)
      else (case claim_loop (analysis_claimable s now) now limit (st_analysis_job_outbox s) [] (st_analysis_job_outbox s) of
              (claimed, ob) \<Rightarrow> (claimed, s\<lparr>st_analysis_job_outbox := ob\<rparr>)))"

definition move_claimed :: "string \<Rightarrow> outbox_state \<Rightarrow> (OutboxRecord \<Rightarrow> instant option) \<Rightarrow> outbox \<Rightarrow> outbox" where
  "move_claimed outbox_id state stamp ob =
     (case dget ob outbox_id of None \<Rightarrow> ob
      | Some r \<Rightarrow> if ob_state r = Claimed
                  then dset outbox_id \<lparr>ob_job_id = ob_job_id r, ob_state = state, ob_claimed_at = stamp r\<rparr> ob else ob)"

definition mark_analysis_job_outbox_delivered :: "string \<Rightarrow> store \<Rightarrow> store" where
  "mark_analysis_job_outbox_delivered outbox_id s =
     s\<lparr>st_analysis_job_outbox := move_claimed outbox_id Delivered ob_claimed_at (st_analysis_job_outbox s)\<rparr>"

definition release_analysis_job_outbox :: "string \<Rightarrow> store \<Rightarrow> store" where
  "release_analysis_job_outbox outbox_id s =
     s\<lparr>st_analysis_job_outbox := move_claimed outbox_id Pending (\<lambda>r. None) (st_analysis_job_outbox s)\<rparr>"

definition has_recoverable_analysis_job_outbox :: "store \<Rightarrow> string \<Rightarrow> bool" where
  "has_recoverable_analysis_job_outbox s job_id =
     list_ex (\<lambda>r. ob_job_id r = job_id \<and> (ob_state r = Pending \<or> ob_state r = Claimed)) (dvalues (st_analysis_job_outbox s))"

definition appendix_claimable :: "store \<Rightarrow> OutboxRecord \<Rightarrow> bool" where
  "appendix_claimable s r \<longleftrightarrow> ob_state r = Pending
     \<and> (case get_job s (ob_job_id r) of None \<Rightarrow> False | Some job \<Rightarrow> aj_status job = COMPLETED \<or> aj_status job = FAILED)"

definition claim_research_appendix_outbox :: "instant \<Rightarrow> int \<Rightarrow> store \<Rightarrow> (string \<times> string) list \<times> store" where
  "claim_research_appendix_outbox now limit s =
     (case claim_loop (appendix_claimable s) now limit (st_research_appendix_outbox s) [] (st_research_appendix_outbox s) of
        (claimed, ob) \<Rightarrow> (claimed, s\<lparr>st_research_appendix_outbox := ob\<rparr>))"

definition settle_appendix :: "string \<Rightarrow> string \<Rightarrow> ResearchAppendix \<Rightarrow> store \<Rightarrow> store" where
  "settle_appendix outbox_id job_id appendix s =
     (let s = s\<lparr>st_research_appendix := dset job_id appendix (st_research_appendix s)\<rparr> in
      (case dget (st_research_appendix_outbox s) outbox_id of None \<Rightarrow> s
       | Some r \<Rightarrow> s\<lparr>st_research_appendix_outbox := dset outbox_id
            \<lparr>ob_job_id = job_id, ob_state = Delivered, ob_claimed_at = ob_claimed_at r\<rparr> (st_research_appendix_outbox s)\<rparr>))"

definition complete_research_appendix :: "string \<Rightarrow> string \<Rightarrow> (string, pyval) dict \<Rightarrow> store \<Rightarrow> store" where
  "complete_research_appendix outbox_id job_id payload s =
     settle_appendix outbox_id job_id \<lparr>ra_status = ''ready'', ra_payload = payload\<rparr> s"

definition mark_research_appendix_unavailable :: "string \<Rightarrow> string \<Rightarrow> string \<Rightarrow> store \<Rightarrow> store" where
  "mark_research_appendix_unavailable outbox_id job_id reason s =
     settle_appendix outbox_id job_id \<lparr>ra_status = ''unavailable'', ra_payload = [(''reason'', PStr reason)]\<rparr> s"

definition get_research_appendix :: "store \<Rightarrow> string \<Rightarrow> ResearchAppendix option" where
  "get_research_appendix s job_id = dget (st_research_appendix s) job_id"

section \<open>Job status\<close>

text \<open>Jobs are stored under the identifier the caller passes.\<close>

definition store_job :: "string \<Rightarrow> AnalysisJob \<Rightarrow> store \<Rightarrow> store" where
  "store_job job_id job s = s\<lparr>st_jobs := dset job_id job (st_jobs s)\<rparr>"

definition given_or :: "string list option \<Rightarrow> string list \<Rightarrow> string list" where
  "given_or x d = (case x of None \<Rightarrow> d | Some v \<Rightarrow> v)"

definition update_job_status :: "instant \<Rightarrow> string \<Rightarrow> AnalysisJobStatus \<Rightarrow> Stage \<Rightarrow> string list option \<Rightarrow> string option
    \<Rightarrow> string option \<Rightarrow> store \<Rightarrow> AnalysisJob res \<times> store" where
  "update_job_status now job_id status stage fallback_reasons error_message message s =
     (case require_job s job_id of Inl e \<Rightarrow> (Inl e, s)
      | Inr job \<Rightarrow>
          let job = job\<lparr>aj_status := status, aj_polling_stage := stage, aj_updated_at := now,
                aj_stages := stage_progresses stage status now message,
                aj_execution_manifest := manifest_with_session_update (aj_execution_manifest job) status now None,
                aj_fallback_reasons := given_or fallback_reasons (aj_fallback_reasons job),
                aj_error_message := (if error_message \<noteq> None then error_message else aj_error_message job)\<rparr>
          in (Inr job, store_job job_id job s))"

definition complete_job :: "Services \<Rightarrow> instant \<Rightarrow> string \<Rightarrow> APIEnvelope \<Rightarrow> string list option \<Rightarrow> store \<Rightarrow> AnalysisJob res \<times> store" where
  "complete_job sv now job_id envelope fallback_reasons s =
     (case require_job s job_id of Inl e \<Rightarrow> (Inl e, s)
      | Inr job \<Rightarrow>
          let strategy_id = (if aj_strategy_id job = None then map_option ss_strategy_id (ev_strategy_spec envelope) else aj_strategy_id job);
              report_id = (if aj_report_id job = None \<and> up_report (ev_user_payload envelope) \<noteq> None
                           then Some (''report_'' @ aj_job_id job) else aj_report_id job)
          in (case manifest_from_completion sv (aj_execution_manifest job) envelope now strategy_id of
                Inl e \<Rightarrow> (Inl e, s)
              | Inr manifest \<Rightarrow>
                  let job = job\<lparr>aj_strategy_id := strategy_id, aj_report_id := report_id, aj_status := COMPLETED,
                        aj_polling_stage := FINALIZING, aj_updated_at := now, aj_completed_at := Some now,
                        aj_stages := stage_progresses FINALIZING COMPLETED now None, aj_result := Some envelope,
                        aj_debug_ref := Some (ev_debug_ref envelope),
                        aj_fallback_reasons := given_or fallback_reasons (aj_fallback_reasons job),
                        aj_error_message := None, aj_execution_manifest := manifest\<rparr>
                  in (Inr job, store_job job_id job s)))"

definition fail_job :: "instant \<Rightarrow> string \<Rightarrow> string \<Rightarrow> string list option \<Rightarrow> APIEnvelope option \<Rightarrow> store \<Rightarrow> AnalysisJob res \<times> store" where
  "fail_job now job_id error_message fallback_reasons result_envelope s =
     (case require_job s job_id of Inl e \<Rightarrow> (Inl e, s)
      | Inr job \<Rightarrow>
          (case (case result_envelope of Some r \<Rightarrow> Inr r | None \<Rightarrow> failure_envelope job error_message None) of
             Inl e \<Rightarrow> (Inl e, s)
           | Inr result \<Rightarrow>
               let result = result\<lparr>ev_status := FAILED_ENVELOPE\<rparr>;
                   failed_stage = (case ev_failure_cause result of Some d \<Rightarrow> fd_failure_stage d | None \<Rightarrow> aj_polling_stage job);
                   job = job\<lparr>aj_status := FAILED, aj_polling_stage := failed_stage, aj_updated_at := now,
                     aj_completed_at := Some now, aj_stages := stage_progresses failed_stage FAILED now (Some error_message),
                     aj_result := Some result, aj_debug_ref := Some (ev_debug_ref result),
                     aj_fallback_reasons := given_or fallback_reasons (aj_fallback_reasons job),
                     aj_error_message := Some error_message,
                     aj_execution_manifest := manifest_with_session_update (aj_execution_manifest job) FAILED now None\<rparr>
               in (Inr job, store_job job_id job s)))"

text \<open>\<open>owned[-limit:]\<close>.\<close>

definition slice_from :: "int \<Rightarrow> 'a list \<Rightarrow> 'a list" where
  "slice_from k xs = (if k < 0 then drop (nat (int (length xs) + k)) xs else drop (nat k) xs)"

definition list_jobs :: "store \<Rightarrow> int \<Rightarrow> string option \<Rightarrow> AnalysisJob list" where
  "list_jobs s limit user_id =
     slice_from (- limit) (filter (\<lambda>job. user_id = None \<or> aj_user_id job = user_id) (dvalues (st_jobs s)))"

section \<open>Cancellation\<close>

type_synonym CancellationRegistry = "string list"

definition cancel :: "string \<Rightarrow> CancellationRegistry \<Rightarrow> CancellationRegistry" where
  "cancel job_id c = List.insert job_id c"

definition is_cancelled :: "CancellationRegistry \<Rightarrow> string \<Rightarrow> bool" where
  "is_cancelled c job_id = (job_id \<in> set c)"

definition forget_cancellation :: "string \<Rightarrow> CancellationRegistry \<Rightarrow> CancellationRegistry" where
  "forget_cancellation job_id c = removeAll job_id c"

end
