(* ===== verification/Ai_Job_Props.thy ===== *)
theory Ai_Job_Props
  imports Ai_Jobs
begin

text \<open>
  What the job store promises its clients over any history of operations.  The locale
  \<open>parse_admission\<close> is the contract \<^verbatim>\<open>ParseBoundJobAdmissionStore\<close> of \<^verbatim>\<open>ai_graph/jobs.py\<close>: a parse
  token buys one job, and a retry with the same key gets the job it bought.  The consequences for
  whole histories are proved there and hold for the in-memory store by its interpretation.
\<close>

section \<open>Histories\<close>

datatype store_op =
    Op_Register string string string string instant
  | Op_Admit Fresh ParseBoundRequest
  | Op_Create Fresh JobRequest
  | Op_Update instant string AnalysisJobStatus Stage "string list option" "string option" "string option"
  | Op_Complete instant string APIEnvelope "string list option"
  | Op_Fail instant string string "string list option" "APIEnvelope option"
  | Op_Claim instant int
  | Op_Delivered string
  | Op_Release string
  | Op_Claim_Appendix instant int
  | Op_Complete_Appendix string string "(string, pyval) dict"
  | Op_Appendix_Unavailable string string string

fun apply_op :: "Services \<Rightarrow> store_op \<Rightarrow> store \<Rightarrow> store" where
  "apply_op sv (Op_Register n u v h e) s = register_parse_token n u v h e s"
| "apply_op sv (Op_Admit f p) s = snd (admit_parse_bound_job sv f p s)"
| "apply_op sv (Op_Create f r) s = snd (create_job sv f r s)"
| "apply_op sv (Op_Update t j st sg fr er m) s = snd (update_job_status t j st sg fr er m s)"
| "apply_op sv (Op_Complete t j e fr) s = snd (complete_job sv t j e fr s)"
| "apply_op sv (Op_Fail t j m fr e) s = snd (fail_job t j m fr e s)"
| "apply_op sv (Op_Claim t l) s = snd (claim_analysis_job_outbox t l s)"
| "apply_op sv (Op_Delivered i) s = mark_analysis_job_outbox_delivered i s"
| "apply_op sv (Op_Release i) s = release_analysis_job_outbox i s"
| "apply_op sv (Op_Claim_Appendix t l) s = snd (claim_research_appendix_outbox t l s)"
| "apply_op sv (Op_Complete_Appendix i j p) s = complete_research_appendix i j p s"
| "apply_op sv (Op_Appendix_Unavailable i j r) s = mark_research_appendix_unavailable i j r s"

definition run_ops :: "Services \<Rightarrow> store_op list \<Rightarrow> store \<Rightarrow> store" where
  "run_ops sv ops s = fold (apply_op sv) ops s"

section \<open>The admission contract\<close>

locale parse_admission =
  fixes admit :: "'f \<Rightarrow> 'p \<Rightarrow> 's \<Rightarrow> ('e + ('j \<times> bool)) \<times> 's"
    and step :: "'o \<Rightarrow> 's \<Rightarrow> 's"
    and nonce :: "'p \<Rightarrow> 'n" and key :: "'p \<Rightarrow> 'k" and spec :: "'p \<Rightarrow> 'h"
    and spent :: "'s \<Rightarrow> 'n \<Rightarrow> bool"
    and bound :: "'s \<Rightarrow> 'k \<Rightarrow> ('h \<times> 'j) option"
    and ok :: "'s \<Rightarrow> bool"
    and reused :: 'e
  assumes admit_created: "admit f p s = (Inr (j, True), s') \<Longrightarrow> spent s' (nonce p) \<and> bound s' (key p) = Some (spec p, j)"
    and admit_spent: "spent s (nonce p) \<Longrightarrow> admit f p s = (Inr (j, b), s') \<Longrightarrow> \<not> b"
    and admit_bound: "ok s \<Longrightarrow> bound s (key p) = Some (h, j)
           \<Longrightarrow> admit f p s = (if h = spec p then Inr (j, False) else Inl reused, s)"
    and ok_admit: "ok s \<Longrightarrow> ok (snd (admit f p s))"
    and ok_step: "ok s \<Longrightarrow> ok (step c s)"
    and spent_step: "spent s n \<Longrightarrow> spent (step c s) n"
    and bound_step: "bound s k = Some v \<Longrightarrow> bound (step c s) k = Some v"
begin

lemma run_keeps:
  "(ok s \<longrightarrow> ok (fold step cs s)) \<and> (spent s n \<longrightarrow> spent (fold step cs s) n)
     \<and> (bound s k = Some v \<longrightarrow> bound (fold step cs s) k = Some v)"
proof (induction cs arbitrary: s)
  case (Cons c cs)
  from Cons[of "step c s"] show ?case by (simp add: ok_step spent_step bound_step)
qed simp

text \<open>Once a token has bought a job, no later admission with it buys another.\<close>

lemma token_buys_once:
  assumes "admit f p s = (Inr (j, True), s1)" and "nonce q = nonce p"
    and "admit f' q (fold step cs s1) = (Inr (j', b), s2)"
  shows "\<not> b"
  using admit_spent[OF _ assms(3)] run_keeps[of s1 cs "nonce p"] admit_created[OF assms(1)] assms(2) by auto

text \<open>A retry with the same key gets the same job and changes nothing; the key with another
  specification is refused.\<close>

lemma retry_gets_same_job:
  assumes "ok s" and "admit f p s = (Inr (j, True), s1)" and "key q = key p"
  shows "admit f' q (fold step cs s1) = (if spec q = spec p then Inr (j, False) else Inl reused, fold step cs s1)"
proof -
  have "ok s1" using ok_admit[OF assms(1), of f p] assms(2) by simp
  then have "ok (fold step cs s1)" using run_keeps by blast
  moreover have "bound (fold step cs s1) (key q) = Some (spec p, j)"
    using admit_created[OF assms(2)] run_keeps assms(3) by metis
  ultimately show ?thesis by (subst admit_bound[where h = "spec p" and j = j]) auto
qed

end

section \<open>The in-memory store keeps the contract\<close>

definition token_spent :: "store \<Rightarrow> string \<Rightarrow> bool" where
  "token_spent s n = (case dget (st_parse_tokens s) n of Some t \<Rightarrow> pt_used t | None \<Rightarrow> False)"

definition key_bound :: "store \<Rightarrow> string \<times> string \<Rightarrow> (string \<times> string) option" where
  "key_bound s k = dget (st_parse_idempotency s) k"

text \<open>Every stored job is stored under its own identifier, and every bound key points to a stored job.\<close>

definition jobs_ok :: "store \<Rightarrow> bool" where
  "jobs_ok s \<longleftrightarrow> (\<forall>j job. get_job s j = Some job \<longrightarrow> aj_job_id job = j)
     \<and> (\<forall>k h j. key_bound s k = Some (h, j) \<longrightarrow> get_job s j \<noteq> None)"

definition admit_id :: "Services \<Rightarrow> Fresh \<Rightarrow> ParseBoundRequest \<Rightarrow> store \<Rightarrow> (py_error + (string \<times> bool)) \<times> store" where
  "admit_id sv f p s = (case admit_parse_bound_job sv f p s of
     (Inl e, s') \<Rightarrow> (Inl e, s') | (Inr a, s') \<Rightarrow> (Inr (aj_job_id (ad_job a), ad_created a), s'))"

abbreviation request_key :: "ParseBoundRequest \<Rightarrow> string \<times> string" where
  "request_key p \<equiv> (pr_user_id p, pr_client_idempotency_key p)"

text \<open>An operation that only touches the outboxes and appendices.\<close>

lemma jobs_ok_frame:
  "st_jobs s' = st_jobs s \<Longrightarrow> st_parse_idempotency s' = st_parse_idempotency s \<Longrightarrow> jobs_ok s' = jobs_ok s"
  by (simp add: jobs_ok_def get_job_def key_bound_def)

lemma outbox_ops_frame:
  "st_jobs (snd (claim_analysis_job_outbox t l s)) = st_jobs s"
  "st_parse_tokens (snd (claim_analysis_job_outbox t l s)) = st_parse_tokens s"
  "st_parse_idempotency (snd (claim_analysis_job_outbox t l s)) = st_parse_idempotency s"
  "st_jobs (snd (claim_research_appendix_outbox t l s)) = st_jobs s"
  "st_parse_tokens (snd (claim_research_appendix_outbox t l s)) = st_parse_tokens s"
  "st_parse_idempotency (snd (claim_research_appendix_outbox t l s)) = st_parse_idempotency s"
  "st_jobs (settle_appendix i j a s) = st_jobs s"
  "st_parse_tokens (settle_appendix i j a s) = st_parse_tokens s"
  "st_parse_idempotency (settle_appendix i j a s) = st_parse_idempotency s"
  by (simp_all add: claim_analysis_job_outbox_def claim_research_appendix_outbox_def settle_appendix_def Let_def
      split: prod.split option.split)

lemmas outbox_defs = mark_analysis_job_outbox_delivered_def release_analysis_job_outbox_def
  complete_research_appendix_def mark_research_appendix_unavailable_def

text \<open>Creating a job writes one job under its own identifier, and nothing else.\<close>

lemma create_job_cases:
  assumes "create_job sv f r s = (res, s')"
  shows "(\<exists>e. res = Inl e \<and> s' = s) \<or> (\<exists>job. res = Inr job \<and> s' = put_job job s)"
proof (cases "rbind (normalized_execution_spec f r) (new_job sv f r)")
  case (Inl e)
  then have "create_job sv f r s = (Inl e, s)" by (simp add: create_job_def)
  with assms show ?thesis by auto
next
  case (Inr job)
  then have "create_job sv f r s = (Inr job, put_job job s)" by (simp add: create_job_def)
  with assms show ?thesis by auto
qed

text \<open>A status change rewrites one stored job and keeps its identifier.\<close>

definition rewrites_job :: "store \<Rightarrow> store \<Rightarrow> bool" where
  "rewrites_job s s' \<longleftrightarrow> s' = s \<or> (\<exists>j job job'. get_job s j = Some job \<and> aj_job_id job' = aj_job_id job \<and> s' = store_job j job' s)"

lemma rewrites_jobI [simp]:
  "rewrites_job s s" "get_job s j = Some job \<Longrightarrow> aj_job_id job' = aj_job_id job \<Longrightarrow> rewrites_job s (store_job j job' s)"
  by (auto simp: rewrites_job_def)

lemma status_ops_rewrite:
  "rewrites_job s (snd (update_job_status t j st sg fr er m s))"
  "rewrites_job s (snd (complete_job sv t j e fr s))"
  "rewrites_job s (snd (fail_job t j msg fr e' s))"
  by (cases "get_job s j"; simp add: update_job_status_def complete_job_def fail_job_def require_job_def Let_def
      split: sum.split)+

lemma rewrites_job_frame:
  assumes "rewrites_job s s'"
  shows "st_parse_tokens s' = st_parse_tokens s" "st_parse_idempotency s' = st_parse_idempotency s"
    "st_analysis_job_outbox s' = st_analysis_job_outbox s" "jobs_ok s \<Longrightarrow> jobs_ok s'"
  using assms by (auto simp: rewrites_job_def store_job_def jobs_ok_def get_job_def key_bound_def dget_dset split: if_splits)

lemma put_job_ok: "jobs_ok s \<Longrightarrow> jobs_ok (put_job job s)"
  by (auto simp: jobs_ok_def put_job_def get_job_def key_bound_def dget_dset)

lemma enqueue_facts:
  "st_parse_tokens (enqueue_admitted f p j s) = st_parse_tokens s"
  "st_jobs (enqueue_admitted f p j s) = st_jobs s"
  "st_parse_idempotency (enqueue_admitted f p j s) = dset (request_key p) (pr_spec_hash p, j) (st_parse_idempotency s)"
  "st_analysis_job_outbox (enqueue_admitted f p j s) = dset (fr_outbox_id f) (pending_record j) (st_analysis_job_outbox s)"
  by (simp_all add: enqueue_admitted_def Let_def)

lemma enqueue_ok: "jobs_ok s \<Longrightarrow> get_job s j \<noteq> None \<Longrightarrow> jobs_ok (enqueue_admitted f p j s)"
  by (auto simp: jobs_ok_def get_job_def key_bound_def enqueue_facts dget_dset split: if_splits)

text \<open>The three ways an admission ends.\<close>

definition spend :: "string \<Rightarrow> ParseToken \<Rightarrow> store \<Rightarrow> store" where
  "spend n t s = s\<lparr>st_parse_tokens := dset n (t\<lparr>pt_used := True\<rparr>) (st_parse_tokens s)\<rparr>"

lemma admit_cases:
  assumes "admit_parse_bound_job sv f p s = (r, s')"
  obtains (old) "s' = s" and "\<And>a. r = Inr a \<Longrightarrow> \<not> ad_created a"
  | (broken) t e where "key_bound s (request_key p) = None" and "dget (st_parse_tokens s) (pr_nonce_hash p) = Some t"
      and "\<not> pt_used t" and "r = Inl e" and "s' = spend (pr_nonce_hash p) t s"
  | (new) t job where "key_bound s (request_key p) = None" and "dget (st_parse_tokens s) (pr_nonce_hash p) = Some t"
      and "\<not> pt_used t" and "r = Inr \<lparr>ad_job = job, ad_created = True, ad_outbox_id = Some (fr_outbox_id f)\<rparr>"
      and "s' = enqueue_admitted f p (aj_job_id job) (put_job job (spend (pr_nonce_hash p) t s))"
      and "create_job sv f (job_request_of p) (spend (pr_nonce_hash p) t s) = (Inr job, put_job job (spend (pr_nonce_hash p) t s))"
proof (cases "key_bound s (request_key p)")
  case (Some v)
  then show ?thesis using assms old
    by (cases v) (auto simp: admit_parse_bound_job_def key_bound_def split: option.splits if_splits)
next
  case None
  show ?thesis
  proof (cases "dget (st_parse_tokens s) (pr_nonce_hash p)")
    case None
    then show ?thesis using assms old \<open>key_bound s (request_key p) = None\<close>
      by (auto simp: admit_parse_bound_job_def key_bound_def)
  next
    case (Some t)
    note k = \<open>key_bound s (request_key p) = None\<close>
    show ?thesis
    proof (cases "token_refused (Some t) (pr_user_id p) (pr_spec_version p) (pr_spec_hash p) (fr_now f)")
      case True
      then show ?thesis using assms old k Some by (auto simp: admit_parse_bound_job_def key_bound_def)
    next
      case False
      then have u: "\<not> pt_used t" by (simp add: token_refused_def)
      obtain r' s1 where c: "create_job sv f (job_request_of p) (spend (pr_nonce_hash p) t s) = (r', s1)" by fastforce
      have admit: "admit_parse_bound_job sv f p s = (case (r', s1) of (Inl e, s) \<Rightarrow> (Inl e, s)
          | (Inr job, s) \<Rightarrow> (Inr \<lparr>ad_job = job, ad_created = True, ad_outbox_id = Some (fr_outbox_id f)\<rparr>,
                             enqueue_admitted f p (aj_job_id job) s))"
        using k Some False by (simp add: admit_parse_bound_job_def key_bound_def Let_def c[symmetric] spend_def)
      from create_job_cases[OF c] show ?thesis
        using assms admit broken[OF k Some u] new[OF k Some u] c by auto
    qed
  qed
qed

text \<open>What one operation keeps.\<close>

lemma spend_ok: "jobs_ok (spend n t s) = jobs_ok s" "key_bound (spend n t s) = key_bound s"
  by (auto simp: spend_def jobs_ok_def get_job_def key_bound_def)

lemma get_put_job [simp]: "get_job (put_job job s) (aj_job_id job) = Some job"
  by (simp add: get_job_def put_job_def dget_dset)

lemma admit_keeps:
  assumes "admit_parse_bound_job sv f p s = (r, s')"
  shows "jobs_ok s \<Longrightarrow> jobs_ok s'" "token_spent s n \<Longrightarrow> token_spent s' n" "key_bound s k = Some v \<Longrightarrow> key_bound s' k = Some v"
proof -
  have put: "st_parse_tokens (put_job job x) = st_parse_tokens x" "st_parse_idempotency (put_job job x) = st_parse_idempotency x"
    for job x by (simp_all add: put_job_def)
  have idem: "st_parse_idempotency (spend m t x) = st_parse_idempotency x" for m t x by (simp add: spend_def)
  from assms show "jobs_ok s'" if "jobs_ok s"
    by (cases rule: admit_cases) (use that in \<open>auto intro!: enqueue_ok put_job_ok simp: spend_ok\<close>)
  from assms show "token_spent s' n" if "token_spent s n"
    by (cases rule: admit_cases)
       (use that in \<open>auto simp: token_spent_def enqueue_facts put spend_def dget_dset\<close>)
  from assms show "key_bound s' k = Some v" if "key_bound s k = Some v"
    by (cases rule: admit_cases)
       (use that in \<open>auto simp: key_bound_def enqueue_facts put idem dget_dset\<close>)
qed

lemma op_keeps:
  "jobs_ok s \<Longrightarrow> jobs_ok (apply_op sv c s)"
  "token_spent s n \<Longrightarrow> token_spent (apply_op sv c s) n"
  "key_bound s k = Some v \<Longrightarrow> key_bound (apply_op sv c s) k = Some v"
proof -
  have "(jobs_ok s \<longrightarrow> jobs_ok (apply_op sv c s)) \<and> (token_spent s n \<longrightarrow> token_spent (apply_op sv c s) n)
      \<and> (key_bound s k = Some v \<longrightarrow> key_bound (apply_op sv c s) k = Some v)"
  proof (cases c)
    case (Op_Register n' u v' h e)
    then show ?thesis
      by (auto simp: register_parse_token_def token_spent_def jobs_ok_def get_job_def key_bound_def dget_dset has_key_def)
  next
    case (Op_Admit f p)
    then show ?thesis using admit_keeps[of sv f p s "fst (admit_parse_bound_job sv f p s)"] by simp
  next
    case (Op_Create f r)
    obtain res s' where cr: "create_job sv f r s = (res, s')" by fastforce
    from create_job_cases[OF cr] have "s' = s \<or> (\<exists>job. s' = put_job job s)" by blast
    moreover have "apply_op sv c s = s'" using Op_Create cr by simp
    ultimately show ?thesis by (auto simp: put_job_ok) (auto simp: put_job_def token_spent_def key_bound_def)
  next
    case (Op_Update t j st sg fr er m)
    then show ?thesis using rewrites_job_frame[OF status_ops_rewrite(1)] by (simp add: token_spent_def key_bound_def)
  next
    case (Op_Complete t j e fr)
    then show ?thesis using rewrites_job_frame[OF status_ops_rewrite(2)] by (simp add: token_spent_def key_bound_def)
  next
    case (Op_Fail t j m fr e)
    then show ?thesis using rewrites_job_frame[OF status_ops_rewrite(3)] by (simp add: token_spent_def key_bound_def)
  qed (simp_all add: outbox_ops_frame outbox_defs jobs_ok_def get_job_def key_bound_def token_spent_def)
  then show "jobs_ok s \<Longrightarrow> jobs_ok (apply_op sv c s)"
    "token_spent s n \<Longrightarrow> token_spent (apply_op sv c s) n"
    "key_bound s k = Some v \<Longrightarrow> key_bound (apply_op sv c s) k = Some v" by blast+
qed

lemma admit_id_Inr: "admit_id sv f p s = (Inr (j, b), s') \<Longrightarrow>
   \<exists>a. admit_parse_bound_job sv f p s = (Inr a, s') \<and> j = aj_job_id (ad_job a) \<and> b = ad_created a"
  by (auto simp: admit_id_def split: prod.splits sum.splits)

lemma snd_admit_id: "snd (admit_id sv f p s) = snd (admit_parse_bound_job sv f p s)"
  by (auto simp: admit_id_def split: prod.splits sum.splits)

interpretation memory_store: parse_admission "admit_id sv" "apply_op sv" pr_nonce_hash request_key pr_spec_hash
    token_spent key_bound jobs_ok "RuntimeError ''idempotency_key_reused''" for sv
proof unfold_locales
  fix f p s j b s' h and c
  show "token_spent s' (pr_nonce_hash p) \<and> key_bound s' (request_key p) = Some (pr_spec_hash p, j)"
    if "admit_id sv f p s = (Inr (j, True), s')"
  proof -
    from admit_id_Inr[OF that] obtain a where a: "admit_parse_bound_job sv f p s = (Inr a, s')" "j = aj_job_id (ad_job a)" "ad_created a"
      by auto
    from a(1) show ?thesis
      by (cases rule: admit_cases)
         (use a(2,3) in \<open>auto simp: token_spent_def key_bound_def enqueue_facts put_job_def spend_def dget_dset\<close>)
  qed
  show "\<not> b" if "token_spent s (pr_nonce_hash p)" "admit_id sv f p s = (Inr (j, b), s')"
  proof -
    from admit_id_Inr[OF that(2)] obtain a where a: "admit_parse_bound_job sv f p s = (Inr a, s')" "b = ad_created a" by auto
    from a(1) show ?thesis
      by (cases rule: admit_cases) (use a(2) that(1) in \<open>auto simp: token_spent_def\<close>)
  qed
  show "admit_id sv f p s = (if h = pr_spec_hash p then Inr (j, False) else Inl (RuntimeError ''idempotency_key_reused''), s)"
    if "jobs_ok s" "key_bound s (request_key p) = Some (h, j)"
  proof -
    from that obtain job where "get_job s j = Some job" "aj_job_id job = j" unfolding jobs_ok_def by blast
    with that(2) show ?thesis by (simp add: admit_id_def admit_parse_bound_job_def key_bound_def)
  qed
  show "jobs_ok (snd (admit_id sv f p s))" if "jobs_ok s"
    using admit_keeps(1)[of sv f p s "fst (admit_parse_bound_job sv f p s)"] that by (simp add: snd_admit_id)
qed (auto intro: op_keeps)

section \<open>Claims\<close>

text \<open>The messages a claim could take, in the order of the outbox.\<close>

definition claimable :: "(OutboxRecord \<Rightarrow> bool) \<Rightarrow> outbox \<Rightarrow> (string \<times> string) list" where
  "claimable eligible ob = map (\<lambda>(i, r). (i, ob_job_id r)) (filter (\<lambda>(i, r). eligible r) ob)"

definition leased :: "instant \<Rightarrow> string \<Rightarrow> OutboxRecord" where
  "leased now job_id = \<lparr>ob_job_id = job_id, ob_state = Claimed, ob_claimed_at = Some now\<rparr>"

text \<open>The loop takes the first messages up to the limit (one even when the limit is zero), and exactly
  their records are marked.\<close>

lemma claim_loop_spec:
  assumes "claim_loop eligible now limit items claimed ob = (claimed', ob')" and "distinct (map fst items)"
  defines "ms \<equiv> take (max 1 (nat (limit - int (length claimed)))) (claimable eligible items)"
  shows "claimed' = claimed @ ms
    \<and> (\<forall>k. dget ob' k = (case map_of ms k of Some j \<Rightarrow> Some (leased now j) | None \<Rightarrow> dget ob k))"
  using assms(1,2) unfolding ms_def
proof (induction items arbitrary: claimed ob)
  case Nil
  then show ?case by (simp add: claimable_def)
next
  case (Cons p rest)
  obtain i r where p: "p = (i, r)" by (cases p)
  have run: "claim_loop eligible now limit ((i, r) # rest) claimed ob = (claimed', ob')"
    and dist: "distinct (map fst ((i, r) # rest))" using Cons.prems by (simp_all add: p)
  show ?case
  proof (cases "eligible r")
    case False
    with run dist Cons.IH[of claimed ob] show ?thesis by (simp add: claimable_def p)
  next
    case el: True
    let ?x = "(i, ob_job_id r)"
    let ?ob = "dset i (leased now (ob_job_id r)) ob"
    have cl: "claimable eligible ((i, r) # rest) = ?x # claimable eligible rest"
      using el by (simp add: claimable_def)
    show ?thesis
    proof (cases "limit \<le> int (length (claimed @ [?x]))")
      case True
      then have "claimed' = claimed @ [?x]" "ob' = ?ob" using el run by (simp_all add: Let_def leased_def)
      moreover have "max 1 (nat (limit - int (length claimed))) = 1" using True by simp
      ultimately show ?thesis by (simp add: p cl dget_dset)
    next
      case False
      then have "claim_loop eligible now limit rest (claimed @ [?x]) ?ob = (claimed', ob')"
        using el run by (simp add: Let_def leased_def)
      note ih = Cons.IH[OF this]
      define n where "n = nat (limit - int (length (claimed @ [?x])))"
      have n: "max 1 (nat (limit - int (length claimed))) = Suc n" "max 1 (nat (limit - int (length (claimed @ [?x])))) = n"
        using False by (auto simp: n_def)
      have "i \<notin> fst ` set (claimable eligible rest)" using dist by (force simp: claimable_def)
      then have "map_of (take n (claimable eligible rest)) i = None"
        using set_take_subset[of n "claimable eligible rest"] by (auto simp: map_of_eq_None_iff)
      with ih n dist show ?thesis by (auto simp: p cl dget_dset split: option.split)
    qed
  qed
qed

definition outbox_ok :: "store \<Rightarrow> bool" where
  "outbox_ok s \<longleftrightarrow> dict_ok (st_analysis_job_outbox s)"

lemma claim_analysis_spec:
  assumes "claim_analysis_job_outbox now limit s = (ms, s')" and "1 \<le> limit" and "outbox_ok s"
  shows "ms = take (nat limit) (claimable (analysis_claimable s now) (st_analysis_job_outbox s))"
    and "dget (st_analysis_job_outbox s') k =
      (case map_of ms k of Some j \<Rightarrow> Some (leased now j) | None \<Rightarrow> dget (st_analysis_job_outbox s) k)"
proof -
  obtain ob where "claim_loop (analysis_claimable s now) now limit (st_analysis_job_outbox s) [] (st_analysis_job_outbox s) = (ms, ob)"
    and s': "s' = s\<lparr>st_analysis_job_outbox := ob\<rparr>"
    using assms(1,2) by (auto simp: claim_analysis_job_outbox_def split: prod.splits)
  from claim_loop_spec[OF this(1)] assms(2,3)
  have "ms = take (nat limit) (claimable (analysis_claimable s now) (st_analysis_job_outbox s))"
    and "dget ob k = (case map_of ms k of Some j \<Rightarrow> Some (leased now j) | None \<Rightarrow> dget (st_analysis_job_outbox s) k)"
    by (auto simp: outbox_ok_def dict_ok_def max_def)
  then show "ms = take (nat limit) (claimable (analysis_claimable s now) (st_analysis_job_outbox s))"
    "dget (st_analysis_job_outbox s') k =
      (case map_of ms k of Some j \<Rightarrow> Some (leased now j) | None \<Rightarrow> dget (st_analysis_job_outbox s) k)"
    by (simp_all add: s')
qed

lemma claimable_in: "(i, j) \<in> set (claimable el ob) \<Longrightarrow> dict_ok ob \<Longrightarrow> \<exists>r. dget ob i = Some r \<and> el r \<and> ob_job_id r = j"
  by (auto simp: claimable_def intro: dget_SomeI)

text \<open>A claim keeps the keys of the outbox and their order.\<close>

lemma dkeys_dset: "has_key d k \<Longrightarrow> dkeys (dset k v d) = dkeys d"
  by (induction d) (auto simp: dset_def dkeys_def has_key_def dget_def)

lemma claim_loop_keys:
  "claim_loop eligible now limit items claimed ob = (claimed', ob') \<Longrightarrow> set (map fst items) \<subseteq> set (dkeys ob) \<Longrightarrow> dkeys ob' = dkeys ob"
  by (induction eligible now limit items claimed ob rule: claim_loop.induct)
     (auto simp: Let_def dkeys_dset has_key_iff split: if_splits)

lemma claim_analysis_keys:
  "claim_analysis_job_outbox now limit s = (ms, s') \<Longrightarrow> dkeys (st_analysis_job_outbox s') = dkeys (st_analysis_job_outbox s)"
proof -
  assume run: "claim_analysis_job_outbox now limit s = (ms, s')"
  show ?thesis
  proof (cases "limit < 1")
    case True
    with run show ?thesis by (simp add: claim_analysis_job_outbox_def)
  next
    case False
    obtain ob where "claim_loop (analysis_claimable s now) now limit (st_analysis_job_outbox s) [] (st_analysis_job_outbox s) = (ms, ob)"
      and "s' = s\<lparr>st_analysis_job_outbox := ob\<rparr>"
      using run False by (auto simp: claim_analysis_job_outbox_def split: prod.splits)
    with claim_loop_keys show ?thesis by (fastforce simp: dkeys_def)
  qed
qed

lemma claimable_by_keys:
  assumes "dict_ok ob"
  shows "claimable el ob = map (\<lambda>k. (k, ob_job_id (the (dget ob k)))) (filter (\<lambda>k. el (the (dget ob k))) (dkeys ob))"
proof -
  have "dget ob (fst p) = Some (snd p)" if "p \<in> set ob" for p
    using dget_SomeI[OF assms, of "fst p" "snd p"] that by simp
  then have "filter (\<lambda>k. el (the (dget ob k))) (map fst ob) = map fst (filter (\<lambda>(i, r). el r) ob)"
    and "map (\<lambda>k. (k, ob_job_id (the (dget ob k)))) (map fst (filter (\<lambda>(i, r). el r) ob))
      = map (\<lambda>(i, r). (i, ob_job_id r)) (filter (\<lambda>(i, r). el r) ob)"
    by (auto simp: filter_map o_def case_prod_beta cong: filter_cong)
  then show ?thesis by (simp add: claimable_def dkeys_def)
qed

lemma filter_not_taken: "distinct ys \<Longrightarrow> filter (\<lambda>x. x \<notin> set (take n ys)) ys = drop n ys"
proof -
  assume d: "distinct ys"
  then have "set (take n ys) \<inter> set (drop n ys) = {}"
    by (metis append_take_drop_id distinct_append)
  then have "filter (\<lambda>x. x \<notin> set (take n ys)) (drop n ys) = drop n ys"
    by (auto simp: filter_id_conv)
  moreover have "filter (\<lambda>x. x \<notin> set (take n ys)) (take n ys) = []" by (simp add: filter_empty_conv)
  ultimately show ?thesis
    by (metis append_Nil append_take_drop_id filter_append)
qed

text \<open>What a claim leaves for the next one at the same time is the rest of the list.\<close>

lemma claim_leaves_rest:
  assumes run: "claim_analysis_job_outbox now limit s = (ms, s')" and "1 \<le> limit" and ok: "outbox_ok s"
  shows "claimable (analysis_claimable s' now) (st_analysis_job_outbox s')
      = drop (nat limit) (claimable (analysis_claimable s now) (st_analysis_job_outbox s))"
    and "outbox_ok s'"
proof -
  let ?ob = "st_analysis_job_outbox s" and ?ob' = "st_analysis_job_outbox s'"
  define job where "job k = ob_job_id (the (dget ?ob k))" for k
  define ys where "ys = filter (\<lambda>k. analysis_claimable s now (the (dget ?ob k))) (dkeys ?ob)"
  have d: "dict_ok ?ob" using ok by (simp add: outbox_ok_def)
  note keys = claim_analysis_keys[OF run] and spec = claim_analysis_spec[OF run assms(2) ok]
  have d': "dict_ok ?ob'" using d keys by (simp add: dict_ok_def dkeys_def)
  then show "outbox_ok s'" by (simp add: outbox_ok_def)
  have ms: "ms = map (\<lambda>k. (k, job k)) (take (nat limit) ys)"
    using spec(1) claimable_by_keys[OF d] by (simp add: take_map ys_def job_def)
  have "map_of (map (\<lambda>k. (k, job k)) zs) k = (if k \<in> set zs then Some (job k) else None)" for zs k
    by (induction zs) auto
  then have mof: "map_of ms k = (if k \<in> set (take (nat limit) ys) then Some (job k) else None)" for k
    by (simp add: ms)
  have jobs: "get_job s' = get_job s"
    using outbox_ops_frame(1)[of now limit s] run by (auto simp: get_job_def fun_eq_iff)
  have rec: "dget ?ob' k = (if k \<in> set (take (nat limit) ys) then Some (leased now (job k)) else dget ?ob k)" for k
    using spec(2)[of k] by (simp add: mof)
  have "analysis_claimable s' now (the (dget ?ob' k)) \<longleftrightarrow> k \<notin> set (take (nat limit) ys) \<and> analysis_claimable s now (the (dget ?ob k))" for k
    using rec[of k] by (simp add: analysis_claimable_def jobs leased_def LEASE_MICROSECONDS_def)
  then have "filter (\<lambda>k. analysis_claimable s' now (the (dget ?ob' k))) (dkeys ?ob') = filter (\<lambda>k. k \<notin> set (take (nat limit) ys)) ys"
    by (simp add: keys ys_def conj_commute)
  also have "\<dots> = drop (nat limit) ys"
    using d by (intro filter_not_taken) (simp add: ys_def dict_ok_def dkeys_def)
  finally have f: "filter (\<lambda>k. analysis_claimable s' now (the (dget ?ob' k))) (dkeys ?ob') = drop (nat limit) ys" .
  have "ob_job_id (the (dget ?ob' k)) = job k" for k
    by (simp add: rec job_def leased_def)
  then show "claimable (analysis_claimable s' now) ?ob' = drop (nat limit) (claimable (analysis_claimable s now) ?ob)"
    unfolding claimable_by_keys[OF d'] claimable_by_keys[OF d] f by (simp add: drop_map ys_def job_def)
qed

section \<open>Leases over histories\<close>

text \<open>A message is held since \<open>t\<close>: delivered, or claimed no earlier than \<open>t\<close>.  A history keeps the lease
  when it does not hand the message back and draws no identifier that is taken.\<close>

definition held_since :: "store \<Rightarrow> string \<Rightarrow> instant \<Rightarrow> bool" where
  "held_since s i t \<longleftrightarrow> (\<exists>r. dget (st_analysis_job_outbox s) i = Some r
     \<and> (ob_state r = Delivered \<or> (ob_state r = Claimed \<and> (\<exists>u. ob_claimed_at r = Some u \<and> t \<le> u))))"

fun keeps_lease :: "string \<Rightarrow> store_op \<Rightarrow> bool" where
  "keeps_lease i (Op_Release k) = (k \<noteq> i)"
| "keeps_lease i (Op_Admit f p) = (fr_outbox_id f \<noteq> i)"
| "keeps_lease i _ = True"

lemma held_frame: "st_analysis_job_outbox s' = st_analysis_job_outbox s \<Longrightarrow> held_since s' i t = held_since s i t"
  by (simp add: held_since_def)

lemma outbox_frame:
  "st_analysis_job_outbox (register_parse_token n u v h e s) = st_analysis_job_outbox s"
  "st_analysis_job_outbox (snd (create_job sv f r s)) = st_analysis_job_outbox s"
  "st_analysis_job_outbox (snd (claim_research_appendix_outbox now l s)) = st_analysis_job_outbox s"
  "st_analysis_job_outbox (settle_appendix i j a s) = st_analysis_job_outbox s"
  by (simp_all add: register_parse_token_def create_job_def put_job_def claim_research_appendix_outbox_def
      settle_appendix_def Let_def split: sum.split prod.split option.split)

lemma outbox_admit:
  assumes "admit_parse_bound_job sv f p s = (r, s')"
  shows "st_analysis_job_outbox s' = st_analysis_job_outbox s
    \<or> (\<exists>j. st_analysis_job_outbox s' = dset (fr_outbox_id f) (pending_record j) (st_analysis_job_outbox s))"
  using assms by (cases rule: admit_cases) (auto simp: enqueue_facts put_job_def spend_def)

lemma not_claimable_while_held:
  assumes "held_since s i t" and "now \<le> t + LEASE_MICROSECONDS" and "outbox_ok s"
  shows "i \<notin> fst ` set (fst (claim_analysis_job_outbox now l s))"
proof (cases "1 \<le> l")
  case False
  then show ?thesis by (simp add: claim_analysis_job_outbox_def)
next
  case True
  obtain ms s' where run: "claim_analysis_job_outbox now l s = (ms, s')" by fastforce
  have "set ms \<subseteq> set (claimable (analysis_claimable s now) (st_analysis_job_outbox s))"
    using claim_analysis_spec(1)[OF run True assms(3)] set_take_subset by metis
  then have "(i, j) \<notin> set ms" for j
    using claimable_in[of i j "analysis_claimable s now" "st_analysis_job_outbox s"] assms
    by (auto simp: outbox_ok_def held_since_def analysis_claimable_def)
  then show ?thesis using run by force
qed

lemma held_claim:
  assumes "held_since s i t" and "outbox_ok s"
  shows "held_since (snd (claim_analysis_job_outbox now l s)) i t"
proof (cases "1 \<le> l")
  case False
  then show ?thesis using assms by (simp add: claim_analysis_job_outbox_def)
next
  case True
  obtain ms s' where run: "claim_analysis_job_outbox now l s = (ms, s')" by fastforce
  note spec = claim_analysis_spec[OF run True assms(2)]
  show ?thesis
  proof (cases "map_of ms i")
    case None
    with spec(2)[of i] assms(1) run show ?thesis by (simp add: held_since_def)
  next
    case (Some j)
    then have "i \<in> fst ` set ms" by (metis map_of_eq_None_iff option.distinct(1))
    then have "\<not> now \<le> t + LEASE_MICROSECONDS"
      using not_claimable_while_held[OF assms(1) _ assms(2), of now l] run by auto
    then have "t \<le> now" by (simp add: LEASE_MICROSECONDS_def)
    with spec(2)[of i] Some run show ?thesis by (simp add: held_since_def leased_def)
  qed
qed

lemma outbox_step:
  assumes "outbox_ok s"
  shows "outbox_ok (apply_op sv c s)" and "held_since s i t \<Longrightarrow> keeps_lease i c \<Longrightarrow> held_since (apply_op sv c s) i t"
proof -
  have frame: "outbox_ok s' \<and> (held_since s i t \<longrightarrow> held_since s' i t)"
    if "st_analysis_job_outbox s' = st_analysis_job_outbox s" for s'
    using that assms held_frame[OF that] by (simp add: outbox_ok_def)
  have move: "outbox_ok (s\<lparr>st_analysis_job_outbox := move_claimed k st g (st_analysis_job_outbox s)\<rparr>)" for k st g
    using assms by (auto simp: outbox_ok_def move_claimed_def dict_ok_dset split: option.split)
  have "outbox_ok (apply_op sv c s) \<and> (held_since s i t \<and> keeps_lease i c \<longrightarrow> held_since (apply_op sv c s) i t)"
  proof (cases c)
    case (Op_Admit f p)
    obtain r s' where adm: "admit_parse_bound_job sv f p s = (r, s')" by fastforce
    then have s': "apply_op sv c s = s'" using Op_Admit by simp
    from outbox_admit[OF adm] show ?thesis
    proof (elim disjE exE)
      assume "st_analysis_job_outbox s' = st_analysis_job_outbox s"
      then show ?thesis using frame s' by blast
    next
      fix j assume "st_analysis_job_outbox s' = dset (fr_outbox_id f) (pending_record j) (st_analysis_job_outbox s)"
      then show ?thesis using Op_Admit assms s' by (auto simp: outbox_ok_def dict_ok_dset held_since_def dget_dset)
    qed
  next
    case (Op_Claim u l)
    have "outbox_ok (snd (claim_analysis_job_outbox u l s))"
    proof -
      have "dkeys (st_analysis_job_outbox (snd (claim_analysis_job_outbox u l s))) = dkeys (st_analysis_job_outbox s)"
        by (rule claim_analysis_keys[where ms = "fst (claim_analysis_job_outbox u l s)"]) simp
      with assms show ?thesis by (simp add: outbox_ok_def dict_ok_def dkeys_def)
    qed
    with Op_Claim held_claim[OF _ assms, of i t u l] show ?thesis by auto
  next
    case (Op_Delivered k)
    then show ?thesis using move[of k Delivered ob_claimed_at] assms
      by (auto simp: mark_analysis_job_outbox_delivered_def held_since_def move_claimed_def dget_dset split: option.split)
  next
    case (Op_Release k)
    then show ?thesis using move[of k Pending "\<lambda>r. None"] assms
      by (auto simp: release_analysis_job_outbox_def held_since_def move_claimed_def dget_dset split: option.split)
  qed (use frame rewrites_job_frame(3)[OF status_ops_rewrite(1)] rewrites_job_frame(3)[OF status_ops_rewrite(2)]
        rewrites_job_frame(3)[OF status_ops_rewrite(3)] in
      \<open>simp_all add: outbox_frame complete_research_appendix_def mark_research_appendix_unavailable_def\<close>)
  then show "outbox_ok (apply_op sv c s)" "held_since s i t \<Longrightarrow> keeps_lease i c \<Longrightarrow> held_since (apply_op sv c s) i t"
    by auto
qed

lemma run_held:
  assumes "outbox_ok s" and "held_since s i t" and "list_all (keeps_lease i) ops"
  shows "outbox_ok (run_ops sv ops s) \<and> held_since (run_ops sv ops s) i t"
  using assms
proof (induction ops arbitrary: s)
  case (Cons c ops)
  from Cons.IH[OF outbox_step(1)[OF Cons.prems(1)] outbox_step(2)[OF Cons.prems(1,2)]] Cons.prems(3)
  show ?case by (simp add: run_ops_def)
qed (simp add: run_ops_def)

end
