(* ===== verification/Ai_Job_Properties.thy ===== *)
theory Ai_Job_Properties
  imports Ai_Job_Props
begin

text \<open>
  The properties of the in-memory job store over every history that starts with the empty store,
  and the concrete history their witnesses run on.
\<close>

lemma run_ops_append: "run_ops sv (as @ bs) s = run_ops sv bs (run_ops sv as s)"
  by (simp add: run_ops_def)

lemma reachable_ok: "jobs_ok (run_ops sv ops empty_store) \<and> outbox_ok (run_ops sv ops empty_store)"
proof -
  have "jobs_ok s \<and> outbox_ok s \<Longrightarrow> jobs_ok (run_ops sv ops s) \<and> outbox_ok (run_ops sv ops s)" for s
    by (induction ops arbitrary: s) (simp_all add: run_ops_def op_keeps(1) outbox_step(1))
  moreover have "jobs_ok empty_store" "outbox_ok empty_store"
    by (simp_all add: empty_store_def jobs_ok_def get_job_def key_bound_def outbox_ok_def)
  ultimately show ?thesis by blast
qed

section \<open>A concrete history\<close>

definition demo_hash :: string where
  "demo_hash = replicate 64 (CHR ''a'')"

definition demo_fresh :: "string \<Rightarrow> instant \<Rightarrow> Fresh" where
  "demo_fresh tag now = \<lparr>fr_now = now, fr_job_hex = tag @ ''0123456789ab'', fr_outbox_id = ''out-'' @ tag,
     fr_appendix_outbox_id = ''app-'' @ tag, fr_process = ''1:a'', fr_validate_spec = (\<lambda>s. Inr s)\<rparr>"

definition demo_request :: ParseBoundRequest where
  "demo_request = \<lparr>pr_request_text = ''momentum'', pr_nonce_hash = ''n1'', pr_user_id = ''u1'', pr_spec_version = ''v1'',
     pr_spec_hash = demo_hash, pr_execution_spec = None, pr_client_idempotency_key = ''k1''\<rparr>"

definition demo_registered :: "store_op list" where
  "demo_registered = [Op_Register ''n1'' ''u1'' ''v1'' demo_hash 1000]"

definition demo_admitted :: "store_op list" where
  "demo_admitted = demo_registered @ [Op_Admit (demo_fresh ''a'' 10) demo_request]"

text \<open>A result that is not an exception.\<close>

definition returned :: "('e + 'a) \<times> 's \<Rightarrow> 'a option" where
  "returned rs = (case fst rs of Inr a \<Rightarrow> Some a | Inl e \<Rightarrow> None)"

lemma returned_Some: "returned rs = Some a \<longleftrightarrow> (\<exists>s. rs = (Inr a, s))"
  by (cases rs) (auto simp: returned_def split: sum.splits)

lemma job_evaluation:
  "map_option ad_created (returned (admit_parse_bound_job demo_services (demo_fresh ''a'' 10) demo_request
     (run_ops demo_services demo_registered empty_store))) = Some True
   \<and> map_option ad_created (returned (admit_parse_bound_job demo_services (demo_fresh ''b'' 20) demo_request
      (run_ops demo_services [Op_Claim 15 1] (run_ops demo_services demo_admitted empty_store)))) = Some False
   \<and> map fst (fst (claim_analysis_job_outbox 15 1 (run_ops demo_services demo_admitted empty_store))) = [''out-a'']
   \<and> (let s = run_ops demo_services demo_admitted empty_store in
       take (1 * nat 1) (claimable (analysis_claimable s 20) (st_analysis_job_outbox s)) = [(''out-a'', ''job_a0123456789a'')])"
  by code_simp

lemma demo_admission:
  "map_option ad_created (returned (admit_parse_bound_job demo_services (demo_fresh ''a'' 10) demo_request
     (run_ops demo_services demo_registered empty_store))) = Some True"
  using job_evaluation by (elim conjE)

section \<open>Admission\<close>

text \<open>C31. A parse token buys at most one job: after an admission that created a job, whatever else the
  store does, an admission with the same token never creates another.\<close>

theorem token_buys_one_job:
  assumes "admit_parse_bound_job sv f p s = (Inr a, s1)" and "ad_created a"
    and "pr_nonce_hash q = pr_nonce_hash p"
    and "admit_parse_bound_job sv f' q (run_ops sv ops s1) = (Inr b, s2)"
  shows "\<not> ad_created b"
proof -
  have "admit_id sv f p s = (Inr (aj_job_id (ad_job a), True), s1)"
    and "admit_id sv f' q (fold (apply_op sv) ops s1) = (Inr (aj_job_id (ad_job b), ad_created b), s2)"
    using assms by (simp_all add: admit_id_def run_ops_def)
  from memory_store.token_buys_once[OF this(1) assms(3) this(2)] show ?thesis .
qed

theorem token_buys_one_job_witness:
  "\<exists>b s2. admit_parse_bound_job demo_services (demo_fresh ''b'' 20) demo_request
      (run_ops demo_services [Op_Claim 15 1] (run_ops demo_services demo_admitted empty_store)) = (Inr b, s2) \<and> \<not> ad_created b"
proof -
  let ?s = "run_ops demo_services demo_registered empty_store"
  obtain a s1 where a: "admit_parse_bound_job demo_services (demo_fresh ''a'' 10) demo_request ?s = (Inr a, s1)" "ad_created a"
    using demo_admission by (auto simp: returned_Some)
  then have s1: "run_ops demo_services demo_admitted empty_store = s1"
    by (simp add: demo_admitted_def run_ops_append) (simp add: run_ops_def)
  have "map_option ad_created (returned (admit_parse_bound_job demo_services (demo_fresh ''b'' 20) demo_request
      (run_ops demo_services [Op_Claim 15 1] (run_ops demo_services demo_admitted empty_store)))) = Some False"
    using job_evaluation by (elim conjE)
  then obtain b s2 where "admit_parse_bound_job demo_services (demo_fresh ''b'' 20) demo_request
      (run_ops demo_services [Op_Claim 15 1] s1) = (Inr b, s2)" by (auto simp: returned_Some s1)
  with token_buys_one_job[OF a refl this] show ?thesis by (simp add: s1)
qed

text \<open>A retry is idempotent: after an admission that created a job, whatever else the store does,
  the same key with the same specification returns that job, the same key with another
  specification is refused, and neither changes the store.\<close>

theorem retry_returns_same_job:
  assumes "s = run_ops sv ops0 empty_store" and "admit_parse_bound_job sv f p s = (Inr a, s1)" and "ad_created a"
    and "pr_user_id q = pr_user_id p" and "pr_client_idempotency_key q = pr_client_idempotency_key p"
    and "admit_parse_bound_job sv f' q (run_ops sv ops s1) = (r, s2)"
  shows "s2 = run_ops sv ops s1
    \<and> (case r of Inr b \<Rightarrow> pr_spec_hash q = pr_spec_hash p \<and> aj_job_id (ad_job b) = aj_job_id (ad_job a) \<and> \<not> ad_created b
       | Inl e \<Rightarrow> pr_spec_hash q \<noteq> pr_spec_hash p \<and> e = RuntimeError ''idempotency_key_reused'')"
proof -
  have ok: "jobs_ok s" using assms(1) reachable_ok by simp
  have "admit_id sv f p s = (Inr (aj_job_id (ad_job a), True), s1)" using assms(2,3) by (simp add: admit_id_def)
  from memory_store.retry_gets_same_job[OF ok this, of q f' ops] assms(4,5)
  have "admit_id sv f' q (run_ops sv ops s1) = (if pr_spec_hash q = pr_spec_hash p
      then Inr (aj_job_id (ad_job a), False) else Inl (RuntimeError ''idempotency_key_reused''), run_ops sv ops s1)"
    by (simp add: run_ops_def)
  with assms(6) show ?thesis by (auto simp: admit_id_def split: sum.splits if_splits)
qed

theorem retry_returns_same_job_witness:
  "\<exists>a s1 b s2. admit_parse_bound_job demo_services (demo_fresh ''a'' 10) demo_request (run_ops demo_services demo_registered empty_store) = (Inr a, s1)
     \<and> admit_parse_bound_job demo_services (demo_fresh ''b'' 20) demo_request (run_ops demo_services [Op_Claim 15 1] s1) = (Inr b, s2)
     \<and> aj_job_id (ad_job b) = aj_job_id (ad_job a)"
proof -
  let ?s = "run_ops demo_services demo_registered empty_store"
  obtain a s1 where a: "admit_parse_bound_job demo_services (demo_fresh ''a'' 10) demo_request ?s = (Inr a, s1)" "ad_created a"
    using demo_admission by (auto simp: returned_Some)
  obtain r s2 where r: "admit_parse_bound_job demo_services (demo_fresh ''b'' 20) demo_request
      (run_ops demo_services [Op_Claim 15 1] s1) = (r, s2)" by fastforce
  from retry_returns_same_job[OF refl a refl refl r] obtain b where "r = Inr b" "aj_job_id (ad_job b) = aj_job_id (ad_job a)"
    by (auto split: sum.splits)
  with a r show ?thesis by blast
qed

section \<open>Dispatch\<close>

text \<open>C32. A message is dispatched to one worker at a time: after a claim at time \<open>t\<close>, whatever else the
  store does short of handing that message back, no claim within the lease of five minutes
  returns it again.\<close>

theorem no_double_dispatch:
  assumes "s = run_ops sv ops0 empty_store" and "claim_analysis_job_outbox t l s = (ms, s1)" and "(i, j) \<in> set ms"
    and "list_all (keeps_lease i) ops" and "now \<le> t + LEASE_MICROSECONDS"
  shows "i \<notin> fst ` set (fst (claim_analysis_job_outbox now l' (run_ops sv ops s1)))"
proof -
  have ok: "outbox_ok s" using assms(1) reachable_ok by simp
  have l: "1 \<le> l" using assms(2,3) by (auto simp: claim_analysis_job_outbox_def split: if_splits)
  obtain j' where "map_of ms i = Some j'" using assms(3) by (metis weak_map_of_SomeI)
  then have "held_since s1 i t"
    using claim_analysis_spec(2)[OF assms(2) l ok, of i] by (simp add: held_since_def leased_def)
  with run_held[OF claim_leaves_rest(2)[OF assms(2) l ok] this assms(4), of sv] assms(5)
  show ?thesis using not_claimable_while_held by blast
qed

theorem no_double_dispatch_witness:
  "''out-a'' \<notin> fst ` set (fst (claim_analysis_job_outbox 200000000 5
     (run_ops demo_services [Op_Register ''n2'' ''u1'' ''v1'' demo_hash 1000]
        (snd (claim_analysis_job_outbox 15 1 (run_ops demo_services demo_admitted empty_store))))))"
proof -
  let ?s = "run_ops demo_services demo_admitted empty_store"
  obtain ms s1 where c: "claim_analysis_job_outbox 15 1 ?s = (ms, s1)" by fastforce
  have "map fst (fst (claim_analysis_job_outbox 15 1 ?s)) = [''out-a'']" using job_evaluation by (elim conjE)
  with c have "''out-a'' \<in> fst ` set ms" by (cases ms) auto
  then obtain j where "(''out-a'', j) \<in> set ms" by auto
  from no_double_dispatch[OF refl c this, of "[Op_Register ''n2'' ''u1'' ''v1'' demo_hash 1000]" 200000000 5] c
  show ?thesis by (simp add: LEASE_MICROSECONDS_def)
qed

text \<open>Polling: repeated claims at one time, and everything they returned.\<close>

fun poll_outbox :: "nat \<Rightarrow> instant \<Rightarrow> int \<Rightarrow> store \<Rightarrow> (string \<times> string) list \<times> store" where
  "poll_outbox 0 now limit s = ([], s)"
| "poll_outbox (Suc n) now limit s =
     (case claim_analysis_job_outbox now limit s of (ms, s1) \<Rightarrow>
      (case poll_outbox n now limit s1 of (rest, s2) \<Rightarrow> (ms @ rest, s2)))"

text \<open>No message starves: a worker that polls with any positive batch size gets every claimable
  message, in the order of the outbox and once each; after enough polls nothing claimable is left.\<close>

theorem polls_drain_outbox:
  assumes "s = run_ops sv ops empty_store" and "1 \<le> limit" and "poll_outbox n now limit s = (ms, s')"
  shows "ms = take (n * nat limit) (claimable (analysis_claimable s now) (st_analysis_job_outbox s))
    \<and> (length (st_analysis_job_outbox s) \<le> n
        \<longrightarrow> set (claimable (analysis_claimable s now) (st_analysis_job_outbox s)) \<subseteq> set ms)"
proof -
  have "outbox_ok s" using assms(1) reachable_ok by simp
  then have ms: "ms = take (n * nat limit) (claimable (analysis_claimable s now) (st_analysis_job_outbox s))"
    using assms(2,3)
  proof (induction n arbitrary: s ms)
    case (Suc n)
    obtain ms1 s1 where c: "claim_analysis_job_outbox now limit s = (ms1, s1)" by fastforce
    obtain rest s2 where p: "poll_outbox n now limit s1 = (rest, s2)" by fastforce
    have "s2 = s'" "ms = ms1 @ rest" using Suc.prems(3) c p by simp_all
    moreover note Suc.IH[OF claim_leaves_rest(2)[OF c Suc.prems(2,1)] Suc.prems(2)] p
    ultimately show ?case
      using claim_analysis_spec(1)[OF c Suc.prems(2,1)] claim_leaves_rest(1)[OF c Suc.prems(2,1)]
      by (simp add: take_add)
  qed simp
  have "length (claimable (analysis_claimable s now) (st_analysis_job_outbox s)) \<le> length (st_analysis_job_outbox s)"
    by (simp add: claimable_def)
  moreover have "1 \<le> nat limit" using assms(2) by linarith
  then have "n \<le> n * nat limit" using mult_le_mono2[of 1 "nat limit" n] by simp
  ultimately have "length (st_analysis_job_outbox s) \<le> n
      \<longrightarrow> length (claimable (analysis_claimable s now) (st_analysis_job_outbox s)) \<le> n * nat limit" by linarith
  then show ?thesis using ms by simp
qed

theorem polls_drain_outbox_witness:
  "fst (poll_outbox 1 20 1 (run_ops demo_services demo_admitted empty_store)) = [(''out-a'', ''job_a0123456789a'')]"
proof -
  let ?s = "run_ops demo_services demo_admitted empty_store"
  obtain ms s' where p: "poll_outbox 1 20 1 ?s = (ms, s')" by fastforce
  have "take (1 * nat 1) (claimable (analysis_claimable ?s 20) (st_analysis_job_outbox ?s)) = [(''out-a'', ''job_a0123456789a'')]"
    using job_evaluation unfolding Let_def by (elim conjE)
  with polls_drain_outbox[OF refl _ p] show ?thesis using p by simp
qed

end
