(* ===== verification/Ai_Runner.thy ===== *)
theory Ai_Runner
  imports Ai_Job_Props Ai_Gates Ai_Events
begin

text \<open>
  Running an analysis: \<^verbatim>\<open>run_job_sync\<close>, \<^verbatim>\<open>_run_analysis_job\<close>, the job deadline and the restart
  reconciliation of \<^verbatim>\<open>ai_graph/jobs.py\<close>, and the progress reporting of \<^verbatim>\<open>ai_graph/progress.py\<close>.  A
  runner is what it does while it runs (the graph nodes it enters, the activities it reports, and
  the operations other threads make on the store meanwhile) and how it ends (the value it returns
  or the exception it raises).  The demo substitution is a predicate on queries and a function
  that builds the substituted envelope.
\<close>

section \<open>Progress\<close>

definition NODE_STAGES :: "(string, string) dict" where
  "NODE_STAGES = [(''Supervisor'', ''interpreting''), (''Ambiguity Classifier'', ''interpreting''), (''Data'', ''interpreting''),
     (''Research'', ''code_generation''), (''BacktestCode'', ''code_generation''), (''Backtest'', ''backtest''),
     (''Signal'', ''backtest''), (''Risk Manager'', ''debate''), (''Report'', ''debate''), (''Envelope'', ''finalizing'')]"

text \<open>\<open>raise_if_cancelled\<close>: the check, if one is installed, and the exception it leads to.\<close>

definition raise_if_cancelled :: "(unit \<Rightarrow> bool) option \<Rightarrow> exc_kind option" where
  "raise_if_cancelled check = (case check of Some f \<Rightarrow> if f () then Some AnalysisCancelled else None | None \<Rightarrow> None)"

text \<open>\<open>analysis_deadline\<close> at time \<open>now\<close>, and \<open>raise_if_past_deadline\<close>.\<close>

definition analysis_deadline :: "pyfloat option \<Rightarrow> rat \<Rightarrow> pyfloat option" where
  "analysis_deadline seconds now =
     (case seconds of None \<Rightarrow> None | Some x \<Rightarrow> if x \<le> Fin 0 then None else Some (Fin now + x))"

definition deadline_remaining_seconds :: "pyfloat option \<Rightarrow> rat \<Rightarrow> pyfloat option" where
  "deadline_remaining_seconds deadline now = map_option (\<lambda>d. d - Fin now) deadline"

definition raise_if_past_deadline :: "pyfloat option \<Rightarrow> rat \<Rightarrow> exc_kind option" where
  "raise_if_past_deadline deadline now =
     (case deadline_remaining_seconds deadline now of
        Some r \<Rightarrow> if r \<le> Fin 0 then Some AnalysisDeadlineExceeded else None | None \<Rightarrow> None)"

definition job_deadline_seconds :: "(string, string) dict \<Rightarrow> pyfloat option" where
  "job_deadline_seconds env =
     (let raw = env_text env ''AI_JOB_DEADLINE_SECONDS'' in
      if raw = [] then Some (Fin 1800)
      else (case float_of_text raw of None \<Rightarrow> Some (Fin 1800) | Some x \<Rightarrow> if Fin 0 < x then Some x else None))"

section \<open>Runners\<close>

datatype JobEvent = StageEvent string | ActivityEvent pyval

datatype run_action = EnterNode string | ReportActivity pyval | Elsewhere store_op

datatype runner_value = NoValue | EmptyMapping | Envelope APIEnvelope | OtherMapping "APIEnvelope option"

datatype run_outcome = Returned runner_value | Raised exc_heap exc_ref

record RunnerRun =
  rr_started_at :: instant
  rr_actions :: "(instant \<times> run_action) list"
  rr_outcome :: run_outcome
  rr_ended_at :: instant

type_synonym job_run_state = "store \<times> JobEvent JobEventBuffer option"

definition publish_event :: "string \<Rightarrow> JobEvent \<Rightarrow> job_run_state \<Rightarrow> job_run_state" where
  "publish_event job_id e st = (fst st, map_option (publish job_id e) (snd st))"

text \<open>\<open>report_stage\<close>, the callback, and \<open>report_node_stage\<close>, which ignores nodes without a stage and
  swallows whatever the callback raises.\<close>

definition report_stage :: "instant \<Rightarrow> string \<Rightarrow> string \<Rightarrow> job_run_state \<Rightarrow> unit res \<times> job_run_state" where
  "report_stage now job_id stage_text st =
     (case stage_of stage_text of Inl e \<Rightarrow> (Inl e, st)
      | Inr stage \<Rightarrow>
          (case update_job_status now job_id RUNNING stage None None None (fst st) of
             (Inl e, s) \<Rightarrow> (Inl e, (s, snd st))
           | (Inr job, s) \<Rightarrow> (Inr (), publish_event job_id (StageEvent stage_text) (s, snd st))))"

definition report_node_stage :: "instant \<Rightarrow> string \<Rightarrow> string \<Rightarrow> job_run_state \<Rightarrow> job_run_state" where
  "report_node_stage now job_id node st =
     (case dget NODE_STAGES node of None \<Rightarrow> st | Some stage \<Rightarrow> snd (report_stage now job_id stage st))"

fun run_step :: "Services \<Rightarrow> string \<Rightarrow> instant \<times> run_action \<Rightarrow> job_run_state \<Rightarrow> job_run_state" where
  "run_step sv job_id (t, EnterNode node) st = report_node_stage t job_id node st"
| "run_step sv job_id (t, ReportActivity v) st = publish_event job_id (ActivityEvent v) st"
| "run_step sv job_id (t, Elsewhere c) st = (apply_op sv c (fst st), snd st)"

text \<open>\<open>_require_analysis_envelope\<close>; what it raises joins the runner's own exceptions.\<close>

definition require_analysis_envelope :: "runner_value \<Rightarrow> exc_kind + APIEnvelope" where
  "require_analysis_envelope v =
     (case v of NoValue \<Rightarrow> Inl EmptyAnalysisResultError | EmptyMapping \<Rightarrow> Inl EmptyAnalysisResultError
      | Envelope e \<Rightarrow> Inr e
      | OtherMapping m \<Rightarrow> (case m of Some e \<Rightarrow> Inr e | None \<Rightarrow> Inl ValidationError))"

text \<open>How the guarded block ends: a result, or an exception on a heap.\<close>

definition block_outcome :: "run_outcome \<Rightarrow> (exc_heap \<times> exc_ref) + APIEnvelope" where
  "block_outcome r =
     (case r of Raised h x \<Rightarrow> Inl (h, x)
      | Returned v \<Rightarrow> (case require_analysis_envelope v of Inr e \<Rightarrow> Inr e | Inl k \<Rightarrow> Inl ([(0, k, None)], 0)))"

section \<open>Running one job\<close>

definition JOB_DEADLINE_MESSAGE :: string where
  "JOB_DEADLINE_MESSAGE = ''The analysis took longer than allowed and was stopped; narrow the conditions and retry.''"

definition USER_CANCELLED_MESSAGE :: string where
  "USER_CANCELLED_MESSAGE = ''The user stopped the analysis.''"

definition CAPACITY_TIMEOUT_MESSAGE :: string where
  "CAPACITY_TIMEOUT_MESSAGE = ''The analysis queue is full and the run did not start in time; try again shortly.''"

definition current_failure_stage :: "store \<Rightarrow> AnalysisJob \<Rightarrow> Stage" where
  "current_failure_stage s job =
     aj_polling_stage (case get_job s (aj_job_id job) of Some j \<Rightarrow> j | None \<Rightarrow> job)"

text \<open>A typed stop: the deadline or the user.\<close>

definition fail_stopped :: "instant \<Rightarrow> string \<Rightarrow> AnalysisJob \<Rightarrow> string \<Rightarrow> string \<Rightarrow> string \<Rightarrow> string \<Rightarrow> store \<Rightarrow> AnalysisJob res \<times> store" where
  "fail_stopped now job_id job message subcause blame ref s =
     (case rbind (new_diagnostic ''cancelled'' subcause (current_failure_stage s job) blame True message [ref])
             (\<lambda>d. failure_envelope job message (Some d)) of
        Inl e \<Rightarrow> (Inl e, s)
      | Inr envelope \<Rightarrow> fail_job now job_id message None (Some envelope) s)"

definition fail_with_exception :: "instant \<Rightarrow> string \<Rightarrow> AnalysisJob \<Rightarrow> exc_heap \<Rightarrow> exc_ref \<Rightarrow> store \<Rightarrow> AnalysisJob res \<times> store" where
  "fail_with_exception now job_id job h x s =
     (let failed_job = (case get_job s job_id of Some j \<Rightarrow> j | None \<Rightarrow> job) in
      (case classify_failure h x (stage_value (aj_polling_stage failed_job)) of
         Inl e \<Rightarrow> (Inl e, s)
       | Inr diagnostic \<Rightarrow>
           let envelope = (case failure_envelope job (fd_safe_message diagnostic) (Some diagnostic) of Inr e \<Rightarrow> Some e | Inl e \<Rightarrow> None)
           in fail_job now job_id (fd_safe_message diagnostic) None envelope s))"

record DemoMock =
  dm_active :: "string \<Rightarrow> bool"
  dm_envelope :: "string \<Rightarrow> string \<Rightarrow> APIEnvelope"

definition demo_result :: "DemoMock \<Rightarrow> AnalysisJob \<Rightarrow> string \<Rightarrow> APIEnvelope" where
  "demo_result dm job trace_id = dm_envelope dm (aj_query job) (if trace_id = [] then aj_trace_id job else trace_id)"

definition settle_run :: "Services \<Rightarrow> DemoMock \<Rightarrow> instant \<Rightarrow> string \<Rightarrow> AnalysisJob \<Rightarrow> run_outcome \<Rightarrow> store \<Rightarrow> AnalysisJob res \<times> store" where
  "settle_run sv dm now job_id job outcome s =
     (let demo = dm_active dm (aj_query job) in
      (case block_outcome outcome of
         Inr result \<Rightarrow> complete_job sv now job_id (if demo then demo_result dm job (ev_trace_id result) else result) None s
       | Inl (h, x) \<Rightarrow>
           if map_option fst (dget h x) = Some AnalysisDeadlineExceeded then
             (if demo then complete_job sv now job_id (demo_result dm job []) None s
              else fail_stopped now job_id job JOB_DEADLINE_MESSAGE ''job_deadline_exceeded'' ''ai_graph'' ''failure:job_deadline'' s)
           else if map_option fst (dget h x) = Some AnalysisCancelled then
             fail_stopped now job_id job USER_CANCELLED_MESSAGE ''user_cancelled'' ''user'' ''failure:cancelled'' s
           else if demo then complete_job sv now job_id (demo_result dm job []) None s
           else fail_with_exception now job_id job h x s))"

definition run_analysis_job :: "Services \<Rightarrow> DemoMock \<Rightarrow> string \<Rightarrow> RunnerRun \<Rightarrow> job_run_state \<Rightarrow> AnalysisJob res \<times> job_run_state" where
  "run_analysis_job sv dm job_id run st =
     (case get_job (fst st) job_id of
        None \<Rightarrow> (Inl (KeyError (''analysis job not found: '' @ job_id)), st)
      | Some job \<Rightarrow>
          let s = snd (update_job_status (rr_started_at run) job_id RUNNING INTERPRETING None None None (fst st));
              st1 = fold (run_step sv job_id) (rr_actions run) (s, snd st)
          in (case settle_run sv dm (rr_ended_at run) job_id job (rr_outcome run) (fst st1) of
                (r, s2) \<Rightarrow> (r, (s2, map_option (close job_id) (snd st1)))))"

text \<open>\<open>run_job_sync\<close>: \<open>slot\<close> tells whether the capacity gate granted a slot in time.\<close>

definition run_job_sync :: "Services \<Rightarrow> DemoMock \<Rightarrow> bool \<Rightarrow> string \<Rightarrow> RunnerRun \<Rightarrow> job_run_state \<Rightarrow> AnalysisJob res \<times> job_run_state" where
  "run_job_sync sv dm slot job_id run st =
     (if slot then run_analysis_job sv dm job_id run st
      else case (case get_job (fst st) job_id of
                   Some job \<Rightarrow> if dm_active dm (aj_query job)
                               then complete_job sv (rr_ended_at run) job_id (dm_envelope dm (aj_query job) (aj_trace_id job)) None (fst st)
                               else fail_job (rr_ended_at run) job_id CAPACITY_TIMEOUT_MESSAGE None None (fst st)
                 | None \<Rightarrow> fail_job (rr_ended_at run) job_id CAPACITY_TIMEOUT_MESSAGE None None (fst st)) of
             (r, s) \<Rightarrow> (r, (s, snd st)))"

section \<open>Restart reconciliation\<close>

definition INTERRUPTED_BY_RESTART_MESSAGE :: string where
  "INTERRUPTED_BY_RESTART_MESSAGE = ''The server restarted and the analysis was interrupted; run the same request again.''"

text \<open>A store that offers the strict startup read: its jobs, the rows it could not decode, and how it
  settles one of those.\<close>

record Reconciliation =
  rc_list :: "int \<Rightarrow> (AnalysisJob list \<times> string list) res"
  rc_force_fail :: "string \<Rightarrow> bool res"

definition reconciliation_error :: "'a res" where
  "reconciliation_error = Inl (RuntimeError ''InterruptedJobReconciliationError'')"

definition reconciliation_batch :: "Reconciliation option \<Rightarrow> int \<Rightarrow> store \<Rightarrow> (AnalysisJob list \<times> string list) res" where
  "reconciliation_batch rc limit s =
     (case rc of Some r \<Rightarrow> (case rc_list r limit of Inl e \<Rightarrow> reconciliation_error | Inr b \<Rightarrow> Inr b)
      | None \<Rightarrow> Inr (list_jobs s limit None, []))"

definition settle_undecodable :: "Reconciliation option \<Rightarrow> string \<Rightarrow> string list \<Rightarrow> string list res" where
  "settle_undecodable rc job_id reaped =
     (case rc of None \<Rightarrow> reconciliation_error
      | Some r \<Rightarrow> (case rc_force_fail r job_id of Inl e \<Rightarrow> reconciliation_error
          | Inr settled \<Rightarrow> Inr (if settled then reaped @ [job_id] else reaped)))"

definition interrupted :: "store \<Rightarrow> string \<Rightarrow> AnalysisJob \<Rightarrow> bool" where
  "interrupted s incarnation job \<longleftrightarrow> (aj_status job = QUEUED \<or> aj_status job = RUNNING)
     \<and> aj_owner_incarnation job \<noteq> Some incarnation
     \<and> \<not> (aj_status job = QUEUED \<and> has_recoverable_analysis_job_outbox s (aj_job_id job))"

definition reap_job :: "instant \<Rightarrow> string \<Rightarrow> AnalysisJob \<Rightarrow> string list \<times> store \<Rightarrow> string list res \<times> store" where
  "reap_job now incarnation job rs =
     (if \<not> interrupted (snd rs) incarnation job then (Inr (fst rs), snd rs)
      else (case fail_job now (aj_job_id job) INTERRUPTED_BY_RESTART_MESSAGE
                   (Some (aj_fallback_reasons job @ [''interrupted_by_restart''])) None (snd rs) of
              (Inl e, s) \<Rightarrow> (reconciliation_error, s)
            | (Inr failed, s) \<Rightarrow> (Inr (fst rs @ [aj_job_id job]), s)))"

fun reap_jobs :: "instant \<Rightarrow> string \<Rightarrow> AnalysisJob list \<Rightarrow> string list \<times> store \<Rightarrow> string list res \<times> store" where
  "reap_jobs now incarnation [] rs = (Inr (fst rs), snd rs)"
| "reap_jobs now incarnation (job # jobs) rs =
     (case reap_job now incarnation job rs of
        (Inl e, s) \<Rightarrow> (Inl e, s)
      | (Inr reaped, s) \<Rightarrow> reap_jobs now incarnation jobs (reaped, s))"

definition reap_interrupted_jobs :: "Reconciliation option \<Rightarrow> instant \<Rightarrow> string \<Rightarrow> int \<Rightarrow> store \<Rightarrow> string list res \<times> store" where
  "reap_interrupted_jobs rc now incarnation limit s =
     (case reconciliation_batch rc limit s of Inl e \<Rightarrow> (Inl e, s)
      | Inr (jobs, undecodable) \<Rightarrow>
          (case rfold (settle_undecodable rc) undecodable [] of Inl e \<Rightarrow> (Inl e, s)
           | Inr reaped \<Rightarrow> reap_jobs now incarnation jobs (reaped, s)))"

end
