(* ===== verification/Ai_Runner_Props.thy ===== *)
theory Ai_Runner_Props
  imports Ai_Runner Ai_Job_Properties
begin

text \<open>
  What a client can rely on after a run, after a queue time-out and after a restart: every run ends
  in a terminal job and a closed event stream, and a restart leaves no job that nobody works on.
\<close>

section \<open>Terminal operations\<close>

text \<open>Every stored job carries a trace identifier, under which a failure envelope can be built; jobs
  are stored under distinct identifiers and never removed.\<close>

definition traced_jobs :: "store \<Rightarrow> bool" where
  "traced_jobs s \<longleftrightarrow> dict_ok (st_jobs s) \<and> (\<forall>j job. get_job s j = Some job \<longrightarrow> aj_trace_id job \<noteq> [])"

lemma failure_envelope_Inr:
  assumes "aj_trace_id job \<noteq> []" and "d = None \<or> (\<exists>x. d = Some x \<and> diagnostic_ok x)"
  shows "\<exists>e. failure_envelope job m d = Inr e \<and> terminal_contract e \<and> ev_failure_cause e \<noteq> None
    \<and> (\<forall>x. d = Some x \<longrightarrow> ev_failure_cause e = Some x)
    \<and> (d = None \<longrightarrow> map_option fd_failure_stage (ev_failure_cause e) = Some FINALIZING)"
proof -
  have "\<exists>x. classify_failure [(0, OtherError ''builtins'' ''RuntimeError'' None, None)] 0 (stage_value FINALIZING) = Inr x
      \<and> diagnostic_ok x \<and> fd_failure_stage x = FINALIZING"
  proof -
    have "public_diagnosis (closed_failure_stage (stage_value FINALIZING))
        (classify_failure [(0, OtherError ''builtins'' ''RuntimeError'' None, None)] 0 (stage_value FINALIZING))"
      by (simp add: classify_failure_def Let_def classify_chain_public)
    then show ?thesis by (auto simp: public_diagnosis_def closed_failure_stage_def stage_of_def stage_order_def)
  qed
  then obtain x where x: "(case d of Some d \<Rightarrow> Inr d
      | None \<Rightarrow> classify_failure [(0, OtherError ''builtins'' ''RuntimeError'' None, None)] 0 (stage_value FINALIZING)) = Inr x"
    "diagnostic_ok x" "d = None \<longrightarrow> fd_failure_stage x = FINALIZING" "\<forall>y. d = Some y \<longrightarrow> x = y"
    using assms(2) by auto
  then show ?thesis
    using assms(1) by (auto simp: failure_envelope_def new_envelope_def terminal_contract_def diagnostic_ok_def)
qed

definition ends_job :: "string \<Rightarrow> store \<Rightarrow> AnalysisJob res \<times> store \<Rightarrow> bool" where
  "ends_job j s rs \<longleftrightarrow> (\<exists>job' s'. rs = (Inr job', s') \<and> get_job s' j = Some job'
     \<and> (aj_status job' = COMPLETED \<or> aj_status job' = FAILED)
     \<and> (aj_status job' = FAILED \<longrightarrow> map_option ev_status (aj_result job') = Some FAILED_ENVELOPE
          \<and> Option.bind (aj_result job') ev_failure_cause \<noteq> None)
     \<and> (\<exists>job. get_job s j = Some job \<and> aj_job_id job' = aj_job_id job) \<and> s' = store_job j job' s)"

lemma get_store_job [simp]: "get_job (store_job j job s) k = (if k = j then Some job else get_job s k)"
  by (simp add: get_job_def store_job_def dget_dset)

lemma fail_job_ends:
  assumes "get_job s j = Some job" and "aj_trace_id job \<noteq> []" and "\<forall>x. e = Some x \<longrightarrow> ev_failure_cause x \<noteq> None"
  shows "ends_job j s (fail_job now j m fr e s)"
proof (cases e)
  case None
  obtain r where "failure_envelope job m None = Inr r" "ev_failure_cause r \<noteq> None"
    using failure_envelope_Inr[OF assms(2), of None m] by auto
  with None assms(1) show ?thesis by (simp add: fail_job_def require_job_def Let_def ends_job_def)
next
  case (Some x)
  with assms show ?thesis by (simp add: fail_job_def require_job_def Let_def ends_job_def)
qed

text \<open>Completion ends the job unless the result's ledger does not reconcile, and then changes nothing.\<close>

lemma complete_job_ends:
  assumes "get_job s j = Some job"
  shows "ends_job j s (complete_job sv now j e fr s)
    \<or> (\<exists>x sid. manifest_from_completion sv (aj_execution_manifest job) e now sid = Inl x \<and> complete_job sv now j e fr s = (Inl x, s))"
proof -
  define sid where "sid = (if aj_strategy_id job = None then map_option ss_strategy_id (ev_strategy_spec e) else aj_strategy_id job)"
  show ?thesis
  proof (cases "manifest_from_completion sv (aj_execution_manifest job) e now sid")
    case (Inl x)
    then have "complete_job sv now j e fr s = (Inl x, s)"
      using assms by (simp add: complete_job_def require_job_def Let_def sid_def)
    with Inl show ?thesis by blast
  next
    case (Inr m)
    then have "ends_job j s (complete_job sv now j e fr s)"
      using assms by (simp add: complete_job_def require_job_def Let_def sid_def[symmetric] ends_job_def)
    then show ?thesis ..
  qed
qed

section \<open>Jobs stay traced\<close>

lemma put_job_traced: "traced_jobs s \<Longrightarrow> aj_trace_id job \<noteq> [] \<Longrightarrow> traced_jobs (put_job job s)"
  by (auto simp: traced_jobs_def put_job_def get_job_def dget_dset dict_ok_dset)

lemma create_job_traced: "traced_jobs s \<Longrightarrow> traced_jobs (snd (create_job sv f r s))"
proof -
  assume t: "traced_jobs s"
  have "aj_trace_id job \<noteq> []" if "rbind (normalized_execution_spec f r) (new_job sv f r) = Inr job" for job
    using that by (auto simp: res_simps new_job_def Let_def job_fields_ok_def split: if_splits)
  then show ?thesis using t by (auto simp: create_job_def put_job_traced split: sum.split)
qed

definition same_trace :: "store \<Rightarrow> store \<Rightarrow> bool" where
  "same_trace s s' \<longleftrightarrow> s' = s \<or> (\<exists>j job job'. get_job s j = Some job \<and> aj_trace_id job' = aj_trace_id job \<and> s' = store_job j job' s)"

lemma same_traceI [simp]:
  "same_trace s s" "get_job s j = Some job \<Longrightarrow> aj_trace_id job' = aj_trace_id job \<Longrightarrow> same_trace s (store_job j job' s)"
  by (auto simp: same_trace_def)

lemma status_ops_trace:
  "same_trace s (snd (update_job_status t j st sg fr er m s))"
  "same_trace s (snd (complete_job sv t j e fr s))"
  "same_trace s (snd (fail_job t j msg fr e' s))"
  by (cases "get_job s j"; simp add: update_job_status_def complete_job_def fail_job_def require_job_def Let_def
      split: sum.split)+

lemma same_trace_traced:
  assumes "same_trace s s'" and t: "traced_jobs s"
  shows "traced_jobs s'"
  using assms(1) unfolding same_trace_def
proof (elim disjE exE conjE)
  fix j job job' assume j: "get_job s j = Some job" "aj_trace_id job' = aj_trace_id job" "s' = store_job j job' s"
  then have "aj_trace_id job' \<noteq> []" using t unfolding traced_jobs_def by metis
  with j(3) t show ?thesis by (simp add: traced_jobs_def) (simp add: store_job_def dict_ok_dset)
qed (use t in simp)

lemma traced_frame: "traced_jobs s \<Longrightarrow> st_jobs s' = st_jobs s \<Longrightarrow> traced_jobs s'"
  by (simp add: traced_jobs_def get_job_def)

lemma admit_traced: "traced_jobs s \<Longrightarrow> traced_jobs (snd (admit_parse_bound_job sv f p s))"
proof -
  assume t: "traced_jobs s"
  obtain r s' where adm: "admit_parse_bound_job sv f p s = (r, s')" by fastforce
  have spend: "traced_jobs (spend n k s)" for n k by (rule traced_frame[OF t]) (simp add: spend_def)
  from adm have "traced_jobs s'"
  proof (cases rule: admit_cases)
    case (new k job)
    have "traced_jobs (put_job job (spend (pr_nonce_hash p) k s))"
      using create_job_traced[OF spend[of "pr_nonce_hash p" k], of sv f "job_request_of p"] new(6) by simp
    then show ?thesis unfolding new(5) by (rule traced_frame) (simp add: enqueue_facts)
  qed (simp_all add: t spend)
  with adm show ?thesis by simp
qed

lemma op_traced: "traced_jobs s \<Longrightarrow> traced_jobs (apply_op sv c s)"
proof -
  assume t: "traced_jobs s"
  note st = same_trace_traced[OF _ t] and fr = traced_frame[OF t]
  show ?thesis
    by (cases c)
       (simp_all add: t admit_traced create_job_traced st[OF status_ops_trace(1)] st[OF status_ops_trace(2)]
          st[OF status_ops_trace(3)] fr register_parse_token_def outbox_ops_frame outbox_defs)
qed

lemma op_keeps_job: "get_job s j \<noteq> None \<Longrightarrow> get_job (apply_op sv c s) j \<noteq> None"
proof -
  assume j: "get_job s j \<noteq> None"
  have put: "get_job (put_job job x) j \<noteq> None" if "get_job x j \<noteq> None" for job x
    using that by (simp add: get_job_def put_job_def dget_dset)
  have rew: "get_job s' j \<noteq> None" if "rewrites_job s s'" for s'
    using that j by (auto simp: rewrites_job_def)
  show ?thesis
  proof (cases c)
    case (Op_Admit f p)
    obtain r s' where adm: "admit_parse_bound_job sv f p s = (r, s')" by fastforce
    have "get_job s' j \<noteq> None" using adm
      by (cases rule: admit_cases) (use j put in \<open>simp_all add: enqueue_facts get_job_def spend_def\<close>)
    then show ?thesis using Op_Admit adm by simp
  next
    case (Op_Create f r)
    obtain x s' where "create_job sv f r s = (x, s')" by fastforce
    with create_job_cases[OF this] put j Op_Create show ?thesis by auto
  qed (use j rew[OF status_ops_rewrite(1)] rew[OF status_ops_rewrite(2)] rew[OF status_ops_rewrite(3)] in
      \<open>auto simp: register_parse_token_def outbox_ops_frame outbox_defs get_job_def\<close>)
qed

lemma reachable_traced: "traced_jobs (run_ops sv ops empty_store)"
proof -
  have "traced_jobs s \<Longrightarrow> traced_jobs (run_ops sv ops s)" for s
    by (induction ops arbitrary: s) (simp_all add: run_ops_def op_traced)
  moreover have "traced_jobs empty_store" by (simp add: traced_jobs_def empty_store_def get_job_def)
  ultimately show ?thesis by blast
qed

section \<open>Every run ends\<close>

text \<open>A settled run is terminal, or completion refused the result's ledger and changed nothing.\<close>

definition settled :: "Services \<Rightarrow> instant \<Rightarrow> string \<Rightarrow> store \<Rightarrow> AnalysisJob res \<times> store \<Rightarrow> bool" where
  "settled sv now j s rs \<longleftrightarrow> ends_job j s rs
     \<or> (\<exists>job x e sid. get_job s j = Some job \<and> manifest_from_completion sv (aj_execution_manifest job) e now sid = Inl x \<and> rs = (Inl x, s))"

lemma complete_settled: "get_job s j = Some job \<Longrightarrow> settled sv now j s (complete_job sv now j e fr s)"
  using complete_job_ends unfolding settled_def by blast

lemma fail_stopped_settled:
  assumes "get_job s j = Some job'" and "aj_trace_id job' \<noteq> []" and "aj_trace_id job \<noteq> []"
    and "subcause \<in> set FailureSubcause" and "blame \<in> set failure_owners" and "message \<noteq> []"
  shows "settled sv now j s (fail_stopped now j job message subcause blame ref s)"
proof -
  have "''cancelled'' \<in> set FailureCategory" by (simp add: FailureCategory_def)
  then obtain d where d: "new_diagnostic ''cancelled'' subcause (current_failure_stage s job) blame True message [ref] = Inr d"
      "diagnostic_ok d"
    using assms(4-6) by (auto simp: new_diagnostic_def Let_def diagnostic_ok_def)
  obtain e where e: "failure_envelope job message (Some d) = Inr e" "ev_failure_cause e \<noteq> None"
    using failure_envelope_Inr[OF assms(3), of "Some d" message] d(2) by auto
  have "fail_stopped now j job message subcause blame ref s = fail_job now j message None (Some e) s"
    by (simp add: fail_stopped_def d e)
  with fail_job_ends[OF assms(1,2), of "Some e"] e(2) show ?thesis by (simp add: settled_def)
qed

lemma fail_with_exception_settled:
  assumes "get_job s j = Some job'" and "aj_trace_id job' \<noteq> []" and "aj_trace_id job \<noteq> []"
  shows "settled sv now j s (fail_with_exception now j job h x s)"
proof -
  have "public_diagnosis (closed_failure_stage (stage_value (aj_polling_stage job')))
      (classify_failure h x (stage_value (aj_polling_stage job')))"
    by (simp add: classify_failure_def Let_def classify_chain_public)
  then obtain d where d: "classify_failure h x (stage_value (aj_polling_stage job')) = Inr d" "diagnostic_ok d"
    by (auto simp: public_diagnosis_def)
  obtain e where e: "failure_envelope job (fd_safe_message d) (Some d) = Inr e" "ev_failure_cause e \<noteq> None"
    using failure_envelope_Inr[OF assms(3), of "Some d" "fd_safe_message d"] d(2) by auto
  have "fail_with_exception now j job h x s = fail_job now j (fd_safe_message d) None (Some e) s"
    by (simp add: fail_with_exception_def Let_def assms(1) d e)
  with fail_job_ends[OF assms(1,2), of "Some e"] e(2) show ?thesis by (simp add: settled_def)
qed

lemma settle_run_settled:
  assumes "get_job s j = Some job'" and "aj_trace_id job' \<noteq> []" and "aj_trace_id job \<noteq> []"
  shows "settled sv now j s (settle_run sv dm now j job outcome s)"
  unfolding settle_run_def Let_def
  using assms
  by (auto intro!: complete_settled fail_stopped_settled fail_with_exception_settled
      simp: failure_owners_def JOB_DEADLINE_MESSAGE_def USER_CANCELLED_MESSAGE_def split: sum.split)

lemma report_stage_store:
  "fst (snd (report_stage t j sg st)) = fst st
   \<or> (\<exists>stage. fst (snd (report_stage t j sg st)) = snd (update_job_status t j RUNNING stage None None None (fst st)))"
proof (cases "stage_of sg")
  case (Inl e)
  then show ?thesis by (simp add: report_stage_def)
next
  case (Inr stage)
  obtain u s' where "update_job_status t j RUNNING stage None None None (fst st) = (u, s')" by fastforce
  with Inr have "fst (snd (report_stage t j sg st)) = snd (update_job_status t j RUNNING stage None None None (fst st))"
    by (simp add: report_stage_def publish_event_def split: sum.split)
  then show ?thesis by blast
qed

lemma run_step_keeps:
  assumes "traced_jobs (fst st)" and "get_job (fst st) j \<noteq> None"
  shows "traced_jobs (fst (run_step sv j a st)) \<and> get_job (fst (run_step sv j a st)) j \<noteq> None"
proof -
  obtain t act where a: "a = (t, act)" by (cases a)
  have upd: "traced_jobs (snd (update_job_status t j RUNNING stage None None None (fst st)))
      \<and> get_job (snd (update_job_status t j RUNNING stage None None None (fst st))) j \<noteq> None" for stage
    using op_traced[OF assms(1), of sv "Op_Update t j RUNNING stage None None None"]
      op_keeps_job[OF assms(2), of sv "Op_Update t j RUNNING stage None None None"] by simp
  show ?thesis
  proof (cases act)
    case (EnterNode node)
    with report_stage_store[of t j "the (dget NODE_STAGES node)" st] upd assms show ?thesis
      by (auto simp: a report_node_stage_def split: option.split)
  next
    case (ReportActivity v)
    with assms show ?thesis by (simp add: a publish_event_def)
  next
    case (Elsewhere c)
    with op_traced[OF assms(1)] op_keeps_job[OF assms(2)] show ?thesis by (simp add: a)
  qed
qed

lemma run_steps_keep:
  "traced_jobs (fst st) \<Longrightarrow> get_job (fst st) j \<noteq> None
   \<Longrightarrow> traced_jobs (fst (fold (run_step sv j) as st)) \<and> get_job (fst (fold (run_step sv j) as st)) j \<noteq> None"
proof (induction as arbitrary: st)
  case (Cons a as)
  from run_step_keeps[OF Cons.prems, of sv a] Cons.IH[of "run_step sv j a st"] show ?case by simp
qed simp

lemma traced_get: "traced_jobs s \<Longrightarrow> get_job s j = Some job \<Longrightarrow> aj_trace_id job \<noteq> []"
  by (simp add: traced_jobs_def)

lemma run_analysis_job_settled:
  assumes "traced_jobs s" and "get_job s j = Some job" and "run_analysis_job sv dm j run (s, ev) = (r, (s', ev'))"
  obtains s1 where "settled sv (rr_ended_at run) j s1 (r, s')" and "\<forall>b. ev' = Some b \<longrightarrow> j \<in> set (jb_closed b)"
    and "traced_jobs s1"
proof -
  let ?up = "Op_Update (rr_started_at run) j RUNNING INTERPRETING None None None"
  let ?st = "(apply_op sv ?up s, ev)"
  define st1 where "st1 = fold (run_step sv j) (rr_actions run) ?st"
  have "traced_jobs (fst ?st)" "get_job (fst ?st) j \<noteq> None"
    using op_traced[OF assms(1), of sv ?up] op_keeps_job[of s j sv ?up] assms(2) by simp_all
  from run_steps_keep[OF this, of sv "rr_actions run"] obtain job' where
    k: "traced_jobs (fst st1)" "get_job (fst st1) j = Some job'" by (auto simp: st1_def)
  have run: "settle_run sv dm (rr_ended_at run) j job (rr_outcome run) (fst st1) = (r, s')"
      "ev' = map_option (close j) (snd st1)"
    using assms(2,3) by (auto simp: run_analysis_job_def Let_def st1_def split: prod.splits)
  have "settled sv (rr_ended_at run) j (fst st1) (r, s')"
    using settle_run_settled[OF k(2) traced_get[OF k] traced_get[OF assms(1,2)], of sv "rr_ended_at run" dm "rr_outcome run"] run(1)
    by simp
  moreover have "\<forall>b. ev' = Some b \<longrightarrow> j \<in> set (jb_closed b)" using run(2) by (auto simp: close_def)
  ultimately show thesis using that k(1) by blast
qed

end
