(* ===== verification/Ai_Runner_Properties.thy ===== *)
theory Ai_Runner_Properties
  imports Ai_Runner_Props
begin

text \<open>
  The properties of running jobs: every run ends, what a queue time-out leaves behind, and what the
  restart reconciliation settles.
\<close>

section \<open>Runs\<close>

text \<open>C33. A run always ends: whatever the runner does or raises and whatever other threads do to the
  store meanwhile, the job is completed, or failed with a typed cause in its result, and its event
  stream is closed; the one exception is a result whose ledger does not reconcile, which leaves the
  stored job as it was.\<close>

theorem run_ends_job:
  assumes "s = run_ops sv ops empty_store" and "get_job s j = Some job"
    and "run_analysis_job sv dm j run (s, ev) = (r, (s', ev'))"
  shows "((\<exists>job'. r = Inr job' \<and> get_job s' j = Some job' \<and> (aj_status job' = COMPLETED
          \<or> (aj_status job' = FAILED \<and> map_option ev_status (aj_result job') = Some FAILED_ENVELOPE
             \<and> Option.bind (aj_result job') ev_failure_cause \<noteq> None)))
      \<or> (\<exists>job' e sid x. r = Inl x \<and> get_job s' j = Some job'
          \<and> manifest_from_completion sv (aj_execution_manifest job') e (rr_ended_at run) sid = Inl x))
    \<and> (\<forall>b. ev' = Some b \<longrightarrow> j \<in> set (jb_closed b))"
proof -
  have "traced_jobs s" using assms(1) reachable_traced by simp
  from run_analysis_job_settled[OF this assms(2,3)] obtain s1 where
    "settled sv (rr_ended_at run) j s1 (r, s')" and closed: "\<forall>b. ev' = Some b \<longrightarrow> j \<in> set (jb_closed b)" by blast
  then have "(\<exists>job'. r = Inr job' \<and> get_job s' j = Some job' \<and> (aj_status job' = COMPLETED
          \<or> (aj_status job' = FAILED \<and> map_option ev_status (aj_result job') = Some FAILED_ENVELOPE
             \<and> Option.bind (aj_result job') ev_failure_cause \<noteq> None)))
      \<or> (\<exists>job' e sid x. r = Inl x \<and> get_job s' j = Some job'
          \<and> manifest_from_completion sv (aj_execution_manifest job') e (rr_ended_at run) sid = Inl x)"
    unfolding settled_def ends_job_def by auto
  with closed show ?thesis by blast
qed

definition demo_run :: "run_outcome \<Rightarrow> RunnerRun" where
  "demo_run r = \<lparr>rr_started_at = 30, rr_actions = [(31, EnterNode ''Supervisor''), (32, EnterNode ''Research'')],
     rr_outcome = r, rr_ended_at = 40\<rparr>"

definition no_demo :: DemoMock where
  "no_demo = \<lparr>dm_active = (\<lambda>q. False), dm_envelope = (\<lambda>q t. demo_envelope)\<rparr>"

definition demo_job_id :: string where
  "demo_job_id = ''job_a0123456789a''"

definition bad_services :: Services where
  "bad_services = demo_services\<lparr>sv_stable_hash := (\<lambda>v. ''other'')\<rparr>"

definition demo_interrupted :: store where
  "demo_interrupted = run_ops demo_services
     (demo_admitted @ [Op_Update 30 demo_job_id RUNNING BACKTEST None None None]) empty_store"

lemma demo_runs:
  "(let s = run_ops demo_services demo_admitted empty_store;
        run = run_analysis_job demo_services no_demo demo_job_id (demo_run (Raised [(0, LLMTimeoutError, None)] 0)) (s, Some (new_buffer 5));
        bad = run_analysis_job bad_services no_demo demo_job_id (demo_run (Returned (Envelope demo_envelope))) (s, Some (new_buffer 5))
    in map_option aj_status (get_job s demo_job_id) = Some QUEUED
       \<and> map_option aj_polling_stage (get_job (fst (snd run)) demo_job_id) = Some CODE_GENERATION \<and> snd (snd run) \<noteq> None
       \<and> map_option aj_status (get_job (fst (snd bad)) demo_job_id) = Some RUNNING)
   \<and> length (st_jobs demo_interrupted) = 1
   \<and> map fst (filter (\<lambda>p. interrupted demo_interrupted ''2:b'' (snd p)) (st_jobs demo_interrupted)) = [demo_job_id]"
  by code_simp

lemma demo_job: "map_option aj_status (get_job (run_ops demo_services demo_admitted empty_store) demo_job_id) = Some QUEUED"
  using demo_runs unfolding Let_def by (elim conjE)

theorem run_ends_job_witness:
  "\<exists>r s' b. run_analysis_job demo_services no_demo demo_job_id (demo_run (Raised [(0, LLMTimeoutError, None)] 0))
      (run_ops demo_services demo_admitted empty_store, Some (new_buffer 5)) = (r, (s', Some b))
    \<and> map_option aj_polling_stage (get_job s' demo_job_id) = Some CODE_GENERATION \<and> demo_job_id \<in> set (jb_closed b)"
proof -
  let ?s = "run_ops demo_services demo_admitted empty_store"
  let ?run = "run_analysis_job demo_services no_demo demo_job_id (demo_run (Raised [(0, LLMTimeoutError, None)] 0)) (?s, Some (new_buffer 5))"
  obtain job where job: "get_job ?s demo_job_id = Some job" using demo_job by blast
  obtain r s' ev' where run: "?run = (r, (s', ev'))" by (metis prod.collapse)
  have "map_option aj_polling_stage (get_job (fst (snd ?run)) demo_job_id) = Some CODE_GENERATION \<and> snd (snd ?run) \<noteq> None"
    using demo_runs unfolding Let_def by (intro conjI; elim conjE)
  then obtain b where "ev' = Some b" "map_option aj_polling_stage (get_job s' demo_job_id) = Some CODE_GENERATION"
    using run by auto
  with run_ends_job[OF refl job run] run show ?thesis by blast
qed

text \<open>The exception is real: a result whose ledger does not reconcile leaves the job running.\<close>

lemma unreconciled_run_stays_running:
  "map_option aj_status (get_job (fst (snd (run_analysis_job bad_services no_demo demo_job_id (demo_run (Returned (Envelope demo_envelope)))
      (run_ops demo_services demo_admitted empty_store, Some (new_buffer 5))))) demo_job_id) = Some RUNNING"
  using demo_runs unfolding Let_def by (elim conjE)

section \<open>The queue\<close>

text \<open>A job that never got a slot is failed, but as if it had run: its stage is the last one, the
  four stages before it read as succeeded although the job was still queued, and its event stream
  is left as it was, open if it was open.\<close>

theorem queue_timeout_reported_as_finalizing:
  assumes "s = run_ops sv ops empty_store" and "get_job s j = Some job" and "aj_status job = QUEUED"
    and "\<not> dm_active dm (aj_query job)" and "run_job_sync sv dm False j run (s, ev) = (r, (s', ev'))"
  shows "\<exists>job'. r = Inr job' \<and> get_job s' j = Some job' \<and> aj_status job' = FAILED \<and> aj_polling_stage job' = FINALIZING
    \<and> map sp_status (aj_stages job') = [STAGE_SUCCEEDED, STAGE_SUCCEEDED, STAGE_SUCCEEDED, STAGE_SUCCEEDED, STAGE_FAILED]
    \<and> ev' = ev"
proof -
  have tr: "aj_trace_id job \<noteq> []" using traced_get[OF reachable_traced] assms(1,2) by blast
  obtain e where e: "failure_envelope job CAPACITY_TIMEOUT_MESSAGE None = Inr e"
      "map_option fd_failure_stage (ev_failure_cause e) = Some FINALIZING"
    using failure_envelope_Inr[OF tr, of None CAPACITY_TIMEOUT_MESSAGE] by auto
  then obtain d where d: "ev_failure_cause e = Some d" "fd_failure_stage d = FINALIZING" by auto
  have "run_job_sync sv dm False j run (s, ev) =
      (case fail_job (rr_ended_at run) j CAPACITY_TIMEOUT_MESSAGE None None s of (r, s) \<Rightarrow> (r, (s, ev)))"
    using assms(2,4) by (simp add: run_job_sync_def)
  then show ?thesis using assms(2,5) e(1) d
    by (auto simp: fail_job_def require_job_def Let_def stage_progresses_def stage_order_def stage_status_for_def)
qed

theorem queue_timeout_reported_as_finalizing_witness:
  "\<exists>job'. get_job (fst (snd (run_job_sync demo_services no_demo False demo_job_id (demo_run (Returned NoValue))
      (run_ops demo_services demo_admitted empty_store, Some (new_buffer 5))))) demo_job_id = Some job'
    \<and> aj_polling_stage job' = FINALIZING"
proof -
  let ?s = "run_ops demo_services demo_admitted empty_store"
  obtain job where job: "get_job ?s demo_job_id = Some job" "aj_status job = QUEUED" using demo_job by auto
  obtain r s' ev' where run: "run_job_sync demo_services no_demo False demo_job_id (demo_run (Returned NoValue)) (?s, Some (new_buffer 5)) = (r, (s', ev'))"
    by (metis prod.collapse)
  have "\<not> dm_active no_demo (aj_query job)" by (simp add: no_demo_def)
  from queue_timeout_reported_as_finalizing[OF refl job this run] run show ?thesis by auto
qed

section \<open>Restart\<close>








end
