(* ===== verification/Ai_Graph.thy ===== *)
theory Ai_Graph
  imports Ai_Runner
begin

text \<open>
  The analysis graph of \<^verbatim>\<open>ai_graph/graph.py\<close>: the order in which its nodes run, the routes between
  them, the checkpoints at every node boundary, and the stage each node reports.  The source has
  the graph twice, as edges handed to LangGraph (\<open>build_graph\<close>) and as straight code for when that
  package is missing (\<open>FallbackGraph\<close>).  What a node computes is an argument; following an edge
  merges the node's update into the state and asks the route of the node for the next one, which
  is how LangGraph documents its graphs.  Audit records are left out.
\<close>

type_synonym gstate = "(string, pyval) dict"

datatype graph_node = Supervisor | Ambiguity_Classifier | Data_Node | Research | BacktestCode | Backtest_Node
  | Signal | Risk_Manager | Report_Node | Envelope_Node

fun node_name :: "graph_node \<Rightarrow> string" where
  "node_name Supervisor = ''Supervisor''"
| "node_name Ambiguity_Classifier = ''Ambiguity Classifier''"
| "node_name Data_Node = ''Data''"
| "node_name Research = ''Research''"
| "node_name BacktestCode = ''BacktestCode''"
| "node_name Backtest_Node = ''Backtest''"
| "node_name Signal = ''Signal''"
| "node_name Risk_Manager = ''Risk Manager''"
| "node_name Report_Node = ''Report''"
| "node_name Envelope_Node = ''Envelope''"

fun node_rank :: "graph_node \<Rightarrow> nat" where
  "node_rank Supervisor = 0"
| "node_rank Ambiguity_Classifier = 1"
| "node_rank Data_Node = 2"
| "node_rank Research = 3"
| "node_rank BacktestCode = 4"
| "node_rank Backtest_Node = 5"
| "node_rank Signal = 6"
| "node_rank Risk_Manager = 7"
| "node_rank Report_Node = 8"
| "node_rank Envelope_Node = 9"

section \<open>Routes\<close>

definition builtin_error :: "string \<Rightarrow> exc_kind" where
  "builtin_error name = OtherError ''builtins'' name None"

text \<open>\<open>state[key]\<close>.\<close>

definition state_item :: "gstate \<Rightarrow> string \<Rightarrow> exc_kind + pyval" where
  "state_item st key = (case dget st key of Some v \<Rightarrow> Inr v | None \<Rightarrow> Inl (builtin_error ''KeyError''))"

text \<open>True for the route \<open>"final"\<close>.\<close>

definition route_after_ambiguity :: "gstate \<Rightarrow> exc_kind + bool" where
  "route_after_ambiguity st =
     rbind (state_item st ''ambiguity'') (\<lambda>a.
       case a of PDict d \<Rightarrow> rbind (state_item d ''category'') (\<lambda>c. Inr (c = PStr ''C0_NO_STRATEGY_INTENT''))
       | _ \<Rightarrow> Inl (builtin_error ''TypeError''))"

text \<open>True for the route \<open>"ready"\<close>.\<close>

definition route_after_data :: "gstate \<Rightarrow> exc_kind + bool" where
  "route_after_data st = rbind (state_item st ''status'') (\<lambda>v. Inr (v = PStr ''ready''))"

definition route_after_research :: "gstate \<Rightarrow> exc_kind + bool" where
  "route_after_research st = rbind (state_item st ''status'') (\<lambda>v. Inr (v = PStr ''ready''))"

text \<open>The edges of \<open>build_graph\<close>; \<open>None\<close> is \<open>END\<close>.\<close>

fun next_node :: "graph_node \<Rightarrow> gstate \<Rightarrow> exc_kind + graph_node option" where
  "next_node Supervisor st = Inr (Some Ambiguity_Classifier)"
| "next_node Ambiguity_Classifier st =
     rbind (route_after_ambiguity st) (\<lambda>final. Inr (Some (if final then Envelope_Node else Data_Node)))"
| "next_node Data_Node st =
     rbind (route_after_data st) (\<lambda>ready. Inr (Some (if ready then Research else Envelope_Node)))"
| "next_node Research st =
     rbind (route_after_research st) (\<lambda>ready. Inr (Some (if ready then BacktestCode else Envelope_Node)))"
| "next_node BacktestCode st = Inr (Some Backtest_Node)"
| "next_node Backtest_Node st = Inr (Some Signal)"
| "next_node Signal st = Inr (Some Risk_Manager)"
| "next_node Risk_Manager st = Inr (Some Report_Node)"
| "next_node Report_Node st = Inr (Some Envelope_Node)"
| "next_node Envelope_Node st = Inr None"

section \<open>Nodes\<close>

text \<open>What the checkpoints see when a node is entered.\<close>

record Checkpoints =
  ck_cancel :: "graph_node \<Rightarrow> (unit \<Rightarrow> bool) option"
  ck_deadline :: "pyfloat option"
  ck_now :: "graph_node \<Rightarrow> rat"

type_synonym node_functions = "graph_node \<Rightarrow> gstate \<Rightarrow> exc_kind + gstate"

text \<open>\<open>instrument_node\<close>: the checks, then the stage report, then the node.  The log lists the nodes whose
  stage was reported.\<close>

definition instrument_node :: "Checkpoints \<Rightarrow> node_functions \<Rightarrow> graph_node \<Rightarrow> gstate \<Rightarrow> (exc_kind + gstate) \<times> graph_node list" where
  "instrument_node ck nodes n st =
     (case raise_if_cancelled (ck_cancel ck n) of Some e \<Rightarrow> (Inl e, [])
      | None \<Rightarrow> (case raise_if_past_deadline (ck_deadline ck) (ck_now ck n) of Some e \<Rightarrow> (Inl e, [])
          | None \<Rightarrow> (nodes n st, [n])))"

text \<open>\<open>" ".join(text.split())\<close>.\<close>

fun split_words :: "string \<Rightarrow> string \<Rightarrow> string list" where
  "split_words [] word = (if word = [] then [] else [rev word])"
| "split_words (c # cs) word =
     (if is_space c then (if word = [] then split_words cs [] else rev word # split_words cs []) else split_words cs (c # word))"

definition normalize_user_query :: "string \<Rightarrow> string" where
  "normalize_user_query s = join_with '' '' (split_words s [])"

definition prepare_supervisor_state ::
  "(pyval \<Rightarrow> string) \<Rightarrow> (string \<Rightarrow> string) \<Rightarrow> (pyval \<Rightarrow> pyval) \<Rightarrow> string \<Rightarrow> pyval \<Rightarrow> exc_kind + gstate" where
  "prepare_supervisor_state text digest payload user_query trace_id =
     (let query = normalize_user_query user_query in
      if query = [] then Inl (builtin_error ''ValueError'')
      else let resolved = (if pv_truthy trace_id then trace_id else PStr (digest query)) in
           Inr [(''user_query'', PStr query), (''trace_id'', resolved), (''debug_ref'', PStr (''debug:'' @ pv_str text resolved)),
                (''route'', PStr ''strategy_parse''), (''internal_payload'', payload resolved)])"

definition supervisor_node :: "(pyval \<Rightarrow> string) \<Rightarrow> (string \<Rightarrow> string) \<Rightarrow> (pyval \<Rightarrow> pyval) \<Rightarrow> gstate \<Rightarrow> exc_kind + gstate" where
  "supervisor_node text digest payload st =
     rbind (prepare_supervisor_state text digest payload (pv_str text (pget_or st ''user_query'' (PStr []))) (pget st ''trace_id''))
       (\<lambda>prepared. Inr (dupdate st prepared))"

section \<open>The two executions\<close>

function graph_run :: "Checkpoints \<Rightarrow> node_functions \<Rightarrow> graph_node \<Rightarrow> gstate \<Rightarrow> (exc_kind + gstate) \<times> graph_node list" where
  "graph_run ck nodes n st =
     (case instrument_node ck nodes n st of
        (Inl e, log1) \<Rightarrow> (Inl e, log1)
      | (Inr u, log1) \<Rightarrow>
          (case next_node n (dupdate st u) of
             Inl e \<Rightarrow> (Inl e, log1)
           | Inr None \<Rightarrow> (Inr (dupdate st u), log1)
           | Inr (Some m) \<Rightarrow> (case graph_run ck nodes m (dupdate st u) of (r, log2) \<Rightarrow> (r, log1 @ log2))))"
  by pat_completeness auto

lemma next_node_rank: "next_node n st = Inr (Some m) \<Longrightarrow> node_rank n < node_rank m \<and> node_rank m < 10"
  by (cases n) (auto simp: rbind_eq_Inr)

termination graph_run
  by (relation "measure (\<lambda>(ck, nodes, n, st). 10 - node_rank n)") (auto dest!: next_node_rank)

declare graph_run.simps [simp del]





section \<open>Merging updates\<close>







section \<open>One graph, two executions\<close>








definition demo_nodes :: node_functions where
  "demo_nodes n = (if n = Supervisor then supervisor_node (\<lambda>v. ''v'') (\<lambda>s. ''digest'') (\<lambda>v. PNone)
     else if n = Ambiguity_Classifier then (\<lambda>st. Inr [(''ambiguity'', PDict [(''category'', PStr ''READY'')])])
     else if n = Data_Node then (\<lambda>st. Inr [(''status'', PStr ''ready'')])
     else if n = Research then (\<lambda>st. Inr [(''status'', PStr ''rejected'')])
     else (\<lambda>st. Inr []))"

definition demo_checks :: Checkpoints where
  "demo_checks = \<lparr>ck_cancel = (\<lambda>n. None), ck_deadline = Some (Fin 50), ck_now = (\<lambda>n. 7)\<rparr>"


section \<open>Progress along the graph\<close>

definition node_stage :: "graph_node \<Rightarrow> Stage" where
  "node_stage n = (case dget NODE_STAGES (node_name n) of Some t \<Rightarrow> closed_failure_stage t | None \<Rightarrow> INTERPRETING)"

fun shown_rank :: "StageStatus \<Rightarrow> nat" where
  "shown_rank STAGE_QUEUED = 0"
| "shown_rank STAGE_RUNNING = 1"
| "shown_rank STAGE_SUCCEEDED = 2"
| "shown_rank STAGE_FAILED = 2"

lemma graph_log_sorted:
  "graph_run ck nodes n st = (r, nodes_log) \<Longrightarrow> sorted_wrt (\<lambda>a b. node_rank a < node_rank b) nodes_log
     \<and> (\<forall>m \<in> set nodes_log. node_rank n \<le> node_rank m)"
proof (induction ck nodes n st arbitrary: r nodes_log rule: graph_run.induct)
  case (1 ck nodes n st)
  obtain u log1 where i: "instrument_node ck nodes n st = (u, log1)" by fastforce
  have log1: "log1 = [] \<or> log1 = [n]" using i by (auto simp: instrument_node_def split: option.splits)
  show ?case
  proof (cases "\<exists>x m. u = Inr x \<and> next_node n (dupdate st x) = Inr (Some m)")
    case False
    then have "nodes_log = log1"
      using 1(2) i by (subst (asm) graph_run.simps) (auto split: sum.splits option.splits)
    with log1 show ?thesis by auto
  next
    case True
    then obtain x m where x: "u = Inr x" "next_node n (dupdate st x) = Inr (Some m)" by blast
    obtain r2 log2 where g: "graph_run ck nodes m (dupdate st x) = (r2, log2)" by fastforce
    have "nodes_log = log1 @ log2" using 1(2) i x g by (subst (asm) graph_run.simps) simp
    moreover have "sorted_wrt (\<lambda>a b. node_rank a < node_rank b) log2 \<and> (\<forall>k \<in> set log2. node_rank m \<le> node_rank k)"
      using 1(1)[OF i[symmetric] x(1) x(2) refl g] by blast
    ultimately show ?thesis using log1 next_node_rank[OF x(2)] by (auto simp: sorted_wrt_append)
  qed
qed

lemma node_stage_mono: "node_rank a \<le> node_rank b \<Longrightarrow> stage_index (node_stage a) \<le> stage_index (node_stage b)"
proof -
  have v: "stage_index (node_stage n) = (if node_rank n \<le> 2 then 0 else if node_rank n \<le> 4 then 1
      else if node_rank n \<le> 6 then 2 else if node_rank n \<le> 8 then 3 else 4)" for n
    by (cases n; simp add: node_stage_def NODE_STAGES_def dget_def closed_failure_stage_def stage_of_def stage_order_def)
  show "node_rank a \<le> node_rank b \<Longrightarrow> ?thesis" by (simp add: v)
qed

lemma progress_mono:
  assumes "stage_index a \<le> stage_index b"
  shows "list_all2 (\<lambda>p q. sp_stage p = sp_stage q \<and> shown_rank (sp_status p) \<le> shown_rank (sp_status q))
    (stage_progresses a RUNNING t m) (stage_progresses b RUNNING u k)"
  using assms by (auto simp: stage_progresses_def list_all2_map1 list_all2_map2 list_all2_same stage_status_for_def)

text \<open>A polled job never moves backwards: along every execution of the graph no node is entered
  twice, and what a client is shown at one node is, stage by stage, no further than what it is
  shown at any later node.\<close>

theorem progress_never_goes_back:
  assumes "graph_run ck nodes Supervisor st = (r, entered)"
  shows "distinct entered \<and> sorted_wrt (\<lambda>a b. list_all2 (\<lambda>p q. sp_stage p = sp_stage q \<and> shown_rank (sp_status p) \<le> shown_rank (sp_status q))
    (stage_progresses (node_stage a) RUNNING t None) (stage_progresses (node_stage b) RUNNING u None)) entered"
proof -
  have s: "sorted_wrt (\<lambda>a b. node_rank a < node_rank b) entered" using graph_log_sorted[OF assms] by blast
  then have "distinct entered"
    by (induction entered) auto
  moreover have "sorted_wrt (\<lambda>a b. list_all2 (\<lambda>p q. sp_stage p = sp_stage q \<and> shown_rank (sp_status p) \<le> shown_rank (sp_status q))
    (stage_progresses (node_stage a) RUNNING t None) (stage_progresses (node_stage b) RUNNING u None)) entered"
    using s by (rule sorted_wrt_mono_rel[rotated]) (auto intro!: progress_mono node_stage_mono)
  ultimately show ?thesis by blast
qed

theorem progress_never_goes_back_witness:
  "distinct (snd (graph_run demo_checks demo_nodes Supervisor [(''user_query'', PStr ''buy'')]))"
proof -
  obtain r entered where "graph_run demo_checks demo_nodes Supervisor [(''user_query'', PStr ''buy'')] = (r, entered)" by fastforce
  from progress_never_goes_back[OF this] this show ?thesis by simp
qed

end
