(* ===== verification/Ai_Ast_Validator.thy ===== *)
theory Ai_Ast_Validator
  imports QA_Prelude
begin

text \<open>
  The admission check for generated backtest code, \<^verbatim>\<open>ai_graph/security/ast_validator.py\<close>.  A syntax
  tree is a value of \<open>pyast\<close>: the classes of Python's \<^verbatim>\<open>ast\<close> module whose fields the check reads have
  a constructor of their own, every other class is an \<open>Other\<close> with its children in the order of its
  fields.  The visitor is a state passed along the traversal of \<^verbatim>\<open>ast.NodeVisitor\<close>.  Parsing itself
  is an argument, and the depth of Python's stack is not limited.
\<close>

section \<open>Syntax trees\<close>

text \<open>Line and column of a node.\<close>

type_synonym loc = "nat \<times> nat"

datatype py_constant = Const_Int int | Const_Bool bool | Const_Other

datatype comprehension_kind = List_Comp | Set_Comp | Dict_Comp | Generator_Exp

datatype pyast =
    Import loc "string list" "pyast list"
  | Import_From loc "string option" nat "pyast list"
  | Function_Def loc string "pyast list"
  | Async_Function_Def loc "pyast list"
  | Class_Def loc "pyast list"
  | With_Stmt loc "pyast list"
  | Call loc (call_func: pyast) (call_args: "pyast list") (call_keywords: "pyast list")
  | Attribute loc (attr_value: pyast) (attr_name: string) (attr_ctx: pyast)
  | While_Stmt loc "pyast list"
  | For_Stmt loc (for_target: pyast) (for_iter: pyast) (for_body: "pyast list") (for_orelse: "pyast list")
  | Comprehension loc comprehension_kind (comp_elements: "pyast list") (comp_generators: "pyast list")
  | Name string pyast
  | Constant py_constant
  | Subscript (sub_value: pyast) (sub_slice: pyast) (sub_ctx: pyast)
  | Slice "pyast list"
  | Other string "pyast list"

text \<open>\<^verbatim>\<open>ast.iter_child_nodes\<close>.  The names of an import are its \<open>alias\<close> nodes, given once as the
  texts the visitor reads and once as the children.\<close>

fun child_nodes :: "pyast \<Rightarrow> pyast list" where
  "child_nodes (Import _ _ cs) = cs"
| "child_nodes (Import_From _ _ _ cs) = cs"
| "child_nodes (Function_Def _ _ cs) = cs"
| "child_nodes (Async_Function_Def _ cs) = cs"
| "child_nodes (Class_Def _ cs) = cs"
| "child_nodes (With_Stmt _ cs) = cs"
| "child_nodes (Call _ f args kws) = f # args @ kws"
| "child_nodes (Attribute _ v _ ctx) = [v, ctx]"
| "child_nodes (While_Stmt _ cs) = cs"
| "child_nodes (For_Stmt _ t i body orelse) = t # i # body @ orelse"
| "child_nodes (Comprehension _ _ es gs) = es @ gs"
| "child_nodes (Name _ ctx) = [ctx]"
| "child_nodes (Constant _) = []"
| "child_nodes (Subscript v s ctx) = [v, s, ctx]"
| "child_nodes (Slice cs) = cs"
| "child_nodes (Other _ cs) = cs"

lemma child_nodes_size [termination_simp]: "c \<in> set (child_nodes n) \<Longrightarrow> size c < size n"
  by (cases n) (auto dest!: size_list_estimation'[where f = size, OF _ order_refl])

text \<open>\<^verbatim>\<open>ast.walk\<close>, in another order: the check counts its nodes and looks for one of a kind.\<close>

fun ast_walk :: "pyast \<Rightarrow> pyast list" where
  "ast_walk n = n # concat (map ast_walk (child_nodes n))"

declare ast_walk.simps [simp del]

fun ast_depth :: "pyast \<Rightarrow> nat" where
  "ast_depth n = (if child_nodes n = [] then 1 else 1 + foldr max (map ast_depth (child_nodes n)) 0)"

declare ast_depth.simps [simp del]

text \<open>
  The visitor and \<^verbatim>\<open>validate_backtest_code\<close> of \<^verbatim>\<open>ai_graph/security/ast_validator.py\<close>, and what an
  accepted program is: the stateful visitor decides a policy on the nodes of the tree, each judged
  by the functions and loops around it.
\<close>

section \<open>The limits and the lists\<close>

definition ALLOWED_MODULES :: "string list" where
  "ALLOWED_MODULES = [''datetime'', ''math'', ''statistics'']"

definition BLOCKED_MODULES :: "string list" where
  "BLOCKED_MODULES = [''subprocess'', ''os'', ''sys'', ''importlib'']"

definition BLOCKED_CALLS :: "string list" where
  "BLOCKED_CALLS = [''eval'', ''exec'', ''__import__'', ''open'', ''getattr'', ''setattr'']"

definition ALLOWED_ENTRYPOINTS :: "string list" where
  "ALLOWED_ENTRYPOINTS = [''build_signals'']"

definition ROLLING_AGGREGATORS :: "string list" where
  "ROLLING_AGGREGATORS = [''sum'', ''max'', ''min'']"

definition MAX_SOURCE_CHARS :: nat where "MAX_SOURCE_CHARS = 20000"
definition MAX_AST_NODES :: nat where "MAX_AST_NODES = 1500"
definition MAX_AST_DEPTH :: nat where "MAX_AST_DEPTH = 40"
definition MAX_LOOP_NODES :: nat where "MAX_LOOP_NODES = 8"
definition MAX_NESTED_LOOP_DEPTH :: nat where "MAX_NESTED_LOOP_DEPTH = 2"
definition MAX_LITERAL_RANGE :: int where "MAX_LITERAL_RANGE = 10000"

section \<open>Results\<close>

record ASTViolation =
  vn_loc :: loc
  vn_code :: string
  vn_message :: string

record ASTValidationResult =
  vr_ok :: bool
  vr_violations :: "ASTViolation list"

definition raise_for_violations :: "ASTValidationResult \<Rightarrow> unit res" where
  "raise_for_violations r =
     (if vr_ok r then Inr ()
      else Inl (ValueError (''unsafe generated code: '' @ join_with ''; '' (map vn_message (vr_violations r)))))"

section \<open>Names\<close>

text \<open>\<^verbatim>\<open>s.split(".", 1)[0]\<close>.\<close>

definition root_name :: "string \<Rightarrow> string" where
  "root_name s = takeWhile (\<lambda>c. c \<noteq> CHR ''.'') s"

text \<open>The parts that the loop of \<open>call_path\<close> collects, already reversed.\<close>

fun path_parts :: "pyast \<Rightarrow> string list" where
  "path_parts (Attribute _ v a _) = path_parts v @ [a]"
| "path_parts (Name i _) = [i]"
| "path_parts _ = []"

fun call_path :: "pyast \<Rightarrow> string" where
  "call_path (Name i _) = i"
| "call_path (Attribute l v a ctx) = join_with ''.'' (path_parts (Attribute l v a ctx))"
| "call_path _ = ''<dynamic>''"

fun attribute_root :: "pyast \<Rightarrow> string" where
  "attribute_root (Attribute _ v _ _) = attribute_root v"
| "attribute_root (Name i _) = i"
| "attribute_root _ = ''<dynamic>''"

fun is_sliced :: "pyast \<Rightarrow> bool" where
  "is_sliced (Subscript _ (Slice _) _) = True"
| "is_sliced _ = False"

definition contains_slice :: "pyast \<Rightarrow> bool" where
  "contains_slice n = list_ex is_sliced (ast_walk n)"

text \<open>\<^verbatim>\<open>isinstance(value, int)\<close> holds of a bool as well.\<close>

fun literal_int :: "pyast \<Rightarrow> int option" where
  "literal_int (Constant (Const_Int k)) = Some k"
| "literal_int (Constant (Const_Bool b)) = Some (if b then 1 else 0)"
| "literal_int _ = None"

section \<open>The visitor\<close>

record BacktestASTVisitor =
  vi_violations :: "ASTViolation list"
  vi_function_depth :: nat
  vi_loop_depth :: nat
  vi_loop_count :: nat

definition new_visitor :: BacktestASTVisitor where
  "new_visitor = \<lparr>vi_violations = [], vi_function_depth = 0, vi_loop_depth = 0, vi_loop_count = 0\<rparr>"

definition reject :: "loc \<Rightarrow> string \<Rightarrow> string \<Rightarrow> BacktestASTVisitor \<Rightarrow> BacktestASTVisitor" where
  "reject l code message v =
     v\<lparr>vi_violations := vi_violations v @ [\<lparr>vn_loc = l, vn_code = code, vn_message = message\<rparr>]\<rparr>"

definition reject_if :: "bool \<Rightarrow> loc \<Rightarrow> string \<Rightarrow> string \<Rightarrow> BacktestASTVisitor \<Rightarrow> BacktestASTVisitor" where
  "reject_if b l code message v = (if b then reject l code message v else v)"

definition module_blocked :: "string \<Rightarrow> bool" where
  "module_blocked m \<longleftrightarrow> root_name m \<in> set BLOCKED_MODULES \<or> m \<notin> set ALLOWED_MODULES"

definition quoted :: "string \<Rightarrow> string" where
  "quoted s = CHR 0x27 # s @ [CHR 0x27]"

definition check_import :: "loc \<Rightarrow> string list \<Rightarrow> BacktestASTVisitor \<Rightarrow> BacktestASTVisitor" where
  "check_import l names v =
     fold (\<lambda>m. reject_if (module_blocked m) l ''import.blocked'' (''import '' @ quoted m @ '' is not allowed'')) names v"

definition check_import_from :: "loc \<Rightarrow> string option \<Rightarrow> nat \<Rightarrow> BacktestASTVisitor \<Rightarrow> BacktestASTVisitor" where
  "check_import_from l m level v =
     (let module_name = or_text m ''''
      in reject_if (level \<noteq> 0 \<or> module_blocked module_name) l ''import_from.blocked''
           (''from import '' @ quoted module_name @ '' is not allowed'') v)"

definition check_function :: "loc \<Rightarrow> string \<Rightarrow> BacktestASTVisitor \<Rightarrow> BacktestASTVisitor" where
  "check_function l name v =
     reject_if (vi_function_depth v = 0 \<and> name \<notin> set ALLOWED_ENTRYPOINTS) l ''function.name''
       (''top-level function '' @ quoted name @ '' is not an allowed entrypoint'') v"

definition range_too_long :: "pyast list \<Rightarrow> bool" where
  "range_too_long args =
     (let literal_bounds = List.map_filter literal_int args
      in literal_bounds \<noteq> [] \<and> MAX_LITERAL_RANGE < foldr max (map abs literal_bounds) 0)"

definition check_call :: "loc \<Rightarrow> pyast \<Rightarrow> pyast list \<Rightarrow> BacktestASTVisitor \<Rightarrow> BacktestASTVisitor" where
  "check_call l func args v =
     (let call_name = call_path func;
          v1 = reject_if (call_name \<in> set BLOCKED_CALLS) l ''call.blocked'' (''call '' @ quoted call_name @ '' is not allowed'') v;
          v2 = reject_if (root_name call_name \<in> set BLOCKED_MODULES) l ''call.module_blocked''
                 (''call '' @ quoted call_name @ '' is not allowed'') v1;
          v3 = reject_if (vi_loop_depth v2 \<noteq> 0 \<and> call_name \<in> set ROLLING_AGGREGATORS \<and> list_ex contains_slice args) l
                 ''performance.rolling_slice'' (''call '' @ quoted call_name @ '' over a slice inside a loop is not allowed'') v2
      in reject_if (call_name = ''range'' \<and> args \<noteq> [] \<and> range_too_long args) l ''performance.range_limit''
           (''literal range exceeds '' @ show_int MAX_LITERAL_RANGE) v3)"

definition check_attribute :: "loc \<Rightarrow> pyast \<Rightarrow> string \<Rightarrow> BacktestASTVisitor \<Rightarrow> BacktestASTVisitor" where
  "check_attribute l val attr v =
     (let root = attribute_root val
      in reject_if (root \<in> set BLOCKED_MODULES) l ''attribute.blocked'' (''attribute access on '' @ quoted root @ '' is blocked'')
          (reject_if (take 1 attr = ''_'') l ''attribute.private'' (''private attribute '' @ quoted attr @ '' is not allowed'') v))"

text \<open>The counting of \<open>visit_For\<close> (one loop) and of \<open>_visit_comprehension\<close> (one per generator).\<close>

definition check_loop :: "loc \<Rightarrow> nat \<Rightarrow> bool \<Rightarrow> BacktestASTVisitor \<Rightarrow> BacktestASTVisitor" where
  "check_loop l count too_deep v =
     (let v = v\<lparr>vi_loop_count := vi_loop_count v + count\<rparr>
      in reject_if too_deep l ''performance.nested_loop'' (''nested loop depth exceeds '' @ show_nat MAX_NESTED_LOOP_DEPTH)
          (reject_if (MAX_LOOP_NODES < vi_loop_count v) l ''performance.loop_count''
             (''loop count exceeds '' @ show_nat MAX_LOOP_NODES) v))"

definition enter_function :: "BacktestASTVisitor \<Rightarrow> BacktestASTVisitor" where
  "enter_function v = v\<lparr>vi_function_depth := vi_function_depth v + 1\<rparr>"

definition leave_function :: "BacktestASTVisitor \<Rightarrow> BacktestASTVisitor" where
  "leave_function v = v\<lparr>vi_function_depth := vi_function_depth v - 1\<rparr>"

definition enter_loop :: "BacktestASTVisitor \<Rightarrow> BacktestASTVisitor" where
  "enter_loop v = v\<lparr>vi_loop_depth := vi_loop_depth v + 1\<rparr>"

definition leave_loop :: "BacktestASTVisitor \<Rightarrow> BacktestASTVisitor" where
  "leave_loop v = v\<lparr>vi_loop_depth := vi_loop_depth v - 1\<rparr>"

text \<open>\<open>visit\<close> with its dispatch on the class of a node; \<open>generic_visit\<close> visits the children in order.\<close>

fun visit :: "pyast \<Rightarrow> BacktestASTVisitor \<Rightarrow> BacktestASTVisitor" where
  "visit (Import l names cs) v = fold visit cs (check_import l names v)"
| "visit (Import_From l m level cs) v = fold visit cs (check_import_from l m level v)"
| "visit (Function_Def l name cs) v = leave_function (fold visit cs (enter_function (check_function l name v)))"
| "visit (Async_Function_Def l cs) v = fold visit cs (reject l ''async.blocked'' ''async functions are not allowed'' v)"
| "visit (Class_Def l cs) v = fold visit cs (reject l ''class.blocked'' ''classes are not allowed'' v)"
| "visit (With_Stmt l cs) v = fold visit cs (reject l ''with.blocked'' ''with statements are not allowed'' v)"
| "visit (Call l f args kws) v = fold visit (f # args @ kws) (check_call l f args v)"
| "visit (Attribute l val a ctx) v = visit ctx (visit val (check_attribute l val a v))"
| "visit (While_Stmt l cs) v = fold visit cs (reject l ''performance.while_loop'' ''while loops are not allowed'' v)"
| "visit (For_Stmt l t i body orelse) v =
     fold visit orelse (leave_loop (fold visit body (enter_loop (visit i (visit t
       (check_loop l 1 (MAX_NESTED_LOOP_DEPTH \<le> vi_loop_depth v) v))))))"
| "visit (Comprehension l k es gs) v =
     fold visit (es @ gs) (check_loop l (length gs) (MAX_NESTED_LOOP_DEPTH < vi_loop_depth v + length gs) v)"
| "visit (Name i ctx) v = visit ctx v"
| "visit (Constant k) v = v"
| "visit (Subscript a s ctx) v = visit ctx (visit s (visit a v))"
| "visit (Slice cs) v = fold visit cs v"
| "visit (Other c cs) v = fold visit cs v"

declare visit.simps [simp del]

section \<open>The check\<close>

text \<open>What \<^verbatim>\<open>ast.parse\<close> does with a text: the module's statements and type-ignore nodes, a syntax error
  with its position and message, or another exception, which the check does not catch.\<close>

datatype parse_result =
    Parsed "pyast list" "pyast list"
  | Syntax_Error "nat option" "nat option" string
  | Parse_Raises py_error

definition new_violation :: "nat \<Rightarrow> nat \<Rightarrow> string \<Rightarrow> string \<Rightarrow> ASTViolation res" where
  "new_violation line column code message =
     (if code = [] \<or> message = [] then Inl (ValueError ''ASTViolation'')
      else Inr \<lparr>vn_loc = (line, column), vn_code = code, vn_message = message\<rparr>)"

definition or_zero :: "nat option \<Rightarrow> nat" where
  "or_zero x = (case x of None \<Rightarrow> 0 | Some n \<Rightarrow> n)"

definition global_violation :: "string \<Rightarrow> string \<Rightarrow> ASTViolation" where
  "global_violation code message = \<lparr>vn_loc = (0, 0), vn_code = code, vn_message = message\<rparr>"

fun function_name :: "pyast \<Rightarrow> string option" where
  "function_name (Function_Def _ name _) = Some name"
| "function_name _ = None"

definition missing_functions :: "string list \<Rightarrow> pyast list \<Rightarrow> ASTViolation list" where
  "missing_functions required body =
     (let function_names = List.map_filter function_name body
      in map (\<lambda>f. global_violation ''function.missing'' (''required function '' @ quoted f @ '' is missing''))
           (filter (\<lambda>f. f \<notin> set function_names) required))"

definition size_violations :: "string \<Rightarrow> ASTViolation list" where
  "size_violations source =
     (if MAX_SOURCE_CHARS < length source
      then [global_violation ''performance.source_size'' (''source exceeds '' @ show_nat MAX_SOURCE_CHARS @ '' characters'')] else [])"

definition tree_violations :: "pyast \<Rightarrow> ASTViolation list" where
  "tree_violations tree =
     (if MAX_AST_NODES < length (ast_walk tree)
      then [global_violation ''performance.ast_nodes'' (''AST node count exceeds '' @ show_nat MAX_AST_NODES)] else [])
   @ (if MAX_AST_DEPTH < ast_depth tree
      then [global_violation ''performance.ast_depth'' (''AST depth exceeds '' @ show_nat MAX_AST_DEPTH)] else [])"

definition validate_backtest_code ::
  "(string \<Rightarrow> parse_result) \<Rightarrow> string list \<Rightarrow> string \<Rightarrow> ASTValidationResult res" where
  "validate_backtest_code parse required source =
     (case parse source of
        Parse_Raises e \<Rightarrow> Inl e
      | Syntax_Error line offset msg \<Rightarrow>
          rbind (new_violation (or_zero line) (or_zero offset) ''syntax.error'' msg)
            (\<lambda>violation. Inr \<lparr>vr_ok = False, vr_violations = [violation]\<rparr>)
      | Parsed body type_ignores \<Rightarrow>
          let tree = Other ''Module'' (body @ type_ignores);
              violations = size_violations source @ tree_violations tree @ vi_violations (visit tree new_visitor)
                @ missing_functions required body
          in Inr \<lparr>vr_ok = (violations = []), vr_violations = violations\<rparr>)"

section \<open>The policy\<close>

text \<open>Every node of a tree with the number of functions and of for-loop bodies around it.\<close>

type_synonym site = "nat \<times> nat \<times> pyast"

fun sites :: "nat \<Rightarrow> nat \<Rightarrow> pyast \<Rightarrow> site list" where
  "sites f l (Function_Def p name cs) = (f, l, Function_Def p name cs) # concat (map (sites (f + 1) l) cs)"
| "sites f l (For_Stmt p t i body orelse) = (f, l, For_Stmt p t i body orelse) # sites f l t @ sites f l i
     @ concat (map (sites f (l + 1)) body) @ concat (map (sites f l) orelse)"
| "sites f l n = (f, l, n) # concat (map (sites f l) (child_nodes n))"

fun allowed_site :: "site \<Rightarrow> bool" where
  "allowed_site (f, l, Import _ names _) = list_all (\<lambda>m. \<not> module_blocked m) names"
| "allowed_site (f, l, Import_From _ m level _) = (level = 0 \<and> \<not> module_blocked (or_text m ''''))"
| "allowed_site (f, l, Function_Def _ name _) = (f \<noteq> 0 \<or> name \<in> set ALLOWED_ENTRYPOINTS)"
| "allowed_site (f, l, Async_Function_Def _ _) = False"
| "allowed_site (f, l, Class_Def _ _) = False"
| "allowed_site (f, l, With_Stmt _ _) = False"
| "allowed_site (f, l, While_Stmt _ _) = False"
| "allowed_site (f, l, Call _ func args _) =
     (call_path func \<notin> set BLOCKED_CALLS \<and> root_name (call_path func) \<notin> set BLOCKED_MODULES
      \<and> \<not> (l \<noteq> 0 \<and> call_path func \<in> set ROLLING_AGGREGATORS \<and> list_ex contains_slice args)
      \<and> \<not> (call_path func = ''range'' \<and> args \<noteq> [] \<and> range_too_long args))"
| "allowed_site (f, l, Attribute _ val a _) = (take 1 a \<noteq> ''_'' \<and> attribute_root val \<notin> set BLOCKED_MODULES)"
| "allowed_site (f, l, For_Stmt _ _ _ _ _) = (l < MAX_NESTED_LOOP_DEPTH)"
| "allowed_site (f, l, Comprehension _ _ _ gs) = (l + length gs \<le> MAX_NESTED_LOOP_DEPTH)"
| "allowed_site _ = True"

fun node_loops :: "pyast \<Rightarrow> nat" where
  "node_loops (For_Stmt _ _ _ _ _) = 1"
| "node_loops (Comprehension _ _ _ gs) = length gs"
| "node_loops _ = 0"

fun is_loop :: "pyast \<Rightarrow> bool" where
  "is_loop (For_Stmt _ _ _ _ _) = True"
| "is_loop (Comprehension _ _ _ _) = True"
| "is_loop _ = False"

definition site_loops :: "site list \<Rightarrow> nat" where
  "site_loops S = sum_list (map (\<lambda>(f, l, n). node_loops n) S)"

lemma site_loops_simps [simp]: "site_loops [] = 0" "site_loops ((f, l, n) # S) = node_loops n + site_loops S"
  "site_loops (S @ T) = site_loops S + site_loops T"
  by (simp_all add: site_loops_def)

lemma no_loops: "\<not> list_ex (\<lambda>(f, l, n). is_loop n) S \<Longrightarrow> site_loops S = 0"
proof (induction S)
  case (Cons x S)
  obtain f l n where "x = (f, l, n)" by (cases x)
  with Cons show ?case by (cases n) auto
qed simp

section \<open>The visitor decides the policy\<close>

text \<open>Visiting the sites \<open>S\<close> takes the visitor from \<open>v\<close> to \<open>w\<close>: the depths are restored, the loops are
  counted, and a violation appears exactly when a site is not allowed or the count runs over.\<close>

definition decided :: "site list \<Rightarrow> BacktestASTVisitor \<Rightarrow> BacktestASTVisitor \<Rightarrow> bool" where
  "decided S v w \<longleftrightarrow> vi_function_depth w = vi_function_depth v \<and> vi_loop_depth w = vi_loop_depth v
     \<and> vi_loop_count w = vi_loop_count v + site_loops S
     \<and> (vi_violations w = [] \<longleftrightarrow> vi_violations v = [] \<and> list_all allowed_site S
          \<and> (list_ex (\<lambda>(f, l, n). is_loop n) S \<longrightarrow> vi_loop_count v + site_loops S \<le> MAX_LOOP_NODES))"

lemma decided_Nil [simp]: "decided [] v v"
  by (simp add: decided_def)

lemma decided_trans: "decided S v w \<Longrightarrow> decided T w u \<Longrightarrow> decided (S @ T) v u"
  using no_loops[of S] no_loops[of T] unfolding decided_def by auto

lemma decided_Cons: "decided [x] v w \<Longrightarrow> decided S w u \<Longrightarrow> decided (x # S) v u"
  using decided_trans[of "[x]"] by fastforce

lemma decided_depths: "decided S v w \<Longrightarrow> vi_function_depth w = vi_function_depth v \<and> vi_loop_depth w = vi_loop_depth v"
  by (simp add: decided_def)

lemma decided_fold:
  assumes "\<And>c v. c \<in> set cs \<Longrightarrow> decided (sites (vi_function_depth v) (vi_loop_depth v) c) v (visit c v)"
  shows "decided (concat (map (sites (vi_function_depth v) (vi_loop_depth v)) cs)) v (fold visit cs v)"
  using assms
proof (induction cs arbitrary: v)
  case (Cons c cs)
  have one: "decided (sites (vi_function_depth v) (vi_loop_depth v) c) v (visit c v)" using Cons.prems by simp
  have "decided (concat (map (sites (vi_function_depth (visit c v)) (vi_loop_depth (visit c v))) cs)) (visit c v) (fold visit cs (visit c v))"
    using Cons by simp
  with decided_trans[OF one] decided_depths[OF one] show ?case by simp
qed simp

lemma decided_then_fold:
  assumes "decided [x] v w"
    and "\<And>c v. c \<in> set cs \<Longrightarrow> decided (sites (vi_function_depth v) (vi_loop_depth v) c) v (visit c v)"
  shows "decided (x # concat (map (sites (vi_function_depth v) (vi_loop_depth v)) cs)) v (fold visit cs w)"
  using decided_Cons[OF assms(1)] decided_fold[OF assms(2), of cs w] decided_depths[OF assms(1)] by simp

lemma decided_inside:
  "decided S (enter_function v) w \<Longrightarrow> decided S v (leave_function w)"
  "decided S (enter_loop v) w \<Longrightarrow> decided S v (leave_loop w)"
  by (simp_all add: decided_def enter_function_def leave_function_def enter_loop_def leave_loop_def)

lemma reject_if_facts [simp]:
  "vi_function_depth (reject_if b l c m v) = vi_function_depth v" "vi_loop_depth (reject_if b l c m v) = vi_loop_depth v"
  "vi_loop_count (reject_if b l c m v) = vi_loop_count v"
  "vi_violations (reject_if b l c m v) = [] \<longleftrightarrow> \<not> b \<and> vi_violations v = []"
  by (auto simp: reject_if_def reject_def)

lemma check_import_facts:
  "decided [(f, l, Import p names cs)] v (check_import p names v)"
  by (induction names arbitrary: v) (auto simp: check_import_def decided_def)

lemma checks_decided:
  "decided [(f, l, Import_From p m level cs)] v (check_import_from p m level v)"
  "decided [(vi_function_depth v, l, Function_Def p name cs)] v (check_function p name v)"
  "decided [(f, l, Async_Function_Def p cs)] v (reject p c1 m1 v)"
  "decided [(f, l, Class_Def p cs)] v (reject p c1 m1 v)"
  "decided [(f, l, With_Stmt p cs)] v (reject p c1 m1 v)"
  "decided [(f, l, While_Stmt p cs)] v (reject p c1 m1 v)"
  "decided [(f, vi_loop_depth v, Call p g args kws)] v (check_call p g args v)"
  "decided [(f, l, Attribute p val a ctx)] v (check_attribute p val a v)"
  "decided [(f, vi_loop_depth v, For_Stmt p t i b e)] v (check_loop p 1 (MAX_NESTED_LOOP_DEPTH \<le> vi_loop_depth v) v)"
  "decided [(f, vi_loop_depth v, Comprehension p k es gs)] v
     (check_loop p (length gs) (MAX_NESTED_LOOP_DEPTH < vi_loop_depth v + length gs) v)"
  "decided [(f, l, Name nm ctx)] v v" "decided [(f, l, Constant kst)] v v" "decided [(f, l, Subscript sv ss ctx)] v v"
  "decided [(f, l, Slice cs)] v v" "decided [(f, l, Other c cs)] v v"
  by (auto simp: decided_def check_import_from_def check_function_def check_call_def check_attribute_def check_loop_def
      Let_def reject_def)

lemma visit_decided: "decided (sites (vi_function_depth v) (vi_loop_depth v) n) v (visit n v)"
proof (induction n arbitrary: v)
  case (Function_Def p name cs)
  have c: "decided [(vi_function_depth v, vi_loop_depth v, Function_Def p name cs)] v (check_function p name v)"
    by (rule checks_decided)
  have "decided (concat (map (sites (vi_function_depth v + 1) (vi_loop_depth v)) cs)) (enter_function (check_function p name v))
      (fold visit cs (enter_function (check_function p name v)))"
    using decided_fold[of cs "enter_function (check_function p name v)"] Function_Def decided_depths[OF c]
    by (simp add: enter_function_def)
  from decided_Cons[OF c decided_inside(1)[OF this]] show ?case by (simp add: visit.simps)
next
  case (For_Stmt p t i b e)
  let ?f = "vi_function_depth v" and ?l = "vi_loop_depth v"
  let ?w = "check_loop p 1 (MAX_NESTED_LOOP_DEPTH \<le> ?l) v"
  have c: "decided [(?f, ?l, For_Stmt p t i b e)] v ?w" by (rule checks_decided)
  have t: "decided (sites ?f ?l t) ?w (visit t ?w)" using For_Stmt.IH(1)[of ?w] decided_depths[OF c] by simp
  have i: "decided (sites ?f ?l i) (visit t ?w) (visit i (visit t ?w))"
    using For_Stmt.IH(2)[of "visit t ?w"] decided_depths[OF c] decided_depths[OF t] by simp
  let ?u = "visit i (visit t ?w)"
  have d: "vi_function_depth ?u = ?f" "vi_loop_depth ?u = ?l"
    using decided_depths[OF c] decided_depths[OF t] decided_depths[OF i] by simp_all
  have "decided (concat (map (sites ?f (?l + 1)) b)) (enter_loop ?u) (fold visit b (enter_loop ?u))"
    using decided_fold[of b "enter_loop ?u"] For_Stmt.IH(3) d by (simp add: enter_loop_def)
  note b = decided_inside(2)[OF this]
  have "decided (concat (map (sites ?f ?l) e)) (leave_loop (fold visit b (enter_loop ?u)))
      (fold visit e (leave_loop (fold visit b (enter_loop ?u))))"
    using decided_fold[of e "leave_loop (fold visit b (enter_loop ?u))"] For_Stmt.IH(4) d decided_depths[OF b] by simp
  from decided_Cons[OF c decided_trans[OF t decided_trans[OF i decided_trans[OF b this]]]]
  show ?case by (simp add: visit.simps)
next
  case (Call p g args kws)
  have "decided ((vi_function_depth v, vi_loop_depth v, Call p g args kws)
      # concat (map (sites (vi_function_depth v) (vi_loop_depth v)) (g # args @ kws))) v (fold visit (g # args @ kws) (check_call p g args v))"
    by (rule decided_then_fold, rule checks_decided) (use Call in auto)
  then show ?case by (simp add: visit.simps)
next
  case (Attribute p val a ctx)
  have "decided ((vi_function_depth v, vi_loop_depth v, Attribute p val a ctx)
      # concat (map (sites (vi_function_depth v) (vi_loop_depth v)) ([val, ctx]))) v (fold visit ([val, ctx]) (check_attribute p val a v))"
    by (rule decided_then_fold, rule checks_decided) (use Attribute in auto)
  then show ?case by (simp add: visit.simps)
next
  case (Comprehension p k es gs)
  have "decided ((vi_function_depth v, vi_loop_depth v, Comprehension p k es gs)
      # concat (map (sites (vi_function_depth v) (vi_loop_depth v)) (es @ gs))) v (fold visit (es @ gs) (check_loop p (length gs) (MAX_NESTED_LOOP_DEPTH < vi_loop_depth v + length gs) v))"
    by (rule decided_then_fold, rule checks_decided) (use Comprehension in auto)
  then show ?case by (simp add: visit.simps)
next
  case (Name i ctx)
  have "decided ((vi_function_depth v, vi_loop_depth v, Name i ctx)
      # concat (map (sites (vi_function_depth v) (vi_loop_depth v)) ([ctx]))) v (fold visit ([ctx]) (v))"
    by (rule decided_then_fold, rule checks_decided) (use Name in auto)
  then show ?case by (simp add: visit.simps)
next
  case (Subscript a s ctx)
  have "decided ((vi_function_depth v, vi_loop_depth v, Subscript a s ctx)
      # concat (map (sites (vi_function_depth v) (vi_loop_depth v)) ([a, s, ctx]))) v (fold visit ([a, s, ctx]) (v))"
    by (rule decided_then_fold, rule checks_decided) (use Subscript in auto)
  then show ?case by (simp add: visit.simps)
qed (auto simp: visit.simps intro!: decided_then_fold check_import_facts checks_decided(1,3-6,12,14,15))

section \<open>Accepted programs\<close>

lemma sites_walk: "map (\<lambda>(f, l, n). n) (sites f l n) = ast_walk n"
proof (induction f l n rule: sites.induct)
  case (1 f l p name cs)
  then show ?case by (subst ast_walk.simps) (simp add: map_concat comp_def cong: map_cong)
next
  case (2 f l p t i body orelse)
  then show ?case by (subst ast_walk.simps) (simp add: map_concat comp_def cong: map_cong)
qed (subst ast_walk.simps, simp add: map_concat comp_def cong: map_cong)+



definition module_tree :: "pyast list \<Rightarrow> pyast list \<Rightarrow> pyast" where
  "module_tree body type_ignores = Other ''Module'' (body @ type_ignores)"

definition policy :: "string \<Rightarrow> string list \<Rightarrow> pyast list \<Rightarrow> pyast list \<Rightarrow> bool" where
  "policy source required body type_ignores \<longleftrightarrow>
     (let tree = module_tree body type_ignores in
      length source \<le> MAX_SOURCE_CHARS \<and> length (ast_walk tree) \<le> MAX_AST_NODES \<and> ast_depth tree \<le> MAX_AST_DEPTH
      \<and> list_all allowed_site (sites 0 0 tree) \<and> sum_list (map node_loops (ast_walk tree)) \<le> MAX_LOOP_NODES
      \<and> (\<forall>f \<in> set required. f \<in> set (List.map_filter function_name body)))"

lemma site_loops_walk: "site_loops (sites f l n) = sum_list (map node_loops (ast_walk n))"
  by (simp add: site_loops_def flip: sites_walk[of f l n]) (simp add: comp_def case_prod_unfold)

lemma visitor_policy:
  "vi_violations (visit tree new_visitor) = [] \<longleftrightarrow>
     list_all allowed_site (sites 0 0 tree) \<and> sum_list (map node_loops (ast_walk tree)) \<le> MAX_LOOP_NODES"
proof -
  let ?S = "sites 0 0 tree"
  have "vi_violations (visit tree new_visitor) = [] \<longleftrightarrow> list_all allowed_site ?S
      \<and> (list_ex (\<lambda>(f, l, n). is_loop n) ?S \<longrightarrow> site_loops ?S \<le> MAX_LOOP_NODES)"
    using visit_decided[of new_visitor tree] by (simp add: decided_def new_visitor_def)
  moreover have "\<not> list_ex (\<lambda>(f, l, n). is_loop n) ?S \<Longrightarrow> site_loops ?S \<le> MAX_LOOP_NODES" using no_loops[of ?S] by simp
  ultimately show ?thesis unfolding site_loops_walk by blast
qed

lemma defined_functions: "f \<in> set (List.map_filter function_name body) \<longleftrightarrow> (\<exists>p cs. Function_Def p f cs \<in> set body)"
proof -
  have "function_name n = Some f \<longleftrightarrow> (\<exists>p cs. n = Function_Def p f cs)" for n by (cases n) auto
  then show ?thesis by (force simp: List.map_filter_def)
qed

lemma missing_functions_Nil:
  "missing_functions required body = [] \<longleftrightarrow> (\<forall>f \<in> set required. f \<in> set (List.map_filter function_name body))"
  by (auto simp: missing_functions_def Let_def filter_empty_conv)

text \<open>C40. The validator accepts a parsed program exactly when it satisfies the policy: its sizes are
  within the limits, every node is allowed where it stands, there are at most eight loops, and the
  required functions are defined; its result lists a violation otherwise.\<close>

theorem validator_decides_policy:
  assumes "parse source = Parsed body type_ignores"
  shows "\<exists>r. validate_backtest_code parse required source = Inr r
    \<and> vr_ok r = policy source required body type_ignores \<and> (vr_violations r = []) = vr_ok r"
  using assms by (simp add: validate_backtest_code_def policy_def module_tree_def Let_def visitor_policy missing_functions_Nil
      size_violations_def tree_violations_def not_less)

definition demo_function :: "pyast list \<Rightarrow> pyast" where
  "demo_function stmts = Function_Def (1, 0) ''build_signals'' (Other ''arguments'' [Other ''arg'' []] # stmts)"

definition load :: "string \<Rightarrow> pyast" where
  "load x = Name x (Other ''Load'' [])"

text \<open>\<^verbatim>\<open>def build_signals(rows): return open(rows)\<close>\<close>

definition demo_open :: "pyast list" where
  "demo_open = [demo_function [Other ''Return'' [Call (2, 11) (load ''open'') [load ''rows''] []]]]"

theorem validator_decides_policy_witness:
  "\<exists>r. validate_backtest_code (\<lambda>_. Parsed demo_open []) [''build_signals''] ''...'' = Inr r \<and> \<not> vr_ok r"
proof -
  have p: "(\<lambda>_. Parsed demo_open []) ''...'' = Parsed demo_open []" by simp
  have "\<not> policy ''...'' [''build_signals''] demo_open []" by code_simp
  with validator_decides_policy[OF p, of "[''build_signals'']"] show ?thesis by auto
qed









lemmas validate_eval = validate_backtest_code_def demo_function_def load_def size_violations_def tree_violations_def
  ast_walk.simps ast_depth.simps visit.simps new_visitor_def check_import_def check_function_def check_call_def check_attribute_def
  check_loop_def reject_if_def reject_def module_blocked_def root_name_def or_text_def enter_function_def leave_function_def
  enter_loop_def leave_loop_def missing_functions_def map_filter_simps ALLOWED_MODULES_def BLOCKED_MODULES_def BLOCKED_CALLS_def
  ALLOWED_ENTRYPOINTS_def ROLLING_AGGREGATORS_def MAX_SOURCE_CHARS_def MAX_AST_NODES_def MAX_AST_DEPTH_def MAX_LOOP_NODES_def
  MAX_NESTED_LOOP_DEPTH_def MAX_LITERAL_RANGE_def Let_def



text \<open>What the check does not see.  A blocked function is reached through a variable, and the depth of
  comprehensions inside comprehensions is not counted: eight loops, one in the other, are accepted.\<close>

definition demo_alias :: "pyast list" where
  "demo_alias = [demo_function [Other ''Assign'' [Name ''f'' (Other ''Store'' []), load ''eval''],
     Other ''Return'' [Call (3, 11) (load ''f'') [load ''rows''] []]]]"

lemma aliased_eval_accepted:
  "\<exists>r. validate_backtest_code (\<lambda>_. Parsed demo_alias []) [''build_signals''] ''...'' = Inr r \<and> vr_ok r"
proof -
  have "validate_backtest_code (\<lambda>_. Parsed demo_alias []) [''build_signals''] ''...'' = Inr \<lparr>vr_ok = True, vr_violations = []\<rparr>"
    by (simp add: demo_alias_def validate_eval)
  then show ?thesis by simp
qed

fun nested_comprehension :: "nat \<Rightarrow> pyast" where
  "nested_comprehension 0 = load ''rows''"
| "nested_comprehension (Suc k) = Comprehension (2, 11) List_Comp [nested_comprehension k]
     [Other ''comprehension'' [Name ''x'' (Other ''Store'' []), load ''rows'']]"

lemma nested_comprehensions_accepted:
  "\<exists>r. validate_backtest_code (\<lambda>_. Parsed [demo_function [Other ''Return'' [nested_comprehension 8]]] []) [''build_signals''] ''...''
     = Inr r \<and> vr_ok r"
proof -
  have "validate_backtest_code (\<lambda>_. Parsed [demo_function [Other ''Return'' [nested_comprehension 8]]] []) [''build_signals''] ''...''
      = Inr \<lparr>vr_ok = True, vr_violations = []\<rparr>"
    by (simp add: eval_nat_numeral validate_eval)
  then show ?thesis by simp
qed

end
