(* ===== verification/Np_Series.thy ===== *)
theory Np_Series
  imports Py_Float
begin

text \<open>
  What the feature store of the agent uses of numpy, on lists of floats: division, extremes, means
  and deviations with numpy's rules for NaN, sliding windows, and the one-dimensional kernels built
  on them.  A kernel maps the bars of one ticker to one value per bar.  It is causal when it
  commutes with cutting off the future, and the rules in \<open>causal_intros\<close> show it of every kernel
  from the way it is built.  The square root is an argument; finite results are exact.
\<close>

type_synonym series = "pyfloat list"

section \<open>Elementwise operations\<close>

text \<open>IEEE division, which numpy does without raising.  A zero has no sign here.\<close>

fun np_div :: "pyfloat \<Rightarrow> pyfloat \<Rightarrow> pyfloat" where
  "np_div (Fin a) (Fin b) = (if b \<noteq> 0 then Fin (a / b) else if a = 0 then NaN else if 0 < a then PInf else NInf)"
| "np_div NaN _ = NaN"
| "np_div _ NaN = NaN"
| "np_div (Fin a) _ = Fin 0"
| "np_div PInf (Fin b) = (if 0 \<le> b then PInf else NInf)"
| "np_div NInf (Fin b) = (if 0 \<le> b then NInf else PInf)"
| "np_div _ _ = NaN"

text \<open>\<^verbatim>\<open>np.maximum\<close> and \<^verbatim>\<open>np.minimum\<close> pass NaN on.\<close>

definition np_maximum :: "pyfloat \<Rightarrow> pyfloat \<Rightarrow> pyfloat" where
  "np_maximum a b = (if a = NaN \<or> b = NaN then NaN else if a < b then b else a)"

definition np_minimum :: "pyfloat \<Rightarrow> pyfloat \<Rightarrow> pyfloat" where
  "np_minimum a b = (if a = NaN \<or> b = NaN then NaN else if b < a then b else a)"

fun np_abs :: "pyfloat \<Rightarrow> pyfloat" where
  "np_abs (Fin a) = Fin \<bar>a\<bar>"
| "np_abs NaN = NaN"
| "np_abs _ = PInf"

fun np_sign :: "pyfloat \<Rightarrow> pyfloat" where
  "np_sign (Fin a) = Fin (if a < 0 then -1 else if a = 0 then 0 else 1)"
| "np_sign NaN = NaN"
| "np_sign PInf = Fin 1"
| "np_sign NInf = Fin (-1)"

text \<open>\<^verbatim>\<open>np.nan_to_num(x, nan=0.0)\<close>: infinities become the largest floats.\<close>

fun nan_to_num :: "pyfloat \<Rightarrow> pyfloat" where
  "nan_to_num (Fin a) = Fin a"
| "nan_to_num NaN = Fin 0"
| "nan_to_num PInf = Fin ((2 - 1 / 2 ^ 52) * 2 ^ 1023)"
| "nan_to_num NInf = Fin (- ((2 - 1 / 2 ^ 52) * 2 ^ 1023))"

fun np_sqrt :: "(rat \<Rightarrow> rat) \<Rightarrow> pyfloat \<Rightarrow> pyfloat" where
  "np_sqrt sq (Fin a) = (if a < 0 then NaN else Fin (sq a))"
| "np_sqrt sq PInf = PInf"
| "np_sqrt sq _ = NaN"

definition of_bool_float :: "bool \<Rightarrow> pyfloat" where
  "of_bool_float b = Fin (if b then 1 else 0)"

section \<open>Reductions\<close>

definition np_mean :: "series \<Rightarrow> pyfloat" where
  "np_mean xs = np_div (py_sum xs) (Fin (of_nat (length xs)))"

definition np_max :: "series \<Rightarrow> pyfloat" where
  "np_max xs = fold np_maximum (tl xs) (hd xs)"

definition np_min :: "series \<Rightarrow> pyfloat" where
  "np_min xs = fold np_minimum (tl xs) (hd xs)"

definition np_std :: "(rat \<Rightarrow> rat) \<Rightarrow> nat \<Rightarrow> series \<Rightarrow> pyfloat" where
  "np_std sq ddof xs =
     (let m = np_mean xs in
      np_sqrt sq (np_div (py_sum (map (\<lambda>x. (x - m) * (x - m)) xs)) (Fin (of_nat (length xs) - of_nat ddof))))"

text \<open>\<^verbatim>\<open>np.argmax\<close> and \<^verbatim>\<open>np.argmin\<close>: the first NaN, else the first extreme.\<close>

fun arg_best :: "(pyfloat \<Rightarrow> pyfloat \<Rightarrow> bool) \<Rightarrow> nat \<Rightarrow> pyfloat \<Rightarrow> nat \<Rightarrow> series \<Rightarrow> nat" where
  "arg_best better best x k [] = best"
| "arg_best better best x k (y # ys) =
     (if x = NaN then best else if y = NaN \<or> better y x then arg_best better k y (Suc k) ys
      else arg_best better best x (Suc k) ys)"

definition np_argmax :: "series \<Rightarrow> nat" where
  "np_argmax xs = arg_best (\<lambda>y x. x < y) 0 (hd xs) 1 (tl xs)"

definition np_argmin :: "series \<Rightarrow> nat" where
  "np_argmin xs = arg_best (\<lambda>y x. y < x) 0 (hd xs) 1 (tl xs)"

section \<open>Kernels\<close>

text \<open>\<^verbatim>\<open>sliding_window_view(values, window)\<close>, and a value per window written from bar \<open>window - 1\<close> on.\<close>

definition sliding_windows :: "nat \<Rightarrow> 'a list \<Rightarrow> 'a list list" where
  "sliding_windows w xs = map (\<lambda>p. take w (drop p xs)) [0..<length xs + 1 - w]"

definition windowed :: "'b \<Rightarrow> nat \<Rightarrow> ('a list \<Rightarrow> 'b) \<Rightarrow> 'a list \<Rightarrow> 'b list" where
  "windowed d w f xs =
     (if length xs < w then replicate (length xs) d else replicate (w - 1) d @ map f (sliding_windows w xs))"

text \<open>A value moved \<open>k\<close> bars into the future.\<close>

definition shifted :: "nat \<Rightarrow> series \<Rightarrow> series" where
  "shifted k xs =
     (if k < length xs then replicate k NaN @ take (length xs - k) xs else replicate (length xs) NaN)"

text \<open>A loop over the bars with a state and an output per bar.\<close>

fun scan :: "('s \<Rightarrow> 'a \<Rightarrow> 's \<times> 'b) \<Rightarrow> 's \<Rightarrow> 'a list \<Rightarrow> 'b list" where
  "scan f s [] = []"
| "scan f s (x # xs) = (case f s x of (s', y) \<Rightarrow> y # scan f s' xs)"

section \<open>Causal kernels\<close>

named_theorems causal_intros \<open>rules that show a kernel causal from its construction\<close>

definition causal :: "('a list \<Rightarrow> 'b list) \<Rightarrow> bool" where
  "causal k \<longleftrightarrow> (\<forall>xs. length (k xs) = length xs) \<and> (\<forall>n xs. k (take n xs) = take n (k xs))"

lemma causal_length: "causal k \<Longrightarrow> length (k xs) = length xs"
  by (simp add: causal_def)

lemma causal_append: "causal k \<Longrightarrow> take (length xs) (k (xs @ ys)) = k xs"
  unfolding causal_def by (metis append_eq_conv_conj)

text \<open>It is enough that the value at a bar is a function of the bars up to it.\<close>

lemma causal_by_nth:
  assumes "\<And>xs. length (k xs) = length xs" and "\<And>xs p. p < length xs \<Longrightarrow> k xs ! p = g p (take (Suc p) xs)"
  shows "causal k"
proof -
  have "k (take n xs) ! p = take n (k xs) ! p" if "p < min (length xs) n" for n xs p
  proof -
    have "take (Suc p) (take n xs) = take (Suc p) xs" using that by (simp add: min_absorb1)
    then show ?thesis using that assms(2)[of p "take n xs"] assms(2)[of p xs] by simp
  qed
  then show ?thesis unfolding causal_def by (auto simp: assms(1) intro!: nth_equalityI)
qed

lemma causal_map [causal_intros]: "causal (map f)"
  by (simp add: causal_def take_map)

lemma causal_comp: "causal k \<Longrightarrow> causal l \<Longrightarrow> causal (\<lambda>xs. k (l xs))"
  by (simp add: causal_def)

lemma causal_id [causal_intros]: "causal (\<lambda>xs. xs)"
  by (simp add: causal_def)

lemma causal_map_comp [causal_intros]: "causal k \<Longrightarrow> causal (\<lambda>xs. map f (k xs))"
  by (simp add: causal_def take_map)

lemma causal_map2 [causal_intros]: "causal k \<Longrightarrow> causal l \<Longrightarrow> causal (\<lambda>xs. map2 f (k xs) (l xs))"
  by (simp add: causal_def take_map take_zip)

lemma causal_scan [causal_intros]: "causal (scan f s)"
proof -
  have "length (scan f s xs) = length xs" for xs by (induction f s xs rule: scan.induct) (auto split: prod.split)
  moreover have "scan f s (take n xs) = take n (scan f s xs)" for n xs
    by (induction f s xs arbitrary: n rule: scan.induct) (auto simp: take_Cons split: prod.split nat.split)
  ultimately show ?thesis by (simp add: causal_def)
qed

lemma causal_shifted [causal_intros]: "causal (shifted k)"
proof (rule causal_by_nth)
  show "length (shifted k xs) = length xs" for xs by (simp add: shifted_def)
  show "p < length xs \<Longrightarrow> shifted k xs ! p = (if p < k then NaN else take (Suc p) xs ! (p - k))" for xs p
    by (auto simp: shifted_def nth_append)
qed

lemma windowed_nth:
  assumes "0 < w" and "p < length xs"
  shows "windowed d w f xs ! p = (if p < w - 1 then d else f (drop (Suc p - w) (take (Suc p) xs)))"
proof -
  have "take w (drop (p - (w - 1)) xs) = drop (Suc p - w) (take (Suc p) xs)" if "w - 1 \<le> p"
    using that assms by (simp add: take_drop)
  then show ?thesis using assms by (auto simp: windowed_def sliding_windows_def nth_append not_less)
qed

lemma length_windowed [simp]: "0 < w \<Longrightarrow> length (windowed d w f xs) = length xs"
  by (simp add: windowed_def sliding_windows_def)

lemma causal_windowed [causal_intros]: "0 < w \<Longrightarrow> causal (windowed d w f)"
  by (rule causal_by_nth) (simp_all add: windowed_nth)

lemma causal_by_append:
  assumes "\<And>xs. length (k xs) = length xs" and "\<And>xs ys. take (length xs) (k (xs @ ys)) = k xs"
  shows "causal k"
  unfolding causal_def
proof (intro conjI allI)
  fix n xs
  show "k (take n xs) = take n (k xs)"
  proof (cases "n \<le> length xs")
    case True
    then show ?thesis using assms(2)[of "take n xs" "drop n xs"] by simp
  qed (simp add: assms(1))
qed (rule assms(1))

lemma causal_windowed_comp [causal_intros]: "0 < w \<Longrightarrow> causal k \<Longrightarrow> causal (\<lambda>xs. windowed d w f (k xs))"
  by (rule causal_comp[OF causal_windowed])

section \<open>Averages with a seed\<close>

text \<open>The shape of \<open>_ema\<close> and \<open>_wilder\<close>: the mean of the first \<open>period\<close> finite values, which must be
  consecutive, then one step per finite value; other bars have no value.\<close>

definition finite_positions :: "series \<Rightarrow> nat list" where
  "finite_positions xs = filter (\<lambda>p. isfinite (xs ! p)) [0..<length xs]"

definition average_step :: "(pyfloat \<Rightarrow> pyfloat \<Rightarrow> pyfloat) \<Rightarrow> pyfloat \<Rightarrow> pyfloat \<Rightarrow> pyfloat \<times> pyfloat" where
  "average_step step avg v = (if isfinite v then (step avg v, step avg v) else (avg, NaN))"

definition seeded_average :: "nat \<Rightarrow> (pyfloat \<Rightarrow> pyfloat \<Rightarrow> pyfloat) \<Rightarrow> series \<Rightarrow> series" where
  "seeded_average period step xs =
     (let seeds = take period (finite_positions xs); nothing = replicate (length xs) NaN in
      if length (finite_positions xs) < period then nothing
      else if last seeds - hd seeds \<noteq> period - 1 then nothing
      else let seed_at = last seeds; avg = np_mean (map (\<lambda>p. xs ! p) seeds)
           in replicate seed_at NaN @ avg # scan (average_step step) avg (drop (Suc seed_at) xs))"

lemma finite_positions_append:
  "finite_positions (xs @ ys) = finite_positions xs @ map (\<lambda>p. p + length xs) (finite_positions ys)"
proof -
  have "[0..<length xs + length ys] = [0..<length xs] @ [length xs..<length xs + length ys]"
    using upt_add_eq_append[of 0 "length xs" "length ys"] by simp
  also have "[length xs..<length xs + length ys] = map (\<lambda>p. p + length xs) [0..<length ys]"
    using map_add_upt[of "length xs" "length ys"] by (simp add: add.commute)
  finally have "[0..<length xs + length ys] = [0..<length xs] @ map (\<lambda>p. p + length xs) [0..<length ys]" .
  then show ?thesis by (auto simp: finite_positions_def nth_append filter_map comp_def intro!: filter_cong)
qed

lemma finite_positions_bound: "p \<in> set (finite_positions xs) \<Longrightarrow> p < length xs"
  by (simp add: finite_positions_def)

lemma length_seeded_average [simp]: "0 < period \<Longrightarrow> length (seeded_average period step xs) = length xs"
proof -
  assume period: "0 < period"
  have "last (take period (finite_positions xs)) < length xs" if "\<not> length (finite_positions xs) < period"
  proof -
    have "last (take period (finite_positions xs)) \<in> set (finite_positions xs)"
      using that period by (metis in_set_takeD last_in_set length_greater_0_conv length_take min.absorb2 not_less)
    then show ?thesis by (rule finite_positions_bound)
  qed
  then show ?thesis by (auto simp: seeded_average_def Let_def causal_length[OF causal_scan])
qed

lemma causal_seeded_average [causal_intros]: "0 < period \<Longrightarrow> causal (seeded_average period step)"
proof (rule causal_by_append)
  fix xs ys :: series
  assume period: "0 < period"
  let ?fx = "finite_positions xs" and ?fy = "map (\<lambda>p. p + length xs) (finite_positions ys)"
  let ?z = "xs @ ys" and ?s = "take period (finite_positions (xs @ ys))"
  show "take (length xs) (seeded_average period step ?z) = seeded_average period step xs"
  proof (cases "length ?fx < period")
    case False
    then have s: "?s = take period ?fx" by (simp add: finite_positions_append)
    have inside: "p < length xs" if "p \<in> set (take period ?fx)" for p using that by (auto dest: in_set_takeD finite_positions_bound)
    have "last (take period ?fx) \<in> set (take period ?fx)"
      using False period by (intro last_in_set) (auto simp: not_less)
    then have l: "last (take period ?fx) < length xs" by (rule inside)
    have m: "map (\<lambda>p. ?z ! p) (take period ?fx) = map (\<lambda>p. xs ! p) (take period ?fx)"
      using inside by (auto simp: nth_append)
    have long: "\<not> length (finite_positions ?z) < period" using False by (simp add: finite_positions_append)
    show ?thesis using False l long
      by (simp add: seeded_average_def Let_def s m Suc_leI take_Cons' causal_append[OF causal_scan, of "drop _ xs", simplified])
  next
    case True
    then have none: "seeded_average period step xs = replicate (length xs) NaN" by (simp add: seeded_average_def)
    show ?thesis
    proof (cases "length (finite_positions ?z) < period")
      case False
      have ne: "take (period - length ?fx) ?fy \<noteq> []" using True False by (auto simp: finite_positions_append)
      moreover have "?s = ?fx @ take (period - length ?fx) ?fy" using True by (simp add: finite_positions_append)
      ultimately have "last ?s = last (take (period - length ?fx) ?fy)" by (metis last_appendR)
      with ne have "length xs \<le> last ?s" by (metis (no_types, lifting) imageE in_set_takeD last_in_set le_add2 list.set_map)
      then have "take (length xs) (seeded_average period step ?z) = replicate (length xs) NaN"
        by (auto simp: seeded_average_def Let_def)
      with none show ?thesis by simp
    next
      case True
      then have "take (length xs) (seeded_average period step ?z) = replicate (length xs) NaN" by (simp add: seeded_average_def)
      with none show ?thesis by simp
    qed
  qed
qed simp

end
