(* ===== verification/Fs_Store.thy ===== *)
theory Fs_Store
  imports Np_Series Py_Text
begin

text \<open>
  The feature store of \<^verbatim>\<open>ai_graph/nodes/backtest_features.py\<close>: its columns, the rows of each ticker, the
  runs of equal dates, and the two ways a column is computed from another, per ticker and per date.
  A column is point in time when cutting the history at the end of a session cuts the column and
  changes nothing before the cut; the rules in \<open>pit_intros\<close> show it of every column from the way it
  is computed.
\<close>

section \<open>Rows per ticker and runs of dates\<close>

text \<open>\<^verbatim>\<open>groups.setdefault(ticker, []).append(index)\<close> over all rows.\<close>

definition group_indices :: "string list \<Rightarrow> (string, nat list) dict" where
  "group_indices tickers =
     fold (\<lambda>(i, t) g. dset t ((case dget g t of None \<Rightarrow> [] | Some idx \<Rightarrow> idx) @ [i]) g) (enumerate 0 tickers) []"

definition gather :: "'a list \<Rightarrow> nat list \<Rightarrow> 'a list" where
  "gather xs idx = map (\<lambda>i. xs ! i) idx"

text \<open>\<^verbatim>\<open>out[idx] = values\<close>.\<close>

definition scatter :: "nat list \<Rightarrow> 'a list \<Rightarrow> 'a list \<Rightarrow> 'a list" where
  "scatter idx values out = fold (\<lambda>(i, v) out. out[i := v]) (zip idx values) out"

text \<open>A new column filled with \<open>d\<close>, then for every ticker a kernel applied to its part of a column.\<close>

definition per_ticker :: "string list \<Rightarrow> ('a list \<Rightarrow> 'b list) \<Rightarrow> 'b \<Rightarrow> 'a list \<Rightarrow> 'b list" where
  "per_ticker tickers f d xs =
     fold (\<lambda>(t, idx) out. scatter idx (f (gather xs idx)) out) (group_indices tickers) (replicate (length tickers) d)"

text \<open>\<open>_date_ranges\<close> from row \<open>start\<close> on.\<close>

function date_ranges :: "nat \<Rightarrow> string list \<Rightarrow> (nat \<times> nat) list" where
  "date_ranges start [] = []"
| "date_ranges start (d # ds) =
     (let k = Suc (length (takeWhile (\<lambda>x. x = d) ds))
      in (start, start + k) # date_ranges (start + k) (dropWhile (\<lambda>x. x = d) ds))"
  by pat_completeness auto
termination
  by (relation "measure (\<lambda>(start, ds). length ds)") (auto simp: less_Suc_eq_le length_dropWhile_le)

definition per_date :: "string list \<Rightarrow> ('a list \<Rightarrow> 'b list) \<Rightarrow> 'a list \<Rightarrow> 'b list" where
  "per_date dates f xs =
     concat (map (\<lambda>(a, b). f (take (b - a) (drop a xs))) (date_ranges 0 dates))"

section \<open>The store\<close>

type_synonym price_row = "(string, pyval) dict"

record Store =
  fs_rows :: "price_row list"
  fs_dates :: "string list"
  fs_tickers :: "string list"
  fs_close :: series
  fs_open :: series
  fs_high :: series
  fs_low :: series
  fs_volume :: series
  fs_rsi :: series

definition zfill :: "nat \<Rightarrow> string \<Rightarrow> string" where
  "zfill w s =
     (if w \<le> length s then s
      else if s \<noteq> [] \<and> (hd s = CHR ''+'' \<or> hd s = CHR ''-'') then hd s # replicate (w - length s) CHR ''0'' @ tl s
      else replicate (w - length s) CHR ''0'' @ s)"

definition or_val :: "pyval \<Rightarrow> pyval \<Rightarrow> pyval" where
  "or_val v w = (if pv_truthy v then v else w)"

definition row_date :: "(pyval \<Rightarrow> string) \<Rightarrow> price_row \<Rightarrow> string" where
  "row_date text row = pv_str text (or_val (pget row ''date'') (PStr ''''))"

definition row_ticker :: "(pyval \<Rightarrow> string) \<Rightarrow> price_row \<Rightarrow> string" where
  "row_ticker text row = zfill 6 (pv_str text (or_val (pget row ''ticker'') (PStr ''000000'')))"

definition float_of :: "pyval \<Rightarrow> pyfloat res" where
  "float_of v =
     (case pv_float v of Some x \<Rightarrow> Inr x
      | None \<Rightarrow> (case v of PStr s \<Rightarrow> Inl (ValueError ''could not convert string to float'') | _ \<Rightarrow> Inl (TypeError ''float() argument'')))"

definition row_close :: "price_row \<Rightarrow> pyval res" where
  "row_close row = (case dget row ''close'' of None \<Rightarrow> Inl (KeyError ''close'') | Some v \<Rightarrow> Inr v)"

definition price_of :: "string \<Rightarrow> price_row \<Rightarrow> pyfloat res" where
  "price_of key row = rbind (row_close row) (\<lambda>close. float_of (or_val (pget_or row key close) close))"

definition finite_number :: "pyval \<Rightarrow> pyfloat option" where
  "finite_number v =
     (case v of PInt n \<Rightarrow> Some (Fin (of_int n)) | PFloat (Fin a) \<Rightarrow> Some (Fin a) | _ \<Rightarrow> None)"

fun optional_metric :: "price_row \<Rightarrow> string list \<Rightarrow> pyfloat" where
  "optional_metric row [] = NaN"
| "optional_metric row (key # keys) =
     (case finite_number (pget row key) of Some x \<Rightarrow> x | None \<Rightarrow> optional_metric row keys)"

definition new_store :: "(pyval \<Rightarrow> string) \<Rightarrow> bool \<Rightarrow> price_row list \<Rightarrow> Store res" where
  "new_store text rows_are_sorted rows0 =
     (let rows = (if rows_are_sorted then rows0 else sort_key (\<lambda>r. (row_date text r, row_ticker text r)) rows0) in
      rbind (rmap (\<lambda>r. rbind (row_close r) float_of) rows) (\<lambda>close.
      rbind (rmap (price_of ''open'') rows) (\<lambda>opens.
      rbind (rmap (price_of ''high'') rows) (\<lambda>high.
      rbind (rmap (price_of ''low'') rows) (\<lambda>low.
      rbind (rmap (\<lambda>r. float_of (or_val (pget_or r ''volume'' (PFloat (Fin 0))) (PFloat (Fin 0)))) rows) (\<lambda>volume.
        Inr \<lparr>fs_rows = rows, fs_dates = map (row_date text) rows, fs_tickers = map (row_ticker text) rows,
             fs_close = close, fs_open = opens, fs_high = high, fs_low = low, fs_volume = volume,
             fs_rsi = map (\<lambda>r. optional_metric r [''rsi'', ''RSI_14'']) rows\<rparr>))))))"

text \<open>The row before, of the same ticker; \<open>-1\<close> for the first.\<close>

definition previous_index :: "Store \<Rightarrow> int list" where
  "previous_index st =
     per_ticker (fs_tickers st) (\<lambda>idx. take (length idx) (-1 # idx)) (-1) (map int [0..<length (fs_rows st)])"

section \<open>Cutting a history\<close>

definition store_ok :: "Store \<Rightarrow> bool" where
  "store_ok st \<longleftrightarrow> (let n = length (fs_rows st) in
     length (fs_dates st) = n \<and> length (fs_tickers st) = n \<and> length (fs_close st) = n \<and> length (fs_open st) = n
     \<and> length (fs_high st) = n \<and> length (fs_low st) = n \<and> length (fs_volume st) = n \<and> length (fs_rsi st) = n)"

definition cut_store :: "nat \<Rightarrow> Store \<Rightarrow> Store" where
  "cut_store n st = \<lparr>fs_rows = take n (fs_rows st), fs_dates = take n (fs_dates st), fs_tickers = take n (fs_tickers st),
     fs_close = take n (fs_close st), fs_open = take n (fs_open st), fs_high = take n (fs_high st),
     fs_low = take n (fs_low st), fs_volume = take n (fs_volume st), fs_rsi = take n (fs_rsi st)\<rparr>"

text \<open>The end of a session.\<close>

definition session_end :: "string list \<Rightarrow> nat \<Rightarrow> bool" where
  "session_end dates n \<longleftrightarrow> n = 0 \<or> n = length dates \<or> (n < length dates \<and> dates ! (n - 1) \<noteq> dates ! n)"

definition point_in_time :: "(Store \<Rightarrow> 'a list) \<Rightarrow> bool" where
  "point_in_time s \<longleftrightarrow> (\<forall>st. store_ok st \<longrightarrow> length (s st) = length (fs_rows st)
     \<and> (\<forall>n. session_end (fs_dates st) n \<longrightarrow> s (cut_store n st) = take n (s st)))"

named_theorems pit_intros \<open>rules that show a column point in time from its construction\<close>

section \<open>Rows of a ticker\<close>

definition occurrences :: "string list \<Rightarrow> string \<Rightarrow> nat list" where
  "occurrences tickers t = filter (\<lambda>i. tickers ! i = t) [0..<length tickers]"

lemma occurrences_snoc: "occurrences (ts @ [u]) t = occurrences ts t @ (if u = t then [length ts] else [])"
  by (auto simp: occurrences_def nth_append intro!: filter_cong)

lemma group_indices_snoc:
  "group_indices (ts @ [u]) =
     dset u ((case dget (group_indices ts) u of None \<Rightarrow> [] | Some idx \<Rightarrow> idx) @ [length ts]) (group_indices ts)"
  by (simp add: group_indices_def enumerate_append_eq)

lemma dget_group_indices: "dget (group_indices ts) t = (if t \<in> set ts then Some (occurrences ts t) else None)"
proof (induction ts rule: rev_induct)
  case Nil
  show ?case by (simp add: group_indices_def)
next
  case (snoc u ts)
  have "occurrences ts t = []" if "t \<notin> set ts"
    using that by (auto simp: occurrences_def filter_empty_conv)
  with snoc show ?case by (auto simp: group_indices_snoc dict_simps occurrences_snoc)
qed

lemma dict_ok_group_indices: "dict_ok (group_indices ts)"
  by (induction ts rule: rev_induct) (simp_all add: group_indices_snoc dict_ok_dset, simp add: group_indices_def)

lemma occurrences_split:
  assumes "i < length ts"
  shows "occurrences ts (ts ! i) = filter (\<lambda>j. ts ! j = ts ! i) [0..<i] @ i # filter (\<lambda>j. ts ! j = ts ! i) [Suc i..<length ts]"
proof -
  have "[0..<length ts] = [0..<i] @ i # [Suc i..<length ts]"
    using assms by (metis less_imp_add_positive upt_add_eq_append le0 add_0 upt_conv_Cons)
  then show ?thesis by (simp add: occurrences_def)
qed

definition ticker_rank :: "string list \<Rightarrow> nat \<Rightarrow> nat" where
  "ticker_rank ts i = length (filter (\<lambda>j. ts ! j = ts ! i) [0..<i])"

lemma occurrences_rank:
  assumes "i < length ts"
  shows "ticker_rank ts i < length (occurrences ts (ts ! i))" and "occurrences ts (ts ! i) ! ticker_rank ts i = i"
  using occurrences_split[OF assms] by (simp_all add: ticker_rank_def nth_append)

lemma occurrences_props: "distinct (occurrences ts t)" "j \<in> set (occurrences ts t) \<longleftrightarrow> j < length ts \<and> ts ! j = t"
  by (auto simp: occurrences_def)

section \<open>A kernel per ticker\<close>

lemma length_scatter [simp]: "length (scatter idx vals out) = length out"
  unfolding scatter_def by (induction idx arbitrary: vals out) (auto simp: zip_Cons1 split: list.split)

lemma scatter_other: "i \<notin> set idx \<Longrightarrow> scatter idx vals out ! i = out ! i"
  unfolding scatter_def by (induction idx arbitrary: vals out) (auto simp: zip_Cons1 split: list.split)

lemma scatter_hit:
  assumes "distinct idx" and "r < length idx" and "length vals = length idx" and "idx ! r < length out"
  shows "scatter idx vals out ! (idx ! r) = vals ! r"
  using assms
proof (induction idx arbitrary: vals out r)
  case (Cons i idx)
  obtain v vs where vals: "vals = v # vs" using Cons.prems(3) by (cases vals) auto
  have step: "scatter (i # idx) vals out = scatter idx vs (out[i := v])" by (simp add: scatter_def vals)
  show ?case
  proof (cases r)
    case 0
    then show ?thesis using Cons.prems unfolding step by (simp add: scatter_other vals)
  next
    case (Suc q)
    then show ?thesis using Cons.IH[of q vs "out[i := v]"] Cons.prems unfolding step by (simp add: vals)
  qed
qed simp

definition scatter_all :: "('a list \<Rightarrow> 'b list) \<Rightarrow> 'a list \<Rightarrow> (string, nat list) dict \<Rightarrow> 'b list \<Rightarrow> 'b list" where
  "scatter_all f xs G out = fold (\<lambda>(t, idx) out. scatter idx (f (gather xs idx)) out) G out"

lemma per_ticker_scatter_all: "per_ticker ts f d xs = scatter_all f xs (group_indices ts) (replicate (length ts) d)"
  by (simp add: per_ticker_def scatter_all_def)

lemma length_scatter_all [simp]: "length (scatter_all f xs G out) = length out"
  unfolding scatter_all_def by (induction G arbitrary: out) (auto split: prod.split)

lemma scatter_all_append: "scatter_all f xs (G @ (t, idx) # H) out = scatter_all f xs H (scatter idx (f (gather xs idx)) (scatter_all f xs G out))"
  by (simp add: scatter_all_def)

lemma scatter_all_other: "\<forall>(t, idx) \<in> set G. i \<notin> set idx \<Longrightarrow> scatter_all f xs G out ! i = out ! i"
  unfolding scatter_all_def by (induction G arbitrary: out) (auto simp: scatter_other split: prod.split)

lemma length_per_ticker [simp]: "length (per_ticker ts f d xs) = length ts"
  by (simp add: per_ticker_scatter_all)

lemma per_ticker_nth:
  assumes "i < length ts" and "\<And>ys. length (f ys) = length ys"
  shows "per_ticker ts f d xs ! i = f (gather xs (occurrences ts (ts ! i))) ! ticker_rank ts i"
proof -
  let ?t = "ts ! i" and ?idx = "occurrences ts (ts ! i)" and ?G = "group_indices ts"
  let ?F = "scatter_all f xs"
  have "dget ?G ?t = Some ?idx" using assms(1) by (simp add: dget_group_indices)
  then obtain A B where G: "?G = A @ (?t, ?idx) # B" by (meson dget_in_set split_list)
  have entry: "idx = occurrences ts t" if "(t, idx) \<in> set ?G" for t idx
    using that dget_SomeI[OF dict_ok_group_indices] by (fastforce simp: dget_group_indices split: if_splits)
  have "?t \<notin> fst ` set B" using dict_ok_group_indices[of ts] by (simp add: G dict_ok_def)
  then have others: "\<forall>(t, idx) \<in> set B. i \<notin> set idx"
  proof clarify
    fix t idx
    assume B: "(t, idx) \<in> set B" and i: "i \<in> set idx"
    have "idx = occurrences ts t" using B by (intro entry) (simp add: G)
    with i have "t = ?t" by (simp add: occurrences_props)
    with B \<open>?t \<notin> fst ` set B\<close> show False by force
  qed
  have "per_ticker ts f d xs ! i = ?F B (scatter ?idx (f (gather xs ?idx)) (?F A (replicate (length ts) d))) ! i"
    by (simp add: per_ticker_scatter_all G scatter_all_append)
  also have "\<dots> = scatter ?idx (f (gather xs ?idx)) (?F A (replicate (length ts) d)) ! i"
    by (rule scatter_all_other) (rule others)
  also have "\<dots> = f (gather xs ?idx) ! ticker_rank ts i"
    using scatter_hit[of ?idx "ticker_rank ts i" "f (gather xs ?idx)" "?F A (replicate (length ts) d)"]
      occurrences_rank[OF assms(1)] occurrences_props(1)[of ts ?t] assms by (simp add: gather_def)
  finally show ?thesis .
qed

lemma per_ticker_cut:
  assumes "causal f" and "n \<le> length ts" and "length xs = length ts"
  shows "per_ticker (take n ts) f d (take n xs) = take n (per_ticker ts f d xs)"
proof (rule nth_equalityI)
  fix i
  assume "i < length (per_ticker (take n ts) f d (take n xs))"
  then have i: "i < n" "i < length ts" using assms(2) by simp_all
  let ?t = "ts ! i" and ?a = "occurrences (take n ts) (ts ! i)"
  have rank: "ticker_rank (take n ts) i = ticker_rank ts i" using i by (auto simp: ticker_rank_def intro!: filter_cong arg_cong[of _ _ length])
  have "[0..<length ts] = [0..<n] @ [n..<length ts]" using assms(2) by (metis le0 upt_add_eq_append le_iff_add add_0)
  then have "occurrences ts ?t = ?a @ filter (\<lambda>j. ts ! j = ?t) [n..<length ts]"
    using assms(2) by (auto simp: occurrences_def intro!: filter_cong)
  moreover have "gather xs ?a = gather (take n xs) ?a"
    by (auto simp: gather_def occurrences_def)
  ultimately obtain rest where "gather xs (occurrences ts ?t) = gather (take n xs) ?a @ rest" by (simp add: gather_def)
  moreover have "ticker_rank ts i < length ?a" using occurrences_rank(1)[of i "take n ts"] i rank by simp
  ultimately have "f (gather xs (occurrences ts ?t)) ! ticker_rank ts i = f (gather (take n xs) ?a) ! ticker_rank ts i"
    using causal_append[OF assms(1), of "gather (take n xs) ?a" rest] by (metis gather_def length_map nth_take)
  then show "per_ticker (take n ts) f d (take n xs) ! i = take n (per_ticker ts f d xs) ! i"
    using i by (simp add: per_ticker_nth causal_length[OF assms(1)] rank)
qed (simp add: assms(2))

section \<open>A kernel per date\<close>

declare date_ranges.simps(2) [simp del]

lemma date_ranges_bounds: "(a, b) \<in> set (date_ranges start ds) \<Longrightarrow> start \<le> a \<and> a < b \<and> b \<le> start + length ds"
proof (induction start ds rule: date_ranges.induct)
  case (2 start d ds)
  let ?k = "Suc (length (takeWhile (\<lambda>x. x = d) ds))"
  have "length ds = length (takeWhile (\<lambda>x. x = d) ds) + length (dropWhile (\<lambda>x. x = d) ds)"
    by (metis length_append takeWhile_dropWhile_id)
  with 2 show ?case by (force simp: date_ranges.simps(2) Let_def)
qed simp

lemma date_ranges_append:
  assumes "xs \<noteq> [] \<Longrightarrow> ys \<noteq> [] \<Longrightarrow> last xs \<noteq> hd ys"
  shows "date_ranges start (xs @ ys) = date_ranges start xs @ date_ranges (start + length xs) ys"
  using assms
proof (induction start xs rule: date_ranges.induct)
  case (2 start d ds)
  let ?same = "\<lambda>x. x = d"
  show ?case
  proof (cases "dropWhile ?same ds = []")
    case True
    then have all: "\<forall>x \<in> set ds. x = d" by simp
    then have "ds = [] \<or> last ds = d" by (cases ds rule: rev_cases) auto
    then have "ys = [] \<or> hd ys \<noteq> d" using "2.prems" by (auto split: if_splits)
    then have "takeWhile ?same ys = []" "dropWhile ?same ys = ys" by (cases ys; simp)+
    have tw: "takeWhile ?same ds = ds" and dw: "dropWhile ?same ds = []" using all by (simp_all add: takeWhile_eq_all_conv)
    have "takeWhile ?same (ds @ ys) = ds" "dropWhile ?same (ds @ ys) = ys"
      using all \<open>takeWhile ?same ys = []\<close> \<open>dropWhile ?same ys = ys\<close> by simp_all
    then show ?thesis by (simp only: date_ranges.simps Let_def tw dw append_Cons append_Nil) simp
  next
    case False
    then obtain x where x: "x \<in> set ds" "x \<noteq> d" by auto
    then have split: "takeWhile ?same (ds @ ys) = takeWhile ?same ds" "dropWhile ?same (ds @ ys) = dropWhile ?same ds @ ys"
      by auto
    have last: "last (dropWhile ?same ds) = last (d # ds)" using False
      by (metis dropWhile_eq_Nil_conv last.simps last_appendR takeWhile_dropWhile_id append_Nil2 append_is_Nil_conv)
    have len: "length ds = length (takeWhile ?same ds) + length (dropWhile ?same ds)"
      by (metis length_append takeWhile_dropWhile_id)
    have "date_ranges (start + Suc (length (takeWhile ?same ds))) (dropWhile ?same ds @ ys) =
        date_ranges (start + Suc (length (takeWhile ?same ds))) (dropWhile ?same ds)
        @ date_ranges (start + Suc (length (takeWhile ?same ds)) + length (dropWhile ?same ds)) ys"
      using "2.IH"[OF refl] "2.prems" last False by simp
    with split len show ?thesis by (simp add: date_ranges.simps(2) Let_def add.assoc)
  qed
qed simp

definition on_ranges :: "('a list \<Rightarrow> 'b list) \<Rightarrow> 'a list \<Rightarrow> (nat \<times> nat) list \<Rightarrow> 'b list" where
  "on_ranges f xs ranges = concat (map (\<lambda>(a, b). f (take (b - a) (drop a xs))) ranges)"

lemma per_date_on_ranges: "per_date ds f xs = on_ranges f xs (date_ranges 0 ds)"
  by (simp add: per_date_def on_ranges_def)

lemma length_on_ranges:
  assumes "\<And>ys. length (f ys) = length ys" and "start + length ds \<le> length xs"
  shows "length (on_ranges f xs (date_ranges start ds)) = length ds"
  using assms(2)
proof (induction start ds rule: date_ranges.induct)
  case (2 start d ds)
  have "length ds = length (takeWhile (\<lambda>x. x = d) ds) + length (dropWhile (\<lambda>x. x = d) ds)"
    by (metis length_append takeWhile_dropWhile_id)
  with 2 show ?case by (simp add: date_ranges.simps(2) Let_def on_ranges_def assms(1))
qed (simp add: on_ranges_def)

lemma length_per_date:
  "(\<And>ys. length (f ys) = length ys) \<Longrightarrow> length xs = length ds \<Longrightarrow> length (per_date ds f xs) = length ds"
  by (simp add: per_date_on_ranges length_on_ranges)

lemma session_end_ranges:
  assumes "session_end dates n" and "n \<le> length dates"
  shows "date_ranges 0 dates = date_ranges 0 (take n dates) @ date_ranges n (drop n dates)"
proof -
  have "date_ranges 0 (take n dates @ drop n dates) = date_ranges 0 (take n dates) @ date_ranges (0 + length (take n dates)) (drop n dates)"
  proof (rule date_ranges_append)
    assume "take n dates \<noteq> []" "drop n dates \<noteq> []"
    then have "0 < n" "n < length dates" by auto
    then show "last (take n dates) \<noteq> hd (drop n dates)"
      using assms(1) by (cases n) (auto simp: session_end_def hd_drop_conv_nth take_Suc_conv_app_nth)
  qed
  with assms(2) show ?thesis by (simp add: min_absorb2)
qed

lemma per_date_cut:
  assumes "\<And>ys. length (f ys) = length ys" and "length xs = length ds" and "session_end ds n" and "n \<le> length ds"
  shows "per_date (take n ds) f (take n xs) = take n (per_date ds f xs)"
proof -
  let ?A = "date_ranges 0 (take n ds)" and ?B = "date_ranges n (drop n ds)"
  have inside: "b \<le> n" if "(a, b) \<in> set ?A" for a b using date_ranges_bounds[OF that] assms(4) by simp
  have "on_ranges f (take n xs) ?A = on_ranges f xs ?A"
    unfolding on_ranges_def using inside by (fastforce simp: drop_take min_def intro!: arg_cong[of _ _ concat] map_cong)
  moreover have "length (on_ranges f xs ?A) = n" using length_on_ranges[OF assms(1), of 0 "take n ds" xs] assms(2,4) by simp
  moreover have "on_ranges f xs (?A @ ?B) = on_ranges f xs ?A @ on_ranges f xs ?B" by (simp add: on_ranges_def)
  ultimately show ?thesis by (simp add: per_date_on_ranges session_end_ranges[OF assms(3,4)])
qed

section \<open>Columns that are point in time\<close>

lemma session_end_le: "session_end dates n \<Longrightarrow> n \<le> length dates"
  by (auto simp: session_end_def)

lemma cut_store_ok: "store_ok st \<Longrightarrow> store_ok (cut_store n st)"
  by (simp add: store_ok_def cut_store_def Let_def)

lemma cut_store_sel [simp]:
  "fs_rows (cut_store n st) = take n (fs_rows st)" "fs_dates (cut_store n st) = take n (fs_dates st)"
  "fs_tickers (cut_store n st) = take n (fs_tickers st)" "fs_close (cut_store n st) = take n (fs_close st)"
  "fs_open (cut_store n st) = take n (fs_open st)" "fs_high (cut_store n st) = take n (fs_high st)"
  "fs_low (cut_store n st) = take n (fs_low st)" "fs_volume (cut_store n st) = take n (fs_volume st)"
  "fs_rsi (cut_store n st) = take n (fs_rsi st)"
  by (simp_all add: cut_store_def)

lemma pit_columns [pit_intros]:
  "point_in_time fs_rows" "point_in_time fs_dates" "point_in_time fs_tickers" "point_in_time fs_close" "point_in_time fs_open"
  "point_in_time fs_high" "point_in_time fs_low" "point_in_time fs_volume" "point_in_time fs_rsi"
  by (auto simp: point_in_time_def store_ok_def Let_def)

lemma pit_length: "point_in_time s \<Longrightarrow> store_ok st \<Longrightarrow> length (s st) = length (fs_rows st)"
  by (simp add: point_in_time_def)

lemma pit_cut: "point_in_time s \<Longrightarrow> store_ok st \<Longrightarrow> session_end (fs_dates st) n \<Longrightarrow> s (cut_store n st) = take n (s st)"
  by (simp add: point_in_time_def)

lemma pit_map [pit_intros]: "point_in_time s \<Longrightarrow> point_in_time (\<lambda>st. map f (s st))"
  by (simp add: point_in_time_def take_map)

lemma pit_zip [pit_intros]: "point_in_time s \<Longrightarrow> point_in_time t \<Longrightarrow> point_in_time (\<lambda>st. zip (s st) (t st))"
  by (simp add: point_in_time_def take_zip)

lemma pit_map2 [pit_intros]: "point_in_time s \<Longrightarrow> point_in_time t \<Longrightarrow> point_in_time (\<lambda>st. map2 f (s st) (t st))"
  by (simp add: point_in_time_def take_map take_zip)

lemma store_ok_dates: "store_ok st \<Longrightarrow> length (fs_dates st) = length (fs_rows st) \<and> length (fs_tickers st) = length (fs_rows st)"
  by (simp add: store_ok_def Let_def)

lemma pit_replicate [pit_intros]: "point_in_time (\<lambda>st. replicate (length (fs_rows st)) x)"
  using session_end_le by (fastforce simp: point_in_time_def min_def dest: store_ok_dates)

lemma pit_upt [pit_intros]: "point_in_time (\<lambda>st. [0..<length (fs_rows st)])"
  using session_end_le by (fastforce simp: point_in_time_def min_def take_upt dest: store_ok_dates)

lemma pit_per_ticker [pit_intros]:
  "causal f \<Longrightarrow> point_in_time s \<Longrightarrow> point_in_time (\<lambda>st. per_ticker (fs_tickers st) f d (s st))"
  by (auto simp: point_in_time_def store_ok_dates per_ticker_cut dest: session_end_le)

lemma pit_per_date [pit_intros]:
  "(\<And>ys. length (f ys) = length ys) \<Longrightarrow> point_in_time s \<Longrightarrow> point_in_time (\<lambda>st. per_date (fs_dates st) f (s st))"
  unfolding point_in_time_def by (auto simp: store_ok_dates length_per_date per_date_cut[OF _ _ _ session_end_le])

lemma pit_previous_index [pit_intros]: "point_in_time previous_index"
  unfolding previous_index_def
proof (intro pit_intros)
  show "causal (\<lambda>idx. take (length idx) (- 1 # idx))" by (rule causal_by_append) (simp_all add: take_Cons')
qed

lemma new_store_ok: "new_store text sorted_rows rows = Inr st \<Longrightarrow> store_ok st"
  by (auto simp: new_store_def Let_def rbind_eq_Inr store_ok_def rmap_eq_Inr dest!: list_all2_lengthD)

end
