(* ===== verification/Fs_Indicators.thy ===== *)
theory Fs_Indicators
  imports Fs_Store
begin

text \<open>
  The indicator columns of \<open>PreparedFeatureStore\<close> in \<^verbatim>\<open>nodes/backtest_features.py\<close>: shifts, rolling
  reductions, exponential and Wilder averages, and the indicators built from them.  Every column comes
  with the rule that shows it point in time.  The arguments of numpy that are not modelled, a square
  root and the sorting permutation, are collected in \<open>Numpy\<close>.  A window of zero bars, which numpy
  refuses, is outside the model.
\<close>

record Numpy =
  np_root :: "rat \<Rightarrow> rat"
  np_argsort :: "series \<Rightarrow> nat list"

section \<open>Elementwise arithmetic on columns\<close>

definition array_ratio :: "series \<Rightarrow> series \<Rightarrow> series" where
  "array_ratio xs ys =
     map2 (\<lambda>x y. if isfinite x \<and> isfinite y \<and> y \<noteq> Fin 0 then np_div x y else NaN) xs ys"

definition array_return :: "series \<Rightarrow> series \<Rightarrow> series" where
  "array_return xs ys = map (\<lambda>r. if isfinite r then r - Fin 1 else r) (array_ratio xs ys)"

definition add_columns :: "series \<Rightarrow> series \<Rightarrow> series" where
  "add_columns xs ys = map2 (+) xs ys"

definition sub_columns :: "series \<Rightarrow> series \<Rightarrow> series" where
  "sub_columns xs ys = map2 (-) xs ys"

definition mul_columns :: "series \<Rightarrow> series \<Rightarrow> series" where
  "mul_columns xs ys = map2 (*) xs ys"

definition scale_column :: "rat \<Rightarrow> series \<Rightarrow> series" where
  "scale_column k xs = map (\<lambda>x. Fin k * x) xs"

lemma pit_arithmetic [pit_intros]:
  assumes "point_in_time s" and "point_in_time t"
  shows "point_in_time (\<lambda>st. array_ratio (s st) (t st))" "point_in_time (\<lambda>st. array_return (s st) (t st))"
    "point_in_time (\<lambda>st. add_columns (s st) (t st))" "point_in_time (\<lambda>st. sub_columns (s st) (t st))"
    "point_in_time (\<lambda>st. mul_columns (s st) (t st))"
  unfolding array_ratio_def array_return_def add_columns_def sub_columns_def mul_columns_def
  by (intro pit_intros assms)+

lemma pit_scale [pit_intros]: "point_in_time s \<Longrightarrow> point_in_time (\<lambda>st. scale_column k (s st))"
  unfolding scale_column_def by (intro pit_intros)

section \<open>Shifts, windows and averages\<close>

definition shift :: "Store \<Rightarrow> series \<Rightarrow> nat \<Rightarrow> series" where
  "shift st source periods = per_ticker (fs_tickers st) (shifted periods) NaN source"

definition finite_window :: "(series \<Rightarrow> pyfloat) \<Rightarrow> series \<Rightarrow> pyfloat" where
  "finite_window reduce win = (if list_all isfinite win then reduce win else NaN)"

text \<open>\<open>_rolling_from_array\<close>; with \<open>prior\<close> the bars are moved one place first.\<close>

definition rolling_from_array :: "Store \<Rightarrow> series \<Rightarrow> nat \<Rightarrow> (series \<Rightarrow> pyfloat) \<Rightarrow> bool \<Rightarrow> series" where
  "rolling_from_array st source window reduce prior =
     per_ticker (fs_tickers st)
       (\<lambda>values. windowed NaN window (finite_window reduce) (if prior then take (length values) (NaN # values) else values)) NaN source"

definition inclusive_rolling :: "Store \<Rightarrow> series \<Rightarrow> nat \<Rightarrow> (series \<Rightarrow> pyfloat) \<Rightarrow> series" where
  "inclusive_rolling st source window reduce = rolling_from_array st source window reduce False"

definition ema :: "Store \<Rightarrow> series \<Rightarrow> nat \<Rightarrow> series" where
  "ema st source period =
     (let alpha = 2 / (of_nat period + 1)
      in per_ticker (fs_tickers st) (seeded_average period (\<lambda>avg v. Fin alpha * v + Fin (1 - alpha) * avg)) NaN source)"

definition wilder :: "Store \<Rightarrow> series \<Rightarrow> nat \<Rightarrow> series" where
  "wilder st source period =
     per_ticker (fs_tickers st)
       (seeded_average period (\<lambda>avg v. np_div (avg * Fin (of_nat period - 1) + v) (Fin (of_nat period)))) NaN source"

lemma causal_delay [causal_intros]: "causal (\<lambda>xs. take (length xs) (x # xs))"
  by (rule causal_by_append) (simp_all add: take_Cons')

lemma pit_shift [pit_intros]: "point_in_time s \<Longrightarrow> point_in_time (\<lambda>st. shift st (s st) k)"
  unfolding shift_def by (intro pit_intros causal_intros)

lemma pit_rolling [pit_intros]:
  assumes "0 < w" and "point_in_time s"
  shows "point_in_time (\<lambda>st. rolling_from_array st (s st) w f prior)" "point_in_time (\<lambda>st. inclusive_rolling st (s st) w f)"
proof -
  have "causal (\<lambda>values. windowed NaN w (finite_window f) (if prior then take (length values) (NaN # values) else values))" for prior
    by (cases prior) (simp_all, (intro causal_intros assms)+)
  then show "point_in_time (\<lambda>st. rolling_from_array st (s st) w f prior)" for prior
    unfolding rolling_from_array_def by (intro pit_intros assms)
  then show "point_in_time (\<lambda>st. inclusive_rolling st (s st) w f)" by (simp add: inclusive_rolling_def)
qed

lemma pit_averages [pit_intros]:
  assumes "0 < p" and "point_in_time s"
  shows "point_in_time (\<lambda>st. ema st (s st) p)" "point_in_time (\<lambda>st. wilder st (s st) p)"
  unfolding ema_def wilder_def Let_def by (intro pit_intros causal_intros assms)+

section \<open>Returns and risk\<close>

definition returns_of :: "series \<Rightarrow> series" where
  "returns_of closes =
     take (length closes) (NaN # map2 (\<lambda>prior later. if prior = Fin 0 then NaN else np_div later prior - Fin 1) closes (tl closes))"

definition daily_returns :: "Store \<Rightarrow> series" where
  "daily_returns st = per_ticker (fs_tickers st) returns_of NaN (fs_close st)"

definition period_return :: "Store \<Rightarrow> nat \<Rightarrow> series" where
  "period_return st window = array_return (fs_close st) (shift st (fs_close st) window)"

definition skip_month_momentum :: "Store \<Rightarrow> series" where
  "skip_month_momentum st = array_return (shift st (fs_close st) 21) (shift st (fs_close st) 252)"

definition realized_volatility :: "Numpy \<Rightarrow> Store \<Rightarrow> nat \<Rightarrow> series" where
  "realized_volatility np st window =
     map (\<lambda>x. x * np_sqrt (np_root np) (Fin 252)) (rolling_from_array st (daily_returns st) window (np_std (np_root np) 0) False)"

definition return_ratio :: "Numpy \<Rightarrow> Store \<Rightarrow> nat \<Rightarrow> bool \<Rightarrow> series" where
  "return_ratio np st window downside =
     (let returns = daily_returns st;
          mean = rolling_from_array st returns window np_mean False;
          losses = map (\<lambda>r. np_minimum (if r = NaN then NaN else nan_to_num r) (Fin 0)) returns;
          risk = (if downside then map (np_sqrt (np_root np)) (rolling_from_array st (mul_columns losses losses) window np_mean False)
                  else rolling_from_array st returns window (np_std (np_root np) 0) False)
      in map (\<lambda>x. x * np_sqrt (np_root np) (Fin 252)) (array_ratio mean risk))"

definition volume_ratio :: "Store \<Rightarrow> nat \<Rightarrow> series" where
  "volume_ratio st window = array_ratio (fs_volume st) (rolling_from_array st (fs_volume st) window np_mean True)"

lemma returns_of_nth: "p < length xs \<Longrightarrow> returns_of xs ! p =
    (if p = 0 then NaN else if xs ! (p - 1) = Fin 0 then NaN else np_div (xs ! p) (xs ! (p - 1)) - Fin 1)"
  by (cases p) (auto simp: returns_of_def nth_tl)

lemma length_returns_of [simp]: "length (returns_of xs) = length xs"
  by (cases xs) (simp_all add: returns_of_def)

lemma causal_returns_of [causal_intros]: "causal returns_of"
  by (rule causal_by_nth[where g = "\<lambda>p ys. returns_of ys ! p"]) (simp_all add: returns_of_nth)

lemma pit_returns [pit_intros]:
  "point_in_time daily_returns" "point_in_time (\<lambda>st. period_return st w)" "point_in_time skip_month_momentum"
  "0 < w \<Longrightarrow> point_in_time (\<lambda>st. realized_volatility np st w)" "0 < w \<Longrightarrow> point_in_time (\<lambda>st. return_ratio np st w downside)"
  "0 < w \<Longrightarrow> point_in_time (\<lambda>st. volume_ratio st w)"
proof -
  show "point_in_time daily_returns" unfolding daily_returns_def by (intro pit_intros causal_intros)
  then show "0 < w \<Longrightarrow> point_in_time (\<lambda>st. return_ratio np st w downside)"
    unfolding return_ratio_def Let_def by (cases downside) (simp_all, (intro pit_intros; simp)+)
  show "0 < w \<Longrightarrow> point_in_time (\<lambda>st. realized_volatility np st w)"
    unfolding realized_volatility_def by (intro pit_intros \<open>point_in_time daily_returns\<close>)
qed (unfold period_return_def skip_month_momentum_def volume_ratio_def, (intro pit_intros; simp)+)

text \<open>
  The technical indicators of \<open>PreparedFeatureStore\<close> in \<^verbatim>\<open>nodes/backtest_features.py\<close>, one definition
  per method, each with the rule that shows it point in time.
\<close>

section \<open>Ranges and trends\<close>

definition true_range :: "Store \<Rightarrow> series" where
  "true_range st =
     map (\<lambda>(h, l, pc). if isfinite pc then np_maximum (h - l) (np_maximum (np_abs (h - pc)) (np_abs (l - pc))) else h - l)
       (zip (fs_high st) (zip (fs_low st) (shift st (fs_close st) 1)))"

definition macd_line :: "Store \<Rightarrow> series" where
  "macd_line st = sub_columns (ema st (fs_close st) 12) (ema st (fs_close st) 26)"

definition ppo_line :: "Store \<Rightarrow> series \<Rightarrow> series" where
  "ppo_line st source =
     scale_column 100 (array_ratio (sub_columns (ema st source 12) (ema st source 26)) (ema st source 26))"

text \<open>\<open>_directional_movement\<close>, given the average true range.\<close>

definition upward_movement :: "Store \<Rightarrow> bool \<Rightarrow> series" where
  "upward_movement st positive =
     map (\<lambda>(up, down). if positive then (if down < up \<and> Fin 0 < up then up else Fin 0)
                        else (if up < down \<and> Fin 0 < down then down else Fin 0))
       (zip (sub_columns (fs_high st) (shift st (fs_high st) 1)) (sub_columns (shift st (fs_low st) 1) (fs_low st)))"

definition directional_index :: "Store \<Rightarrow> nat \<Rightarrow> series \<Rightarrow> bool \<Rightarrow> series" where
  "directional_index st period atr positive = scale_column 100 (array_ratio (wilder st (upward_movement st positive) period) atr)"

definition adx :: "Store \<Rightarrow> nat \<Rightarrow> series \<Rightarrow> series" where
  "adx st period atr =
     (let plus_di = directional_index st period atr True; minus_di = directional_index st period atr False
      in wilder st (scale_column 100 (array_ratio (map np_abs (sub_columns plus_di minus_di)) (add_columns plus_di minus_di))) period)"

definition aroon :: "Store \<Rightarrow> nat \<Rightarrow> bool \<Rightarrow> series" where
  "aroon st window up =
     per_ticker (fs_tickers st)
       (windowed NaN window (\<lambda>win. Fin (100 * of_nat (window - 1 - (if up then np_argmax (rev win) else np_argmin (rev win)))
                                        / of_nat (max 1 (window - 1)))))
       NaN (if up then fs_high st else fs_low st)"

datatype regression_kind = Slope | Slope_Raw | R_Squared

definition regress :: "regression_kind \<Rightarrow> series \<Rightarrow> pyfloat" where
  "regress kind win =
     (let w = length win; xs = map (\<lambda>i. Fin (of_nat i - (of_nat w - 1) / 2)) [0..<w];
          denominator = py_sum (map (\<lambda>x. x * x) xs); m = np_mean win;
          slope = np_div (py_sum (map2 (\<lambda>v x. (v - m) * x) win xs)) denominator
      in case kind of
           Slope_Raw \<Rightarrow> slope
         | Slope \<Rightarrow> hd (array_ratio [slope] [m])
         | R_Squared \<Rightarrow>
             let residual = py_sum (map2 (\<lambda>v x. (v - (m + slope * x)) * (v - (m + slope * x))) win xs);
                 spread = py_sum (map (\<lambda>v. (v - m) * (v - m)) win)
             in Fin 1 - hd (array_ratio [residual] [spread]))"

definition regression :: "Store \<Rightarrow> series \<Rightarrow> nat \<Rightarrow> regression_kind \<Rightarrow> series" where
  "regression st source window kind =
     per_ticker (fs_tickers st) (windowed NaN window (finite_window (regress kind))) NaN source"

definition efficiency_ratio :: "Store \<Rightarrow> nat \<Rightarrow> series" where
  "efficiency_ratio st window =
     (let direction = map np_abs (sub_columns (fs_close st) (shift st (fs_close st) window));
          changes = map np_abs (sub_columns (fs_close st) (shift st (fs_close st) 1))
      in array_ratio direction (rolling_from_array st changes window py_sum False))"

definition trix :: "Store \<Rightarrow> nat \<Rightarrow> series" where
  "trix st period =
     (let third = ema st (ema st (ema st (fs_close st) period) period) period
      in scale_column 100 (array_return third (shift st third 1)))"

text \<open>The loop of \<open>_supertrend_direction\<close>: the bands and close of the bar before, the direction.\<close>

type_synonym trend_state = "(pyfloat \<times> pyfloat \<times> pyfloat) option \<times> pyfloat"

definition supertrend_step :: "trend_state \<Rightarrow> pyfloat \<times> pyfloat \<times> pyfloat \<Rightarrow> trend_state \<times> pyfloat" where
  "supertrend_step s bar =
     (case (s, bar) of ((prev, direction), (upper, lower, close)) \<Rightarrow>
        if \<not> isfinite upper then ((Some (upper, lower, close), direction), NaN)
        else (case prev of
          Some (prev_upper, prev_lower, prev_close) \<Rightarrow>
            if isfinite prev_upper then
              let u = (if prev_close \<le> prev_upper then py_min upper prev_upper else upper);
                  l = (if prev_lower \<le> prev_close then py_max lower prev_lower else lower);
                  dir = (if direction < Fin 0 \<and> prev_upper < close then Fin 1
                         else if Fin 0 < direction \<and> close < prev_lower then Fin (-1) else direction)
              in ((Some (u, l, close), dir), dir)
            else ((Some (upper, lower, close), direction), direction)
        | None \<Rightarrow> ((Some (upper, lower, close), direction), direction)))"

definition midpoint :: "Store \<Rightarrow> series" where
  "midpoint st = map (\<lambda>x. np_div x (Fin 2)) (add_columns (fs_high st) (fs_low st))"

definition supertrend_direction :: "Store \<Rightarrow> series \<Rightarrow> rat \<Rightarrow> series" where
  "supertrend_direction st atr multiplier =
     (let upper = add_columns (midpoint st) (scale_column multiplier atr); lower = sub_columns (midpoint st) (scale_column multiplier atr)
      in per_ticker (fs_tickers st) (scan supertrend_step (None, Fin 1)) NaN (zip upper (zip lower (fs_close st))))"

lemma pit_trends [pit_intros]:
  "point_in_time true_range" "point_in_time macd_line" "point_in_time s \<Longrightarrow> point_in_time (\<lambda>st. ppo_line st (s st))"
  "point_in_time (\<lambda>st. upward_movement st positive)" "point_in_time midpoint"
  unfolding true_range_def macd_line_def ppo_line_def upward_movement_def midpoint_def by (intro pit_intros; simp)+

lemma pit_directional [pit_intros]:
  assumes "0 < p" and "point_in_time atr"
  shows "point_in_time (\<lambda>st. directional_index st p (atr st) positive)" "point_in_time (\<lambda>st. adx st p (atr st))"
  unfolding directional_index_def adx_def Let_def by (intro pit_intros assms)+

lemma pit_aroon [pit_intros]: "0 < w \<Longrightarrow> point_in_time (\<lambda>st. aroon st w up)"
  unfolding aroon_def by (cases up) (simp_all, (intro pit_intros causal_intros; simp)+)

lemma pit_regression [pit_intros]: "0 < w \<Longrightarrow> point_in_time s \<Longrightarrow> point_in_time (\<lambda>st. regression st (s st) w kind)"
  unfolding regression_def by (intro pit_intros causal_intros)

lemma pit_trend_ratios [pit_intros]:
  "0 < w \<Longrightarrow> point_in_time (\<lambda>st. efficiency_ratio st w)" "0 < w \<Longrightarrow> point_in_time (\<lambda>st. trix st w)"
  "point_in_time atr \<Longrightarrow> point_in_time (\<lambda>st. supertrend_direction st (atr st) k)"
  unfolding efficiency_ratio_def trix_def supertrend_direction_def Let_def by (intro pit_intros causal_intros; simp)+

section \<open>Bands and breakouts\<close>

datatype band = Upper | Lower | Middle | Width | Pct

definition bollinger :: "Numpy \<Rightarrow> Store \<Rightarrow> nat \<Rightarrow> band \<Rightarrow> series" where
  "bollinger np st window part =
     (let middle = inclusive_rolling st (fs_close st) window np_mean;
          std = inclusive_rolling st (fs_close st) window (np_std (np_root np) 0);
          upper = add_columns middle (scale_column 2 std); lower = sub_columns middle (scale_column 2 std)
      in case part of
           Upper \<Rightarrow> upper | Lower \<Rightarrow> lower | Middle \<Rightarrow> middle
         | Width \<Rightarrow> array_ratio (sub_columns upper lower) middle
         | Pct \<Rightarrow> array_ratio (sub_columns (fs_close st) lower) (sub_columns upper lower))"

text \<open>Kernels that look back a fixed number of bars from each position.\<close>

definition nr7_kernel :: "(pyfloat \<times> pyfloat \<times> pyfloat) list \<Rightarrow> series" where
  "nr7_kernel bars =
     map (\<lambda>p. of_bool_float (7 \<le> p \<and> fst (bars ! (p - 1)) \<le> np_min (map fst (take 7 (drop (p - 7) bars)))
                             \<and> snd (snd (bars ! (p - 1))) < fst (snd (bars ! p))))
       [0..<length bars]"

definition nr7_breakout :: "Store \<Rightarrow> series" where
  "nr7_breakout st =
     per_ticker (fs_tickers st) nr7_kernel (Fin 0) (zip (sub_columns (fs_high st) (fs_low st)) (zip (fs_close st) (fs_high st)))"

definition inside_bar_kernel :: "(pyfloat \<times> pyfloat \<times> pyfloat) list \<Rightarrow> series" where
  "inside_bar_kernel bars =
     map (\<lambda>p. of_bool_float (2 \<le> p \<and>
            (case (bars ! (p - 2), bars ! (p - 1), bars ! p) of
               ((before_high, before_low, _), (high, low, _), (_, _, close)) \<Rightarrow>
                 high < before_high \<and> before_low < low \<and> high < close)))
       [0..<length bars]"

definition inside_bar_breakout :: "Store \<Rightarrow> series" where
  "inside_bar_breakout st =
     per_ticker (fs_tickers st) inside_bar_kernel (Fin 0) (zip (fs_high st) (zip (fs_low st) (fs_close st)))"

lemma nr7_kernel_nth: "p < length bars \<Longrightarrow> nr7_kernel bars ! p =
    of_bool_float (7 \<le> p \<and> fst (bars ! (p - 1)) \<le> np_min (map fst (take 7 (drop (p - 7) bars)))
                   \<and> snd (snd (bars ! (p - 1))) < fst (snd (bars ! p)))"
  by (simp add: nr7_kernel_def)

lemma inside_bar_kernel_nth: "p < length bars \<Longrightarrow> inside_bar_kernel bars ! p =
    of_bool_float (2 \<le> p \<and>
            (case (bars ! (p - 2), bars ! (p - 1), bars ! p) of
               ((before_high, before_low, _), (high, low, _), (_, _, close)) \<Rightarrow>
                 high < before_high \<and> before_low < low \<and> high < close))"
  by (simp add: inside_bar_kernel_def)

lemma length_breakout_kernels [simp]:
  "length (nr7_kernel bars) = length bars" "length (inside_bar_kernel bars) = length bars"
  by (simp_all add: nr7_kernel_def inside_bar_kernel_def)

lemma causal_nr7 [causal_intros]: "causal nr7_kernel"
proof (rule causal_by_nth[where g = "\<lambda>p ys. nr7_kernel ys ! p"])
  fix bars :: "(pyfloat \<times> pyfloat \<times> pyfloat) list" and p
  assume p: "p < length bars"
  have "take 7 (drop (p - 7) (take (Suc p) bars)) = take 7 (drop (p - 7) bars)" if "7 \<le> p"
    using that by (simp add: drop_take)
  then show "nr7_kernel bars ! p = nr7_kernel (take (Suc p) bars) ! p"
    using p by (simp add: nr7_kernel_nth del: take_Suc_conv_app_nth) (auto simp: of_bool_float_def)
qed simp

lemma causal_inside_bar [causal_intros]: "causal inside_bar_kernel"
  by (rule causal_by_nth[where g = "\<lambda>p ys. inside_bar_kernel ys ! p"]) (simp_all add: inside_bar_kernel_nth)

lemma pit_bands [pit_intros]:
  "0 < w \<Longrightarrow> point_in_time (\<lambda>st. bollinger np st w part)" "point_in_time nr7_breakout" "point_in_time inside_bar_breakout"
proof -
  show "0 < w \<Longrightarrow> point_in_time (\<lambda>st. bollinger np st w part)"
    unfolding bollinger_def Let_def by (cases part) (simp_all, (intro pit_intros; simp)+)
qed (unfold nr7_breakout_def inside_bar_breakout_def, (intro pit_intros causal_intros)+)

section \<open>Oscillators and volume\<close>

definition rsi_value :: "pyfloat \<Rightarrow> pyfloat \<Rightarrow> pyfloat" where
  "rsi_value gain loss =
     (if py_eq loss (Fin 0) then (if Fin 0 < gain then Fin 100 else Fin 50)
      else Fin 100 - np_div (Fin 100) (Fin 1 + np_div gain loss))"

definition rsi_step :: "nat \<Rightarrow> pyfloat \<times> pyfloat \<Rightarrow> pyfloat \<times> pyfloat \<Rightarrow> (pyfloat \<times> pyfloat) \<times> pyfloat" where
  "rsi_step period avg change =
     (let smooth = (\<lambda>a c. np_div (a * Fin (of_nat period - 1) + c) (Fin (of_nat period)));
          gain = smooth (fst avg) (fst change); loss = smooth (snd avg) (snd change)
      in ((gain, loss), rsi_value gain loss))"

definition rsi_moves :: "series \<Rightarrow> (pyfloat \<times> pyfloat) list" where
  "rsi_moves closes =
     map (\<lambda>c. (np_maximum c (Fin 0), np_maximum (- c) (Fin 0))) (map2 (\<lambda>later prior. later - prior) (tl closes) closes)"

definition rsi_kernel :: "nat \<Rightarrow> series \<Rightarrow> series" where
  "rsi_kernel period closes =
     (if length closes \<le> period then replicate (length closes) NaN
      else let moves = rsi_moves closes;
               gain = np_mean (map fst (take period moves)); loss = np_mean (map snd (take period moves))
           in replicate period NaN @ rsi_value gain loss # scan (rsi_step period) (gain, loss) (drop period moves))"

definition rsi_series :: "Store \<Rightarrow> nat \<Rightarrow> series" where
  "rsi_series st period = per_ticker (fs_tickers st) (rsi_kernel period) NaN (fs_close st)"

lemma length_rsi_moves [simp]: "length (rsi_moves xs) = length xs - 1"
  by (simp add: rsi_moves_def)

lemma rsi_moves_append: "xs \<noteq> [] \<Longrightarrow> rsi_moves xs = take (length xs - 1) (rsi_moves (xs @ ys))"
  by (rule nth_equalityI) (auto simp: rsi_moves_def nth_tl nth_append)

lemma causal_rsi [causal_intros]: "causal (rsi_kernel period)"
proof (rule causal_by_append)
  show "length (rsi_kernel period xs) = length xs" for xs
    by (cases "length xs \<le> period") (simp_all add: rsi_kernel_def Let_def causal_length[OF causal_scan])
  fix xs ys :: series
  show "take (length xs) (rsi_kernel period (xs @ ys)) = rsi_kernel period xs"
  proof (cases "length xs \<le> period")
    case True
    then show ?thesis by (simp add: rsi_kernel_def Let_def)
  next
    case False
    then have "xs \<noteq> []" by auto
    from rsi_moves_append[OF this, of ys] obtain rest where m: "rsi_moves (xs @ ys) = rsi_moves xs @ rest"
      by (metis append_take_drop_id)
    have p: "period \<le> length (rsi_moves xs)" and n: "length xs = Suc (period + length (drop period (rsi_moves xs)))"
      using False by auto
    have "take (length (drop period (rsi_moves xs))) (scan f s (drop period (rsi_moves xs) @ rest)) = scan f s (drop period (rsi_moves xs))"
      for f :: "pyfloat \<times> pyfloat \<Rightarrow> pyfloat \<times> pyfloat \<Rightarrow> (pyfloat \<times> pyfloat) \<times> pyfloat" and s
      by (rule causal_append[OF causal_scan])
    then show ?thesis using False p by (simp add: rsi_kernel_def Let_def m Suc_diff_le take_Cons')
  qed
qed

end
