(* ===== verification/Fs_Conditions.thy ===== *)
theory Fs_Conditions
  imports Py_Text
begin

text \<open>
  The rule language of the agent: \<open>Condition\<close>, \<open>StrategyIR\<close> and \<open>CandidateParameters\<close> of
  \<^verbatim>\<open>ai_graph/schemas.py\<close>, and from \<^verbatim>\<open>ai_graph/nodes/condition_compiler.py\<close> what a metric name in a
  condition stands for: aliases, percentage units, flags that are comparisons in disguise, ratios and
  derived series.  Texts are UTF-8 bytes; a number in a condition is a float.
\<close>

section \<open>Conditions\<close>

datatype ConditionOperator = Op_LT | Op_LTE | Op_GT | Op_GTE | Op_EQ | Op_NE | Op_BETWEEN | Op_CROSS_ABOVE | Op_CROSS_BELOW

datatype aggregate = Agg_Max | Agg_Min | Agg_Avg | Agg_Sum | Agg_Last

datatype operand = Number pyfloat | Metric string | Numbers "pyfloat list"

record Condition =
  cd_left :: string
  cd_operator :: ConditionOperator
  cd_right :: operand
  cd_description :: "string option"
  cd_window :: "nat option"
  cd_aggregate :: "aggregate option"
  cd_scale :: "pyfloat option"
  cd_consecutive :: "nat option"
  cd_universe_rank_pct :: "pyfloat option"

definition right_shape_ok :: "ConditionOperator \<Rightarrow> operand \<Rightarrow> bool" where
  "right_shape_ok oper right =
     (case oper of
        Op_BETWEEN \<Rightarrow> (case right of Numbers [low, high] \<Rightarrow> \<not> high < low | _ \<Rightarrow> False)
      | Op_CROSS_ABOVE \<Rightarrow> (case right of Metric _ \<Rightarrow> True | _ \<Rightarrow> False)
      | Op_CROSS_BELOW \<Rightarrow> (case right of Metric _ \<Rightarrow> True | _ \<Rightarrow> False)
      | _ \<Rightarrow> (case right of Numbers _ \<Rightarrow> False | _ \<Rightarrow> True))"

definition condition_ok :: "Condition \<Rightarrow> bool" where
  "condition_ok c \<longleftrightarrow> cd_left c \<noteq> [] \<and> cd_window c \<noteq> Some 0 \<and> cd_consecutive c \<noteq> Some 0
     \<and> (case cd_universe_rank_pct c of None \<Rightarrow> True | Some p \<Rightarrow> Fin 0 < p \<and> p \<le> Fin 1)
     \<and> right_shape_ok (cd_operator c) (cd_right c)"

record StrategyIR =
  ir_strategy_id :: string
  ir_entry_conditions :: "Condition list"
  ir_exit_conditions :: "Condition list"
  ir_ranking_metric :: "string option"
  ir_ranking_ascending :: bool
  ir_scheduled_rotation :: bool
  ir_holding_days :: "nat option"

record CandidateParameters =
  cp_profile :: string
  cp_lookback :: nat
  cp_threshold :: rat
  cp_stop_loss_pct :: rat
  cp_take_profit_pct :: rat
  cp_max_positions :: nat
  cp_rebalance_interval_days :: nat
  cp_trailing_stop_pct :: rat
  cp_medium_momentum_weight :: rat

definition parameters_ok :: "CandidateParameters \<Rightarrow> bool" where
  "parameters_ok p \<longleftrightarrow> 3 \<le> cp_lookback p \<and> cp_lookback p \<le> 252 \<and> -1 \<le> cp_threshold p \<and> cp_threshold p \<le> 100
     \<and> 0 < cp_stop_loss_pct p \<and> cp_stop_loss_pct p \<le> 1 \<and> 0 < cp_take_profit_pct p \<and> cp_take_profit_pct p \<le> 10
     \<and> 0 < cp_max_positions p \<and> cp_max_positions p \<le> 1000
     \<and> 5 \<le> cp_rebalance_interval_days p \<and> cp_rebalance_interval_days p \<le> 63
     \<and> 0 < cp_trailing_stop_pct p \<and> cp_trailing_stop_pct p \<le> 75 / 100
     \<and> 0 \<le> cp_medium_momentum_weight p \<and> cp_medium_momentum_weight p \<le> 1"

section \<open>Names\<close>

definition normal_name :: "string \<Rightarrow> string" where
  "normal_name name = py_lower (py_strip name)"

definition metric_aliases :: "(string, string) dict" where
  "metric_aliases = [
     (''price'', ''close''), (''closing_price'', ''close''), (''adj_close'', ''close''), (''rsi_14'', ''rsi''), (''rsi14'', ''rsi''),
     (''sma_20'', ''sma20''), (''sma_50'', ''sma50''), (''sma_200'', ''sma200''), (''ma20'', ''sma20''), (''ma50'', ''sma50''),
     (''ma200'', ''sma200''), (''ema_20'', ''ema20''), (''ema_50'', ''ema50''), (''ema_200'', ''ema200''),
     (''bollinger_upper'', ''bb_upper''), (''bollinger_lower'', ''bb_lower''), (''bollinger_middle'', ''bb_middle''),
     (''bb_width_pct'', ''bb_width''), (''atr_14'', ''atr''), (''macd_line'', ''macd''), (''signal_line'', ''macd_signal''),
     (''obv_line'', ''obv''), (''debt_to_equity_ratio'', ''debt_to_equity''), (''operating_profit'', ''operating_income''),
     (''sales'', ''revenue''), (''turnover'', ''revenue''), (''pe'', ''per''), (''pe_ratio'', ''per''), (''per_ratio'', ''per''),
     (''price_earnings_ratio'', ''per'')]"

text \<open>The bytes of the Korean word for debt ratio.\<close>

definition DEBT_RATIO_KOREAN :: string where
  "DEBT_RATIO_KOREAN = map char_of [235, 182, 128, 236, 177, 132, 235, 185, 132, 236, 156, 168 :: nat]"

definition percent_scaled :: "(string, string \<times> rat) dict" where
  "percent_scaled = [(''debt_ratio'', ''debt_to_equity'', 1 / 100), (DEBT_RATIO_KOREAN, ''debt_to_equity'', 1 / 100),
     (''roe_pct'', ''roe'', 1 / 100), (''operating_margin_pct'', ''operating_margin'', 1 / 100)]"

definition canonical_metric :: "string \<Rightarrow> string" where
  "canonical_metric name =
     (let normalized = normal_name name in
      case dget percent_scaled normalized of
        Some (metric, _) \<Rightarrow> metric
      | None \<Rightarrow> (case dget metric_aliases normalized of Some metric \<Rightarrow> metric | None \<Rightarrow> normalized))"

definition percent_scale :: "string \<Rightarrow> rat" where
  "percent_scale name = (case dget percent_scaled (normal_name name) of Some (_, factor) \<Rightarrow> factor | None \<Rightarrow> 1)"

text \<open>Flags that compare two metrics: left, \<open>True\<close> for above, right.\<close>

definition boolean_comparisons :: "(string, string \<times> bool \<times> string) dict" where
  "boolean_comparisons = [
     (''close_above_sma_20'', ''close'', True, ''sma20''), (''close_above_sma_50'', ''close'', True, ''sma50''),
     (''close_above_sma_200'', ''close'', True, ''sma200''), (''close_below_sma_20'', ''close'', False, ''sma20''),
     (''close_below_sma_50'', ''close'', False, ''sma50''), (''close_below_sma_200'', ''close'', False, ''sma200''),
     (''close_above_bb_upper'', ''close'', True, ''bb_upper''), (''close_below_bb_lower'', ''close'', False, ''bb_lower'')]"

definition boolean_comparison :: "string \<Rightarrow> (string \<times> bool \<times> string) option" where
  "boolean_comparison name = dget boolean_comparisons (normal_name name)"

definition derived_ratios :: "(string, string \<times> string \<times> nat) dict" where
  "derived_ratios = [(''volume_ratio_20'', ''volume'', ''volume'', 20), (''volume_ratio'', ''volume'', ''volume'', 20),
     (''close_to_sma20'', ''close'', ''sma20'', 0), (''close_to_sma200'', ''close'', ''sma200'', 0)]"

definition derived_ratio :: "string \<Rightarrow> (string \<times> string \<times> nat) option" where
  "derived_ratio name = dget derived_ratios (normal_name name)"

text \<open>Flags that compare the close with a rolling extreme: metric, aggregate, \<open>True\<close> for at or above,
  window, factor.\<close>

definition boolean_window_rules :: "(string, string \<times> aggregate \<times> bool \<times> nat \<times> rat) dict" where
  "boolean_window_rules = [(''breakout_high'', ''high'', Agg_Max, True, 252, 995 / 1000),
     (''breakout_high_20'', ''high'', Agg_Max, True, 20, 995 / 1000),
     (''close_below_lower_band_recent'', ''close'', Agg_Min, False, 5, 1)]"

definition boolean_window_rule :: "string \<Rightarrow> (string \<times> aggregate \<times> bool \<times> nat \<times> rat) option" where
  "boolean_window_rule name = dget boolean_window_rules (normal_name name)"

section \<open>Names with a number\<close>

text \<open>What the regular expressions of the source match: a text with \<open>\d+\<close> between two constant parts.\<close>

fun strip_prefix :: "string \<Rightarrow> string \<Rightarrow> string option" where
  "strip_prefix [] s = Some s"
| "strip_prefix (c # p) [] = None"
| "strip_prefix (c # p) (d # s) = (if c = d then strip_prefix p s else None)"

definition strip_suffix :: "string \<Rightarrow> string \<Rightarrow> string option" where
  "strip_suffix p s = map_option rev (strip_prefix (rev p) (rev s))"

definition number_text :: "string \<Rightarrow> nat option" where
  "number_text d = (if py_isdigit d then Some (digits_value d) else None)"

definition number_between :: "string \<Rightarrow> string \<Rightarrow> string \<Rightarrow> nat option" where
  "number_between pre suf s =
     Option.bind (strip_prefix pre s) (\<lambda>t. Option.bind (strip_suffix suf t) number_text)"

definition MOVING_AVERAGE_MIN_WINDOW :: nat where "MOVING_AVERAGE_MIN_WINDOW = 2"
definition MOVING_AVERAGE_MAX_WINDOW :: nat where "MOVING_AVERAGE_MAX_WINDOW = 250"

text \<open>\<open>(sma|ema)_?(\d{1,3})\<close>; the first component is \<open>True\<close> for an exponential average.\<close>

definition average_name :: "string \<Rightarrow> (bool \<times> string) option" where
  "average_name s =
     (let number = (\<lambda>t. if take 1 t = ''_'' then tl t else t) in
      case strip_prefix ''sma'' s of Some t \<Rightarrow> Some (False, number t)
      | None \<Rightarrow> (case strip_prefix ''ema'' s of Some t \<Rightarrow> Some (True, number t) | None \<Rightarrow> None))"

definition moving_average_spec :: "string \<Rightarrow> (bool \<times> nat) option" where
  "moving_average_spec name =
     (case average_name (canonical_metric name) of
        None \<Rightarrow> None
      | Some (exponential, digits) \<Rightarrow>
          if py_isdigit digits \<and> length digits \<le> 3
            \<and> MOVING_AVERAGE_MIN_WINDOW \<le> digits_value digits \<and> digits_value digits \<le> MOVING_AVERAGE_MAX_WINDOW
          then Some (exponential, digits_value digits) else None)"

datatype derived_series = Realized_Volatility nat | Relative_Strength nat | Percentile string

definition derived_series_spec :: "string \<Rightarrow> derived_series option" where
  "derived_series_spec name =
     (let normalized = normal_name name in
      case number_between ''realized_volatility_'' ''d'' normalized of Some n \<Rightarrow> Some (Realized_Volatility n)
      | None \<Rightarrow> (case number_between ''relative_strength_'' ''d'' normalized of Some n \<Rightarrow> Some (Relative_Strength n)
      | None \<Rightarrow> (case strip_suffix ''_percentile'' normalized of
          Some metric \<Rightarrow> if metric = [] \<or> CHR 0x0A \<in> set metric then None else Some (Percentile (canonical_metric metric))
        | None \<Rightarrow> None)))"

section \<open>Margins\<close>

fun MARGIN_SIGN :: "ConditionOperator \<Rightarrow> rat option" where
  "MARGIN_SIGN Op_GT = Some 1"
| "MARGIN_SIGN Op_GTE = Some 1"
| "MARGIN_SIGN Op_CROSS_ABOVE = Some 1"
| "MARGIN_SIGN Op_LT = Some (-1)"
| "MARGIN_SIGN Op_LTE = Some (-1)"
| "MARGIN_SIGN Op_CROSS_BELOW = Some (-1)"
| "MARGIN_SIGN _ = None"

definition MARGIN_EPSILON :: rat where "MARGIN_EPSILON = 1 / 10 ^ 9"

definition LEVEL_METRICS :: "string list" where
  "LEVEL_METRICS = [''open'', ''high'', ''low'', ''close'', ''price'', ''volume'']"

section \<open>Lemmas\<close>

lemma length_normal_name: "length (normal_name s) \<le> length s"
proof -
  have "length (py_strip s) \<le> length s"
    unfolding py_strip_def using length_dropWhile_le[of is_space s] length_dropWhile_le[of is_space "rev (dropWhile is_space s)"] by simp
  then show ?thesis by (simp add: normal_name_def py_lower_def)
qed

lemma length_strip_prefix: "strip_prefix p s = Some t \<Longrightarrow> length s = length p + length t"
  by (induction p s rule: strip_prefix.induct) (auto split: if_splits)

lemma length_strip_suffix: "strip_suffix p s = Some t \<Longrightarrow> length s = length p + length t"
  using length_strip_prefix[of "rev p" "rev s"] by (auto simp: strip_suffix_def)

end
