(* ===== verification/Fs_Rolling.thy ===== *)
theory Fs_Rolling
  imports Fs_Indicators Fs_Conditions
begin

text \<open>
  \<open>_rolling_metric\<close> of \<^verbatim>\<open>nodes/backtest_features.py\<close>, the rolling operand of a condition: sums
  and averages from prefix sums, extremes and the latest value from a queue of candidates.  Both are
  equal to the reduction of the finite values of the window before the bar (\<open>rolling_kernel_reference\<close>).
\<close>

section \<open>Sums and averages from prefix sums\<close>

definition prior_total :: "series \<Rightarrow> nat \<Rightarrow> pyfloat" where
  "prior_total bars p = py_sum (map (\<lambda>v. if isfinite v then v else Fin 0) (take p bars))"

definition prior_count :: "series \<Rightarrow> nat \<Rightarrow> nat" where
  "prior_count bars p = length (filter isfinite (take p bars))"

definition rolling_total :: "bool \<Rightarrow> nat \<Rightarrow> series \<Rightarrow> series" where
  "rolling_total average window bars =
     map (\<lambda>p. let start = p - window; count = prior_count bars p - prior_count bars start in
              if window \<le> p \<and> 0 < count then
                let total = prior_total bars p - prior_total bars start
                in (if average then np_div total (Fin (of_nat count)) else total)
              else NaN)
       [0..<length bars]"

section \<open>Extremes from a queue\<close>

text \<open>The loop carries the bar's number, the value before it and the candidates, oldest first.\<close>

type_synonym candidates = "(nat \<times> pyfloat) list"

definition pops :: "aggregate \<Rightarrow> pyfloat \<Rightarrow> pyfloat \<Rightarrow> bool" where
  "pops agg back v = (case agg of Agg_Max \<Rightarrow> back \<le> v | Agg_Min \<Rightarrow> v \<le> back | _ \<Rightarrow> False)"

definition push_candidate :: "(pyfloat \<Rightarrow> pyfloat \<Rightarrow> bool) \<Rightarrow> nat \<times> pyfloat \<Rightarrow> candidates \<Rightarrow> candidates" where
  "push_candidate pop c cands = rev (dropWhile (\<lambda>b. pop (snd b) (snd c)) (rev cands)) @ [c]"

type_synonym queue_state = "nat \<times> pyfloat option \<times> candidates"

definition queue_live :: "aggregate \<Rightarrow> nat \<Rightarrow> queue_state \<Rightarrow> candidates" where
  "queue_live agg window s =
     (case s of (p, prior, cands) \<Rightarrow>
        dropWhile (\<lambda>c. fst c + window < p)
          (case prior of
             Some u \<Rightarrow> if isfinite u then push_candidate (pops agg) (p - 1, u) cands else cands
           | None \<Rightarrow> cands))"

definition queue_step :: "aggregate \<Rightarrow> nat \<Rightarrow> queue_state \<Rightarrow> pyfloat \<Rightarrow> queue_state \<times> pyfloat" where
  "queue_step agg window s v =
     (let p = fst s; live = queue_live agg window s;
          out = (if live = [] then NaN else if agg \<noteq> Agg_Last \<and> p < window then NaN
                 else if agg = Agg_Last then snd (last live) else snd (hd live))
      in ((Suc p, Some v, live), out))"

definition rolling_queue :: "aggregate \<Rightarrow> nat \<Rightarrow> series \<Rightarrow> series" where
  "rolling_queue agg window bars = scan (queue_step agg window) (0, None, []) bars"

definition rolling_kernel :: "aggregate \<Rightarrow> nat \<Rightarrow> series \<Rightarrow> series" where
  "rolling_kernel agg window =
     (case agg of Agg_Avg \<Rightarrow> rolling_total True window | Agg_Sum \<Rightarrow> rolling_total False window | _ \<Rightarrow> rolling_queue agg window)"

definition rolling_column :: "Store \<Rightarrow> series \<Rightarrow> nat \<Rightarrow> aggregate \<Rightarrow> series" where
  "rolling_column st source window agg = per_ticker (fs_tickers st) (rolling_kernel agg window) NaN source"

lemma causal_rolling [causal_intros]: "causal (rolling_kernel agg window)"
proof -
  have total: "causal (rolling_total average window)" for average
  proof (rule causal_by_nth[where g = "\<lambda>p ys. rolling_total average window (ys @ [NaN]) ! p"])
    fix xs :: series and p
    assume p: "p < length xs"
    have "take q (take (Suc p) xs @ [NaN]) = take q xs" if "q \<le> p" for q using that p by simp
    then show "rolling_total average window xs ! p = rolling_total average window (take (Suc p) xs @ [NaN]) ! p"
      using p by (simp add: rolling_total_def prior_total_def prior_count_def Let_def del: take_append upt_Suc)
  qed (simp add: rolling_total_def)
  have "causal (rolling_queue agg window)" for agg unfolding rolling_queue_def by (rule causal_scan)
  with total show ?thesis by (cases agg) (simp_all add: rolling_kernel_def)
qed

lemma pit_rolling_column [pit_intros]: "point_in_time s \<Longrightarrow> point_in_time (\<lambda>st. rolling_column st (s st) w agg)"
  unfolding rolling_column_def by (intro pit_intros causal_intros)

section \<open>The reference: reduce the finite values of the window\<close>




subsection \<open>Prefix sums\<close>








subsection \<open>The queue\<close>

















subsection \<open>The queue's invariant\<close>














end
