(* ===== verification/Fs_Volume.thy ===== *)
theory Fs_Volume
  imports Fs_Indicators Fs_Rolling
begin

text \<open>
  The oscillators, the volume indicators and the drawdown measures of \<open>PreparedFeatureStore\<close> in
  \<^verbatim>\<open>nodes/backtest_features.py\<close>, each with the rule that shows it point in time.
\<close>

section \<open>Oscillators\<close>

definition stochastic :: "Store \<Rightarrow> nat \<Rightarrow> series" where
  "stochastic st window =
     (let high = inclusive_rolling st (fs_high st) window np_max; low = inclusive_rolling st (fs_low st) window np_min
      in scale_column 100 (array_ratio (sub_columns (fs_close st) low) (sub_columns high low)))"

definition williams_r :: "Store \<Rightarrow> nat \<Rightarrow> series" where
  "williams_r st window =
     (let high = inclusive_rolling st (fs_high st) window np_max; low = inclusive_rolling st (fs_low st) window np_min
      in scale_column (-100) (array_ratio (sub_columns high (fs_close st)) (sub_columns high low)))"

definition typical_price :: "Store \<Rightarrow> series" where
  "typical_price st = map (\<lambda>x. np_div x (Fin 3)) (add_columns (add_columns (fs_high st) (fs_low st)) (fs_close st))"

definition cci_value :: "series \<Rightarrow> pyfloat" where
  "cci_value win =
     (let m = np_mean win; deviation = np_mean (map (\<lambda>v. np_abs (v - m)) win)
      in hd (array_ratio [last win - m] [Fin (15 / 1000) * deviation]))"

definition cci :: "Store \<Rightarrow> nat \<Rightarrow> series" where
  "cci st window = per_ticker (fs_tickers st) (windowed NaN window cci_value) NaN (typical_price st)"

definition mfi :: "Store \<Rightarrow> nat \<Rightarrow> series" where
  "mfi st window =
     (let typical = typical_price st; prev = shift st typical 1; money = mul_columns typical (fs_volume st);
          positive = map (\<lambda>(m, t, p). if p < t then m else Fin 0) (zip money (zip typical prev));
          negative = map (\<lambda>(m, t, p). if t < p then m else Fin 0) (zip money (zip typical prev));
          positive_sum = rolling_from_array st positive window py_sum False;
          negative_sum = rolling_from_array st negative window py_sum False
      in map (\<lambda>(r, p, n). if py_eq n (Fin 0) \<and> Fin 0 < p then Fin 100 else Fin 100 - np_div (Fin 100) (Fin 1 + r))
           (zip (array_ratio positive_sum negative_sum) (zip positive_sum negative_sum)))"

definition vwap :: "Store \<Rightarrow> nat \<Rightarrow> series" where
  "vwap st window =
     array_ratio (rolling_from_array st (mul_columns (typical_price st) (fs_volume st)) window py_sum False)
       (rolling_from_array st (fs_volume st) window py_sum False)"

lemma pit_typical [pit_intros]: "point_in_time typical_price"
  unfolding typical_price_def by (intro pit_intros)

lemma pit_oscillators [pit_intros]:
  assumes "0 < w"
  shows "point_in_time (\<lambda>st. stochastic st w)" "point_in_time (\<lambda>st. williams_r st w)" "point_in_time (\<lambda>st. cci st w)"
    "point_in_time (\<lambda>st. mfi st w)" "point_in_time (\<lambda>st. vwap st w)"
  unfolding stochastic_def williams_r_def cci_def mfi_def vwap_def Let_def by (intro pit_intros causal_intros assms)+

section \<open>Loops over the bars of a ticker\<close>

text \<open>Each loop starts at the second bar; the first one keeps what the column was filled with.\<close>

definition loss_streak_step :: "pyfloat option \<times> nat \<Rightarrow> pyfloat \<Rightarrow> (pyfloat option \<times> nat) \<times> pyfloat" where
  "loss_streak_step s close =
     (let streak = (case fst s of None \<Rightarrow> 0 | Some prev \<Rightarrow> if close < prev then Suc (snd s) else 0)
      in ((Some close, streak), Fin (of_nat streak)))"

definition loss_streak :: "Store \<Rightarrow> series" where
  "loss_streak st = per_ticker (fs_tickers st) (scan loss_streak_step (None, 0)) (Fin 0) (fs_close st)"

definition obv_step :: "pyfloat option \<times> pyfloat \<Rightarrow> pyfloat \<times> pyfloat \<Rightarrow> (pyfloat option \<times> pyfloat) \<times> pyfloat" where
  "obv_step s bar =
     (case (s, bar) of ((prev, v), (close, volume)) \<Rightarrow>
        let v' = (case prev of None \<Rightarrow> v | Some p \<Rightarrow> v + np_sign (close - p) * volume) in ((Some close, v'), v'))"

definition obv :: "Store \<Rightarrow> series" where
  "obv st = per_ticker (fs_tickers st) (scan obv_step (None, Fin 0)) (Fin 0) (zip (fs_close st) (fs_volume st))"

definition money_flow_multiplier :: "Store \<Rightarrow> series" where
  "money_flow_multiplier st =
     array_ratio (sub_columns (sub_columns (scale_column 2 (fs_close st)) (fs_high st)) (fs_low st))
       (sub_columns (fs_high st) (fs_low st))"

definition cmf :: "Store \<Rightarrow> nat \<Rightarrow> series" where
  "cmf st window =
     array_ratio (rolling_from_array st (mul_columns (money_flow_multiplier st) (fs_volume st)) window py_sum False)
       (rolling_from_array st (fs_volume st) window py_sum False)"

definition cumsum :: "series \<Rightarrow> series" where
  "cumsum = scan (\<lambda>s x. (s + x, s + x)) (Fin 0)"

definition adl :: "Store \<Rightarrow> series" where
  "adl st =
     per_ticker (fs_tickers st) cumsum (Fin 0) (mul_columns (map nan_to_num (money_flow_multiplier st)) (fs_volume st))"

type_synonym index_state = "(pyfloat \<times> pyfloat) option \<times> pyfloat"

definition volume_index_step :: "bool \<Rightarrow> index_state \<Rightarrow> pyfloat \<times> pyfloat \<Rightarrow> index_state \<times> pyfloat" where
  "volume_index_step positive s bar =
     (case (s, bar) of ((prev, v), (close, volume)) \<Rightarrow>
        let v' = (case prev of None \<Rightarrow> v
                  | Some (prev_close, prev_volume) \<Rightarrow>
                      if (if positive then prev_volume < volume else volume < prev_volume) \<and> \<not> py_eq prev_close (Fin 0)
                      then v * np_div close prev_close else v)
        in ((Some (close, volume), v'), v'))"

definition volume_index :: "Store \<Rightarrow> bool \<Rightarrow> series" where
  "volume_index st positive =
     per_ticker (fs_tickers st) (scan (volume_index_step positive) (None, Fin 1000)) NaN (zip (fs_close st) (fs_volume st))"

definition running_max :: "series \<Rightarrow> series" where
  "running_max = scan (\<lambda>m x. let v = (case m of None \<Rightarrow> x | Some a \<Rightarrow> np_maximum a x) in (Some v, v)) None"

definition ulcer_value :: "(rat \<Rightarrow> rat) \<Rightarrow> series \<Rightarrow> pyfloat" where
  "ulcer_value sq sample =
     (let drawdowns = map2 (\<lambda>v peak. Fin 100 * (np_div v peak - Fin 1)) sample (running_max sample)
      in np_sqrt sq (np_mean (map (\<lambda>d. d * d) drawdowns)))"

definition ulcer_index :: "Numpy \<Rightarrow> Store \<Rightarrow> nat \<Rightarrow> series" where
  "ulcer_index np st window = per_ticker (fs_tickers st) (windowed NaN window (ulcer_value (np_root np))) NaN (fs_close st)"

lemma pit_volume [pit_intros]:
  "point_in_time loss_streak" "point_in_time obv" "point_in_time money_flow_multiplier" "point_in_time adl"
  "point_in_time (\<lambda>st. volume_index st positive)"
proof -
  show "point_in_time money_flow_multiplier" unfolding money_flow_multiplier_def by (intro pit_intros)
  then show "point_in_time adl" unfolding adl_def cumsum_def by (intro pit_intros causal_intros)
qed (unfold loss_streak_def obv_def volume_index_def, (intro pit_intros causal_intros)+)

lemma pit_flows [pit_intros]:
  assumes "0 < w"
  shows "point_in_time (\<lambda>st. cmf st w)" "point_in_time (\<lambda>st. ulcer_index np st w)"
  unfolding cmf_def ulcer_index_def by (intro pit_intros causal_intros assms)+

text \<open>
  The columns \<open>_metric_series\<close> takes from elsewhere: the numbers the rows carry
  (\<open>_row_metric_series\<close>), the series derived from the bars and from the cross section of a date
  (\<open>_derived_from_bars\<close>) and ratios (\<open>_derived_ratio_series\<close>), each with the rule that shows it
  point in time.
\<close>

section \<open>What the rows carry\<close>

definition row_number :: "string \<Rightarrow> string \<Rightarrow> price_row \<Rightarrow> pyfloat" where
  "row_number metric normalized row =
     (let raw = pget row metric; raw' = (if raw = PNone \<and> normalized \<noteq> metric then pget row normalized else raw)
      in case finite_number raw' of Some x \<Rightarrow> x | None \<Rightarrow> NaN)"

definition row_metric_series :: "Store \<Rightarrow> string \<Rightarrow> string \<Rightarrow> series" where
  "row_metric_series st metric normalized = map (row_number metric normalized) (fs_rows st)"

definition overridden :: "series \<Rightarrow> series \<Rightarrow> series" where
  "overridden row_series computed =
     (if list_ex isfinite row_series then map2 (\<lambda>r c. if isfinite r then r else c) row_series computed else computed)"

lemma overridden_map2:
  "length row_series = length computed \<Longrightarrow> overridden row_series computed = map2 (\<lambda>r c. if isfinite r then r else c) row_series computed"
  unfolding overridden_def by (induction row_series computed rule: list_induct2) (auto split: if_splits)

lemma pit_row_metric [pit_intros]: "point_in_time (\<lambda>st. row_metric_series st metric normalized)"
  unfolding row_metric_series_def by (intro pit_intros)

lemma pit_overridden [pit_intros]:
  assumes "point_in_time s" and "point_in_time t"
  shows "point_in_time (\<lambda>st. overridden (s st) (t st))"
proof -
  have "point_in_time (\<lambda>st. map2 (\<lambda>r c. if isfinite r then r else c) (s st) (t st))" by (intro pit_intros assms)
  moreover have "overridden (s st) (t st) = map2 (\<lambda>r c. if isfinite r then r else c) (s st) (t st)" if "store_ok st" for st
    using that by (intro overridden_map2) (simp add: pit_length[OF assms(1)] pit_length[OF assms(2)])
  ultimately show ?thesis by (simp add: point_in_time_def cut_store_ok)
qed

section \<open>Volatility, relative strength, percentiles\<close>

definition realized_kernel :: "(rat \<Rightarrow> rat) \<Rightarrow> nat \<Rightarrow> series \<Rightarrow> series" where
  "realized_kernel sq window returns =
     map (\<lambda>p. if p < window then NaN
              else let sample = filter isfinite (drop (p + 1 - window) (take (Suc p) returns))
                   in if 2 \<le> length sample then np_std sq 1 sample * np_sqrt sq (Fin 252) else NaN)
       [0..<length returns]"

definition realized_volatility_series :: "Numpy \<Rightarrow> Store \<Rightarrow> nat \<Rightarrow> series" where
  "realized_volatility_series np st window =
     per_ticker (fs_tickers st) (realized_kernel (np_root np) window) NaN (daily_returns st)"

definition excess_over_mean :: "series \<Rightarrow> series" where
  "excess_over_mean day =
     (let finite = filter isfinite day
      in if finite = [] then replicate (length day) NaN else map (\<lambda>v. v - np_mean finite) day)"

definition relative_strength_series :: "Store \<Rightarrow> nat \<Rightarrow> series" where
  "relative_strength_series st window =
     per_date (fs_dates st) excess_over_mean
       (map2 (\<lambda>later prior. if Fin 0 < prior then np_div later prior - Fin 1 else NaN) (fs_close st) (shift st (fs_close st) window))"

text \<open>\<^verbatim>\<open>finite.argsort().argsort()\<close>: the place of every value in the sorting permutation.\<close>

definition places :: "nat list \<Rightarrow> nat list" where
  "places perm = map (\<lambda>i. length (takeWhile (\<lambda>j. j \<noteq> i) perm)) [0..<length perm]"

fun fill_finite :: "series \<Rightarrow> series \<Rightarrow> series" where
  "fill_finite [] ranks = []"
| "fill_finite (v # day) ranks =
     (if isfinite v then (case ranks of r # rs \<Rightarrow> r # fill_finite day rs | [] \<Rightarrow> NaN # fill_finite day [])
      else NaN # fill_finite day ranks)"

definition percentiles_of_day :: "(series \<Rightarrow> nat list) \<Rightarrow> series \<Rightarrow> series" where
  "percentiles_of_day argsort day =
     (let finite = filter isfinite day in
      if length finite < 2 then replicate (length day) NaN
      else fill_finite day (map (\<lambda>k. np_div (Fin (of_nat k)) (Fin (of_nat (length finite) - 1))) (places (argsort finite))))"

definition percentile_series :: "Numpy \<Rightarrow> Store \<Rightarrow> series \<Rightarrow> series" where
  "percentile_series np st base = per_date (fs_dates st) (percentiles_of_day (np_argsort np)) base"

definition ratio_series :: "series \<Rightarrow> series \<Rightarrow> series" where
  "ratio_series numerator denominator =
     map2 (\<lambda>n d. if isfinite d \<and> d \<noteq> Fin 0 then np_div n d else NaN) numerator denominator"

lemma length_fill_finite [simp]: "length (fill_finite day ranks) = length day"
  by (induction day ranks rule: fill_finite.induct) (auto split: list.split)

lemma causal_realized [causal_intros]: "causal (realized_kernel sq w)"
  by (rule causal_by_nth[where g = "\<lambda>p ys. if p < w then NaN
              else let sample = filter isfinite (drop (p + 1 - w) ys)
                   in if 2 \<le> length sample then np_std sq 1 sample * np_sqrt sq (Fin 252) else NaN"])
    (simp_all add: realized_kernel_def)

lemma pit_derived [pit_intros]:
  "point_in_time (\<lambda>st. realized_volatility_series np st w)" "point_in_time (\<lambda>st. relative_strength_series st w)"
  "point_in_time s \<Longrightarrow> point_in_time (\<lambda>st. percentile_series np st (s st))"
  "point_in_time s \<Longrightarrow> point_in_time t \<Longrightarrow> point_in_time (\<lambda>st. ratio_series (s st) (t st))"
proof -
  show "point_in_time (\<lambda>st. realized_volatility_series np st w)"
    unfolding realized_volatility_series_def by (intro pit_intros causal_intros)
  have "length (excess_over_mean day) = length day" for day by (simp add: excess_over_mean_def Let_def)
  then show "point_in_time (\<lambda>st. relative_strength_series st w)"
    unfolding relative_strength_series_def by (intro pit_intros)
  have "length (percentiles_of_day f day) = length day" for f day by (simp add: percentiles_of_day_def Let_def)
  then show "point_in_time s \<Longrightarrow> point_in_time (\<lambda>st. percentile_series np st (s st))"
    unfolding percentile_series_def by (intro pit_intros)
qed (unfold ratio_series_def, (intro pit_intros; simp)+)

end
