(* ===== verification/Fs_Catalog.thy ===== *)
theory Fs_Catalog
  imports Fs_Volume
begin

text \<open>
  The metric catalog of \<^verbatim>\<open>nodes/backtest_features.py\<close>: \<open>_catalog_metric_series\<close> reads a name
  against its regular expressions in order (\<open>catalog_entry\<close>), looks other metrics up
  (\<open>entry_inputs\<close>), and computes a column (\<open>entry_column\<close>).  Three families write
  sibling columns into the metric cache while they compute one: average true ranges, directional
  movement, and the lines of an oscillator.  A window of zero bars, for which numpy raises, is read as
  an unknown name.
\<close>

section \<open>Names\<close>

datatype line = Line | Signal | Histogram

datatype movement = Adx | Plus_DI | Minus_DI

text \<open>The entries by what they need: only the bars, other metrics, or the cache.\<close>

datatype trend_entry =
    Return nat | Momentum_12_1 | Sma nat | Ema nat | Close_To_High nat | Sharpe nat | Sortino nat
  | Return_Vol_Ratio nat | Price_Volume_Score nat | Momentum_Blend | Aroon bool nat | Regression regression_kind nat
  | Efficiency_Ratio nat | Trix nat

datatype breakout_entry =
    Donchian bool nat | Bollinger band nat | Nr7_Breakout | Inside_Bar_Breakout | Outside_Bar_Continuation | Gap_Pct
  | Price_Zscore nat

datatype flow_entry =
    Stoch_K nat | Williams_R nat | Cci nat | Mfi nat | Close_To_Vwap nat | Loss_Streak | Obv | Cmf nat | Adl
  | Volume_Index bool | Force_Index nat | Eom nat | Ulcer_Index nat | Drawdown nat

datatype composed_entry =
    Trix_Signal_9 | Squeeze_Breakout | Gap_Up_Volume_Breakout | Range_Expansion_Breakout | Stoch_D_3 | Obv_Slope nat
  | Adl_Slope nat | Volume_Index_Sma_100 bool | Volume_Index_Trend_Gap bool | Drawdown_Recovery string
  | Atr_Trailing_Floor nat

datatype cached_entry =
    Macd line | Ppo line | Pvo line | Directional movement nat | Supertrend_10_3 | Keltner bool nat | Atr_Expansion nat

datatype metric_entry =
    Trend trend_entry | Breakout breakout_entry | Flow flow_entry | Composed composed_entry | Cached cached_entry

text \<open>A pattern reads a name; \<open>numbered\<close> is a pattern with one \<open>(\d+)\<close>.\<close>

type_synonym pattern = "string \<Rightarrow> metric_entry option"

definition named :: "string \<Rightarrow> metric_entry \<Rightarrow> pattern" where
  "named n e name = (if name = n then Some e else None)"

definition numbered :: "string \<Rightarrow> string \<Rightarrow> (nat \<Rightarrow> metric_entry) \<Rightarrow> pattern" where
  "numbered pre suf f name =
     (case number_between pre suf name of Some n \<Rightarrow> if n = 0 then None else Some (f n) | None \<Rightarrow> None)"

text \<open>\<open>sma_?(\d+)\<close>.\<close>

definition optional_underscore :: "string \<Rightarrow> (nat \<Rightarrow> metric_entry) \<Rightarrow> pattern" where
  "optional_underscore pre f name =
     (case numbered (pre @ ''_'') '''' f name of Some e \<Rightarrow> Some e | None \<Rightarrow> numbered pre '''' f name)"

definition drawdown_recovery_name :: pattern where
  "drawdown_recovery_name name =
     (case strip_prefix ''drawdown_recovery_'' name of
        Some digits \<Rightarrow> if py_isdigit digits \<and> digits_value digits \<noteq> 0 then Some (Composed (Drawdown_Recovery digits)) else None
      | None \<Rightarrow> None)"

definition catalog_patterns :: "pattern list" where
  "catalog_patterns = [
     numbered ''return_'' ''d'' (Trend \<circ> Return), named ''momentum_12_1'' (Trend Momentum_12_1),
     optional_underscore ''sma'' (Trend \<circ> Sma), optional_underscore ''ema'' (Trend \<circ> Ema),
     numbered ''close_to_high_'' '''' (Trend \<circ> Close_To_High), numbered ''sharpe_'' '''' (Trend \<circ> Sharpe), numbered ''sortino_'' '''' (Trend \<circ> Sortino),
     numbered ''return_vol_ratio_'' '''' (Trend \<circ> Return_Vol_Ratio), numbered ''price_volume_score_'' '''' (Trend \<circ> Price_Volume_Score),
     named ''momentum_blend'' (Trend Momentum_Blend),
     named ''macd'' (Cached (Macd Line)), named ''macd_signal'' (Cached (Macd Signal)), named ''macd_hist'' (Cached (Macd Histogram)),
     named ''ppo'' (Cached (Ppo Line)), named ''ppo_signal'' (Cached (Ppo Signal)), named ''ppo_hist'' (Cached (Ppo Histogram)),
     numbered ''adx_'' '''' (Cached \<circ> Directional Adx), numbered ''plus_di_'' '''' (Cached \<circ> Directional Plus_DI),
     numbered ''minus_di_'' '''' (Cached \<circ> Directional Minus_DI),
     numbered ''aroon_up_'' '''' (Trend \<circ> Aroon True), numbered ''aroon_down_'' '''' (Trend \<circ> Aroon False),
     numbered ''slope_'' '''' (Trend \<circ> Regression Slope), numbered ''r_squared_'' '''' (Trend \<circ> Regression R_Squared),
     numbered ''efficiency_ratio_'' '''' (Trend \<circ> Efficiency_Ratio), numbered ''trix_'' '''' (Trend \<circ> Trix),
     named ''trix_signal_9'' (Composed Trix_Signal_9), named ''supertrend_direction_10_3'' (Cached Supertrend_10_3),
     numbered ''donchian_high_'' '''' (Breakout \<circ> Donchian True), numbered ''donchian_low_'' '''' (Breakout \<circ> Donchian False),
     numbered ''bollinger_upper_'' '''' (Breakout \<circ> Bollinger Upper), numbered ''bollinger_lower_'' '''' (Breakout \<circ> Bollinger Lower),
     numbered ''bollinger_middle_'' '''' (Breakout \<circ> Bollinger Middle), numbered ''bollinger_width_'' '''' (Breakout \<circ> Bollinger Width),
     numbered ''bollinger_pct_'' '''' (Breakout \<circ> Bollinger Pct),
     numbered ''keltner_upper_'' '''' (Cached \<circ> Keltner True), numbered ''keltner_lower_'' '''' (Cached \<circ> Keltner False),
     numbered ''atr_expansion_'' '''' (Cached \<circ> Atr_Expansion), numbered ''atr_trailing_floor_'' '''' (Composed \<circ> Atr_Trailing_Floor),
     named ''squeeze_breakout'' (Composed Squeeze_Breakout), named ''nr7_breakout'' (Breakout Nr7_Breakout),
     named ''inside_bar_breakout'' (Breakout Inside_Bar_Breakout), named ''outside_bar_continuation'' (Breakout Outside_Bar_Continuation),
     named ''gap_pct'' (Breakout Gap_Pct), named ''gap_up_volume_breakout'' (Composed Gap_Up_Volume_Breakout),
     named ''range_expansion_breakout'' (Composed Range_Expansion_Breakout), numbered ''price_zscore_'' '''' (Breakout \<circ> Price_Zscore),
     numbered ''stoch_k_'' '''' (Flow \<circ> Stoch_K), named ''stoch_d_3'' (Composed Stoch_D_3), numbered ''williams_r_'' '''' (Flow \<circ> Williams_R),
     numbered ''cci_'' '''' (Flow \<circ> Cci), numbered ''mfi_'' '''' (Flow \<circ> Mfi), numbered ''close_to_vwap_'' '''' (Flow \<circ> Close_To_Vwap),
     named ''loss_streak'' (Flow Loss_Streak), named ''obv'' (Flow Obv), numbered ''obv_slope_'' '''' (Composed \<circ> Obv_Slope),
     numbered ''cmf_'' '''' (Flow \<circ> Cmf), named ''adl'' (Flow Adl), numbered ''adl_slope_'' '''' (Composed \<circ> Adl_Slope),
     named ''pvi'' (Flow (Volume_Index True)), named ''nvi'' (Flow (Volume_Index False)),
     named ''pvi_sma_100'' (Composed (Volume_Index_Sma_100 True)), named ''nvi_sma_100'' (Composed (Volume_Index_Sma_100 False)),
     named ''pvi_trend_gap'' (Composed (Volume_Index_Trend_Gap True)), named ''nvi_trend_gap'' (Composed (Volume_Index_Trend_Gap False)),
     numbered ''force_index_'' '''' (Flow \<circ> Force_Index), numbered ''eom_'' '''' (Flow \<circ> Eom),
     named ''pvo'' (Cached (Pvo Line)), named ''pvo_signal'' (Cached (Pvo Signal)), named ''pvo_hist'' (Cached (Pvo Histogram)),
     numbered ''ulcer_index_'' '''' (Flow \<circ> Ulcer_Index), numbered ''drawdown_'' '''' (Flow \<circ> Drawdown), drawdown_recovery_name]"

fun first_match :: "pattern list \<Rightarrow> pattern" where
  "first_match [] name = None"
| "first_match (p # ps) name = (case p name of Some e \<Rightarrow> Some e | None \<Rightarrow> first_match ps name)"

definition catalog_entry :: pattern where
  "catalog_entry = first_match catalog_patterns"

text \<open>Every name that is read has windows of at least one bar.\<close>

definition entry_ok :: "metric_entry \<Rightarrow> bool" where
  "entry_ok e \<longleftrightarrow>
     (case e of
        Trend d \<Rightarrow> (case d of Momentum_12_1 \<Rightarrow> True | Momentum_Blend \<Rightarrow> True | Return w \<Rightarrow> 0 < w | Sma w \<Rightarrow> 0 < w | Ema w \<Rightarrow> 0 < w
          | Close_To_High w \<Rightarrow> 0 < w | Sharpe w \<Rightarrow> 0 < w | Sortino w \<Rightarrow> 0 < w | Return_Vol_Ratio w \<Rightarrow> 0 < w
          | Price_Volume_Score w \<Rightarrow> 0 < w | Aroon _ w \<Rightarrow> 0 < w | Regression _ w \<Rightarrow> 0 < w | Efficiency_Ratio w \<Rightarrow> 0 < w
          | Trix w \<Rightarrow> 0 < w)
      | Breakout d \<Rightarrow> (case d of Donchian _ w \<Rightarrow> 0 < w | Bollinger _ w \<Rightarrow> 0 < w | Price_Zscore w \<Rightarrow> 0 < w | _ \<Rightarrow> True)
      | Flow d \<Rightarrow> (case d of Stoch_K w \<Rightarrow> 0 < w | Williams_R w \<Rightarrow> 0 < w | Cci w \<Rightarrow> 0 < w | Mfi w \<Rightarrow> 0 < w
          | Close_To_Vwap w \<Rightarrow> 0 < w | Cmf w \<Rightarrow> 0 < w | Force_Index w \<Rightarrow> 0 < w | Eom w \<Rightarrow> 0 < w | Ulcer_Index w \<Rightarrow> 0 < w
          | Drawdown w \<Rightarrow> 0 < w | _ \<Rightarrow> True)
      | Composed d \<Rightarrow> (case d of Obv_Slope w \<Rightarrow> 0 < w | Adl_Slope w \<Rightarrow> 0 < w | Atr_Trailing_Floor w \<Rightarrow> 0 < w
          | Drawdown_Recovery digits \<Rightarrow> py_isdigit digits \<and> digits_value digits \<noteq> 0 | _ \<Rightarrow> True)
      | Cached d \<Rightarrow> (case d of Directional _ w \<Rightarrow> 0 < w | Keltner _ w \<Rightarrow> 0 < w | Atr_Expansion w \<Rightarrow> 0 < w | _ \<Rightarrow> True))"

definition pattern_ok :: "pattern \<Rightarrow> bool" where
  "pattern_ok p \<longleftrightarrow> (\<forall>name e. p name = Some e \<longrightarrow> entry_ok e)"

lemma pattern_ok_simps:
  "entry_ok e \<Longrightarrow> pattern_ok (named n e)" "(\<And>w. 0 < w \<Longrightarrow> entry_ok (f w)) \<Longrightarrow> pattern_ok (numbered pre suf f)"
  "(\<And>w. 0 < w \<Longrightarrow> entry_ok (f w)) \<Longrightarrow> pattern_ok (optional_underscore pre f)" "pattern_ok drawdown_recovery_name"
  by (auto simp: pattern_ok_def named_def numbered_def optional_underscore_def drawdown_recovery_name_def entry_ok_def
      split: option.splits if_splits)

lemma catalog_entry_ok: "catalog_entry name = Some e \<Longrightarrow> entry_ok e"
proof -
  have "first_match ps name = Some e \<Longrightarrow> list_all pattern_ok ps \<Longrightarrow> entry_ok e" for ps
    by (induction ps) (auto simp: pattern_ok_def split: option.splits)
  moreover have "list_all pattern_ok catalog_patterns"
    unfolding catalog_patterns_def by (simp add: pattern_ok_simps entry_ok_def)
  ultimately show "catalog_entry name = Some e \<Longrightarrow> entry_ok e" by (simp add: catalog_entry_def)
qed

text \<open>The metrics an entry looks up before it computes.\<close>

definition volume_index_name :: "bool \<Rightarrow> string" where
  "volume_index_name positive = (if positive then ''pvi'' else ''nvi'')"

definition composed_inputs :: "composed_entry \<Rightarrow> string list" where
  "composed_inputs e =
     (case e of
        Trix_Signal_9 \<Rightarrow> [''trix_15'']
      | Atr_Trailing_Floor w \<Rightarrow> [''donchian_high_'' @ show_nat w]
      | Squeeze_Breakout \<Rightarrow> [''bollinger_width_20'', ''donchian_high_20'']
      | Gap_Up_Volume_Breakout \<Rightarrow> [''gap_pct'']
      | Range_Expansion_Breakout \<Rightarrow> [''atr_expansion_20'', ''donchian_high_20'']
      | Stoch_D_3 \<Rightarrow> [''stoch_k_14'']
      | Obv_Slope _ \<Rightarrow> [''obv'']
      | Adl_Slope _ \<Rightarrow> [''adl'']
      | Volume_Index_Sma_100 positive \<Rightarrow> [volume_index_name positive]
      | Volume_Index_Trend_Gap positive \<Rightarrow> [volume_index_name positive, volume_index_name positive @ ''_sma_100'']
      | Drawdown_Recovery digits \<Rightarrow> [''drawdown_'' @ digits])"

definition entry_inputs :: "metric_entry \<Rightarrow> string list" where
  "entry_inputs e = (case e of Composed d \<Rightarrow> composed_inputs d | _ \<Rightarrow> [])"

section \<open>The metric cache\<close>

type_synonym metric_cache = "(string, series) dict"

definition setdefault :: "string \<Rightarrow> series \<Rightarrow> metric_cache \<Rightarrow> metric_cache" where
  "setdefault key v c = (case dget c key of Some _ \<Rightarrow> c | None \<Rightarrow> dset key v c)"

text \<open>\<open>_atr\<close>.\<close>

definition atr :: "Store \<Rightarrow> nat \<Rightarrow> metric_cache \<Rightarrow> series \<times> metric_cache" where
  "atr st period c =
     (let key = ''atr_'' @ show_nat period in
      case dget c key of Some v \<Rightarrow> (v, c)
      | None \<Rightarrow> let v = wilder st (true_range st) period in (v, dset key v c))"

text \<open>\<open>_directional_movement\<close>.\<close>

definition movement_name :: "movement \<Rightarrow> nat \<Rightarrow> string" where
  "movement_name m period = (case m of Adx \<Rightarrow> ''adx'' | Plus_DI \<Rightarrow> ''plus_di'' | Minus_DI \<Rightarrow> ''minus_di'') @ ''_'' @ show_nat period"

definition directional_movement :: "Store \<Rightarrow> movement \<Rightarrow> nat \<Rightarrow> metric_cache \<Rightarrow> series \<times> metric_cache" where
  "directional_movement st requested period c =
     (case dget c (movement_name requested period) of Some v \<Rightarrow> (v, c)
      | None \<Rightarrow>
        let (range, c1) = atr st period c;
            plus_di = directional_index st period range True; minus_di = directional_index st period range False;
            average = adx st period range;
            c2 = dset (movement_name Minus_DI period) minus_di (dset (movement_name Plus_DI period) plus_di
                   (dset (movement_name Adx period) average c1))
        in (case requested of Adx \<Rightarrow> average | Plus_DI \<Rightarrow> plus_di | Minus_DI \<Rightarrow> minus_di, c2))"

text \<open>\<open>_macd_series\<close> and \<open>_ppo_series\<close>, given the line and the prefix of the names.\<close>

definition oscillator :: "Store \<Rightarrow> string \<Rightarrow> series \<Rightarrow> line \<Rightarrow> metric_cache \<Rightarrow> series \<times> metric_cache" where
  "oscillator st prefix main requested c =
     (let signal = ema st main 9; histogram = sub_columns main signal
      in (case requested of Line \<Rightarrow> main | Signal \<Rightarrow> signal | Histogram \<Rightarrow> histogram,
          setdefault (prefix @ ''_hist'') histogram (setdefault (prefix @ ''_signal'') signal (setdefault prefix main c))))"

section \<open>Columns\<close>

definition flag_column :: "bool list \<Rightarrow> series" where
  "flag_column bs = map of_bool_float bs"

definition above_column :: "series \<Rightarrow> series \<Rightarrow> bool list" where
  "above_column xs ys = map2 (\<lambda>x y. y < x) xs ys"

definition both :: "bool list \<Rightarrow> bool list \<Rightarrow> bool list" where
  "both xs ys = map2 (\<and>) xs ys"

definition level :: "Store \<Rightarrow> rat \<Rightarrow> series" where
  "level st k = replicate (length (fs_rows st)) (Fin k)"

text \<open>The entries that only compute.\<close>

definition trend_column :: "Numpy \<Rightarrow> Store \<Rightarrow> trend_entry \<Rightarrow> series" where
  "trend_column np st e =
     (let close = fs_close st in
      case e of
        Return w \<Rightarrow> period_return st w
      | Momentum_12_1 \<Rightarrow> skip_month_momentum st
      | Sma w \<Rightarrow> inclusive_rolling st close w np_mean
      | Ema w \<Rightarrow> ema st close w
      | Close_To_High w \<Rightarrow> array_ratio close (inclusive_rolling st close w np_max)
      | Sharpe w \<Rightarrow> return_ratio np st w False
      | Sortino w \<Rightarrow> return_ratio np st w True
      | Return_Vol_Ratio w \<Rightarrow> array_ratio (period_return st w) (realized_volatility np st w)
      | Price_Volume_Score w \<Rightarrow>
          map2 (\<lambda>r v. r * (Fin (1 / 2) + nan_to_num v)) (period_return st w) (volume_ratio st 20)
      | Momentum_Blend \<Rightarrow>
          add_columns (add_columns (scale_column (5 / 10) (period_return st 63)) (scale_column (3 / 10) (period_return st 126)))
            (scale_column (2 / 10) (period_return st 252))
      | Aroon up w \<Rightarrow> aroon st w up
      | Regression kind w \<Rightarrow> regression st close w kind
      | Efficiency_Ratio w \<Rightarrow> efficiency_ratio st w
      | Trix w \<Rightarrow> trix st w)"

definition breakout_column :: "Numpy \<Rightarrow> Store \<Rightarrow> breakout_entry \<Rightarrow> series" where
  "breakout_column np st e =
     (let close = fs_close st; high = fs_high st; low = fs_low st in
      case e of
        Donchian upper w \<Rightarrow>
          (if upper then rolling_from_array st high w np_max True else rolling_from_array st low w np_min True)
      | Bollinger part w \<Rightarrow> bollinger np st w part
      | Nr7_Breakout \<Rightarrow> nr7_breakout st
      | Inside_Bar_Breakout \<Rightarrow> inside_bar_breakout st
      | Outside_Bar_Continuation \<Rightarrow>
          flag_column (both (both (above_column high (shift st high 1)) (above_column (shift st low 1) low))
            (above_column close (fs_open st)))
      | Gap_Pct \<Rightarrow> array_return (fs_open st) (shift st close 1)
      | Price_Zscore w \<Rightarrow>
          array_ratio (sub_columns close (inclusive_rolling st close w np_mean))
            (inclusive_rolling st close w (np_std (np_root np) 0)))"

definition flow_column :: "Numpy \<Rightarrow> Store \<Rightarrow> flow_entry \<Rightarrow> series" where
  "flow_column np st e =
     (let close = fs_close st; high = fs_high st; low = fs_low st; volume = fs_volume st in
      case e of
        Stoch_K w \<Rightarrow> stochastic st w
      | Williams_R w \<Rightarrow> williams_r st w
      | Cci w \<Rightarrow> cci st w
      | Mfi w \<Rightarrow> mfi st w
      | Close_To_Vwap w \<Rightarrow> array_ratio close (vwap st w)
      | Loss_Streak \<Rightarrow> loss_streak st
      | Obv \<Rightarrow> obv st
      | Cmf w \<Rightarrow> cmf st w
      | Adl \<Rightarrow> adl st
      | Volume_Index positive \<Rightarrow> volume_index st positive
      | Force_Index w \<Rightarrow> ema st (mul_columns (sub_columns close (shift st close 1)) volume) w
      | Eom w \<Rightarrow>
          rolling_from_array st
            (array_ratio (mul_columns (sub_columns (midpoint st) (shift st (midpoint st) 1)) (sub_columns high low)) volume)
            w np_mean False
      | Ulcer_Index w \<Rightarrow> ulcer_index np st w
      | Drawdown w \<Rightarrow> array_return close (inclusive_rolling st close w np_max))"

text \<open>The entries that compute from other metrics.\<close>

definition composed_column :: "Store \<Rightarrow> composed_entry \<Rightarrow> series list \<Rightarrow> metric_cache \<Rightarrow> series \<times> metric_cache" where
  "composed_column st e inputs c =
     (let first = inputs ! 0; second = inputs ! 1 in
      case e of
        Trix_Signal_9 \<Rightarrow> (ema st first 9, c)
      | Squeeze_Breakout \<Rightarrow>
          (flag_column (both (above_column (scale_column (6 / 10) (rolling_from_array st first 120 np_mean True)) first)
            (above_column (fs_close st) second)), c)
      | Gap_Up_Volume_Breakout \<Rightarrow>
          (flag_column (both (both (above_column first (level st (2 / 100))) (above_column (fs_close st) (fs_open st)))
            (above_column (volume_ratio st 20) (level st (15 / 10)))), c)
      | Range_Expansion_Breakout \<Rightarrow>
          (let location = array_ratio (sub_columns (fs_close st) (fs_low st)) (sub_columns (fs_high st) (fs_low st))
           in flag_column (both (both (above_column first (level st (15 / 10))) (above_column location (level st (8 / 10))))
                (above_column (fs_close st) second)), c)
      | Stoch_D_3 \<Rightarrow> (rolling_from_array st first 3 np_mean False, c)
      | Obv_Slope w \<Rightarrow> (regression st first w Slope_Raw, c)
      | Adl_Slope w \<Rightarrow> (regression st first w Slope_Raw, c)
      | Volume_Index_Sma_100 _ \<Rightarrow> (rolling_from_array st first 100 np_mean False, c)
      | Volume_Index_Trend_Gap _ \<Rightarrow> (sub_columns first second, c)
      | Drawdown_Recovery _ \<Rightarrow> (array_ratio (period_return st 20) (map np_abs first), c)
      | Atr_Trailing_Floor w \<Rightarrow>
          (let (range, c1) = atr st w c in (sub_columns first (scale_column 3 range), c1)))"

text \<open>The entries that share columns through the cache.\<close>

definition cached_column :: "Store \<Rightarrow> cached_entry \<Rightarrow> metric_cache \<Rightarrow> series \<times> metric_cache" where
  "cached_column st e c =
     (case e of
        Macd part \<Rightarrow> oscillator st ''macd'' (macd_line st) part c
      | Ppo part \<Rightarrow> oscillator st ''ppo'' (ppo_line st (fs_close st)) part c
      | Pvo part \<Rightarrow> oscillator st ''pvo'' (ppo_line st (fs_volume st)) part c
      | Directional requested w \<Rightarrow> directional_movement st requested w c
      | Supertrend_10_3 \<Rightarrow> (let (range, c1) = atr st 10 c in (supertrend_direction st range 3, c1))
      | Keltner upper w \<Rightarrow>
          (let (range, c1) = atr st 10 c
           in (add_columns (ema st (fs_close st) w) (scale_column (if upper then 2 else -2) range), c1))
      | Atr_Expansion w \<Rightarrow> (let (range, c1) = atr st w c in (array_ratio (true_range st) range, c1)))"

definition entry_column :: "Numpy \<Rightarrow> Store \<Rightarrow> metric_entry \<Rightarrow> series list \<Rightarrow> metric_cache \<Rightarrow> series \<times> metric_cache" where
  "entry_column np st e inputs c =
     (case e of
        Trend d \<Rightarrow> (trend_column np st d, c)
      | Breakout d \<Rightarrow> (breakout_column np st d, c)
      | Flow d \<Rightarrow> (flow_column np st d, c)
      | Composed d \<Rightarrow> composed_column st d inputs c
      | Cached d \<Rightarrow> cached_column st d c)"

end
