(* ===== verification/Fs_Metrics.thy ===== *)
theory Fs_Metrics
  imports Fs_Catalog
begin

text \<open>
  \<open>_metric_series\<close> and \<open>_rolling_metric\<close> of \<^verbatim>\<open>nodes/backtest_features.py\<close>: every lookup goes
  through the caches of the store, so it takes a cache and returns one.  The recursion ends because a
  ratio, a percentile and a composed entry look up metrics of a smaller rank (\<open>rank\<close>).
\<close>

section \<open>Caches\<close>

record Cache =
  ch_metrics :: metric_cache
  ch_rolling :: "(string \<times> nat \<times> aggregate, series) dict"
  ch_conditions :: "(Condition, bool list) dict"

definition empty_cache :: Cache where
  "empty_cache = \<lparr>ch_metrics = [], ch_rolling = [], ch_conditions = []\<rparr>"

type_synonym 'a lookup = "Cache \<Rightarrow> 'a \<times> Cache"

definition and_then :: "'a lookup \<Rightarrow> ('a \<Rightarrow> 'b lookup) \<Rightarrow> 'b lookup" where
  "and_then m k c = (case m c of (x, c') \<Rightarrow> k x c')"

definition remember :: "string \<Rightarrow> series \<Rightarrow> series lookup" where
  "remember key v c = (v, c\<lparr>ch_metrics := dset key v (ch_metrics c)\<rparr>)"

fun lookup_all :: "('k \<Rightarrow> 'a lookup) \<Rightarrow> 'k list \<Rightarrow> 'a list lookup" where
  "lookup_all f [] c = ([], c)"
| "lookup_all f (n # ns) c = (case f n c of (v, c1) \<Rightarrow> case lookup_all f ns c1 of (vs, c2) \<Rightarrow> (v # vs, c2))"

lemma and_then_cong [fundef_cong]:
  "c = c' \<Longrightarrow> (\<And>c. m c = m' c) \<Longrightarrow> (\<And>x c. k x c = k' x c) \<Longrightarrow> and_then m k c = and_then m' k' c'"
  by (simp add: and_then_def)

lemma lookup_all_cong [fundef_cong]:
  "ns = ns' \<Longrightarrow> c = c' \<Longrightarrow> (\<And>n c. n \<in> set ns' \<Longrightarrow> f n c = f' n c) \<Longrightarrow> lookup_all f ns c = lookup_all f' ns' c'"
  by (induction f ns c arbitrary: ns' c' rule: lookup_all.induct) (auto split: prod.split)

text \<open>\<open>_rolling_metric\<close>, given the lookup of a metric.\<close>

definition rolling_lookup :: "(string \<Rightarrow> series lookup) \<Rightarrow> Store \<Rightarrow> string \<Rightarrow> nat \<Rightarrow> aggregate \<Rightarrow> series lookup" where
  "rolling_lookup metric_of st metric window agg c =
     (let key = (normal_name metric, window, agg) in
      case dget (ch_rolling c) key of Some v \<Rightarrow> (v, c)
      | None \<Rightarrow>
          and_then (metric_of metric) (\<lambda>source c1.
            let v = rolling_column st source window agg in (v, c1\<lparr>ch_rolling := dset key v (ch_rolling c1)\<rparr>)) c)"

lemma rolling_lookup_cong [fundef_cong]:
  "st = st' \<Longrightarrow> metric = metric' \<Longrightarrow> window = window' \<Longrightarrow> agg = agg' \<Longrightarrow> c = c' \<Longrightarrow> (\<And>c. f metric' c = f' metric' c)
   \<Longrightarrow> rolling_lookup f st metric window agg c = rolling_lookup f' st' metric' window' agg' c'"
proof -
  assume "\<And>c. f metric' c = f' metric' c" and eqs: "st = st'" "metric = metric'" "window = window'" "agg = agg'" "c = c'"
  then have "f metric' = f' metric'" by auto
  note same = this
  show ?thesis unfolding rolling_lookup_def eqs same by (rule refl)
qed

section \<open>Metric lookup\<close>

definition bar_column :: "Store \<Rightarrow> string \<Rightarrow> series option" where
  "bar_column st name =
     (if name = ''price'' \<or> name = ''close'' then Some (fs_close st) else if name = ''open'' then Some (fs_open st)
      else if name = ''high'' then Some (fs_high st) else if name = ''low'' then Some (fs_low st)
      else if name = ''volume'' then Some (fs_volume st) else None)"

definition rsi_metric :: "Store \<Rightarrow> series" where
  "rsi_metric st = map2 (\<lambda>given computed. if isfinite given then given else computed) (fs_rsi st) (rsi_series st 14)"

definition composed_rank :: "composed_entry \<Rightarrow> nat" where
  "composed_rank e = (case e of Volume_Index_Trend_Gap _ \<Rightarrow> 2 | _ \<Rightarrow> 1)"

definition rank :: "string \<Rightarrow> nat" where
  "rank metric =
     (if derived_ratio metric \<noteq> None then 2
      else case derived_series_spec (canonical_metric metric) of
        Some (Percentile _) \<Rightarrow> 10 + length (canonical_metric metric)
      | _ \<Rightarrow> (case catalog_entry (canonical_metric metric) of Some (Composed e) \<Rightarrow> composed_rank e | _ \<Rightarrow> 0))"

text \<open>What a ratio and a composed entry look up has a smaller rank.\<close>

lemmas entry_simps = catalog_entry_def catalog_patterns_def named_def numbered_def optional_underscore_def
  drawdown_recovery_name_def number_between_def strip_suffix_def number_text_def

lemmas number_simps = py_isdigit_def digits_value_def digit_char_def

lemmas name_simps = canonical_metric_def percent_scaled_def metric_aliases_def derived_ratio_def derived_ratios_def
  derived_series_spec_def dget_def DEBT_RATIO_KOREAN_def number_between_def strip_suffix_def number_text_def

lemmas normal_simps = normal_name_def py_lower_def py_strip_def is_space_def lower_char_def

lemma rank_zero:
  assumes "\<nexists>e. catalog_entry m = Some (Composed e)" and "canonical_metric m = m" and "derived_ratio m = None"
    and "derived_series_spec m = None"
  shows "rank m = 0"
  using assms by (auto simp: rank_def split: option.split metric_entry.split)

lemma rank_bars: "rank ''volume'' = 0" "rank ''close'' = 0"
  by (simp_all add: rank_def name_simps normal_simps, simp_all add: entry_simps number_simps)

lemma rank_averages: "rank ''sma20'' = 0" "rank ''sma200'' = 0"
  by (simp_all add: rank_def name_simps normal_simps, simp_all add: entry_simps number_simps)

lemma rank_catalog:
  "rank ''trix_15'' = 0" "rank ''bollinger_width_20'' = 0" "rank ''donchian_high_20'' = 0" "rank ''gap_pct'' = 0"
  "rank ''atr_expansion_20'' = 0" "rank ''stoch_k_14'' = 0" "rank ''obv'' = 0" "rank ''adl'' = 0"
  "rank ''pvi'' = 0" "rank ''nvi'' = 0" "rank ''pvi_sma_100'' = 1" "rank ''nvi_sma_100'' = 1"
  by (simp_all add: rank_def name_simps normal_simps, simp_all add: entry_simps number_simps composed_rank_def)

lemma digits_name:
  assumes "py_isdigit d" and "pre \<noteq> []" and "\<not> is_space (hd pre)" and "py_lower pre = pre"
  shows "normal_name (pre @ d) = pre @ d" and "strip_suffix ''_percentile'' (pre @ d) = None"
proof -
  have digit: "lower_char c = c \<and> \<not> is_space c \<and> c \<noteq> CHR ''e''" if "digit_char c" for c
    using that by (auto simp: digit_char_def lower_char_def is_space_def Let_def)
  obtain c cs where d: "rev d = c # cs" using assms(1) by (cases "rev d") (simp_all add: py_isdigit_def)
  then have c: "digit_char c" "last d = c" using assms(1) by (auto simp: py_isdigit_def list_all_iff rev_eq_Cons_iff)
  have "\<not> is_space (last (pre @ d))" using assms(1) c digit[OF c(1)] by (auto simp: py_isdigit_def)
  then have "py_strip (pre @ d) = pre @ d" using assms(2,3) by (intro py_strip_id) simp
  moreover have "map lower_char d = d" using assms(1) digit by (simp add: py_isdigit_def list_all_iff map_idI)
  ultimately show "normal_name (pre @ d) = pre @ d" using assms(4) by (simp add: normal_name_def py_lower_def)
  show "strip_suffix ''_percentile'' (pre @ d) = None" using d digit[OF c(1)] by (auto simp: strip_suffix_def)
qed

lemma rank_numbered:
  assumes d: "py_isdigit d"
  shows "rank (''donchian_high_'' @ d) = 0" "rank (''drawdown_'' @ d) = 0"
proof -
  have name: "normal_name (''donchian_high_'' @ d) = ''donchian_high_'' @ d" "strip_suffix ''_percentile'' (''donchian_high_'' @ d) = None"
    "normal_name (''drawdown_'' @ d) = ''drawdown_'' @ d" "strip_suffix ''_percentile'' (''drawdown_'' @ d) = None"
    by (rule digits_name[OF d]; simp add: is_space_def py_lower_def lower_char_def)+
  have "strip_prefix ''recovery_'' d = None" using d by (cases d) (auto simp: py_isdigit_def digit_char_def Let_def)
  note catalog = entry_simps d this
  have "\<nexists>e. catalog_entry (''donchian_high_'' @ d) = Some (Composed e)" "\<nexists>e. catalog_entry (''drawdown_'' @ d) = Some (Composed e)"
    by (cases "digits_value d = 0"; simp add: catalog)+
  moreover have "canonical_metric (''donchian_high_'' @ d) = ''donchian_high_'' @ d" "derived_ratio (''donchian_high_'' @ d) = None"
    "derived_series_spec (''donchian_high_'' @ d) = None"
    using name(1,2) by (simp_all add: canonical_metric_def percent_scaled_def metric_aliases_def derived_ratio_def
        derived_ratios_def derived_series_spec_def dget_def DEBT_RATIO_KOREAN_def number_between_def Let_def)
  moreover have "canonical_metric (''drawdown_'' @ d) = ''drawdown_'' @ d" "derived_ratio (''drawdown_'' @ d) = None"
    "derived_series_spec (''drawdown_'' @ d) = None"
    using name(3,4) by (simp_all add: canonical_metric_def percent_scaled_def metric_aliases_def derived_ratio_def
        derived_ratios_def derived_series_spec_def dget_def DEBT_RATIO_KOREAN_def number_between_def Let_def)
  ultimately show "rank (''donchian_high_'' @ d) = 0" "rank (''drawdown_'' @ d) = 0"
    by - (rule rank_zero; assumption)+
qed

lemma ratio_inputs_rank:
  "derived_ratio metric = Some (numerator, denominator, window) \<Longrightarrow> rank numerator < rank metric \<and> rank denominator < rank metric"
proof -
  assume d: "derived_ratio metric = Some (numerator, denominator, window)"
  then have "numerator \<in> {''volume'', ''close''}" "denominator \<in> {''volume'', ''sma20'', ''sma200''}"
    by (auto simp: derived_ratio_def derived_ratios_def dget_def split: if_splits)
  moreover have "rank metric = 2" using d by (simp add: rank_def)
  ultimately show ?thesis using rank_bars rank_averages by auto
qed

lemma composed_inputs_rank:
  assumes "entry_ok (Composed d)" and "n \<in> set (composed_inputs d)"
  shows "rank n < composed_rank d"
  using assms rank_catalog rank_numbered show_nat_digits
  by (cases d) (auto simp: composed_inputs_def composed_rank_def volume_index_name_def entry_ok_def split: if_splits)

text \<open>The base of a percentile is shorter, even after its alias is resolved.\<close>

definition alias_targets :: "string list" where
  "alias_targets = map snd metric_aliases @ map (\<lambda>(k, m, f). m) percent_scaled"

lemma canonical_cases: "canonical_metric s = normal_name s \<or> canonical_metric s \<in> set alias_targets"
  unfolding canonical_metric_def alias_targets_def Let_def by (auto split: option.split dest!: dget_in_set; force)

lemma alias_target_plain: "t \<in> set alias_targets \<Longrightarrow> normal_name t = t \<and> derived_series_spec t = None"
proof -
  assume t: "t \<in> set alias_targets"
  have "list_all (\<lambda>t. normal_name t = t \<and> derived_series_spec t = None) alias_targets"
    by (simp add: alias_targets_def metric_aliases_def percent_scaled_def normal_simps name_simps)
  with t show ?thesis by (simp add: list_all_iff)
qed

lemma percentile_rank:
  assumes "derived_series_spec (canonical_metric metric) = Some (Percentile base)" and "derived_ratio metric = None"
  shows "rank base < rank metric"
proof -
  let ?name = "canonical_metric metric"
  obtain m where m: "base = canonical_metric m" "length m < length ?name"
  proof -
    from assms(1) obtain m where "strip_suffix ''_percentile'' (normal_name ?name) = Some m" "base = canonical_metric m"
      by (auto simp: derived_series_spec_def Let_def split: option.splits if_splits)
    then show thesis using that length_strip_suffix[of "''_percentile''" "normal_name ?name" m] length_normal_name[of ?name] by force
  qed
  have "rank metric = 10 + length ?name" using assms by (simp add: rank_def)
  moreover have "rank base \<le> 2 \<or> rank base \<le> 10 + length m"
  proof (cases "\<exists>b. derived_series_spec (canonical_metric base) = Some (Percentile b) \<and> derived_ratio base = None")
    case False
    then show ?thesis
      by (auto simp: rank_def composed_rank_def split: option.split derived_series.split metric_entry.split composed_entry.split)
  next
    case True
    then have "canonical_metric base \<notin> set alias_targets" using alias_target_plain by fastforce
    then have "canonical_metric base = normal_name base" using canonical_cases by blast
    moreover from this have "base \<notin> set alias_targets" using alias_target_plain \<open>canonical_metric base \<notin> set alias_targets\<close> by metis
    then have "base = normal_name m" using canonical_cases[of m] m by auto
    ultimately have "length (canonical_metric base) \<le> length m" using length_normal_name[of base] length_normal_name[of m] by simp
    with True show ?thesis by (auto simp: rank_def)
  qed
  ultimately show ?thesis using m(2) by linarith
qed

lemma entry_inputs_rank:
  assumes "catalog_entry (canonical_metric metric) = Some e" and "n \<in> set (entry_inputs e)"
    and "derived_ratio metric = None" and "derived_series_spec (canonical_metric metric) = None"
  shows "rank n < rank metric"
  using assms composed_inputs_rank catalog_entry_ok by (cases e) (auto simp: rank_def entry_inputs_def)

function metric_series :: "Numpy \<Rightarrow> Store \<Rightarrow> string \<Rightarrow> series lookup" where
  "metric_series np st metric c =
     (let normalized = canonical_metric metric in
      case dget (ch_metrics c) normalized of Some v \<Rightarrow> (v, c)
      | None \<Rightarrow>
     (case bar_column st normalized of Some v \<Rightarrow> (v, c)
      | None \<Rightarrow>
      if normalized = ''rsi'' then remember normalized (rsi_metric st) c
      else (case derived_ratio metric of
        Some (numerator, denominator, window) \<Rightarrow>
          and_then (metric_series np st numerator) (\<lambda>n.
          and_then (\<lambda>c. if window \<noteq> 0 then rolling_lookup (metric_series np st) st denominator window Agg_Avg c
                    else metric_series np st denominator c) (\<lambda>d.
          remember normalized (ratio_series n d))) c
      | None \<Rightarrow> (case derived_series_spec normalized of
          Some (Realized_Volatility w) \<Rightarrow> remember normalized (realized_volatility_series np st w) c
        | Some (Relative_Strength w) \<Rightarrow> remember normalized (relative_strength_series st w) c
        | Some (Percentile base) \<Rightarrow>
            and_then (metric_series np st base) (\<lambda>v. remember normalized (percentile_series np st v)) c
        | None \<Rightarrow> (case catalog_entry normalized of
            Some e \<Rightarrow>
              and_then (lookup_all (metric_series np st) (entry_inputs e)) (\<lambda>inputs c1.
                case entry_column np st e inputs (ch_metrics c1) of (computed, metrics) \<Rightarrow>
                  remember normalized (overridden (row_metric_series st metric normalized) computed) (c1\<lparr>ch_metrics := metrics\<rparr>)) c
          | None \<Rightarrow> remember normalized (row_metric_series st metric normalized) c)))))"
  by pat_completeness auto
termination
  by (relation "measure (\<lambda>(np, st, metric, c). rank metric)")
    (auto simp: percentile_rank entry_inputs_rank dest: ratio_inputs_rank)

declare metric_series.simps [simp del]

end
