(* ===== verification/Fs_Cut.thy ===== *)
theory Fs_Cut
  imports Fs_Metrics
begin

text \<open>
  Looking a metric up commutes with cutting the history at the end of a session: on the cut store and
  the cut cache, a lookup returns the cut column and leaves the cut of the cache it would have left
  (\<open>metric_series_cut\<close>).  Columns read from the cache are handled by the rules for columns computed
  from the store, because every column is some store's column (\<open>padded\<close>).
\<close>

section \<open>Columns of the catalog are point in time\<close>

lemma pit_flags [pit_intros]:
  assumes "point_in_time s" and "point_in_time t"
  shows "point_in_time (\<lambda>st. above_column (s st) (t st))"
  unfolding above_column_def by (intro pit_intros assms)

lemma pit_both [pit_intros]: "point_in_time s \<Longrightarrow> point_in_time t \<Longrightarrow> point_in_time (\<lambda>st. both (s st) (t st))"
  unfolding both_def by (intro pit_intros)

lemma pit_flag_column [pit_intros]: "point_in_time s \<Longrightarrow> point_in_time (\<lambda>st. flag_column (s st))"
  unfolding flag_column_def by (intro pit_intros)

lemma pit_level [pit_intros]: "point_in_time (\<lambda>st. level st k)"
  unfolding level_def by (intro pit_intros)

lemma pit_rsi [pit_intros]: "point_in_time (\<lambda>st. rsi_series st period)" "point_in_time rsi_metric"
proof -
  show "point_in_time (\<lambda>st. rsi_series st period)" for period unfolding rsi_series_def by (intro pit_intros causal_intros)
  then show "point_in_time rsi_metric" unfolding rsi_metric_def by (intro pit_intros)
qed

lemma pit_trend_column: "entry_ok (Trend e) \<Longrightarrow> point_in_time (\<lambda>st. trend_column np st e)"
  unfolding trend_column_def Let_def by (cases e) (simp_all add: entry_ok_def, (intro pit_intros; simp)+)

lemma pit_breakout_column: "entry_ok (Breakout e) \<Longrightarrow> point_in_time (\<lambda>st. breakout_column np st e)"
proof (cases e)
  case (Donchian upper w)
  assume "entry_ok (Breakout e)"
  then have w: "0 < w" by (simp add: Donchian entry_ok_def)
  show ?thesis unfolding breakout_column_def Let_def Donchian by (cases upper) (simp_all, (intro pit_intros w)+)
qed (unfold breakout_column_def Let_def, simp_all add: entry_ok_def, (intro pit_intros; simp)+)

lemma pit_flow_column: "entry_ok (Flow e) \<Longrightarrow> point_in_time (\<lambda>st. flow_column np st e)"
  unfolding flow_column_def Let_def by (cases e) (simp_all add: entry_ok_def, (intro pit_intros; simp)+)

section \<open>Columns of a cache\<close>

definition cut_at :: "Store \<Rightarrow> nat \<Rightarrow> bool" where
  "cut_at st n \<longleftrightarrow> store_ok st \<and> session_end (fs_dates st) n"

definition column_ok :: "Store \<Rightarrow> 'a list \<Rightarrow> bool" where
  "column_ok st v \<longleftrightarrow> length v = length (fs_rows st)"

definition padded :: "series \<Rightarrow> Store \<Rightarrow> series" where
  "padded x st = take (length (fs_rows st)) (x @ replicate (length (fs_rows st)) NaN)"

lemma pit_padded: "point_in_time (padded x)"
  by (auto simp: point_in_time_def padded_def min_def store_ok_dates dest: session_end_le)

lemma padded_cut:
  fixes x :: series
  assumes "cut_at st n" and "column_ok st x"
  shows "padded x st = x" and "padded x (cut_store n st) = take n x"
proof -
  show self: "padded x st = x" using assms(2) by (simp add: padded_def column_ok_def)
  show "padded x (cut_store n st) = take n x"
    using pit_cut[OF pit_padded, of st n x] assms(1) self by (simp add: cut_at_def)
qed

lemma pit_column: "point_in_time s \<Longrightarrow> cut_at st n \<Longrightarrow> s (cut_store n st) = take n (s st) \<and> column_ok st (s st)"
  by (simp add: cut_at_def pit_cut pit_length column_ok_def)

lemma pit_apply:
  fixes x :: series
  assumes "\<And>s. point_in_time s \<Longrightarrow> point_in_time (\<lambda>st. F st (s st))" and "cut_at st n" and "column_ok st x"
  shows "F (cut_store n st) (take n x) = take n (F st x) \<and> column_ok st (F st x)"
  using pit_column[OF assms(1)[OF pit_padded[of x]] assms(2)] padded_cut[OF assms(2,3)] by simp

lemma pit_apply2:
  fixes x y :: series
  assumes "\<And>s t. point_in_time s \<Longrightarrow> point_in_time t \<Longrightarrow> point_in_time (\<lambda>st. F st (s st) (t st))"
    and "cut_at st n" and "column_ok st x" and "column_ok st y"
  shows "F (cut_store n st) (take n x) (take n y) = take n (F st x y) \<and> column_ok st (F st x y)"
  using pit_column[OF assms(1)[OF pit_padded[of x] pit_padded[of y]] assms(2)] padded_cut[OF assms(2,3)] padded_cut[OF assms(2,4)] by simp

definition cut_columns :: "nat \<Rightarrow> ('k, 'a list) dict \<Rightarrow> ('k, 'a list) dict" where
  "cut_columns n d = map (\<lambda>(k, v). (k, take n v)) d"

definition columns_ok :: "Store \<Rightarrow> ('k, 'a list) dict \<Rightarrow> bool" where
  "columns_ok st d \<longleftrightarrow> (\<forall>(k, v) \<in> set d. column_ok st v)"

lemma dget_cut_columns: "dget (cut_columns n d) k = map_option (take n) (dget d k)"
  by (induction d) (auto simp: cut_columns_def dget_def)

lemma dset_cut_columns: "dset k (take n v) (cut_columns n d) = cut_columns n (dset k v d)"
  by (induction d) (auto simp: cut_columns_def dset_def)

lemma columns_ok_dget: "columns_ok st d \<Longrightarrow> dget d k = Some v \<Longrightarrow> column_ok st v"
  by (auto simp: columns_ok_def dest: dget_in_set)

lemma columns_ok_dset: "columns_ok st d \<Longrightarrow> column_ok st v \<Longrightarrow> columns_ok st (dset k v d)"
  using set_dset_subset[of k v d] by (fastforce simp: columns_ok_def)

section \<open>Catalog entries on a cut cache\<close>

text \<open>The cut of a lookup's result, and what makes a result well formed.\<close>

definition cut_result :: "nat \<Rightarrow> series \<times> metric_cache \<Rightarrow> series \<times> metric_cache" where
  "cut_result n r = (take n (fst r), cut_columns n (snd r))"

definition result_ok :: "Store \<Rightarrow> series \<times> metric_cache \<Rightarrow> bool" where
  "result_ok st r \<longleftrightarrow> column_ok st (fst r) \<and> columns_ok st (snd r)"

lemma setdefault_cut: "setdefault k (take n v) (cut_columns n c) = cut_columns n (setdefault k v c)"
  by (simp add: setdefault_def dget_cut_columns dset_cut_columns split: option.split)

lemma setdefault_ok: "columns_ok st c \<Longrightarrow> column_ok st v \<Longrightarrow> columns_ok st (setdefault k v c)"
  by (simp add: setdefault_def columns_ok_dset split: option.split)

lemma atr_cut:
  assumes "cut_at st n" and "columns_ok st c" and "0 < period"
  shows "atr (cut_store n st) period (cut_columns n c) = cut_result n (atr st period c)" and "result_ok st (atr st period c)"
proof -
  have "point_in_time (\<lambda>st. wilder st (true_range st) period)" by (intro pit_intros assms)
  note column = pit_column[OF this assms(1)]
  show "atr (cut_store n st) period (cut_columns n c) = cut_result n (atr st period c)"
    using column by (simp add: atr_def Let_def dget_cut_columns dset_cut_columns cut_result_def split: option.split)
  show "result_ok st (atr st period c)"
    using column assms(2)
    by (auto simp: atr_def Let_def result_ok_def columns_ok_dset columns_ok_dget split: option.split)
qed

lemma directional_movement_cut:
  assumes "cut_at st n" and "columns_ok st c" and "0 < period"
  shows "directional_movement (cut_store n st) m period (cut_columns n c) = cut_result n (directional_movement st m period c)
    \<and> result_ok st (directional_movement st m period c)"
proof -
  obtain tr c1 where r: "atr st period c = (tr, c1)" by fastforce
  note atr = atr_cut[OF assms, unfolded r cut_result_def result_ok_def fst_conv snd_conv]
  have di: "directional_index (cut_store n st) period (take n tr) b = take n (directional_index st period tr b)
      \<and> column_ok st (directional_index st period tr b)" for b
    using atr(2) by (intro pit_apply[of "\<lambda>st x. directional_index st period x b"] assms) (auto intro!: pit_intros assms)
  have ax: "adx (cut_store n st) period (take n tr) = take n (adx st period tr) \<and> column_ok st (adx st period tr)"
    using atr(2) by (intro pit_apply[of "\<lambda>st x. adx st period x"] assms) (auto intro!: pit_intros assms)
  show ?thesis
    using atr di ax assms(2)
    by (cases m) (simp_all add: directional_movement_def r Let_def dget_cut_columns dset_cut_columns cut_result_def result_ok_def
        columns_ok_dset columns_ok_dget split: option.split)
qed

lemma oscillator_cut:
  assumes "cut_at st n" and "columns_ok st c" and "column_ok st main"
  shows "oscillator (cut_store n st) prefix (take n main) part (cut_columns n c) = cut_result n (oscillator st prefix main part c)
    \<and> result_ok st (oscillator st prefix main part c)"
proof -
  have "ema (cut_store n st) (take n main) 9 = take n (ema st main 9) \<and> column_ok st (ema st main 9)"
    by (rule pit_apply[of "\<lambda>st x. ema st x 9"]) (auto intro!: pit_intros assms)
  moreover have "sub_columns (take n main) (take n (ema st main 9)) = take n (sub_columns main (ema st main 9))"
    by (simp add: sub_columns_def take_map take_zip)
  moreover have "column_ok st (ema st main 9) \<Longrightarrow> column_ok st (sub_columns main (ema st main 9))"
    using assms(3) by (simp add: column_ok_def sub_columns_def)
  ultimately show ?thesis
    using assms by (cases part) (simp_all add: oscillator_def Let_def setdefault_cut setdefault_ok cut_result_def result_ok_def)
qed

lemma atr_based_cut:
  assumes "cut_at st n" and "columns_ok st c" and "0 < period"
    and F: "\<And>s. point_in_time s \<Longrightarrow> point_in_time (\<lambda>st. F st (s st))"
  shows "(case atr (cut_store n st) period (cut_columns n c) of (tr, c1) \<Rightarrow> (F (cut_store n st) tr, c1))
      = cut_result n (case atr st period c of (tr, c1) \<Rightarrow> (F st tr, c1))
    \<and> result_ok st (case atr st period c of (tr, c1) \<Rightarrow> (F st tr, c1))"
proof -
  obtain tr c1 where r: "atr st period c = (tr, c1)" by fastforce
  note atr = atr_cut[OF assms(1-3), unfolded r cut_result_def result_ok_def fst_conv snd_conv]
  then have "F (cut_store n st) (take n tr) = take n (F st tr) \<and> column_ok st (F st tr)"
    by (intro pit_apply[OF F assms(1)]) auto
  with atr show ?thesis by (simp add: r cut_result_def result_ok_def)
qed

lemma cached_column_cut:
  assumes cut: "cut_at st n" and c: "columns_ok st c" and ok: "entry_ok (Cached e)"
  shows "cached_column (cut_store n st) e (cut_columns n c) = cut_result n (cached_column st e c)
    \<and> result_ok st (cached_column st e c)"
proof (cases e)
  case (Macd part)
  have "point_in_time macd_line" by (intro pit_intros)
  from pit_column[OF this cut] show ?thesis using oscillator_cut[OF cut c] by (simp add: Macd cached_column_def)
next
  case (Ppo part)
  have "point_in_time (\<lambda>st. ppo_line st (fs_close st))" by (intro pit_intros)
  from pit_column[OF this cut] show ?thesis using oscillator_cut[OF cut c] by (simp add: Ppo cached_column_def)
next
  case (Pvo part)
  have "point_in_time (\<lambda>st. ppo_line st (fs_volume st))" by (intro pit_intros)
  from pit_column[OF this cut] show ?thesis using oscillator_cut[OF cut c] by (simp add: Pvo cached_column_def)
next
  case (Directional m w)
  then show ?thesis using directional_movement_cut[OF cut c] ok by (simp add: cached_column_def entry_ok_def)
next
  case Supertrend_10_3
  have "point_in_time (\<lambda>st. supertrend_direction st (s st) 3)" if "point_in_time s" for s by (intro pit_intros that)
  then show ?thesis using atr_based_cut[OF cut c, of 10 "\<lambda>st x. supertrend_direction st x 3"]
    by (simp add: Supertrend_10_3 cached_column_def)
next
  case (Keltner upper w)
  then have "0 < w" using ok by (simp add: entry_ok_def)
  then have "point_in_time (\<lambda>st. add_columns (ema st (fs_close st) w) (scale_column k (s st)))" if "point_in_time s" for s k
    by (intro pit_intros that)
  then show ?thesis
    using atr_based_cut[OF cut c, of 10 "\<lambda>st x. add_columns (ema st (fs_close st) w) (scale_column (if upper then 2 else -2) x)"]
    by (simp add: Keltner cached_column_def)
next
  case (Atr_Expansion w)
  have "point_in_time (\<lambda>st. array_ratio (true_range st) (s st))" if "point_in_time s" for s by (intro pit_intros that)
  then show ?thesis using atr_based_cut[OF cut c, of w "\<lambda>st x. array_ratio (true_range st) x"] ok
    by (simp add: Atr_Expansion cached_column_def entry_ok_def)
qed

text \<open>A column computed from one or two looked-up columns.\<close>

lemma one_input_cut:
  fixes x :: series
  assumes "cut_at st n" and "columns_ok st c" and "column_ok st x"
    and "\<And>s. point_in_time s \<Longrightarrow> point_in_time (\<lambda>st. F st (s st))"
  shows "(F (cut_store n st) (take n x), cut_columns n c) = cut_result n (F st x, c) \<and> result_ok st (F st x, c)"
proof -
  have "F (cut_store n st) (take n x) = take n (F st x) \<and> column_ok st (F st x)"
    by (rule pit_apply[OF _ assms(1,3)]) (rule assms(4))
  then show ?thesis using assms(2) by (simp add: cut_result_def result_ok_def)
qed

lemma two_inputs_cut:
  fixes x y :: series
  assumes "cut_at st n" and "columns_ok st c" and "column_ok st x" and "column_ok st y"
    and "\<And>s t. point_in_time s \<Longrightarrow> point_in_time t \<Longrightarrow> point_in_time (\<lambda>st. F st (s st) (t st))"
  shows "(F (cut_store n st) (take n x) (take n y), cut_columns n c) = cut_result n (F st x y, c) \<and> result_ok st (F st x y, c)"
proof -
  have "F (cut_store n st) (take n x) (take n y) = take n (F st x y) \<and> column_ok st (F st x y)"
    by (rule pit_apply2[OF _ assms(1,3,4)]) (rule assms(5))
  then show ?thesis using assms(2) by (simp add: cut_result_def result_ok_def)
qed

lemma composed_column_cut:
  assumes cut: "cut_at st n" and c: "columns_ok st c" and ok: "entry_ok (Composed e)"
    and inputs: "list_all (column_ok st) inputs" "length inputs = length (composed_inputs e)"
  shows "composed_column (cut_store n st) e (map (take n) inputs) (cut_columns n c) = cut_result n (composed_column st e inputs c)
    \<and> result_ok st (composed_column st e inputs c)"
proof -
  have one: "\<exists>x. inputs = [x] \<and> column_ok st x" if "length (composed_inputs e) = 1"
    using that inputs by (cases inputs) auto
  have two: "\<exists>x y. inputs = [x, y] \<and> column_ok st x \<and> column_ok st y" if "length (composed_inputs e) = 2"
    using that inputs by (cases inputs; cases "tl inputs") auto
  show ?thesis
  proof (cases e)
    case Trix_Signal_9
    let ?F = "\<lambda>st x. ema st x 9"
    have col: "composed_column st' e [x] c' = (?F st' x, c')" for st' x c' by (simp add: Trix_Signal_9 composed_column_def)
    have pit: "point_in_time (\<lambda>st. ?F st (s st))" if "point_in_time s" for s by (intro pit_intros that; simp)
    obtain x where x: "inputs = [x]" "column_ok st x" using one by (auto simp: Trix_Signal_9 composed_inputs_def)
    show ?thesis unfolding x(1) list.map col by (rule one_input_cut[where F = ?F, OF cut c x(2) pit])
  next
    case Squeeze_Breakout
    let ?F = "\<lambda>st x y. flag_column (both (above_column (scale_column (6 / 10) (rolling_from_array st x 120 np_mean True)) x)
        (above_column (fs_close st) y))"
    have col: "composed_column st' e [x, y] c' = (?F st' x y, c')" for st' x y c' by (simp add: Squeeze_Breakout composed_column_def)
    have pit: "point_in_time (\<lambda>st. ?F st (s st) (t st))" if "point_in_time s" "point_in_time t" for s t by (intro pit_intros that; simp)
    obtain x y where xy: "inputs = [x, y]" "column_ok st x" "column_ok st y"
      using two by (auto simp: Squeeze_Breakout composed_inputs_def)
    show ?thesis unfolding xy(1) list.map col by (rule two_inputs_cut[where F = ?F, OF cut c xy(2,3) pit])
  next
    case Gap_Up_Volume_Breakout
    let ?F = "\<lambda>st x. flag_column (both (both (above_column x (level st (2 / 100))) (above_column (fs_close st) (fs_open st)))
        (above_column (volume_ratio st 20) (level st (15 / 10))))"
    have col: "composed_column st' e [x] c' = (?F st' x, c')" for st' x c' by (simp add: Gap_Up_Volume_Breakout composed_column_def)
    have pit: "point_in_time (\<lambda>st. ?F st (s st))" if "point_in_time s" for s by (intro pit_intros that; simp)
    obtain x where x: "inputs = [x]" "column_ok st x" using one by (auto simp: Gap_Up_Volume_Breakout composed_inputs_def)
    show ?thesis unfolding x(1) list.map col by (rule one_input_cut[where F = ?F, OF cut c x(2) pit])
  next
    case Range_Expansion_Breakout
    let ?F = "\<lambda>st x y. (let location = array_ratio (sub_columns (fs_close st) (fs_low st)) (sub_columns (fs_high st) (fs_low st))
           in flag_column (both (both (above_column x (level st (15 / 10))) (above_column location (level st (8 / 10))))
                (above_column (fs_close st) y)))"
    have col: "composed_column st' e [x, y] c' = (?F st' x y, c')" for st' x y c' by (simp add: Range_Expansion_Breakout composed_column_def)
    have pit: "point_in_time (\<lambda>st. ?F st (s st) (t st))" if "point_in_time s" "point_in_time t" for s t
      unfolding Let_def by (intro pit_intros that; simp)
    obtain x y where xy: "inputs = [x, y]" "column_ok st x" "column_ok st y"
      using two by (auto simp: Range_Expansion_Breakout composed_inputs_def)
    show ?thesis unfolding xy(1) list.map col by (rule two_inputs_cut[where F = ?F, OF cut c xy(2,3) pit])
  next
    case Stoch_D_3
    let ?F = "\<lambda>st x. rolling_from_array st x 3 np_mean False"
    have col: "composed_column st' e [x] c' = (?F st' x, c')" for st' x c' by (simp add: Stoch_D_3 composed_column_def)
    have pit: "point_in_time (\<lambda>st. ?F st (s st))" if "point_in_time s" for s by (intro pit_intros that; simp)
    obtain x where x: "inputs = [x]" "column_ok st x" using one by (auto simp: Stoch_D_3 composed_inputs_def)
    show ?thesis unfolding x(1) list.map col by (rule one_input_cut[where F = ?F, OF cut c x(2) pit])
  next
    case (Obv_Slope w)
    then have w: "0 < w" using ok by (simp add: entry_ok_def)
    let ?F = "\<lambda>st x. regression st x w Slope_Raw"
    have col: "composed_column st' e [x] c' = (?F st' x, c')" for st' x c' by (simp add: Obv_Slope composed_column_def)
    have pit: "point_in_time (\<lambda>st. ?F st (s st))" if "point_in_time s" for s by (intro pit_intros that w)
    obtain x where x: "inputs = [x]" "column_ok st x" using one by (auto simp: Obv_Slope composed_inputs_def)
    show ?thesis unfolding x(1) list.map col by (rule one_input_cut[where F = ?F, OF cut c x(2) pit])
  next
    case (Adl_Slope w)
    then have w: "0 < w" using ok by (simp add: entry_ok_def)
    let ?F = "\<lambda>st x. regression st x w Slope_Raw"
    have col: "composed_column st' e [x] c' = (?F st' x, c')" for st' x c' by (simp add: Adl_Slope composed_column_def)
    have pit: "point_in_time (\<lambda>st. ?F st (s st))" if "point_in_time s" for s by (intro pit_intros that w)
    obtain x where x: "inputs = [x]" "column_ok st x" using one by (auto simp: Adl_Slope composed_inputs_def)
    show ?thesis unfolding x(1) list.map col by (rule one_input_cut[where F = ?F, OF cut c x(2) pit])
  next
    case (Volume_Index_Sma_100 positive)
    let ?F = "\<lambda>st x. rolling_from_array st x 100 np_mean False"
    have col: "composed_column st' e [x] c' = (?F st' x, c')" for st' x c' by (simp add: Volume_Index_Sma_100 composed_column_def)
    have pit: "point_in_time (\<lambda>st. ?F st (s st))" if "point_in_time s" for s by (intro pit_intros that; simp)
    obtain x where x: "inputs = [x]" "column_ok st x" using one by (auto simp: Volume_Index_Sma_100 composed_inputs_def)
    show ?thesis unfolding x(1) list.map col by (rule one_input_cut[where F = ?F, OF cut c x(2) pit])
  next
    case (Volume_Index_Trend_Gap positive)
    let ?F = "\<lambda>st x y. sub_columns x y"
    have col: "composed_column st' e [x, y] c' = (?F st' x y, c')" for st' x y c' by (simp add: Volume_Index_Trend_Gap composed_column_def)
    have pit: "point_in_time (\<lambda>st. ?F st (s st) (t st))" if "point_in_time s" "point_in_time t" for s t by (intro pit_intros that)
    obtain x y where xy: "inputs = [x, y]" "column_ok st x" "column_ok st y"
      using two by (auto simp: Volume_Index_Trend_Gap composed_inputs_def)
    show ?thesis unfolding xy(1) list.map col by (rule two_inputs_cut[where F = ?F, OF cut c xy(2,3) pit])
  next
    case (Drawdown_Recovery digits)
    let ?F = "\<lambda>st x. array_ratio (period_return st 20) (map np_abs x)"
    have col: "composed_column st' e [x] c' = (?F st' x, c')" for st' x c' by (simp add: Drawdown_Recovery composed_column_def)
    have pit: "point_in_time (\<lambda>st. ?F st (s st))" if "point_in_time s" for s by (intro pit_intros that)
    obtain x where x: "inputs = [x]" "column_ok st x" using one by (auto simp: Drawdown_Recovery composed_inputs_def)
    show ?thesis unfolding x(1) list.map col by (rule one_input_cut[where F = ?F, OF cut c x(2) pit])
  next
    case (Atr_Trailing_Floor w)
    obtain x where x: "inputs = [x]" "column_ok st x" using one by (auto simp: Atr_Trailing_Floor composed_inputs_def)
    have "point_in_time (\<lambda>st. sub_columns (padded x st) (scale_column 3 (s st)))" if "point_in_time s" for s
      by (intro pit_intros pit_padded that)
    from atr_based_cut[where F = "\<lambda>st tr. sub_columns (padded x st) (scale_column 3 tr)", OF cut c _ this] show ?thesis
      using ok padded_cut[OF cut x(2)] by (simp add: Atr_Trailing_Floor composed_column_def entry_ok_def x(1))
  qed
qed

lemma entry_column_cut:
  assumes "cut_at st n" and "columns_ok st c" and "entry_ok e"
    and "list_all (column_ok st) inputs" and "length inputs = length (entry_inputs e)"
  shows "entry_column np (cut_store n st) e (map (take n) inputs) (cut_columns n c) = cut_result n (entry_column np st e inputs c)
    \<and> result_ok st (entry_column np st e inputs c)"
proof (cases e)
  case (Trend d)
  then show ?thesis using pit_column[OF pit_trend_column assms(1), of d np] assms(2,3)
    by (simp add: entry_column_def cut_result_def result_ok_def)
next
  case (Breakout d)
  then show ?thesis using pit_column[OF pit_breakout_column assms(1), of d np] assms(2,3)
    by (simp add: entry_column_def cut_result_def result_ok_def)
next
  case (Flow d)
  then show ?thesis using pit_column[OF pit_flow_column assms(1), of d np] assms(2,3)
    by (simp add: entry_column_def cut_result_def result_ok_def)
next
  case (Composed d)
  then show ?thesis using composed_column_cut[OF assms(1,2) _ assms(4), of d] assms(3,5)
    by (simp add: entry_column_def entry_inputs_def)
next
  case (Cached d)
  then show ?thesis using cached_column_cut[OF assms(1,2), of d] assms(3) by (simp add: entry_column_def)
qed

section \<open>Lookups on a cut cache\<close>

definition cut_cache :: "nat \<Rightarrow> Cache \<Rightarrow> Cache" where
  "cut_cache n c = \<lparr>ch_metrics = cut_columns n (ch_metrics c), ch_rolling = cut_columns n (ch_rolling c),
     ch_conditions = cut_columns n (ch_conditions c)\<rparr>"

definition cache_ok :: "Store \<Rightarrow> Cache \<Rightarrow> bool" where
  "cache_ok st c \<longleftrightarrow> columns_ok st (ch_metrics c) \<and> columns_ok st (ch_rolling c) \<and> columns_ok st (ch_conditions c)"

text \<open>A lookup only adds to the caches.\<close>

definition grows :: "Cache \<Rightarrow> Cache \<Rightarrow> bool" where
  "grows c c' \<longleftrightarrow> set (dkeys (ch_metrics c)) \<subseteq> set (dkeys (ch_metrics c')) \<and> set (dkeys (ch_rolling c)) \<subseteq> set (dkeys (ch_rolling c'))"

lemma grows_refl [simp]: "grows c c"
  by (simp add: grows_def)

lemma grows_trans [trans]: "grows c c' \<Longrightarrow> grows c' c'' \<Longrightarrow> grows c c''"
  by (auto simp: grows_def)

lemma keys_setdefault: "set (dkeys c) \<subseteq> set (dkeys (setdefault k v c))"
  by (auto simp: setdefault_def dict_simps split: option.split)

lemma keys_atr: "set (dkeys c) \<subseteq> set (dkeys (snd (atr st w c)))"
  by (auto simp: atr_def Let_def dict_simps split: option.split)

lemma keys_directional: "set (dkeys c) \<subseteq> set (dkeys (snd (directional_movement st m w c)))"
  using keys_atr[of c st w] by (auto simp: directional_movement_def Let_def dict_simps split: option.split prod.split)

lemma keys_oscillator: "set (dkeys c) \<subseteq> set (dkeys (snd (oscillator st prefix main part c)))"
  unfolding oscillator_def Let_def snd_conv by (meson keys_setdefault subset_trans)

lemma keys_entry_column: "set (dkeys c) \<subseteq> set (dkeys (snd (entry_column np st e inputs c)))"
proof (cases e)
  case (Composed d)
  then show ?thesis using keys_atr[of c st] by (cases d) (simp_all add: entry_column_def composed_column_def Let_def case_prod_beta)
next
  case (Cached d)
  then show ?thesis using keys_atr[of c st] keys_directional keys_oscillator
    by (cases d) (simp_all add: entry_column_def cached_column_def case_prod_beta)
qed (simp_all add: entry_column_def)

text \<open>The lookup \<open>g\<close> does on the cut store what \<open>f\<close> does on the store.\<close>

definition series_cut :: "Store \<Rightarrow> nat \<Rightarrow> series lookup \<Rightarrow> series lookup \<Rightarrow> bool" where
  "series_cut st n f g \<longleftrightarrow> (\<forall>c. cache_ok st c \<longrightarrow>
     g (cut_cache n c) = (take n (fst (f c)), cut_cache n (snd (f c))) \<and> column_ok st (fst (f c))
     \<and> cache_ok st (snd (f c)) \<and> grows c (snd (f c)))"

lemma series_cutD:
  assumes "series_cut st n f g" and "cache_ok st c" and "f c = (v, c')"
  shows "g (cut_cache n c) = (take n v, cut_cache n c')" "column_ok st v" "cache_ok st c'" "grows c c'"
  using assms by (auto simp: series_cut_def)

lemma cut_cache_sel [simp]:
  "ch_metrics (cut_cache n c) = cut_columns n (ch_metrics c)" "ch_rolling (cut_cache n c) = cut_columns n (ch_rolling c)"
  "ch_conditions (cut_cache n c) = cut_columns n (ch_conditions c)"
  by (simp_all add: cut_cache_def)

lemma cut_cache_update:
  "(cut_cache n c)\<lparr>ch_metrics := cut_columns n m\<rparr> = cut_cache n (c\<lparr>ch_metrics := m\<rparr>)"
  "(cut_cache n c)\<lparr>ch_rolling := cut_columns n r\<rparr> = cut_cache n (c\<lparr>ch_rolling := r\<rparr>)"
  "(cut_cache n c)\<lparr>ch_conditions := cut_columns n d\<rparr> = cut_cache n (c\<lparr>ch_conditions := d\<rparr>)"
  by (simp_all add: cut_cache_def)

lemma cache_ok_update:
  "cache_ok st c \<Longrightarrow> columns_ok st m \<Longrightarrow> cache_ok st (c\<lparr>ch_metrics := m\<rparr>)"
  "cache_ok st c \<Longrightarrow> columns_ok st r \<Longrightarrow> cache_ok st (c\<lparr>ch_rolling := r\<rparr>)"
  "cache_ok st c \<Longrightarrow> columns_ok st d \<Longrightarrow> cache_ok st (c\<lparr>ch_conditions := d\<rparr>)"
  by (simp_all add: cache_ok_def)

lemma empty_cache_ok: "cache_ok st empty_cache" "cut_cache n empty_cache = empty_cache"
  by (simp_all add: cache_ok_def columns_ok_def empty_cache_def cut_cache_def cut_columns_def)

lemma remember_cut: "column_ok st v \<Longrightarrow> series_cut st n (remember k v) (remember k (take n v))"
  by (auto simp: series_cut_def remember_def dset_cut_columns cut_cache_update columns_ok_dset cache_ok_def grows_def set_dkeys_dset)

lemma remember_column_cut:
  "point_in_time s \<Longrightarrow> cut_at st n \<Longrightarrow> series_cut st n (remember k (s st)) (remember k (s (cut_store n st)))"
  using pit_column[of s st n] remember_cut by simp

lemma and_then_cut:
  assumes "series_cut st n m m'" and "\<And>x. column_ok st x \<Longrightarrow> series_cut st n (k x) (k' (take n x))"
  shows "series_cut st n (and_then m k) (and_then m' k')"
  unfolding series_cut_def
proof (intro allI impI)
  fix c
  assume c: "cache_ok st c"
  obtain x c1 where m: "m c = (x, c1)" by fastforce
  note first = series_cutD[OF assms(1) c m]
  obtain y c2 where k: "k x c1 = (y, c2)" by fastforce
  show "and_then m' k' (cut_cache n c) = (take n (fst (and_then m k c)), cut_cache n (snd (and_then m k c)))
      \<and> column_ok st (fst (and_then m k c)) \<and> cache_ok st (snd (and_then m k c)) \<and> grows c (snd (and_then m k c))"
    using series_cutD[OF assms(2)[OF first(2)] first(3) k] first(1,4) by (auto simp: and_then_def m k intro: grows_trans)
qed

lemma lookup_all_cut:
  assumes "\<And>m. m \<in> set ms \<Longrightarrow> series_cut st n (f m) (f' m)" and "cache_ok st c" and "lookup_all f ms c = (vs, c')"
  shows "lookup_all f' ms (cut_cache n c) = (map (take n) vs, cut_cache n c') \<and> list_all (column_ok st) vs
    \<and> length vs = length ms \<and> cache_ok st c' \<and> grows c c'"
  using assms
proof (induction ms arbitrary: c vs c')
  case (Cons m ms)
  obtain v c1 where v: "f m c = (v, c1)" by fastforce
  obtain ws c2 where ws: "lookup_all f ms c1 = (ws, c2)" by fastforce
  note head = series_cutD[OF Cons.prems(1)[of m] Cons.prems(2) v]
  have "lookup_all f' ms (cut_cache n c1) = (map (take n) ws, cut_cache n c2) \<and> list_all (column_ok st) ws
      \<and> length ws = length ms \<and> cache_ok st c2 \<and> grows c1 c2"
    using Cons.IH[of c1 ws c2] Cons.prems(1) head(3) ws by simp
  with head Cons.prems(3) v ws show ?case by (auto intro: grows_trans)
qed simp

lemma rolling_lookup_cut:
  assumes "cut_at st n" and "series_cut st n (f metric) (f' metric)"
  shows "series_cut st n (rolling_lookup f st metric w agg) (rolling_lookup f' (cut_store n st) metric w agg)"
  unfolding series_cut_def
proof (intro allI impI)
  fix c
  assume c: "cache_ok st c"
  let ?key = "(normal_name metric, w, agg)"
  obtain source c1 where m: "f metric c = (source, c1)" by fastforce
  note source = series_cutD[OF assms(2) c m]
  have "point_in_time s \<Longrightarrow> point_in_time (\<lambda>st. rolling_column st (s st) w agg)" for s by (rule pit_rolling_column)
  then have column: "rolling_column (cut_store n st) (take n source) w agg = take n (rolling_column st source w agg)
      \<and> column_ok st (rolling_column st source w agg)"
    by (rule pit_apply[OF _ assms(1) source(2)])
  show "rolling_lookup f' (cut_store n st) metric w agg (cut_cache n c) =
        (take n (fst (rolling_lookup f st metric w agg c)), cut_cache n (snd (rolling_lookup f st metric w agg c)))
      \<and> column_ok st (fst (rolling_lookup f st metric w agg c)) \<and> cache_ok st (snd (rolling_lookup f st metric w agg c))
      \<and> grows c (snd (rolling_lookup f st metric w agg c))"
  proof (cases "dget (ch_rolling c) ?key")
    case None
    have "columns_ok st (dset ?key (rolling_column st source w agg) (ch_rolling c1))"
      using source(3) column by (intro columns_ok_dset) (simp_all add: cache_ok_def)
    with None show ?thesis
      using source column by (auto simp: rolling_lookup_def and_then_def Let_def m dget_cut_columns dset_cut_columns cut_cache_update
          cache_ok_update grows_def set_dkeys_dset)
  next
    case (Some v)
    then show ?thesis using c by (auto simp: rolling_lookup_def Let_def dget_cut_columns cache_ok_def dest: columns_ok_dget)
  qed
qed

lemma entry_lookup_cut:
  assumes cut: "cut_at st n" and e: "catalog_entry normalized = Some e"
    and inputs: "\<And>m. m \<in> set (entry_inputs e) \<Longrightarrow> series_cut st n (f m) (f' m)"
  shows "series_cut st n
    (and_then (lookup_all f (entry_inputs e)) (\<lambda>inputs c1. case entry_column np st e inputs (ch_metrics c1) of (computed, metrics) \<Rightarrow>
       remember normalized (overridden (row_metric_series st metric normalized) computed) (c1\<lparr>ch_metrics := metrics\<rparr>)))
    (and_then (lookup_all f' (entry_inputs e)) (\<lambda>inputs c1. case entry_column np (cut_store n st) e inputs (ch_metrics c1) of (computed, metrics) \<Rightarrow>
       remember normalized (overridden (row_metric_series (cut_store n st) metric normalized) computed) (c1\<lparr>ch_metrics := metrics\<rparr>)))"
    (is "series_cut st n ?f ?g")
  unfolding series_cut_def
proof (intro allI impI)
  fix c
  assume c: "cache_ok st c"
  obtain vs c1 where vs: "lookup_all f (entry_inputs e) c = (vs, c1)" by fastforce
  note all = lookup_all_cut[OF inputs c vs]
  obtain computed m where col: "entry_column np st e vs (ch_metrics c1) = (computed, m)" by fastforce
  have ok: "columns_ok st (ch_metrics c1)" using all by (simp add: cache_ok_def)
  have entry: "entry_column np (cut_store n st) e (map (take n) vs) (cut_columns n (ch_metrics c1)) = (take n computed, cut_columns n m)
      \<and> column_ok st computed \<and> columns_ok st m"
    using entry_column_cut[OF cut ok catalog_entry_ok[OF e], of vs np] all by (simp add: col cut_result_def result_ok_def)
  have "point_in_time (\<lambda>st. overridden (row_metric_series st metric normalized) (s st))" if "point_in_time s" for s
    by (intro pit_intros that)
  then have "overridden (row_metric_series (cut_store n st) metric normalized) (take n computed)
        = take n (overridden (row_metric_series st metric normalized) computed)
      \<and> column_ok st (overridden (row_metric_series st metric normalized) computed)"
    by (rule pit_apply[OF _ cut conjunct1[OF conjunct2[OF entry]]])
  moreover have "cache_ok st (c1\<lparr>ch_metrics := m\<rparr>)" using all entry by (simp add: cache_ok_update)
  moreover have "grows c (c1\<lparr>ch_metrics := m\<rparr>)"
    using all keys_entry_column[of "ch_metrics c1" np st e vs] by (auto simp: grows_def col)
  ultimately show "?g (cut_cache n c) = (take n (fst (?f c)), cut_cache n (snd (?f c))) \<and> column_ok st (fst (?f c)) \<and> cache_ok st (snd (?f c))
      \<and> grows c (snd (?f c))"
    using all entry remember_cut[of st "overridden (row_metric_series st metric normalized) computed" n normalized]
    by (auto simp: and_then_def vs col series_cut_def cut_cache_update intro: grows_trans)
qed

lemma cached_lookup_cut:
  assumes "series_cut st n fm gm"
    and "\<And>c. f c = (case dget (ch_metrics c) k of Some v \<Rightarrow> (v, c) | None \<Rightarrow> fm c)"
    and "\<And>c. g c = (case dget (ch_metrics c) k of Some v \<Rightarrow> (v, c) | None \<Rightarrow> gm c)"
  shows "series_cut st n f g"
  using assms by (auto simp: series_cut_def dget_cut_columns cache_ok_def split: option.split dest: columns_ok_dget)

lemma bar_column_cut: "bar_column (cut_store n st) name = map_option (take n) (bar_column st name)"
  by (simp add: bar_column_def)

lemma bar_lookup_cut:
  assumes "cut_at st n" and "bar_column st name = Some v"
  shows "series_cut st n (\<lambda>c. (v, c)) (\<lambda>c. (take n v, c))"
  using assms by (auto simp: series_cut_def bar_column_def cut_at_def store_ok_def column_ok_def Let_def split: if_splits)

lemma metric_series_cut:
  assumes cut: "cut_at st n"
  shows "series_cut st n (metric_series np st metric) (metric_series np (cut_store n st) metric)"
proof (induction metric rule: measure_induct_rule[of rank])
  case (less metric)
  let ?st = "cut_store n st" and ?name = "canonical_metric metric"
  note unfold = metric_series.simps[of np _ metric] Let_def bar_column_cut
  show ?case
  proof (cases "bar_column st ?name")
    case (Some v)
    show ?thesis by (rule cached_lookup_cut[where k = ?name, OF bar_lookup_cut[OF cut Some]]) (simp_all add: unfold Some cong: option.case_cong)
  next
    case bar: None
    consider (rsi) "?name = ''rsi''"
      | (ratio) numerator denominator w where "?name \<noteq> ''rsi''" "derived_ratio metric = Some (numerator, denominator, w)"
      | (spec) spec where "?name \<noteq> ''rsi''" "derived_ratio metric = None" "derived_series_spec ?name = Some spec"
      | (entry) e where "?name \<noteq> ''rsi''" "derived_ratio metric = None" "derived_series_spec ?name = None" "catalog_entry ?name = Some e"
      | (row) "?name \<noteq> ''rsi''" "derived_ratio metric = None" "derived_series_spec ?name = None" "catalog_entry ?name = None"
      by (metis option.exhaust prod_cases3)
    then show ?thesis
    proof cases
      case rsi
      show ?thesis by (rule cached_lookup_cut[where k = ?name, OF remember_column_cut[where k = ?name, OF pit_rsi(2) cut]])
          (simp_all add: unfold bar[unfolded rsi] rsi cong: option.case_cong)
    next
      case ratio
      have num: "series_cut st n (metric_series np st numerator) (metric_series np ?st numerator)"
        and den: "series_cut st n (metric_series np st denominator) (metric_series np ?st denominator)"
        using ratio_inputs_rank[OF ratio(2)] by (auto intro: less)
      let ?den = "\<lambda>st c. if w \<noteq> 0 then rolling_lookup (metric_series np st) st denominator w Agg_Avg c else metric_series np st denominator c"
      have "series_cut st n (?den st) (?den ?st)"
        using den rolling_lookup_cut[where f = "metric_series np st" and f' = "metric_series np ?st", OF cut den] by (simp add: series_cut_def)
      then have "series_cut st n
          (and_then (metric_series np st numerator) (\<lambda>x. and_then (?den st) (\<lambda>y. remember ?name (ratio_series x y))))
          (and_then (metric_series np ?st numerator) (\<lambda>x. and_then (?den ?st) (\<lambda>y. remember ?name (ratio_series x y))))"
      proof (intro and_then_cut[OF num] and_then_cut)
        fix x y :: series
        assume xy: "column_ok st x" "column_ok st y"
        have "point_in_time (\<lambda>st. ratio_series (s st) (t st))" if "point_in_time s" "point_in_time t" for s t by (intro pit_intros that)
        then have "ratio_series (take n x) (take n y) = take n (ratio_series x y) \<and> column_ok st (ratio_series x y)"
          by (rule pit_apply2[of "\<lambda>st. ratio_series", OF _ cut xy])
        then show "series_cut st n (remember ?name (ratio_series x y)) (remember ?name (ratio_series (take n x) (take n y)))"
          using remember_cut by simp
      qed
      then show ?thesis by (rule cached_lookup_cut[where k = ?name]) (simp_all add: unfold bar ratio cong: option.case_cong)
    next
      case spec
      show ?thesis
      proof (cases spec)
        case (Realized_Volatility w)
        have "point_in_time (\<lambda>st. realized_volatility_series np st w)" by (intro pit_intros)
        from remember_column_cut[where k = ?name, OF this cut] show ?thesis
          by (rule cached_lookup_cut[where k = ?name]) (simp_all add: unfold bar spec Realized_Volatility cong: option.case_cong)
      next
        case (Relative_Strength w)
        have "point_in_time (\<lambda>st. relative_strength_series st w)" by (intro pit_intros)
        from remember_column_cut[where k = ?name, OF this cut] show ?thesis
          by (rule cached_lookup_cut[where k = ?name]) (simp_all add: unfold bar spec Relative_Strength cong: option.case_cong)
      next
        case (Percentile base)
        have "rank base < rank metric" using spec(2,3) Percentile percentile_rank by simp
        then have "series_cut st n
            (and_then (metric_series np st base) (\<lambda>v. remember ?name (percentile_series np st v)))
            (and_then (metric_series np ?st base) (\<lambda>v. remember ?name (percentile_series np ?st v)))"
        proof (intro and_then_cut less)
          fix x :: series
          assume x: "column_ok st x"
          have "point_in_time (\<lambda>st. percentile_series np st (s st))" if "point_in_time s" for s by (intro pit_intros that)
          then have "percentile_series np ?st (take n x) = take n (percentile_series np st x) \<and> column_ok st (percentile_series np st x)"
            by (rule pit_apply[OF _ cut x])
          then show "series_cut st n (remember ?name (percentile_series np st x)) (remember ?name (percentile_series np ?st (take n x)))"
            using remember_cut by simp
        qed
        then show ?thesis
          by (rule cached_lookup_cut[where k = ?name]) (simp_all add: unfold bar spec Percentile cong: option.case_cong)
      qed
    next
      case entry
      have "series_cut st n (metric_series np st m) (metric_series np ?st m)" if "m \<in> set (entry_inputs e)" for m
        using entry_inputs_rank[OF entry(4) that entry(2,3)] by (rule less)
      from entry_lookup_cut[OF cut entry(4) this] show ?thesis
        by (rule cached_lookup_cut[where k = ?name]) (simp_all add: unfold bar entry cong: option.case_cong)
    next
      case row
      have "point_in_time (\<lambda>st. row_metric_series st metric ?name)" by (intro pit_intros)
      from remember_column_cut[where k = ?name, OF this cut] show ?thesis by (rule cached_lookup_cut[where k = ?name]) (simp_all add: unfold bar row cong: option.case_cong)
    qed
  qed
qed

end
