(* ===== verification/Fs_Evaluate.thy ===== *)
theory Fs_Evaluate
  imports Fs_Metrics
begin

text \<open>
  The evaluation of a rule on one bar, from \<^verbatim>\<open>nodes/backtest_features.py\<close>: the operands of a
  condition, whether it matches (\<open>_condition_matches\<close>), how far inside its entry region a bar is
  (\<open>_condition_margin\<close>) and the entry score of a rule without a ranking metric.  Every lookup goes
  through the caches, so an evaluation takes the cache and returns it.
\<close>

section \<open>Operands\<close>

definition give :: "'a \<Rightarrow> 'a lookup" where
  "give x c = (x, c)"

definition value_at :: "series \<Rightarrow> nat \<Rightarrow> pyfloat option" where
  "value_at s i = (if isfinite (s ! i) then Some (s ! i) else None)"

definition current_metric :: "Numpy \<Rightarrow> Store \<Rightarrow> string \<Rightarrow> nat \<Rightarrow> pyfloat option lookup" where
  "current_metric np st metric i = and_then (metric_series np st metric) (\<lambda>s. give (value_at s i))"

definition rolling_metric :: "Numpy \<Rightarrow> Store \<Rightarrow> string \<Rightarrow> nat \<Rightarrow> aggregate \<Rightarrow> series lookup" where
  "rolling_metric np st metric window agg = rolling_lookup (metric_series np st) st metric window agg"

text \<open>The operand is rolling when both the window and the aggregate are given.\<close>

definition rolling_operand :: "nat option \<Rightarrow> aggregate option \<Rightarrow> (nat \<times> aggregate) option" where
  "rolling_operand window agg =
     (case (window, agg) of (Some w, Some a) \<Rightarrow> if w \<noteq> 0 then Some (w, a) else None | _ \<Rightarrow> None)"

definition condition_series_value ::
    "Numpy \<Rightarrow> Store \<Rightarrow> string \<Rightarrow> nat option \<Rightarrow> aggregate option \<Rightarrow> nat \<Rightarrow> pyfloat option lookup" where
  "condition_series_value np st metric window agg i =
     (case rolling_operand window agg of
        Some (w, a) \<Rightarrow> and_then (rolling_metric np st metric w a) (\<lambda>s. give (value_at s i))
      | None \<Rightarrow> current_metric np st metric i)"

definition scaled :: "Condition \<Rightarrow> pyfloat option \<Rightarrow> pyfloat option" where
  "scaled cond v = (case (v, cd_scale cond) of (Some x, Some k) \<Rightarrow> Some (x * k) | _ \<Rightarrow> v)"

definition comparison_operands :: "Numpy \<Rightarrow> Store \<Rightarrow> Condition \<Rightarrow> nat \<Rightarrow> (pyfloat option \<times> pyfloat option) lookup" where
  "comparison_operands np st cond i =
     (case cd_right cond of
        Metric right \<Rightarrow>
          and_then (current_metric np st (cd_left cond) i) (\<lambda>l.
          and_then (condition_series_value np st right (cd_window cond) (cd_aggregate cond) i) (\<lambda>r.
          give (l, scaled cond r)))
      | right \<Rightarrow>
          and_then (condition_series_value np st (cd_left cond) (cd_window cond) (cd_aggregate cond) i) (\<lambda>l.
          give (l, scaled cond (case right of Number x \<Rightarrow> Some (x * Fin (percent_scale (cd_left cond))) | _ \<Rightarrow> None))))"

section \<open>Matching\<close>

definition flag_is_asserted :: "Condition \<Rightarrow> bool option" where
  "flag_is_asserted cond =
     (case cd_right cond of
        Number x \<Rightarrow>
          (let truthy = \<not> py_eq x (Fin 0) in
           if cd_operator cond \<in> {Op_EQ, Op_GTE, Op_GT} then Some truthy
           else if cd_operator cond \<in> {Op_NE, Op_LT, Op_LTE} then Some (\<not> truthy) else None)
      | _ \<Rightarrow> None)"

definition boolean_comparison_matches ::
    "Numpy \<Rightarrow> Store \<Rightarrow> Condition \<Rightarrow> string \<times> bool \<times> string \<Rightarrow> nat \<Rightarrow> bool lookup" where
  "boolean_comparison_matches np st cond rule i =
     (case (rule, flag_is_asserted cond) of
        (_, None) \<Rightarrow> give False
      | ((left_metric, upward, right_metric), Some asserted) \<Rightarrow>
          and_then (current_metric np st left_metric i) (\<lambda>l.
          and_then (current_metric np st right_metric i) (\<lambda>r.
          give (case (l, r) of
              (Some x, Some y) \<Rightarrow> (let holds = (if upward then y < x else x < y) in if asserted then holds else \<not> holds)
            | _ \<Rightarrow> False))))"

definition boolean_window_matches ::
    "Numpy \<Rightarrow> Store \<Rightarrow> Condition \<Rightarrow> string \<times> aggregate \<times> bool \<times> nat \<times> rat \<Rightarrow> nat \<Rightarrow> bool lookup" where
  "boolean_window_matches np st cond rule i =
     (case (rule, flag_is_asserted cond) of
        (_, None) \<Rightarrow> give False
      | ((metric, agg, upward, window, factor), Some asserted) \<Rightarrow>
          and_then (current_metric np st ''close'' i) (\<lambda>close.
          and_then (condition_series_value np st metric (Some window) (Some agg) i) (\<lambda>extreme.
          give (case (close, extreme) of
              (Some x, Some e) \<Rightarrow>
                (let threshold = e * Fin factor; holds = (if upward then threshold \<le> x else x \<le> threshold)
                 in if asserted then holds else \<not> holds)
            | _ \<Rightarrow> False))))"

fun compare :: "ConditionOperator \<Rightarrow> pyfloat \<Rightarrow> pyfloat \<Rightarrow> bool" where
  "compare Op_LT l r = (l < r)"
| "compare Op_LTE l r = (l \<le> r)"
| "compare Op_GT l r = (r < l)"
| "compare Op_GTE l r = (r \<le> l)"
| "compare Op_EQ l r = py_eq l r"
| "compare Op_NE l r = (\<not> py_eq l r)"
| "compare _ l r = False"

definition between :: "Condition \<Rightarrow> pyfloat \<Rightarrow> bool" where
  "between cond l =
     (case cd_right cond of
        Numbers [low, high] \<Rightarrow>
          (let factor = Fin (percent_scale (cd_left cond));
               scale = (\<lambda>x. case cd_scale cond of Some k \<Rightarrow> x * factor * k | None \<Rightarrow> x * factor)
           in scale low \<le> l \<and> l \<le> scale high)
      | _ \<Rightarrow> False)"

text \<open>A crossing also needs the bar before, of the same ticker.\<close>

definition crosses :: "Numpy \<Rightarrow> Store \<Rightarrow> Condition \<Rightarrow> nat \<Rightarrow> pyfloat \<Rightarrow> pyfloat \<Rightarrow> bool lookup" where
  "crosses np st cond i l r =
     (let prev = previous_index st ! i in
      if prev < 0 then give False
      else (case cd_right cond of
        Metric right \<Rightarrow>
          and_then (current_metric np st (cd_left cond) (nat prev)) (\<lambda>prev_l.
          and_then (condition_series_value np st right (cd_window cond) (cd_aggregate cond) (nat prev)) (\<lambda>prev_r.
          give (case (prev_l, scaled cond prev_r) of
              (Some a, Some b) \<Rightarrow> (if cd_operator cond = Op_CROSS_ABOVE then r < l \<and> a \<le> b else l < r \<and> b \<le> a)
            | _ \<Rightarrow> False)))
      | _ \<Rightarrow> give False))"

definition base_condition_matches :: "Numpy \<Rightarrow> Store \<Rightarrow> Condition \<Rightarrow> nat \<Rightarrow> bool lookup" where
  "base_condition_matches np st cond i =
     (case boolean_comparison (cd_left cond) of
        Some rule \<Rightarrow> boolean_comparison_matches np st cond rule i
      | None \<Rightarrow> (case boolean_window_rule (cd_left cond) of
          Some rule \<Rightarrow> boolean_window_matches np st cond rule i
        | None \<Rightarrow>
            and_then (comparison_operands np st cond i) (\<lambda>(l, r).
              case l of None \<Rightarrow> give False
              | Some x \<Rightarrow>
                  if cd_operator cond = Op_BETWEEN then give (between cond x)
                  else (case r of None \<Rightarrow> give False
                    | Some y \<Rightarrow>
                        if cd_operator cond \<in> {Op_CROSS_ABOVE, Op_CROSS_BELOW} then crosses np st cond i x y
                        else give (compare (cd_operator cond) x y)))))"

text \<open>A condition that must hold on consecutive bars: its column is computed once, over all rows.\<close>

definition streaks :: "nat \<Rightarrow> bool list \<Rightarrow> bool list" where
  "streaks k = scan (\<lambda>streak m. let s = (if m then Suc streak else 0) in (s, k \<le> s)) 0"

definition streak_column :: "Store \<Rightarrow> nat \<Rightarrow> bool list \<Rightarrow> bool list" where
  "streak_column st k base_matches = per_ticker (fs_tickers st) (streaks k) False base_matches"

definition condition_matches :: "Numpy \<Rightarrow> Store \<Rightarrow> Condition \<Rightarrow> nat \<Rightarrow> bool lookup" where
  "condition_matches np st cond i =
     (case cd_consecutive cond of
        None \<Rightarrow> base_condition_matches np st cond i
      | Some k \<Rightarrow> (\<lambda>c.
          case dget (ch_conditions c) cond of Some matches \<Rightarrow> (matches ! i, c)
          | None \<Rightarrow>
              and_then (lookup_all (base_condition_matches np st (cond\<lparr>cd_consecutive := None\<rparr>)) [0..<length (fs_rows st)])
                (\<lambda>base_matches c1.
                   let matches = streak_column st k base_matches
                   in (matches ! i, c1\<lparr>ch_conditions := dset cond matches (ch_conditions c1)\<rparr>)) c))"

text \<open>\<^verbatim>\<open>all(...)\<close> over conditions stops at the first that fails.\<close>

fun all_match :: "('k \<Rightarrow> bool lookup) \<Rightarrow> 'k list \<Rightarrow> bool lookup" where
  "all_match f [] c = (True, c)"
| "all_match f (k # ks) c = (case f k c of (b, c1) \<Rightarrow> if b then all_match f ks c1 else (False, c1))"

section \<open>Strength of an entry\<close>

fun is_metric :: "operand \<Rightarrow> bool" where
  "is_metric (Metric m) = True"
| "is_metric _ = False"

definition condition_margin :: "Numpy \<Rightarrow> Store \<Rightarrow> Condition \<Rightarrow> nat \<Rightarrow> pyfloat option lookup" where
  "condition_margin np st cond i =
     (case MARGIN_SIGN (cd_operator cond) of
        None \<Rightarrow> give None
      | Some sign \<Rightarrow>
          if boolean_comparison (cd_left cond) \<noteq> None then give None
          else if boolean_window_rule (cd_left cond) \<noteq> None then give None
          else if \<not> is_metric (cd_right cond) \<and> canonical_metric (cd_left cond) \<in> set LEVEL_METRICS then give None
          else and_then (comparison_operands np st cond i) (\<lambda>operands.
            give (case operands of
                (Some l, Some r) \<Rightarrow>
                  (let margin = np_div (Fin sign * (l - r)) (py_max (np_abs r) (Fin MARGIN_EPSILON))
                   in if isfinite margin then Some margin else None)
              | _ \<Rightarrow> None)))"

definition fallback_rank_metric :: "Condition list \<Rightarrow> (string \<times> rat) option" where
  "fallback_rank_metric rank_conditions =
     (case rank_conditions of [] \<Rightarrow> None
      | c # _ \<Rightarrow> Some (cd_left c, if cd_operator c \<in> {Op_GT, Op_GTE} then 1 else -1))"

definition tightest :: "pyfloat option list \<Rightarrow> pyfloat" where
  "tightest margins =
     (case List.map_filter (\<lambda>m. m) margins of [] \<Rightarrow> Fin 0 | m # ms \<Rightarrow> fold (\<lambda>x acc. py_min acc x) ms m)"

definition default_entry_score :: "Numpy \<Rightarrow> Store \<Rightarrow> nat \<Rightarrow> (string \<times> rat) option \<Rightarrow> Condition list \<Rightarrow> pyfloat lookup" where
  "default_entry_score np st i fallback entry_conditions =
     (let by_margins = and_then (lookup_all (\<lambda>cond. condition_margin np st cond i) entry_conditions) (\<lambda>margins. give (tightest margins)) in
      case fallback of
        None \<Rightarrow> by_margins
      | Some (metric, sign) \<Rightarrow>
          and_then (current_metric np st metric i) (\<lambda>v. case v of Some x \<Rightarrow> give (Fin sign * x) | None \<Rightarrow> by_margins))"

end
