(* ===== verification/Fs_Rule_Cut.thy ===== *)
theory Fs_Rule_Cut
  imports Fs_Cut Fs_Evaluate
begin

text \<open>
  Evaluating a rule on a bar before the cut does the same on the cut history: same answer, and the cut
  of the same cache.  A condition on consecutive bars is evaluated on all rows at once, those after the
  cut included; they leave the cache as it is, because a condition looks the same metrics up on every
  row (\<open>base_matches_settle\<close>, \<open>base_matches_quiet\<close>).
\<close>

section \<open>Lookups that agree\<close>

definition agrees :: "Store \<Rightarrow> nat \<Rightarrow> ('a \<Rightarrow> 'b \<Rightarrow> bool) \<Rightarrow> 'a lookup \<Rightarrow> 'b lookup \<Rightarrow> bool" where
  "agrees st n R f g \<longleftrightarrow> (\<forall>c. cache_ok st c \<longrightarrow>
     R (fst (f c)) (fst (g (cut_cache n c))) \<and> snd (g (cut_cache n c)) = cut_cache n (snd (f c))
     \<and> cache_ok st (snd (f c)) \<and> grows c (snd (f c)))"

named_theorems agree_intros \<open>rules that show two lookups in agreement from their construction\<close>

lemma agreesD:
  assumes "agrees st n R f g" and "cache_ok st c" and "f c = (x, c')"
  obtains y where "g (cut_cache n c) = (y, cut_cache n c')" "R x y" "cache_ok st c'" "grows c c'"
  using assms by (auto simp: agrees_def prod_eq_iff)

lemma agrees_give: "R x y \<Longrightarrow> agrees st n R (give x) (give y)"
  by (simp add: agrees_def give_def)

lemma agrees_give_eq [agree_intros]: "agrees st n (=) (give x) (give x)"
  by (simp add: agrees_give)

lemma agrees_then:
  assumes "agrees st n Q m m'" and "\<And>x y. Q x y \<Longrightarrow> agrees st n R (k x) (k' y)"
  shows "agrees st n R (and_then m k) (and_then m' k')"
  unfolding agrees_def
proof (intro allI impI)
  fix c
  assume c: "cache_ok st c"
  obtain x c1 where m: "m c = (x, c1)" by fastforce
  obtain y where y: "m' (cut_cache n c) = (y, cut_cache n c1)" "Q x y" "cache_ok st c1" "grows c c1"
    by (rule agreesD[OF assms(1) c m])
  obtain u c2 where k: "k x c1 = (u, c2)" by fastforce
  obtain v where "k' y (cut_cache n c1) = (v, cut_cache n c2)" "R u v" "cache_ok st c2" "grows c1 c2"
    by (rule agreesD[OF assms(2)[OF y(2)] y(3) k])
  with y show "R (fst (and_then m k c)) (fst (and_then m' k' (cut_cache n c)))
      \<and> snd (and_then m' k' (cut_cache n c)) = cut_cache n (snd (and_then m k c))
      \<and> cache_ok st (snd (and_then m k c)) \<and> grows c (snd (and_then m k c))"
    by (auto simp: and_then_def m k intro: grows_trans)
qed

lemma agrees_then_eq [agree_intros]:
  "agrees st n (=) m m' \<Longrightarrow> (\<And>x. agrees st n R (k x) (k' x)) \<Longrightarrow> agrees st n R (and_then m k) (and_then m' k')"
  by (rule agrees_then[where Q = "(=)"]) auto

lemma agrees_series: "series_cut st n f g \<Longrightarrow> agrees st n (\<lambda>v w. w = take n v \<and> column_ok st v) f g"
  by (simp add: series_cut_def agrees_def)

lemma agrees_value:
  assumes "series_cut st n f g" and "i < n"
  shows "agrees st n (=) (and_then f (\<lambda>s. give (value_at s i))) (and_then g (\<lambda>s. give (value_at s i)))"
  using assms(2) by (intro agrees_then[OF agrees_series[OF assms(1)]] agrees_give) (auto simp: value_at_def)

lemma agrees_if [agree_intros]:
  "(b \<Longrightarrow> agrees st n R f f') \<Longrightarrow> (\<not> b \<Longrightarrow> agrees st n R g g') \<Longrightarrow> agrees st n R (if b then f else g) (if b then f' else g')"
  by simp

lemma agrees_option [agree_intros]:
  "agrees st n R f f' \<Longrightarrow> (\<And>x. agrees st n R (g x) (g' x)) \<Longrightarrow>
   agrees st n R (case v of None \<Rightarrow> f | Some x \<Rightarrow> g x) (case v of None \<Rightarrow> f' | Some x \<Rightarrow> g' x)"
  by (cases v) simp_all

lemma agrees_prod [agree_intros]:
  "(\<And>x y. agrees st n R (g x y) (g' x y)) \<Longrightarrow> agrees st n R (case p of (x, y) \<Rightarrow> g x y) (case p of (x, y) \<Rightarrow> g' x y)"
  by (cases p) simp_all

lemma lookup_all_agrees [agree_intros]:
  assumes "\<And>k. k \<in> set ks \<Longrightarrow> agrees st n (=) (f k) (f' k)"
  shows "agrees st n (=) (lookup_all f ks) (lookup_all f' ks)"
  using assms
proof (induction ks)
  case Nil
  show ?case by (simp add: agrees_def)
next
  case (Cons k ks)
  have "agrees st n (=) (and_then (f k) (\<lambda>v. and_then (lookup_all f ks) (\<lambda>vs. give (v # vs))))
      (and_then (f' k) (\<lambda>v. and_then (lookup_all f' ks) (\<lambda>vs. give (v # vs))))"
    by (intro agree_intros Cons) simp_all
  moreover have "lookup_all f (k # ks) = and_then (f k) (\<lambda>v. and_then (lookup_all f ks) (\<lambda>vs. give (v # vs)))" for f :: "'a \<Rightarrow> 'b lookup"
    by (auto simp: and_then_def give_def split: prod.split)
  ultimately show ?case by simp
qed

lemma all_match_agrees [agree_intros]:
  assumes "\<And>k. k \<in> set ks \<Longrightarrow> agrees st n (=) (f k) (f' k)"
  shows "agrees st n (=) (all_match f ks) (all_match f' ks)"
  using assms
proof (induction ks)
  case Nil
  show ?case by (simp add: agrees_def)
next
  case (Cons k ks)
  have "agrees st n (=) (and_then (f k) (\<lambda>b. if b then all_match f ks else give False))
      (and_then (f' k) (\<lambda>b. if b then all_match f' ks else give False))"
    by (intro agree_intros Cons) simp_all
  moreover have "all_match f (k # ks) = and_then (f k) (\<lambda>b. if b then all_match f ks else give False)" for f :: "'a \<Rightarrow> bool lookup"
    by (auto simp: and_then_def give_def split: prod.split)
  ultimately show ?case by simp
qed

section \<open>One bar\<close>

lemma rolling_metric_cut: "cut_at st n \<Longrightarrow> series_cut st n (rolling_metric np st m w a) (rolling_metric np (cut_store n st) m w a)"
  unfolding rolling_metric_def by (rule rolling_lookup_cut) (auto intro: metric_series_cut)

lemma current_metric_agrees [agree_intros]:
  "cut_at st n \<Longrightarrow> i < n \<Longrightarrow> agrees st n (=) (current_metric np st m i) (current_metric np (cut_store n st) m i)"
  unfolding current_metric_def by (intro agrees_value metric_series_cut)

lemma condition_series_agrees [agree_intros]:
  "cut_at st n \<Longrightarrow> i < n \<Longrightarrow>
   agrees st n (=) (condition_series_value np st m w a i) (condition_series_value np (cut_store n st) m w a i)"
  unfolding condition_series_value_def by (intro agree_intros agrees_value rolling_metric_cut)

lemma comparison_operands_agrees [agree_intros]:
  "cut_at st n \<Longrightarrow> i < n \<Longrightarrow> agrees st n (=) (comparison_operands np st cond i) (comparison_operands np (cut_store n st) cond i)"
  unfolding comparison_operands_def by (cases "cd_right cond") (simp_all, (intro agree_intros; assumption)+)

lemma previous_index_before: "store_ok st \<Longrightarrow> i < length (fs_rows st) \<Longrightarrow> previous_index st ! i < int i"
proof -
  assume ok: "store_ok st" and i: "i < length (fs_rows st)"
  let ?ts = "fs_tickers st" and ?f = "\<lambda>idx :: int list. take (length idx) (-1 # idx)"
  have len: "length ?ts = length (fs_rows st)" using ok by (simp add: store_ok_dates)
  let ?idx = "occurrences ?ts (?ts ! i)" and ?r = "ticker_rank ?ts i"
  have rank: "?r < length ?idx" "?idx ! ?r = i" using occurrences_rank[of i ?ts] i len by simp_all
  have "sorted ?idx" "distinct ?idx" by (simp_all add: occurrences_def sorted_wrt_filter)
  then have earlier: "?idx ! (?r - 1) < i" if "0 < ?r"
    using rank that sorted_nth_mono[of ?idx "?r - 1" ?r] nth_eq_iff_index_eq[of ?idx "?r - 1" ?r] by fastforce
  have "previous_index st ! i = ?f (gather (map int [0..<length (fs_rows st)]) ?idx) ! ?r"
    unfolding previous_index_def using i len by (intro per_ticker_nth) simp_all
  also have "\<dots> = (if ?r = 0 then -1 else int (?idx ! (?r - 1)))"
    using rank earlier i by (cases "?r = 0") (simp_all add: gather_def nth_Cons')
  finally show ?thesis using earlier by auto
qed

lemma previous_index_cut:
  "cut_at st n \<Longrightarrow> i < n \<Longrightarrow> previous_index (cut_store n st) ! i = previous_index st ! i \<and> nat (previous_index st ! i) < n"
proof -
  assume cut: "cut_at st n" and i: "i < n"
  have "n \<le> length (fs_rows st)" using cut session_end_le[of "fs_dates st" n] by (simp add: cut_at_def store_ok_dates)
  with i cut have "previous_index st ! i < int i" by (intro previous_index_before) (simp_all add: cut_at_def)
  moreover have "previous_index (cut_store n st) = take n (previous_index st)"
    using pit_column[OF pit_previous_index cut] by simp
  ultimately show ?thesis using i by simp
qed

lemma crosses_agrees [agree_intros]:
  "cut_at st n \<Longrightarrow> i < n \<Longrightarrow> agrees st n (=) (crosses np st cond i l r) (crosses np (cut_store n st) cond i l r)"
  using previous_index_cut[of st n i] unfolding crosses_def Let_def
  by (cases "cd_right cond") (simp_all, (intro agree_intros impI conjI; simp)+)

lemma base_matches_agrees [agree_intros]:
  "cut_at st n \<Longrightarrow> i < n \<Longrightarrow>
   agrees st n (=) (base_condition_matches np st cond i) (base_condition_matches np (cut_store n st) cond i)"
  unfolding base_condition_matches_def boolean_comparison_matches_def boolean_window_matches_def
  by (intro agree_intros; assumption)

section \<open>A condition looks the same metrics up on every row\<close>

datatype touch = Touch_Metric string | Touch_Rolling string nat aggregate

fun touched :: "Store \<Rightarrow> touch \<Rightarrow> Cache \<Rightarrow> bool" where
  "touched st (Touch_Metric m) c =
     (bar_column st (canonical_metric m) \<noteq> None \<or> canonical_metric m \<in> set (dkeys (ch_metrics c)))"
| "touched st (Touch_Rolling m w a) c = ((normal_name m, w, a) \<in> set (dkeys (ch_rolling c)))"

definition operand_touch :: "string \<Rightarrow> nat option \<Rightarrow> aggregate option \<Rightarrow> touch" where
  "operand_touch m w a = (case rolling_operand w a of Some (w, a) \<Rightarrow> Touch_Rolling m w a | None \<Rightarrow> Touch_Metric m)"

definition touches :: "Condition \<Rightarrow> touch set" where
  "touches cond =
     (case boolean_comparison (cd_left cond) of
        Some (l, upward, r) \<Rightarrow> if flag_is_asserted cond = None then {} else {Touch_Metric l, Touch_Metric r}
      | None \<Rightarrow> (case boolean_window_rule (cd_left cond) of
          Some (m, agg, upward, w, factor) \<Rightarrow>
            if flag_is_asserted cond = None then {} else {Touch_Metric ''close'', operand_touch m (Some w) (Some agg)}
        | None \<Rightarrow> (case cd_right cond of
            Metric r \<Rightarrow> {Touch_Metric (cd_left cond), operand_touch r (cd_window cond) (cd_aggregate cond)}
          | _ \<Rightarrow> {operand_touch (cd_left cond) (cd_window cond) (cd_aggregate cond)})))"

lemma touched_grows: "touched st t c \<Longrightarrow> grows c c' \<Longrightarrow> touched st t c'"
  by (cases t) (auto simp: grows_def)

lemma in_keys: "k \<in> set (dkeys d) \<longleftrightarrow> dget d k \<noteq> None"
  by (simp add: dget_eq_None_iff)

lemma metric_series_touches: "touched st (Touch_Metric m) (snd (metric_series np st m c))"
  by (simp add: metric_series.simps[of np st m c] Let_def remember_def and_then_def in_keys dget_dset
      split: option.split derived_series.split prod.split)

lemma metric_series_quiet: "touched st (Touch_Metric m) c \<Longrightarrow> snd (metric_series np st m c) = c"
  by (auto simp: metric_series.simps[of np st m c] Let_def in_keys split: option.split)

lemma rolling_metric_touches: "touched st (Touch_Rolling m w a) (snd (rolling_metric np st m w a c))"
  by (simp add: rolling_metric_def rolling_lookup_def Let_def and_then_def in_keys dget_dset split: option.split prod.split)

lemma rolling_metric_quiet: "touched st (Touch_Rolling m w a) c \<Longrightarrow> snd (rolling_metric np st m w a c) = c"
  by (auto simp: rolling_metric_def rolling_lookup_def Let_def in_keys)

text \<open>Lookups that keep the caches well formed, that settle a touch, and that change nothing any more.\<close>

definition good :: "Store \<Rightarrow> 'a lookup \<Rightarrow> bool" where
  "good st f \<longleftrightarrow> (\<forall>c. cache_ok st c \<longrightarrow> cache_ok st (snd (f c)) \<and> grows c (snd (f c)))"

definition settles :: "Store \<Rightarrow> touch \<Rightarrow> 'a lookup \<Rightarrow> bool" where
  "settles st t f \<longleftrightarrow> (\<forall>c. cache_ok st c \<longrightarrow> touched st t (snd (f c)))"

definition quiet :: "Store \<Rightarrow> touch set \<Rightarrow> 'a lookup \<Rightarrow> bool" where
  "quiet st T f \<longleftrightarrow> (\<forall>c. (\<forall>t \<in> T. touched st t c) \<longrightarrow> snd (f c) = c)"

lemma agrees_good: "agrees st n R f g \<Longrightarrow> good st f"
  by (simp add: agrees_def good_def)

lemma snd_and_then: "snd (and_then m k c) = snd (k (fst (m c)) (snd (m c)))"
  by (simp add: and_then_def case_prod_beta)

lemma good_then: "good st m \<Longrightarrow> (\<And>x. good st (k x)) \<Longrightarrow> good st (and_then m k)"
  unfolding good_def snd_and_then using grows_trans by blast

lemma settles_first: "settles st t m \<Longrightarrow> good st m \<Longrightarrow> (\<And>x. good st (k x)) \<Longrightarrow> settles st t (and_then m k)"
  unfolding settles_def good_def snd_and_then using touched_grows by blast

lemma settles_later: "good st m \<Longrightarrow> (\<And>x. settles st t (k x)) \<Longrightarrow> settles st t (and_then m k)"
  unfolding settles_def good_def snd_and_then by blast

named_theorems quiet_intros \<open>rules that show a lookup quiet from its construction\<close>

lemma quiet_then [quiet_intros]:
  assumes "quiet st T m" and "\<And>x. quiet st T (k x)"
  shows "quiet st T (and_then m k)"
  unfolding quiet_def
proof (intro allI impI)
  fix c
  assume "\<forall>t \<in> T. touched st t c"
  then show "snd (and_then m k c) = c" using assms by (cases "m c") (auto simp: quiet_def and_then_def)
qed

lemma quiet_give [quiet_intros]: "quiet st T (give x)"
  by (simp add: quiet_def give_def)

lemma quiet_metrics:
  "Touch_Metric m \<in> T \<Longrightarrow> quiet st T (metric_series np st m)"
  "Touch_Rolling m w a \<in> T \<Longrightarrow> quiet st T (rolling_metric np st m w a)"
  unfolding quiet_def using metric_series_quiet rolling_metric_quiet by blast+

lemma quiet_current [quiet_intros]: "Touch_Metric m \<in> T \<Longrightarrow> quiet st T (current_metric np st m i)"
  unfolding current_metric_def by (intro quiet_intros quiet_metrics)

lemma quiet_operand [quiet_intros]: "operand_touch m w a \<in> T \<Longrightarrow> quiet st T (condition_series_value np st m w a i)"
  unfolding condition_series_value_def operand_touch_def
  by (cases "rolling_operand w a") (auto intro!: quiet_intros quiet_metrics)

lemma quiet_cases [quiet_intros]:
  "quiet st T f \<Longrightarrow> (\<And>x. quiet st T (g x)) \<Longrightarrow> quiet st T (case v of None \<Rightarrow> f | Some x \<Rightarrow> g x)"
  "(\<And>x y. quiet st T (h x y)) \<Longrightarrow> quiet st T (case p of (x, y) \<Rightarrow> h x y)"
  "(b \<Longrightarrow> quiet st T f) \<Longrightarrow> (\<not> b \<Longrightarrow> quiet st T f') \<Longrightarrow> quiet st T (if b then f else f')"
  by (auto split: option.split prod.split)

lemma settles_metrics:
  "settles st (Touch_Metric m) (metric_series np st m)" "settles st (Touch_Rolling m w a) (rolling_metric np st m w a)"
  unfolding settles_def using metric_series_touches rolling_metric_touches by blast+

lemma good_give: "good st (give x)"
  by (simp add: good_def give_def)

lemma good_metrics:
  assumes "store_ok st"
  shows "good st (metric_series np st m)" "good st (rolling_metric np st m w a)"
proof -
  have cut: "cut_at st (length (fs_rows st))" using assms by (simp add: cut_at_def session_end_def store_ok_dates)
  show "good st (metric_series np st m)" by (rule agrees_good[OF agrees_series[OF metric_series_cut[OF cut]]])
  show "good st (rolling_metric np st m w a)" by (rule agrees_good[OF agrees_series[OF rolling_metric_cut[OF cut]]])
qed

lemma settles_values:
  assumes "store_ok st"
  shows "settles st (Touch_Metric m) (current_metric np st m i)" "settles st (operand_touch m w a) (condition_series_value np st m w a i)"
proof -
  show metric: "settles st (Touch_Metric m) (current_metric np st m i)"
    unfolding current_metric_def by (intro settles_first settles_metrics good_metrics assms good_give)
  show "settles st (operand_touch m w a) (condition_series_value np st m w a i)"
    unfolding condition_series_value_def operand_touch_def
    using metric by (cases "rolling_operand w a") (auto intro!: settles_first settles_metrics good_metrics assms good_give)
qed

lemma base_matches_quiet: "quiet st (touches cond) (base_condition_matches np st cond i)"
proof (cases "boolean_comparison (cd_left cond)")
  case (Some rule)
  then show ?thesis
    unfolding base_condition_matches_def boolean_comparison_matches_def
    by (cases rule; cases "flag_is_asserted cond") (auto simp: touches_def intro!: quiet_intros)
next
  case no_flag: None
  show ?thesis
  proof (cases "boolean_window_rule (cd_left cond)")
    case (Some rule)
    then show ?thesis
      unfolding base_condition_matches_def boolean_window_matches_def
      by (cases rule; cases "flag_is_asserted cond") (auto simp: touches_def no_flag intro!: quiet_intros)
  next
    case None
    have operands: "quiet st (touches cond) (comparison_operands np st cond i)"
      unfolding comparison_operands_def
      by (cases "cd_right cond") (auto simp: touches_def no_flag None intro!: quiet_intros)
    have cross: "quiet st (touches cond) (crosses np st cond i l r)" for l r
      unfolding crosses_def Let_def
      by (cases "cd_right cond") (auto simp: touches_def no_flag None intro!: quiet_intros)
    show ?thesis
      unfolding base_condition_matches_def no_flag None option.case by (intro quiet_intros operands cross)
  qed
qed

lemma settles_pair:
  assumes "settles st u m" "good st m" "settles st v k" "good st k" "t \<in> {u, v}"
  shows "settles st t (and_then m (\<lambda>x. and_then k (\<lambda>y. give (g x y))))"
proof (cases "t = u")
  case True
  show ?thesis unfolding True by (intro settles_first good_then good_give assms)
next
  case False
  then have "t = v" using assms(5) by simp
  show ?thesis unfolding \<open>t = v\<close> by (rule settles_later) (intro settles_first good_give assms)+
qed

lemma base_matches_settle:
  assumes ok: "store_ok st" and i: "i < length (fs_rows st)" and t: "t \<in> touches cond"
  shows "settles st t (base_condition_matches np st cond i)"
proof -
  have cut: "cut_at st (length (fs_rows st))" using ok by (simp add: cut_at_def session_end_def store_ok_dates)
  note good = current_metric_agrees[OF cut i, THEN agrees_good] condition_series_agrees[OF cut i, THEN agrees_good]
    crosses_agrees[OF cut i, THEN agrees_good] comparison_operands_agrees[OF cut i, THEN agrees_good] good_give
  show ?thesis
  proof (cases "boolean_comparison (cd_left cond)")
    case (Some rule)
    then show ?thesis
      unfolding base_condition_matches_def boolean_comparison_matches_def using t
      by (cases rule; cases "flag_is_asserted cond")
        (auto simp: touches_def intro!: settles_pair settles_values ok good)
  next
    case no_flag: None
    show ?thesis
    proof (cases "boolean_window_rule (cd_left cond)")
      case (Some rule)
      then show ?thesis
        unfolding base_condition_matches_def boolean_window_matches_def using t
        by (cases rule; cases "flag_is_asserted cond")
          (auto simp: touches_def no_flag intro!: settles_pair settles_values ok good)
    next
      case None
      have "settles st t (comparison_operands np st cond i)"
      proof (cases "cd_right cond")
        case (Metric r)
        then show ?thesis using t
          unfolding comparison_operands_def by (auto simp: touches_def no_flag None intro!: settles_pair settles_values ok good)
      qed (use t in \<open>auto simp: comparison_operands_def touches_def no_flag None intro!: settles_first settles_values ok good\<close>)
      then show ?thesis
        unfolding base_condition_matches_def no_flag None option.case
        by (rule settles_first) (auto intro!: good split: option.split)
    qed
  qed
qed

lemma quiet_all: "(\<And>k. quiet st T (f k)) \<Longrightarrow> quiet st T (lookup_all f ks)"
proof (induction ks)
  case (Cons k ks)
  have "lookup_all f (k # ks) = and_then (f k) (\<lambda>v. and_then (lookup_all f ks) (\<lambda>vs. give (v # vs)))"
    by (auto simp: and_then_def give_def split: prod.split)
  with Cons show ?case by (auto intro!: quiet_intros)
qed (simp add: quiet_def)

lemma lookup_all_append:
  "lookup_all f (ks @ ls) c = (case lookup_all f ks c of (vs, c1) \<Rightarrow> case lookup_all f ls c1 of (ws, c2) \<Rightarrow> (vs @ ws, c2))"
  by (induction ks arbitrary: c) (auto split: prod.split)

lemma length_lookup_all: "length (fst (lookup_all f ks c)) = length ks"
  by (induction ks arbitrary: c) (simp_all add: case_prod_beta)

text \<open>The rows after the cut add nothing to the cache.\<close>

lemma all_rows_cut:
  assumes cut: "cut_at st n" and n: "0 < n" and c: "cache_ok st c"
    and all: "lookup_all (base_condition_matches np st cond) [0..<length (fs_rows st)] c = (ms, c')"
  shows "lookup_all (base_condition_matches np (cut_store n st) cond) [0..<n] (cut_cache n c) = (take n ms, cut_cache n c')"
    and "cache_ok st c'" and "grows c c'" and "length ms = length (fs_rows st)"
proof -
  let ?B = "base_condition_matches np st cond" and ?N = "length (fs_rows st)"
  have ok: "store_ok st" and le: "n \<le> ?N" using cut session_end_le[of "fs_dates st" n] by (simp_all add: cut_at_def store_ok_dates)
  obtain vs c1 where vs: "lookup_all ?B [0..<n] c = (vs, c1)" by fastforce
  have "agrees st n (=) (lookup_all ?B [0..<n]) (lookup_all (base_condition_matches np (cut_store n st) cond) [0..<n])"
    by (intro agree_intros cut) simp
  then obtain us where "lookup_all (base_condition_matches np (cut_store n st) cond) [0..<n] (cut_cache n c) = (us, cut_cache n c1)"
    "vs = us" "cache_ok st c1" "grows c c1"
    using c vs by (auto simp: agrees_def prod_eq_iff)
  then have before: "lookup_all (base_condition_matches np (cut_store n st) cond) [0..<n] (cut_cache n c) = (vs, cut_cache n c1)"
    "cache_ok st c1" "grows c c1"
    by simp_all
  have "touched st t c1" if t: "t \<in> touches cond" for t
  proof -
    have "settles st t (?B 0)" using ok n le t by (intro base_matches_settle) auto
    moreover have "agrees st n (=) (lookup_all ?B [Suc 0..<n]) (lookup_all (base_condition_matches np (cut_store n st) cond) [Suc 0..<n])"
      by (intro agree_intros cut) simp
    then have "good st (lookup_all ?B [Suc 0..<n])" by (rule agrees_good)
    moreover have "good st (?B 0)" by (rule agrees_good[OF base_matches_agrees[OF cut n]])
    ultimately have "settles st t (and_then (?B 0) (\<lambda>v. and_then (lookup_all ?B [Suc 0..<n]) (\<lambda>vs. give (v # vs))))"
      by (intro settles_first good_then good_give)
    moreover have "lookup_all ?B [0..<n] = and_then (?B 0) (\<lambda>v. and_then (lookup_all ?B [Suc 0..<n]) (\<lambda>vs. give (v # vs)))"
      using n by (auto simp: upt_conv_Cons and_then_def give_def split: prod.split)
    ultimately show ?thesis using c vs by (metis settles_def snd_conv)
  qed
  then have "snd (lookup_all ?B [n..<?N] c1) = c1"
    using quiet_all[of st "touches cond" ?B "[n..<?N]"] base_matches_quiet[of st cond np] by (simp add: quiet_def)
  moreover have "[0..<?N] = [0..<n] @ [n..<?N]" using le by (metis le0 le_add_diff_inverse upt_add_eq_append)
  ultimately obtain ws where "ms = vs @ ws" "c' = c1" using all vs lookup_all_append[of ?B "[0..<n]" "[n..<?N]" c]
    by (metis (no_types, lifting) case_prod_conv prod.collapse prod.inject)
  moreover have "length vs = n" using vs length_lookup_all[of ?B "[0..<n]" c] by simp
  ultimately show "lookup_all (base_condition_matches np (cut_store n st) cond) [0..<n] (cut_cache n c) = (take n ms, cut_cache n c')"
    "cache_ok st c'" "grows c c'" using before by simp_all
  show "length ms = ?N" using all length_lookup_all[of ?B "[0..<?N]" c] by simp
qed

lemma streak_column_cut:
  assumes "cut_at st n" and "length ms = length (fs_rows st)"
  shows "streak_column (cut_store n st) k (take n ms) = take n (streak_column st k ms)" "column_ok st (streak_column st k ms)"
proof -
  have "causal (streaks k)" unfolding streaks_def by (rule causal_scan)
  then show "streak_column (cut_store n st) k (take n ms) = take n (streak_column st k ms)"
    using assms session_end_le[of "fs_dates st" n] by (simp add: streak_column_def per_ticker_cut cut_at_def store_ok_dates)
  show "column_ok st (streak_column st k ms)" using assms by (simp add: column_ok_def streak_column_def cut_at_def store_ok_dates)
qed

lemma condition_matches_agrees [agree_intros]:
  assumes cut: "cut_at st n" and i: "i < n"
  shows "agrees st n (=) (condition_matches np st cond i) (condition_matches np (cut_store n st) cond i)"
proof (cases "cd_consecutive cond")
  case None
  then show ?thesis by (simp add: condition_matches_def base_matches_agrees cut i)
next
  case (Some k)
  have rows: "length (take n (fs_rows st)) = n" using cut session_end_le[of "fs_dates st" n] by (simp add: cut_at_def store_ok_dates)
  show ?thesis
    unfolding agrees_def
  proof (intro allI impI)
    fix c
    assume c: "cache_ok st c"
    obtain ms c' where all: "lookup_all (base_condition_matches np st (cond\<lparr>cd_consecutive := None\<rparr>)) [0..<length (fs_rows st)] c = (ms, c')"
      by fastforce
    note rows_cut = all_rows_cut[OF cut _ c all]
    have "columns_ok st (dset cond (streak_column st k ms) (ch_conditions c'))"
      using rows_cut i streak_column_cut(2)[OF cut, of ms k] by (intro columns_ok_dset) (auto simp: cache_ok_def)
    then show "fst (condition_matches np st cond i c) = fst (condition_matches np (cut_store n st) cond i (cut_cache n c))
        \<and> snd (condition_matches np (cut_store n st) cond i (cut_cache n c)) = cut_cache n (snd (condition_matches np st cond i c))
        \<and> cache_ok st (snd (condition_matches np st cond i c)) \<and> grows c (snd (condition_matches np st cond i c))"
      using rows_cut rows i c streak_column_cut(1)[OF cut, of ms k]
      by (simp add: condition_matches_def Some dget_cut_columns and_then_def all Let_def dset_cut_columns cut_cache_update
          cache_ok_update split: option.split) (auto simp: grows_def)
  qed
qed

lemma margin_agrees [agree_intros]:
  "cut_at st n \<Longrightarrow> i < n \<Longrightarrow> agrees st n (=) (condition_margin np st cond i) (condition_margin np (cut_store n st) cond i)"
  unfolding condition_margin_def by (intro agree_intros; assumption)

lemma default_score_agrees [agree_intros]:
  "cut_at st n \<Longrightarrow> i < n \<Longrightarrow>
   agrees st n (=) (default_entry_score np st i fallback conds) (default_entry_score np (cut_store n st) i fallback conds)"
  unfolding default_entry_score_def Let_def by (intro agree_intros; assumption)

end
