(* ===== verification/Fs_Actions.thy ===== *)
theory Fs_Actions
  imports Fs_Evaluate
begin

text \<open>
  The action generator for structured rules: \<open>_compiled_actions\<close> of \<^verbatim>\<open>nodes/backtest_features.py\<close>.
  It walks the sessions in order; in each one it evaluates entries and exits bar by bar, applies the
  cross-sectional cuts, ranks the entries that are left, closes what has to be closed and fills the free
  slots.  \<open>Holding\<close> is the list \<^verbatim>\<open>[in_position, entry_price, highest_close, sessions_held]\<close>.
\<close>

section \<open>Positions and slots\<close>

definition DISABLED_TAKE_PROFIT_PCT :: rat where "DISABLED_TAKE_PROFIT_PCT = 10"

definition fixed_risk_exit :: "pyfloat \<Rightarrow> pyfloat \<Rightarrow> CandidateParameters \<Rightarrow> bool" where
  "fixed_risk_exit close entry_close parameters \<longleftrightarrow>
     (if entry_close \<le> Fin 0 then False
      else if 0 < cp_stop_loss_pct parameters \<and> close \<le> entry_close * Fin (1 - cp_stop_loss_pct parameters) then True
      else 0 < cp_take_profit_pct parameters \<and> cp_take_profit_pct parameters < DISABLED_TAKE_PROFIT_PCT
        \<and> entry_close * Fin (1 + cp_take_profit_pct parameters) \<le> close)"

definition slot_priority :: "pyfloat \<Rightarrow> string \<Rightarrow> rat \<times> string" where
  "slot_priority score ticker = (case score of Fin s \<Rightarrow> - s | _ \<Rightarrow> 0, ticker)"

record Holding =
  hd_in_position :: bool
  hd_entry :: pyfloat
  hd_highest :: pyfloat
  hd_sessions :: nat

definition no_holding :: Holding where
  "no_holding = \<lparr>hd_in_position = False, hd_entry = Fin 0, hd_highest = Fin 0, hd_sessions = 0\<rparr>"

type_synonym holdings = "(string, Holding) dict"

definition holding_of :: "holdings \<Rightarrow> string \<Rightarrow> Holding" where
  "holding_of states ticker = (case dget states ticker of Some h \<Rightarrow> h | None \<Rightarrow> no_holding)"

definition held :: "holdings \<Rightarrow> nat" where
  "held states = length (filter (\<lambda>(t, h). hd_in_position h) states)"

text \<open>A row that matched an entry: row, ticker, close, score.\<close>

type_synonym candidate = "nat \<times> string \<times> pyfloat \<times> pyfloat"

record RankedActions =
  ra_actions :: "int list"
  ra_scores :: series

section \<open>One bar\<close>

text \<open>\<^verbatim>\<open>states.setdefault(ticker, ...)\<close>, with the peak and the age of an open position brought up to date.\<close>

definition observed :: "Store \<Rightarrow> holdings \<Rightarrow> nat \<Rightarrow> holdings" where
  "observed st states i =
     (let ticker = fs_tickers st ! i; h = holding_of states ticker;
          h' = (if hd_in_position h
                then h\<lparr>hd_highest := py_max (hd_highest h) (fs_close st ! i), hd_sessions := Suc (hd_sessions h)\<rparr> else h)
      in dset ticker h' states)"

definition ranking_metric :: "StrategyIR \<Rightarrow> string option" where
  "ranking_metric ir = (case ir_ranking_metric ir of Some (c # m) \<Rightarrow> Some (c # m) | _ \<Rightarrow> None)"

definition entry_score :: "Numpy \<Rightarrow> Store \<Rightarrow> StrategyIR \<Rightarrow> Condition list \<Rightarrow> (string \<times> rat) option \<Rightarrow> nat \<Rightarrow> pyfloat option lookup" where
  "entry_score np st ir entry_conditions fallback i =
     (case ranking_metric ir of
        Some metric \<Rightarrow>
          and_then (current_metric np st metric i) (\<lambda>measured.
          give (map_option (\<lambda>v. Fin (if ir_ranking_ascending ir then -1 else 1) * v) measured))
      | None \<Rightarrow> and_then (default_entry_score np st i fallback entry_conditions) (\<lambda>score. give (Some score)))"

definition entry_candidate ::
    "Numpy \<Rightarrow> Store \<Rightarrow> StrategyIR \<Rightarrow> Condition list \<Rightarrow> (string \<times> rat) option \<Rightarrow> nat \<Rightarrow> candidate option lookup" where
  "entry_candidate np st ir entry_conditions fallback i =
     and_then (all_match (\<lambda>cond. condition_matches np st cond i) entry_conditions) (\<lambda>matches.
       if matches then
         and_then (entry_score np st ir entry_conditions fallback i) (\<lambda>score.
         give (map_option (\<lambda>v. (i, fs_tickers st ! i, fs_close st ! i, v)) score))
       else give None)"

text \<open>Rule exit, trailing stop, mirror of the fixed stop and target, time exit.\<close>

definition exit_reached ::
    "Numpy \<Rightarrow> Store \<Rightarrow> StrategyIR \<Rightarrow> CandidateParameters \<Rightarrow> Condition list \<Rightarrow> Holding \<Rightarrow> nat \<Rightarrow> bool lookup" where
  "exit_reached np st ir parameters exit_conditions h i =
     and_then (if exit_conditions = [] then give False else all_match (\<lambda>cond. condition_matches np st cond i) exit_conditions)
       (\<lambda>exit_match.
         let close = fs_close st ! i;
             trailing_stop = (Fin 0 < hd_highest h \<and> close < hd_highest h * Fin (1 - cp_trailing_stop_pct parameters));
             fixed_stop = fixed_risk_exit close (hd_entry h) parameters;
             holding_exit = (case ir_holding_days ir of None \<Rightarrow> False | Some days \<Rightarrow> days \<le> hd_sessions h)
         in give (exit_match \<or> trailing_stop \<or> fixed_stop \<or> holding_exit))"

definition bar_step ::
    "Numpy \<Rightarrow> Store \<Rightarrow> StrategyIR \<Rightarrow> CandidateParameters \<Rightarrow> Condition list \<Rightarrow> Condition list \<Rightarrow> (string \<times> rat) option
     \<Rightarrow> nat \<Rightarrow> holdings \<times> candidate list \<times> (nat \<times> string) list \<Rightarrow> (holdings \<times> candidate list \<times> (nat \<times> string) list) lookup" where
  "bar_step np st ir parameters entry_conditions exit_conditions fallback i s =
     (case s of (states0, eligible, exits) \<Rightarrow>
        let ticker = fs_tickers st ! i; in_position = hd_in_position (holding_of states0 ticker);
            states = observed st states0 i in
        and_then (entry_candidate np st ir entry_conditions fallback i) (\<lambda>candidate.
        and_then (if in_position then exit_reached np st ir parameters exit_conditions (holding_of states ticker) i else give False)
          (\<lambda>leaves.
          give (states, eligible @ (case candidate of Some x \<Rightarrow> [x] | None \<Rightarrow> []),
                exits @ (if leaves then [(i, ticker)] else [])))))"

fun fold_lookup :: "('k \<Rightarrow> 's \<Rightarrow> 's lookup) \<Rightarrow> 'k list \<Rightarrow> 's \<Rightarrow> 's lookup" where
  "fold_lookup f [] s c = (s, c)"
| "fold_lookup f (k # ks) s c = (case f k s c of (s', c') \<Rightarrow> fold_lookup f ks s' c')"

section \<open>One session\<close>

text \<open>A cross-sectional cut keeps the best share of the names that have a value.\<close>

definition cut_names :: "Condition \<Rightarrow> (string \<times> pyfloat) list \<Rightarrow> string list" where
  "cut_names cond scored =
     (let top = cd_operator cond \<in> {Op_GT, Op_GTE};
          ranked = sort_key (\<lambda>(t, v). case v of Fin r \<Rightarrow> if top then - r else r | _ \<Rightarrow> 0) scored;
          share = (case cd_universe_rank_pct cond of Some (Fin p) \<Rightarrow> p | _ \<Rightarrow> 0);
          cutoff = max 1 (trunc (of_nat (length scored) * share))
      in map fst (take (nat cutoff) ranked))"

definition rank_cut :: "Numpy \<Rightarrow> Store \<Rightarrow> nat list \<Rightarrow> Condition \<Rightarrow> candidate list \<Rightarrow> candidate list lookup" where
  "rank_cut np st rows cond eligible =
     and_then (lookup_all (current_metric np st (cd_left cond)) rows) (\<lambda>vals.
       let scored = List.map_filter (\<lambda>(i, v). map_option (\<lambda>x. (fs_tickers st ! i, x)) v) (zip rows vals);
           kept = cut_names cond scored
       in give (filter (\<lambda>(i, t, close, score). t \<in> set kept) eligible))"

definition by_priority :: "candidate list \<Rightarrow> candidate list" where
  "by_priority eligible = sort_key (\<lambda>(i, t, close, score). slot_priority score t) eligible"

text \<open>The exits, each ticker once and only while it is held.\<close>

definition exit_step :: "nat \<times> string \<Rightarrow> holdings \<times> string list \<times> int list \<Rightarrow> holdings \<times> string list \<times> int list" where
  "exit_step row s =
     (case (row, s) of ((i, ticker), (states, exited, actions)) \<Rightarrow>
        if ticker \<in> set exited \<or> \<not> hd_in_position (holding_of states ticker) then s
        else (dset ticker no_holding states, exited @ [ticker], actions[i := -1]))"

text \<open>The entries, until the slots are full.\<close>

fun fill_slots :: "nat \<Rightarrow> string list \<Rightarrow> candidate list \<Rightarrow> nat \<Rightarrow> holdings \<times> RankedActions \<Rightarrow> holdings \<times> RankedActions" where
  "fill_slots max_positions exited [] n s = s"
| "fill_slots max_positions exited ((i, ticker, close, score) # entries) n s =
     (case s of (states, acts) \<Rightarrow>
        if max_positions \<le> n then s
        else if ticker \<in> set exited \<or> hd_in_position (holding_of states ticker) then fill_slots max_positions exited entries n s
        else fill_slots max_positions exited entries (Suc n)
          (dset ticker \<lparr>hd_in_position = True, hd_entry = close, hd_highest = close, hd_sessions = 0\<rparr> states,
           acts\<lparr>ra_actions := (ra_actions acts)[i := 1], ra_scores := (ra_scores acts)[i := score]\<rparr>))"

definition rotation_day :: "StrategyIR \<Rightarrow> CandidateParameters \<Rightarrow> nat option \<Rightarrow> nat \<Rightarrow> bool" where
  "rotation_day ir parameters reset_index date_number \<longleftrightarrow>
     ir_scheduled_rotation ir \<and> (Some date_number = reset_index \<or> date_number mod cp_rebalance_interval_days parameters = 0)"

text \<open>On a rotation day every held name outside the target leaves.\<close>

definition rotation_exits :: "Store \<Rightarrow> nat list \<Rightarrow> string list \<Rightarrow> holdings \<Rightarrow> holdings \<times> (nat \<times> string) list" where
  "rotation_exits st rows target states =
     fold (\<lambda>i (states, exits).
         let ticker = fs_tickers st ! i; h = holding_of states ticker
         in (dset ticker h states, exits @ (if hd_in_position h \<and> ticker \<notin> set target then [(i, ticker)] else [])))
       rows (states, [])"

definition settle_session ::
    "Store \<Rightarrow> StrategyIR \<Rightarrow> CandidateParameters \<Rightarrow> bool \<Rightarrow> nat list \<Rightarrow> candidate list \<Rightarrow> (nat \<times> string) list
     \<Rightarrow> holdings \<times> RankedActions \<Rightarrow> holdings \<times> RankedActions" where
  "settle_session st ir parameters rotation rows eligible exits s =
     (case s of (states, acts) \<Rightarrow>
        let ranked = by_priority eligible;
            target = (if rotation then map (\<lambda>(i, t, close, score). t) (take (cp_max_positions parameters) ranked) else []);
            (states1, more_exits) = (if rotation then rotation_exits st rows target states else (states, []));
            (states2, exited, actions) = fold exit_step (exits @ more_exits) (states1, [], ra_actions acts);
            entries = (if rotation then filter (\<lambda>(i, t, close, score). t \<in> set target) ranked else ranked)
        in fill_slots (cp_max_positions parameters) exited entries (held states2) (states2, acts\<lparr>ra_actions := actions\<rparr>))"

definition session_step ::
    "Numpy \<Rightarrow> Store \<Rightarrow> StrategyIR \<Rightarrow> CandidateParameters \<Rightarrow> nat option \<Rightarrow> nat \<times> nat \<times> nat
     \<Rightarrow> holdings \<times> RankedActions \<Rightarrow> (holdings \<times> RankedActions) lookup" where
  "session_step np st ir parameters reset_index session s =
     (case session of (date_number, start, stop) \<Rightarrow>
        let entry_conditions = filter (\<lambda>c. cd_universe_rank_pct c = None) (ir_entry_conditions ir);
            rank_conditions = filter (\<lambda>c. cd_universe_rank_pct c \<noteq> None) (ir_entry_conditions ir);
            exit_conditions = filter (\<lambda>c. cd_universe_rank_pct c = None) (ir_exit_conditions ir);
            fallback = fallback_rank_metric rank_conditions;
            states = (if Some date_number = reset_index then [] else fst s);
            rows = [start..<stop] in
        and_then (fold_lookup (bar_step np st ir parameters entry_conditions exit_conditions fallback) rows (states, [], []))
          (\<lambda>(states1, eligible, exits).
        and_then (fold_lookup (rank_cut np st rows) rank_conditions eligible) (\<lambda>eligible1.
        give (settle_session st ir parameters (rotation_day ir parameters reset_index date_number) rows eligible1 exits (states1, snd s)))))"

section \<open>The whole history\<close>

definition sessions_of :: "Store \<Rightarrow> (nat \<times> nat \<times> nat) list" where
  "sessions_of st = enumerate 0 (date_ranges 0 (fs_dates st))"

definition session_index :: "Store \<Rightarrow> string option \<Rightarrow> nat option" where
  "session_index st session =
     (case session of None \<Rightarrow> None
      | Some d \<Rightarrow> dget (fold (\<lambda>(k, a, b). dset (fs_dates st ! a) k) (sessions_of st) []) d)"

definition no_actions :: "Store \<Rightarrow> RankedActions" where
  "no_actions st = \<lparr>ra_actions = replicate (length (fs_rows st)) 0, ra_scores = replicate (length (fs_rows st)) NaN\<rparr>"

definition sessions_until :: "Store \<Rightarrow> nat option \<Rightarrow> (nat \<times> nat \<times> nat) list" where
  "sessions_until st stop_index = takeWhile (\<lambda>(k, a, b). case stop_index of None \<Rightarrow> True | Some m \<Rightarrow> k \<le> m) (sessions_of st)"

definition compiled_actions ::
    "Numpy \<Rightarrow> Store \<Rightarrow> StrategyIR \<Rightarrow> CandidateParameters \<Rightarrow> nat option \<Rightarrow> nat option \<Rightarrow> RankedActions lookup" where
  "compiled_actions np st ir parameters reset_index stop_index =
     and_then (fold_lookup (session_step np st ir parameters reset_index) (sessions_until st stop_index) ([], no_actions st))
       (\<lambda>s. give (snd s))"

end
