(* ===== verification/Fs_Features.thy ===== *)
theory Fs_Features
  imports Fs_Volume
begin

text \<open>
  The feature matrix of \<open>PreparedFeatureStore.features\<close> (\<^verbatim>\<open>nodes/backtest_features.py\<close>) and the factor
  arrays of \<open>compute_academic_factor_arrays\<close> (\<^verbatim>\<open>quant_strategy.py\<close>).  The code computes them with prefix
  sums over a whole ticker; a row of the matrix is \<open>FeatureRow\<close>, blank while the window is warming up.
  All of it is causal (\<open>causal_feature_rows\<close>).
\<close>

section \<open>Prefix sums\<close>

text \<open>\<^verbatim>\<open>np.concatenate(([0.0], np.cumsum(xs)))\<close>, for floats and for flags.\<close>

definition prefix_sums :: "series \<Rightarrow> series" where
  "prefix_sums xs = Fin 0 # cumsum xs"

definition prefix_counts :: "bool list \<Rightarrow> nat list" where
  "prefix_counts bs = map (\<lambda>p. length (filter id (take p bs))) [0..<Suc (length bs)]"

definition sum_between :: "series \<Rightarrow> nat \<Rightarrow> nat \<Rightarrow> pyfloat" where
  "sum_between prefix start stop = prefix ! stop - prefix ! start"

section \<open>Factors of the literature\<close>

definition MOMENTUM_LONG_LOOKBACK :: nat where "MOMENTUM_LONG_LOOKBACK = 252"
definition MOMENTUM_SKIP_LOOKBACK :: nat where "MOMENTUM_SKIP_LOOKBACK = 21"
definition REALIZED_VOLATILITY_LOOKBACK :: nat where "REALIZED_VOLATILITY_LOOKBACK = 21"
definition REBALANCE_INTERVAL_DAYS :: nat where "REBALANCE_INTERVAL_DAYS = 21"

record AcademicFactors =
  af_momentum_12_1 :: series
  af_sma_50 :: series
  af_sma_200 :: series
  af_realized_volatility_21d :: series
  af_rebalance_eligible :: "bool list"

definition positive_price :: "pyfloat \<Rightarrow> bool" where
  "positive_price x \<longleftrightarrow> isfinite x \<and> Fin 0 < x"

definition rolling_mean :: "series \<Rightarrow> bool list \<Rightarrow> nat \<Rightarrow> series" where
  "rolling_mean values valid window =
     (let value_prefix = prefix_sums (map2 (\<lambda>x ok. if ok then x else Fin 0) values valid);
          count_prefix = prefix_counts valid
      in map (\<lambda>i. if i < window - 1 then NaN
               else let start = i + 1 - window in
                 if count_prefix ! (i + 1) - count_prefix ! start = window
                 then np_div (sum_between value_prefix start (i + 1)) (Fin (of_nat window)) else NaN)
           [0..<length values])"

definition momentum_12_1 :: "series \<Rightarrow> bool list \<Rightarrow> series" where
  "momentum_12_1 values valid =
     map (\<lambda>i. if i < MOMENTUM_LONG_LOOKBACK then NaN
              else let near = i - MOMENTUM_SKIP_LOOKBACK; far = i - MOMENTUM_LONG_LOOKBACK in
                if valid ! near \<and> valid ! far then np_div (values ! near) (values ! far) - Fin 1 else NaN)
       [0..<length values]"

definition rebalance_days :: "series \<Rightarrow> bool list" where
  "rebalance_days values =
     map (\<lambda>i. MOMENTUM_LONG_LOOKBACK \<le> i \<and> (i - MOMENTUM_LONG_LOOKBACK) mod REBALANCE_INTERVAL_DAYS = 0) [0..<length values]"

definition valid_returns :: "series \<Rightarrow> bool list \<Rightarrow> series" where
  "valid_returns values valid =
     map (\<lambda>i. if 0 < i \<and> valid ! i \<and> valid ! (i - 1) then np_div (values ! i) (values ! (i - 1)) - Fin 1 else NaN) [0..<length values]"

definition realized_volatility_21d :: "Numpy \<Rightarrow> series \<Rightarrow> bool list \<Rightarrow> series" where
  "realized_volatility_21d np values valid =
     (let daily = valid_returns values valid; safe = map (\<lambda>r. if isfinite r then r else Fin 0) daily;
          return_prefix = prefix_sums safe; square_prefix = prefix_sums (map (\<lambda>r. r * r) safe);
          count_prefix = prefix_counts (map isfinite daily); window = Fin (of_nat REALIZED_VOLATILITY_LOOKBACK)
      in map (\<lambda>i. if i < REALIZED_VOLATILITY_LOOKBACK then NaN
               else let start = i + 1 - REALIZED_VOLATILITY_LOOKBACK in
                 if count_prefix ! (i + 1) - count_prefix ! start = REALIZED_VOLATILITY_LOOKBACK
                 then let m = np_div (sum_between return_prefix start (i + 1)) window;
                          variance = np_maximum (Fin 0) (np_div (sum_between square_prefix start (i + 1)) window - m * m)
                      in np_sqrt (np_root np) variance * np_sqrt (np_root np) (Fin 252)
                 else NaN)
           [0..<length values])"

definition compute_academic_factor_arrays :: "Numpy \<Rightarrow> series \<Rightarrow> AcademicFactors" where
  "compute_academic_factor_arrays np closes =
     (let valid = map positive_price closes in
      \<lparr>af_momentum_12_1 = momentum_12_1 closes valid, af_sma_50 = rolling_mean closes valid 50,
       af_sma_200 = rolling_mean closes valid 200, af_realized_volatility_21d = realized_volatility_21d np closes valid,
       af_rebalance_eligible = rebalance_days closes\<rparr>)"

section \<open>One row of the matrix\<close>

record FeatureRow =
  ft_ready :: bool
  ft_average :: pyfloat
  ft_short_average :: pyfloat
  ft_medium_average :: pyfloat
  ft_high :: pyfloat
  ft_low :: pyfloat
  ft_previous :: pyfloat
  ft_trend :: pyfloat
  ft_medium_return :: pyfloat
  ft_volatility :: pyfloat
  ft_long_average :: pyfloat
  ft_long_high :: pyfloat
  ft_long_return :: pyfloat
  ft_long_drawdown :: pyfloat
  ft_rolling_sharpe :: pyfloat
  ft_volume_ratio :: pyfloat
  ft_return_to_volatility :: pyfloat
  ft_pullback :: pyfloat
  ft_momentum_12_1 :: pyfloat
  ft_sma_50 :: pyfloat
  ft_sma_200 :: pyfloat
  ft_realized_volatility_21d :: pyfloat
  ft_rebalance_eligible :: bool

definition blank_row :: FeatureRow where
  "blank_row =
     \<lparr>ft_ready = False, ft_average = Fin 0, ft_short_average = Fin 0, ft_medium_average = Fin 0, ft_high = Fin 0,
      ft_low = Fin 0, ft_previous = Fin 0, ft_trend = Fin 0, ft_medium_return = Fin 0, ft_volatility = Fin 0,
      ft_long_average = Fin 0, ft_long_high = Fin 0, ft_long_return = Fin 0, ft_long_drawdown = Fin 0,
      ft_rolling_sharpe = Fin 0, ft_volume_ratio = Fin 0, ft_return_to_volatility = Fin 0, ft_pullback = Fin 0,
      ft_momentum_12_1 = Fin 0, ft_sma_50 = Fin 0, ft_sma_200 = Fin 0, ft_realized_volatility_21d = Fin 0,
      ft_rebalance_eligible = False\<rparr>"

definition safe_return :: "pyfloat \<Rightarrow> pyfloat \<Rightarrow> pyfloat" where
  "safe_return v base = (if base \<noteq> Fin 0 then np_div v base - Fin 1 else Fin 0)"

definition safe_ratio :: "bool \<Rightarrow> pyfloat \<Rightarrow> pyfloat \<Rightarrow> pyfloat" where
  "safe_ratio positive numerator denominator =
     (if (if positive then Fin 0 < denominator else denominator \<noteq> Fin 0) then np_div numerator denominator else Fin 0)"

text \<open>The extreme of the bars before bar \<open>p\<close>: of all of them at first, then of the last \<open>window\<close>.\<close>

definition prior_rolling_extreme :: "series \<Rightarrow> nat \<Rightarrow> bool \<Rightarrow> series" where
  "prior_rolling_extreme values window maximum =
     (let extreme = (if maximum then np_max else np_min) in
      if length values \<le> 1 \<or> window = 0 then replicate (length values) (Fin 0)
      else map (\<lambda>p. if p = 0 then Fin 0 else if p < window then extreme (take p values)
                     else extreme (take window (drop (p - window) values))) [0..<length values])"

definition simple_returns :: "series \<Rightarrow> series" where
  "simple_returns closes =
     map (\<lambda>i. if 0 < i \<and> closes ! (i - 1) \<noteq> Fin 0 then np_div (closes ! i) (closes ! (i - 1)) - Fin 1 else Fin 0) [0..<length closes]"

definition feature_row :: "Numpy \<Rightarrow> nat \<Rightarrow> series \<Rightarrow> series \<Rightarrow> nat \<Rightarrow> FeatureRow" where
  "feature_row np lookback closes volumes local =
     (let academic = compute_academic_factor_arrays np closes;
          close_prefix = prefix_sums closes; volume_prefix = prefix_sums volumes;
          returns = simple_returns closes;
          return_prefix = prefix_sums returns; return_square_prefix = prefix_sums (map (\<lambda>r. r * r) returns);
          long_limit = max 60 lookback;
          main_high = prior_rolling_extreme closes lookback True ! local;
          main_low = prior_rolling_extreme closes lookback False ! local;
          long_high = prior_rolling_extreme closes long_limit True ! local;
          window = min lookback local; start = local - window;
          short_window = min (max 3 (window div 4)) local; medium_window = min (max 5 (window div 2)) local;
          long_window = min long_limit local;
          mean_of = (\<lambda>prefix w. np_div (sum_between prefix (local - w) local) (Fin (of_nat w)));
          average = mean_of close_prefix window;
          close = closes ! local;
          trend = safe_return close (closes ! start);
          volatility = safe_ratio False (main_high - main_low) average;
          return_count = window - 1;
          mean_return = (if 0 < return_count
            then np_div (sum_between return_prefix (start + 1) local) (Fin (of_nat return_count)) else Fin 0);
          variance = (if 0 < return_count
            then np_maximum (Fin 0) (np_div (sum_between return_square_prefix (start + 1) local) (Fin (of_nat return_count))
                                     - mean_return * mean_return) else Fin 0);
          average_volume = mean_of volume_prefix window
      in \<lparr>ft_ready = True, ft_average = average, ft_short_average = mean_of close_prefix short_window,
          ft_medium_average = mean_of close_prefix medium_window, ft_high = main_high, ft_low = main_low,
          ft_previous = closes ! (local - 1), ft_trend = trend,
          ft_medium_return = safe_return close (closes ! (local - medium_window)), ft_volatility = volatility,
          ft_long_average = mean_of close_prefix long_window, ft_long_high = long_high,
          ft_long_return = safe_return close (closes ! (local - long_window)),
          ft_long_drawdown = safe_ratio True (long_high - close) long_high,
          ft_rolling_sharpe = (if Fin 0 < variance then np_div mean_return (np_sqrt (np_root np) variance) else Fin 0),
          ft_volume_ratio = (if Fin 0 < average_volume then np_div (volumes ! local) average_volume else Fin 1),
          ft_return_to_volatility = safe_ratio True trend volatility,
          ft_pullback = safe_ratio True (main_high - close) main_high,
          ft_momentum_12_1 = af_momentum_12_1 academic ! local, ft_sma_50 = af_sma_50 academic ! local,
          ft_sma_200 = af_sma_200 academic ! local,
          ft_realized_volatility_21d = af_realized_volatility_21d academic ! local,
          ft_rebalance_eligible = af_rebalance_eligible academic ! local\<rparr>)"

text \<open>A ticker with one bar is skipped, and so is every bar with fewer than \<open>lookback\<close> bars before it.\<close>

definition feature_rows :: "Numpy \<Rightarrow> nat \<Rightarrow> (pyfloat \<times> pyfloat) list \<Rightarrow> FeatureRow list" where
  "feature_rows np lookback bars =
     (let closes = map fst bars; volumes = map snd bars in
      if length bars \<le> 1 then replicate (length bars) blank_row
      else map (\<lambda>local. if local < lookback then blank_row else feature_row np lookback closes volumes local) [0..<length bars])"

definition features :: "Numpy \<Rightarrow> Store \<Rightarrow> nat \<Rightarrow> FeatureRow list" where
  "features np st lookback = per_ticker (fs_tickers st) (feature_rows np lookback) blank_row (zip (fs_close st) (fs_volume st))"

section \<open>The matrix reads no later bar\<close>

lemma prefix_sums_take: "q \<le> n \<Longrightarrow> n \<le> length xs \<Longrightarrow> prefix_sums (take n xs) ! q = prefix_sums xs ! q"
proof -
  assume "q \<le> n" "n \<le> length xs"
  moreover have "cumsum (take n xs) = take n (cumsum xs)"
    using causal_scan[of "\<lambda>s x. (s + x, s + x)" "Fin 0"] by (simp add: cumsum_def causal_def)
  ultimately show ?thesis by (cases q) (simp_all add: prefix_sums_def)
qed

lemma prefix_counts_take: "q \<le> n \<Longrightarrow> n \<le> length bs \<Longrightarrow> prefix_counts (take n bs) ! q = prefix_counts bs ! q"
proof -
  assume q: "q \<le> n" "n \<le> length bs"
  then have "prefix_counts (take n bs) ! q = length (filter id (take q (take n bs)))"
    unfolding prefix_counts_def by (subst nth_map) (simp_all del: upt_Suc)
  also have "\<dots> = prefix_counts bs ! q"
    using q unfolding prefix_counts_def by (subst nth_map) (simp_all del: upt_Suc add: min_absorb1)
  finally show ?thesis .
qed

text \<open>A row-wise table is causal when each row is the same on the bars up to it.\<close>

lemma causal_table:
  assumes "\<And>xs. K xs = map (row xs) [0..<length xs]" and "\<And>xs p. p < length xs \<Longrightarrow> row (take (Suc p) xs) p = row xs p"
  shows "causal K"
  by (rule causal_by_nth[where g = "\<lambda>p ys. row ys p"]) (simp_all add: assms)

lemma rolling_mean_take:
  "n \<le> length xs \<Longrightarrow> length valid = length xs \<Longrightarrow> 0 < w \<Longrightarrow> p < n \<Longrightarrow>
   rolling_mean (take n xs) (take n valid) w ! p = rolling_mean xs valid w ! p"
  by (simp add: rolling_mean_def Let_def sum_between_def prefix_counts_take prefix_sums_take take_map[symmetric] take_zip[symmetric])

lemma momentum_take: "n \<le> length xs \<Longrightarrow> length valid = length xs \<Longrightarrow> p < n \<Longrightarrow>
   momentum_12_1 (take n xs) (take n valid) ! p = momentum_12_1 xs valid ! p"
  by (simp add: momentum_12_1_def Let_def)

lemma valid_returns_take: "n \<le> length xs \<Longrightarrow> length valid = length xs \<Longrightarrow>
   valid_returns (take n xs) (take n valid) = take n (valid_returns xs valid)"
  by (rule nth_equalityI) (simp_all add: valid_returns_def)

lemma volatility_take: "n \<le> length xs \<Longrightarrow> length valid = length xs \<Longrightarrow> p < n \<Longrightarrow>
   realized_volatility_21d np (take n xs) (take n valid) ! p = realized_volatility_21d np xs valid ! p"
proof -
  assume *: "n \<le> length xs" "length valid = length xs" "p < n"
  have len: "length (valid_returns xs valid) = length xs" by (simp add: valid_returns_def)
  show ?thesis
    using * by (simp add: realized_volatility_21d_def Let_def valid_returns_take sum_between_def take_map
        prefix_counts_take prefix_sums_take len flip: take_map)
qed


lemma prior_extreme_take: "n \<le> length xs \<Longrightarrow> p < n \<Longrightarrow>
   prior_rolling_extreme (take n xs) w maximum ! p = prior_rolling_extreme xs w maximum ! p"
proof -
  assume n: "n \<le> length xs" "p < n"
  have "take w (drop (p - w) (take n xs)) = take w (drop (p - w) xs)" if "w \<le> p"
    using that n by (simp add: drop_take min_absorb1)
  moreover have "take p (take n xs) = take p xs" using n by (simp add: min_absorb1)
  ultimately show ?thesis using n
    by (cases "length xs \<le> 1"; cases "n \<le> 1") (auto simp: prior_rolling_extreme_def Let_def not_less)
qed

lemma simple_returns_take: "n \<le> length xs \<Longrightarrow> simple_returns (take n xs) = take n (simple_returns xs)"
  by (rule nth_equalityI) (simp_all add: simple_returns_def)

lemma academic_take:
  assumes "n \<le> length xs" and "p < n"
  shows "af_momentum_12_1 (compute_academic_factor_arrays np (take n xs)) ! p = af_momentum_12_1 (compute_academic_factor_arrays np xs) ! p"
    "af_sma_50 (compute_academic_factor_arrays np (take n xs)) ! p = af_sma_50 (compute_academic_factor_arrays np xs) ! p"
    "af_sma_200 (compute_academic_factor_arrays np (take n xs)) ! p = af_sma_200 (compute_academic_factor_arrays np xs) ! p"
    "af_realized_volatility_21d (compute_academic_factor_arrays np (take n xs)) ! p =
       af_realized_volatility_21d (compute_academic_factor_arrays np xs) ! p"
    "af_rebalance_eligible (compute_academic_factor_arrays np (take n xs)) ! p =
       af_rebalance_eligible (compute_academic_factor_arrays np xs) ! p"
  using assms
  by (simp_all add: compute_academic_factor_arrays_def Let_def take_map[symmetric] momentum_take rolling_mean_take volatility_take
      rebalance_days_def)

lemma feature_row_take:
  assumes "n \<le> length closes" and "length volumes = length closes" and "local < n"
  shows "feature_row np lookback (take n closes) (take n volumes) local = feature_row np lookback closes volumes local"
proof -
  have sums: "sum_between (prefix_sums (take n xs)) a local = sum_between (prefix_sums xs) a local"
    if "a \<le> n" "length xs = length closes" for a and xs :: series
    using that assms by (simp add: sum_between_def prefix_sums_take)
  have inside: "Suc (local - w) \<le> n" "local - w \<le> n" "local - w < n" for w using assms(3) by auto
  have "simple_returns (take n closes) = take n (simple_returns closes)"
    "map (\<lambda>r. r * r) (take n (simple_returns closes)) = take n (map (\<lambda>r. r * r) (simple_returns closes))"
    "length (simple_returns closes) = length closes"
    using assms by (simp_all add: simple_returns_take take_map) (simp add: simple_returns_def)
  note returns = this
  show ?thesis
    unfolding feature_row_def Let_def using assms
    by (simp add: returns sums inside academic_take prior_extreme_take)
qed


lemma causal_feature_rows [causal_intros]:
  assumes "0 < lookback"
  shows "causal (feature_rows np lookback)"
proof -
  let ?row = "\<lambda>bars local. if local < lookback then blank_row else feature_row np lookback (map fst bars) (map snd bars) local"
  have "feature_rows np lookback bars = map (?row bars) [0..<length bars]" for bars
  proof (cases "length bars \<le> 1")
    case True
    then have "map (?row bars) [0..<length bars] = map (\<lambda>_. blank_row) [0..<length bars]" using assms by (intro map_cong) auto
    with True show ?thesis by (simp add: feature_rows_def Let_def map_replicate_const)
  qed (simp add: feature_rows_def Let_def)
  moreover have "?row (take (Suc p) bars) p = ?row bars p" if "p < length bars" for p bars
    using that by (simp add: feature_row_take take_map[symmetric])
  ultimately show ?thesis by (rule causal_table[where row = ?row])
qed

lemma pit_features [pit_intros]: "0 < lookback \<Longrightarrow> point_in_time (\<lambda>st. features np st lookback)"
  unfolding features_def by (intro pit_intros causal_intros)

end
