(* ===== verification/Fs_Profiles.thy ===== *)
theory Fs_Profiles
  imports Fs_Features Fs_Actions
begin

text \<open>
  The action generators for parameter profiles in \<^verbatim>\<open>nodes/backtest_features.py\<close>: \<open>_profile_actions\<close>, one
  rule per profile and ticker, and \<open>_rotation_profile_actions\<close>, which ranks the whole universe on rotation
  days with \<open>_percentile_ranks\<close>; and \<open>build_ranked_actions\<close>, which picks the generator.
\<close>

section \<open>The rule of a profile\<close>

definition AUTOMATIC_TOURNAMENT_PROFILES :: "string list" where
  "AUTOMATIC_TOURNAMENT_PROFILES = [''relative_momentum_rotation'', ''risk_adjusted_momentum_rotation'', ''trend_leader_rotation'']"

text \<open>A signal: buy, sell, score.\<close>

type_synonym signal = "bool \<times> bool \<times> pyfloat"

definition academic_signal :: "rat \<Rightarrow> FeatureRow \<Rightarrow> pyfloat \<Rightarrow> bool \<Rightarrow> pyfloat \<Rightarrow> signal" where
  "academic_signal threshold row close in_position score =
     (let momentum = ft_momentum_12_1 row; fast = ft_sma_50 row; slow = ft_sma_200 row;
          volatility = ft_realized_volatility_21d row; eligible = ft_rebalance_eligible row in
      if isfinite momentum \<and> isfinite fast \<and> isfinite slow \<and> isfinite volatility
      then (eligible \<and> Fin threshold < momentum \<and> slow \<le> close \<and> slow \<le> fast \<and> volatility \<le> Fin (35 / 100),
            in_position \<and> (close < slow * Fin (95 / 100) \<or> eligible \<and> (momentum \<le> Fin 0 \<or> fast < slow)),
            momentum * Fin 4 + (np_div fast slow - Fin 1) * Fin 2 - volatility)
      else (False, False, score))"

definition hold_signal :: "string \<Rightarrow> FeatureRow \<Rightarrow> pyfloat \<Rightarrow> bool \<Rightarrow> signal option" where
  "hold_signal profile row close in_position =
     (let medium = ft_medium_average row; long = ft_long_average row; long_high = ft_long_high row;
          medium_return = ft_medium_return row; long_return = ft_long_return row; volatility = ft_volatility row;
          long_drawdown = ft_long_drawdown row; sharpe = ft_rolling_sharpe row; volume_ratio = ft_volume_ratio row in
      if profile = ''long_regime_momentum'' then Some
        (long \<le> close \<and> long * Fin (98 / 100) \<le> medium \<and> Fin 0 < long_return,
         in_position \<and> (close < long * Fin (97 / 100) \<or> Fin (18 / 100) < long_drawdown),
         sharpe + long_return * Fin 3 + medium_return * Fin 2 - volatility)
      else if profile = ''quality_trend_hold'' then Some
        (medium \<le> close \<and> long * Fin (97 / 100) \<le> medium \<and> Fin (- 2 / 100) \<le> medium_return \<and> volatility \<le> Fin (28 / 100),
         in_position \<and> (close < medium * Fin (96 / 100) \<or> medium_return < Fin (- 8 / 100)),
         medium_return * Fin 3 + long_return * Fin 2 + sharpe * Fin (1 / 2) - volatility * Fin (1 / 2))
      else if profile = ''volatility_breakout_hold'' then Some
        (Fin 0 < long_high \<and> long_high * Fin (96 / 100) \<le> close \<and> Fin (85 / 100) \<le> volume_ratio
           \<and> volatility \<le> Fin (32 / 100) \<and> Fin 0 \<le> medium_return,
         in_position \<and> (close < medium * Fin (95 / 100) \<or> Fin (2 / 10) < long_drawdown),
         if truthy long_high
         then (np_div close long_high - Fin (96 / 100)) * Fin 6 + medium_return * Fin 3 + volume_ratio * Fin (1 / 10) - volatility
         else Fin (- 999))
      else None)"

definition trend_signal :: "string \<Rightarrow> rat \<Rightarrow> FeatureRow \<Rightarrow> pyfloat \<Rightarrow> bool \<Rightarrow> signal option" where
  "trend_signal profile threshold row close in_position =
     (let average = ft_average row; short = ft_short_average row; medium = ft_medium_average row; high = ft_high row;
          trend = ft_trend row; medium_return = ft_medium_return row; volatility = ft_volatility row;
          long_drawdown = ft_long_drawdown row; sharpe = ft_rolling_sharpe row; volume_ratio = ft_volume_ratio row in
      if profile = ''rolling_sharpe_momentum'' then Some
        (Fin (threshold / 10) \<le> sharpe \<and> medium \<le> close \<and> Fin 0 < trend,
         in_position \<and> (sharpe \<le> Fin 0 \<or> close < medium),
         sharpe + trend * Fin 2 - volatility)
      else if profile = ''dual_sma_trend'' then Some
        (medium < short \<and> average * Fin (98 / 100) < medium \<and> short \<le> close,
         in_position \<and> (short < medium \<or> close < average),
         if truthy medium then medium_return * Fin 3 + (np_div short medium - Fin 1) * Fin 8 else Fin 0)
      else if profile = ''low_vol_momentum'' then Some
        (Fin threshold \<le> trend \<and> Fin 0 \<le> medium_return \<and> volatility \<le> Fin (28 / 100) \<and> medium \<le> close,
         in_position \<and> (close < medium * Fin (96 / 100) \<or> medium_return < Fin (- 6 / 100) \<or> Fin (22 / 100) < long_drawdown),
         trend * Fin 3 + medium_return * Fin 2 - volatility * Fin (3 / 2))
      else if profile = ''breakout_volume'' then Some
        (Fin 0 < high \<and> high * Fin (995 / 1000) \<le> close \<and> Fin threshold \<le> volume_ratio \<and> Fin 0 \<le> trend,
         in_position \<and> close < short,
         if truthy high then (np_div close high - Fin (99 / 100)) * Fin 10 + volume_ratio * Fin (2 / 10) + trend * Fin 2
         else Fin (- 999))
      else None)"

definition reversion_signal :: "string \<Rightarrow> rat \<Rightarrow> FeatureRow \<Rightarrow> pyfloat \<Rightarrow> pyfloat \<Rightarrow> bool \<Rightarrow> signal option" where
  "reversion_signal profile threshold row close rsi in_position =
     (let average = ft_average row; medium = ft_medium_average row; trend = ft_trend row; medium_return = ft_medium_return row;
          volatility = ft_volatility row; sharpe = ft_rolling_sharpe row; pullback = ft_pullback row;
          to_volatility = ft_return_to_volatility row in
      if profile = ''rsi_trend_rebound'' then Some
        (medium \<le> close \<and> Fin 0 \<le> trend \<and> Fin 35 \<le> rsi \<and> rsi \<le> Fin 62 \<and> ft_previous row \<le> close,
         in_position \<and> (Fin 72 \<le> rsi \<or> close < medium),
         medium_return * Fin 3 + np_div (Fin 55 - np_abs (rsi - Fin 45)) (Fin 50) - volatility)
      else if profile = ''mean_reversion_band'' then Some
        (close \<le> average * Fin (1 - max 0 (min (2 / 10) threshold)) \<and> rsi \<le> Fin 45,
         in_position \<and> (medium \<le> close \<or> Fin 60 \<le> rsi),
         pullback * Fin 2 + np_div (Fin 50 - rsi) (Fin 50) - volatility)
      else if profile = ''return_to_volatility'' then Some
        (Fin (threshold * 4) \<le> to_volatility \<and> medium \<le> close,
         in_position \<and> (to_volatility \<le> Fin 0 \<or> close < medium),
         to_volatility + medium_return * Fin 2)
      else if profile = ''cash_preserving_trend'' then Some
        (Fin threshold \<le> trend \<and> Fin (5 / 100) < sharpe \<and> volatility \<le> Fin (3 / 10),
         in_position \<and> (trend < Fin (1 / 100) \<or> sharpe < Fin 0),
         sharpe + trend * Fin 2 - volatility * Fin 2)
      else None)"

definition profile_signal :: "string \<Rightarrow> rat \<Rightarrow> FeatureRow \<Rightarrow> pyfloat \<Rightarrow> pyfloat \<Rightarrow> bool \<Rightarrow> signal" where
  "profile_signal profile threshold row close rsi in_position =
     (let score = ft_rolling_sharpe row + ft_medium_return row * Fin 4 + ft_long_return row * Fin 2 - ft_volatility row;
          trend = ft_trend row in
      if profile = ''academic_momentum_trend'' then academic_signal threshold row close in_position score
      else case hold_signal profile row close in_position of Some s \<Rightarrow> s
      | None \<Rightarrow> (case trend_signal profile threshold row close in_position of Some s \<Rightarrow> s
      | None \<Rightarrow> (case reversion_signal profile threshold row close rsi in_position of Some s \<Rightarrow> s
      | None \<Rightarrow> (Fin threshold \<le> trend \<and> ft_average row \<le> close \<and> ft_previous row \<le> close,
                 in_position \<and> close < ft_average row,
                 trend * Fin 2 + ft_medium_return row - ft_volatility row))))"

section \<open>One session of a profile\<close>

text \<open>What one bar was evaluated to: row, ticker, close, buy, sell, score.\<close>

type_synonym evaluation = "nat \<times> string \<times> pyfloat \<times> bool \<times> bool \<times> pyfloat"

definition evaluate_bar :: "Store \<Rightarrow> FeatureRow list \<Rightarrow> CandidateParameters \<Rightarrow> holdings \<Rightarrow> nat \<Rightarrow> evaluation" where
  "evaluate_bar st table parameters states i =
     (let ticker = fs_tickers st ! i; close = fs_close st ! i; row = table ! i; h = holding_of states ticker in
      if \<not> ft_ready row then (i, ticker, close, False, False, Fin (- 999))
      else case profile_signal (cp_profile parameters) (cp_threshold parameters) row close (fs_rsi st ! i) (hd_in_position h) of
        (buy, sell, score) \<Rightarrow>
          let trailing_stop = (hd_in_position h \<and> Fin 0 < hd_entry h
                \<and> Fin 0 < hd_highest h \<and> close < hd_highest h * Fin (1 - cp_trailing_stop_pct parameters))
          in (i, ticker, close, buy, sell \<or> trailing_stop, score))"

definition settle_bar :: "string set \<Rightarrow> evaluation \<Rightarrow> holdings \<times> RankedActions \<Rightarrow> holdings \<times> RankedActions" where
  "settle_bar selected ev s =
     (case (ev, s) of ((i, ticker, close, buy, sell, score), (states, acts)) \<Rightarrow>
        let h = holding_of states ticker in
        if sell \<and> hd_in_position h then
          (dset ticker no_holding states, acts\<lparr>ra_actions := (ra_actions acts)[i := -1]\<rparr>)
        else if ticker \<in> selected then
          (dset ticker \<lparr>hd_in_position = True, hd_entry = close, hd_highest = close, hd_sessions = 0\<rparr> states,
           acts\<lparr>ra_actions := (ra_actions acts)[i := 1], ra_scores := (ra_scores acts)[i := score]\<rparr>)
        else if hd_in_position h then
          (dset ticker (h\<lparr>hd_sessions := Suc (hd_sessions h), hd_highest := py_max (hd_highest h) close\<rparr>) states, acts)
        else s)"

definition enroll :: "Store \<Rightarrow> nat \<Rightarrow> holdings \<Rightarrow> holdings" where
  "enroll st i states = dset (fs_tickers st ! i) (holding_of states (fs_tickers st ! i)) states"

definition profile_session ::
    "Store \<Rightarrow> FeatureRow list \<Rightarrow> CandidateParameters \<Rightarrow> nat option \<Rightarrow> nat \<times> nat \<times> nat
     \<Rightarrow> holdings \<times> RankedActions \<Rightarrow> holdings \<times> RankedActions" where
  "profile_session st table parameters reset_index session s =
     (case session of (date_number, start, stop) \<Rightarrow>
        let rows = [start..<stop];
            states = fold (enroll st) rows (if Some date_number = reset_index then [] else fst s);
            evaluations = map (evaluate_bar st table parameters states) rows;
            open_slots = cp_max_positions parameters - held states;
            ranked = sort_key (\<lambda>(i, t, close, buy, sell, score). slot_priority score t)
              (filter (\<lambda>(i, t, close, buy, sell, score). buy \<and> \<not> hd_in_position (holding_of states t)) evaluations);
            selected = (\<lambda>(i, t, rest). t) ` set (take open_slots ranked)
        in fold (settle_bar selected) evaluations (states, snd s))"

section \<open>Percentile ranks\<close>

text \<open>Runs of equal values share the mean of their positions; \<open>n\<close> is the last position.\<close>

function rank_runs :: "nat \<Rightarrow> nat \<Rightarrow> (string \<times> rat) list \<Rightarrow> (string \<times> rat) list" where
  "rank_runs n start [] = []"
| "rank_runs n start ((t, v) # rest) =
     (let same = takeWhile (\<lambda>(u, w). w = v) rest; stop = start + 1 + length same;
          percentile = (of_nat (start + stop - 1) / 2) / of_nat n
      in map (\<lambda>(u, w). (u, percentile)) ((t, v) # same) @ rank_runs n stop (dropWhile (\<lambda>(u, w). w = v) rest))"
  by pat_completeness auto
termination
  by (relation "measure (\<lambda>(n, start, xs). length xs)") (simp_all add: le_imp_less_Suc length_dropWhile_le)

definition percentile_ranks :: "(string \<times> rat) list \<Rightarrow> (string, rat) dict" where
  "percentile_ranks vals =
     (let ordered = sort_key (\<lambda>(t, v). (v, t)) vals in
      if length ordered = 1 then [(fst (hd ordered), 1)]
      else fold (\<lambda>(t, r). dset t r) (rank_runs (length ordered - 1) 0 ordered) [])"

definition rank_in :: "(string, rat) dict \<Rightarrow> string \<Rightarrow> rat" where
  "rank_in ranks t = (case dget ranks t of Some r \<Rightarrow> r | None \<Rightarrow> 0)"

section \<open>One session of a rotation\<close>

record Observation =
  ob_index :: nat
  ob_ticker :: string
  ob_close :: pyfloat
  ob_momentum :: pyfloat
  ob_medium :: pyfloat
  ob_volatility :: pyfloat
  ob_sma_200 :: pyfloat

definition finite_part :: "pyfloat \<Rightarrow> rat" where
  "finite_part x = (case x of Fin r \<Rightarrow> r | _ \<Rightarrow> 0)"

definition risk_adjusted :: "CandidateParameters \<Rightarrow> bool" where
  "risk_adjusted parameters \<longleftrightarrow> cp_profile parameters = ''risk_adjusted_momentum_rotation''"

text \<open>A row takes part once its window is full and the factors the profile needs are finite.\<close>

definition observe_bar :: "Store \<Rightarrow> FeatureRow list \<Rightarrow> CandidateParameters \<Rightarrow> nat \<Rightarrow> Observation option" where
  "observe_bar st table parameters i =
     (let row = table ! i in
      if ft_ready row \<and> isfinite (ft_momentum_12_1 row) \<and> isfinite (ft_medium_return row) \<and> isfinite (ft_sma_200 row)
         \<and> (risk_adjusted parameters \<longrightarrow> isfinite (ft_realized_volatility_21d row))
      then Some \<lparr>ob_index = i, ob_ticker = fs_tickers st ! i, ob_close = fs_close st ! i, ob_momentum = ft_momentum_12_1 row,
                 ob_medium = ft_medium_return row, ob_volatility = ft_realized_volatility_21d row, ob_sma_200 = ft_sma_200 row\<rparr>
      else None)"

definition ranks_by :: "(Observation \<Rightarrow> rat) \<Rightarrow> Observation list \<Rightarrow> (string, rat) dict" where
  "ranks_by f obs = percentile_ranks (map (\<lambda>ob. (ob_ticker ob, f ob)) obs)"

definition per_risk :: "(Observation \<Rightarrow> pyfloat) \<Rightarrow> Observation \<Rightarrow> rat" where
  "per_risk f ob = finite_part (f ob) / max (finite_part (ob_volatility ob)) (5 / 100)"

definition rotation_score :: "CandidateParameters \<Rightarrow> Observation list \<Rightarrow> Observation \<Rightarrow> (rat \<times> string) option" where
  "rotation_score parameters obs ob =
     (let threshold = Fin (cp_threshold parameters); t = ob_ticker ob; w = cp_medium_momentum_weight parameters;
          momentum_rank = rank_in (ranks_by (\<lambda>ob. finite_part (ob_momentum ob)) obs) t;
          medium_rank = rank_in (ranks_by (\<lambda>ob. finite_part (ob_medium ob)) obs) t;
          (eligible, score) =
            (if cp_profile parameters = ''relative_momentum_rotation''
             then (threshold < ob_momentum ob \<and> ob_sma_200 ob \<le> ob_close ob, momentum_rank)
             else if risk_adjusted parameters
             then (threshold < ob_momentum ob \<and> Fin 0 < ob_medium ob \<and> ob_sma_200 ob \<le> ob_close ob
                     \<and> ob_volatility ob \<le> Fin (65 / 100),
                   rank_in (ranks_by (per_risk ob_momentum) obs) t * (1 / 2) + rank_in (ranks_by (per_risk ob_medium) obs) t * (1 / 2))
             else (threshold < ob_medium ob \<and> ob_sma_200 ob \<le> ob_close ob, medium_rank * w + momentum_rank * (1 - w)))
      in if eligible then Some (score, t) else None)"

definition rotation_target :: "CandidateParameters \<Rightarrow> Observation list \<Rightarrow> (string, rat) dict" where
  "rotation_target parameters obs =
     (let ranked = sort_key (\<lambda>(score, t). slot_priority (Fin score) t) (List.map_filter (rotation_score parameters obs) obs)
      in fold (\<lambda>(score, t). dset t score) (take (cp_max_positions parameters) ranked) [])"

text \<open>\<open>target\<close> holds the scores of the target set; without a rotation it is empty and nothing is bought.\<close>

definition rotate_bar ::
    "Store \<Rightarrow> CandidateParameters \<Rightarrow> bool \<Rightarrow> (string, rat) dict \<Rightarrow> nat \<Rightarrow> holdings \<times> RankedActions \<Rightarrow> holdings \<times> RankedActions" where
  "rotate_bar st parameters rotation target i s =
     (case s of (states0, acts) \<Rightarrow>
        let ticker = fs_tickers st ! i; close = fs_close st ! i; h0 = holding_of states0 ticker;
            in_position = hd_in_position h0; followed = (in_position \<and> Fin 0 < hd_entry h0);
            h = (if followed then h0\<lparr>hd_sessions := Suc (hd_sessions h0), hd_highest := py_max (hd_highest h0) close\<rparr> else h0);
            risk_exit = (followed \<and> (fixed_risk_exit close (hd_entry h) parameters
              \<or> Fin 0 < hd_highest h \<and> close < hd_highest h * Fin (1 - cp_trailing_stop_pct parameters)));
            states = dset ticker h states0
        in if in_position \<and> (risk_exit \<or> rotation \<and> ticker \<notin> set (dkeys target)) then
             (dset ticker no_holding states, acts\<lparr>ra_actions := (ra_actions acts)[i := -1]\<rparr>)
           else if rotation \<and> ticker \<in> set (dkeys target) \<and> \<not> in_position then
             (dset ticker \<lparr>hd_in_position = True, hd_entry = close, hd_highest = close, hd_sessions = 0\<rparr> states,
              acts\<lparr>ra_actions := (ra_actions acts)[i := 1], ra_scores := (ra_scores acts)[i := Fin (rank_in target ticker)]\<rparr>)
           else (states, acts))"

definition rotation_due :: "CandidateParameters \<Rightarrow> nat option \<Rightarrow> nat \<Rightarrow> bool" where
  "rotation_due parameters reset_index date_number \<longleftrightarrow>
     Some date_number = reset_index
     \<or> MOMENTUM_LONG_LOOKBACK \<le> date_number
       \<and> (date_number - MOMENTUM_LONG_LOOKBACK) mod cp_rebalance_interval_days parameters = 0"

definition rotation_session ::
    "Store \<Rightarrow> FeatureRow list \<Rightarrow> CandidateParameters \<Rightarrow> nat option \<Rightarrow> nat \<times> nat \<times> nat
     \<Rightarrow> holdings \<times> RankedActions \<Rightarrow> holdings \<times> RankedActions" where
  "rotation_session st table parameters reset_index session s =
     (case session of (date_number, start, stop) \<Rightarrow>
        let rows = [start..<stop]; states = (if Some date_number = reset_index then [] else fst s);
            rotation = rotation_due parameters reset_index date_number;
            obs = List.map_filter (observe_bar st table parameters) rows;
            target = (if rotation \<and> obs \<noteq> [] then rotation_target parameters obs else [])
        in fold (rotate_bar st parameters rotation target) rows (states, snd s))"

section \<open>The generators\<close>

definition rotation_profile_actions ::
    "Store \<Rightarrow> FeatureRow list \<Rightarrow> CandidateParameters \<Rightarrow> nat option \<Rightarrow> nat option \<Rightarrow> RankedActions" where
  "rotation_profile_actions st table parameters reset_index stop_index =
     snd (fold (rotation_session st table parameters reset_index) (sessions_until st stop_index) ([], no_actions st))"

definition profile_actions :: "Numpy \<Rightarrow> Store \<Rightarrow> CandidateParameters \<Rightarrow> nat option \<Rightarrow> nat option \<Rightarrow> RankedActions" where
  "profile_actions np st parameters reset_index stop_index =
     (let table = features np st (cp_lookback parameters) in
      if cp_profile parameters \<in> set AUTOMATIC_TOURNAMENT_PROFILES
      then rotation_profile_actions st table parameters reset_index stop_index
      else snd (fold (profile_session st table parameters reset_index) (sessions_until st stop_index) ([], no_actions st)))"

definition build_ranked_actions ::
    "Numpy \<Rightarrow> Store \<Rightarrow> StrategyIR \<Rightarrow> CandidateParameters \<Rightarrow> string option \<Rightarrow> string option \<Rightarrow> RankedActions lookup" where
  "build_ranked_actions np st ir parameters reset_session stop_after_session =
     (let reset_index = session_index st reset_session; stop_index = session_index st stop_after_session in
      if cp_profile parameters = ''compiled_conditions'' then compiled_actions np st ir parameters reset_index stop_index
      else give (profile_actions np st parameters reset_index stop_index))"

definition build_actions ::
    "Numpy \<Rightarrow> Store \<Rightarrow> StrategyIR \<Rightarrow> CandidateParameters \<Rightarrow> string option \<Rightarrow> string option \<Rightarrow> int list lookup" where
  "build_actions np st ir parameters reset_session stop_after_session =
     and_then (build_ranked_actions np st ir parameters reset_session stop_after_session) (\<lambda>acts. give (ra_actions acts))"

end
