(* ===== verification/Fs_Action_Cut.thy ===== *)
theory Fs_Action_Cut
  imports Fs_Rule_Cut Fs_Actions Fs_Profiles
begin

text \<open>
  The actions on a cut history are the cut of the actions on the whole history
  (\<open>compiled_actions_cut\<close>).  The sessions before the cut run on equal caches, holdings and candidates;
  the later ones write only to the rows of their own bars.
\<close>

definition cut_acts :: "nat \<Rightarrow> RankedActions \<Rightarrow> RankedActions" where
  "cut_acts n acts = \<lparr>ra_actions = take n (ra_actions acts), ra_scores = take n (ra_scores acts)\<rparr>"

section \<open>One bar\<close>

lemma fold_lookup_Cons: "fold_lookup f (k # ks) s = and_then (f k s) (fold_lookup f ks)"
  by (rule ext) (simp add: and_then_def)

lemma fold_lookup_agrees:
  assumes "\<And>k s t. k \<in> set ks \<Longrightarrow> R s t \<Longrightarrow> agrees st n R (f k s) (g k t)" and "R s t"
  shows "agrees st n R (fold_lookup f ks s) (fold_lookup g ks t)"
  using assms
proof (induction ks arbitrary: s t)
  case Nil
  then show ?case by (simp add: agrees_def)
next
  case (Cons k ks)
  have "agrees st n R (and_then (f k s) (fold_lookup f ks)) (and_then (g k t) (fold_lookup g ks))"
    by (rule agrees_then[where Q = R]) (use Cons in auto)
  then show ?case unfolding fold_lookup_Cons .
qed

lemma fold_lookup_agrees_eq [agree_intros]:
  "(\<And>k s. k \<in> set ks \<Longrightarrow> agrees st n (=) (f k s) (g k s)) \<Longrightarrow> agrees st n (=) (fold_lookup f ks s) (fold_lookup g ks s)"
  by (rule fold_lookup_agrees) auto

lemma cut_store_nth:
  "i < n \<Longrightarrow> fs_tickers (cut_store n st) ! i = fs_tickers st ! i" "i < n \<Longrightarrow> fs_close (cut_store n st) ! i = fs_close st ! i"
  by simp_all

lemma entry_candidate_agrees [agree_intros]:
  assumes "cut_at st n" and "i < n"
  shows "agrees st n (=) (entry_candidate np st ir conds fallback i) (entry_candidate np (cut_store n st) ir conds fallback i)"
  unfolding entry_candidate_def entry_score_def Let_def cut_store_nth[OF assms(2)] by (intro agree_intros assms)

lemma exit_reached_agrees [agree_intros]:
  assumes "cut_at st n" and "i < n"
  shows "agrees st n (=) (exit_reached np st ir p conds h i) (exit_reached np (cut_store n st) ir p conds h i)"
  unfolding exit_reached_def Let_def cut_store_nth[OF assms(2)] by (intro agree_intros assms)

lemma bar_step_agrees [agree_intros]:
  assumes "cut_at st n" and "i < n"
  shows "agrees st n (=) (bar_step np st ir p entry_conds exit_conds fallback i s)
    (bar_step np (cut_store n st) ir p entry_conds exit_conds fallback i s)"
proof -
  have same: "observed (cut_store n st) h i = observed st h i" for h
    unfolding observed_def cut_store_nth[OF assms(2)] by (rule refl)
  show ?thesis
    unfolding bar_step_def Let_def cut_store_nth[OF assms(2)] same by (intro agree_intros assms)
qed

lemma rank_cut_agrees [agree_intros]:
  assumes "cut_at st n" and "\<forall>i \<in> set rows. i < n"
  shows "agrees st n (=) (rank_cut np st rows cond eligible) (rank_cut np (cut_store n st) rows cond eligible)"
proof -
  have same: "List.map_filter (\<lambda>(i, v). map_option (\<lambda>x. (fs_tickers (cut_store n st) ! i, x)) v) (zip rows vals)
      = List.map_filter (\<lambda>(i, v). map_option (\<lambda>x. (fs_tickers st ! i, x)) v) (zip rows vals)" for vals :: "pyfloat option list"
    using assms(2) by (auto simp: List.map_filter_def dest!: set_zip_leftD intro!: map_cong filter_cong)
  show ?thesis
    unfolding rank_cut_def Let_def same by (intro agree_intros assms) (use assms(2) in auto)
qed

section \<open>One session\<close>

lemma cut_acts_update [simp]:
  "ra_actions (cut_acts n acts) = take n (ra_actions acts)" "ra_scores (cut_acts n acts) = take n (ra_scores acts)"
  by (simp_all add: cut_acts_def)

lemma fill_slots_cut:
  "fill_slots m exited es k (h, cut_acts n acts) = map_prod id (cut_acts n) (fill_slots m exited es k (h, acts))"
proof (induction m exited es k "(h, acts)" arbitrary: h acts rule: fill_slots.induct)
  case (2 m exited i ticker close score entries k)
  have "(cut_acts n acts)\<lparr>ra_actions := (take n (ra_actions acts))[i := 1], ra_scores := (take n (ra_scores acts))[i := score]\<rparr>
      = cut_acts n (acts\<lparr>ra_actions := (ra_actions acts)[i := 1], ra_scores := (ra_scores acts)[i := score]\<rparr>)"
    by (simp add: cut_acts_def take_update_swap)
  with 2 show ?case by simp
qed simp

lemma exit_steps_cut:
  "fold exit_step rows (h, exited, take n actions) =
   (case fold exit_step rows (h, exited, actions) of (h', exited', actions') \<Rightarrow> (h', exited', take n actions'))"
proof (induction rows arbitrary: h exited actions)
  case (Cons row rows)
  obtain i t where row: "row = (i, t)" by fastforce
  have "exit_step row (h, exited, take n actions) = (case exit_step row (h, exited, actions) of (h', e', a') \<Rightarrow> (h', e', take n a'))"
    by (simp add: exit_step_def row take_update_swap)
  with Cons show ?case by (cases "exit_step row (h, exited, actions)") simp
qed simp

lemma rotation_exits_cut:
  assumes "\<forall>i \<in> set rows. i < n"
  shows "rotation_exits (cut_store n st) rows target states = rotation_exits st rows target states"
  unfolding rotation_exits_def using assms by (intro fold_cong) (auto simp: Let_def)

lemma settle_session_cut:
  assumes "\<forall>i \<in> set rows. i < n"
  shows "settle_session (cut_store n st) ir p rotation rows eligible exits (h, cut_acts n acts)
    = map_prod id (cut_acts n) (settle_session st ir p rotation rows eligible exits (h, acts))"
proof -
  have acts: "(cut_acts n acts)\<lparr>ra_actions := take n actions\<rparr> = cut_acts n (acts\<lparr>ra_actions := actions\<rparr>)" for actions
    by (simp add: cut_acts_def)
  show ?thesis
    unfolding settle_session_def Let_def rotation_exits_cut[OF assms] prod.case cut_acts_update exit_steps_cut case_prod_beta
      acts fst_conv snd_conv fill_slots_cut by (rule refl)
qed

definition cut_state :: "nat \<Rightarrow> holdings \<times> RankedActions \<Rightarrow> holdings \<times> RankedActions \<Rightarrow> bool" where
  "cut_state n s s' \<longleftrightarrow> s' = map_prod id (cut_acts n) s"

lemma session_step_agrees:
  assumes "cut_at st n" and "stop \<le> n" and "cut_state n s s'"
  shows "agrees st n (cut_state n) (session_step np st ir p reset (k, start, stop) s)
    (session_step np (cut_store n st) ir p reset (k, start, stop) s')"
proof -
  have rows: "\<forall>i \<in> set [start..<stop]. i < n" using assms(2) by auto
  have states: "fst s' = fst s" "snd s' = cut_acts n (snd s)" using assms(3) by (simp_all add: cut_state_def)
  show ?thesis
    unfolding session_step_def Let_def prod.case states
    by (intro agree_intros agrees_give assms(1) rows)
      (use rows in \<open>auto simp: cut_state_def settle_session_cut[OF rows] intro!: agrees_give\<close>)
qed

section \<open>Rows a session writes to\<close>

definition yields :: "('a \<Rightarrow> bool) \<Rightarrow> 'a lookup \<Rightarrow> bool" where
  "yields P f \<longleftrightarrow> (\<forall>c. P (fst (f c)))"

lemma yields_give: "P x \<Longrightarrow> yields P (give x)"
  by (simp add: yields_def give_def)

lemma yields_then: "yields Q m \<Longrightarrow> (\<And>x. Q x \<Longrightarrow> yields P (k x)) \<Longrightarrow> yields P (and_then m k)"
  by (simp add: yields_def and_then_def case_prod_beta)

lemma yields_any: "yields (\<lambda>_. True) f"
  by (simp add: yields_def)

lemma yields_fold: "(\<And>k s. k \<in> set ks \<Longrightarrow> P s \<Longrightarrow> yields P (f k s)) \<Longrightarrow> P s \<Longrightarrow> yields P (fold_lookup f ks s)"
proof (induction ks arbitrary: s)
  case (Cons k ks)
  then show ?case unfolding fold_lookup_Cons by (intro yields_then[of P]) auto
qed (simp add: yields_def)

text \<open>A session's candidates and exits are rows of the session, with their own ticker and close.\<close>

definition of_session :: "Store \<Rightarrow> nat list \<Rightarrow> candidate list \<Rightarrow> bool" where
  "of_session st rows eligible \<longleftrightarrow> (\<forall>(i, t, close, score) \<in> set eligible. i \<in> set rows \<and> t = fs_tickers st ! i \<and> close = fs_close st ! i)"

definition exits_of_session :: "Store \<Rightarrow> nat list \<Rightarrow> (nat \<times> string) list \<Rightarrow> bool" where
  "exits_of_session st rows exits \<longleftrightarrow> (\<forall>(i, t) \<in> set exits. i \<in> set rows \<and> t = fs_tickers st ! i)"

lemma entry_candidate_yields:
  "yields (\<lambda>v. case v of None \<Rightarrow> True | Some (j, t, close, score) \<Rightarrow> j = i \<and> t = fs_tickers st ! i \<and> close = fs_close st ! i)
     (entry_candidate np st ir conds fallback i)"
  unfolding entry_candidate_def
  by (rule yields_then[OF yields_any])
    (auto intro!: yields_then[OF yields_any] yields_give simp: yields_give split: option.splits)

lemma bar_step_yields:
  assumes "i \<in> set rows" and "case s of (states, eligible, exits) \<Rightarrow> of_session st rows eligible \<and> exits_of_session st rows exits"
  shows "yields (\<lambda>(states, eligible, exits). of_session st rows eligible \<and> exits_of_session st rows exits)
    (bar_step np st ir p entry_conds exit_conds fallback i s)"
proof -
  obtain states eligible exits where s: "s = (states, eligible, exits)" using prod_cases3 by blast
  show ?thesis
    unfolding s bar_step_def Let_def prod.case
    by (rule yields_then[OF entry_candidate_yields], rule yields_then[OF yields_any], rule yields_give)
      (use assms in \<open>auto simp: s of_session_def exits_of_session_def split: option.splits\<close>)
qed

lemma rank_cut_yields: "of_session st rows eligible \<Longrightarrow> yields (of_session st rows) (rank_cut np st rows cond eligible)"
  unfolding rank_cut_def Let_def by (rule yields_then[OF yields_any]) (auto simp: of_session_def intro!: yields_give)

lemma session_candidates_yield:
  "yields (\<lambda>(states, eligible, exits). of_session st rows eligible \<and> exits_of_session st rows exits)
     (fold_lookup (bar_step np st ir p entry_conds exit_conds fallback) rows (states, [], []))"
  "of_session st rows eligible \<Longrightarrow> yields (of_session st rows) (fold_lookup (rank_cut np st rows) conds eligible)"
proof -
  show "yields (\<lambda>(states, eligible, exits). of_session st rows eligible \<and> exits_of_session st rows exits)
     (fold_lookup (bar_step np st ir p entry_conds exit_conds fallback) rows (states, [], []))"
    by (rule yields_fold, rule bar_step_yields) (simp_all add: of_session_def exits_of_session_def)
  show "of_session st rows eligible \<Longrightarrow> yields (of_session st rows) (fold_lookup (rank_cut np st rows) conds eligible)"
    by (rule yields_fold, rule rank_cut_yields)
qed

lemma rotation_exits_rows:
  "\<forall>(i, t) \<in> set (snd (rotation_exits st rows target states)). i \<in> set rows \<and> t = fs_tickers st ! i"
proof -
  have "(\<forall>(i, t) \<in> set exits. i \<in> set rows \<and> t = fs_tickers st ! i) \<Longrightarrow> set ks \<subseteq> set rows \<Longrightarrow>
      \<forall>(i, t) \<in> set (snd (fold (\<lambda>i (states, exits).
         (dset (fs_tickers st ! i) (holding_of states (fs_tickers st ! i)) states,
          exits @ (if hd_in_position (holding_of states (fs_tickers st ! i)) \<and> fs_tickers st ! i \<notin> set target
                   then [(i, fs_tickers st ! i)] else [])))
       ks (states, exits))). i \<in> set rows \<and> t = fs_tickers st ! i" for ks exits
  proof (induction ks arbitrary: states exits)
    case (Cons k ks)
    show ?case
      unfolding fold.simps o_apply prod.case
      by (rule Cons.IH) (use Cons.prems in auto)
  qed simp
  from this[of "[]" rows] show ?thesis by (simp add: rotation_exits_def Let_def)
qed

section \<open>Sessions after the cut\<close>

lemma fill_slots_late:
  "\<forall>(i, t, close, score) \<in> set es. n \<le> i \<Longrightarrow> cut_acts n (snd (fill_slots m exited es k (h, acts))) = cut_acts n acts"
proof (induction m exited es k "(h, acts)" arbitrary: h acts rule: fill_slots.induct)
  case (2 m exited i ticker close score entries k)
  have "cut_acts n (acts\<lparr>ra_actions := (ra_actions acts)[i := 1], ra_scores := (ra_scores acts)[i := score]\<rparr>) = cut_acts n acts"
    using 2 by (simp add: cut_acts_def)
  with 2 show ?case by simp
qed simp

lemma exit_steps_late:
  "\<forall>(i, t) \<in> set rows. n \<le> i \<Longrightarrow> take n (snd (snd (fold exit_step rows (h, exited, actions)))) = take n actions"
proof (induction rows arbitrary: h exited actions)
  case (Cons row rows)
  obtain i t where row: "row = (i, t)" by fastforce
  have "take n (snd (snd (exit_step row (h, exited, actions)))) = take n actions"
    using Cons.prems by (simp add: exit_step_def row)
  with Cons show ?case by (cases "exit_step row (h, exited, actions)") simp
qed simp

lemma settle_session_late:
  assumes "\<forall>i \<in> set rows. n \<le> i" and "of_session st rows eligible" and "exits_of_session st rows exits"
  shows "cut_acts n (snd (settle_session st ir p rotation rows eligible exits (h, acts))) = cut_acts n acts"
proof -
  have priority: "set (by_priority eligible) = set eligible" by (simp add: by_priority_def)
  have late: "\<forall>(i, t, close, score) \<in> set eligible. n \<le> i" "\<forall>(i, t) \<in> set exits. n \<le> i"
    using assms by (auto simp: of_session_def exits_of_session_def)
  have rotated: "\<forall>(i, t) \<in> set (snd (rotation_exits st rows target h)). n \<le> i" for target
    using rotation_exits_rows[of st rows target h] assms(1) by auto
  have acts: "cut_acts n (acts\<lparr>ra_actions := actions\<rparr>) = cut_acts n acts" if "take n actions = take n (ra_actions acts)" for actions
    using that by (simp add: cut_acts_def)
  have "take n (snd (snd (fold exit_step (exits @ more) (h', [], ra_actions acts)))) = take n (ra_actions acts)"
    if "\<forall>(i, t) \<in> set more. n \<le> i" for h' more
    using that late(2) by (intro exit_steps_late) auto
  from acts[OF this] rotated show ?thesis
    unfolding settle_session_def Let_def prod.case case_prod_beta
    by (subst fill_slots_late) (use late(1) in \<open>auto simp: priority simp del: fold_append\<close>)
qed

lemma session_step_late:
  assumes "n \<le> start"
  shows "yields (\<lambda>s'. cut_acts n (snd s') = cut_acts n (snd s)) (session_step np st ir p reset (k, start, stop) s)"
proof -
  have rows: "\<forall>i \<in> set [start..<stop]. n \<le> i" using assms by simp
  show ?thesis
    unfolding session_step_def Let_def prod.case
    by (rule yields_then[OF session_candidates_yield(1)], clarify,
        rule yields_then[OF session_candidates_yield(2)], assumption, rule yields_give, rule settle_session_late[OF rows])
qed

lemma later_sessions_write_later:
  assumes "\<forall>(k, start, stop) \<in> set sessions. n \<le> start"
  shows "cut_acts n (snd (fst (fold_lookup (session_step np st ir p reset) sessions s c))) = cut_acts n (snd s)"
proof -
  have "yields (\<lambda>s'. cut_acts n (snd s') = cut_acts n (snd s)) (fold_lookup (session_step np st ir p reset) sessions s)"
  proof (rule yields_fold)
    fix session and s1 :: "holdings \<times> RankedActions"
    assume "session \<in> set sessions" and s1: "cut_acts n (snd s1) = cut_acts n (snd s)"
    with assms show "yields (\<lambda>s'. cut_acts n (snd s') = cut_acts n (snd s)) (session_step np st ir p reset session s1)"
      unfolding s1[symmetric] by (cases session) (auto intro!: session_step_late)
  qed simp
  then show ?thesis by (simp add: yields_def)
qed

section \<open>The whole history\<close>

lemma fold_lookup_append: "fold_lookup f (xs @ ys) s = and_then (fold_lookup f xs s) (fold_lookup f ys)"
  by (rule ext, induction xs arbitrary: s) (simp_all add: and_then_def split: prod.split)

lemma sessions_of_cut:
  assumes "cut_at st n"
  shows "\<exists>later. sessions_of st = sessions_of (cut_store n st) @ later \<and> (\<forall>(k, a, b) \<in> set later. n \<le> a)
     \<and> (\<forall>(k, a, b) \<in> set (sessions_of (cut_store n st)). b \<le> n)"
proof -
  let ?A = "date_ranges 0 (take n (fs_dates st))" and ?B = "date_ranges n (drop n (fs_dates st))"
  have mem: "r \<in> set rs" if "(k, r) \<in> set (enumerate m rs)" for k m and r :: "nat \<times> nat" and rs
    using that by (auto simp: enumerate_eq_zip dest: set_zip_rightD)
  have le: "n \<le> length (fs_dates st)" using assms by (simp add: cut_at_def session_end_le)
  with assms have "sessions_of st = sessions_of (cut_store n st) @ enumerate (length ?A) ?B"
    by (simp add: sessions_of_def cut_at_def session_end_ranges[of "fs_dates st" n] enumerate_append_eq)
  moreover have "n \<le> a" if "(k, a, b) \<in> set (enumerate (length ?A) ?B)" for k a b
    using date_ranges_bounds[OF mem[OF that]] by simp
  moreover have "b \<le> n" if "(k, a, b) \<in> set (enumerate 0 ?A)" for k a b
    using date_ranges_bounds[OF mem[OF that]] le by simp
  ultimately show ?thesis by (auto simp: sessions_of_def)
qed

lemma sessions_until_cut:
  assumes "cut_at st n"
  obtains rest where "sessions_until st stop = sessions_until (cut_store n st) stop @ rest" and "\<forall>(k, a, b) \<in> set rest. n \<le> a"
    and "\<forall>(k, a, b) \<in> set (sessions_until (cut_store n st) stop). b \<le> n"
proof -
  let ?until = "\<lambda>(k, a, b). case stop of None \<Rightarrow> True | Some m \<Rightarrow> k \<le> m"
  obtain later where later: "sessions_of st = sessions_of (cut_store n st) @ later" "\<forall>(k, a, b) \<in> set later. n \<le> a"
      "\<forall>(k, a, b) \<in> set (sessions_of (cut_store n st)). b \<le> n"
    using sessions_of_cut[OF assms] by blast
  let ?A = "takeWhile ?until (sessions_of (cut_store n st))"
  have "\<exists>rest. takeWhile ?until (sessions_of st) = ?A @ rest \<and> set rest \<subseteq> set later"
    unfolding later(1) takeWhile_append
    by (cases "\<forall>x \<in> set (sessions_of (cut_store n st)). ?until x")
      (auto simp: takeWhile_eq_all_conv[THEN iffD2] dest: set_takeWhileD)
  then obtain rest where "takeWhile ?until (sessions_of st) = ?A @ rest" "set rest \<subseteq> set later" by blast
  with later(2,3) show ?thesis by (intro that[of rest]) (auto simp: sessions_until_def dest: set_takeWhileD)
qed

lemma no_actions_cut: "cut_at st n \<Longrightarrow> no_actions (cut_store n st) = cut_acts n (no_actions st)"
  using session_end_le[of "fs_dates st" n] by (simp add: no_actions_def cut_acts_def cut_at_def store_ok_dates)

lemma compiled_actions_cut:
  assumes cut: "cut_at st n" and c: "cache_ok st c"
  shows "fst (compiled_actions np (cut_store n st) ir p reset stop (cut_cache n c)) = cut_acts n (fst (compiled_actions np st ir p reset stop c))"
proof -
  let ?run = "\<lambda>st sessions. fold_lookup (session_step np st ir p reset) sessions"
  let ?A = "sessions_until (cut_store n st) stop"
  obtain rest where rest: "sessions_until st stop = ?A @ rest" "\<forall>(k, a, b) \<in> set rest. n \<le> a" "\<forall>(k, a, b) \<in> set ?A. b \<le> n"
    using sessions_until_cut[OF cut] by blast
  have "agrees st n (cut_state n) (?run st ?A ([], no_actions st)) (?run (cut_store n st) ?A ([], no_actions (cut_store n st)))"
    by (rule fold_lookup_agrees) (use rest(3) in \<open>auto simp: cut_state_def no_actions_cut[OF cut] intro!: session_step_agrees cut\<close>)
  then have "cut_state n (fst (?run st ?A ([], no_actions st) c)) (fst (?run (cut_store n st) ?A ([], no_actions (cut_store n st)) (cut_cache n c)))"
    using c by (simp add: agrees_def)
  moreover have "cut_acts n (snd (fst (?run st rest s c'))) = cut_acts n (snd s)" for s c'
    using rest(2) by (rule later_sessions_write_later)
  ultimately show ?thesis
    unfolding compiled_actions_def rest(1) fold_lookup_append
    by (simp add: and_then_def give_def case_prod_beta cut_state_def)
qed

text \<open>
  The generators for parameter profiles, and \<open>build_ranked_actions\<close>, on a cut history: their actions
  are the cut of the actions on the whole history (\<open>build_ranked_actions_cut\<close>).
\<close>

section \<open>Folding over sessions\<close>

lemma fold_cut:
  assumes "\<And>x s. x \<in> set xs \<Longrightarrow> g x (map_prod id (cut_acts n) s) = map_prod id (cut_acts n) (f x s)"
  shows "fold g xs (map_prod id (cut_acts n) s) = map_prod id (cut_acts n) (fold f xs s)"
  using assms by (induction xs arbitrary: s) simp_all

lemma fold_late:
  assumes "\<And>x s. x \<in> set xs \<Longrightarrow> cut_acts n (snd (f x s)) = cut_acts n (snd s)"
  shows "cut_acts n (snd (fold f xs s)) = cut_acts n (snd s)"
  using assms by (induction xs arbitrary: s) simp_all

lemma sessions_cut:
  assumes cut: "cut_at st n"
    and early: "\<And>k a b s. b \<le> n \<Longrightarrow> g (k, a, b) (map_prod id (cut_acts n) s) = map_prod id (cut_acts n) (f (k, a, b) s)"
    and late: "\<And>k a b s. n \<le> a \<Longrightarrow> cut_acts n (snd (f (k, a, b) s)) = cut_acts n (snd s)"
  shows "snd (fold g (sessions_until (cut_store n st) stop) (h, no_actions (cut_store n st)))
    = cut_acts n (snd (fold f (sessions_until st stop) (h, no_actions st)))"
proof -
  let ?A = "sessions_until (cut_store n st) stop"
  obtain rest where rest: "sessions_until st stop = ?A @ rest" "\<forall>(k, a, b) \<in> set rest. n \<le> a" "\<forall>(k, a, b) \<in> set ?A. b \<le> n"
    using sessions_until_cut[OF cut] by blast
  have "fold g ?A (map_prod id (cut_acts n) (h, no_actions st)) = map_prod id (cut_acts n) (fold f ?A (h, no_actions st))"
    using rest(3) by (intro fold_cut) (auto intro: early)
  moreover have "cut_acts n (snd (fold f rest s)) = cut_acts n (snd s)" for s
    using rest(2) by (intro fold_late) (auto intro: late)
  ultimately show ?thesis by (simp add: rest(1) no_actions_cut[OF cut])
qed

lemma map_filter_same: "(\<And>x. x \<in> set xs \<Longrightarrow> f x = g x) \<Longrightarrow> List.map_filter f xs = List.map_filter g xs"
  by (induction xs) (simp_all add: List.map_filter_simps split: option.split)

lemma cut_acts_writes:
  "cut_acts n (acts\<lparr>ra_actions := (ra_actions acts)[i := x]\<rparr>) = (cut_acts n acts)\<lparr>ra_actions := (take n (ra_actions acts))[i := x]\<rparr>"
  "cut_acts n (acts\<lparr>ra_actions := (ra_actions acts)[i := x], ra_scores := (ra_scores acts)[i := y]\<rparr>) =
     (cut_acts n acts)\<lparr>ra_actions := (take n (ra_actions acts))[i := x], ra_scores := (take n (ra_scores acts))[i := y]\<rparr>"
  by (simp_all add: cut_acts_def take_update_swap)

lemma cut_acts_late:
  "n \<le> i \<Longrightarrow> cut_acts n (acts\<lparr>ra_actions := (ra_actions acts)[i := x]\<rparr>) = cut_acts n acts"
  "n \<le> i \<Longrightarrow> cut_acts n (acts\<lparr>ra_actions := (ra_actions acts)[i := x], ra_scores := (ra_scores acts)[i := y]\<rparr>) = cut_acts n acts"
  by (simp_all add: cut_acts_def)

section \<open>Profiles\<close>

lemma settle_bar_cut: "settle_bar selected ev (map_prod id (cut_acts n) s) = map_prod id (cut_acts n) (settle_bar selected ev s)"
  by (cases ev; cases s) (simp add: settle_bar_def Let_def cut_acts_writes)

lemma settle_bar_late: "n \<le> fst ev \<Longrightarrow> cut_acts n (snd (settle_bar selected ev s)) = cut_acts n (snd s)"
  by (cases ev; cases s) (simp add: settle_bar_def Let_def cut_acts_late)

lemma evaluate_bar_row: "fst (evaluate_bar st table p states i) = i"
  by (simp add: evaluate_bar_def Let_def split: prod.split)

lemma evaluate_bar_cut:
  "i < n \<Longrightarrow> evaluate_bar (cut_store n st) (take n table) p states i = evaluate_bar st table p states i"
  unfolding evaluate_bar_def by (simp add: Let_def)

lemma profile_session_cut:
  assumes "b \<le> n"
  shows "profile_session (cut_store n st) (take n table) p reset (k, a, b) (map_prod id (cut_acts n) s)
    = map_prod id (cut_acts n) (profile_session st table p reset (k, a, b) s)"
proof -
  have enroll: "fold (enroll (cut_store n st)) [a..<b] h = fold (enroll st) [a..<b] h" for h
    using assms by (intro fold_cong) (auto simp: enroll_def)
  have evals: "map (evaluate_bar (cut_store n st) (take n table) p h) [a..<b] = map (evaluate_bar st table p h) [a..<b]" for h
    using assms by (intro map_cong) (auto intro: evaluate_bar_cut)
  have bars: "fold (settle_bar sel) evs (h, cut_acts n acts) = map_prod id (cut_acts n) (fold (settle_bar sel) evs (h, acts))" for sel evs h acts
    using fold_cut[of evs "settle_bar sel" n "settle_bar sel" "(h, acts)"] by (simp add: settle_bar_cut)
  show ?thesis
    unfolding profile_session_def Let_def prod.case enroll evals
    by (cases s) (simp add: bars)
qed

lemma profile_session_late: "n \<le> a \<Longrightarrow> cut_acts n (snd (profile_session st table p reset (k, a, b) s)) = cut_acts n (snd s)"
  unfolding profile_session_def Let_def prod.case
  by (subst fold_late[OF settle_bar_late]) (auto simp: evaluate_bar_row)

section \<open>Rotations\<close>

lemma rotate_bar_cut:
  assumes "i < n"
  shows "rotate_bar (cut_store n st) p rotation target i (map_prod id (cut_acts n) s) =
    map_prod id (cut_acts n) (rotate_bar st p rotation target i s)"
proof -
  obtain h acts where s: "s = (h, acts)" by fastforce
  show ?thesis
    unfolding s rotate_bar_def map_prod_simp prod.case id_apply cut_store_nth[OF assms] Let_def
      if_distrib[of "map_prod id (cut_acts n)"] cut_acts_writes cut_acts_update by (rule refl)
qed

lemma rotate_bar_late: "n \<le> i \<Longrightarrow> cut_acts n (snd (rotate_bar st p rotation target i s)) = cut_acts n (snd s)"
  by (cases s) (simp add: rotate_bar_def Let_def cut_acts_late)

lemma rotation_session_cut:
  assumes "b \<le> n"
  shows "rotation_session (cut_store n st) (take n table) p reset (k, a, b) (map_prod id (cut_acts n) s)
    = map_prod id (cut_acts n) (rotation_session st table p reset (k, a, b) s)"
proof -
  have "List.map_filter (observe_bar (cut_store n st) (take n table) p) [a..<b] = List.map_filter (observe_bar st table p) [a..<b]"
    using assms by (intro map_filter_same) (simp add: observe_bar_def cong: if_cong)
  moreover have bars: "fold (rotate_bar (cut_store n st) p r t) [a..<b] (h, cut_acts n acts)
      = map_prod id (cut_acts n) (fold (rotate_bar st p r t) [a..<b] (h, acts))" for r t h acts
    using fold_cut[of "[a..<b]" "rotate_bar (cut_store n st) p r t" n "rotate_bar st p r t" "(h, acts)"] assms
    by (simp add: rotate_bar_cut)
  ultimately show ?thesis
    unfolding rotation_session_def Let_def prod.case
    by (cases s) (simp add: bars)
qed

lemma rotation_session_late: "n \<le> a \<Longrightarrow> cut_acts n (snd (rotation_session st table p reset (k, a, b) s)) = cut_acts n (snd s)"
  unfolding rotation_session_def Let_def prod.case by (subst fold_late[OF rotate_bar_late]) auto

section \<open>The generator of a candidate\<close>

lemma profile_actions_cut:
  assumes "cut_at st n" and "0 < cp_lookback p"
  shows "profile_actions np (cut_store n st) p reset stop = cut_acts n (profile_actions np st p reset stop)"
proof -
  have "features np (cut_store n st) (cp_lookback p) = take n (features np st (cp_lookback p))"
    using assms by (intro pit_cut pit_features) (auto simp: cut_at_def)
  note table = this
  have "snd (fold (profile_session (cut_store n st) (take n t) p reset) (sessions_until (cut_store n st) stop) ([], no_actions (cut_store n st)))
      = cut_acts n (snd (fold (profile_session st t p reset) (sessions_until st stop) ([], no_actions st)))" for t
    by (rule sessions_cut[OF assms(1)]) (rule profile_session_cut profile_session_late; assumption)+
  moreover have "snd (fold (rotation_session (cut_store n st) (take n t) p reset) (sessions_until (cut_store n st) stop) ([], no_actions (cut_store n st)))
      = cut_acts n (snd (fold (rotation_session st t p reset) (sessions_until st stop) ([], no_actions st)))" for t
    by (rule sessions_cut[OF assms(1)]) (rule rotation_session_cut rotation_session_late; assumption)+
  ultimately show ?thesis unfolding profile_actions_def rotation_profile_actions_def table Let_def by simp
qed

end
