(* ===== verification/Fs_Lookahead.thy ===== *)
theory Fs_Lookahead
  imports Fs_Action_Cut
begin

text \<open>
  The look-ahead check of \<^verbatim>\<open>lookahead.py\<close>: run a candidate over the whole history, run it again over the
  rows up to a cutoff date, and compare the decisions both runs cover.  The truncated store is a cut of the baseline store
  (\<open>kept_rows_cut\<close>, \<open>new_store_take\<close>), so \<open>build_actions_cut\<close> decides the comparison.
\<close>

section \<open>The check\<close>

definition HOLD :: int where "HOLD = 0"
definition BUY :: int where "BUY = 1"
definition SELL :: int where "SELL = -1"

definition action_name :: "int \<Rightarrow> string" where
  "action_name a = (if a = HOLD then ''hold'' else if a = BUY then ''buy'' else if a = SELL then ''sell'' else ''unknown'')"

record LookaheadFinding =
  lf_date :: string
  lf_ticker :: string
  lf_baseline_action :: string
  lf_truncated_action :: string

text \<open>The texts of \<open>_limitations\<close>: covered and silent rows, and three fixed remarks.\<close>

datatype limitation = Silent_Rows nat nat | Structured_Path_Only | Warm_Up_Shared | One_Slice

record LookaheadEvidence =
  le_cutoff_date :: string
  le_baseline_rows :: nat
  le_truncated_rows :: nat
  le_covered_rows :: nat
  le_covered_dates :: nat
  le_covered_signals :: nat
  le_silent_rows :: nat
  le_findings :: "LookaheadFinding list"
  le_limitations :: "limitation list"

definition differing_rows :: "LookaheadEvidence \<Rightarrow> nat" where
  "differing_rows e = length (le_findings e)"

definition limitations_of :: "nat \<Rightarrow> nat \<Rightarrow> limitation list" where
  "limitations_of covered_rows covered_signals =
     [Silent_Rows covered_rows (covered_rows - covered_signals), Structured_Path_Only, Warm_Up_Shared, One_Slice]"

definition compare_runs :: "int list \<Rightarrow> int list \<Rightarrow> string list \<Rightarrow> string list \<Rightarrow> LookaheadFinding list res" where
  "compare_runs baseline truncated dates tickers =
     (if length baseline < length truncated then Inl (ValueError ''truncated run cannot cover more rows than the baseline'')
      else Inr (map (\<lambda>i. \<lparr>lf_date = dates ! i, lf_ticker = tickers ! i, lf_baseline_action = action_name (baseline ! i),
                          lf_truncated_action = action_name (truncated ! i)\<rparr>)
                 (filter (\<lambda>i. baseline ! i \<noteq> truncated ! i) [0..<length truncated])))"

definition kept_rows :: "(pyval \<Rightarrow> string) \<Rightarrow> string \<Rightarrow> price_row list \<Rightarrow> price_row list" where
  "kept_rows text cutoff_date rows = filter (\<lambda>r. row_date text r \<le> cutoff_date) rows"

definition lookahead_evidence ::
    "(pyval \<Rightarrow> string) \<Rightarrow> Numpy \<Rightarrow> price_row list \<Rightarrow> StrategyIR \<Rightarrow> CandidateParameters \<Rightarrow> string \<Rightarrow> LookaheadEvidence res" where
  "lookahead_evidence text np rows ir parameters cutoff_date =
     rbind (new_store text False rows) (\<lambda>baseline_store.
       let baseline = fst (build_actions np baseline_store ir parameters None None empty_cache);
           kept = kept_rows text cutoff_date (fs_rows baseline_store)
       in if kept = [] then Inl (ValueError ''no rows on or before cutoff_date'')
          else rbind (new_store text True kept) (\<lambda>truncated_store.
            let truncated = fst (build_actions np truncated_store ir parameters None None empty_cache);
                covered = length kept;
                covered_signals = length (filter (\<lambda>i. baseline ! i \<noteq> HOLD) [0..<covered])
            in rbind (compare_runs baseline truncated (fs_dates baseline_store) (fs_tickers baseline_store)) (\<lambda>findings.
               Inr \<lparr>le_cutoff_date = cutoff_date, le_baseline_rows = length (fs_rows baseline_store), le_truncated_rows = covered,
                    le_covered_rows = covered, le_covered_dates = card (set (take covered (fs_dates baseline_store))),
                    le_covered_signals = covered_signals, le_silent_rows = covered - covered_signals, le_findings = findings,
                    le_limitations = limitations_of covered covered_signals\<rparr>)))"

section \<open>The truncated store is a cut of the baseline store\<close>

lemma rmap_take: "rmap f xs = Inr ys \<Longrightarrow> rmap f (take n xs) = Inr (take n ys)"
  by (simp add: rmap_eq_Inr list_all2_takeI)

lemma new_store_sorted: "new_store text False rows = Inr st \<Longrightarrow> sorted (map (row_date text) (fs_rows st))"
proof -
  assume "new_store text False rows = Inr st"
  then have "fs_rows st = sort_key (\<lambda>r. (row_date text r, row_ticker text r)) rows"
    by (auto simp: new_store_def Let_def rbind_eq_Inr)
  then have "sorted_wrt (\<lambda>r s. (row_date text r, row_ticker text r) \<le> (row_date text s, row_ticker text s)) (fs_rows st)"
    using sorted_sort_key[of "\<lambda>r. (row_date text r, row_ticker text r)" rows] by (simp add: sorted_map)
  then have "sorted_wrt (\<lambda>r s. row_date text r \<le> row_date text s) (fs_rows st)"
    by (rule sorted_wrt_mono_rel[rotated]) (auto simp: less_eq_prod_def)
  then show ?thesis by (simp add: sorted_map)
qed

lemma new_store_dates: "new_store text b rows = Inr st \<Longrightarrow> fs_dates st = map (row_date text) (fs_rows st)"
  by (auto simp: new_store_def Let_def rbind_eq_Inr)

lemma new_store_parts:
  "new_store text True rows = Inr st \<longleftrightarrow> (\<exists>close opens high low volume.
     rmap (\<lambda>r. rbind (row_close r) float_of) rows = Inr close \<and> rmap (price_of ''open'') rows = Inr opens
     \<and> rmap (price_of ''high'') rows = Inr high \<and> rmap (price_of ''low'') rows = Inr low
     \<and> rmap (\<lambda>r. float_of (or_val (pget_or r ''volume'' (PFloat (Fin 0))) (PFloat (Fin 0)))) rows = Inr volume
     \<and> st = \<lparr>fs_rows = rows, fs_dates = map (row_date text) rows, fs_tickers = map (row_ticker text) rows,
             fs_close = close, fs_open = opens, fs_high = high, fs_low = low, fs_volume = volume,
             fs_rsi = map (\<lambda>r. optional_metric r [''rsi'', ''RSI_14'']) rows\<rparr>)"
  unfolding new_store_def Let_def by (auto simp: rbind_eq_Inr simp del: optional_metric.simps)

lemma new_store_take:
  assumes "new_store text b rows = Inr st"
  shows "new_store text True (take n (fs_rows st)) = Inr (cut_store n st)"
proof -
  have "fs_rows st = (if b then rows else sort_key (\<lambda>r. (row_date text r, row_ticker text r)) rows)"
    using assms by (auto simp: new_store_def Let_def rbind_eq_Inr simp del: optional_metric.simps)
  then have "new_store text True (fs_rows st) = Inr st" using assms by (simp add: new_store_def split: if_splits)
  then obtain close opens high low volume where
    parts: "rmap (\<lambda>r. rbind (row_close r) float_of) (fs_rows st) = Inr close" "rmap (price_of ''open'') (fs_rows st) = Inr opens"
      "rmap (price_of ''high'') (fs_rows st) = Inr high" "rmap (price_of ''low'') (fs_rows st) = Inr low"
      "rmap (\<lambda>r. float_of (or_val (pget_or r ''volume'' (PFloat (Fin 0))) (PFloat (Fin 0)))) (fs_rows st) = Inr volume"
    and st: "st = \<lparr>fs_rows = fs_rows st, fs_dates = map (row_date text) (fs_rows st), fs_tickers = map (row_ticker text) (fs_rows st),
             fs_close = close, fs_open = opens, fs_high = high, fs_low = low, fs_volume = volume,
             fs_rsi = map (\<lambda>r. optional_metric r [''rsi'', ''RSI_14'']) (fs_rows st)\<rparr>"
    unfolding new_store_parts by blast
  have "cut_store n st = \<lparr>fs_rows = take n (fs_rows st), fs_dates = map (row_date text) (take n (fs_rows st)),
      fs_tickers = map (row_ticker text) (take n (fs_rows st)), fs_close = take n close, fs_open = take n opens,
      fs_high = take n high, fs_low = take n low, fs_volume = take n volume,
      fs_rsi = map (\<lambda>r. optional_metric r [''rsi'', ''RSI_14'']) (take n (fs_rows st))\<rparr>"
    by (subst st) (simp add: cut_store_def take_map)
  then show ?thesis unfolding new_store_parts using parts[THEN rmap_take[of _ _ _ n]] by blast
qed

lemma filter_sorted_prefix:
  assumes "sorted (map f xs)"
  shows "filter (\<lambda>x. f x \<le> c) xs = take (length (filter (\<lambda>x. f x \<le> c) xs)) xs"
  using assms
proof (induction xs)
  case (Cons x xs)
  show ?case
  proof (cases "f x \<le> c")
    case False
    with Cons.prems have "filter (\<lambda>x. f x \<le> c) xs = []" by (auto simp: filter_empty_conv)
    with False show ?thesis by simp
  qed (use Cons in simp)
qed simp

lemma cutoff_session_end:
  assumes "sorted (map f xs)"
  shows "session_end (map f xs) (length (filter (\<lambda>x. f x \<le> c) xs))"
proof -
  let ?P = "\<lambda>x. f x \<le> c" and ?n = "length (filter (\<lambda>x. f x \<le> c) xs)"
  have prefix: "filter ?P xs = take ?n xs" by (rule filter_sorted_prefix[OF assms])
  show ?thesis
  proof (cases "0 < ?n \<and> ?n < length xs")
    case True
    then have "xs ! (?n - 1) \<in> set (take ?n xs)" by (auto simp: in_set_conv_nth intro!: exI[of _ "?n - 1"])
    then have "f (xs ! (?n - 1)) \<le> c" unfolding prefix[symmetric] by simp
    moreover have "\<not> f (xs ! ?n) \<le> c"
    proof
      assume kept: "f (xs ! ?n) \<le> c"
      have "?n = length (filter ?P (take ?n xs)) + length (filter ?P (drop ?n xs))"
        by (metis append_take_drop_id filter_append length_append)
      moreover have "filter ?P (take ?n xs) = take ?n xs" unfolding prefix[symmetric] by simp
      moreover have "filter ?P (drop ?n xs) = xs ! ?n # filter ?P (drop (Suc ?n) xs)"
        using True kept by (simp add: Cons_nth_drop_Suc[symmetric])
      ultimately have "?n = ?n + Suc (length (filter ?P (drop (Suc ?n) xs)))" using True
        by (metis length_Cons length_take min.absorb2 less_imp_le)
      then show False by simp
    qed
    ultimately show ?thesis using True by (auto simp: session_end_def)
  qed (use length_filter_le[of ?P xs] in \<open>auto simp: session_end_def\<close>)
qed

lemma kept_rows_cut:
  fixes cutoff :: string
  assumes "new_store text False rows = Inr st"
  defines "n \<equiv> length (kept_rows text cutoff (fs_rows st))"
  shows "kept_rows text cutoff (fs_rows st) = take n (fs_rows st)" and "cut_at st n" and "n \<le> length (fs_rows st)"
proof -
  note sorted = new_store_sorted[OF assms(1)]
  show "kept_rows text cutoff (fs_rows st) = take n (fs_rows st)"
    unfolding n_def kept_rows_def by (rule filter_sorted_prefix[OF sorted])
  have "session_end (fs_dates st) n"
    unfolding n_def kept_rows_def new_store_dates[OF assms(1)] by (rule cutoff_session_end[OF sorted])
  then show cut: "cut_at st n" using new_store_ok[OF assms(1)] by (simp add: cut_at_def)
  show "n \<le> length (fs_rows st)" unfolding n_def kept_rows_def by simp
qed

section \<open>Structured candidates pass\<close>

lemma build_ranked_actions_cut:
  assumes "cut_at st n" and "0 < cp_lookback p"
  shows "fst (build_ranked_actions np (cut_store n st) ir p None None empty_cache)
    = cut_acts n (fst (build_ranked_actions np st ir p None None empty_cache))"
  using compiled_actions_cut[OF assms(1) empty_cache_ok(1), of np ir p None None] profile_actions_cut[OF assms, of np None None]
  by (simp add: build_ranked_actions_def session_index_def Let_def empty_cache_ok give_def)

lemma build_actions_cut:
  assumes "cut_at st n" and "0 < cp_lookback p"
  shows "fst (build_actions np (cut_store n st) ir p None None empty_cache)
    = take n (fst (build_actions np st ir p None None empty_cache))"
  using build_ranked_actions_cut[OF assms, of np ir]
  by (simp add: build_actions_def and_then_def give_def case_prod_beta)

lemma compare_runs_prefix: "compare_runs xs (take n xs) dates tickers = Inr []"
  by (simp add: compare_runs_def)

end
