(* ===== verification/Fs_Book.thy ===== *)
theory Fs_Book
  imports Fs_Lookahead
begin

text \<open>
  The position book behind the actions.  \<open>net\<close> adds up what the actions did to a ticker; \<open>book\<close> relates
  actions and scores to the holdings a generator carries: a ticker's actions add up to one while it is
  held and to zero otherwise, and only a BUY has a score.  Every session of every generator keeps it.
\<close>

section \<open>Positions\<close>

definition positions :: "holdings \<Rightarrow> string set" where
  "positions h = {t. hd_in_position (holding_of h t)}"

lemma holding_of_dset: "holding_of (dset t x h) u = (if u = t then x else holding_of h u)"
  by (simp add: holding_of_def dict_simps)

lemma positions_dset: "positions (dset t x h) = (if hd_in_position x then insert t (positions h) else positions h - {t})"
  by (auto simp: positions_def holding_of_dset)

lemma mem_positions: "t \<in> positions h \<longleftrightarrow> hd_in_position (holding_of h t)"
  by (simp add: positions_def)

lemma positions_same: "hd_in_position x \<longleftrightarrow> hd_in_position (holding_of h t) \<Longrightarrow> positions (dset t x h) = positions h"
  by (auto simp: positions_dset mem_positions)

lemma positions_Nil [simp]: "positions [] = {}"
  by (simp add: positions_def holding_of_def no_holding_def dget_def)

lemma positions_held: "dict_ok h \<Longrightarrow> positions h = fst ` set (filter (\<lambda>(t, x). hd_in_position x) h)"
proof -
  assume ok: "dict_ok h"
  show ?thesis
  proof (intro equalityI subsetI)
    fix t
    assume "t \<in> positions h"
    then obtain x where "dget h t = Some x" "hd_in_position x"
      by (cases "dget h t") (auto simp: positions_def holding_of_def no_holding_def)
    then show "t \<in> fst ` set (filter (\<lambda>(t, x). hd_in_position x) h)" by (force dest: dget_in_set)
  qed (use dget_SomeI[OF ok] in \<open>fastforce simp: positions_def holding_of_def\<close>)
qed

lemma finite_positions: "dict_ok h \<Longrightarrow> finite (positions h)"
  by (simp add: positions_held)

lemma held_card: "dict_ok h \<Longrightarrow> held h = card (positions h)"
proof -
  assume ok: "dict_ok h"
  let ?held = "filter (\<lambda>(t, x). hd_in_position x) h"
  have "distinct (map fst ?held)" using ok distinct_map_filter unfolding dict_ok_def by blast
  then have "card (fst ` set ?held) = length ?held" by (metis distinct_card length_map list.set_map)
  then show ?thesis by (simp add: held_def positions_held[OF ok])
qed

section \<open>What the actions did to a ticker\<close>

definition net :: "Store \<Rightarrow> int list \<Rightarrow> string \<Rightarrow> int" where
  "net st actions t = sum_list (map (\<lambda>i. if fs_tickers st ! i = t then actions ! i else 0) [0..<length actions])"

lemma net_sum: "net st actions t = (\<Sum>i<length actions. if fs_tickers st ! i = t then actions ! i else 0)"
  by (simp add: net_def interv_sum_list_conv_sum_set_nat atLeast0LessThan)

lemma net_update:
  assumes "i < length actions" and "actions ! i = 0"
  shows "net st (actions[i := v]) t = net st actions t + (if fs_tickers st ! i = t then v else 0)"
proof -
  have i: "i \<in> {..<length actions}" using assms(1) by simp
  have "(\<Sum>j\<in>{..<length actions} - {i}. if fs_tickers st ! j = t then actions[i := v] ! j else 0)
      = (\<Sum>j\<in>{..<length actions} - {i}. if fs_tickers st ! j = t then actions ! j else 0)"
    by (intro sum.cong) auto
  with assms show ?thesis by (simp add: net_sum sum.remove[OF _ i])
qed

text \<open>\<open>F\<close> are the rows nothing was written to yet.\<close>

definition book :: "Store \<Rightarrow> nat set \<Rightarrow> holdings \<Rightarrow> RankedActions \<Rightarrow> bool" where
  "book st F h acts \<longleftrightarrow> dict_ok h \<and> length (ra_actions acts) = length (fs_tickers st) \<and> length (ra_scores acts) = length (fs_tickers st)
     \<and> (\<forall>t. net st (ra_actions acts) t = (if t \<in> positions h then 1 else 0))
     \<and> (\<forall>i < length (fs_tickers st). ra_actions acts ! i \<in> {-1, 0, 1} \<and> (ra_actions acts ! i \<noteq> 1 \<longrightarrow> ra_scores acts ! i = NaN)
          \<and> (i \<in> F \<longrightarrow> ra_actions acts ! i = 0))"

lemma book_mono: "book st F h acts \<Longrightarrow> F' \<subseteq> F \<Longrightarrow> book st F' h acts"
  by (auto simp: book_def)

lemma book_holdings: "book st F h acts \<Longrightarrow> dict_ok h' \<Longrightarrow> positions h' = positions h \<Longrightarrow> book st F h' acts"
  by (simp add: book_def)

lemma book_sell:
  assumes "book st F h acts" and "i \<in> F" and "i < length (fs_tickers st)" and "fs_tickers st ! i \<in> positions h"
  shows "book st (F - {i}) (dset (fs_tickers st ! i) no_holding h) (acts\<lparr>ra_actions := (ra_actions acts)[i := -1]\<rparr>)"
proof -
  have "net st ((ra_actions acts)[i := -1]) t = (if t \<in> positions (dset (fs_tickers st ! i) no_holding h) then 1 else 0)" for t
    using assms by (subst net_update) (auto simp: book_def positions_dset no_holding_def)
  then show ?thesis using assms by (auto simp: book_def nth_list_update intro: dict_ok_dset)
qed

lemma book_buy:
  assumes "book st F h acts" and "i \<in> F" and "i < length (fs_tickers st)" and "fs_tickers st ! i \<notin> positions h" and "hd_in_position x"
  shows "book st (F - {i}) (dset (fs_tickers st ! i) x h)
    (acts\<lparr>ra_actions := (ra_actions acts)[i := 1], ra_scores := (ra_scores acts)[i := y]\<rparr>)"
proof -
  have "net st ((ra_actions acts)[i := 1]) t = (if t \<in> positions (dset (fs_tickers st ! i) x h) then 1 else 0)" for t
    using assms by (subst net_update) (auto simp: book_def positions_dset)
  then show ?thesis using assms by (auto simp: book_def nth_list_update intro: dict_ok_dset)
qed

section \<open>A session of a rule\<close>

lemma observed_positions: "dict_ok h \<Longrightarrow> dict_ok (observed st h i) \<and> positions (observed st h i) = positions h"
  by (simp add: observed_def Let_def positions_same dict_ok_dset)

lemma bar_steps_yield:
  assumes "dict_ok h"
  shows "yields (\<lambda>(h', eligible, exits). dict_ok h' \<and> positions h' = positions h \<and> of_session st rows eligible \<and> exits_of_session st rows exits)
    (fold_lookup (bar_step np st ir p entry_conds exit_conds fallback) rows (h, [], []))"
proof -
  have keep: "yields (\<lambda>(h', eligible, exits). dict_ok h' \<and> positions h' = positions h)
      (bar_step np st ir p entry_conds exit_conds fallback i s)"
    if "case s of (h', eligible, exits) \<Rightarrow> dict_ok h' \<and> positions h' = positions h" for i s
  proof -
    obtain h' eligible exits where s: "s = (h', eligible, exits)" using prod_cases3 by blast
    show ?thesis
      unfolding s bar_step_def Let_def prod.case
      by (rule yields_then[OF yields_any], rule yields_then[OF yields_any], rule yields_give)
        (use that observed_positions[of h' st i] in \<open>simp add: s\<close>)
  qed
  have "yields (\<lambda>(h', eligible, exits). dict_ok h' \<and> positions h' = positions h)
      (fold_lookup (bar_step np st ir p entry_conds exit_conds fallback) rows (h, [], []))"
    by (rule yields_fold, rule keep) (simp_all add: assms)
  with session_candidates_yield(1)[of st rows np ir p entry_conds exit_conds fallback h] show ?thesis
    unfolding yields_def by (simp add: case_prod_beta)
qed

lemma rotation_exits_positions:
  assumes "dict_ok h"
  shows "dict_ok (fst (rotation_exits st rows target h)) \<and> positions (fst (rotation_exits st rows target h)) = positions h"
proof -
  have "dict_ok g \<Longrightarrow> dict_ok (fst (fold (\<lambda>i (states, exits).
         (dset (fs_tickers st ! i) (holding_of states (fs_tickers st ! i)) states,
          exits @ (if hd_in_position (holding_of states (fs_tickers st ! i)) \<and> fs_tickers st ! i \<notin> set target
                   then [(i, fs_tickers st ! i)] else []))) rows (g, exits)))
      \<and> positions (fst (fold (\<lambda>i (states, exits).
         (dset (fs_tickers st ! i) (holding_of states (fs_tickers st ! i)) states,
          exits @ (if hd_in_position (holding_of states (fs_tickers st ! i)) \<and> fs_tickers st ! i \<notin> set target
                   then [(i, fs_tickers st ! i)] else []))) rows (g, exits))) = positions g" for g exits
  proof (induction rows arbitrary: g exits)
    case (Cons i rows)
    have "dict_ok (dset (fs_tickers st ! i) (holding_of g (fs_tickers st ! i)) g)"
      "positions (dset (fs_tickers st ! i) (holding_of g (fs_tickers st ! i)) g) = positions g"
      using Cons.prems by (simp_all add: positions_same dict_ok_dset)
    with Cons.IH[OF this(1)] show ?case by simp
  qed simp
  from this[OF assms, of "[]"] show ?thesis by (simp add: rotation_exits_def Let_def)
qed

text \<open>The rows of the session that may still be written to: those of tickers outside \<open>W\<close>.\<close>

definition open_rows :: "Store \<Rightarrow> nat \<Rightarrow> nat \<Rightarrow> string set \<Rightarrow> nat set" where
  "open_rows st start stop W = {i. stop \<le> i \<or> start \<le> i \<and> fs_tickers st ! i \<notin> W}"

lemma exit_steps_book:
  assumes "\<forall>(i, t) \<in> set rows. start \<le> i \<and> i < stop \<and> i < length (fs_tickers st) \<and> t = fs_tickers st ! i"
    and "book st (open_rows st start stop (set exited)) h acts"
  shows "case fold exit_step rows (h, exited, ra_actions acts) of (h', exited', actions') \<Rightarrow>
    book st (open_rows st start stop (set exited')) h' (acts\<lparr>ra_actions := actions'\<rparr>)
    \<and> positions h' \<subseteq> positions h"
  using assms
proof (induction rows arbitrary: h exited acts)
  case (Cons row rows)
  obtain i t where row: "row = (i, t)" by fastforce
  show ?case
  proof (cases "t \<in> set exited \<or> \<not> hd_in_position (holding_of h t)")
    case True
    then have "exit_step row (h, exited, ra_actions acts) = (h, exited, ra_actions acts)" by (auto simp: exit_step_def row)
    with Cons.IH[of exited h acts] Cons.prems show ?thesis by simp
  next
    case False
    then have t: "t = fs_tickers st ! i" "i \<in> open_rows st start stop (set exited)" "i < length (fs_tickers st)" "t \<in> positions h" "i < stop" "t \<notin> set exited"
      using Cons.prems by (auto simp: row open_rows_def positions_def)
    have step: "exit_step row (h, exited, ra_actions acts) = (dset t no_holding h, exited @ [t], (ra_actions acts)[i := -1])"
      using False by (simp add: exit_step_def row)
    let ?acts = "acts\<lparr>ra_actions := (ra_actions acts)[i := -1]\<rparr>"
    have "book st (open_rows st start stop (set (exited @ [t]))) (dset t no_holding h) ?acts"
      by (rule book_mono[OF book_sell[OF Cons.prems(2) t(2,3), folded t(1), OF t(4)]]) (use t in \<open>auto simp: open_rows_def\<close>)
    from Cons.IH[OF _ this] Cons.prems(1) show ?thesis
      by (simp add: step positions_dset no_holding_def split: prod.splits) blast
  qed
qed simp

lemma fill_slots_book:
  assumes "\<forall>(i, t, close, score) \<in> set es. start \<le> i \<and> i < stop \<and> i < length (fs_tickers st) \<and> t = fs_tickers st ! i"
    and "book st (open_rows st start stop (set exited \<union> positions h)) h acts" and "n = card (positions h)"
  shows "case fill_slots m exited es n (h, acts) of (h', acts') \<Rightarrow> book st {stop..} h' acts' \<and> card (positions h') \<le> max n m"
  using assms
proof (induction m exited es n "(h, acts)" arbitrary: h acts rule: fill_slots.induct)
  case (1 m exited n)
  then show ?case by (auto simp: open_rows_def elim: book_mono)
next
  case (2 m exited i ticker close score entries n)
  let ?t = ticker and ?x = "\<lparr>hd_in_position = True, hd_entry = close, hd_highest = close, hd_sessions = 0\<rparr>"
  let ?acts = "acts\<lparr>ra_actions := (ra_actions acts)[i := 1], ra_scores := (ra_scores acts)[i := score]\<rparr>"
  show ?case
  proof (cases "m \<le> n")
    case True
    with 2 show ?thesis by (auto simp: open_rows_def elim: book_mono)
  next
    case slots: False
    show ?thesis
    proof (cases "ticker \<in> set exited \<or> hd_in_position (holding_of h ticker)")
      case True
      with slots 2 show ?thesis by simp
    next
      case False
      then have t: "?t = fs_tickers st ! i" "i \<in> open_rows st start stop (set exited \<union> positions h)" "i < length (fs_tickers st)"
          "?t \<notin> positions h" "i < stop"
        using "2.prems" by (auto simp: open_rows_def positions_def)
      have pos: "positions (dset ?t ?x h) = insert ?t (positions h)" by (simp add: positions_dset)
      have "open_rows st start stop (set exited \<union> positions (dset ?t ?x h)) \<subseteq> open_rows st start stop (set exited \<union> positions h) - {i}"
        unfolding pos using t by (auto simp: open_rows_def)
      then have "book st (open_rows st start stop (set exited \<union> positions (dset ?t ?x h))) (dset ?t ?x h) ?acts"
        by (rule book_mono[OF book_buy[OF "2.prems"(2) t(2,3), folded t(1), OF t(4)], rotated]) simp
      moreover have "Suc n = card (positions (dset ?t ?x h))"
        using t(4) finite_positions[of h] "2.prems"(2,3) by (simp add: pos book_def)
      ultimately show ?thesis using 2(2)[OF refl slots False] slots False "2.prems"(1) by (auto simp: max_def split: if_splits)
    qed
  qed
qed


lemma settle_session_book:
  assumes "of_session st [start..<stop] eligible" and "exits_of_session st [start..<stop] exits" and "stop \<le> length (fs_tickers st)"
    and "start \<le> stop" and "book st {start..} h acts" and "card (positions h) \<le> cp_max_positions p"
  shows "case settle_session st ir p rotation [start..<stop] eligible exits (h, acts) of (h', acts') \<Rightarrow>
    book st {stop..} h' acts' \<and> card (positions h') \<le> cp_max_positions p"
proof -
  let ?m = "cp_max_positions p" and ?ranked = "by_priority eligible"
  let ?target = "if rotation then map (\<lambda>(i, t, close, score). t) (take ?m ?ranked) else []"
  obtain h1 leaving where r: "(if rotation then rotation_exits st [start..<stop] ?target h else (h, [])) = (h1, leaving)" by fastforce
  have ok: "dict_ok h" using assms(5) by (simp add: book_def)
  then have h1: "dict_ok h1" "positions h1 = positions h"
    using rotation_exits_positions[OF ok, of st "[start..<stop]" ?target] r by (auto split: if_splits)
  have rows: "\<forall>(i, t) \<in> set (exits @ leaving). start \<le> i \<and> i < stop \<and> i < length (fs_tickers st) \<and> t = fs_tickers st ! i"
    using assms(2,3) rotation_exits_rows[of st "[start..<stop]" ?target h] r by (auto simp: exits_of_session_def split: if_splits)
  obtain h2 exited actions where s: "fold exit_step (exits @ leaving) (h1, [], ra_actions acts) = (h2, exited, actions)"
    using prod_cases3 by blast
  have "book st (open_rows st start stop (set [])) h1 acts"
    by (rule book_mono[OF book_holdings[OF assms(5) h1]]) (use assms(4) in \<open>auto simp: open_rows_def\<close>)
  from exit_steps_book[OF rows this] have h2: "book st (open_rows st start stop (set exited)) h2 (acts\<lparr>ra_actions := actions\<rparr>)"
      "positions h2 \<subseteq> positions h"
    unfolding s by (simp_all add: h1(2))
  have card: "held h2 = card (positions h2)" "card (positions h2) \<le> ?m"
    using h2 held_card[of h2] card_mono[OF finite_positions[OF ok] h2(2)] assms(6) by (simp_all add: book_def)
  let ?entries = "if rotation then filter (\<lambda>(i, t, close, score). t \<in> set ?target) ?ranked else ?ranked"
  have "set ?entries \<subseteq> set eligible" by (auto simp: by_priority_def)
  then have entries: "\<forall>(i, t, close, score) \<in> set ?entries. start \<le> i \<and> i < stop \<and> i < length (fs_tickers st) \<and> t = fs_tickers st ! i"
    using assms(1,3) by (fastforce simp: of_session_def)
  have "book st (open_rows st start stop (set exited \<union> positions h2)) h2 (acts\<lparr>ra_actions := actions\<rparr>)"
    by (rule book_mono[OF h2(1)]) (auto simp: open_rows_def)
  from fill_slots_book[OF entries this refl, of ?m] card(2)
  show ?thesis
    unfolding settle_session_def Let_def prod.case r s card(1) by (auto simp: max_def split: prod.splits)
qed

section \<open>Consecutive sessions\<close>

fun chained :: "nat \<Rightarrow> nat \<Rightarrow> (nat \<times> nat \<times> nat) list \<Rightarrow> bool" where
  "chained N a [] \<longleftrightarrow> True"
| "chained N a ((k, x, y) # ss) \<longleftrightarrow> x = a \<and> a < y \<and> y \<le> N \<and> chained N y ss"

lemma chained_ranges: "start + length ds \<le> N \<Longrightarrow> chained N start (enumerate k (date_ranges start ds))"
proof (induction start ds arbitrary: k rule: date_ranges.induct)
  case (2 start d ds)
  let ?w = "length (takeWhile (\<lambda>x. x = d) ds)"
  have "length ds = ?w + length (dropWhile (\<lambda>x. x = d) ds)" by (metis length_append takeWhile_dropWhile_id)
  with 2 show ?case by (simp add: date_ranges.simps(2) Let_def)
qed simp

lemma chained_takeWhile: "chained N a ss \<Longrightarrow> chained N a (takeWhile P ss)"
  by (induction N a ss rule: chained.induct) simp_all

lemma chained_sessions: "store_ok st \<Longrightarrow> chained (length (fs_tickers st)) 0 (sessions_until st stop)"
  using chained_ranges[of 0 "fs_dates st" "length (fs_tickers st)" 0]
  by (simp add: sessions_until_def sessions_of_def chained_takeWhile store_ok_dates)

lemma chained_yields:
  assumes "\<And>k a b s. a < b \<Longrightarrow> b \<le> N \<Longrightarrow> I a s \<Longrightarrow> yields (I b) (f (k, a, b) s)" and "chained N a ss" and "I a s"
  shows "yields (\<lambda>s. \<exists>c. I c s) (fold_lookup f ss s)"
  using assms(2,3)
proof (induction ss arbitrary: a s)
  case (Cons x ss)
  obtain k b where x: "x = (k, a, b)" using Cons.prems(1) by (cases x) auto
  show ?case
    unfolding fold_lookup_Cons x
    by (rule yields_then[of "I b"]) (use Cons assms(1) in \<open>auto simp: x\<close>)
qed (auto simp: yields_def)

lemma chained_fold:
  assumes "\<And>k a b s. (k, a, b) \<in> set ss \<Longrightarrow> a < b \<Longrightarrow> b \<le> N \<Longrightarrow> I a s \<Longrightarrow> I b (f (k, a, b) s)" and "chained N a ss" and "I a s"
  shows "\<exists>c. I c (fold f ss s)"
  using assms
proof (induction ss arbitrary: a s)
  case (Cons x ss)
  obtain k b where x: "x = (k, a, b)" "a < b" "b \<le> N" "chained N b ss" using Cons.prems(2) by (cases x) auto
  have "I b (f x s)" using Cons.prems(1)[of k a b s] Cons.prems(3) x by simp
  then show ?case using Cons.IH[of b "f x s"] Cons.prems(1) x(4) by simp
qed auto

definition book_state :: "Store \<Rightarrow> nat \<Rightarrow> nat \<Rightarrow> holdings \<times> RankedActions \<Rightarrow> bool" where
  "book_state st m a s \<longleftrightarrow> book st {a..} (fst s) (snd s) \<and> card (positions (fst s)) \<le> m"

lemma session_step_book:
  assumes "a < b" and "b \<le> length (fs_tickers st)" and "book_state st (cp_max_positions p) a s"
  shows "yields (book_state st (cp_max_positions p) b) (session_step np st ir p None (k, a, b) s)"
proof -
  have ok: "dict_ok (fst s)" using assms(3) by (simp add: book_state_def book_def)
  show ?thesis
    unfolding session_step_def Let_def prod.case
  proof (simp only: option.distinct if_False, rule yields_then[OF bar_steps_yield[OF ok, where rows = "[a..<b]"]], clarify,
      rule yields_then[OF session_candidates_yield(2)], assumption, rule yields_give)
    fix h' eligible exits eligible1
    assume *: "dict_ok h'" "positions h' = positions (fst s)" "of_session st [a..<b] eligible1" "exits_of_session st [a..<b] exits"
    have "book st {a..} h' (snd s)" using book_holdings[OF _ *(1,2)] assms(3) by (simp add: book_state_def)
    with * assms show "book_state st (cp_max_positions p) b
        (settle_session st ir p (rotation_day ir p None k) [a..<b] eligible1 exits (h', snd s))"
      using settle_session_book[OF *(3,4) assms(2), of h' "snd s" p ir "rotation_day ir p None k"]
      by (auto simp: book_state_def split: prod.splits)
  qed
qed

lemma blank_book: "book st UNIV [] (no_actions st)" if "store_ok st"
proof -
  have "net st (replicate n 0) t = 0" for n t by (simp add: net_sum cong: if_cong)
  with that show ?thesis by (simp add: book_def no_actions_def store_ok_dates)
qed

lemma compiled_actions_book:
  assumes "store_ok st"
  shows "\<exists>a h. book st {a..} h (fst (compiled_actions np st ir p None stop c)) \<and> card (positions h) \<le> cp_max_positions p"
proof -
  have "yields (\<lambda>s. \<exists>a. book_state st (cp_max_positions p) a s)
      (fold_lookup (session_step np st ir p None) (sessions_until st stop) ([], no_actions st))"
    by (rule chained_yields[where I = "book_state st (cp_max_positions p)", OF _ chained_sessions[OF assms]])
      (simp_all add: session_step_book, simp add: book_state_def blank_book[OF assms])
  then have "yields (\<lambda>acts. \<exists>a h. book st {a..} h acts \<and> card (positions h) \<le> cp_max_positions p)
      (compiled_actions np st ir p None stop)"
    unfolding compiled_actions_def by (rule yields_then) (auto simp: book_state_def intro!: yields_give)
  then show ?thesis by (simp add: yields_def)
qed

section \<open>A session of a profile\<close>

definition one_row_per_day :: "Store \<Rightarrow> bool" where
  "one_row_per_day st \<longleftrightarrow> distinct (zip (fs_dates st) (fs_tickers st))"

lemma range_same_date: "(a, b) \<in> set (date_ranges start ds) \<Longrightarrow> a \<le> i \<Longrightarrow> i < b \<Longrightarrow> ds ! (i - start) = ds ! (a - start)"
proof (induction start ds rule: date_ranges.induct)
  case (2 start d ds)
  let ?w = "length (takeWhile (\<lambda>x. x = d) ds)"
  consider "(a, b) = (start, start + Suc ?w)" | "(a, b) \<in> set (date_ranges (start + Suc ?w) (dropWhile (\<lambda>x. x = d) ds))"
    using "2.prems"(1) by (auto simp: date_ranges.simps(2) Let_def)
  then show ?case
  proof cases
    case 1
    have "ds ! j = d" if "j < ?w" for j
      using nth_mem[of j "takeWhile (\<lambda>x. x = d) ds"] that by (metis set_takeWhileD takeWhile_nth)
    with 1 have "(d # ds) ! (i - start) = d" using "2.prems"(2,3) by (cases "i - start") auto
    with 1 show ?thesis by simp
  next
    case 2
    have "(d # ds) ! (j - start) = dropWhile (\<lambda>x. x = d) ds ! (j - (start + Suc ?w))" if "start + Suc ?w \<le> j" for j
      using that nth_append[of "takeWhile (\<lambda>x. x = d) ds" "dropWhile (\<lambda>x. x = d) ds" "j - start - 1"]
      by (cases "j - start") (auto simp: diff_diff_eq Suc_diff_le intro!: arg_cong[of _ _ "nth _"])
    with "2.IH"[OF refl 2 "2.prems"(2,3)] date_ranges_bounds[OF 2] "2.prems"(2) show ?thesis by simp
  qed
qed simp

lemma session_tickers_distinct:
  assumes "store_ok st" and "one_row_per_day st" and "(k, a, b) \<in> set (sessions_until st stop)"
  shows "inj_on (\<lambda>i. fs_tickers st ! i) {a..<b}"
proof (rule inj_onI)
  fix i j
  assume ij: "i \<in> {a..<b}" "j \<in> {a..<b}" and same: "fs_tickers st ! i = fs_tickers st ! j"
  have ab: "(a, b) \<in> set (date_ranges 0 (fs_dates st))"
    using assms(3) by (auto simp: sessions_until_def sessions_of_def enumerate_eq_zip dest!: set_takeWhileD set_zip_rightD)
  then have "b \<le> length (fs_dates st)" using date_ranges_bounds[OF ab] by simp
  moreover have "fs_dates st ! i = fs_dates st ! j" using range_same_date[OF ab, of i] range_same_date[OF ab, of j] ij by simp
  ultimately have "zip (fs_dates st) (fs_tickers st) ! i = zip (fs_dates st) (fs_tickers st) ! j"
    using ij same store_ok_dates[OF assms(1)] by simp
  then show "i = j"
    using nth_eq_iff_index_eq[of "zip (fs_dates st) (fs_tickers st)" i j] assms(2) ij \<open>b \<le> _\<close> store_ok_dates[OF assms(1)]
    by (simp add: one_row_per_day_def)
qed

text \<open>\<open>P\<close> is what was held when the session was evaluated.\<close>

definition settling :: "Store \<Rightarrow> string set \<Rightarrow> string set \<Rightarrow> nat \<Rightarrow> nat \<Rightarrow> holdings \<times> RankedActions \<Rightarrow> bool" where
  "settling st P selected i b s \<longleftrightarrow> book st {i..} (fst s) (snd s) \<and> positions (fst s) \<subseteq> P \<union> selected
     \<and> (\<forall>j. i \<le> j \<longrightarrow> j < b \<longrightarrow> (fs_tickers st ! j \<in> positions (fst s) \<longleftrightarrow> fs_tickers st ! j \<in> P))"

lemma settle_bar_settling:
  assumes "settling st P selected i b s" and "i < b" and "b \<le> length (fs_tickers st)"
    and "inj_on (\<lambda>i. fs_tickers st ! i) {a..<b}" and "a \<le> i" and "selected \<inter> P = {}"
    and "fst ev = i" and "fst (snd ev) = fs_tickers st ! i"
  shows "settling st P selected (Suc i) b (settle_bar selected ev s)"
proof -
  obtain h acts where s: "s = (h, acts)" by fastforce
  obtain close buy sell score where ev: "ev = (i, fs_tickers st ! i, close, buy, sell, score)"
    using assms(7,8) by (metis prod_cases6 fst_conv snd_conv)
  let ?t = "fs_tickers st ! i"
  have bk: "book st {i..} h acts" and i: "i \<in> {i..}" "i < length (fs_tickers st)" and P: "?t \<in> positions h \<longleftrightarrow> ?t \<in> P"
    and ok: "dict_ok h"
    using assms(1-3) by (auto simp: settling_def s book_def)
  have rest: "{i..} - {i} = {Suc i..}" by auto
  have other: "fs_tickers st ! j \<noteq> ?t" if "Suc i \<le> j" "j < b" for j
    using inj_onD[OF assms(4), of j i] that assms(2,5) by auto
  have keep: "settling st P selected (Suc i) b (h', acts)" if "dict_ok h'" "positions h' = positions h" for h'
    using assms(1) that book_mono[OF book_holdings[OF bk that], of "{Suc i..}"] by (auto simp: settling_def s)
  consider (sell) "sell \<and> hd_in_position (holding_of h ?t)" | (buy) "\<not> (sell \<and> hd_in_position (holding_of h ?t))" "?t \<in> selected"
    | (hold) "\<not> (sell \<and> hd_in_position (holding_of h ?t))" "?t \<notin> selected" by blast
  then show ?thesis
  proof cases
    case sell
    then have "book st {Suc i..} (dset ?t no_holding h) (acts\<lparr>ra_actions := (ra_actions acts)[i := -1]\<rparr>)"
      using book_sell[OF bk i, unfolded rest] by (simp add: mem_positions)
    with sell assms(1) other show ?thesis
      by (auto simp: settling_def s ev settle_bar_def Let_def positions_dset no_holding_def)
  next
    case buy
    let ?x = "\<lparr>hd_in_position = True, hd_entry = close, hd_highest = close, hd_sessions = 0\<rparr>"
    have "?t \<notin> positions h" using P buy(2) assms(6) by auto
    from book_buy[OF bk i this, of ?x score, unfolded rest]
    have "book st {Suc i..} (dset ?t ?x h) (acts\<lparr>ra_actions := (ra_actions acts)[i := 1], ra_scores := (ra_scores acts)[i := score]\<rparr>)"
      by simp
    with buy assms(1) other show ?thesis
      by (auto simp: settling_def s ev settle_bar_def Let_def positions_dset)
  next
    case hold
    have "settle_bar selected ev s = (if hd_in_position (holding_of h ?t)
        then (dset ?t ((holding_of h ?t)\<lparr>hd_sessions := Suc (hd_sessions (holding_of h ?t)),
               hd_highest := py_max (hd_highest (holding_of h ?t)) close\<rparr>) h, acts) else (h, acts))"
      using hold by (simp add: s ev settle_bar_def Let_def)
    then show ?thesis using keep[OF ok refl] by (auto intro!: keep dict_ok_dset ok simp: positions_same)
  qed
qed

lemma settle_bars_settling:
  assumes "inj_on (\<lambda>i. fs_tickers st ! i) {a..<b}" and "b \<le> length (fs_tickers st)" and "selected \<inter> P = {}"
    and "\<And>i. fst (e i) = i \<and> fst (snd (e i)) = fs_tickers st ! i" and "a \<le> i" and "i \<le> b" and "settling st P selected i b s"
  shows "settling st P selected b b (fold (settle_bar selected) (map e [i..<b]) s)"
  using assms(5-7)
proof (induction "b - i" arbitrary: i s)
  case (Suc n)
  then have i: "i < b" by simp
  have "settling st P selected (Suc i) b (settle_bar selected (e i) s)"
    by (rule settle_bar_settling[OF Suc.prems(3) i assms(2,1) Suc.prems(1) assms(3)]) (simp_all add: assms(4))
  with Suc i show ?case by (simp add: upt_conv_Cons)
qed simp

lemma enroll_positions: "dict_ok h \<Longrightarrow> dict_ok (fold (enroll st) rows h) \<and> positions (fold (enroll st) rows h) = positions h"
  by (induction rows arbitrary: h) (simp_all add: enroll_def dict_ok_dset positions_same)

lemma profile_session_book:
  assumes "inj_on (\<lambda>i. fs_tickers st ! i) {a..<b}" and "a < b" and "b \<le> length (fs_tickers st)"
    and "book_state st (cp_max_positions p) a s"
  shows "book_state st (cp_max_positions p) b (profile_session st table p None (k, a, b) s)"
proof -
  let ?m = "cp_max_positions p" and ?h = "fold (enroll st) [a..<b] (fst s)"
  let ?e = "evaluate_bar st table p ?h"
  let ?ranked = "sort_key (\<lambda>(i, t, close, buy, sell, score). slot_priority score t)
    (filter (\<lambda>(i, t, close, buy, sell, score). buy \<and> \<not> hd_in_position (holding_of ?h t)) (map ?e [a..<b]))"
  let ?selected = "(\<lambda>(i, t, rest). t) ` set (take (?m - held ?h) ?ranked)"
  have ok: "dict_ok (fst s)" and m: "card (positions (fst s)) \<le> ?m" and bk: "book st {a..} (fst s) (snd s)"
    using assms(4) by (simp_all add: book_state_def book_def)
  note h = enroll_positions[OF ok, of st "[a..<b]"]
  have e: "fst (?e i) = i \<and> fst (snd (?e i)) = fs_tickers st ! i" for i
    by (simp add: evaluate_bar_def Let_def split: prod.split)
  have new: "?selected \<inter> positions (fst s) = {}"
    using h by (auto dest!: in_set_takeD simp: positions_def[of "fst s", symmetric] mem_positions[symmetric])
  have "card ?selected \<le> ?m - held ?h" by (rule order_trans[OF card_image_le]) (simp_all add: order_trans[OF card_length])
  then have card: "card (positions (fst s) \<union> ?selected) \<le> ?m"
    using h m card_Un_le[of "positions (fst s)" ?selected] held_card[of ?h] by simp
  have "settling st (positions (fst s)) ?selected a b (?h, snd s)"
    using h book_holdings[OF bk] by (auto simp: settling_def)
  from settle_bars_settling[OF assms(1,3) new e order_refl less_imp_le[OF assms(2)] this]
  have "settling st (positions (fst s)) ?selected b b (profile_session st table p None (k, a, b) s)"
    by (simp add: profile_session_def Let_def)
  then have after: "book st {b..} (fst (profile_session st table p None (k, a, b) s)) (snd (profile_session st table p None (k, a, b) s))"
      "positions (fst (profile_session st table p None (k, a, b) s)) \<subseteq> positions (fst s) \<union> ?selected"
    by (simp_all only: settling_def)
  have "finite (positions (fst s) \<union> ?selected)" using finite_positions[OF ok] by simp
  from card_mono[OF this after(2)] card after(1) show ?thesis unfolding book_state_def by linarith
qed

section \<open>A session of a rotation\<close>

lemma if_cases: "(c \<Longrightarrow> P x) \<Longrightarrow> (\<not> c \<Longrightarrow> P y) \<Longrightarrow> P (if c then x else y)"
  by simp

definition booked :: "Store \<Rightarrow> nat \<Rightarrow> holdings \<times> RankedActions \<Rightarrow> bool" where
  "booked st a s \<longleftrightarrow> book st {a..} (fst s) (snd s)"

lemma rotate_bar_book:
  assumes "booked st i s" and "i < length (fs_tickers st)"
  shows "booked st (Suc i) (rotate_bar st p rotation target i s)"
proof -
  obtain h0 acts where s: "s = (h0, acts)" by fastforce
  let ?t = "fs_tickers st ! i"
  have bk: "book st {i..} h0 acts" and ok: "dict_ok h0" using assms(1) by (auto simp: booked_def s book_def)
  have rest: "{i..} - {i} = {Suc i..}" by auto
  have followed: "book st {i..} (dset ?t x h0) acts" if "hd_in_position x = hd_in_position (holding_of h0 ?t)" for x
    by (rule book_holdings[OF bk]) (simp_all add: ok dict_ok_dset positions_same that)
  have sell: "book st {Suc i..} (dset ?t no_holding (dset ?t x h0)) (acts\<lparr>ra_actions := (ra_actions acts)[i := -1]\<rparr>)"
    if "hd_in_position x = hd_in_position (holding_of h0 ?t)" "hd_in_position (holding_of h0 ?t)" for x
    using book_sell[OF followed[OF that(1)], of i, unfolded rest] that assms(2) by (simp add: mem_positions holding_of_dset)
  have buy: "book st {Suc i..} (dset ?t y (dset ?t x h0)) (acts\<lparr>ra_actions := (ra_actions acts)[i := 1], ra_scores := (ra_scores acts)[i := z]\<rparr>)"
    if "hd_in_position x = hd_in_position (holding_of h0 ?t)" "\<not> hd_in_position (holding_of h0 ?t)" "hd_in_position y" for x y z
    using book_buy[OF followed[OF that(1)], of i y z, unfolded rest] that assms(2) by (simp add: mem_positions holding_of_dset)
  have stay: "book st {Suc i..} (dset ?t x h0) acts" if "hd_in_position x = hd_in_position (holding_of h0 ?t)" for x
    by (rule book_mono[OF followed[OF that]]) auto
  show ?thesis
    unfolding s rotate_bar_def prod.case Let_def booked_def
    by (intro if_cases[of _ "\<lambda>r. book st {Suc i..} (fst r) (snd r)"]) (auto intro!: sell buy stay)
qed

lemma rotate_bars_book:
  "booked st i s \<Longrightarrow> i \<le> b \<Longrightarrow> b \<le> length (fs_tickers st) \<Longrightarrow> booked st b (fold (rotate_bar st p rotation target) [i..<b] s)"
proof (induction "b - i" arbitrary: i s)
  case (Suc n)
  then have i: "i < b" by simp
  from Suc show ?case using rotate_bar_book[of st i s p rotation target] by (simp add: upt_conv_Cons[OF i])
qed simp

lemma rotation_session_book:
  assumes "a < b" and "b \<le> length (fs_tickers st)" and "booked st a s"
  shows "booked st b (rotation_session st table p None (k, a, b) s)"
  unfolding rotation_session_def Let_def prod.case
  by (rule rotate_bars_book) (use assms in simp_all)

section \<open>The book of a candidate\<close>

lemma blank_booked: "store_ok st \<Longrightarrow> booked st 0 ([], no_actions st)" "store_ok st \<Longrightarrow> book_state st m 0 ([], no_actions st)"
  by (simp_all add: booked_def book_state_def book_mono[OF blank_book])

lemma build_ranked_actions_book:
  assumes "store_ok st" and "cp_profile p = ''compiled_conditions'' \<or> one_row_per_day st"
  obtains a h where "book st {a..} h (fst (build_ranked_actions np st ir p None None empty_cache))"
    and "cp_profile p \<in> set AUTOMATIC_TOURNAMENT_PROFILES \<or> card (positions h) \<le> cp_max_positions p"
proof (cases "cp_profile p = ''compiled_conditions''")
  case True
  then show ?thesis using compiled_actions_book[OF assms(1), of np ir p None empty_cache] that
    by (auto simp: build_ranked_actions_def session_index_def)
next
  case False
  then have rows: "one_row_per_day st" using assms(2) by simp
  let ?table = "features np st (cp_lookback p)"
  have acts: "fst (build_ranked_actions np st ir p None None empty_cache) = profile_actions np st p None None"
    using False by (simp add: build_ranked_actions_def session_index_def give_def)
  show ?thesis
  proof (cases "cp_profile p \<in> set AUTOMATIC_TOURNAMENT_PROFILES")
    case True
    have "\<exists>c. booked st c (fold (rotation_session st ?table p None) (sessions_until st None) ([], no_actions st))"
      by (rule chained_fold[where I = "booked st", OF _ chained_sessions[OF assms(1)] blank_booked(1)[OF assms(1)]])
        (rule rotation_session_book)
    then obtain c where "booked st c (fold (rotation_session st ?table p None) (sessions_until st None) ([], no_actions st))" ..
    with True show ?thesis
      by (intro that[of c]) (auto simp: acts profile_actions_def rotation_profile_actions_def booked_def)
  next
    case False
    have "\<exists>c. book_state st (cp_max_positions p) c
        (fold (profile_session st ?table p None) (sessions_until st None) ([], no_actions st))"
      by (rule chained_fold[where I = "book_state st (cp_max_positions p)", OF _ chained_sessions[OF assms(1)] blank_booked(2)[OF assms(1)]])
        (rule profile_session_book[OF session_tickers_distinct[OF assms(1) rows]])
    with False show ?thesis using that by (auto simp: acts profile_actions_def book_state_def)
  qed
qed

end
