(* ===== verification/Fs_Sample.thy ===== *)
theory Fs_Sample
  imports Fs_Lookahead
begin

text \<open>
  A small history and a rule, on which the properties of the action generators are applied: two names,
  four sessions, buy above 10 and sell below 9, one slot.
\<close>

definition sample_bar :: "string \<Rightarrow> string \<Rightarrow> rat \<Rightarrow> price_row" where
  "sample_bar date ticker close = [(''date'', PStr date), (''ticker'', PStr ticker), (''close'', PFloat (Fin close))]"

definition sample_history :: "price_row list" where
  "sample_history =
     [sample_bar ''2024-01-02'' ''A'' 8, sample_bar ''2024-01-02'' ''B'' 9,
      sample_bar ''2024-01-03'' ''A'' 11, sample_bar ''2024-01-03'' ''B'' 12,
      sample_bar ''2024-01-04'' ''A'' 12, sample_bar ''2024-01-04'' ''B'' 8,
      sample_bar ''2024-01-05'' ''A'' 8, sample_bar ''2024-01-05'' ''B'' 13]"

definition sample_numpy :: Numpy where
  "sample_numpy = \<lparr>np_root = (\<lambda>x. x), np_argsort = (\<lambda>xs. [0..<length xs])\<rparr>"

definition sample_condition :: "ConditionOperator \<Rightarrow> rat \<Rightarrow> Condition" where
  "sample_condition oper limit =
     \<lparr>cd_left = ''close'', cd_operator = oper, cd_right = Number (Fin limit), cd_description = None, cd_window = None,
      cd_aggregate = None, cd_scale = None, cd_consecutive = None, cd_universe_rank_pct = None\<rparr>"

definition sample_rule :: StrategyIR where
  "sample_rule =
     \<lparr>ir_strategy_id = ''sample'', ir_entry_conditions = [sample_condition Op_GT 10], ir_exit_conditions = [sample_condition Op_LT 9],
      ir_ranking_metric = None, ir_ranking_ascending = False, ir_scheduled_rotation = False, ir_holding_days = None\<rparr>"

definition sample_parameters :: "string \<Rightarrow> CandidateParameters" where
  "sample_parameters profile =
     \<lparr>cp_profile = profile, cp_lookback = 3, cp_threshold = 0, cp_stop_loss_pct = 1 / 2, cp_take_profit_pct = 10, cp_max_positions = 1,
      cp_rebalance_interval_days = 5, cp_trailing_stop_pct = 3 / 4, cp_medium_momentum_weight = 1 / 2\<rparr>"

definition sample_store :: Store where
  "sample_store =
     (let dates = map (row_date (\<lambda>_. [])) sample_history; tickers = map (row_ticker (\<lambda>_. [])) sample_history;
          closes = map Fin [8, 9, 11, 12, 12, 8, 8, 13]
      in \<lparr>fs_rows = sample_history, fs_dates = dates, fs_tickers = tickers, fs_close = closes, fs_open = closes, fs_high = closes,
          fs_low = closes, fs_volume = replicate 8 (Fin 0), fs_rsi = replicate 8 NaN\<rparr>)"

end
