(* ===== verification/Fs_Properties.thy ===== *)
theory Fs_Properties
  imports Fs_Book Fs_Sample
begin

text \<open>
  The properties of the action generators and of the look-ahead check, applied to the sample of
  \<open>Fs_Sample\<close>.
\<close>

section \<open>The sample\<close>

lemma sample_store_new: "new_store (\<lambda>_. []) False sample_history = Inr sample_store"
  by code_simp

lemma sample_facts:
  "length (fs_rows sample_store) = 8" "0 < cp_lookback (sample_parameters profile)"
  "cp_max_positions (sample_parameters profile) = 1" "cp_profile (sample_parameters profile) = profile"
  by (simp_all add: sample_store_def sample_history_def sample_parameters_def Let_def)

lemma sample_end: "session_end (fs_dates sample_store) 6"
  by code_simp

lemma sample_ok: "store_ok sample_store"
  by (rule new_store_ok[OF sample_store_new])

section \<open>No look-ahead\<close>



text \<open>C9. C. The decisions of a structured candidate up to the end of a session are a function of the rows up to it:
  two stores with the same rows up to there give the same actions and scores on them, whatever comes after.\<close>

theorem decisions_ignore_the_future:
  assumes "store_ok st" and "store_ok st'" and "session_end (fs_dates st) n" and "session_end (fs_dates st') n"
    and "cut_store n st = cut_store n st'" and "0 < cp_lookback p"
  shows "take n (ra_actions (fst (build_ranked_actions np st ir p None None empty_cache)))
      = take n (ra_actions (fst (build_ranked_actions np st' ir p None None empty_cache)))
    \<and> take n (ra_scores (fst (build_ranked_actions np st ir p None None empty_cache)))
      = take n (ra_scores (fst (build_ranked_actions np st' ir p None None empty_cache)))"
proof -
  have "cut_at st n" "cut_at st' n" using assms(1-4) by (simp_all add: cut_at_def)
  from build_ranked_actions_cut[OF this(1) assms(6), of np ir] build_ranked_actions_cut[OF this(2) assms(6), of np ir]
  show ?thesis by (simp add: assms(5) cut_acts_def)
qed

lemma decisions_ignore_the_future_witness:
  "take 6 (ra_actions (fst (build_ranked_actions sample_numpy sample_store sample_rule (sample_parameters ''compiled_conditions'') None None empty_cache)))
    = take 6 (ra_actions (fst (build_ranked_actions sample_numpy (cut_store 6 sample_store) sample_rule
        (sample_parameters ''compiled_conditions'') None None empty_cache)))"
proof -
  have "session_end (fs_dates (cut_store 6 sample_store)) 6" by code_simp
  moreover have "cut_store 6 sample_store = cut_store 6 (cut_store 6 sample_store)" by (simp add: cut_store_def)
  ultimately show ?thesis
    using decisions_ignore_the_future[OF sample_ok cut_store_ok[OF sample_ok] sample_end, of 6 "sample_parameters ''compiled_conditions''"]
    sample_facts by simp
qed

section \<open>The position book\<close>

lemma net_cut: "net st (take n actions) t = net (cut_store n st) (take n actions) t"
  unfolding net_def by (intro arg_cong[of _ _ sum_list] map_cong) auto

lemma one_row_cut: "one_row_per_day st \<Longrightarrow> one_row_per_day (cut_store n st)"
  by (simp add: one_row_per_day_def take_zip[symmetric])

text \<open>The actions up to a session end, by the run on the history cut there.\<close>

lemma book_at_session_end:
  assumes "store_ok st" and "session_end (fs_dates st) n" and "cp_profile p = ''compiled_conditions'' \<or> one_row_per_day st"
    and "0 < cp_lookback p"
  obtains h where "dict_ok h"
    and "\<forall>t. net st (take n (ra_actions (fst (build_ranked_actions np st ir p None None empty_cache)))) t = (if t \<in> positions h then 1 else 0)"
    and "cp_profile p \<in> set AUTOMATIC_TOURNAMENT_PROFILES \<or> card (positions h) \<le> cp_max_positions p"
proof -
  have cut: "cut_at st n" using assms(1,2) by (simp add: cut_at_def)
  have "cp_profile p = ''compiled_conditions'' \<or> one_row_per_day (cut_store n st)" using assms(3) one_row_cut by blast
  then obtain a h where bk: "book (cut_store n st) {a..} h (fst (build_ranked_actions np (cut_store n st) ir p None None empty_cache))"
    "cp_profile p \<in> set AUTOMATIC_TOURNAMENT_PROFILES \<or> card (positions h) \<le> cp_max_positions p"
    using build_ranked_actions_book[OF cut_store_ok[OF assms(1)], of p n np ir] by blast
  let ?A = "ra_actions (fst (build_ranked_actions np st ir p None None empty_cache))"
  have "dict_ok h" "\<forall>t. net (cut_store n st) (take n ?A) t = (if t \<in> positions h then 1 else 0)"
    using bk(1) unfolding book_def build_ranked_actions_cut[OF cut assms(4)] cut_acts_update by blast+
  then show ?thesis unfolding net_cut[symmetric] by (rule that[OF _ _ bk(2)])
qed

text \<open>C10. C. At the end of every session each ticker has been bought as often as it has been sold, or once more: the
  actions of a candidate never buy a name that is held and never sell one that is not.  A rule needs no
  assumption on the rows; a parameter profile needs one row per ticker and day.\<close>

theorem positions_consistent:
  assumes "store_ok st" and "session_end (fs_dates st) n" and "cp_profile p = ''compiled_conditions'' \<or> one_row_per_day st"
    and "0 < cp_lookback p"
  shows "net st (take n (ra_actions (fst (build_ranked_actions np st ir p None None empty_cache)))) t \<in> {0, 1}"
  by (rule book_at_session_end[OF assms, of np ir]) simp

lemma positions_consistent_witness:
  "net sample_store (take 6 (ra_actions (fst (build_ranked_actions sample_numpy sample_store sample_rule
     (sample_parameters ''compiled_conditions'') None None empty_cache)))) ''00000A'' \<in> {0, 1}"
  by (rule positions_consistent[OF sample_ok sample_end]) (simp_all add: sample_facts)

text \<open>C. A rule or a single-name profile never holds more names than it has slots: at the end of every session the
  tickers bought and not sold again are at most \<open>max_positions\<close>.\<close>

theorem slots_respected:
  assumes "store_ok st" and "session_end (fs_dates st) n" and "cp_profile p = ''compiled_conditions'' \<or> one_row_per_day st"
    and "0 < cp_lookback p" and "cp_profile p \<notin> set AUTOMATIC_TOURNAMENT_PROFILES"
  shows "card {t. net st (take n (ra_actions (fst (build_ranked_actions np st ir p None None empty_cache)))) t = 1} \<le> cp_max_positions p"
proof (rule book_at_session_end[OF assms(1-4), of np ir])
  fix h
  assume "\<forall>t. net st (take n (ra_actions (fst (build_ranked_actions np st ir p None None empty_cache)))) t = (if t \<in> positions h then 1 else 0)"
    and card: "cp_profile p \<in> set AUTOMATIC_TOURNAMENT_PROFILES \<or> card (positions h) \<le> cp_max_positions p"
  then have "{t. net st (take n (ra_actions (fst (build_ranked_actions np st ir p None None empty_cache)))) t = 1} = positions h" by auto
  with card assms(5) show ?thesis by simp
qed

lemma slots_respected_witness:
  "card {t. net sample_store (take 6 (ra_actions (fst (build_ranked_actions sample_numpy sample_store sample_rule
     (sample_parameters ''compiled_conditions'') None None empty_cache)))) t = 1} \<le> 1"
  using slots_respected[OF sample_ok sample_end, where p = "sample_parameters ''compiled_conditions''" and np = sample_numpy and ir = sample_rule]
  by (simp add: sample_facts AUTOMATIC_TOURNAMENT_PROFILES_def)

end
