(* ===== verification/Fs_Percentiles.thy ===== *)
theory Fs_Percentiles
  imports Fs_Book Fs_Sample "HOL-Library.Multiset"
begin

text \<open>
  What \<open>_percentile_ranks\<close> computes: the mid-rank of a value, by counting instead of sorting
  (\<open>percentile_ranks_reference\<close>), and a rotation that holds more names than it has slots
  (\<open>rotation_overfills\<close>).
\<close>

section \<open>Mid-ranks\<close>

definition below :: "(string \<times> rat) list \<Rightarrow> rat \<Rightarrow> nat" where
  "below vals v = length (filter (\<lambda>(t, w). w < v) vals)"

definition ties :: "(string \<times> rat) list \<Rightarrow> rat \<Rightarrow> nat" where
  "ties vals v = length (filter (\<lambda>(t, w). w = v) vals)"

definition mid_rank :: "(string \<times> rat) list \<Rightarrow> rat \<Rightarrow> rat" where
  "mid_rank vals v = of_nat (below vals v) + (of_nat (ties vals v) - 1) / 2"

lemma first_pair: "x \<in> set l \<Longrightarrow> \<exists>u w ys. l = (u, w) # ys"
  by (cases l) auto

lemma rank_runs_mid:
  assumes "sorted (map snd xs)"
  shows "rank_runs n start xs = map (\<lambda>(t, v). (t, (of_nat start + mid_rank xs v) / of_nat n)) xs"
  using assms
proof (induction n start xs rule: rank_runs.induct)
  case (2 n start t v rest)
  let ?P = "\<lambda>(u, w). w = v"
  let ?same = "takeWhile ?P rest" and ?rest = "dropWhile ?P rest"
  have split: "rest = ?same @ ?rest" by simp
  have sorted_rest: "sorted (map snd ?rest)" using "2.prems"
    by (metis (no_types, lifting) list.simps(9) map_append sorted_append sorted_simps(2) takeWhile_dropWhile_id)
  have same: "w = v" if "(u, w) \<in> set ?same" for u w using set_takeWhileD[OF that] by simp
  have later: "v < w" if mem: "(u, w) \<in> set ?rest" for u w
  proof -
    obtain u0 w0 ys where rest: "?rest = (u0, w0) # ys" using first_pair[OF mem] by blast
    then have "\<not> ?P (u0, w0)" using hd_dropWhile[of ?P rest] by (metis list.distinct(1) list.sel(1))
    moreover have "(u0, w0) \<in> set rest" using rest by (metis list.set_intros(1) set_dropWhileD)
    then have "v \<le> w0" using "2.prems" by force
    moreover have "w0 \<le> w" using mem sorted_rest rest by auto
    ultimately show ?thesis by simp
  qed
  have parts: "filter Q rest = filter Q ?same @ filter Q ?rest" for Q by (metis filter_append split)
  have eq: "mid_rank ((t, v) # rest) w = of_nat (length ?same) / 2" if "w = v" for w
  proof -
    have "filter (\<lambda>(u, w). w < v) ?same = []" "filter (\<lambda>(u, w). w < v) ?rest = []"
      "filter (\<lambda>(u, w). w = v) ?same = ?same" "filter (\<lambda>(u, w). w = v) ?rest = []"
      using same later by (force simp: filter_empty_conv filter_id_conv)+
    then have "filter (\<lambda>(u, w). w < v) rest = []" "filter (\<lambda>(u, w). w = v) rest = ?same" by (simp_all only: parts append_Nil append_Nil2)
    then show ?thesis using that by (simp add: mid_rank_def below_def ties_def)
  qed
  have gt: "mid_rank ((t, v) # rest) w = of_nat (Suc (length ?same)) + mid_rank ?rest w" if "v < w" for w
  proof -
    have "filter (\<lambda>(u, x). x < w) ?same = ?same" "filter (\<lambda>(u, x). x = w) ?same = []"
      using same that by (auto simp: filter_id_conv filter_empty_conv)
    then have "below rest w = length ?same + below ?rest w" "ties rest w = ties ?rest w"
      unfolding below_def ties_def by (simp_all only: parts length_append list.size)
    then show ?thesis using that by (simp add: mid_rank_def below_def ties_def)
  qed
  let ?stop = "start + 1 + length ?same"
  let ?f = "\<lambda>(u, w). (u, (of_nat start + mid_rank ((t, v) # rest) w) / of_nat n)"
  have "rank_runs n ?stop ?rest = map (\<lambda>(u, w). (u, (of_nat ?stop + mid_rank ?rest w) / of_nat n)) ?rest"
    using "2.IH" sorted_rest by simp
  also have "\<dots> = map ?f ?rest"
    using later gt by (intro map_cong) (auto simp: algebra_simps)
  finally have rest: "rank_runs n ?stop ?rest = map ?f ?rest" .
  have "map (\<lambda>(u, w). (u, (of_nat (start + ?stop - 1) / 2) / of_nat n)) ((t, v) # ?same) = map ?f ((t, v) # ?same)"
  proof (intro map_cong refl)
    fix x
    assume "x \<in> set ((t, v) # ?same)"
    then have "snd x = v" using same[of "fst x" "snd x"] by (metis prod.collapse set_ConsD snd_conv)
    then obtain u where x: "x = (u, v)" by (metis prod.collapse)
    have "of_nat (start + ?stop - 1) / 2 = of_nat start + mid_rank ((t, v) # rest) v"
      unfolding eq[OF refl] by simp
    then show "(case x of (u, w) \<Rightarrow> (u, of_nat (start + ?stop - 1) / 2 / of_nat n)) = ?f x" unfolding x prod.case by (simp only:)
  qed
  then have "rank_runs n start ((t, v) # rest) = map ?f ((t, v) # ?same) @ map ?f ?rest"
    by (simp only: rank_runs.simps Let_def rest)
  also have "\<dots> = map ?f ((t, v) # rest)" by (metis append_Cons map_append split)
  finally show ?case .
qed simp

lemma dget_fold_dset: "distinct (map fst kvs) \<Longrightarrow> (k, v) \<in> set kvs \<Longrightarrow> dget (fold (\<lambda>(t, r). dset t r) kvs d) k = Some v"
proof (induction kvs arbitrary: d)
  case (Cons kv kvs)
  obtain t r where kv: "kv = (t, r)" by fastforce
  show ?case
  proof (cases "(k, v) = kv")
    case True
    have other: "dget (fold (\<lambda>(t, r). dset t r) kvs d) k = dget d k" if "k \<notin> fst ` set kvs" for d
      using that by (induction kvs arbitrary: d) (auto simp: dict_simps split: prod.splits)
    show ?thesis using Cons.prems(1) True kv other[of "dset t r d"] by (simp add: dict_simps)
  qed (use Cons kv in auto)
qed simp


lemma mid_rank_mset: "mset xs = mset ys \<Longrightarrow> mid_rank xs v = mid_rank ys v"
  unfolding mid_rank_def below_def ties_def by (simp only: size_mset[symmetric] mset_filter)

lemma mid_rank_bounds:
  assumes "(t, v) \<in> set vals"
  shows "0 \<le> mid_rank vals v" and "mid_rank vals v \<le> of_nat (length vals) - 1"
proof -
  have pos: "1 \<le> ties vals v" using assms by (auto simp: ties_def Suc_le_eq filter_empty_conv)
  then show "0 \<le> mid_rank vals v" by (simp add: mid_rank_def)
  have "below vals v + ties vals v \<le> length vals" by (induction vals) (auto simp: below_def ties_def)
  then have "(of_nat (below vals v) :: rat) + of_nat (ties vals v) \<le> of_nat (length vals)" by (metis of_nat_add of_nat_le_iff)
  moreover have "(1 :: rat) \<le> of_nat (ties vals v)" using pos by simp
  ultimately show "mid_rank vals v \<le> of_nat (length vals) - 1" by (simp add: mid_rank_def field_simps)
qed

text \<open>C11. C. \<open>_percentile_ranks\<close>, which sorts and walks runs of equal values, gives every ticker its mid-rank: the
  number of smaller values plus half the number of other equal ones, over the last position; it is between 0 and 1.\<close>

theorem percentile_ranks_reference:
  assumes "distinct (map fst vals)" and "(t, v) \<in> set vals" and "1 < length vals"
  shows "dget (percentile_ranks vals) t = Some (mid_rank vals v / (of_nat (length vals) - 1))
    \<and> 0 \<le> mid_rank vals v / (of_nat (length vals) - 1) \<and> mid_rank vals v / (of_nat (length vals) - 1) \<le> 1"
proof -
  let ?ordered = "sort_key (\<lambda>(t, v). (v, t)) vals"
  have "sorted (map (\<lambda>(t, v). (v, t)) ?ordered)" by (rule sorted_sort_key)
  then have "sorted_wrt (\<lambda>x y. (case x of (t, v) \<Rightarrow> (v, t)) \<le> (case y of (t, v) \<Rightarrow> (v, t))) ?ordered" by (simp add: sorted_map)
  then have "sorted_wrt (\<lambda>x y. snd x \<le> snd y) ?ordered"
    by (rule sorted_wrt_mono_rel[rotated]) (auto simp: less_eq_prod_def split: prod.splits)
  then have sorted: "sorted (map snd ?ordered)" by (simp add: sorted_map)
  have mid: "mid_rank ?ordered w = mid_rank vals w" for w by (rule mid_rank_mset) simp
  let ?kvs = "map (\<lambda>(t, v). (t, (0 + mid_rank vals v) / of_nat (length vals - 1))) ?ordered"
  have runs: "rank_runs (length vals - 1) 0 ?ordered = ?kvs" using rank_runs_mid[OF sorted, of "length vals - 1" 0] by (simp add: mid)
  have "map fst ?kvs = map fst ?ordered" by (induction ?ordered) auto
  moreover have "mset (map fst ?ordered) = mset (map fst vals)" by (simp only: mset_map mset_sort)
  ultimately have "distinct (map fst ?kvs)" using assms(1) by (metis mset_eq_imp_distinct_iff)
  moreover have "(t, (0 + mid_rank vals v) / of_nat (length vals - 1)) \<in> set ?kvs" using assms(2) by force
  ultimately have "dget (fold (\<lambda>(t, r). dset t r) ?kvs []) t = Some ((0 + mid_rank vals v) / of_nat (length vals - 1))"
    by (rule dget_fold_dset)
  then have "dget (percentile_ranks vals) t = Some (mid_rank vals v / (of_nat (length vals) - 1))"
    unfolding percentile_ranks_def Let_def length_sort runs using assms(3) by (simp add: of_nat_diff)
  moreover have "(1 :: rat) < of_nat (length vals)" using assms(3) by simp
  ultimately show ?thesis using mid_rank_bounds[OF assms(2)] by simp
qed

lemma percentile_ranks_reference_witness:
  "dget (percentile_ranks [(''A'', 3), (''B'', 1), (''C'', 3)]) ''C'' = Some (3 / 4)"
  using percentile_ranks_reference[of "[(''A'', 3), (''B'', 1), (''C'', 3)]" "''C''" 3]
  by (simp add: mid_rank_def below_def ties_def)

section \<open>More names than slots\<close>

text \<open>Two names with the same factors, each with a bar in one session only.\<close>

definition gap_store :: Store where
  "gap_store =
     \<lparr>fs_rows = [[], []], fs_dates = [''2024-01-02'', ''2024-01-09''], fs_tickers = [''A'', ''B''], fs_close = [Fin 10, Fin 10],
      fs_open = [Fin 10, Fin 10], fs_high = [Fin 10, Fin 10], fs_low = [Fin 10, Fin 10], fs_volume = [Fin 0, Fin 0],
      fs_rsi = [NaN, NaN]\<rparr>"

definition leader_row :: FeatureRow where
  "leader_row = blank_row\<lparr>ft_ready := True, ft_momentum_12_1 := Fin 1, ft_medium_return := Fin 1, ft_sma_200 := Fin 5\<rparr>"

text \<open>A rotation sells a name that left the target only on a bar of that name.  A name without a bar on the
  rotation day is kept, the target is bought besides, and the book holds two names with one slot.\<close>

definition gap_holdings :: holdings where
  "gap_holdings = fst (fold (rotation_session gap_store [leader_row, leader_row] (sample_parameters ''relative_momentum_rotation'') None)
     [(252, 0, 1), (257, 1, 2)] ([], no_actions gap_store))"

lemma rotation_overfills: "positions gap_holdings = {''A'', ''B''} \<and> cp_max_positions (sample_parameters ''relative_momentum_rotation'') = 1"
proof -
  have "distinct (map fst gap_holdings)" "map fst (filter (\<lambda>(t, x). hd_in_position x) gap_holdings) = [''A'', ''B'']" by code_simp+
  then have "positions gap_holdings = set [''A'', ''B'']" by (metis dict_ok_def list.set_map positions_held)
  then show ?thesis by (simp add: sample_parameters_def)
qed

end
