(* ===== verification/Fs_Compiler.thy ===== *)
theory Fs_Compiler
  imports Fs_Evaluate
begin

text \<open>
  The compiler of rules, the rest of \<^verbatim>\<open>nodes/condition_compiler.py\<close>: a condition becomes the text of
  a Python expression over the bars of one stock, or a cut through the universe, or it is refused.  The
  refusals decide whether a strategy is admitted to a backtest.  \<open>repr\<close> of a float is an argument.
\<close>

section \<open>Vocabulary\<close>

text \<open>The metrics of a bar and the variables of the generated code that hold them.\<close>

definition PRICE_METRICS :: "string list" where
  "PRICE_METRICS = [''open'', ''high'', ''low'', ''close'', ''volume'']"

definition CURRENT :: "(string, string) dict" where
  "CURRENT =
     [(''open'', ''open_price''), (''high'', ''high_price''), (''low'', ''low_price''), (''close'', ''close''), (''volume'', ''volume'')]
     @ map (\<lambda>m. (m, m))
         [''rsi'', ''sma20'', ''sma50'', ''sma200'', ''ema20'', ''ema50'', ''ema200'', ''macd'', ''macd_signal'', ''macd_hist'', ''adx'',
          ''bb_upper'', ''bb_lower'', ''bb_middle'', ''bb_width'', ''bb_pct'', ''atr'', ''natr'', ''mfi'', ''cci'', ''willr'', ''roc'',
          ''stoch_k'', ''stoch_d'', ''obv'', ''cmf'', ''roe'', ''debt_to_equity'', ''operating_margin'', ''operating_income'',
          ''revenue'', ''per'']"

definition HISTORY :: "(string, string) dict" where
  "HISTORY = map (\<lambda>m. (m, m @ ''s'')) PRICE_METRICS"

definition FINANCIAL_METRICS :: "string list" where
  "FINANCIAL_METRICS = [''roe'', ''debt_to_equity'', ''operating_margin'', ''operating_income'', ''revenue'', ''per'']"

definition STREAK_METRICS :: "string list" where
  "STREAK_METRICS = [''revenue'', ''operating_income'', ''operating_margin'', ''roe'']"

definition DERIVED :: "(string, string) dict" where
  "DERIVED =
     [(''volume_ratio_20'', ''(volume / _avg(volumes[-20:]) if _avg(volumes[-20:]) else 0.0)''),
      (''volume_ratio'', ''(volume / _avg(volumes[-20:]) if _avg(volumes[-20:]) else 0.0)''),
      (''close_to_sma20'', ''(close / sma20 if sma20 else 0.0)''), (''close_to_sma200'', ''(close / sma200 if sma200 else 0.0)''),
      (''high_252'', ''max(highs[-252:])''), (''low_252'', ''min(lows[-252:])'')]"

definition BOOLEAN_EXPRESSIONS :: "(string, string) dict" where
  "BOOLEAN_EXPRESSIONS =
     [(''breakout_high'', ''(close >= max(highs[-252:]) * 0.995)''),
      (''breakout_high_20'', ''(close >= max(highs[-20:]) * 0.995)''),
      (''close_below_lower_band_recent'', ''(min(closes[-5:]) <= bb_lower)''),
      (''close_cross_above_lower_band'', ''(close > bb_lower and closes[-2] <= bb_lower)''),
      (''close_cross_above_sma20'', ''(close > sma20 and closes[-2] <= sma20)''),
      (''close_cross_below_sma20'', ''(close < sma20 and closes[-2] >= sma20)'')]"

definition RUNTIME_DERIVED_REQUIREMENTS :: "(string, string list) dict" where
  "RUNTIME_DERIVED_REQUIREMENTS =
     [(''volume_ratio_20'', [''volume'']), (''volume_ratio'', [''volume'']), (''close_to_sma20'', [''close'', ''sma20'']),
      (''close_to_sma200'', [''close'', ''sma200'']), (''high_252'', [''high'']), (''low_252'', [''low'']),
      (''breakout_high'', [''close'', ''high'']), (''breakout_high_20'', [''close'', ''high'']),
      (''close_below_lower_band_recent'', [''close'', ''bb_lower'']), (''close_cross_above_lower_band'', [''close'', ''bb_lower'']),
      (''close_cross_above_sma20'', [''close'', ''sma20'']), (''close_cross_below_sma20'', [''close'', ''sma20''])]"

text \<open>The base of a derived series, the second component of \<open>derived_series_spec\<close> in the source.\<close>

fun spec_base :: "derived_series \<Rightarrow> string" where
  "spec_base (Realized_Volatility w) = ''close''"
| "spec_base (Relative_Strength w) = ''close''"
| "spec_base (Percentile base) = base"

text \<open>\<open>tuple(dict.fromkeys(...))\<close>: the first occurrences, in order.\<close>

definition from_keys :: "'a list \<Rightarrow> 'a list" where
  "from_keys xs = rev (remdups (rev xs))"

definition condition_metric_inputs :: "string \<Rightarrow> string list" where
  "condition_metric_inputs name =
     (let metric = canonical_metric name in
      case dget boolean_comparisons metric of Some (left, _, right) \<Rightarrow> [canonical_metric left, canonical_metric right]
      | None \<Rightarrow> (case dget boolean_window_rules metric of Some (rule, _) \<Rightarrow> [''close'', canonical_metric rule]
      | None \<Rightarrow> (case dget RUNTIME_DERIVED_REQUIREMENTS metric of Some needed \<Rightarrow> from_keys (map canonical_metric needed)
      | None \<Rightarrow> (case dget derived_ratios metric of Some (n, d, _) \<Rightarrow> from_keys [canonical_metric n, canonical_metric d]
      | None \<Rightarrow> (case derived_series_spec metric of Some spec \<Rightarrow> [spec_base spec]
      | None \<Rightarrow>
          if metric \<notin> set (dkeys CURRENT) \<and> moving_average_spec metric \<noteq> None then [''close''] else [metric])))))"

definition supported_metrics :: "string list" where
  "supported_metrics = sort (remdups (
     [''realized_volatility_20d'', ''realized_volatility_60d'', ''relative_strength_20d'', ''relative_strength_60d'', ''per_percentile'']
     @ dkeys CURRENT @ dkeys metric_aliases @ dkeys percent_scaled @ dkeys boolean_comparisons @ dkeys BOOLEAN_EXPRESSIONS
     @ dkeys DERIVED @ dkeys HISTORY))"

definition runtime_derived_metrics :: "string list \<Rightarrow> string set" where
  "runtime_derived_metrics available_metrics =
     (let available = canonical_metric ` set available_metrics in
        set (filter (\<lambda>m. case derived_series_spec m of Some spec \<Rightarrow> spec_base spec \<in> available | None \<Rightarrow> False) supported_metrics)
      \<union> set (map fst (filter (\<lambda>(m, needed). set needed \<subseteq> available) RUNTIME_DERIVED_REQUIREMENTS))
      \<union> set (map fst (filter (\<lambda>(m, left, _, right). {canonical_metric left, canonical_metric right} \<subseteq> available) boolean_comparisons)))"

definition indicator_row_keys :: "string list" where
  "indicator_row_keys = sort (filter (\<lambda>m. m \<notin> set PRICE_METRICS \<and> m \<notin> set FINANCIAL_METRICS) (dkeys CURRENT))"

section \<open>Operands\<close>

fun OPERATOR :: "ConditionOperator \<Rightarrow> string option" where
  "OPERATOR Op_LT = Some ''<''"
| "OPERATOR Op_LTE = Some ''<=''"
| "OPERATOR Op_GT = Some ''>''"
| "OPERATOR Op_GTE = Some ''>=''"
| "OPERATOR Op_EQ = Some ''==''"
| "OPERATOR Op_NE = Some ''!=''"
| "OPERATOR _ = None"

definition double_quoted :: "string \<Rightarrow> string" where
  "double_quoted s = CHR 0x22 # s @ [CHR 0x22]"

definition single_quoted :: "string \<Rightarrow> string" where
  "single_quoted s = CHR 0x27 # s @ [CHR 0x27]"

definition fin_value :: "string \<Rightarrow> string" where
  "fin_value metric = ''_fin(fin, '' @ single_quoted metric @ '')''"

definition rolling_text :: "string \<Rightarrow> nat \<Rightarrow> aggregate \<Rightarrow> string" where
  "rolling_text history window agg =
     (let part = ''('' @ history @ ''[-'' @ show_nat window @ '':])'' in
      case agg of Agg_Avg \<Rightarrow> ''_avg'' @ part | Agg_Last \<Rightarrow> history @ ''[-1]'' | Agg_Max \<Rightarrow> ''max'' @ part
      | Agg_Min \<Rightarrow> ''min'' @ part | Agg_Sum \<Rightarrow> ''sum'' @ part)"

definition moving_average_text :: "string \<Rightarrow> bool \<times> nat \<Rightarrow> string" where
  "moving_average_text metric spec =
     (case spec of (exponential, window) \<Rightarrow>
        if exponential then ''_ind(row, '' @ double_quoted metric @ '')''
        else if 1 < window then ''_avg(closes[-'' @ show_nat (window - 1) @ '':] + [close])'' else ''close'')"

definition series_value :: "string \<Rightarrow> nat option \<Rightarrow> aggregate option \<Rightarrow> string option" where
  "series_value name window agg =
     (let metric = canonical_metric name in
      case rolling_operand window agg of
        Some (w, a) \<Rightarrow> map_option (\<lambda>history. rolling_text history w a) (dget HISTORY metric)
      | None \<Rightarrow>
          if metric \<in> set FINANCIAL_METRICS then Some (fin_value metric)
          else (case dget DERIVED metric of Some e \<Rightarrow> Some e
          | None \<Rightarrow>
          if derived_series_spec metric \<noteq> None then Some metric
          else (case dget CURRENT metric of Some v \<Rightarrow> Some v
          | None \<Rightarrow> map_option (moving_average_text metric) (moving_average_spec metric))))"

definition previous_series_value :: "string \<Rightarrow> string" where
  "previous_series_value name =
     (let metric = canonical_metric name in
      case dget HISTORY metric of Some history \<Rightarrow> history @ ''[-1]''
      | None \<Rightarrow> (case moving_average_spec metric of
          Some (False, window) \<Rightarrow> ''_avg(closes[-'' @ show_nat window @ '':])''
        | _ \<Rightarrow> ''float('' @ double_quoted ''nan'' @ '')''))"

section \<open>Conditions\<close>

definition scaled_text :: "(pyfloat \<Rightarrow> string) \<Rightarrow> Condition \<Rightarrow> string \<Rightarrow> string" where
  "scaled_text rp cond right =
     (case cd_scale cond of Some k \<Rightarrow> ''('' @ right @ '' * '' @ rp k @ '')'' | None \<Rightarrow> right)"

text \<open>Left and right of a comparison: the window goes to the side that is a series.\<close>

definition compiled_operands :: "(pyfloat \<Rightarrow> string) \<Rightarrow> Condition \<Rightarrow> (string \<times> string) option" where
  "compiled_operands rp cond =
     (case cd_right cond of
        Metric right \<Rightarrow>
          (case (series_value (cd_left cond) None None, series_value right (cd_window cond) (cd_aggregate cond)) of
             (Some l, Some r) \<Rightarrow> Some (l, scaled_text rp cond r) | _ \<Rightarrow> None)
      | Number x \<Rightarrow>
          map_option (\<lambda>l. (l, scaled_text rp cond (rp (x * Fin (percent_scale (cd_left cond))))))
            (series_value (cd_left cond) (cd_window cond) (cd_aggregate cond))
      | Numbers _ \<Rightarrow> None)"

definition compile_flag :: "Condition \<Rightarrow> string \<Rightarrow> string option" where
  "compile_flag cond expression =
     map_option (\<lambda>asserted. if asserted then expression else ''(not '' @ expression @ '')'') (flag_is_asserted cond)"

definition compile_comparison_flag :: "Condition \<Rightarrow> string \<times> bool \<times> string \<Rightarrow> string option" where
  "compile_comparison_flag cond rule =
     (case (rule, flag_is_asserted cond) of
        ((left, upward, right), Some asserted) \<Rightarrow>
          (case (dget CURRENT left, dget CURRENT right) of
             (Some l, Some r) \<Rightarrow>
               (let oper = (if asserted then (if upward then ''>'' else ''<'') else if upward then ''<='' else ''>='')
                in Some (''('' @ l @ '' '' @ oper @ '' '' @ r @ '')''))
           | _ \<Rightarrow> None)
      | _ \<Rightarrow> None)"

definition compile_streak :: "Condition \<Rightarrow> nat \<Rightarrow> string option" where
  "compile_streak cond periods =
     (let metric = canonical_metric (cd_left cond) in
      if metric \<notin> set STREAK_METRICS then None
      else if cd_operator cond \<notin> {Op_GT, Op_GTE} then None
      else Some (''('' @ fin_value (metric @ ''_up_streak'') @ '' >= '' @ show_nat periods @ '')''))"

definition compile_between :: "(pyfloat \<Rightarrow> string) \<Rightarrow> Condition \<Rightarrow> string option" where
  "compile_between rp cond =
     (case cd_right cond of
        Numbers [low0, high0] \<Rightarrow>
          (case series_value (cd_left cond) (cd_window cond) (cd_aggregate cond) of
             None \<Rightarrow> None
           | Some left \<Rightarrow>
               (let factor = Fin (percent_scale (cd_left cond));
                    scale = (\<lambda>x. case cd_scale cond of Some k \<Rightarrow> x * factor * k | None \<Rightarrow> x * factor);
                    low = scale low0; high = scale high0
                in if high < low then None else Some (''('' @ rp low @ '' <= '' @ left @ '' <= '' @ rp high @ '')'')))
      | _ \<Rightarrow> None)"

definition compile_cross :: "(pyfloat \<Rightarrow> string) \<Rightarrow> Condition \<Rightarrow> string option" where
  "compile_cross rp cond =
     (case cd_right cond of
        Metric m \<Rightarrow>
          map_option (\<lambda>(left, right).
            let previous_left = previous_series_value (cd_left cond); previous_right = scaled_text rp cond (previous_series_value m)
            in if cd_operator cond = Op_CROSS_ABOVE
               then ''('' @ left @ '' > '' @ right @ '' and '' @ previous_left @ '' <= '' @ previous_right @ '')''
               else ''('' @ left @ '' < '' @ right @ '' and '' @ previous_left @ '' >= '' @ previous_right @ '')'')
            (compiled_operands rp cond)
      | _ \<Rightarrow> None)"

definition compile_one :: "(pyfloat \<Rightarrow> string) \<Rightarrow> Condition \<Rightarrow> string option" where
  "compile_one rp cond =
     (let flag = normal_name (cd_left cond) in
      case dget BOOLEAN_EXPRESSIONS flag of Some expression \<Rightarrow> compile_flag cond expression
      | None \<Rightarrow> (case dget boolean_comparisons flag of Some rule \<Rightarrow> compile_comparison_flag cond rule
      | None \<Rightarrow> (case cd_consecutive cond of Some periods \<Rightarrow> compile_streak cond periods
      | None \<Rightarrow>
          if cd_universe_rank_pct cond \<noteq> None then None
          else if cd_operator cond = Op_BETWEEN then compile_between rp cond
          else if cd_operator cond \<in> {Op_CROSS_ABOVE, Op_CROSS_BELOW} then compile_cross rp cond
          else (case OPERATOR (cd_operator cond) of None \<Rightarrow> None
            | Some oper \<Rightarrow> map_option (\<lambda>(left, right). ''('' @ left @ '' '' @ oper @ '' '' @ right @ '')'') (compiled_operands rp cond)))))"

text \<open>A cut through the universe: metric, share, \<open>True\<close> for the top.\<close>

definition rank_filter :: "Condition \<Rightarrow> (string \<times> pyfloat \<times> bool) option" where
  "rank_filter cond =
     (case cd_universe_rank_pct cond of None \<Rightarrow> None
      | Some pct \<Rightarrow>
          let metric = canonical_metric (cd_left cond) in
          if metric \<notin> set (dkeys CURRENT) \<and> metric \<notin> set FINANCIAL_METRICS \<and> derived_series_spec metric = None
             \<and> moving_average_spec metric = None then None
          else Some (metric, pct, cd_operator cond \<in> {Op_GT, Op_GTE}))"

definition moving_average_warmup :: "Condition \<Rightarrow> nat" where
  "moving_average_warmup cond =
     (let operands = cd_left cond # (case cd_right cond of Metric m \<Rightarrow> [m] | _ \<Rightarrow> [])
      in Max (set (1 # map snd (List.map_filter moving_average_spec operands))))"

section \<open>Rules\<close>

record CompiledConditions =
  cc_per_stock :: string
  cc_rank_filters :: "(string \<times> pyfloat \<times> bool) list"
  cc_warmup_bars :: nat

definition or_one :: "nat option \<Rightarrow> nat" where
  "or_one n = (case n of Some k \<Rightarrow> if k = 0 then 1 else k | None \<Rightarrow> 1)"

definition condition_warmup :: "Condition \<Rightarrow> nat" where
  "condition_warmup cond = max (max (or_one (cd_window cond)) (or_one (cd_consecutive cond))) (moving_average_warmup cond)"

fun compile_loop :: "(pyfloat \<Rightarrow> string) \<Rightarrow> Condition list \<Rightarrow> string list \<times> (string \<times> pyfloat \<times> bool) list \<times> nat
    \<Rightarrow> (string list \<times> (string \<times> pyfloat \<times> bool) list \<times> nat) option" where
  "compile_loop rp [] acc = Some acc"
| "compile_loop rp (cond # conds) (parts, ranks, warmup) =
     (let warmup = max warmup (condition_warmup cond) in
      case rank_filter cond of
        Some chosen \<Rightarrow> compile_loop rp conds (parts, ranks @ [chosen], warmup)
      | None \<Rightarrow> (case compile_one rp cond of
          None \<Rightarrow> None
        | Some expr \<Rightarrow> compile_loop rp conds (parts @ [expr], ranks, warmup)))"

definition compile_conditions :: "(pyfloat \<Rightarrow> string) \<Rightarrow> Condition list \<Rightarrow> CompiledConditions option" where
  "compile_conditions rp conds =
     (if conds = [] then None
      else map_option (\<lambda>(parts, ranks, warmup).
          \<lparr>cc_per_stock = (if parts = [] then ''True'' else join_with '' and '' parts), cc_rank_filters = ranks, cc_warmup_bars = warmup\<rparr>)
        (compile_loop rp conds ([], [], 1)))"

definition condition_label :: "Condition \<Rightarrow> string" where
  "condition_label cond = py_strip (or_text (cd_description cond) (cd_left cond))"

definition refused_step :: "(pyfloat \<Rightarrow> string) \<Rightarrow> bool \<Rightarrow> Condition \<Rightarrow> string list \<Rightarrow> string list" where
  "refused_step rp allow_rank_filters cond unsupported =
     (if rank_filter cond \<noteq> None \<and> allow_rank_filters then unsupported
      else if compile_one rp cond \<noteq> None then unsupported
      else let label = condition_label cond in
        if label \<noteq> [] \<and> label \<notin> set unsupported then unsupported @ [label] else unsupported)"

definition untranslatable_conditions :: "(pyfloat \<Rightarrow> string) \<Rightarrow> bool \<Rightarrow> Condition list \<Rightarrow> string list" where
  "untranslatable_conditions rp allow_rank_filters conds = fold (refused_step rp allow_rank_filters) conds []"

section \<open>Scores\<close>

definition margin_expression :: "(pyfloat \<Rightarrow> string) \<Rightarrow> Condition \<Rightarrow> string option" where
  "margin_expression rp cond =
     (case MARGIN_SIGN (cd_operator cond) of None \<Rightarrow> None
      | Some sign \<Rightarrow>
          if cd_universe_rank_pct cond \<noteq> None \<or> cd_consecutive cond \<noteq> None then None
          else let flag = normal_name (cd_left cond) in
          if has_key BOOLEAN_EXPRESSIONS flag \<or> has_key boolean_comparisons flag then None
          else if \<not> is_metric (cd_right cond) \<and> canonical_metric (cd_left cond) \<in> set LEVEL_METRICS then None
          else map_option (\<lambda>(left, right).
              ''('' @ rp (Fin sign) @ '' * (('' @ left @ '') - ('' @ right @ '')) / max(abs('' @ right @ ''), ''
              @ rp (Fin MARGIN_EPSILON) @ ''))'')
            (compiled_operands rp cond))"

definition compile_score_expression :: "(pyfloat \<Rightarrow> string) \<Rightarrow> Condition list \<Rightarrow> string option" where
  "compile_score_expression rp conds =
     (case List.map_filter (margin_expression rp) conds of
        [] \<Rightarrow> None
      | [m] \<Rightarrow> Some m
      | ms \<Rightarrow> Some (''min('' @ join_with '', '' ms @ '')''))"

end
