(* ===== verification/Fs_Admission.thy ===== *)
theory Fs_Admission
  imports Fs_Compiler Fs_Sample
begin

text \<open>
  Which rules are admitted to a backtest: the operands a condition needs
  (\<open>unavailable_condition_metrics\<close>, \<open>rule_metric_coverage\<close> of \<^verbatim>\<open>nodes/backtest_features.py\<close>), what an
  admission by the compiler promises of the evaluator, and where the two read the same rule differently.
\<close>

section \<open>Availability of operands\<close>

fun operand_names :: "operand \<Rightarrow> string list" where
  "operand_names (Metric m) = [m]"
| "operand_names _ = []"

definition condition_metric_names :: "Condition \<Rightarrow> string list" where
  "condition_metric_names cond =
     from_keys (condition_metric_inputs (cd_left cond) @ concat (map condition_metric_inputs (operand_names (cd_right cond))))"

definition missing_label :: "string \<Rightarrow> series \<Rightarrow> string list" where
  "missing_label label s = (if list_ex isfinite s then [] else [label])"

fun aggregate_name :: "aggregate \<Rightarrow> string" where
  "aggregate_name Agg_Max = ''max''"
| "aggregate_name Agg_Min = ''min''"
| "aggregate_name Agg_Avg = ''avg''"
| "aggregate_name Agg_Sum = ''sum''"
| "aggregate_name Agg_Last = ''last''"

definition missing_operands :: "Numpy \<Rightarrow> Store \<Rightarrow> Condition \<Rightarrow> string list lookup" where
  "missing_operands np st cond =
     and_then (lookup_all (\<lambda>m. and_then (metric_series np st m) (\<lambda>s. give (missing_label (canonical_metric m) s)))
         (condition_metric_names cond)) (\<lambda>found.
       case rolling_operand (cd_window cond) (cd_aggregate cond) of
         None \<Rightarrow> give (concat found)
       | Some (w, a) \<Rightarrow>
           (let metric = (case cd_right cond of Metric m \<Rightarrow> m | _ \<Rightarrow> cd_left cond)
            in and_then (rolling_metric np st metric w a) (\<lambda>s.
                 give (concat found @ missing_label (canonical_metric metric @ '':'' @ aggregate_name a @ show_nat w) s))))"

definition unavailable_condition_metrics ::
    "(pyval \<Rightarrow> string) \<Rightarrow> Numpy \<Rightarrow> price_row list \<Rightarrow> Condition list \<Rightarrow> string list res" where
  "unavailable_condition_metrics txt np rows conds =
     (if rows = [] then Inr []
      else rbind (new_store txt False rows) (\<lambda>st.
        Inr (sort (remdups (concat (fst (lookup_all (missing_operands np st) conds empty_cache)))))))"

text \<open>The share of bars on which each operand of a rule has a value.\<close>

definition rule_operands :: "StrategyIR \<Rightarrow> string list" where
  "rule_operands ir =
     concat (map (\<lambda>cond. cd_left cond # operand_names (cd_right cond) @ condition_metric_names cond)
       (ir_entry_conditions ir @ ir_exit_conditions ir))
     @ (case ir_ranking_metric ir of Some m \<Rightarrow> if m = [] then [] else [m] | None \<Rightarrow> [])"

definition share_of :: "Store \<Rightarrow> series \<Rightarrow> pyfloat" where
  "share_of st s = py_round 4 (Fin (of_nat (length (filter isfinite s)) / of_nat (length (fs_rows st))))"

definition rule_metric_coverage :: "Numpy \<Rightarrow> Store \<Rightarrow> StrategyIR option \<Rightarrow> (string, pyfloat) dict lookup" where
  "rule_metric_coverage np st ir =
     (case ir of None \<Rightarrow> give []
      | Some rule \<Rightarrow>
          if fs_rows st = [] then give []
          else let names = from_keys (rule_operands rule) in
            and_then (lookup_all (metric_series np st) names) (\<lambda>columns.
              give (fold (\<lambda>(name, s). dset (canonical_metric name) (share_of st s)) (zip names columns) [])))"

section \<open>Admission by the compiler\<close>

definition refused :: "(pyfloat \<Rightarrow> string) \<Rightarrow> bool \<Rightarrow> Condition \<Rightarrow> bool" where
  "refused rp allow cond \<longleftrightarrow> \<not> (rank_filter cond \<noteq> None \<and> allow) \<and> compile_one rp cond = None"

lemma refused_step_if:
  "refused_step rp allow c acc =
     (if refused rp allow c \<and> condition_label c \<noteq> [] \<and> condition_label c \<notin> set acc then acc @ [condition_label c] else acc)"
  unfolding refused_step_def refused_def Let_def by simp

lemma set_refused_fold:
  "set (fold (refused_step rp allow) conds acc)
     = set acc \<union> {condition_label c | c. c \<in> set conds \<and> refused rp allow c \<and> condition_label c \<noteq> []}"
proof (induction conds arbitrary: acc)
  case (Cons a conds)
  show ?case unfolding fold_simps Cons.IH[of "refused_step rp allow a acc"] o_apply by (auto simp: refused_step_if)
qed simp

lemma distinct_refused_fold: "distinct acc \<Longrightarrow> distinct (fold (refused_step rp allow) conds acc)"
  by (induction conds arbitrary: acc) (auto simp: refused_step_if)

lemma compile_loop_iff:
  "compile_loop rp conds acc \<noteq> None \<longleftrightarrow> (\<forall>c \<in> set conds. \<not> refused rp True c)"
  by (induction rp conds acc rule: compile_loop.induct) (auto simp: refused_def Let_def split: option.split)

lemma compile_loop_parts:
  "compile_loop rp conds (parts, ranks, w) = Some (parts', ranks', w') \<Longrightarrow>
     ranks' = ranks @ List.map_filter rank_filter conds
   \<and> parts' = parts @ List.map_filter (compile_one rp) (filter (\<lambda>c. rank_filter c = None) conds)
   \<and> w' = fold (\<lambda>c m. max m (condition_warmup c)) conds w"
proof (induction conds arbitrary: parts ranks w)
  case (Cons c conds)
  show ?case
  proof (cases "rank_filter c")
    case None
    with Cons.prems obtain e where e: "compile_one rp c = Some e"
      and l: "compile_loop rp conds (parts @ [e], ranks, max w (condition_warmup c)) = Some (parts', ranks', w')"
      by (auto simp: Let_def split: option.splits)
    from None e Cons.IH[OF l] show ?thesis by (simp add: map_filter_simps)
  next
    case (Some r)
    with Cons.prems have l: "compile_loop rp conds (parts, ranks @ [r], max w (condition_warmup c)) = Some (parts', ranks', w')"
      by (simp add: Let_def)
    from Some Cons.IH[OF l] show ?thesis by (simp add: map_filter_simps)
  qed
qed (simp add: map_filter_simps)

lemma fold_max_low: "w \<le> fold (\<lambda>c m. max m (f c)) xs (w :: nat)"
proof (induction xs arbitrary: w)
  case (Cons y ys)
  from Cons[of "max w (f y)"] show ?case by simp
qed simp

lemma fold_max_upper: "x \<in> set xs \<Longrightarrow> f x \<le> fold (\<lambda>c m. max m (f c)) xs (w :: nat)"
proof (induction xs arbitrary: w)
  case (Cons y ys)
  have "max w (f y) \<le> fold (\<lambda>c m. max m (f c)) ys (max w (f y))" by (rule fold_max_low)
  with Cons show ?case by auto
qed simp

lemma fold_max_attained:
  fixes f :: "'a \<Rightarrow> nat"
  shows "fold (\<lambda>c m. max m (f c)) xs w = w \<or> (\<exists>x \<in> set xs. fold (\<lambda>c m. max m (f c)) xs w = f x)"
proof (induction xs arbitrary: w)
  case (Cons y ys)
  from Cons[of "max w (f y)"] show ?case by (auto simp: max_def split: if_splits)
qed simp

section \<open>What the evaluator reads\<close>

lemma normal_name_idem: "normal_name (normal_name s) = normal_name s"
proof -
  have "py_strip (py_lower (py_strip s)) = py_lower (py_strip s)"
    using py_strip_ends[of s] by (intro py_strip_id) (auto simp: py_lower_def hd_map last_map)
  then show ?thesis by (simp add: normal_name_def)
qed

lemma canonical_metric_idem: "canonical_metric (canonical_metric s) = canonical_metric s"
proof (cases "canonical_metric s \<in> set alias_targets")
  case True
  have "list_all (\<lambda>t. canonical_metric t = t) alias_targets"
    by (simp add: alias_targets_def metric_aliases_def percent_scaled_def canonical_metric_def normal_simps dget_def DEBT_RATIO_KOREAN_def)
  with True show ?thesis by (simp add: list_all_iff)
next
  case False
  then have c: "canonical_metric s = normal_name s" using canonical_cases[of s] by blast
  then show ?thesis by (simp add: canonical_metric_def normal_name_idem)
qed

lemma first_match_Some: "p \<in> set ps \<Longrightarrow> p name \<noteq> None \<Longrightarrow> first_match ps name \<noteq> None"
  by (induction ps) (auto split: option.split)

lemma strip_prefix_append: "strip_prefix p s = Some t \<Longrightarrow> s = p @ t"
  by (induction p s rule: strip_prefix.induct) (auto split: if_splits)

lemma strip_prefix_self [simp]: "strip_prefix p (p @ t) = Some t"
  by (induction p) simp_all

lemma strip_suffix_empty [simp]: "strip_suffix [] s = Some s"
  by (simp add: strip_suffix_def)

lemma average_in_catalog:
  assumes "moving_average_spec m = Some spec"
  shows "catalog_entry (canonical_metric m) \<noteq> None"
proof -
  let ?n = "canonical_metric m"
  obtain e d where a: "average_name ?n = Some (e, d)" and d: "py_isdigit d" "digits_value d \<noteq> 0"
    using assms by (auto simp: moving_average_spec_def MOVING_AVERAGE_MIN_WINDOW_def split: option.splits if_splits)
  obtain t where t: "?n = (if e then ''ema'' else ''sma'') @ t" "d = (if take 1 t = ''_'' then tl t else t)"
    using a by (auto simp: average_name_def Let_def dest!: strip_prefix_append split: option.splits)
  have read: "optional_underscore pre f (pre @ t) \<noteq> None" for pre and f :: "nat \<Rightarrow> metric_entry"
  proof (cases "take 1 t = ''_''")
    case True
    with t(2) have "t = ''_'' @ d" by (cases t) auto
    then have "pre @ t = (pre @ ''_'') @ d" by simp
    then show ?thesis using d by (simp add: optional_underscore_def numbered_def number_between_def number_text_def
          del: append_assoc append.simps)
  next
    case False
    with t(2) d show ?thesis
      by (simp add: optional_underscore_def numbered_def number_between_def number_text_def split: option.split)
  qed
  have "optional_underscore ''sma'' (Trend \<circ> Sma) \<in> set catalog_patterns" "optional_underscore ''ema'' (Trend \<circ> Ema) \<in> set catalog_patterns"
    by (simp_all add: catalog_patterns_def)
  from first_match_Some[OF this(1) read] first_match_Some[OF this(2) read] show ?thesis
    unfolding catalog_entry_def t(1) by (cases e) (simp_all del: not_None_eq)
qed

definition evaluator_reads :: "string \<Rightarrow> bool" where
  "evaluator_reads m \<longleftrightarrow> (let n = canonical_metric m in
     n \<in> set (dkeys CURRENT) \<or> derived_ratio m \<noteq> None \<or> derived_series_spec n \<noteq> None \<or> catalog_entry n \<noteq> None)"

lemma derived_cases:
  assumes "dget DERIVED (canonical_metric m) = Some e"
  shows "derived_ratio m \<noteq> None \<or> canonical_metric m \<in> {''high_252'', ''low_252''}"
proof -
  have "canonical_metric m \<notin> set alias_targets"
    using assms by (auto simp: DERIVED_def dget_def alias_targets_def metric_aliases_def percent_scaled_def split: if_splits)
  then have "canonical_metric m = normal_name m" using canonical_cases[of m] by blast
  with assms show ?thesis by (auto simp: derived_ratio_def derived_ratios_def DERIVED_def dget_def split: if_splits)
qed

lemma series_value_read:
  assumes "series_value m w a = Some t"
  shows "evaluator_reads m \<or> canonical_metric m \<in> {''high_252'', ''low_252''}"
proof -
  have h: "dget HISTORY n = Some x \<Longrightarrow> n \<in> set (dkeys CURRENT)" for n x
    by (auto simp: HISTORY_def PRICE_METRICS_def CURRENT_def dget_def dkeys_def split: if_splits)
  have f: "n \<in> set FINANCIAL_METRICS \<Longrightarrow> n \<in> set (dkeys CURRENT)" for n
    by (auto simp: FINANCIAL_METRICS_def CURRENT_def dkeys_def)
  have c: "dget CURRENT n = Some x \<Longrightarrow> n \<in> set (dkeys CURRENT)" for n x
    by (auto simp: dkeys_def dest!: dget_in_set intro: rev_image_eqI)
  show ?thesis
    using assms h f c derived_cases[of m] average_in_catalog[of "canonical_metric m"]
    by (auto simp: series_value_def evaluator_reads_def Let_def canonical_metric_idem split: option.splits if_splits)
qed

section \<open>Flags the evaluator does not know\<close>

definition UNREAD_FLAGS :: "string list" where
  "UNREAD_FLAGS = [''close_cross_above_lower_band'', ''close_cross_above_sma20'', ''close_cross_below_sma20'']"

lemma unread_catalog:
  assumes "n \<in> set UNREAD_FLAGS"
  shows "catalog_entry n = None" "derived_series_spec n = None"
proof -
  have "list_all (\<lambda>n. catalog_entry n = None) UNREAD_FLAGS"
    by (simp add: UNREAD_FLAGS_def entry_simps number_simps)
  moreover have "list_all (\<lambda>n. derived_series_spec n = None) UNREAD_FLAGS"
    by (simp add: UNREAD_FLAGS_def derived_series_spec_def number_between_def strip_suffix_def normal_simps)
  ultimately show "catalog_entry n = None" "derived_series_spec n = None" using assms by (simp_all add: list_all_iff)
qed

lemma unread_names:
  assumes "n \<in> set UNREAD_FLAGS"
  shows "dget percent_scaled n = None" "dget metric_aliases n = None" "dget derived_ratios n = None"
    "dget boolean_comparisons n = None" "dget boolean_window_rules n = None" "n \<noteq> ''rsi''" "bar_column st n = None"
proof -
  have names: "list_all (\<lambda>n. dget percent_scaled n = None) UNREAD_FLAGS" "list_all (\<lambda>n. dget metric_aliases n = None) UNREAD_FLAGS"
    "list_all (\<lambda>n. dget derived_ratios n = None) UNREAD_FLAGS" "list_all (\<lambda>n. dget boolean_comparisons n = None) UNREAD_FLAGS"
    "list_all (\<lambda>n. dget boolean_window_rules n = None) UNREAD_FLAGS" "list_all (\<lambda>n. n \<noteq> ''rsi'' \<and> bar_column st n = None) UNREAD_FLAGS"
    by (simp_all add: UNREAD_FLAGS_def percent_scaled_def metric_aliases_def derived_ratios_def boolean_comparisons_def
      boolean_window_rules_def dget_def DEBT_RATIO_KOREAN_def bar_column_def)
  show "dget percent_scaled n = None" "dget metric_aliases n = None" "dget derived_ratios n = None"
    "dget boolean_comparisons n = None" "dget boolean_window_rules n = None" "n \<noteq> ''rsi''" "bar_column st n = None"
    using names[unfolded list_all_iff, rule_format, OF assms] by simp_all
qed

lemma unread_canonical: "normal_name m \<in> set UNREAD_FLAGS \<Longrightarrow> canonical_metric m = normal_name m"
  by (simp add: canonical_metric_def unread_names)

text \<open>Such a name is looked up among the keys of the rows.\<close>

lemma unread_series:
  assumes "normal_name m \<in> set UNREAD_FLAGS"
  shows "metric_series np st m c =
     (case dget (ch_metrics c) (normal_name m) of Some v \<Rightarrow> (v, c)
      | None \<Rightarrow> remember (normal_name m) (row_metric_series st m (normal_name m)) c)"
  using assms by (subst metric_series.simps)
    (simp add: unread_canonical unread_names unread_catalog derived_ratio_def Let_def split: option.split)

definition carries_none :: "string \<Rightarrow> Store \<Rightarrow> bool" where
  "carries_none name st = list_all (\<lambda>row. dget row name = None) (fs_rows st)"

lemma row_metric_missing:
  "carries_none m st \<Longrightarrow> carries_none (normal_name m) st \<Longrightarrow>
     row_metric_series st m (normal_name m) = replicate (length (fs_rows st)) NaN"
  by (auto simp: row_metric_series_def row_number_def carries_none_def list_all_iff pget_def finite_number_def
      map_replicate_const[symmetric] Let_def intro!: map_cong)

definition plain_flag :: "Condition \<Rightarrow> bool" where
  "plain_flag cond \<longleftrightarrow> normal_name (cd_left cond) \<in> set UNREAD_FLAGS \<and> flag_is_asserted cond \<noteq> None
     \<and> cd_consecutive cond = None \<and> rolling_operand (cd_window cond) (cd_aggregate cond) = None"

text \<open>What the cache holds of the name, if anything, is the column of the rows.\<close>

definition cache_plain :: "string \<Rightarrow> Store \<Rightarrow> Cache \<Rightarrow> bool" where
  "cache_plain m st c \<longleftrightarrow> dget (ch_metrics c) (normal_name m) \<in> {None, Some (row_metric_series st m (normal_name m))}"

lemma unread_flag_no_match:
  assumes flag: "plain_flag cond" and none: "carries_none (cd_left cond) st" "carries_none (normal_name (cd_left cond)) st"
    and c: "cache_plain (cd_left cond) st c" and i: "i < length (fs_rows st)"
  shows "\<not> fst (condition_matches np st cond i c) \<and> cache_plain (cd_left cond) st (snd (condition_matches np st cond i c))"
proof -
  let ?m = "cd_left cond" and ?n = "normal_name (cd_left cond)"
  from flag have n: "?n \<in> set UNREAD_FLAGS" by (simp add: plain_flag_def)
  obtain c' where s: "metric_series np st ?m c = (replicate (length (fs_rows st)) NaN, c')" "cache_plain ?m st c'"
    using c by (auto simp: unread_series[OF n] row_metric_missing[OF none] cache_plain_def remember_def dget_dset)
  obtain x where x: "cd_right cond = Number x" using flag
    by (auto simp: plain_flag_def flag_is_asserted_def split: operand.splits)
  have "comparison_operands np st cond i c = ((None, scaled cond (Some (x * Fin (percent_scale ?m)))), c')"
    using flag s(1) i x
    by (simp add: comparison_operands_def condition_series_value_def plain_flag_def current_metric_def and_then_def give_def value_at_def)
  then have "base_condition_matches np st cond i c = (False, c')"
    using n by (simp add: base_condition_matches_def boolean_comparison_def boolean_window_rule_def unread_names and_then_def give_def)
  with s(2) flag show ?thesis by (simp add: condition_matches_def plain_flag_def)
qed

lemma unread_flag_never:
  assumes "plain_flag cond" and "carries_none (cd_left cond) st" and "carries_none (normal_name (cd_left cond)) st"
    and "cache_plain (cd_left cond) st c" and "list_all (\<lambda>i. i < length (fs_rows st)) is"
  shows "fst (lookup_all (condition_matches np st cond) is c) = replicate (length is) False"
  using assms(4,5)
proof (induction "is" arbitrary: c)
  case (Cons i js)
  obtain b c' where m: "condition_matches np st cond i c = (b, c')" by fastforce
  with unread_flag_no_match[OF assms(1-3) Cons.prems(1), of i np] Cons.prems(2) have "\<not> b" "cache_plain (cd_left cond) st c'" by auto
  with m Cons.IH[of c'] Cons.prems(2) show ?case by (auto split: prod.split)
qed simp

lemma unread_flag_compiles:
  assumes "plain_flag cond"
  shows "compile_one rp cond \<noteq> None"
    and "set (condition_metric_names cond) \<subseteq> {''close'', ''sma20'', ''bb_lower''}"
proof -
  let ?n = "normal_name (cd_left cond)"
  have n: "?n \<in> set UNREAD_FLAGS" and a: "flag_is_asserted cond \<noteq> None" using assms by (simp_all add: plain_flag_def)
  have "list_all (\<lambda>n. dget BOOLEAN_EXPRESSIONS n \<noteq> None) UNREAD_FLAGS"
    by (simp add: UNREAD_FLAGS_def BOOLEAN_EXPRESSIONS_def dget_def)
  with n have "dget BOOLEAN_EXPRESSIONS ?n \<noteq> None" by (simp add: list_all_iff)
  with a show "compile_one rp cond \<noteq> None" by (auto simp: compile_one_def compile_flag_def)
  have "list_all (\<lambda>n. \<exists>xs. dget RUNTIME_DERIVED_REQUIREMENTS n = Some xs \<and> set (map canonical_metric xs) \<subseteq> {''close'', ''sma20'', ''bb_lower''}) UNREAD_FLAGS"
    by (simp add: UNREAD_FLAGS_def RUNTIME_DERIVED_REQUIREMENTS_def dget_def canonical_metric_def normal_simps metric_aliases_def
        percent_scaled_def DEBT_RATIO_KOREAN_def)
  with n obtain xs where "dget RUNTIME_DERIVED_REQUIREMENTS ?n = Some xs" "set (map canonical_metric xs) \<subseteq> {''close'', ''sma20'', ''bb_lower''}"
    by (auto simp: list_all_iff)
  moreover have "operand_names (cd_right cond) = []" using a by (auto simp: flag_is_asserted_def split: operand.splits)
  ultimately show "set (condition_metric_names cond) \<subseteq> {''close'', ''sma20'', ''bb_lower''}"
    by (auto simp: condition_metric_names_def condition_metric_inputs_def Let_def unread_canonical[OF n] unread_names[OF n]
        from_keys_def)
qed

section \<open>Compiled rules\<close>

text \<open>The bars a rule waits for cover every window in it, and no more than one of them asks for.\<close>

lemma warmup_covers_windows:
  assumes "compile_conditions rp conds = Some cc" and "cond \<in> set conds"
  shows "or_one (cd_window cond) \<le> cc_warmup_bars cc \<and> or_one (cd_consecutive cond) \<le> cc_warmup_bars cc
    \<and> (moving_average_spec (cd_left cond) = Some (e, w) \<longrightarrow> w \<le> cc_warmup_bars cc)
    \<and> (cc_warmup_bars cc = 1 \<or> (\<exists>c \<in> set conds. cc_warmup_bars cc = condition_warmup c))
    \<and> cc_rank_filters cc = List.map_filter rank_filter conds"
proof -
  obtain parts ranks w where l: "compile_loop rp conds ([], [], 1) = Some (parts, ranks, w)"
    and cc: "cc_warmup_bars cc = w" "cc_rank_filters cc = ranks"
    using assms(1) by (auto simp: compile_conditions_def split: if_splits)
  from compile_loop_parts[OF l] have w: "w = fold (\<lambda>c m. max m (condition_warmup c)) conds 1"
    and r: "ranks = List.map_filter rank_filter conds" by simp_all
  have "condition_warmup cond \<le> w" unfolding w by (rule fold_max_upper[OF assms(2)])
  moreover have "v \<le> moving_average_warmup cond" if "moving_average_spec (cd_left cond) = Some (e, v)" for v
    unfolding moving_average_warmup_def Let_def using that by (intro Max_ge) (simp_all add: map_filter_simps)
  ultimately show ?thesis
    using fold_max_attained[of condition_warmup conds 1] cc w r by (auto simp: condition_warmup_def)
qed

section \<open>Where compiler and evaluator differ\<close>

text \<open>A flag about the lower band whose evaluation does not read the band.\<close>

lemma band_flag_reads_closes_only:
  assumes "normal_name (cd_left cond) = ''close_below_lower_band_recent''" and "flag_is_asserted cond = Some True" and "cd_consecutive cond = None"
  shows "fst (condition_matches np st cond i empty_cache)
    = (isfinite (fs_close st ! i) \<and> isfinite (rolling_column st (fs_close st) 5 Agg_Min ! i)
       \<and> fs_close st ! i \<le> rolling_column st (fs_close st) 5 Agg_Min ! i * Fin 1)
    \<and> compile_one rp cond = Some ''(min(closes[-5:]) <= bb_lower)''"
proof -
  have close: "metric_series np st ''close'' c = (fs_close st, c)" if "dget (ch_metrics c) ''close'' = None" for c
    using that by (subst metric_series.simps) (simp add: canonical_metric_def normal_simps metric_aliases_def
        percent_scaled_def DEBT_RATIO_KOREAN_def dget_def bar_column_def)
  have rule: "dget boolean_comparisons ''close_below_lower_band_recent'' = None"
    "dget boolean_window_rules ''close_below_lower_band_recent'' = Some (''close'', Agg_Min, False, 5, 1)"
    "dget BOOLEAN_EXPRESSIONS ''close_below_lower_band_recent'' = Some ''(min(closes[-5:]) <= bb_lower)''"
    by (simp_all add: boolean_comparisons_def boolean_window_rules_def BOOLEAN_EXPRESSIONS_def dget_def)
  show ?thesis
    using assms by (simp add: condition_matches_def base_condition_matches_def boolean_comparison_def boolean_window_rule_def rule
        boolean_window_matches_def current_metric_def condition_series_value_def rolling_operand_def rolling_metric_def
        rolling_lookup_def and_then_def give_def close empty_cache_def value_at_def Let_def compile_one_def compile_flag_def)
qed

text \<open>A condition with a blank name is refused by the compiler, yet not reported.\<close>

lemma blank_name_not_reported:
  "condition_ok ((sample_condition Op_GT 10)\<lparr>cd_left := '' ''\<rparr>)
   \<and> untranslatable_conditions rp True [(sample_condition Op_GT 10)\<lparr>cd_left := '' ''\<rparr>] = []
   \<and> compile_conditions rp [(sample_condition Op_GT 10)\<lparr>cd_left := '' ''\<rparr>] = None"
proof -
  let ?c = "(sample_condition Op_GT 10)\<lparr>cd_left := '' ''\<rparr>"
  have "condition_ok ?c" "condition_label ?c = []" by code_simp+
  moreover have "compile_one rp ?c = None" "rank_filter ?c = None"
  proof -
    have "series_value '' '' None None = None" "dget BOOLEAN_EXPRESSIONS (normal_name '' '') = None"
      "dget boolean_comparisons (normal_name '' '') = None" by code_simp+
    then show "compile_one rp ?c = None" by (simp add: compile_one_def compiled_operands_def sample_condition_def)
  qed (simp add: rank_filter_def sample_condition_def)
  ultimately show ?thesis
    by (simp add: untranslatable_conditions_def refused_step_def compile_conditions_def Let_def)
qed

text \<open>Consecutive periods: the compiled text asks for quarters of rising revenue, the evaluator counts bars.\<close>

definition stagnant_store :: Store where
  "stagnant_store =
     \<lparr>fs_rows = replicate 2 [(''revenue'', PFloat (Fin 5))], fs_dates = [''2024-01-02'', ''2024-01-03''], fs_tickers = [''A'', ''A''],
      fs_close = replicate 2 (Fin 1), fs_open = replicate 2 (Fin 1), fs_high = replicate 2 (Fin 1), fs_low = replicate 2 (Fin 1),
      fs_volume = replicate 2 (Fin 0), fs_rsi = replicate 2 NaN\<rparr>"

definition rising_revenue :: Condition where
  "rising_revenue = (sample_condition Op_GT 0)\<lparr>cd_left := ''revenue'', cd_consecutive := Some 2\<rparr>"

lemma streak_counts_bars:
  "compile_one (\<lambda>_. ''0.0'') rising_revenue = Some (''(_fin(fin, '' @ single_quoted ''revenue_up_streak'' @ '') >= 2)'')
   \<and> fst (condition_matches sample_numpy stagnant_store rising_revenue 1 empty_cache)"
proof
  show "compile_one (\<lambda>_. ''0.0'') rising_revenue = Some (''(_fin(fin, '' @ single_quoted ''revenue_up_streak'' @ '') >= 2)'')"
    by code_simp
  show "fst (condition_matches sample_numpy stagnant_store rising_revenue 1 empty_cache)"
    by code_simp
qed

text \<open>A share of bars is a share.\<close>

lemma half_even_share:
  assumes "0 \<le> x" and "x \<le> of_int n"
  shows "0 \<le> half_even x" and "half_even x \<le> n"
proof -
  have f: "0 \<le> \<lfloor>x\<rfloor>" "of_int \<lfloor>x\<rfloor> \<le> x" using assms by (simp_all add: of_int_floor_le)
  then have up: "\<lfloor>x\<rfloor> + 1 \<le> n" if "x \<noteq> of_int \<lfloor>x\<rfloor>" using that assms(2) by linarith
  have "\<lfloor>x\<rfloor> \<le> n" using assms(2) by linarith
  with f up show "0 \<le> half_even x" "half_even x \<le> n" by (auto simp: half_even_def Let_def)
qed

lemma coverage_is_a_share:
  assumes "length s = length (fs_rows st)" and "fs_rows st \<noteq> []"
  shows "Fin 0 \<le> share_of st s \<and> share_of st s \<le> Fin 1"
proof -
  let ?q = "of_nat (length (filter isfinite s)) / of_nat (length (fs_rows st)) * 10 ^ 4 :: rat"
  have "length (filter isfinite s) \<le> length (fs_rows st)" using assms(1) by (metis length_filter_le)
  then have "of_nat (length (filter isfinite s)) / of_nat (length (fs_rows st)) \<le> (1 :: rat)"
    using assms(2) by (simp add: divide_le_eq)
  from mult_right_mono[OF this, of "10 ^ 4"] have "0 \<le> ?q" "?q \<le> of_int (10 ^ 4)" by simp_all
  from half_even_share[OF this] show ?thesis
    by (simp add: share_of_def divide_le_eq)
qed

section \<open>Properties\<close>

definition crossing_flag :: Condition where
  "crossing_flag = (sample_condition Op_EQ 1)\<lparr>cd_left := ''close_cross_above_sma20''\<rparr>"

text \<open>A rule is admitted exactly when it can be compiled: if every condition has a name, nothing is reported as
  untranslatable if and only if the whole rule compiles; and what is reported are the labels of the
  refused conditions, each once.\<close>

theorem admission_iff_compilable:
  assumes "conds \<noteq> []" and "list_all (\<lambda>c. condition_label c \<noteq> []) conds"
  shows "(untranslatable_conditions rp True conds = [] \<longleftrightarrow> compile_conditions rp conds \<noteq> None)
    \<and> distinct (untranslatable_conditions rp allow conds)
    \<and> set (untranslatable_conditions rp allow conds) = condition_label ` {c \<in> set conds. refused rp allow c}"
proof -
  have labels: "set (untranslatable_conditions rp a conds) = condition_label ` {c \<in> set conds. refused rp a c}" for a
    using assms(2) by (auto simp: untranslatable_conditions_def set_refused_fold list_all_iff)
  have "untranslatable_conditions rp True conds = [] \<longleftrightarrow> (\<forall>c \<in> set conds. \<not> refused rp True c)"
    using labels[of True] by (auto simp flip: set_empty)
  moreover have "compile_conditions rp conds \<noteq> None \<longleftrightarrow> (\<forall>c \<in> set conds. \<not> refused rp True c)"
    using assms(1) compile_loop_iff[of rp conds "([], [], 1)"] by (simp add: compile_conditions_def)
  ultimately show ?thesis using labels[of allow] distinct_refused_fold[of "[]" rp allow conds]
    by (simp add: untranslatable_conditions_def)
qed

theorem admission_iff_compilable_witness:
  "untranslatable_conditions (\<lambda>_. ''10.0'') True [sample_condition Op_GT 10] = []
    \<longleftrightarrow> compile_conditions (\<lambda>_. ''10.0'') [sample_condition Op_GT 10] \<noteq> None"
  using admission_iff_compilable[of "[sample_condition Op_GT 10]" "\<lambda>_. ''10.0''"]
  by (simp add: condition_label_def sample_condition_def or_text_def py_strip_def is_space_def)

text \<open>C13. Every operand of an admitted comparison is one the evaluator that runs knows how to compute, or a
  column the loader publishes; the two rolling extremes excepted, which only the compiler knows.\<close>

theorem admitted_operands_read:
  assumes "compile_one rp cond = Some expr" and "cd_consecutive cond = None" and "\<not> has_key BOOLEAN_EXPRESSIONS (normal_name (cd_left cond))"
    and "boolean_comparison (cd_left cond) = None" and "name \<in> set (cd_left cond # operand_names (cd_right cond))"
  shows "evaluator_reads name \<or> canonical_metric name \<in> {''high_252'', ''low_252''}"
proof -
  have "\<exists>w a t. series_value name w a = Some t"
    using assms by (auto simp: compile_one_def Let_def boolean_comparison_def has_key_def compile_between_def compile_cross_def
        compiled_operands_def split: option.splits operand.splits if_splits list.splits)
  then show ?thesis using series_value_read by blast
qed

theorem admitted_operands_read_witness: "evaluator_reads ''close'' \<or> canonical_metric ''close'' \<in> {''high_252'', ''low_252''}"
proof -
  have "compile_one (\<lambda>_. ''10.0'') (sample_condition Op_GT 10) = Some ''(close > 10.0)''" by code_simp
  then show ?thesis
    by (rule admitted_operands_read) (simp_all add: sample_condition_def has_key_def BOOLEAN_EXPRESSIONS_def boolean_comparison_def
        boolean_comparisons_def dget_def normal_simps)
qed

text \<open>C14. The three crossing flags that only the compiler knows are admitted, and reported as available whenever
  the close and the average or band are, but the evaluator looks them up as columns that no row carries:
  a rule that uses one never matches, on any bar.\<close>

theorem admitted_flag_never_fires:
  assumes "plain_flag cond" and "carries_none (cd_left cond) st" and "carries_none (normal_name (cd_left cond)) st"
    and "list_all (\<lambda>i. i < length (fs_rows st)) is"
  shows "untranslatable_conditions rp allow [cond] = []
    \<and> set (condition_metric_names cond) \<subseteq> {''close'', ''sma20'', ''bb_lower''}
    \<and> fst (lookup_all (condition_matches np st cond) is empty_cache) = replicate (length is) False"
  using unread_flag_compiles(1)[OF assms(1), of rp] unread_flag_compiles(2)[OF assms(1)] unread_flag_never[OF assms(1-3) _ assms(4), of empty_cache np]
  by (simp add: untranslatable_conditions_def refused_step_def cache_plain_def empty_cache_def)

theorem admitted_flag_never_fires_witness:
  "fst (lookup_all (condition_matches sample_numpy sample_store crossing_flag) [0..<8] empty_cache) = replicate 8 False"
proof -
  have "plain_flag crossing_flag" by code_simp
  moreover have "carries_none (cd_left crossing_flag) sample_store" "carries_none (normal_name (cd_left crossing_flag)) sample_store"
    by code_simp+
  moreover have "list_all (\<lambda>i. i < length (fs_rows sample_store)) [0..<8]" by code_simp
  ultimately have "fst (lookup_all (condition_matches sample_numpy sample_store crossing_flag) [0..<8] empty_cache)
    = replicate (length [0..<8]) False"
    using admitted_flag_never_fires by blast
  then show ?thesis by simp
qed

end
