(* ===== verification/Au_Redis.thy ===== *)
theory Au_Redis
  imports Py_Text
begin

text \<open>
  Redis as its clients see it.  The server is not part of the repository: its commands are the
  fields of the record \<open>redis\<close>, an argument of every definition that talks to it, and what the
  code relies on is the documented behaviour collected in \<open>redis_laws\<close>: a value set with
  \<open>EX\<close> is read until it expires and not after, \<open>INCR\<close> counts from one and keeps the expiry,
  \<open>EXPIRE\<close> replaces the expiry, \<open>DEL\<close> removes, and no command touches another key.  Time is
  counted in whole seconds on one clock.  A command a client sends can fail before it reaches the
  server or after it took effect (\<open>fault\<close>); a Lua script runs on the server, atomically.
  \<open>memory_redis\<close> is an implementation of the laws, used to evaluate concrete runs.
\<close>

record 's redis =
  rd_get :: "int \<Rightarrow> string \<Rightarrow> 's \<Rightarrow> string option"
  rd_set :: "int \<Rightarrow> string \<Rightarrow> string \<Rightarrow> int \<Rightarrow> 's \<Rightarrow> 's"      \<comment> \<open>SET key value EX ttl\<close>
  rd_incr :: "int \<Rightarrow> string \<Rightarrow> 's \<Rightarrow> int res \<times> 's"
  rd_expire :: "int \<Rightarrow> string \<Rightarrow> int \<Rightarrow> 's \<Rightarrow> bool \<times> 's"
  rd_del :: "int \<Rightarrow> string list \<Rightarrow> 's \<Rightarrow> 's"

definition max_counter :: int where
  "max_counter = 9223372036854775807"

definition get_law :: "'s redis \<Rightarrow> bool" where
  "get_law R = (\<forall>t u k s. t \<le> u \<longrightarrow> rd_get R u k s \<noteq> None \<longrightarrow> rd_get R t k s = rd_get R u k s)"

definition set_law :: "'s redis \<Rightarrow> bool" where
  "set_law R = (\<forall>t u k k' v w s. t \<le> u \<longrightarrow> 0 < w \<longrightarrow>
     rd_get R u k' (rd_set R t k v w s) =
       (if k' = k then if u < t + w then Some v else None else rd_get R u k' s))"

definition incr_law :: "'s redis \<Rightarrow> bool" where
  "incr_law R = (\<forall>t u k k' s. t \<le> u \<longrightarrow>
     (k' \<noteq> k \<longrightarrow> rd_get R u k' (snd (rd_incr R t k s)) = rd_get R u k' s) \<and>
     (rd_get R t k s = None \<longrightarrow>
        fst (rd_incr R t k s) = Inr 1 \<and> rd_get R u k (snd (rd_incr R t k s)) = Some (show_int 1)) \<and>
     (\<forall>n. rd_get R t k s = Some (show_int n) \<longrightarrow> 0 \<le> n \<longrightarrow> n < max_counter \<longrightarrow>
        fst (rd_incr R t k s) = Inr (n + 1) \<and>
        rd_get R u k (snd (rd_incr R t k s)) = (if rd_get R u k s = None then None else Some (show_int (n + 1)))))"

definition expire_law :: "'s redis \<Rightarrow> bool" where
  "expire_law R = (\<forall>t u k k' w s. t \<le> u \<longrightarrow>
     rd_get R u k' (snd (rd_expire R t k w s)) =
       (if k' = k \<and> rd_get R t k s \<noteq> None then if u < t + w then rd_get R t k s else None
        else rd_get R u k' s))"

definition del_law :: "'s redis \<Rightarrow> bool" where
  "del_law R = (\<forall>t u ks k s. t \<le> u \<longrightarrow>
     rd_get R u k (rd_del R t ks s) = (if k \<in> set ks then None else rd_get R u k s))"

definition redis_laws :: "'s redis \<Rightarrow> bool" where
  "redis_laws R = (get_law R \<and> set_law R \<and> incr_law R \<and> expire_law R \<and> del_law R)"

lemma redis_lawsD:
  assumes "redis_laws R" and "t \<le> u"
  shows get_later: "rd_get R u k s \<noteq> None \<Longrightarrow> rd_get R t k s = rd_get R u k s"
    and get_set: "0 < w \<Longrightarrow> rd_get R u k' (rd_set R t k v w s) =
       (if k' = k then if u < t + w then Some v else None else rd_get R u k' s)"
    and get_incr_other: "k' \<noteq> k \<Longrightarrow> rd_get R u k' (snd (rd_incr R t k s)) = rd_get R u k' s"
    and get_incr_first: "rd_get R t k s = None \<Longrightarrow> rd_get R u k (snd (rd_incr R t k s)) = Some (show_int 1)"
    and get_incr_next: "rd_get R t k s = Some (show_int n) \<Longrightarrow> 0 \<le> n \<Longrightarrow> n < max_counter \<Longrightarrow>
       rd_get R u k (snd (rd_incr R t k s)) = (if rd_get R u k s = None then None else Some (show_int (n + 1)))"
    and get_expire: "rd_get R u k' (snd (rd_expire R t k w s)) =
       (if k' = k \<and> rd_get R t k s \<noteq> None then if u < t + w then rd_get R t k s else None
        else rd_get R u k' s)"
    and get_del: "rd_get R u k (rd_del R t ks s) = (if k \<in> set ks then None else rd_get R u k s)"
proof -
  from assms(1) have L: "get_law R" "set_law R" "incr_law R" "expire_law R" "del_law R"
    by (simp_all add: redis_laws_def)
  show "rd_get R u k s \<noteq> None \<Longrightarrow> rd_get R t k s = rd_get R u k s"
    using L(1) assms(2) unfolding get_law_def by blast
  show "0 < w \<Longrightarrow> rd_get R u k' (rd_set R t k v w s) =
      (if k' = k then if u < t + w then Some v else None else rd_get R u k' s)"
    using L(2) assms(2) by (simp only: set_law_def)
  show "k' \<noteq> k \<Longrightarrow> rd_get R u k' (snd (rd_incr R t k s)) = rd_get R u k' s"
    using L(3) assms(2) unfolding incr_law_def by blast
  show "rd_get R t k s = None \<Longrightarrow> rd_get R u k (snd (rd_incr R t k s)) = Some (show_int 1)"
    using L(3) assms(2) unfolding incr_law_def by blast
  show "rd_get R t k s = Some (show_int n) \<Longrightarrow> 0 \<le> n \<Longrightarrow> n < max_counter \<Longrightarrow>
      rd_get R u k (snd (rd_incr R t k s)) = (if rd_get R u k s = None then None else Some (show_int (n + 1)))"
    using L(3) assms(2) unfolding incr_law_def by blast
  show "rd_get R u k' (snd (rd_expire R t k w s)) =
      (if k' = k \<and> rd_get R t k s \<noteq> None then if u < t + w then rd_get R t k s else None else rd_get R u k' s)"
    using L(4) assms(2) by (simp only: expire_law_def)
  show "rd_get R u k (rd_del R t ks s) = (if k \<in> set ks then None else rd_get R u k s)"
    using L(5) assms(2) by (simp only: del_law_def)
qed

lemma incr_value:
  assumes "redis_laws R"
  shows incr_first: "rd_get R t k s = None \<Longrightarrow> fst (rd_incr R t k s) = Inr 1"
    and incr_next: "rd_get R t k s = Some (show_int n) \<Longrightarrow> 0 \<le> n \<Longrightarrow> n < max_counter \<Longrightarrow> fst (rd_incr R t k s) = Inr (n + 1)"
  using assms unfolding redis_laws_def incr_law_def by blast+

section \<open>Sending a command\<close>

datatype fault = Fine | Refused | Reply_lost

definition send :: "fault \<Rightarrow> ('s \<Rightarrow> 'a \<times> 's) \<Rightarrow> 's \<Rightarrow> 'a res \<times> 's" where
  "send f c s = (case f of
       Fine \<Rightarrow> (Inr (fst (c s)), snd (c s))
     | Refused \<Rightarrow> (Inl (RuntimeError ''redis''), s)
     | Reply_lost \<Rightarrow> (Inl (RuntimeError ''redis''), snd (c s)))"

text \<open>A command whose reply can itself be an error.\<close>

definition send_res :: "fault \<Rightarrow> ('s \<Rightarrow> 'a res \<times> 's) \<Rightarrow> 's \<Rightarrow> 'a res \<times> 's" where
  "send_res f c s = (case send f c s of (r, s') \<Rightarrow> (rbind r (\<lambda>x. x), s'))"

lemma send_Fine [simp]: "send Fine c s = (Inr (fst (c s)), snd (c s))"
  by (simp add: send_def)

lemma send_res_Fine [simp]: "send_res Fine c s = c s"
  by (simp add: send_res_def)

text \<open>Whatever the fault, the state after a command is the old one or the command's.\<close>

lemma send_state: "snd (send f c s) = s \<or> snd (send f c s) = snd (c s)"
  by (cases f) (simp_all add: send_def)

section \<open>An implementation of the laws\<close>

type_synonym cells = "(string, string \<times> int option) dict"

definition live :: "int \<Rightarrow> int option \<Rightarrow> bool" where
  "live t e = (case e of None \<Rightarrow> True | Some d \<Rightarrow> t < d)"

definition cell_at :: "int \<Rightarrow> string \<Rightarrow> cells \<Rightarrow> (string \<times> int option) option" where
  "cell_at t k s = (case dget s k of None \<Rightarrow> None | Some (v, e) \<Rightarrow> if live t e then Some (v, e) else None)"

definition memory_incr :: "int \<Rightarrow> string \<Rightarrow> cells \<Rightarrow> int res \<times> cells" where
  "memory_incr t k s =
     (case cell_at t k s of
        None \<Rightarrow> (Inr 1, dset k (show_int 1, None) s)
      | Some (v, e) \<Rightarrow>
          (case int_of_text v of
             Some n \<Rightarrow> if n < max_counter then (Inr (n + 1), dset k (show_int (n + 1), e) s)
                       else (Inl (RuntimeError ''overflow''), s)
           | None \<Rightarrow> (Inl (RuntimeError ''not an integer''), s)))"

definition memory_expire :: "int \<Rightarrow> string \<Rightarrow> int \<Rightarrow> cells \<Rightarrow> bool \<times> cells" where
  "memory_expire t k w s =
     (case cell_at t k s of None \<Rightarrow> (False, s) | Some (v, e) \<Rightarrow> (True, dset k (v, Some (t + w)) s))"

definition memory_redis :: "cells redis" where
  "memory_redis = \<lparr>rd_get = (\<lambda>t k s. map_option fst (cell_at t k s)),
     rd_set = (\<lambda>t k v w s. dset k (v, Some (t + w)) s),
     rd_incr = memory_incr, rd_expire = memory_expire, rd_del = (\<lambda>t ks s. fold dpop ks s)\<rparr>"

lemma dget_fold_dpop: "dget (fold dpop ks s) k = (if k \<in> set ks then None else dget s k)"
  by (induction ks arbitrary: s) (auto simp: dict_simps)

lemma live_earlier: "live u e \<Longrightarrow> t \<le> u \<Longrightarrow> live t e"
  by (auto simp: live_def split: option.splits)

lemma show_int_bound: "0 \<le> n \<Longrightarrow> n < max_counter \<Longrightarrow> length (show_nat (nat n)) \<le> 4300"
proof -
  have b: "n < 10 ^ k \<Longrightarrow> length (show_nat n) \<le> Suc k" for n k :: nat
  proof (induction k arbitrary: n)
    case (Suc k)
    have "n div 10 < 10 ^ k" using Suc.prems by auto
    with Suc.IH show ?case using show_nat.simps[of n] by auto
  qed (simp add: show_nat.simps)
  assume "0 \<le> n" "n < max_counter"
  then have "nat n < 10 ^ 19" by (simp add: max_counter_def nat_less_iff)
  from b[OF this] show ?thesis by simp
qed

lemma int_of_counter: "0 \<le> n \<Longrightarrow> n < max_counter \<Longrightarrow> int_of_text (show_int n) = Some n"
  using int_of_text_show[of "nat n"] show_int_bound[of n] by (simp add: show_int_def)

lemma memory_laws: "redis_laws memory_redis"
proof -
  have "get_law memory_redis"
    by (auto simp: get_law_def memory_redis_def cell_at_def dest: live_earlier split: option.splits if_splits)
  moreover have "set_law memory_redis"
    by (auto simp: set_law_def memory_redis_def cell_at_def dget_dset live_def split: option.splits)
  moreover have "incr_law memory_redis"
    unfolding incr_law_def memory_redis_def redis.simps
  proof (intro allI impI conjI)
    fix t u :: int and k k' :: string and s :: cells
    assume tu: "t \<le> u"
    show "map_option fst (cell_at u k' (snd (memory_incr t k s))) = map_option fst (cell_at u k' s)" if "k' \<noteq> k"
      using that by (cases "cell_at t k s") (auto simp: memory_incr_def cell_at_def[of u] dget_dset split: option.split prod.splits)
    show "fst (memory_incr t k s) = Inr 1" if "map_option fst (cell_at t k s) = None"
      using that by (simp add: memory_incr_def)
    show "map_option fst (cell_at u k (snd (memory_incr t k s))) = Some (show_int 1)"
      if "map_option fst (cell_at t k s) = None"
      using that by (simp add: memory_incr_def cell_at_def dict_simps live_def)
    fix n assume n: "0 \<le> n" "n < max_counter" "map_option fst (cell_at t k s) = Some (show_int n)"
    then obtain e where e: "cell_at t k s = Some (show_int n, e)" by (cases "cell_at t k s") auto
    with n show "fst (memory_incr t k s) = Inr (n + 1)" by (simp add: memory_incr_def int_of_counter)
    from e have d: "dget s k = Some (show_int n, e)" by (auto simp: cell_at_def split: option.splits if_splits)
    from e n have "snd (memory_incr t k s) = dset k (show_int (n + 1), e) s" by (simp add: memory_incr_def int_of_counter)
    with d show "map_option fst (cell_at u k (snd (memory_incr t k s))) =
        (if map_option fst (cell_at u k s) = None then None else Some (show_int (n + 1)))"
      by (simp add: cell_at_def dict_simps)
  qed
  moreover have "expire_law memory_redis"
    by (auto simp: expire_law_def memory_redis_def memory_expire_def cell_at_def dget_dset live_def split: option.splits prod.splits if_splits)
  moreover have "del_law memory_redis"
    by (auto simp: del_law_def memory_redis_def cell_at_def dget_fold_dpop)
  ultimately show ?thesis by (simp add: redis_laws_def)
qed

end
