(* ===== verification/Py_Json_Props.thy ===== *)
theory Py_Json_Props
  imports Py_Json "HOL-Library.Multiset"
begin

text \<open>
  What \<open>json.dumps\<close> prints, \<open>json.loads\<close> reads back: on strings by induction over the code points,
  on documents by induction over the value, with the fuel of the reader bounded by the length of
  the text.
\<close>

section \<open>Strings\<close>

definition raw_char :: "char \<Rightarrow> bool" where
  "raw_char c = (c \<noteq> CHR 0x22 \<and> c \<noteq> CHR 0x5C \<and> 32 \<le> (of_char c :: nat))"

lemma scan_raw:
  "list_all raw_char xs \<Longrightarrow> scan_string (xs @ r) = map_option (\<lambda>(u, q). (xs @ u, q)) (scan_string r)"
proof (induction xs)
  case Nil
  show ?case by (cases "scan_string r") auto
next
  case (Cons x xs)
  then show ?case by (cases "scan_string r") (auto simp: raw_char_def)
qed

lemma char_of_ne: "n < 256 \<Longrightarrow> n \<noteq> m \<Longrightarrow> m < 256 \<Longrightarrow> (char_of (n :: nat) :: char) \<noteq> char_of m"
  by (metis mod_less of_char_of)

lemma raw_code:
  assumes "32 \<le> n" "n < 256" "n \<noteq> 34" "n \<noteq> (92 :: nat)"
  shows "raw_char (char_of n)"
proof -
  have "(char_of (34 :: nat) :: char) = CHR 0x22" "(char_of (92 :: nat) :: char) = CHR 0x5C" by code_simp+
  then show ?thesis
    using assms char_of_ne[of n 34] char_of_ne[of n 92] by (simp add: raw_char_def)
qed

lemma utf8_raw:
  assumes "32 \<le> n" "n \<noteq> 34" "n \<noteq> 92" "n < 1114112"
  shows "list_all raw_char (utf8_char n)"
proof -
  have "240 + n div 262144 < 256" using assms(4) by simp
  then show ?thesis using assms
    by (auto simp: utf8_char_def intro!: raw_code)
qed

lemma hex_value_digit: "k < 16 \<Longrightarrow> hex_value (hex_digit k) = Some k"
  by (simp add: hex_value_def hex_digit_def Let_def)

lemma read_hex4_hex4: "n < 65536 \<Longrightarrow> read_hex4 (hex4 n @ r) = Some (n, r)"
proof -
  assume n: "n < 65536"
  define x y z where "x = n div 16" and "y = x div 16" and "z = y div 16"
  have q: "n div 16 = x" "n div 256 = y" "n div 4096 = z"
    by (simp_all add: x_def y_def z_def div_mult2_eq[symmetric])
  have "n = 16 * x + n mod 16" "x = 16 * y + x mod 16" "y = 16 * z + y mod 16" 
    unfolding x_def y_def z_def by (rule mult_div_mod_eq[symmetric])+
  moreover have "z mod 16 = z" using n q(3) by simp
  ultimately have "4096 * (n div 4096 mod 16) + 256 * (n div 256 mod 16) + 16 * (n div 16 mod 16) + n mod 16 = n"
    unfolding q by linarith
  moreover have "n div 4096 mod 16 = n div 4096" "n div 4096 < 16" using n by simp_all
  ultimately show ?thesis by (simp add: read_hex4_def hex4_def hex_value_digit)
qed

lemma read_unicode_plain:
  "n < 65536 \<Longrightarrow> \<not> (55296 \<le> n \<and> n \<le> 56319) \<Longrightarrow> read_unicode (hex4 n @ r) = Some (utf8_char n, r)"
  by (auto simp: read_unicode_def read_hex4_hex4)

lemma read_unicode_pair:
  assumes "65536 \<le> n" "n < 1114112"
  shows "read_unicode (hex4 (55296 + (n - 65536) div 1024) @ u_escape (56320 + (n - 65536) mod 1024) @ r)
           = Some (utf8_char n, r)"
proof -
  have d: "(n - 65536) div 1024 < 1024" using assms(2) by simp
  have m: "(n - 65536) mod 1024 < 1024" by simp
  have "65536 + 1024 * ((n - 65536) div 1024) + (n - 65536) mod 1024 = n" using assms(1) by simp
  with d m show ?thesis
    by (simp add: read_unicode_def read_hex4_hex4 u_escape_def)
qed

lemma scan_escape:
  assumes "read_escape (s @ r) = Some (t, r)"
  shows "scan_string (CHR 0x5C # s @ r) = map_option (\<lambda>(u, q). (t @ u, q)) (scan_string r)"
  using assms by simp

lemma utf8_small: "n < 128 \<Longrightarrow> utf8_char n = [char_of n]"
  by (simp add: utf8_char_def)

lemma escape_named:
  assumes "n \<in> {34, 92, 10, 13, 9, 12, 8}"
  obtains e where "escape_point a n = [CHR 0x5C, e]" "\<And>r. read_escape (e # r) = Some (utf8_char n, r)"
proof -
  have u: "utf8_char 34 = [CHR 0x22]" "utf8_char 92 = [CHR 0x5C]" "utf8_char 10 = [CHR 0x0A]"
    "utf8_char 13 = [CHR 0x0D]" "utf8_char 9 = [CHR 0x09]" "utf8_char 12 = [CHR 0x0C]" "utf8_char 8 = [CHR 0x08]"
    by code_simp+
  have "\<exists>e. escape_point a n = [CHR 0x5C, e] \<and> (\<forall>r. read_escape (e # r) = Some (utf8_char n, r))"
    using assms by (elim insertE emptyE) (simp_all add: escape_point_def read_escape_def u)
  then show thesis using that by blast
qed

lemma scan_point:
  assumes "scalar n"
  shows "scan_string (escape_point a n @ r) = map_option (\<lambda>(u, q). (utf8_char n @ u, q)) (scan_string r)"
proof -
  have n: "n < 1114112" "\<not> (55296 \<le> n \<and> n \<le> 56319)" using assms by (auto simp: scalar_def)
  have "n \<in> {34, 92, 10, 13, 9, 12, 8} \<or> (escape_point a n = CHR 0x5C # CHR ''u'' # hex4 n \<and> n < 65536)
      \<or> (escape_point a n = utf8_char n \<and> 32 \<le> n \<and> n \<noteq> 34 \<and> n \<noteq> 92)
      \<or> (escape_point a n = u_escape (55296 + (n - 65536) div 1024) @ u_escape (56320 + (n - 65536) mod 1024)
          \<and> 65536 \<le> n)"
  proof (cases "n \<in> {34, 92, 10, 13, 9, 12, 8}")
    case False
    then have "escape_point a n = (if n < 32 then u_escape n else if n < 127 \<or> \<not> a then utf8_char n
        else if n < 65536 then u_escape n
        else u_escape (55296 + (n - 65536) div 1024) @ u_escape (56320 + (n - 65536) mod 1024))"
      by (simp add: escape_point_def)
    then show ?thesis using False
      by (cases "n < 32"; cases "n < 127 \<or> \<not> a"; cases "n < 65536") (simp_all add: u_escape_def)
  qed simp
  then consider "n \<in> {34, 92, 10, 13, 9, 12, 8}"
    | (u) "escape_point a n = CHR 0x5C # CHR ''u'' # hex4 n" "n < 65536"
    | (raw) "escape_point a n = utf8_char n" "32 \<le> n" "n \<noteq> 34" "n \<noteq> 92"
    | (pair) "escape_point a n = u_escape (55296 + (n - 65536) div 1024) @ u_escape (56320 + (n - 65536) mod 1024)"
        "65536 \<le> n"
    by blast
  then show ?thesis
  proof cases
    case 1
    then obtain e where "escape_point a n = [CHR 0x5C, e]" "\<And>r. read_escape (e # r) = Some (utf8_char n, r)"
      by (rule escape_named[of n a]) blast
    then show ?thesis using scan_escape[of "[e]" r "utf8_char n"] by simp
  next
    case u
    then show ?thesis using n scan_escape[of "CHR ''u'' # hex4 n" r "utf8_char n"]
      by (simp add: read_escape_def read_unicode_plain)
  next
    case raw
    with n show ?thesis by (simp add: scan_raw utf8_raw)
  next
    case pair
    let ?h = "hex4 (55296 + (n - 65536) div 1024) @ u_escape (56320 + (n - 65536) mod 1024)"
    from pair(2) n(1) have "read_escape ((CHR ''u'' # ?h) @ r) = Some (utf8_char n, r)"
      by (simp add: read_escape_def read_unicode_pair)
    from scan_escape[OF this] pair(1) show ?thesis by (simp add: u_escape_def)
  qed
qed

lemma scan_points:
  "list_all scalar ns \<Longrightarrow>
     scan_string (concat (map (escape_point a) ns) @ CHR 0x22 # r) = Some (concat (map utf8_char ns), r)"
  by (induction ns) (simp_all add: scan_point)

lemma scan_json_string:
  "utf8_ok s \<Longrightarrow> scan_string (concat (map (escape_point a) (code_points s)) @ CHR 0x22 # r) = Some (s, r)"
  by (simp add: utf8_ok_def scan_points)

text \<open>ASCII text is well formed.\<close>

lemma code_points_ascii: "list_all (\<lambda>c. (of_char c :: nat) < 128) s \<Longrightarrow> code_points s = map of_char s"
  by (induction s) (simp_all add: tail_bytes_def lead_value_def Let_def)

lemma ascii_ok: "list_all (\<lambda>c. (of_char c :: nat) < 128) s \<Longrightarrow> utf8_ok s"
proof -
  assume *: "list_all (\<lambda>c. (of_char c :: nat) < 128) s"
  then have "concat (map utf8_char (map of_char s)) = s"
    by (induction s) (simp_all add: utf8_small)
  with * show ?thesis
    by (fastforce simp: utf8_ok_def code_points_ascii scalar_def list_all_iff)
qed

section \<open>Integers\<close>

lemma show_nat_head:
  obtains c ds where "show_nat n = c # ds" "digit_char c" "list_all digit_char ds" "n = 0 \<or> c \<noteq> CHR ''0''"
    "n \<noteq> 0 \<or> ds = []"
proof -
  have d: "show_nat n \<noteq> []" "list_all digit_char (show_nat n)"
    using show_nat_digits[of n] by (auto simp: py_isdigit_def)
  have "n = 0 \<or> hd (show_nat n) \<noteq> CHR ''0''"
  proof (induction n rule: show_nat.induct)
    case (1 n)
    have z: "(char_of (k + 48) :: char) \<noteq> CHR ''0''" if "k < 10" "0 < k" for k :: nat
    proof -
      have "(char_of (48 :: nat) :: char) = CHR ''0''" by code_simp
      with char_of_ne[of "k + 48" 48] that show ?thesis by simp
    qed
    show ?case
    proof (cases "n < 10")
      case True
      then show ?thesis using z[of n] show_nat.simps[of n] by auto
    next
      case False
      moreover have "show_nat (n div 10) \<noteq> []" using show_nat_digits[of "n div 10"] by (simp add: py_isdigit_def)
      ultimately show ?thesis using 1[OF False] show_nat.simps[of n] by auto
    qed
  qed
  moreover have "n \<noteq> 0 \<or> tl (show_nat n) = []" by (auto simp: show_nat.simps)
  ultimately show thesis using d that[of "hd (show_nat n)" "tl (show_nat n)"]
    by (cases "show_nat n") auto
qed

text \<open>What may follow a number: not a character the number could swallow.\<close>

definition num_end :: "string \<Rightarrow> bool" where
  "num_end r = (r = [] \<or> \<not> (digit_char (hd r) \<or> hd r \<in> set ''.eE''))"

lemma int_of_text_show_int:
  assumes "length (show_nat (nat \<bar>n\<bar>)) \<le> 4300"
  shows "int_of_text (show_int n) = Some n"
proof (cases "n < 0")
  case True
  let ?s = "show_nat (nat (- n))"
  have d: "list_all digit_char ?s" "?s \<noteq> []" "digits_value ?s = nat (- n)"
    using show_nat_digits[of "nat (- n)"] by (auto simp: py_isdigit_def)
  then have "\<not> is_space (last ?s)" by (meson is_space_digit last_in_set list_all_iff)
  moreover have "\<not> is_space CHR ''-''" by code_simp
  ultimately have "py_strip (CHR ''-'' # ?s) = CHR ''-'' # ?s" using d(2) by (intro py_strip_id) simp
  with True d assms show ?thesis
    by (simp add: int_of_text_def show_int_def take_sign_def digit_run_digits)
next
  case False
  with assms int_of_text_show[of "nat n"] show ?thesis by (simp add: show_int_def)
qed

lemma takeWhile_digits:
  assumes "list_all digit_char ds" "num_end r"
  shows "takeWhile digit_char (ds @ r) = ds" "dropWhile digit_char (ds @ r) = r"
proof -
  have "takeWhile digit_char r = [] \<and> dropWhile digit_char r = r"
    using assms(2) by (cases r) (auto simp: num_end_def)
  then show "takeWhile digit_char (ds @ r) = ds" "dropWhile digit_char (ds @ r) = r"
    using assms(1) by (induction ds) auto
qed

lemma integer_part_nat:
  assumes "num_end r"
  shows "integer_part (show_nat n @ r) = Some (show_nat n, r)"
    and "integer_part (CHR ''-'' # show_nat n @ r) = Some (CHR ''-'' # show_nat n, r)"
proof -
  obtain c ds where s: "show_nat n = c # ds" "digit_char c" "list_all digit_char ds"
    "n = 0 \<or> c \<noteq> CHR ''0''" "n \<noteq> 0 \<or> ds = []" by (rule show_nat_head)
  have "c \<noteq> CHR ''-''" using is_space_digit[OF s(2)] by simp
  moreover have "show_nat 0 = [CHR ''0'']" by code_simp
  ultimately show "integer_part (show_nat n @ r) = Some (show_nat n, r)"
    "integer_part (CHR ''-'' # show_nat n @ r) = Some (CHR ''-'' # show_nat n, r)"
    using s assms takeWhile_digits[of "[]" r] by (auto simp: integer_part_def takeWhile_digits)
qed

lemma read_number_show:
  assumes "length (show_nat (nat \<bar>n\<bar>)) \<le> 4300" "num_end r"
  shows "read_number (show_int n @ r) = Some (PInt n, r)"
proof -
  have i: "integer_part (show_int n @ r) = Some (show_int n, r)"
    using integer_part_nat[OF assms(2)] by (simp add: show_int_def)
  have "fraction_part r = ([], r)" "exponent_part r = ([], r)"
    using assms(2) by (auto simp: fraction_part_def exponent_part_def num_end_def split: list.splits)
  with i int_of_text_show_int[OF assms(1)] show ?thesis by (simp add: read_number_def)
qed

lemma show_int_head:
  obtains c ds where "show_int n = c # ds"
    "digit_char c \<or> (c = CHR ''-'' \<and> ds \<noteq> [] \<and> digit_char (hd ds))"
proof (cases "n < 0")
  case True
  obtain c ds where "show_nat (nat (- n)) = c # ds" "digit_char c" by (rule show_nat_head)
  with True that[of "CHR ''-''" "c # ds"] show thesis by (simp add: show_int_def)
next
  case False
  obtain c ds where "show_nat (nat n) = c # ds" "digit_char c" by (rule show_nat_head)
  with False that[of c ds] show thesis by (simp add: show_int_def)
qed

lemma digit_code_range: "digit_char c \<Longrightarrow> 48 \<le> (of_char c :: nat) \<and> (of_char c :: nat) \<le> 57"
  by (simp add: digit_char_def Let_def)

lemma read_word_number:
  assumes "digit_char c \<or> (c = CHR ''-'' \<and> ds \<noteq> [] \<and> digit_char (hd ds))"
  shows "read_word (c # ds) = read_number (c # ds)"
proof -
  have "c \<noteq> CHR ''n''" "c \<noteq> CHR ''t''" "c \<noteq> CHR ''f''" "c \<noteq> CHR ''N''" "c \<noteq> CHR ''I''"
    using assms digit_code_range[of c] by auto
  moreover have "take 9 (c # ds) \<noteq> ''-Infinity''"
    using assms digit_code_range[of "hd ds"] digit_code_range[of c] by (cases ds) auto
  ultimately show ?thesis by (auto simp: read_word_def)
qed

section \<open>Documents\<close>

definition style_ok :: "json_style \<Rightarrow> bool" where
  "style_ok st = (js_item st \<noteq> [] \<and> hd (js_item st) = CHR '','' \<and> list_all json_space (tl (js_item st))
     \<and> js_key st \<noteq> [] \<and> hd (js_key st) = CHR '':'' \<and> list_all json_space (tl (js_key st)))"

text \<open>
  Values without floats or foreign objects, whose strings are well formed, whose integers are
  within the limit of \<open>int\<close> and whose objects have distinct keys.
\<close>

fun json_plain :: "pyval \<Rightarrow> bool" where
  "json_plain (PStr s) = utf8_ok s"
| "json_plain (PInt n) = (length (show_nat (nat \<bar>n\<bar>)) \<le> 4300)"
| "json_plain (PList xs) = (\<forall>x \<in> set xs. json_plain x)"
| "json_plain (PDict d) = (distinct (map fst d) \<and> (\<forall>p \<in> set d. utf8_ok (fst p) \<and> json_plain (snd p)))"
| "json_plain (PFloat x) = False"
| "json_plain (PDateTime t) = False"
| "json_plain _ = True"

text \<open>Printing with sorted keys forgets the order of the bindings.\<close>

fun json_norm :: "json_style \<Rightarrow> pyval \<Rightarrow> pyval" where
  "json_norm st (PList xs) = PList (map (json_norm st) xs)"
| "json_norm st (PDict d) = PDict (sort_members st (map (\<lambda>(k, v). (k, json_norm st v)) d))"
| "json_norm st v = v"

text \<open>A text reads as a value wherever nothing after it can extend it.\<close>

definition reads :: "string \<Rightarrow> pyval \<Rightarrow> bool" where
  "reads t v = (t \<noteq> [] \<and> \<not> json_space (hd t) \<and> hd t \<noteq> CHR '']''
     \<and> (\<forall>n r. length t \<le> n \<longrightarrow> num_end r \<longrightarrow> json_value n (t @ r) = Some (v, r)))"

lemma reads_value: "reads t v \<Longrightarrow> length t \<le> n \<Longrightarrow> num_end r \<Longrightarrow> json_value n (t @ r) = Some (v, r)"
  by (simp add: reads_def)

lemma skip_space_id: "s = [] \<or> \<not> json_space (hd s) \<Longrightarrow> skip_space s = s"
  by (cases s) (auto simp: skip_space_def)

lemma skip_space_drop: "list_all json_space w \<Longrightarrow> skip_space (w @ s) = skip_space s"
  by (simp add: skip_space_def dropWhile_append2 list_all_iff)

lemma reads_head: "reads t v \<Longrightarrow> t \<noteq> [] \<and> skip_space (t @ s) = t @ s"
  by (rule conjI) (auto simp: reads_def hd_append2 intro: skip_space_id)

lemma join_Cons: "ys \<noteq> [] \<Longrightarrow> join_with sep (x # ys) = x @ sep @ join_with sep ys"
  by (cases ys) auto

lemma items_read:
  assumes "list_all2 reads ts vs" "ts \<noteq> []" "Suc (length (join_with (CHR '','' # w) ts)) \<le> n"
    and "list_all json_space w"
  shows "json_items n (join_with (CHR '','' # w) ts @ CHR '']'' # r) = Some (vs, r)"
  using assms(1-3)
proof (induction ts vs arbitrary: n rule: list_all2_induct)
  case (Cons t ts v vs)
  have e: "num_end (CHR '']'' # r)" "num_end (CHR '','' # x)" for x by (simp_all add: num_end_def digit_char_def)
  have sp: "\<not> json_space CHR '']''" "\<not> json_space CHR '',''" by (simp_all add: json_space_def)
  obtain m where n: "n = Suc m" using Cons.prems(2) by (cases n) auto
  show ?case
  proof (cases "ts = []")
    case True
    with Cons.hyps have "vs = []" by simp
    with True Cons.prems(2) n show ?thesis
      by (simp add: reads_value[OF Cons.hyps(1)] e(1) skip_space_id sp)
  next
    case False
    let ?j = "join_with (CHR '','' # w) ts"
    obtain t1 ts1 where ts: "ts = t1 # ts1" using False by (cases ts) auto
    with Cons.hyps(2) obtain v1 where t1: "reads t1 v1" by (auto simp: list_all2_Cons1)
    have "\<exists>z. ?j = t1 @ z" by (cases ts1) (auto simp: ts)
    then have j: "skip_space (w @ ?j @ CHR '']'' # r) = ?j @ CHR '']'' # r"
      using reads_head[OF t1] assms(4) by (auto simp: skip_space_drop)
    have len: "length t \<le> m" "Suc (length ?j) \<le> m" "t \<noteq> []"
      using Cons.prems(2) n reads_head[OF Cons.hyps(1)] False
      by (auto simp: join_Cons Suc_le_eq)
    show ?thesis using False len
      by (simp add: n join_Cons reads_value[OF Cons.hyps(1)] e(2) skip_space_id sp j Cons.IH)
  qed
qed simp

definition member_text :: "bool \<Rightarrow> string \<Rightarrow> string \<times> string \<Rightarrow> string" where
  "member_text a ks m = json_string a (fst m) @ ks @ snd m"

lemma members_read:
  assumes "list_all2 (\<lambda>(k, t) (k', v). k = k' \<and> utf8_ok k \<and> reads t v) ts vs" "ts \<noteq> []"
    and "Suc (length (join_with (CHR '','' # w) (map (member_text a (CHR '':'' # w')) ts))) \<le> n"
    and "list_all json_space w" "list_all json_space w'"
  shows "json_members n (join_with (CHR '','' # w) (map (member_text a (CHR '':'' # w')) ts) @ CHR ''}'' # r)
           = Some (vs, r)"
  using assms(1-3)
proof (induction ts vs arbitrary: n rule: list_all2_induct)
  case (Cons m ts b vs)
  obtain k t where m: "m = (k, t)" by (cases m)
  with Cons.hyps(1) obtain v where b: "b = (k, v)" and k: "utf8_ok k" and t: "reads t v" by auto
  have e: "num_end (CHR ''}'' # r)" "num_end (CHR '','' # x)" for x by (simp_all add: num_end_def digit_char_def)
  have sp: "\<not> json_space CHR ''}''" "\<not> json_space CHR '',''" "\<not> json_space CHR '':''" by (simp_all add: json_space_def)
  obtain l where n: "n = Suc l" using Cons.prems(2) by (cases n) auto
  define K where "K = concat (map (escape_point a) (code_points k)) @ [CHR 0x22]"
  have key: "scan_string (K @ x) = Some (k, x)" "json_string a k = CHR 0x22 # K" for x
    using scan_json_string[OF k] by (simp_all add: json_string_def K_def)
  have after: "skip_space (w' @ t @ x) = t @ x" for x
    using reads_head[OF t] assms(5) by (simp add: skip_space_drop)
  have one: "json_members (Suc l) (member_text a (CHR '':'' # w') m @ x) =
      (case skip_space x of [] \<Rightarrow> None
       | e # q3 \<Rightarrow> if e = CHR ''}'' then Some ([(k, v)], q3)
           else if e = CHR '','' then map_option (\<lambda>(ms, p). ((k, v) # ms, p)) (json_members l (skip_space q3))
           else None)" if "length t \<le> l" "num_end x" for x
    unfolding member_text_def m fst_conv snd_conv append_assoc key(2)
    using that by (simp add: key(1) skip_space_id sp after reads_value[OF t] del: scan_string.simps)
  show ?case
  proof (cases "ts = []")
    case True
    with Cons.hyps have "vs = []" by simp
    moreover have "length t \<le> l" using Cons.prems(2) True n by (simp add: member_text_def m)
    ultimately show ?thesis using True by (simp add: n one e(1) skip_space_id sp b del: json_members.simps)
  next
    case False
    let ?j = "join_with (CHR '','' # w) (map (member_text a (CHR '':'' # w')) ts)"
    obtain t1 ts1 where ts: "ts = t1 # ts1" using False by (cases ts) auto
    have "\<exists>z. ?j = CHR 0x22 # z" by (cases ts1) (auto simp: ts member_text_def json_string_def)
    then have j: "skip_space (w @ ?j @ CHR ''}'' # r) = ?j @ CHR ''}'' # r"
      using assms(4) by (auto simp: skip_space_drop skip_space_id json_space_def)
    have len: "length t \<le> l" "Suc (length ?j) \<le> l"
      using Cons.prems(2) n False by (auto simp: join_Cons m member_text_def[of a _ "(k, t)"])
    show ?thesis using False len Cons.IH[of l]
      by (simp add: n join_Cons one e(2) skip_space_id sp j b del: json_members.simps)
  qed
qed simp

lemma insort_map: "(\<And>x. fst (g x) = fst x) \<Longrightarrow> insort_key fst (g x) (map g xs) = map g (insort_key fst x xs)"
  by (induction xs) simp_all

lemma sort_members_map: "(\<And>x. fst (g x) = fst x) \<Longrightarrow> sort_members st (map g d) = map g (sort_members st d)"
proof -
  assume g: "\<And>x. fst (g x) = fst x"
  have "sort_key fst (map g d) = map g (sort_key fst d)"
    unfolding sort_key_def by (induction d) (simp_all add: insort_map g)
  then show ?thesis by (simp add: sort_members_def)
qed

lemma set_sort_members: "set (sort_members st d) = set d" "distinct (map fst (sort_members st d)) = distinct (map fst d)"
proof -
  have "mset (sort_members st d) = mset d" by (simp add: sort_members_def)
  then show "set (sort_members st d) = set d" "distinct (map fst (sort_members st d)) = distinct (map fst d)"
    by (metis set_mset_mset, metis mset_eq_imp_distinct_iff mset_map)
qed

lemma dset_absent: "k \<notin> set (map fst d) \<Longrightarrow> dset k v d = d @ [(k, v)]"
  by (induction d) (auto simp: dset_def)

lemma dupdate_new: "distinct (map fst (d @ e)) \<Longrightarrow> dupdate d e = d @ e"
proof (induction e arbitrary: d)
  case (Cons p e)
  obtain k v where p: "p = (k, v)" by (cases p)
  from Cons.prems p have "dset k v d = d @ [(k, v)]" by (intro dset_absent) auto
  moreover have "dupdate (d @ [(k, v)]) e = (d @ [(k, v)]) @ e" using Cons.prems p by (intro Cons.IH) simp
  ultimately show ?case by (simp add: dupdate_def p)
qed (simp add: dupdate_def)

lemma reads_word: "read_word (t @ r) = Some (v, r) \<Longrightarrow> hd t \<notin> set ''[{'' \<Longrightarrow> hd t \<noteq> CHR 0x22 \<Longrightarrow> t \<noteq> [] \<Longrightarrow>
    length t \<le> n \<Longrightarrow> json_value n (t @ r) = Some (v, r)"
  by (cases n; cases t) auto

lemma reads_int:
  assumes "length (show_nat (nat \<bar>i\<bar>)) \<le> 4300"
  shows "reads (show_int i) (PInt i)"
proof -
  obtain c ds where s: "show_int i = c # ds" "digit_char c \<or> (c = CHR ''-'' \<and> ds \<noteq> [] \<and> digit_char (hd ds))"
    by (rule show_int_head)
  have "c \<noteq> CHR ''[''" "c \<noteq> CHR ''{''" "c \<noteq> CHR 0x22" "\<not> json_space c" "c \<noteq> CHR '']''"
    using s(2) digit_code_range[of c] by (auto simp: json_space_def)
  moreover have "read_word (show_int i @ r) = Some (PInt i, r)" if "num_end r" for r
    using read_number_show[OF assms that] read_word_number[of c "ds @ r"] s by (auto simp: hd_append2)
  ultimately have "json_value n (show_int i @ r) = Some (PInt i, r)"
    if "length (show_int i) \<le> n" "num_end r" for n r
    using that s(1) by (intro reads_word) auto
  with \<open>\<not> json_space c\<close> \<open>c \<noteq> CHR '']''\<close> s(1) show ?thesis by (auto simp: reads_def)
qed

lemma reads_string:
  assumes "utf8_ok s"
  shows "reads (json_string a s) (PStr s)"
proof -
  have "json_value n (json_string a s @ r) = Some (PStr s, r)" if "length (json_string a s) \<le> n" for n r
    using that scan_json_string[OF assms] by (cases n) (simp_all add: json_string_def)
  then show ?thesis by (simp add: reads_def json_string_def json_space_def)
qed

lemma reads_bracket:
  assumes "\<And>n r. Suc (length body) \<le> n \<Longrightarrow> json_value (Suc n) (c # body @ d # r) = Some (v, r)"
    and "\<not> json_space c" "c \<noteq> CHR '']''"
  shows "reads (c # body @ [d]) v"
proof -
  have "json_value n ((c # body @ [d]) @ r) = Some (v, r)" if "length (c # body @ [d]) \<le> n" for n r
    using that assms(1)[of "n - 1" r] by (cases n) (simp_all del: json_value.simps)
  with assms(2,3) show ?thesis by (simp add: reads_def del: json_value.simps)
qed

lemma reads_list:
  assumes "list_all2 reads ts vs" "list_all json_space w"
  shows "reads (CHR ''['' # join_with (CHR '','' # w) ts @ '']'') (PList vs)"
proof (rule reads_bracket)
  fix n r assume n: "Suc (length (join_with (CHR '','' # w) ts)) \<le> n"
  let ?s = "join_with (CHR '','' # w) ts @ CHR '']'' # r"
  show "json_value (Suc n) (CHR ''['' # ?s) = Some (PList vs, r)"
  proof (cases ts)
    case Nil
    with assms show ?thesis by (simp add: skip_space_id json_space_def)
  next
    case (Cons t ts')
    with assms(1) have t: "t \<noteq> []" "\<not> json_space (hd t)" "json_value 1 [] = None" "hd t \<noteq> CHR '']''"
      by (auto simp: list_all2_Cons1 reads_def)
    then have h: "\<exists>z. ?s = hd t # z" using Cons by (cases t; cases ts') auto
    then obtain z where z: "?s = hd t # z" by blast
    have "skip_space ?s = ?s" using z t by (simp add: skip_space_id)
    moreover have "json_items n ?s = Some (vs, r)" using items_read[OF assms(1) _ n assms(2)] Cons by simp
    ultimately show ?thesis using t z by (simp del: json_items.simps)
  qed
qed (simp_all add: json_space_def)

lemma reads_object:
  assumes "list_all2 (\<lambda>(k, t) (k', v). k = k' \<and> utf8_ok k \<and> reads t v) ts vs" "distinct (map fst vs)"
    and "list_all json_space w" "list_all json_space w'"
  shows "reads (CHR ''{'' # join_with (CHR '','' # w) (map (member_text a (CHR '':'' # w')) ts) @ ''}'') (PDict vs)"
proof (rule reads_bracket)
  let ?j = "join_with (CHR '','' # w) (map (member_text a (CHR '':'' # w')) ts)"
  fix n r assume n: "Suc (length ?j) \<le> n"
  let ?s = "?j @ CHR ''}'' # r"
  show "json_value (Suc n) (CHR ''{'' # ?s) = Some (PDict vs, r)"
  proof (cases ts)
    case Nil
    with assms show ?thesis by (simp add: skip_space_id json_space_def)
  next
    case (Cons t ts')
    then obtain z where z: "?s = CHR 0x22 # z" by (cases ts') (auto simp: member_text_def json_string_def)
    have "skip_space ?s = ?s" using z by (simp add: skip_space_id json_space_def)
    moreover have "json_members n ?s = Some (vs, r)"
      using members_read[OF assms(1) _ n assms(3,4)] Cons by simp
    moreover have "dupdate [] vs = vs" using dupdate_new[of "[]" vs] assms(2) by simp
    ultimately show ?thesis using z by (simp del: json_members.simps)
  qed
qed (simp_all add: json_space_def)

lemma reads_keyword: "reads ''null'' PNone" "reads ''true'' (PBool True)" "reads ''false'' (PBool False)"
proof -
  have "json_value n (''null'' @ r) = Some (PNone, r)" "json_value n (''true'' @ r) = Some (PBool True, r)"
    "json_value n (''false'' @ r) = Some (PBool False, r)" if "0 < n" for n r
    using that by (cases n; simp add: read_word_def)+
  then show "reads ''null'' PNone" "reads ''true'' (PBool True)" "reads ''false'' (PBool False)"
    by (simp_all add: reads_def json_space_def)
qed

theorem reads_text:
  assumes "style_ok st"
  shows "json_plain v \<Longrightarrow> reads (json_text st v) (json_norm st v)"
proof (induction v)
  case (PList xs)
  obtain w where "js_item st = CHR '','' # w" "list_all json_space w"
    using assms by (cases "js_item st") (auto simp: style_ok_def)
  then show ?case using PList by (auto simp: list_all2_map1 list_all2_map2 intro!: reads_list list.rel_refl_strong)
next
  case (PDict d)
  obtain w where w: "js_item st = CHR '','' # w" "list_all json_space w"
    using assms by (cases "js_item st") (auto simp: style_ok_def)
  obtain w' where w': "js_key st = CHR '':'' # w'" "list_all json_space w'"
    using assms by (cases "js_key st") (auto simp: style_ok_def)
  let ?d = "sort_members st d"
  let ?ts = "map (\<lambda>(k, v). (k, json_text st v)) ?d" and ?vs = "map (\<lambda>(k, v). (k, json_norm st v)) ?d"
  have srt: "sort_members st (map (\<lambda>(k, v). (k, f v)) d) = map (\<lambda>(k, v). (k, f v)) ?d" for f :: "pyval \<Rightarrow> 'b"
    by (rule sort_members_map) auto
  have "list_all2 (\<lambda>(k, t) (k', v). k = k' \<and> utf8_ok k \<and> reads t v) ?ts ?vs"
    using PDict by (fastforce simp: list_all2_map1 list_all2_map2 set_sort_members intro!: list.rel_refl_strong)
  moreover have "distinct (map fst ?vs)"
    using PDict.prems set_sort_members(2)[of st d] by (simp add: case_prod_unfold comp_def)
  moreover have "(\<lambda>(k, t). json_string (js_ascii st) k @ js_key st @ t) = member_text (js_ascii st) (CHR '':'' # w')"
    by (auto simp: member_text_def w')
  ultimately show ?case
    using reads_object[OF _ _ w(2) w'(2), of ?ts ?vs "js_ascii st"] by (simp only: json_text.simps json_norm.simps w(1) srt)
qed (auto simp: reads_int reads_string reads_keyword)

theorem loads_text:
  assumes "style_ok st" "json_plain v"
  shows "json_loads (json_text st v) = Some (json_norm st v)"
proof -
  have r: "reads (json_text st v) (json_norm st v)" by (rule reads_text[OF assms])
  then have "json_value (Suc (length (json_text st v))) (json_text st v @ []) = Some (json_norm st v, [])"
    by (rule reads_value) (simp_all add: num_end_def)
  with reads_head[OF r, of "[]"] show ?thesis by (simp add: json_loads_def skip_space_def del: json_value.simps)
qed

lemma loads_text_id:
  "style_ok st \<Longrightarrow> \<not> js_sort st \<Longrightarrow> json_plain v \<Longrightarrow> json_loads (json_text st v) = Some v"
proof -
  assume "\<not> js_sort st"
  then have "json_norm st v = v"
    by (induction v) (auto simp: sort_members_def intro!: map_idI)
  then show "style_ok st \<Longrightarrow> json_plain v \<Longrightarrow> ?thesis" by (simp add: loads_text)
qed

end
