(* ===== verification/Au_Sessions.thy ===== *)
theory Au_Sessions
  imports Au_Redis Py_Json_Props
begin

text \<open>
  Login sessions: the store of the backend (\<open>session_store.py\<close>), which creates, extends and
  revokes them and keeps OAuth states and CSRF tokens, and the reader of the AI service
  (\<open>auth.py\<close>), which accepts the same cookie from the same Redis.  \<open>f 0\<close>, \<open>f 1\<close>, ... are the faults
  of the commands of one operation in the order it sends them; identifiers and random tokens are
  arguments.
\<close>

section \<open>Errors, settings and keys\<close>

datatype app_error =
    App nat string        \<comment> \<open>AppError: HTTP status and code\<close>
  | Crash py_error        \<comment> \<open>an exception that escapes: a server error\<close>

type_synonym ('a, 's) app = "(app_error + 'a) \<times> 's"

record auth_settings =
  state_ttl :: int
  idle_ttl :: int
  absolute_ttl :: int
  touch_interval :: int
  csrf_ttl :: int
  rate_max :: int
  rate_window :: int

text \<open>The constraints the settings declare on these fields.\<close>

definition settings_ok :: "auth_settings \<Rightarrow> bool" where
  "settings_ok c = (60 \<le> state_ttl c \<and> state_ttl c \<le> 3600 \<and> 60 \<le> idle_ttl c \<and> 300 \<le> absolute_ttl c
     \<and> 1 \<le> touch_interval c \<and> 300 \<le> csrf_ttl c \<and> 1 \<le> rate_max c \<and> rate_max c \<le> 1000
     \<and> 10 \<le> rate_window c \<and> rate_window c \<le> 3600
     \<and> idle_ttl c \<le> absolute_ttl c \<and> touch_interval c \<le> idle_ttl c)"

definition state_key :: "string \<Rightarrow> string" where "state_key st = ''qa:auth:state:'' @ st"
definition session_key :: "string \<Rightarrow> string" where "session_key sid = ''qa:auth:session:'' @ sid"
definition csrf_key :: "string \<Rightarrow> string" where "csrf_key sid = ''qa:auth:csrf:'' @ sid"
definition login_rate_key :: "(string \<Rightarrow> string) \<Rightarrow> string \<Rightarrow> string" where
  "login_rate_key sha client = ''qa:auth:login-rate:'' @ sha client"

definition utf8_style :: "(pyval \<Rightarrow> string) \<Rightarrow> json_style" where
  "utf8_style rp = \<lparr>js_ascii = False, js_item = '', '', js_key = '': '', js_sort = False, js_other = rp\<rparr>"

section \<open>Reading and writing documents\<close>

text \<open>The tuple binding of operations that can fail and change the state.\<close>

definition app_bind :: "('a, 's) app \<Rightarrow> ('a \<Rightarrow> 's \<Rightarrow> ('b, 's) app) \<Rightarrow> ('b, 's) app" where
  "app_bind m k = (case m of (Inl e, s) \<Rightarrow> (Inl e, s) | (Inr x, s) \<Rightarrow> k x s)"

definition read_failed :: app_error where "read_failed = App 503 ''redis_read_failed''"
definition write_failed :: app_error where "write_failed = App 503 ''redis_write_failed''"
definition delete_failed :: app_error where "delete_failed = App 503 ''redis_delete_failed''"

definition fail_as :: "app_error \<Rightarrow> 'a res \<times> 's \<Rightarrow> ('a, 's) app" where
  "fail_as e r = (case r of (Inl x, s) \<Rightarrow> (Inl e, s) | (Inr v, s) \<Rightarrow> (Inr v, s))"

definition get_json :: "'s redis \<Rightarrow> fault \<Rightarrow> int \<Rightarrow> string \<Rightarrow> 's \<Rightarrow> (pyval option, 's) app" where
  "get_json R f t key s =
     app_bind (fail_as read_failed (send f (\<lambda>s. (rd_get R t key s, s)) s)) (\<lambda>raw s.
       case raw of None \<Rightarrow> (Inr None, s)
       | Some text \<Rightarrow> (case json_loads text of None \<Rightarrow> Inl read_failed | Some v \<Rightarrow> Inr (Some v), s))"

definition set_json ::
  "'s redis \<Rightarrow> (pyval \<Rightarrow> string) \<Rightarrow> fault \<Rightarrow> int \<Rightarrow> string \<Rightarrow> pyval \<Rightarrow> int \<Rightarrow> 's \<Rightarrow> (unit, 's) app" where
  "set_json R rp f t key v ttl s =
     fail_as write_failed (send f (\<lambda>s. ((), rd_set R t key (json_text (utf8_style rp) v) ttl s)) s)"

definition expire_key :: "'s redis \<Rightarrow> fault \<Rightarrow> int \<Rightarrow> string \<Rightarrow> int \<Rightarrow> 's \<Rightarrow> (bool, 's) app" where
  "expire_key R f t key ttl s = fail_as write_failed (send f (rd_expire R t key (max 1 ttl)) s)"

definition delete_keys :: "'s redis \<Rightarrow> fault \<Rightarrow> int \<Rightarrow> string list \<Rightarrow> 's \<Rightarrow> (unit, 's) app" where
  "delete_keys R f t ks s =
     (if ks = [] then (Inr (), s) else fail_as delete_failed (send f (\<lambda>s. ((), rd_del R t ks s)) s))"

section \<open>OAuth states\<close>

definition opt_member :: "string \<Rightarrow> string option \<Rightarrow> (string \<times> pyval) list" where
  "opt_member k x = (case x of None \<Rightarrow> [] | Some v \<Rightarrow> [(k, PStr v)])"

definition oauth_payload ::
  "string \<Rightarrow> string \<Rightarrow> string option \<Rightarrow> string option \<Rightarrow> string option \<Rightarrow> pyval" where
  "oauth_payload nonce return_to redirect_uri flow_mode tx_hash =
     PDict ([(''nonce'', PStr nonce), (''return_to'', PStr return_to)] @ opt_member ''redirect_uri'' redirect_uri
       @ opt_member ''flow_mode'' flow_mode @ opt_member ''transaction_token_hash'' tx_hash)"

definition store_oauth_state ::
  "'s redis \<Rightarrow> (pyval \<Rightarrow> string) \<Rightarrow> auth_settings \<Rightarrow> fault \<Rightarrow> int \<Rightarrow> string \<Rightarrow> pyval \<Rightarrow> 's \<Rightarrow> (unit, 's) app" where
  "store_oauth_state R rp cfg f t st payload s = set_json R rp f t (state_key st) payload (state_ttl cfg) s"

definition consume_oauth_state ::
  "'s redis \<Rightarrow> (nat \<Rightarrow> fault) \<Rightarrow> int \<Rightarrow> string \<Rightarrow> 's \<Rightarrow> (pyval, 's) app" where
  "consume_oauth_state R f t st s =
     app_bind (get_json R (f 0) t (state_key st) s) (\<lambda>p s.
       case p of None \<Rightarrow> (Inl (App 401 ''oauth_state_invalid''), s)
       | Some payload \<Rightarrow>
           app_bind (delete_keys R (f 1) t [state_key st] s) (\<lambda>_ s. (Inr payload, s)))"

section \<open>Sessions\<close>

definition session_payload :: "string \<Rightarrow> string \<Rightarrow> int \<Rightarrow> int \<Rightarrow> int \<Rightarrow> pyval" where
  "session_payload user family created seen expires =
     PDict [(''user_id'', PStr user), (''scope_family_id'', PStr family), (''created_at'', PInt created),
       (''last_seen_at'', PInt seen), (''absolute_expires_at'', PInt expires)]"

definition create_session ::
  "'s redis \<Rightarrow> (pyval \<Rightarrow> string) \<Rightarrow> auth_settings \<Rightarrow> (nat \<Rightarrow> fault) \<Rightarrow> int \<Rightarrow> string \<Rightarrow> string \<Rightarrow> string \<Rightarrow> string \<Rightarrow> 's \<Rightarrow>
     (string \<times> string, 's) app" where
  "create_session R rp cfg f now user sid csrf family s =
     (let session_ttl = min (idle_ttl cfg) (absolute_ttl cfg);
          initial_csrf = min (csrf_ttl cfg) session_ttl in
      app_bind (set_json R rp (f 0) now (session_key sid)
                  (session_payload user family now now (now + absolute_ttl cfg)) session_ttl s) (\<lambda>_ s.
      app_bind (set_json R rp (f 1) now (csrf_key sid) (PDict [(''csrf_token'', PStr csrf)]) initial_csrf s) (\<lambda>_ s.
        (Inr (sid, csrf), s))))"

definition revoke_session :: "'s redis \<Rightarrow> fault \<Rightarrow> int \<Rightarrow> string option \<Rightarrow> 's \<Rightarrow> (unit, 's) app" where
  "revoke_session R f t sid s =
     (case sid of None \<Rightarrow> (Inr (), s)
      | Some i \<Rightarrow> if i = [] then (Inr (), s) else delete_keys R f t [session_key i, csrf_key i] s)"

text \<open>A failed revocation of the old session takes the new one back, if it can.\<close>

definition rotate_session ::
  "'s redis \<Rightarrow> (pyval \<Rightarrow> string) \<Rightarrow> auth_settings \<Rightarrow> (nat \<Rightarrow> fault) \<Rightarrow> int \<Rightarrow> string \<Rightarrow> string \<Rightarrow> string \<Rightarrow> string \<Rightarrow>
     string option \<Rightarrow> 's \<Rightarrow> (string \<times> string, 's) app" where
  "rotate_session R rp cfg f now user sid csrf family previous s =
     app_bind (create_session R rp cfg f now user sid csrf family s) (\<lambda>pair s.
       case previous of None \<Rightarrow> (Inr pair, s)
       | Some old \<Rightarrow>
           if old = [] \<or> old = sid then (Inr pair, s)
           else (case revoke_session R (f 2) now (Some old) s of
                   (Inr x, s') \<Rightarrow> (Inr pair, s')
                 | (Inl e, s') \<Rightarrow> (Inl e, snd (revoke_session R (f 3) now (Some sid) s'))))"

text \<open>
  What \<open>get_session_user_id\<close> decides about a document: not a session, a session to revoke, a live
  one, or a live one to extend to the given lifetimes of the session and its CSRF token.
\<close>

datatype verdict =
    Not_a_session
  | Drop
  | Raises py_error
  | Keep string
  | Extend string "(string, pyval) dict" int int

fun caught_reading :: "py_error \<Rightarrow> bool" where
  "caught_reading (TypeError m) = True"
| "caught_reading (ValueError m) = True"
| "caught_reading (KeyError k) = True"
| "caught_reading _ = False"

definition int_at :: "(string, pyval) dict \<Rightarrow> string \<Rightarrow> int res" where
  "int_at d k = (case dget d k of None \<Rightarrow> Inl (KeyError k) | Some v \<Rightarrow> pv_int v)"

definition session_times :: "(string, pyval) dict \<Rightarrow> (int \<times> int \<times> int) res" where
  "session_times d = rbind (int_at d ''created_at'') (\<lambda>c. rbind (int_at d ''last_seen_at'') (\<lambda>l.
     rbind (int_at d ''absolute_expires_at'') (\<lambda>a. Inr (c, l, a))))"

definition session_verdict :: "(pyval \<Rightarrow> string) \<Rightarrow> auth_settings \<Rightarrow> int \<Rightarrow> pyval option \<Rightarrow> verdict" where
  "session_verdict rp cfg now p = (case p of
       Some (PDict d) \<Rightarrow>
         (let user = pget d ''user_id'' in
          if \<not> pv_truthy user then Drop
          else case session_times d of
            Inl e \<Rightarrow> if caught_reading e then Drop else Raises e
          | Inr (created, seen, expires) \<Rightarrow>
              if created \<le> 0 \<or> seen < created \<or> expires \<le> created then Drop
              else if expires \<le> now then Drop
              else
                let idle = max 0 (now - seen) in
                if idle_ttl cfg \<le> idle then Drop
                else if touch_interval cfg \<le> idle then
                  let ttl = min (idle_ttl cfg) (expires - now) in
                  if ttl \<le> 0 then Drop
                  else Extend (pv_str rp user) (dset ''last_seen_at'' (PInt now) d) ttl (min (csrf_ttl cfg) ttl)
                else Keep (pv_str rp user))
     | _ \<Rightarrow> Not_a_session)"

text \<open>The commands that carry a verdict out.\<close>

definition settle_verdict ::
  "'s redis \<Rightarrow> (pyval \<Rightarrow> string) \<Rightarrow> (nat \<Rightarrow> fault) \<Rightarrow> int \<Rightarrow> string \<Rightarrow> verdict \<Rightarrow> 's \<Rightarrow> (string option, 's) app" where
  "settle_verdict R rp f now sid v s = (case v of
       Not_a_session \<Rightarrow> (Inr None, s)
     | Drop \<Rightarrow> app_bind (revoke_session R (f 1) now (Some sid) s) (\<lambda>_ s. (Inr None, s))
     | Raises e \<Rightarrow> (Inl (Crash e), s)
     | Keep u \<Rightarrow> (Inr (Some u), s)
     | Extend u d ttl cttl \<Rightarrow>
         app_bind (set_json R rp (f 1) now (session_key sid) (PDict d) ttl s) (\<lambda>_ s.
         app_bind (expire_key R (f 2) now (csrf_key sid) cttl s) (\<lambda>_ s. (Inr (Some u), s))))"

definition get_session_user_id ::
  "'s redis \<Rightarrow> (pyval \<Rightarrow> string) \<Rightarrow> auth_settings \<Rightarrow> (nat \<Rightarrow> fault) \<Rightarrow> int \<Rightarrow> string option \<Rightarrow> 's \<Rightarrow> (string option, 's) app"
  where
  "get_session_user_id R rp cfg f now sid s =
     (case sid of None \<Rightarrow> (Inr None, s)
      | Some i \<Rightarrow>
          if i = [] then (Inr None, s)
          else app_bind (get_json R (f 0) now (session_key i) s) (\<lambda>p s.
                 settle_verdict R rp f now i (session_verdict rp cfg now p) s))"

text \<open>\<open>is_uuid\<close> is the grammar of the constructor \<open>UUID\<close>; the identifier is kept as its text.\<close>

definition get_authenticated_session_context ::
  "'s redis \<Rightarrow> (pyval \<Rightarrow> string) \<Rightarrow> (string \<Rightarrow> bool) \<Rightarrow> auth_settings \<Rightarrow> (nat \<Rightarrow> fault) \<Rightarrow> int \<Rightarrow> string option \<Rightarrow> 's \<Rightarrow>
     ((int \<times> string \<times> string) option, 's) app" where
  "get_authenticated_session_context R rp is_uuid cfg f now sid s =
     app_bind (get_session_user_id R rp cfg f now sid s) (\<lambda>user s.
       case (user, sid) of
         (Some u, Some i) \<Rightarrow>
           app_bind (get_json R (f 3) now (session_key i) s) (\<lambda>p s.
             case p of
               Some (PDict d) \<Rightarrow>
                 (case (int_of_text u, dget d ''scope_family_id'') of
                    (Some n, Some fam) \<Rightarrow>
                      if is_uuid (pv_str rp fam) then (Inr (Some (n, i, pv_str rp fam)), s)
                      else app_bind (revoke_session R (f 4) now sid s) (\<lambda>_ s. (Inr None, s))
                  | _ \<Rightarrow> app_bind (revoke_session R (f 4) now sid s) (\<lambda>_ s. (Inr None, s)))
             | _ \<Rightarrow> (Inr None, s))
       | _ \<Rightarrow> (Inr None, s))"

definition get_csrf_token ::
  "'s redis \<Rightarrow> (pyval \<Rightarrow> string) \<Rightarrow> fault \<Rightarrow> int \<Rightarrow> string option \<Rightarrow> 's \<Rightarrow> (string option, 's) app" where
  "get_csrf_token R rp f now sid s =
     (case sid of None \<Rightarrow> (Inr None, s)
      | Some i \<Rightarrow>
          if i = [] then (Inr None, s)
          else app_bind (get_json R f now (csrf_key i) s) (\<lambda>p s.
            case p of
              Some (PDict d) \<Rightarrow>
                (let tok = pget d ''csrf_token'' in (Inr (if pv_truthy tok then Some (pv_str rp tok) else None), s))
            | _ \<Rightarrow> (Inr None, s)))"

section \<open>The login rate limit\<close>

text \<open>The Lua script: without an expiry the counter is removed and the call is an error.\<close>

definition login_rate_script :: "'s redis \<Rightarrow> int \<Rightarrow> string \<Rightarrow> int \<Rightarrow> 's \<Rightarrow> int res \<times> 's" where
  "login_rate_script R t key window s =
     (case rd_incr R t key s of
        (Inl e, s1) \<Rightarrow> (Inl e, s1)
      | (Inr attempts, s1) \<Rightarrow>
          if attempts = 1 then
            (case rd_expire R t key window s1 of
               (ok, s2) \<Rightarrow> if ok then (Inr attempts, s2)
                 else (Inl (RuntimeError ''rate-limit expiry failed''), rd_del R t [key] s2))
          else (Inr attempts, s1))"

definition enforce_login_rate_limit ::
  "'s redis \<Rightarrow> (string \<Rightarrow> string) \<Rightarrow> auth_settings \<Rightarrow> fault \<Rightarrow> int \<Rightarrow> string \<Rightarrow> 's \<Rightarrow> (unit, 's) app" where
  "enforce_login_rate_limit R sha cfg f t client s =
     app_bind (fail_as write_failed
                 (send_res f (login_rate_script R t (login_rate_key sha client) (rate_window cfg)) s)) (\<lambda>n s.
       (if n > rate_max cfg then Inl (App 429 ''oauth_start_rate_limited'') else Inr (), s))"

section \<open>The reader of the AI service\<close>

definition SESSION_KEY_PREFIX :: string where "SESSION_KEY_PREFIX = ''qa:auth:session''"

definition resolve_user_id ::
  "'s redis \<Rightarrow> (pyval \<Rightarrow> string) \<Rightarrow> fault \<Rightarrow> int \<Rightarrow> string option \<Rightarrow> 's \<Rightarrow> string option res \<times> 's" where
  "resolve_user_id R rp f t sid s =
     (case sid of None \<Rightarrow> (Inr None, s)
      | Some i \<Rightarrow>
          if i = [] then (Inr None, s)
          else case send f (\<lambda>s. (rd_get R t (SESSION_KEY_PREFIX @ '':'' @ i) s, s)) s of
            (Inl e, s') \<Rightarrow> (Inl e, s')
          | (Inr None, s') \<Rightarrow> (Inr None, s')
          | (Inr (Some raw), s') \<Rightarrow>
              (Inr (if raw = [] then None
                    else case json_loads raw of
                      Some (PDict d) \<Rightarrow>
                        (let u = pget d ''user_id'' in if pv_truthy u then Some (pv_str rp u) else None)
                    | _ \<Rightarrow> None), s'))"

text \<open>
  \<open>build_session_resolver_from_env\<close>: authentication is on unless it is switched off by one of four
  words, and then every request is the local developer's; it needs the address of Redis.
\<close>

datatype session_resolver = Disabled_sessions | Redis_sessions string

definition auth_enabled :: "(string \<Rightarrow> string option) \<Rightarrow> bool" where
  "auth_enabled env =
     (let raw = py_lower (py_strip (or_text (env ''AUTH_ENABLED'') ''1'')) in
      raw \<notin> {''0'', ''false'', ''no'', ''off''})"

definition session_cookie_name :: "(string \<Rightarrow> string option) \<Rightarrow> string" where
  "session_cookie_name env =
     (let raw = py_strip (or_text (env ''AUTH_SESSION_COOKIE_NAME'') []) in if raw = [] then ''qa_session'' else raw)"

definition build_session_resolver :: "(string \<Rightarrow> string option) \<Rightarrow> session_resolver res" where
  "build_session_resolver env =
     (if \<not> auth_enabled env then Inr Disabled_sessions
      else let url = py_strip (or_text (env ''REDIS_URL'') []) in
        if url = [] then Inl (RuntimeError ''REDIS_URL is required'') else Inr (Redis_sessions url))"

datatype cookie_error = Not_authenticated | Resolver_failed py_error

definition require_authenticated_user ::
  "'s redis \<Rightarrow> (pyval \<Rightarrow> string) \<Rightarrow> session_resolver res \<Rightarrow> fault \<Rightarrow> int \<Rightarrow> string option \<Rightarrow> 's \<Rightarrow> (cookie_error + string) \<times> 's"
  where
  "require_authenticated_user R rp resolver f t sid s =
     (case (case resolver of
              Inl e \<Rightarrow> (Inl e, s)
            | Inr Disabled_sessions \<Rightarrow> (Inr (Some ''local-dev-user''), s)
            | Inr (Redis_sessions url) \<Rightarrow> resolve_user_id R rp f t sid s) of
        (Inl e, s') \<Rightarrow> (Inl (Resolver_failed e), s')
      | (Inr None, s') \<Rightarrow> (Inl Not_authenticated, s')
      | (Inr (Some u), s') \<Rightarrow> (if u = [] then Inl Not_authenticated else Inr u, s'))"

end
