(* ===== verification/Au_Session_Props.thy ===== *)
theory Au_Session_Props
  imports Au_Sessions
begin

text \<open>
  Histories of the session store.  An operation with its time and its faults is an \<open>event\<close>; a
  history is run from left to right.  The invariant speaks of one session: whatever its key holds
  at a later time is the document of a login of that identifier, last extended at one of the
  events of the history, and it will have expired by the end of either lifetime.
\<close>

section \<open>Histories\<close>

datatype session_op =
    Log_in string string string string                        \<comment> \<open>user, session, CSRF token, family\<close>
  | Rotate string string string string "string option"        \<comment> \<open>... and the previous session\<close>
  | Request "string option"
  | Context "string option"
  | Csrf "string option"
  | Log_out "string option"
  | Store_state string pyval
  | Consume_state string
  | Login_attempt string

type_synonym event = "int \<times> (nat \<Rightarrow> fault) \<times> session_op"

fun apply_op ::
  "'s redis \<Rightarrow> (pyval \<Rightarrow> string) \<Rightarrow> (string \<Rightarrow> string) \<Rightarrow> (string \<Rightarrow> bool) \<Rightarrow> auth_settings \<Rightarrow> event \<Rightarrow> 's \<Rightarrow> 's" where
  "apply_op R rp sha uu cfg (now, f, Log_in user sid csrf fam) s = snd (create_session R rp cfg f now user sid csrf fam s)"
| "apply_op R rp sha uu cfg (now, f, Rotate user sid csrf fam old) s = snd (rotate_session R rp cfg f now user sid csrf fam old s)"
| "apply_op R rp sha uu cfg (now, f, Request sid) s = snd (get_session_user_id R rp cfg f now sid s)"
| "apply_op R rp sha uu cfg (now, f, Context sid) s = snd (get_authenticated_session_context R rp uu cfg f now sid s)"
| "apply_op R rp sha uu cfg (now, f, Csrf sid) s = snd (get_csrf_token R rp (f 0) now sid s)"
| "apply_op R rp sha uu cfg (now, f, Log_out sid) s = snd (revoke_session R (f 0) now sid s)"
| "apply_op R rp sha uu cfg (now, f, Store_state st p) s = snd (store_oauth_state R rp cfg (f 0) now st p s)"
| "apply_op R rp sha uu cfg (now, f, Consume_state st) s = snd (consume_oauth_state R f now st s)"
| "apply_op R rp sha uu cfg (now, f, Login_attempt client) s = snd (enforce_login_rate_limit R sha cfg (f 0) now client s)"

definition run_ops ::
  "'s redis \<Rightarrow> (pyval \<Rightarrow> string) \<Rightarrow> (string \<Rightarrow> string) \<Rightarrow> (string \<Rightarrow> bool) \<Rightarrow> auth_settings \<Rightarrow> event list \<Rightarrow> 's \<Rightarrow> 's" where
  "run_ops R rp sha uu cfg h s = fold (apply_op R rp sha uu cfg) h s"

fun logs_in :: "string \<Rightarrow> string \<Rightarrow> session_op \<Rightarrow> bool" where
  "logs_in user sid (Log_in u i c fam) = (u = user \<and> i = sid)"
| "logs_in user sid (Rotate u i c fam old) = (u = user \<and> i = sid)"
| "logs_in user sid _ = False"

fun uses :: "string \<Rightarrow> session_op \<Rightarrow> bool" where
  "uses sid (Log_in u i c fam) = (i = sid)"
| "uses sid (Rotate u i c fam old) = (i = sid)"
| "uses sid (Request i) = (i = Some sid)"
| "uses sid (Context i) = (i = Some sid)"
| "uses sid _ = False"

text \<open>Events whose texts are well formed and whose times, and the times they set, are in range.\<close>

fun op_texts :: "session_op \<Rightarrow> string list" where
  "op_texts (Log_in u i c fam) = [u, fam]"
| "op_texts (Rotate u i c fam old) = [u, fam]"
| "op_texts _ = []"

definition event_ok :: "auth_settings \<Rightarrow> event \<Rightarrow> bool" where
  "event_ok cfg e = (0 < fst e \<and> fst e + absolute_ttl cfg < max_counter \<and> list_all utf8_ok (op_texts (snd (snd e))))"

definition login_at :: "event list \<Rightarrow> string \<Rightarrow> string \<Rightarrow> int \<Rightarrow> bool" where
  "login_at h user sid c = (\<exists>e \<in> set h. fst e = c \<and> logs_in user sid (snd (snd e)))"

definition used_at :: "event list \<Rightarrow> string \<Rightarrow> int \<Rightarrow> bool" where
  "used_at h sid l = (\<exists>e \<in> set h. fst e = l \<and> uses sid (snd (snd e)))"

section \<open>The invariant\<close>

definition session_doc ::
  "auth_settings \<Rightarrow> event list \<Rightarrow> string \<Rightarrow> int \<Rightarrow> int \<Rightarrow> pyval \<Rightarrow> bool" where
  "session_doc cfg h sid now u v =
     (\<exists>user fam c l. v = session_payload user fam c l (c + absolute_ttl cfg)
        \<and> json_plain v \<and> login_at h user sid c \<and> used_at h sid l
        \<and> 0 < c \<and> c \<le> l \<and> l \<le> now \<and> u < c + absolute_ttl cfg \<and> u < l + idle_ttl cfg)"

definition session_inv ::
  "'s redis \<Rightarrow> (pyval \<Rightarrow> string) \<Rightarrow> auth_settings \<Rightarrow> event list \<Rightarrow> string \<Rightarrow> int \<Rightarrow> 's \<Rightarrow> bool" where
  "session_inv R rp cfg h sid now s =
     (\<forall>u raw. now \<le> u \<longrightarrow> rd_get R u (session_key sid) s = Some raw \<longrightarrow>
        (\<exists>v. raw = json_text (utf8_style rp) v \<and> session_doc cfg h sid now u v))"

text \<open>What an operation may add to a key, and nothing else.\<close>

definition gains :: "'s redis \<Rightarrow> string \<Rightarrow> int \<Rightarrow> (int \<Rightarrow> string \<Rightarrow> bool) \<Rightarrow> 's \<Rightarrow> 's \<Rightarrow> bool" where
  "gains R key now G s s' =
     (\<forall>u raw. now \<le> u \<longrightarrow> rd_get R u key s' = Some raw \<longrightarrow> rd_get R u key s = Some raw \<or> G u raw)"

lemma gains_refl [simp, intro]: "gains R key now G s s"
  by (simp add: gains_def)

lemma gains_trans: "gains R key now G s s1 \<Longrightarrow> gains R key now G s1 s2 \<Longrightarrow> gains R key now G s s2"
  by (auto simp: gains_def)

lemma gains_send: "gains R key now G s (snd (c s)) \<Longrightarrow> gains R key now G s (snd (send f c s))"
  using send_state[of f c s] by auto

lemma gains_send_res: "gains R key now G s (snd (c s)) \<Longrightarrow> gains R key now G s (snd (send_res f c s))"
  using gains_send[of R key now G s c f] by (simp add: send_res_def case_prod_beta)

lemma snd_fail_as [simp]: "snd (fail_as e r) = snd r"
  by (simp add: fail_as_def split: prod.splits sum.splits)

lemma gains_bind:
  assumes "gains R key now G s (snd m)" "\<And>x. fst m = Inr x \<Longrightarrow> gains R key now G (snd m) (snd (k x (snd m)))"
  shows "gains R key now G s (snd (app_bind m k))"
  using assms by (cases m; cases "fst m") (auto simp: app_bind_def intro: gains_trans)

lemma get_json_state [simp]: "snd (get_json R f t key s) = s"
  by (cases f) (auto simp: get_json_def app_bind_def fail_as_def send_def split: option.splits)

lemma gains_set_json:
  assumes "redis_laws R" "0 < ttl"
    and "key' = key \<Longrightarrow> (\<And>u. now \<le> u \<Longrightarrow> u < now + ttl \<Longrightarrow> G u (json_text (utf8_style rp) v))"
  shows "gains R key now G s (snd (set_json R rp f now key' v ttl s))"
  unfolding set_json_def snd_fail_as
  by (rule gains_send) (use assms in \<open>auto simp: gains_def get_set split: if_splits\<close>)

lemma gains_expire_other:
  "redis_laws R \<Longrightarrow> key' \<noteq> key \<Longrightarrow> gains R key now G s (snd (expire_key R f now key' ttl s))"
  unfolding expire_key_def snd_fail_as by (rule gains_send) (auto simp: gains_def get_expire)

lemma gains_delete: "redis_laws R \<Longrightarrow> gains R key now G s (snd (delete_keys R f now ks s))"
proof (cases "ks = []")
  case False
  moreover assume "redis_laws R"
  then have "gains R key now G s (snd (send f (\<lambda>s. ((), rd_del R now ks s)) s))"
    by (intro gains_send) (auto simp: gains_def get_del split: if_splits)
  ultimately show ?thesis by (simp add: delete_keys_def)
qed (simp add: delete_keys_def)

lemma gains_revoke: "redis_laws R \<Longrightarrow> gains R key now G s (snd (revoke_session R f now i s))"
  by (auto simp: revoke_session_def gains_delete split: option.split)

lemma key_ne [simp]:
  "csrf_key i \<noteq> session_key sid" "state_key i \<noteq> session_key sid" "login_rate_key sha i \<noteq> session_key sid"
  "(session_key i = session_key sid) = (i = sid)"
  by (simp_all add: csrf_key_def state_key_def login_rate_key_def session_key_def)

lemma gains_rate:
  assumes "redis_laws R" "key' \<noteq> key"
  shows "gains R key now G s (snd (login_rate_script R now key' w s))"
proof -
  let ?s1 = "snd (rd_incr R now key' s)" let ?s2 = "snd (rd_expire R now key' w ?s1)"
  have "gains R key now G s ?s1" "gains R key now G s ?s2" "gains R key now G s (rd_del R now [key'] ?s2)"
    using assms by (auto simp: gains_def get_incr_other get_expire get_del)
  then show ?thesis
    by (auto simp: login_rate_script_def split: prod.splits sum.splits)
qed

section \<open>The operations keep it\<close>

lemma plain_counter: "0 \<le> n \<Longrightarrow> n < max_counter \<Longrightarrow> json_plain (PInt n)"
  using show_int_bound[of n] by simp

lemma plain_payload:
  assumes "utf8_ok user" "utf8_ok fam" "0 \<le> c" "0 \<le> l" "0 \<le> x" "c < max_counter" "l < max_counter" "x < max_counter"
  shows "json_plain (session_payload user fam c l x)"
  using assms plain_counter[of c] plain_counter[of l] plain_counter[of x]
  by (simp add: session_payload_def ascii_ok)

lemma utf8_style_ok: "style_ok (utf8_style rp)" "\<not> js_sort (utf8_style rp)"
  by (simp_all add: utf8_style_def style_ok_def json_space_def)

lemma loads_utf8: "json_plain v \<Longrightarrow> json_loads (json_text (utf8_style rp) v) = Some v"
  by (simp add: loads_text_id utf8_style_ok)

lemma create_gains:
  assumes "redis_laws R" "settings_ok cfg"
    and "i = sid \<Longrightarrow> (\<And>u. now \<le> u \<Longrightarrow> u < now + min (idle_ttl cfg) (absolute_ttl cfg) \<Longrightarrow>
           G u (json_text (utf8_style rp) (session_payload user fam now now (now + absolute_ttl cfg))))"
  shows "gains R (session_key sid) now G s (snd (create_session R rp cfg f now user i csrf fam s))"
proof -
  have t: "0 < min (idle_ttl cfg) (absolute_ttl cfg)" "0 < min (csrf_ttl cfg) (min (idle_ttl cfg) (absolute_ttl cfg))"
    using assms(2) by (simp_all add: settings_ok_def)
  show ?thesis
    unfolding create_session_def Let_def
    by (intro gains_bind gains_set_json assms(1) t) (use assms(3) in auto)
qed

lemma settle_gains:
  assumes "redis_laws R"
    and "\<And>u d ttl cttl. v = Extend u d ttl cttl \<Longrightarrow> 0 < ttl \<and> (i = sid \<longrightarrow>
          (\<forall>x. now \<le> x \<longrightarrow> x < now + ttl \<longrightarrow> G x (json_text (utf8_style rp) (PDict d))))"
  shows "gains R (session_key sid) now G s (snd (settle_verdict R rp f now i v s))"
proof (cases v)
  case (Extend u d ttl cttl)
  from assms(2)[OF this] show ?thesis
    by (auto simp: settle_verdict_def Extend intro!: gains_bind gains_set_json gains_expire_other assms(1))
qed (auto simp: settle_verdict_def intro!: gains_bind gains_revoke assms(1))

lemma verdict_extend:
  assumes "session_verdict rp cfg now p = Extend u d ttl cttl"
  obtains d0 c l x where "p = Some (PDict d0)" "session_times d0 = Inr (c, l, x)" "d = dset ''last_seen_at'' (PInt now) d0"
    "ttl = min (idle_ttl cfg) (x - now)" "0 < ttl" "u = pv_str rp (pget d0 ''user_id'')"
  using assms by (auto simp: session_verdict_def Let_def split: option.splits pyval.splits sum.splits prod.splits if_splits)

lemma payload_times: "session_payload user fam c l x = PDict d \<Longrightarrow> session_times d = Inr (c, l, x)"
  by (auto simp: session_payload_def session_times_def int_at_def dget_def)

lemma payload_touch: "session_payload user fam c l x = PDict d \<Longrightarrow>
    PDict (dset ''last_seen_at'' (PInt n) d) = session_payload user fam c n x"
  by (auto simp: session_payload_def dset_def)

lemma payload_user: "session_payload user fam c l x = PDict d \<Longrightarrow> pget d ''user_id'' = PStr user"
  by (auto simp: session_payload_def pget_def dget_def)

lemma touched_plain:
  assumes "json_plain (session_payload user fam c l x)" "0 \<le> n" "n < max_counter"
  shows "json_plain (session_payload user fam c n x)"
  using assms plain_counter[of n] by (simp add: session_payload_def)

lemma get_json_cases:
  obtains (none) "fst (get_json R f t key s) = Inr None" "rd_get R t key s = None"
    | (failed) e where "fst (get_json R f t key s) = Inl e"
    | (found) raw v where "fst (get_json R f t key s) = Inr (Some v)" "rd_get R t key s = Some raw" "json_loads raw = Some v"
proof (cases f)
  case Fine
  then show thesis using that
    by (cases "rd_get R t key s"; cases "json_loads (the (rd_get R t key s))")
       (auto simp: get_json_def app_bind_def fail_as_def)
qed (use that(2) in \<open>auto simp: get_json_def app_bind_def fail_as_def send_def\<close>)

lemma request_gains:
  assumes "redis_laws R" and inv: "session_inv R rp cfg h sid now s"
    and "0 < now" "now + absolute_ttl cfg < max_counter" "settings_ok cfg"
    and used: "used_at h' sid now" and sub: "set h \<subseteq> set h'" and i: "i = sid"
  shows "gains R (session_key sid) now (\<lambda>u raw. \<exists>v. raw = json_text (utf8_style rp) v \<and> session_doc cfg h' sid now u v)
    s (snd (get_session_user_id R rp cfg f now (Some i) s))"
proof -
  let ?G = "\<lambda>u raw. \<exists>v. raw = json_text (utf8_style rp) v \<and> session_doc cfg h' sid now u v"
  have "gains R (session_key sid) now ?G s (snd (settle_verdict R rp f now i (session_verdict rp cfg now p) s))"
    if p: "fst (get_json R (f 0) now (session_key i) s) = Inr p" for p
  proof (rule settle_gains[OF assms(1)])
    fix w d ttl cttl assume e: "session_verdict rp cfg now p = Extend w d ttl cttl"
    obtain d0 c0 l0 x0 where d: "p = Some (PDict d0)" "session_times d0 = Inr (c0, l0, x0)"
      "d = dset ''last_seen_at'' (PInt now) d0" "ttl = min (idle_ttl cfg) (x0 - now)" "0 < ttl"
      by (rule verdict_extend[OF e])
    from p d(1) obtain raw where raw: "rd_get R now (session_key sid) s = Some raw" "json_loads raw = Some (PDict d0)"
      by (cases rule: get_json_cases[of R "f 0" now "session_key i" s]) (auto simp: i)
    from inv raw(1) obtain v where v: "raw = json_text (utf8_style rp) v" "session_doc cfg h sid now now v"
      unfolding session_inv_def by blast
    from v(2) obtain user fam c l where doc: "v = session_payload user fam c l (c + absolute_ttl cfg)"
      "json_plain v" "login_at h user sid c" "0 < c" "c \<le> l" "l \<le> now" "now < c + absolute_ttl cfg"
      unfolding session_doc_def by blast
    have "v = PDict d0" using raw(2) v(1) loads_utf8[OF doc(2)] by simp
    with doc(1) have pd: "session_payload user fam c l (c + absolute_ttl cfg) = PDict d0" by simp
    have x0: "x0 = c + absolute_ttl cfg" using payload_times[OF pd] d(2) by simp
    have "0 \<le> absolute_ttl cfg" using assms(5) by (simp add: settings_ok_def)
    then have pl: "json_plain (session_payload user fam c now (c + absolute_ttl cfg))"
      using assms(3,4) by (intro touched_plain[OF doc(2)[unfolded doc(1)]]) linarith+
    have "login_at h' user sid c" using doc(3) sub by (auto simp: login_at_def)
    then have "session_doc cfg h' sid now x (session_payload user fam c now (c + absolute_ttl cfg))"
      if "x < now + ttl" for x
      using that pl used doc(4-7) unfolding session_doc_def x0 d(4)
      by - (rule exI[of _ user], rule exI[of _ fam], rule exI[of _ c], rule exI[of _ now], simp add: min_def split: if_splits)
    then have "?G x (json_text (utf8_style rp) (PDict d))" if "x < now + ttl" for x
      using that unfolding d(3) payload_touch[OF pd] by blast
    with d(5) show "0 < ttl \<and> (i = sid \<longrightarrow> (\<forall>x. now \<le> x \<longrightarrow> x < now + ttl \<longrightarrow> ?G x (json_text (utf8_style rp) (PDict d))))"
      by blast
  qed
  then show ?thesis by (auto simp: get_session_user_id_def intro!: gains_bind)
qed

lemma request_other:
  assumes "redis_laws R" "settings_ok cfg" "i \<noteq> sid"
  shows "gains R (session_key sid) now G s (snd (get_session_user_id R rp cfg f now (Some i) s))"
  unfolding get_session_user_id_def
  by (auto intro!: gains_bind settle_gains[OF assms(1)] simp: assms(3) elim!: verdict_extend)

definition good_for ::
  "(pyval \<Rightarrow> string) \<Rightarrow> auth_settings \<Rightarrow> event list \<Rightarrow> string \<Rightarrow> int \<Rightarrow> int \<Rightarrow> string \<Rightarrow> bool" where
  "good_for rp cfg h sid now u raw = (\<exists>v. raw = json_text (utf8_style rp) v \<and> session_doc cfg h sid now u v)"

lemma get_user_gains:
  assumes "redis_laws R" "settings_ok cfg" "session_inv R rp cfg h sid now s"
    and "0 < now" "now + absolute_ttl cfg < max_counter"
    and "i = Some sid \<Longrightarrow> used_at h' sid now" "set h \<subseteq> set h'"
  shows "gains R (session_key sid) now (good_for rp cfg h' sid now) s (snd (get_session_user_id R rp cfg f now i s))"
proof (cases "i = Some sid")
  case True
  with request_gains[OF assms(1,3-5,2) assms(6)[OF True] assms(7) refl] show ?thesis
    by (simp add: good_for_def[abs_def])
next
  case False
  then show ?thesis using request_other[OF assms(1,2)]
    by (cases i) (auto simp: get_session_user_id_def)
qed

lemma session_doc_mono:
  "session_doc cfg h sid now u v \<Longrightarrow> set h \<subseteq> set h' \<Longrightarrow> now \<le> now' \<Longrightarrow> session_doc cfg h' sid now' u v"
proof -
  assume *: "session_doc cfg h sid now u v" "set h \<subseteq> set h'" "now \<le> now'"
  have "login_at h user sid c \<Longrightarrow> login_at h' user sid c" "used_at h sid l \<Longrightarrow> used_at h' sid l" for user c l
    using *(2) by (auto simp: login_at_def used_at_def)
  with * show ?thesis unfolding session_doc_def by fastforce
qed

lemma login_good:
  assumes "settings_ok cfg" "event_ok cfg (now, f, op)" "op_texts op = [user, fam]" "(now, f, op) \<in> set h"
    and "logs_in user sid op" "uses sid op" "now \<le> u" "u < now + min (idle_ttl cfg) (absolute_ttl cfg)"
  shows "good_for rp cfg h sid now u (json_text (utf8_style rp) (session_payload user fam now now (now + absolute_ttl cfg)))"
proof -
  have "json_plain (session_payload user fam now now (now + absolute_ttl cfg))"
    using assms(1-3) by (intro plain_payload) (auto simp: event_ok_def settings_ok_def)
  moreover have "login_at h user sid now" "used_at h sid now"
    using assms(4-6) by (force simp: login_at_def used_at_def)+
  moreover have "0 < now" using assms(2) by (simp add: event_ok_def)
  ultimately show ?thesis using assms(7,8) unfolding good_for_def session_doc_def
    by (intro exI conjI) (rule refl | assumption | simp)+
qed

lemma op_gains:
  assumes L: "redis_laws R" and S: "settings_ok cfg" and I: "session_inv R rp cfg h sid now s"
    and E: "event_ok cfg (now, f, op)" and sub: "set h \<subseteq> set h'" and e: "(now, f, op) \<in> set h'"
  shows "gains R (session_key sid) now (good_for rp cfg h' sid now) s (apply_op R rp sha uu cfg (now, f, op) s)"
proof -
  have now: "0 < now" "now + absolute_ttl cfg < max_counter" using E by (simp_all add: event_ok_def)
  note user = get_user_gains[OF L S I now _ sub]
  show ?thesis
  proof (cases op)
    case (Log_in user i csrf fam)
    show ?thesis unfolding Log_in apply_op.simps
      by (rule create_gains[OF L S]) (use login_good[OF S E _ e, of user fam sid] Log_in in simp)
  next
    case (Rotate user i csrf fam old)
    have "gains R (session_key sid) now (good_for rp cfg h' sid now) s (snd (create_session R rp cfg f now user i csrf fam s))"
      by (rule create_gains[OF L S]) (use login_good[OF S E _ e, of user fam sid] Rotate in simp)
    moreover have "gains R (session_key sid) now G x z" if "revoke_session R g now j x = (y, z)" for G x y z g j
      using gains_revoke[OF L, of "session_key sid" now G x g j] that by simp
    ultimately show ?thesis unfolding Rotate apply_op.simps rotate_session_def
      by (intro gains_bind) (auto split: option.split prod.split sum.split intro: gains_trans[OF _ gains_revoke[OF L]])
  next
    case (Request i)
    show ?thesis unfolding Request apply_op.simps
      by (rule user) (use e Request in \<open>force simp: used_at_def\<close>)
  next
    case (Context i)
    have "gains R (session_key sid) now (good_for rp cfg h' sid now) s (snd (get_session_user_id R rp cfg f now i s))"
      by (rule user) (use e Context in \<open>force simp: used_at_def\<close>)
    then show ?thesis unfolding Context apply_op.simps get_authenticated_session_context_def
      by (rule gains_bind)
         (auto split: option.split pyval.split intro!: gains_bind gains_revoke[OF L])
  next
    case (Csrf i)
    show ?thesis by (auto simp: Csrf get_csrf_token_def Let_def split: option.split pyval.split intro!: gains_bind)
  next
    case (Log_out i)
    show ?thesis by (simp add: Log_out gains_revoke[OF L])
  next
    case (Store_state st p)
    have "0 < state_ttl cfg" using S by (simp add: settings_ok_def)
    then show ?thesis by (auto simp: Store_state store_oauth_state_def intro!: gains_set_json[OF L])
  next
    case (Consume_state st)
    show ?thesis by (auto simp: Consume_state consume_oauth_state_def split: option.split intro!: gains_bind gains_delete[OF L])
  next
    case (Login_attempt c)
    show ?thesis
      by (auto simp: Login_attempt enforce_login_rate_limit_def intro!: gains_bind gains_send_res gains_rate[OF L])
  qed
qed

end
