(* ===== verification/Au_Session_Properties.thy ===== *)
theory Au_Session_Properties
  imports Au_Session_Props
begin

text \<open>
  What the two services promise about a login session whatever the order of logins, requests and
  logouts and whatever commands fail: it ends by its lifetimes, and a logout ends it.
\<close>

lemma inv_gains:
  assumes "session_inv R rp cfg h sid now s" "gains R (session_key sid) now' (good_for rp cfg h' sid now') s s'"
    and "now \<le> now'" "set h \<subseteq> set h'"
  shows "session_inv R rp cfg h' sid now' s'"
  unfolding session_inv_def
proof (intro allI impI)
  fix u raw assume u: "now' \<le> u" "rd_get R u (session_key sid) s' = Some raw"
  with assms(2) consider "rd_get R u (session_key sid) s = Some raw" | "good_for rp cfg h' sid now' u raw"
    unfolding gains_def by blast
  then show "\<exists>v. raw = json_text (utf8_style rp) v \<and> session_doc cfg h' sid now' u v"
  proof cases
    case 1
    with assms(1,3) u(1) obtain v where "raw = json_text (utf8_style rp) v" "session_doc cfg h sid now u v"
      unfolding session_inv_def by (meson order_trans)
    with session_doc_mono[OF _ assms(4,3)] show ?thesis by blast
  qed (simp add: good_for_def)
qed

lemma inv_run:
  assumes "redis_laws R" "settings_ok cfg" "sorted_wrt (\<lambda>a b. fst a \<le> fst b) es" "list_all (event_ok cfg) es"
    and "session_inv R rp cfg h sid now s" "\<forall>e \<in> set es. now \<le> fst e" "now \<le> t1" "\<forall>e \<in> set es. fst e \<le> t1"
  shows "session_inv R rp cfg (h @ es) sid t1 (run_ops R rp sha uu cfg es s)"
  using assms(3-8)
proof (induction es arbitrary: h now s)
  case Nil
  have "gains R (session_key sid) t1 (good_for rp cfg h sid t1) s s" by simp
  with Nil inv_gains[of R rp cfg h sid now s t1 h s] show ?case by (simp add: run_ops_def)
next
  case (Cons e es)
  obtain t f op where e: "e = (t, f, op)" by (cases e)
  let ?s = "apply_op R rp sha uu cfg e s"
  have now: "session_inv R rp cfg h sid t s"
    using inv_gains[OF Cons.prems(3) gains_refl, of t h] Cons.prems(4) e by auto
  have "gains R (session_key sid) t (good_for rp cfg (h @ [e]) sid t) s ?s"
    unfolding e by (rule op_gains[OF assms(1,2) now]) (use Cons.prems(2) e in auto)
  then have "session_inv R rp cfg (h @ [e]) sid t ?s"
    by (rule inv_gains[OF now]) auto
  moreover have "\<forall>x \<in> set es. t \<le> fst x" using Cons.prems(1) e by auto
  moreover have "t \<le> t1" using Cons.prems(6) e by auto
  ultimately have "session_inv R rp cfg ((h @ [e]) @ es) sid t1 (run_ops R rp sha uu cfg es ?s)"
    using Cons.prems by (intro Cons.IH) auto
  then show ?case by (simp add: run_ops_def)
qed

text \<open>The readers of both services accept only what the key holds.\<close>

lemma accepted_document:
  assumes inv: "session_inv R rp cfg h sid now s"
    and acc: "fst (resolve_user_id R rp f now (Some sid) s) = Inr (Some user)
      \<or> fst (get_session_user_id R rp cfg g now (Some sid) s) = Inr (Some user)"
  shows "\<exists>c l. login_at h user sid c \<and> used_at h sid l \<and> c \<le> l \<and> l \<le> now
           \<and> now < c + absolute_ttl cfg \<and> now < l + idle_ttl cfg"
proof -
  have key: "SESSION_KEY_PREFIX @ CHR '':'' # sid = session_key sid"
    by (simp add: SESSION_KEY_PREFIX_def session_key_def)
  have doc: "\<exists>usr fam c l. v = session_payload usr fam c l (c + absolute_ttl cfg) \<and> login_at h usr sid c \<and> used_at h sid l
       \<and> c \<le> l \<and> l \<le> now \<and> now < c + absolute_ttl cfg \<and> now < l + idle_ttl cfg"
    if "rd_get R now (session_key sid) s = Some raw" "json_loads raw = Some v" for raw v
  proof -
    from inv that(1) obtain v' where v': "raw = json_text (utf8_style rp) v'" "session_doc cfg h sid now now v'"
      unfolding session_inv_def by blast
    then have "json_plain v'" unfolding session_doc_def by blast
    with v'(1) that(2) have "v' = v" by (simp add: loads_utf8)
    with v'(2) show ?thesis unfolding session_doc_def by blast
  qed
  from acc show ?thesis
  proof
    assume a: "fst (resolve_user_id R rp f now (Some sid) s) = Inr (Some user)"
    then have "f = Fine" by (cases f) (auto simp: resolve_user_id_def send_def split: if_splits)
    with a obtain raw d where raw: "rd_get R now (session_key sid) s = Some raw" "json_loads raw = Some (PDict d)"
      "pv_truthy (pget d ''user_id'')" "user = pv_str rp (pget d ''user_id'')"
      by (auto simp: resolve_user_id_def key Let_def split: if_splits option.splits pyval.splits)
    from doc[OF raw(1,2)] obtain usr fam c l where
      d: "session_payload usr fam c l (c + absolute_ttl cfg) = PDict d" "login_at h usr sid c" "used_at h sid l" "c \<le> l"
         "l \<le> now" "now < c + absolute_ttl cfg" "now < l + idle_ttl cfg" by metis
    with raw(4) payload_user[OF d(1)] show ?thesis by auto
  next
    assume a: "fst (get_session_user_id R rp cfg g now (Some sid) s) = Inr (Some user)"
    let ?m = "get_json R (g 0) now (session_key sid) s"
    from a have ne: "sid \<noteq> []" by (auto simp: get_session_user_id_def)
    with a have b: "fst (app_bind ?m (\<lambda>p s. settle_verdict R rp g now sid (session_verdict rp cfg now p) s)) = Inr (Some user)"
      by (simp add: get_session_user_id_def)
    then obtain p where p: "fst ?m = Inr p"
      "fst (settle_verdict R rp g now sid (session_verdict rp cfg now p) s) = Inr (Some user)"
      by (cases ?m; cases "fst ?m") (use get_json_state[of R "g 0" now "session_key sid" s] in \<open>auto simp: app_bind_def\<close>)
    have "\<exists>d. p = Some (PDict d) \<and> user = pv_str rp (pget d ''user_id'')"
      using p(2) by (auto simp: settle_verdict_def session_verdict_def app_bind_def Let_def
            split: option.splits pyval.splits sum.splits prod.splits if_splits)
    then obtain d where d: "p = Some (PDict d)" "user = pv_str rp (pget d ''user_id'')" by blast
    with p(1) obtain raw where "rd_get R now (session_key sid) s = Some raw" "json_loads raw = Some (PDict d)"
      by (cases rule: get_json_cases[of R "g 0" now "session_key sid" s]) auto
    from doc[OF this] obtain usr fam c l where
      e: "session_payload usr fam c l (c + absolute_ttl cfg) = PDict d" "login_at h usr sid c" "used_at h sid l" "c \<le> l"
         "l \<le> now" "now < c + absolute_ttl cfg" "now < l + idle_ttl cfg" by metis
    with d(2) payload_user[OF e(1)] show ?thesis by auto
  qed
qed

definition accepts ::
  "'s redis \<Rightarrow> (pyval \<Rightarrow> string) \<Rightarrow> auth_settings \<Rightarrow> int \<Rightarrow> string \<Rightarrow> string \<Rightarrow> 's \<Rightarrow> bool" where
  "accepts R rp cfg now sid user s =
     (fst (resolve_user_id R rp Fine now (Some sid) s) = Inr (Some user) \<or>
      fst (get_session_user_id R rp cfg (\<lambda>_. Fine) now (Some sid) s) = Inr (Some user))"

lemma inv_absent: "(\<And>u. now \<le> u \<Longrightarrow> rd_get R u (session_key sid) s = None) \<Longrightarrow> session_inv R rp cfg h sid now s"
  by (simp add: session_inv_def)

lemma accepted_after_run:
  assumes "redis_laws R" "settings_ok cfg" "sorted_wrt (\<lambda>a b. fst a \<le> fst b) es" "list_all (event_ok cfg) es"
    and "\<And>u. t0 \<le> u \<Longrightarrow> rd_get R u (session_key sid) s = None" "\<forall>e \<in> set es. t0 \<le> fst e" "t0 \<le> now"
    and "\<forall>e \<in> set es. fst e \<le> now" "accepts R rp cfg now sid user (run_ops R rp sha uu cfg es s)"
  shows "\<exists>c l. login_at es user sid c \<and> used_at es sid l \<and> c \<le> l \<and> l \<le> now
           \<and> now < c + absolute_ttl cfg \<and> now < l + idle_ttl cfg"
proof -
  have "session_inv R rp cfg ([] @ es) sid now (run_ops R rp sha uu cfg es s)"
    by (rule inv_run[OF assms(1-4) inv_absent[OF assms(5)] assms(6-8)])
  from accepted_document[OF this, of Fine user "\<lambda>_. Fine"] assms(9) show ?thesis by (simp add: accepts_def)
qed

text \<open>C15. A session is accepted, by the backend or by the AI service, only within its lifetimes.
Whatever logins, requests, logouts and OAuth steps were made before, in whatever order and with
whatever commands of Redis failing or losing their reply: a session identifier that is accepted
now, for a user, was handed out by a login of that user less than the absolute lifetime ago and
was used, by that login or by a request to the backend, less than the idle lifetime ago.\<close>

theorem session_lifetimes:
  assumes "redis_laws R" "settings_ok cfg" "sorted_wrt (\<lambda>a b. fst a \<le> fst b) es" "list_all (event_ok cfg) es"
    and "\<forall>u. rd_get R u (session_key sid) s = None" "\<forall>e \<in> set es. fst e \<le> now"
    and "accepts R rp cfg now sid user (run_ops R rp sha uu cfg es s)"
  shows "\<exists>c l. login_at es user sid c \<and> used_at es sid l \<and> c \<le> l \<and> l \<le> now
           \<and> now < c + absolute_ttl cfg \<and> now < l + idle_ttl cfg"
  by (rule accepted_after_run[OF assms(1-4), of "min 0 now"])
     (use assms(4-7) in \<open>auto simp: list_all_iff event_ok_def intro!: min.coboundedI1 less_imp_le\<close>)


text \<open>C17. A login made by the backend is recognised by the AI service: the document the backend
prints is read back as the same user, until the first of the two lifetimes has passed.\<close>

theorem login_recognised:
  assumes "redis_laws R" "settings_ok cfg" "sid \<noteq> []" "user \<noteq> []" "utf8_ok user" "utf8_ok family"
    and "0 < now" "now + absolute_ttl cfg < max_counter" "now \<le> t" "t < now + idle_ttl cfg"
  shows "fst (resolve_user_id R rp Fine t (Some sid)
           (snd (create_session R rp cfg (\<lambda>_. Fine) now user sid csrf family s))) = Inr (Some user)"
proof -
  let ?p = "session_payload user family now now (now + absolute_ttl cfg)"
  have lt: "0 < absolute_ttl cfg" "0 < idle_ttl cfg" "0 < csrf_ttl cfg" "idle_ttl cfg \<le> absolute_ttl cfg"
    using assms(2) by (simp_all add: settings_ok_def)
  have "json_plain ?p" using assms(5-8) lt by (intro plain_payload) simp_all
  then have loads: "json_loads (json_text (utf8_style rp) ?p) = Some ?p" by (rule loads_utf8)
  have "session_key sid \<noteq> csrf_key sid" by (simp add: session_key_def csrf_key_def)
  then have "rd_get R t (session_key sid) (snd (create_session R rp cfg (\<lambda>_. Fine) now user sid csrf family s))
      = Some (json_text (utf8_style rp) ?p)"
    using assms(1,9,10) lt by (simp add: create_session_def Let_def app_bind_def set_json_def fail_as_def get_set min_def)
  moreover have "SESSION_KEY_PREFIX @ CHR '':'' # sid = session_key sid"
    by (simp add: SESSION_KEY_PREFIX_def session_key_def)
  moreover have "json_text (utf8_style rp) ?p \<noteq> []" by (simp add: session_payload_def)
  ultimately show ?thesis using assms(3,4) loads
    by (simp add: resolve_user_id_def session_payload_def pget_def dget_def)
qed

text \<open>
  A request that has read its document before a logout and extends the session after it brings
  the session back: reading and extending are two commands.
\<close>

lemma late_extension_undoes_logout:
  assumes "redis_laws R" "sid \<noteq> []" "user \<noteq> []" "0 < ttl" "PDict d = session_payload user family c l x" "json_plain (PDict d)"
  shows "fst (resolve_user_id R rp Fine t (Some sid)
           (snd (settle_verdict R rp (\<lambda>_. Fine) t sid (Extend user d ttl cttl)
             (snd (revoke_session R Fine t (Some sid) s))))) = Inr (Some user)"
proof -
  have "session_key sid \<noteq> csrf_key sid" by (simp add: session_key_def csrf_key_def)
  moreover have "SESSION_KEY_PREFIX @ CHR '':'' # sid = session_key sid"
    by (simp add: SESSION_KEY_PREFIX_def session_key_def)
  moreover have "json_text (utf8_style rp) (PDict d) \<noteq> []" by simp
  moreover have "pget d ''user_id'' = PStr user" using payload_user[of user family c l x d] assms(5) by simp
  ultimately show ?thesis using assms(1-4) loads_utf8[OF assms(6)]
    by (simp add: settle_verdict_def app_bind_def set_json_def expire_key_def fail_as_def get_expire get_set
        resolve_user_id_def del: json_text.simps)
qed

section \<open>Concrete runs\<close>

definition sample_settings :: auth_settings where
  "sample_settings = \<lparr>state_ttl = 600, idle_ttl = 1800, absolute_ttl = 28800, touch_interval = 60, csrf_ttl = 3600,
     rate_max = 20, rate_window = 300\<rparr>"

definition sample_events :: "event list" where
  "sample_events = [(1000, (\<lambda>_. Fine), Log_in ''7'' ''s'' ''c'' ''f''), (1100, (\<lambda>_. Fine), Log_out (Some ''other''))]"

lemma memory_other:
  "i \<noteq> j \<Longrightarrow> rd_get memory_redis t (session_key i) (rd_del memory_redis u [session_key j, csrf_key j] s)
     = rd_get memory_redis t (session_key i) s"
  by (auto simp: memory_redis_def cell_at_def dget_dpop session_key_def csrf_key_def)

lemma resolve_same:
  assumes "rd_get R t (session_key sid) s = rd_get R t (session_key sid) s'"
  shows "fst (resolve_user_id R rp Fine t (Some sid) s) = fst (resolve_user_id R rp Fine t (Some sid) s')"
proof -
  have "SESSION_KEY_PREFIX @ CHR '':'' # sid = session_key sid"
    by (simp add: SESSION_KEY_PREFIX_def session_key_def)
  with assms show ?thesis by (simp add: resolve_user_id_def split: option.split)
qed

theorem session_lifetimes_witness:
  "\<exists>c l. login_at sample_events ''7'' ''s'' c \<and> used_at sample_events ''s'' l \<and> c \<le> l \<and> l \<le> 2000
     \<and> 2000 < c + absolute_ttl sample_settings \<and> 2000 < l + idle_ttl sample_settings"
proof (rule session_lifetimes[OF memory_laws])
  show "accepts memory_redis (\<lambda>_. []) sample_settings 2000 ''s'' ''7''
      (run_ops memory_redis (\<lambda>_. []) (\<lambda>x. x) (\<lambda>_. True) sample_settings sample_events [])"
    using login_recognised[OF memory_laws, where cfg = sample_settings and sid = "''s''" and user = "''7''" and family = "''f''"
        and now = 1000 and t = 2000 and rp = "\<lambda>_. []" and csrf = "''c''" and s = "[]"]
      resolve_same[OF memory_other[where i = "''s''" and j = "''other''" and t = 2000 and u = 1100]]
    by (simp add: accepts_def run_ops_def sample_events_def settings_ok_def max_counter_def ascii_ok
        revoke_session_def delete_keys_def fail_as_def) (simp add: sample_settings_def)
qed (auto simp: sample_settings_def sample_events_def settings_ok_def event_ok_def memory_redis_def cell_at_def
       max_counter_def ascii_ok)


theorem login_recognised_witness:
  "fst (resolve_user_id memory_redis (\<lambda>_. []) Fine 2700 (Some ''s'')
     (snd (create_session memory_redis (\<lambda>_. []) sample_settings (\<lambda>_. Fine) 1000 ''s'' ''s'' ''c'' ''f'' []))) = Inr (Some ''s'')"
  by (rule login_recognised[OF memory_laws])
     (auto simp: sample_settings_def settings_ok_def max_counter_def ascii_ok)

end
