(* ===== verification/Au_Tokens.thy ===== *)
theory Au_Tokens
  imports Au_Redis Py_Json_Props
begin

text \<open>
  \<open>token_auth.py\<close> of the AI service, with the endpoints of the backend that issue and revoke the
  tokens it accepts (\<open>ai_account_tokens.py\<close>, \<open>ai_account_token_queries.py\<close>): the two services
  share the table of tokens and the Redis cache in front of it.  The digest \<open>sha\<close> (SHA-256,
  hexadecimal) and \<open>repr\<close>, the text of values \<open>str\<close> prints structurally, are arguments.  Each
  request brings the faults of its calls: \<open>f 0\<close> is the first one's, and so on.
\<close>

section \<open>Tokens and the table they are kept in\<close>

record account_token =                       \<comment> \<open>ResolvedAccountToken\<close>
  token_id :: string
  token_user :: string
  quota_limit :: int
  quota_window :: int

record token_row =                           \<comment> \<open>app.ai_account_token\<close>
  row_id :: string
  row_user :: int
  row_label :: "string option"
  row_prefix :: string
  row_hash :: string
  row_limit :: int
  row_window :: int
  row_status :: string
  row_created :: int
  row_revoked :: "int option"
  row_used :: "int option"

definition TOKEN_CACHE_KEY_PREFIX :: string where "TOKEN_CACHE_KEY_PREFIX = ''qa:ai:account_token''"
definition QUOTA_KEY_PREFIX :: string where "QUOTA_KEY_PREFIX = ''qa:ai:account_token_quota''"
definition TOKEN_CACHE_TTL_SECONDS :: int where "TOKEN_CACHE_TTL_SECONDS = 60"
definition TOKEN_NEGATIVE_CACHE_TTL_SECONDS :: int where "TOKEN_NEGATIVE_CACHE_TTL_SECONDS = 30"
definition negative_sentinel :: string where "negative_sentinel = CHR 0x00 # ''unknown''"

text \<open>The bearer token of a request, from its \<open>Authorization\<close> header.\<close>

definition bearer_token :: "string option \<Rightarrow> string option" where
  "bearer_token header = (case header of None \<Rightarrow> None
     | Some raw \<Rightarrow>
         if raw = [] \<or> take 7 (py_lower raw) \<noteq> ''bearer '' then None
         else let t = py_strip (drop 7 raw) in if t = [] then None else Some t)"

definition active_row :: "string \<Rightarrow> token_row list \<Rightarrow> token_row option" where
  "active_row h rows = find (\<lambda>r. row_hash r = h \<and> row_status r = ''active'') rows"

definition row_token :: "token_row \<Rightarrow> account_token" where
  "row_token r = \<lparr>token_id = row_id r, token_user = show_int (row_user r),
     quota_limit = row_limit r, quota_window = row_window r\<rparr>"

definition touch_row :: "string \<Rightarrow> int \<Rightarrow> token_row list \<Rightarrow> token_row list" where
  "touch_row i now rows = map (\<lambda>r. if row_id r = i then r\<lparr>row_used := Some now\<rparr> else r) rows"

text \<open>
  \<open>PostgresAccountTokenResolver.resolve\<close>: the select can fail, the update of the last use is
  attempted and its failure ignored, leaving the block commits and can fail again.
\<close>

definition postgres_resolve ::
  "(string \<Rightarrow> string) \<Rightarrow> bool \<Rightarrow> (nat \<Rightarrow> fault) \<Rightarrow> int \<Rightarrow> string \<Rightarrow> token_row list \<Rightarrow> account_token option res \<times> token_row list"
  where
  "postgres_resolve sha record_usage f now raw rows =
     (if f 0 \<noteq> Fine then (Inl (RuntimeError ''database''), rows)
      else case active_row (sha raw) rows of
        None \<Rightarrow> (if f 2 = Fine then Inr None else Inl (RuntimeError ''database''), rows)
      | Some r \<Rightarrow>
          let rows' = (if record_usage \<and> f 1 = Fine then touch_row (row_id r) now rows else rows) in
          if f 2 = Fine then (Inr (Some (row_token r)), rows')
          else (Inl (RuntimeError ''database''), if f 2 = Reply_lost then rows' else rows))"

section \<open>Issuing and revoking\<close>

definition TOKEN_VALUE_PREFIX :: string where "TOKEN_VALUE_PREFIX = ''qaai_''"
definition TOKEN_DISPLAY_PREFIX_LENGTH :: nat where "TOKEN_DISPLAY_PREFIX_LENGTH = 12"

text \<open>
  The unique columns of the table refuse a duplicate; the defaults of the quota come from the
  settings.  The secret and the identifier are drawn by the caller.
\<close>

definition issue_account_token ::
  "(string \<Rightarrow> string) \<Rightarrow> int \<Rightarrow> int \<Rightarrow> int \<Rightarrow> int \<Rightarrow> string option \<Rightarrow> string \<Rightarrow> string \<Rightarrow> token_row list \<Rightarrow>
     (string \<times> token_row) res \<times> token_row list" where
  "issue_account_token sha limit window now user label secret new_id rows =
     (let raw = TOKEN_VALUE_PREFIX @ secret;
          r = \<lparr>row_id = new_id, row_user = user, row_label = label,
               row_prefix = take TOKEN_DISPLAY_PREFIX_LENGTH raw, row_hash = sha raw,
               row_limit = limit, row_window = window, row_status = ''active'',
               row_created = now, row_revoked = None, row_used = None\<rparr> in
      if limit \<le> 0 \<or> window \<le> 0 \<or> (\<exists>x \<in> set rows. row_id x = new_id \<or> row_hash x = sha raw)
      then (Inl (RuntimeError ''integrity''), rows)
      else (Inr (raw, r), rows @ [r]))"

text \<open>\<open>list_account_tokens\<close>: the caller's own rows, newest first.\<close>

definition list_account_tokens :: "int \<Rightarrow> token_row list \<Rightarrow> token_row list" where
  "list_account_tokens user rows = rev (sort_key row_created (filter (\<lambda>r. row_user r = user) rows))"

definition revoke_account_token :: "int \<Rightarrow> int \<Rightarrow> string \<Rightarrow> token_row list \<Rightarrow> string option \<times> token_row list" where
  "revoke_account_token now user i rows =
     (let hit = (\<lambda>r. row_id r = i \<and> row_user r = user \<and> row_status r = ''active'') in
      (map_option row_hash (find hit rows),
       map (\<lambda>r. if hit r then r\<lparr>row_status := ''revoked'', row_revoked := Some now\<rparr> else r) rows))"

definition cache_key :: "string \<Rightarrow> string" where
  "cache_key h = TOKEN_CACHE_KEY_PREFIX @ '':'' @ h"

datatype revocation = Revoked | Not_found | Evict_failed

definition revoke_my_account_token ::
  "'s redis \<Rightarrow> (nat \<Rightarrow> fault) \<Rightarrow> int \<Rightarrow> int \<Rightarrow> string \<Rightarrow> 's \<times> token_row list \<Rightarrow> revocation \<times> 's \<times> token_row list" where
  "revoke_my_account_token R f now user i w =
     (case w of (s, rows) \<Rightarrow>
      (case revoke_account_token now user i rows of
         (None, rows') \<Rightarrow> (Not_found, s, rows')
       | (Some h, rows') \<Rightarrow>
           (case send (f 0) (\<lambda>s. ((), rd_del R now [cache_key h] s)) s of
              (Inl e, s') \<Rightarrow> (Evict_failed, s', rows')
            | (Inr x, s') \<Rightarrow> (Revoked, s', rows'))))"

section \<open>The cache\<close>

datatype cache_read = Miss | Negative | Hit account_token

definition default_style :: "(pyval \<Rightarrow> string) \<Rightarrow> json_style" where
  "default_style rp = \<lparr>js_ascii = True, js_item = '', '', js_key = '': '', js_sort = False, js_other = rp\<rparr>"

text \<open>\<open>payload[key]\<close>: a \<open>KeyError\<close> of a dictionary, a \<open>TypeError\<close> of anything else.\<close>

definition payload_at :: "pyval \<Rightarrow> string \<Rightarrow> pyval res" where
  "payload_at p k = (case p of
       PDict d \<Rightarrow> (case dget d k of Some v \<Rightarrow> Inr v | None \<Rightarrow> Inl (KeyError k))
     | _ \<Rightarrow> Inl (TypeError ''indices''))"

definition payload_token :: "(pyval \<Rightarrow> string) \<Rightarrow> pyval \<Rightarrow> account_token res" where
  "payload_token rp p =
     rbind (payload_at p ''token_id'') (\<lambda>i. rbind (payload_at p ''user_id'') (\<lambda>u.
     rbind (rbind (payload_at p ''quota_limit'') pv_int) (\<lambda>l.
     rbind (rbind (payload_at p ''quota_window_seconds'') pv_int) (\<lambda>w.
       Inr \<lparr>token_id = pv_str rp i, token_user = pv_str rp u, quota_limit = l, quota_window = w\<rparr>))))"

fun caught_decoding :: "py_error \<Rightarrow> bool" where
  "caught_decoding (TypeError m) = True"
| "caught_decoding (ValueError m) = True"
| "caught_decoding (KeyError k) = True"
| "caught_decoding _ = False"

definition decode_cached :: "(pyval \<Rightarrow> string) \<Rightarrow> string \<Rightarrow> cache_read res" where
  "decode_cached rp raw =
     (if raw = [] then Inr Miss
      else if raw = negative_sentinel then Inr Negative
      else case json_loads raw of None \<Rightarrow> Inr Miss
        | Some p \<Rightarrow>
            (case payload_token rp p of
               Inr tok \<Rightarrow> Inr (Hit tok)
             | Inl e \<Rightarrow> if caught_decoding e then Inr Miss else Inl e))"

definition read_cache ::
  "'s redis \<Rightarrow> (pyval \<Rightarrow> string) \<Rightarrow> fault \<Rightarrow> int \<Rightarrow> string \<Rightarrow> 's \<Rightarrow> cache_read res \<times> 's" where
  "read_cache R rp f t key s =
     (case send f (\<lambda>s. (rd_get R t key s, s)) s of
        (Inl e, s') \<Rightarrow> (Inr Miss, s')
      | (Inr None, s') \<Rightarrow> (Inr Miss, s')
      | (Inr (Some raw), s') \<Rightarrow> (decode_cached rp raw, s'))"

definition token_payload :: "account_token \<Rightarrow> pyval" where
  "token_payload tok = PDict [(''token_id'', PStr (token_id tok)), (''user_id'', PStr (token_user tok)),
     (''quota_limit'', PInt (quota_limit tok)), (''quota_window_seconds'', PInt (quota_window tok))]"

definition cached_text :: "(pyval \<Rightarrow> string) \<Rightarrow> account_token option \<Rightarrow> string" where
  "cached_text rp r = (case r of None \<Rightarrow> negative_sentinel
     | Some tok \<Rightarrow> json_text (default_style rp) (token_payload tok))"

definition cached_ttl :: "account_token option \<Rightarrow> int" where
  "cached_ttl r = (case r of None \<Rightarrow> TOKEN_NEGATIVE_CACHE_TTL_SECONDS | Some tok \<Rightarrow> TOKEN_CACHE_TTL_SECONDS)"

definition write_cache ::
  "'s redis \<Rightarrow> (pyval \<Rightarrow> string) \<Rightarrow> fault \<Rightarrow> int \<Rightarrow> string \<Rightarrow> account_token option \<Rightarrow> 's \<Rightarrow> 's" where
  "write_cache R rp f t key r s = snd (send f (\<lambda>s. ((), rd_set R t key (cached_text rp r) (cached_ttl r) s)) s)"

text \<open>
  \<open>CachedAccountTokenResolver.resolve\<close> in front of an inner resolver with a state of its own; the
  cache is read at \<open>t\<close> and written at \<open>t'\<close>.
\<close>

definition cached_resolve ::
  "'s redis \<Rightarrow> (string \<Rightarrow> string) \<Rightarrow> (pyval \<Rightarrow> string) \<Rightarrow> (string \<Rightarrow> 'd \<Rightarrow> account_token option res \<times> 'd) \<Rightarrow>
     fault \<Rightarrow> fault \<Rightarrow> int \<Rightarrow> int \<Rightarrow> string \<Rightarrow> 's \<times> 'd \<Rightarrow> account_token option res \<times> 's \<times> 'd" where
  "cached_resolve R sha rp inner f f' t t' raw w =
     (case w of (s, d) \<Rightarrow>
      (case read_cache R rp f t (cache_key (sha raw)) s of
         (Inl e, s') \<Rightarrow> (Inl e, s', d)
       | (Inr Negative, s') \<Rightarrow> (Inr None, s', d)
       | (Inr (Hit tok), s') \<Rightarrow> (Inr (Some tok), s', d)
       | (Inr Miss, s') \<Rightarrow>
           (case inner raw d of
              (Inl e, d') \<Rightarrow> (Inl e, s', d')
            | (Inr r, d') \<Rightarrow> (Inr r, write_cache R rp f' t' (cache_key (sha raw)) r s', d'))))"

section \<open>The quota\<close>

definition quota_key :: "string \<Rightarrow> account_token \<Rightarrow> int \<Rightarrow> string" where
  "quota_key prefix tok bucket = prefix @ '':'' @ token_id tok @ '':'' @ show_int bucket"

definition token_window :: "account_token \<Rightarrow> int" where
  "token_window tok = max (quota_window tok) 1"

definition reservation_key :: "(string \<Rightarrow> string) \<Rightarrow> string \<Rightarrow> account_token \<Rightarrow> string \<Rightarrow> string" where
  "reservation_key sha prefix tok key =
     prefix @ '':admission:'' @ sha (token_id tok @ [CHR 0x00] @ token_user tok @ [CHR 0x00] @ key)"

text \<open>The Lua script: its commands run on the server without interruption.\<close>

definition admission_script ::
  "'s redis \<Rightarrow> int \<Rightarrow> string \<Rightarrow> string \<Rightarrow> int \<Rightarrow> int \<Rightarrow> 's \<Rightarrow> (int \<times> int) res \<times> 's" where
  "admission_script R t qk rk window limit s =
     (if rd_get R t rk s \<noteq> None then (Inr (0, 0), s)
      else case rd_incr R t qk s of
        (Inl e, s1) \<Rightarrow> (Inl e, s1)
      | (Inr used, s1) \<Rightarrow>
          let s2 = (if used = 1 then snd (rd_expire R t qk window s1) else s1) in
          if used > limit then (Inr (2, used), s2)
          else (Inr (1, used), if rd_get R t rk s2 = None then rd_set R t rk ''1'' window s2 else s2))"

definition consume_once ::
  "'s redis \<Rightarrow> (string \<Rightarrow> string) \<Rightarrow> fault \<Rightarrow> string \<Rightarrow> int \<Rightarrow> account_token \<Rightarrow> string \<Rightarrow> 's \<Rightarrow> int res \<times> 's" where
  "consume_once R sha f prefix t tok key s =
     (case send_res f (admission_script R t (quota_key prefix tok (t div token_window tok))
              (reservation_key sha prefix tok key) (token_window tok) (quota_limit tok)) s of
        (Inl e, s') \<Rightarrow> (Inl e, s')
      | (Inr (decision, used), s') \<Rightarrow> (Inr (if decision = 0 then 0 else used), s'))"

definition count_request ::
  "'s redis \<Rightarrow> fault \<Rightarrow> fault \<Rightarrow> string \<Rightarrow> int \<Rightarrow> account_token \<Rightarrow> 's \<Rightarrow> int res \<times> 's" where
  "count_request R f f' prefix t tok s =
     (let qk = quota_key prefix tok (t div token_window tok) in
      case send_res f (rd_incr R t qk) s of
        (Inl e, s1) \<Rightarrow> (Inl e, s1)
      | (Inr used, s1) \<Rightarrow>
          if used = 1 then
            (case send f' (rd_expire R t qk (token_window tok)) s1 of
               (Inl e, s2) \<Rightarrow> (Inl e, s2) | (Inr x, s2) \<Rightarrow> (Inr used, s2))
          else (Inr used, s1))"

definition quota_used ::
  "'s redis \<Rightarrow> (string \<Rightarrow> string) \<Rightarrow> (nat \<Rightarrow> fault) \<Rightarrow> string \<Rightarrow> int \<Rightarrow> account_token \<Rightarrow> string option \<Rightarrow> 's \<Rightarrow>
     int res \<times> 's" where
  "quota_used R sha f prefix t tok key s =
     (case key of
        Some k \<Rightarrow> if k \<noteq> [] then consume_once R sha (f 0) prefix t tok k s
                  else count_request R (f 0) (f 1) prefix t tok s
      | None \<Rightarrow> count_request R (f 0) (f 1) prefix t tok s)"

datatype auth_failure =
    Unauthorized
  | Quota_exceeded int int       \<comment> \<open>429: the limit and the window reported\<close>
  | Failed py_error              \<comment> \<open>an exception that escapes: a server error\<close>

text \<open>\<open>check_and_consume\<close>: an unknown counter lets the request through.\<close>

definition check_and_consume ::
  "'s redis \<Rightarrow> (string \<Rightarrow> string) \<Rightarrow> (nat \<Rightarrow> fault) \<Rightarrow> string \<Rightarrow> int \<Rightarrow> account_token \<Rightarrow> string option \<Rightarrow> 's \<Rightarrow>
     (auth_failure + unit) \<times> 's" where
  "check_and_consume R sha f prefix t tok key s =
     (case quota_used R sha f prefix t tok key s of
        (Inl e, s') \<Rightarrow> (Inr (), s')
      | (Inr used, s') \<Rightarrow>
          if used > quota_limit tok then (Inl (Quota_exceeded (quota_limit tok) (token_window tok)), s')
          else (Inr (), s'))"

section \<open>Who is calling\<close>

text \<open>
  The three dependencies of the routes over a state \<open>'w\<close> of the services: \<open>resolver\<close> is the token
  resolver, if one is configured, \<open>session\<close> the cookie check, \<open>quota\<close> the quota, if one is
  configured.
\<close>

definition resolve_token ::
  "(string \<Rightarrow> 'w \<Rightarrow> account_token option res \<times> 'w) option \<Rightarrow> string option \<Rightarrow> 'w \<Rightarrow>
     (auth_failure + account_token option) \<times> 'w" where
  "resolve_token resolver header w =
     (case bearer_token header of None \<Rightarrow> (Inr None, w)
      | Some raw \<Rightarrow>
          (case resolver of None \<Rightarrow> (Inl Unauthorized, w)
           | Some resolve \<Rightarrow>
               (case resolve raw w of
                  (Inl e, w') \<Rightarrow> (Inl (Failed e), w')
                | (Inr None, w') \<Rightarrow> (Inl Unauthorized, w')
                | (Inr (Some tok), w') \<Rightarrow> (Inr (Some tok), w'))))"

definition require_user_identity ::
  "(string \<Rightarrow> 'w \<Rightarrow> account_token option res \<times> 'w) option \<Rightarrow> ('w \<Rightarrow> (auth_failure + string) \<times> 'w) \<Rightarrow>
     string option \<Rightarrow> 'w \<Rightarrow> (auth_failure + string) \<times> 'w" where
  "require_user_identity resolver session header w =
     (case resolve_token resolver header w of
        (Inl e, w') \<Rightarrow> (Inl e, w')
      | (Inr (Some tok), w') \<Rightarrow> (Inr (token_user tok), w')
      | (Inr None, w') \<Rightarrow> session w')"

definition require_identity_within_quota ::
  "(string \<Rightarrow> 'w \<Rightarrow> account_token option res \<times> 'w) option \<Rightarrow> ('w \<Rightarrow> (auth_failure + string) \<times> 'w) \<Rightarrow>
     (account_token \<Rightarrow> 'w \<Rightarrow> (auth_failure + unit) \<times> 'w) option \<Rightarrow>
     string option \<Rightarrow> 'w \<Rightarrow> (auth_failure + string) \<times> 'w" where
  "require_identity_within_quota resolver session quota header w =
     (case resolve_token resolver header w of
        (Inl e, w') \<Rightarrow> (Inl e, w')
      | (Inr None, w') \<Rightarrow> require_user_identity resolver session header w'
      | (Inr (Some tok), w') \<Rightarrow>
          (case quota of None \<Rightarrow> (Inr (token_user tok), w')
           | Some check \<Rightarrow>
               (case check tok w' of (Inl e, w'') \<Rightarrow> (Inl e, w'') | (Inr x, w'') \<Rightarrow> (Inr (token_user tok), w''))))"

text \<open>
  The protected analysis routes: the identity is read first, leaving the token with the request,
  and the quota is charged after the job is admitted.
\<close>

definition read_only_identity ::
  "(string \<Rightarrow> 'w \<Rightarrow> account_token option res \<times> 'w) option \<Rightarrow> ('w \<Rightarrow> (auth_failure + string) \<times> 'w) \<Rightarrow>
     string option \<Rightarrow> 'w \<Rightarrow> (auth_failure + string \<times> account_token option) \<times> 'w" where
  "read_only_identity resolver session header w =
     (case resolve_token resolver header w of
        (Inl e, w') \<Rightarrow> (Inl e, w')
      | (Inr (Some tok), w') \<Rightarrow> (Inr (token_user tok, Some tok), w')
      | (Inr None, w') \<Rightarrow>
          (case session w' of (Inl e, w'') \<Rightarrow> (Inl e, w'') | (Inr u, w'') \<Rightarrow> (Inr (u, None), w'')))"

definition consume_quota_after_admission ::
  "(account_token \<Rightarrow> string option \<Rightarrow> 'w \<Rightarrow> (auth_failure + unit) \<times> 'w) option \<Rightarrow>
     account_token option \<Rightarrow> string option \<Rightarrow> 'w \<Rightarrow> (auth_failure + unit) \<times> 'w" where
  "consume_quota_after_admission quota stashed key w =
     (case stashed of None \<Rightarrow> (Inr (), w)
      | Some tok \<Rightarrow> (case quota of None \<Rightarrow> (Inr (), w) | Some check \<Rightarrow> check tok key w))"

end
