(* ===== verification/Au_Token_Props.thy ===== *)
theory Au_Token_Props
  imports Au_Tokens
begin

text \<open>
  The resolver of tokens as an interface: an answer needs evidence.  The database resolver
  provides it from an active row; the cache in front of any resolver adds the documents it holds.
  Then the cached resolver in steps, one per command, so that requests, revocations and evictions
  interleave.
\<close>

section \<open>The interface of a token resolver\<close>

locale token_resolver =
  fixes resolve :: "string \<Rightarrow> 'w \<Rightarrow> account_token option res \<times> 'w"
    and evidence :: "string \<Rightarrow> 'w \<Rightarrow> account_token \<Rightarrow> bool"
  assumes answer_has_evidence: "fst (resolve raw w) = Inr (Some tok) \<Longrightarrow> evidence raw w tok"
begin

lemma resolved_token:
  assumes "resolve_token (Some resolve) header w = (Inr (Some tok), w')"
  obtains raw where "bearer_token header = Some raw" "evidence raw w tok"
proof -
  from assms obtain raw where raw: "bearer_token header = Some raw" "fst (resolve raw w) = Inr (Some tok)"
    by (cases "resolve (the (bearer_token header)) w")
       (auto simp: resolve_token_def split: option.splits sum.splits)
  with answer_has_evidence that show thesis by blast
qed

lemma no_evidence_no_identity:
  assumes "bearer_token header = Some raw" "\<And>tok. \<not> evidence raw w tok"
  shows "\<exists>e. fst (require_user_identity (Some resolve) session header w) = Inl e"
proof -
  obtain r w' where r: "resolve raw w = (r, w')" by (cases "resolve raw w")
  with answer_has_evidence[of raw w] assms(2) have "r \<noteq> Inr (Some tok)" for tok by auto
  with r assms(1) show ?thesis
    by (cases r) (auto simp: require_user_identity_def resolve_token_def split: option.splits)
qed

lemma identity_has_evidence:
  assumes "bearer_token header = Some raw" "fst (require_user_identity (Some resolve) session header w) = Inr u"
  shows "\<exists>tok. evidence raw w tok \<and> token_user tok = u"
proof -
  obtain r w' where r: "resolve raw w = (r, w')" by (cases "resolve raw w")
  with assms answer_has_evidence[of raw w] show ?thesis
    by (auto simp: require_user_identity_def resolve_token_def split: sum.splits option.splits)
qed

end

definition row_evidence :: "(string \<Rightarrow> string) \<Rightarrow> string \<Rightarrow> token_row list \<Rightarrow> account_token \<Rightarrow> bool" where
  "row_evidence sha raw rows tok =
     (\<exists>r \<in> set rows. row_hash r = sha raw \<and> row_status r = ''active'' \<and> tok = row_token r)"

lemma active_row_Some: "active_row h rows = Some r \<Longrightarrow> r \<in> set rows \<and> row_hash r = h \<and> row_status r = ''active''"
  by (auto simp: active_row_def find_Some_iff)

interpretation postgres: token_resolver "postgres_resolve sha use f now" "row_evidence sha" for sha use f now
  by unfold_locales
     (auto simp: postgres_resolve_def row_evidence_def Let_def split: if_splits option.splits dest: active_row_Some)

text \<open>A cache in front of a resolver is a resolver.\<close>

locale caching = inner: token_resolver resolve evidence
  for resolve :: "string \<Rightarrow> 'd \<Rightarrow> account_token option res \<times> 'd" and evidence +
  fixes R :: "'s redis" and sha :: "string \<Rightarrow> string" and rp :: "pyval \<Rightarrow> string"
    and f f' :: fault and t t' :: int
begin

definition cached_evidence :: "string \<Rightarrow> 's \<times> 'd \<Rightarrow> account_token \<Rightarrow> bool" where
  "cached_evidence raw w tok =
     (evidence raw (snd w) tok \<or>
      (\<exists>doc. rd_get R t (cache_key (sha raw)) (fst w) = Some doc \<and> decode_cached rp doc = Inr (Hit tok)))"

lemma read_cache_hit:
  "fst (read_cache R rp f t key s) = Inr (Hit tok) \<Longrightarrow>
     \<exists>doc. rd_get R t key s = Some doc \<and> decode_cached rp doc = Inr (Hit tok)"
  by (cases f; cases "rd_get R t key s") (auto simp: read_cache_def send_def)

lemma cached_answer:
  assumes "fst (cached_resolve R sha rp resolve f f' t t' raw w) = Inr (Some tok)"
  shows "cached_evidence raw w tok"
proof -
  obtain s d where w: "w = (s, d)" by (cases w)
  obtain c s' where c: "read_cache R rp f t (cache_key (sha raw)) s = (c, s')" by fastforce
  obtain r d' where r: "resolve raw d = (r, d')" by fastforce
  from assms c r have "c = Inr (Hit tok) \<or> r = Inr (Some tok)"
    by (auto simp: cached_resolve_def w split: sum.splits cache_read.splits)
  with c r read_cache_hit[of "cache_key (sha raw)" s tok] inner.answer_has_evidence[of raw d tok] show ?thesis
    by (auto simp: cached_evidence_def w)
qed

end

sublocale caching \<subseteq> cached: token_resolver "cached_resolve R sha rp resolve f f' t t'" cached_evidence
  by unfold_locales (rule cached_answer)

interpretation cached_postgres: caching "postgres_resolve sha use g now" "row_evidence sha" R sha rp f f' t t'
  for R :: "'s redis" and sha rp use g now f f' t t'
  by unfold_locales

section \<open>The cached resolver in steps\<close>

datatype phase = Idle | Asked string | Fetched string "account_token option"

datatype token_action =
    Lookup nat string            \<comment> \<open>read the cache for a raw token\<close>
  | Fetch nat                    \<comment> \<open>ask the database after a miss\<close>
  | Store nat                    \<comment> \<open>write the answer to the cache and return it\<close>
  | Revoke_row int string        \<comment> \<open>the user and the identifier of the token\<close>
  | Evict string                 \<comment> \<open>the digest a revocation returned\<close>
  | Issue int "string option" string string

record 's token_system =
  cells :: 's
  table :: "token_row list"
  phases :: "nat \<Rightarrow> phase"
  answers :: "(int \<times> string \<times> account_token) list"      \<comment> \<open>accepted requests\<close>

type_synonym token_event = "int \<times> (nat \<Rightarrow> fault) \<times> token_action"

definition set_phase :: "nat \<Rightarrow> phase \<Rightarrow> 's token_system \<Rightarrow> 's token_system" where
  "set_phase p ph w = w\<lparr>phases := (phases w)(p := ph)\<rparr>"

definition answer :: "int \<Rightarrow> string \<Rightarrow> account_token option \<Rightarrow> 's token_system \<Rightarrow> 's token_system" where
  "answer t raw r w = (case r of None \<Rightarrow> w | Some tok \<Rightarrow> w\<lparr>answers := answers w @ [(t, raw, tok)]\<rparr>)"

definition lookup_step ::
  "'s redis \<Rightarrow> (string \<Rightarrow> string) \<Rightarrow> (pyval \<Rightarrow> string) \<Rightarrow> int \<Rightarrow> fault \<Rightarrow> nat \<Rightarrow> string \<Rightarrow> 's token_system \<Rightarrow> 's token_system" where
  "lookup_step R sha rp t f p raw w =
     (if phases w p \<noteq> Idle then w
      else case read_cache R rp f t (cache_key (sha raw)) (cells w) of
        (Inr (Hit tok), s) \<Rightarrow> answer t raw (Some tok) (w\<lparr>cells := s\<rparr>)
      | (Inr Miss, s) \<Rightarrow> set_phase p (Asked raw) (w\<lparr>cells := s\<rparr>)
      | (_, s) \<Rightarrow> w\<lparr>cells := s\<rparr>)"

definition fetch_step ::
  "(string \<Rightarrow> string) \<Rightarrow> int \<Rightarrow> (nat \<Rightarrow> fault) \<Rightarrow> nat \<Rightarrow> 's token_system \<Rightarrow> 's token_system" where
  "fetch_step sha t f p w = (case phases w p of
       Asked raw \<Rightarrow>
         (case postgres_resolve sha True f t raw (table w) of
            (Inl e, rows) \<Rightarrow> set_phase p Idle (w\<lparr>table := rows\<rparr>)
          | (Inr r, rows) \<Rightarrow> set_phase p (Fetched raw r) (w\<lparr>table := rows\<rparr>))
     | _ \<Rightarrow> w)"

definition store_step ::
  "'s redis \<Rightarrow> (string \<Rightarrow> string) \<Rightarrow> (pyval \<Rightarrow> string) \<Rightarrow> int \<Rightarrow> fault \<Rightarrow> nat \<Rightarrow> 's token_system \<Rightarrow> 's token_system" where
  "store_step R sha rp t f p w = (case phases w p of
       Fetched raw r \<Rightarrow>
         answer t raw r (set_phase p Idle (w\<lparr>cells := write_cache R rp f t (cache_key (sha raw)) r (cells w)\<rparr>))
     | _ \<Rightarrow> w)"

fun token_step ::
  "'s redis \<Rightarrow> (string \<Rightarrow> string) \<Rightarrow> (pyval \<Rightarrow> string) \<Rightarrow> int \<Rightarrow> int \<Rightarrow> token_event \<Rightarrow> 's token_system \<Rightarrow> 's token_system" where
  "token_step R sha rp lmt win (t, f, Lookup p raw) w = lookup_step R sha rp t (f 0) p raw w"
| "token_step R sha rp lmt win (t, f, Fetch p) w = fetch_step sha t f p w"
| "token_step R sha rp lmt win (t, f, Store p) w = store_step R sha rp t (f 0) p w"
| "token_step R sha rp lmt win (t, f, Revoke_row user i) w =
     w\<lparr>table := snd (revoke_account_token t user i (table w))\<rparr>"
| "token_step R sha rp lmt win (t, f, Evict h) w =
     w\<lparr>cells := snd (send (f 0) (\<lambda>s. ((), rd_del R t [cache_key h] s)) (cells w))\<rparr>"
| "token_step R sha rp lmt win (t, f, Issue user label secret i) w =
     w\<lparr>table := snd (issue_account_token sha lmt win t user label secret i (table w))\<rparr>"

definition run_tokens ::
  "'s redis \<Rightarrow> (string \<Rightarrow> string) \<Rightarrow> (pyval \<Rightarrow> string) \<Rightarrow> int \<Rightarrow> int \<Rightarrow> token_event list \<Rightarrow> 's token_system \<Rightarrow> 's token_system" where
  "run_tokens R sha rp lmt win es w = fold (token_step R sha rp lmt win) es w"

text \<open>
  The steps are those of the resolver: a request of an idle process that nothing interrupts
  leaves the cache, the table and the answer \<open>cached_resolve\<close> computes.
\<close>

lemma steps_resolve:
  assumes "phases w p = Idle" and "fst (read_cache R rp f t (cache_key (sha raw)) (cells w)) = Inr Miss"
    and r: "cached_resolve R sha rp (postgres_resolve sha True g t1) f f' t t' raw (cells w, table w) = (Inr r, s, rows)"
  shows "run_tokens R sha rp lmt win [(t, (\<lambda>_. f), Lookup p raw), (t1, g, Fetch p), (t', (\<lambda>_. f'), Store p)] w
           = answer t' raw r (w\<lparr>cells := s, table := rows\<rparr>)"
proof -
  obtain s1 where s1: "read_cache R rp f t (cache_key (sha raw)) (cells w) = (Inr Miss, s1)"
    using assms(2) by (cases "read_cache R rp f t (cache_key (sha raw)) (cells w)") auto
  from r s1 obtain rows' where "postgres_resolve sha True g t1 raw (table w) = (Inr r, rows)"
    "s = write_cache R rp f' t' (cache_key (sha raw)) r s1"
    by (auto simp: cached_resolve_def split: prod.splits sum.splits)
  moreover have "w\<lparr>table := rows, cells := c, phases := (phases w)(p := Idle)\<rparr> = w\<lparr>cells := c, table := rows\<rparr>" for c
    using assms(1) by (cases w) (simp add: fun_upd_idem)
  ultimately show ?thesis using s1 assms(1)
    by (simp add: run_tokens_def lookup_step_def fetch_step_def store_step_def set_phase_def)
qed

section \<open>After a revocation\<close>

text \<open>
  The digest \<open>h\<close> belongs to a revoked row.  \<open>late\<close> are the processes that had fetched the token
  while it was active and have not answered yet; \<open>stored\<close> are the times at which they have.
\<close>

definition late :: "(string \<Rightarrow> string) \<Rightarrow> string \<Rightarrow> 's token_system \<Rightarrow> nat set" where
  "late sha h w = {p. \<exists>raw tok. phases w p = Fetched raw (Some tok) \<and> sha raw = h}"

fun stored :: "nat set \<Rightarrow> token_event \<Rightarrow> bool" where
  "stored L (t, f, Store p) = (p \<in> L)"
| "stored L _ = False"

definition revoked_in :: "string \<Rightarrow> token_row list \<Rightarrow> bool" where
  "revoked_in h rows = (h \<in> row_hash ` set rows \<and> (\<forall>r \<in> set rows. row_hash r = h \<longrightarrow> row_status r \<noteq> ''active''))"

definition fresh_enough :: "nat set \<Rightarrow> token_event list \<Rightarrow> int \<Rightarrow> bool" where
  "fresh_enough L es u = (\<exists>e \<in> set es. stored L e \<and> fst e \<le> u \<and> u < fst e + TOKEN_CACHE_TTL_SECONDS)"

definition stale_inv ::
  "'s redis \<Rightarrow> (string \<Rightarrow> string) \<Rightarrow> (pyval \<Rightarrow> string) \<Rightarrow> string \<Rightarrow> nat set \<Rightarrow> (int \<times> string \<times> account_token) list \<Rightarrow>
     token_event list \<Rightarrow> int \<Rightarrow> 's token_system \<Rightarrow> bool" where
  "stale_inv R sha rp h L old es now w =
     (revoked_in h (table w) \<and> late sha h w \<subseteq> L
      \<and> (\<forall>u doc tok. now \<le> u \<longrightarrow> rd_get R u (cache_key h) (cells w) = Some doc \<longrightarrow> decode_cached rp doc = Inr (Hit tok) \<longrightarrow>
           fresh_enough L es u)
      \<and> (\<exists>new. answers w = old @ new \<and> (\<forall>(t, raw, tok) \<in> set new. sha raw = h \<longrightarrow> fresh_enough L es t)))"

lemma revoked_touch: "revoked_in h rows \<Longrightarrow> revoked_in h (touch_row i t rows)"
proof -
  have "map row_hash (touch_row i t rows) = map row_hash rows" by (simp add: touch_row_def)
  then have "row_hash ` set (touch_row i t rows) = row_hash ` set rows" by (metis list.set_map)
  then show "revoked_in h rows \<Longrightarrow> ?thesis" by (auto simp: revoked_in_def touch_row_def)
qed

lemma revoked_fetch:
  assumes "revoked_in h rows"
  shows "revoked_in h (snd (postgres_resolve sha use f t raw rows))"
    and "sha raw = h \<Longrightarrow> fst (postgres_resolve sha use f t raw rows) \<noteq> Inr (Some tok)"
proof -
  show "revoked_in h (snd (postgres_resolve sha use f t raw rows))"
    using assms revoked_touch[OF assms]
    by (auto simp: postgres_resolve_def Let_def split: option.splits)
  assume "sha raw = h"
  with assms have "active_row (sha raw) rows = None"
    by (auto simp: active_row_def find_None_iff revoked_in_def)
  then show "fst (postgres_resolve sha use f t raw rows) \<noteq> Inr (Some tok)"
    by (simp add: postgres_resolve_def)
qed

lemma revoked_revoke: "revoked_in h rows \<Longrightarrow> revoked_in h (snd (revoke_account_token t u i rows))"
proof -
  have "map row_hash (snd (revoke_account_token t u i rows)) = map row_hash rows"
    by (simp add: revoke_account_token_def Let_def)
  then have "row_hash ` set (snd (revoke_account_token t u i rows)) = row_hash ` set rows" by (metis list.set_map)
  then show "revoked_in h rows \<Longrightarrow> ?thesis" by (auto simp: revoked_in_def revoke_account_token_def Let_def)
qed

lemma revoked_issue: "revoked_in h rows \<Longrightarrow> revoked_in h (snd (issue_account_token sha l m t u lb secret i rows))"
  by (auto simp: revoked_in_def issue_account_token_def Let_def)

lemma fresh_mono: "fresh_enough L es u \<Longrightarrow> set es \<subseteq> set es' \<Longrightarrow> fresh_enough L es' u"
  by (auto simp: fresh_enough_def)

lemma cache_key_eq [simp]: "cache_key a = cache_key b \<longleftrightarrow> a = b"
  by (simp add: cache_key_def)

lemma negative_not_hit: "decode_cached rp (cached_text rp None) \<noteq> Inr (Hit tok)"
  by (simp add: decode_cached_def cached_text_def negative_sentinel_def)

lemma get_write_cache:
  assumes "redis_laws R" "t \<le> u" "rd_get R u key (write_cache R rp f t key' r s) = Some doc"
  shows "rd_get R u key s = Some doc \<or> (key = key' \<and> doc = cached_text rp r \<and> u < t + cached_ttl r)"
proof -
  have "0 < cached_ttl r"
    by (cases r) (simp_all add: cached_ttl_def TOKEN_CACHE_TTL_SECONDS_def TOKEN_NEGATIVE_CACHE_TTL_SECONDS_def)
  with assms show ?thesis
    by (cases f) (auto simp: write_cache_def send_def get_set split: if_splits)
qed

end
