(* ===== verification/Au_Token_Properties.thy ===== *)
theory Au_Token_Properties
  imports Au_Token_Props
begin

text \<open>
  What the account tokens promise: a presented token decides alone who is calling, the cache gives
  back what was put in, a revocation is final but for answers already on their way, and the quota
  bounds the requests of every window.
\<close>

section \<open>Revocation\<close>

lemma stale_mono:
  assumes "stale_inv R sha rp h L old es now w" "now \<le> now'" "set es \<subseteq> set es'"
  shows "stale_inv R sha rp h L old es' now' w"
proof -
  have m: "fresh_enough L es' u" if "fresh_enough L es u" for u using fresh_mono[OF that assms(3)] .
  from assms(1) obtain new where "answers w = old @ new"
    "\<forall>(t, raw, tok) \<in> set new. sha raw = h \<longrightarrow> fresh_enough L es t" unfolding stale_inv_def by blast
  then have "\<exists>new. answers w = old @ new \<and> (\<forall>(t, raw, tok) \<in> set new. sha raw = h \<longrightarrow> fresh_enough L es' t)"
    using m by (intro exI[of _ new]) auto
  then show ?thesis using assms(1,2) m unfolding stale_inv_def by (meson order_trans)
qed

lemma stale_lookup:
  assumes "stale_inv R sha rp h L old es t w"
  shows "stale_inv R sha rp h L old es t (lookup_step R sha rp t f p raw w)"
proof (cases "phases w p = Idle")
  case True
  obtain c s where c: "read_cache R rp f t (cache_key (sha raw)) (cells w) = (c, s)" by fastforce
  then have s: "s = cells w" by (cases f) (auto simp: read_cache_def send_def split: option.splits)
  have inv: "revoked_in h (table w)" "late sha h w \<subseteq> L"
    "\<And>u doc tok. t \<le> u \<Longrightarrow> rd_get R u (cache_key h) (cells w) = Some doc \<Longrightarrow> decode_cached rp doc = Inr (Hit tok) \<Longrightarrow>
       fresh_enough L es u"
    using assms unfolding stale_inv_def by blast+
  from assms obtain new where new: "answers w = old @ new"
    "\<forall>(t, raw, tok) \<in> set new. sha raw = h \<longrightarrow> fresh_enough L es t" unfolding stale_inv_def by blast
  have late: "late sha h (set_phase p (Asked raw) w) \<subseteq> L"
    using inv(2) by (auto simp: late_def set_phase_def)
  have hit: "fresh_enough L es t" if "c = Inr (Hit tok)" "sha raw = h" for tok
  proof -
    from c that obtain doc where "rd_get R t (cache_key h) (cells w) = Some doc" "decode_cached rp doc = Inr (Hit tok)"
      by (cases f; cases "rd_get R t (cache_key h) (cells w)") (auto simp: read_cache_def send_def)
    with inv(3) show ?thesis by blast
  qed
  show ?thesis
  proof (cases c)
    case (Inr a)
    show ?thesis
    proof (cases a)
      case Miss
      with True c s Inr inv late new show ?thesis
        by (simp add: lookup_step_def stale_inv_def) (auto simp: set_phase_def)
    next
      case Negative
      with True c s Inr assms show ?thesis by (simp add: lookup_step_def)
    next
      case (Hit tok)
      have "\<forall>(t, raw, tok) \<in> set (new @ [(t, raw, tok)]). sha raw = h \<longrightarrow> fresh_enough L es t"
        using new(2) hit[of tok] Inr Hit by auto
      with new(1) have "\<exists>new'. (old @ new) @ [(t, raw, tok)] = old @ new'
          \<and> (\<forall>(t, raw, tok) \<in> set new'. sha raw = h \<longrightarrow> fresh_enough L es t)"
        by (intro exI[of _ "new @ [(t, raw, tok)]"]) auto
      with True c s Inr Hit inv new(1) show ?thesis
        by (simp add: lookup_step_def stale_inv_def answer_def) (auto simp: late_def)
    qed
  next
    case (Inl e)
    with True c s assms show ?thesis by (simp add: lookup_step_def)
  qed
qed (simp add: lookup_step_def assms)

lemma stale_fetch:
  assumes "stale_inv R sha rp h L old es t w"
  shows "stale_inv R sha rp h L old es t (fetch_step sha t f p w)"
proof (cases "phases w p")
  case (Asked raw)
  obtain r rows where r: "postgres_resolve sha True f t raw (table w) = (r, rows)" by fastforce
  have rev: "revoked_in h (table w)" "late sha h w \<subseteq> L" using assms unfolding stale_inv_def by blast+
  from revoked_fetch[OF rev(1), where sha = sha and use = True and f = f and t = t and raw = raw] r
  have rows: "revoked_in h rows" and no: "\<And>tok. sha raw = h \<Longrightarrow> r \<noteq> Inr (Some tok)" by auto
  have "late sha h (set_phase p (Fetched raw x) w) \<subseteq> L" if "r = Inr x" for x
    using rev(2) no that by (auto simp: late_def set_phase_def split: if_splits)
  moreover have "late sha h (set_phase p Idle w) \<subseteq> L"
    using rev(2) by (auto simp: late_def set_phase_def)
  ultimately show ?thesis using Asked r rows assms
    by (cases r) (simp_all add: fetch_step_def stale_inv_def set_phase_def late_def)
qed (simp_all add: fetch_step_def assms)

lemma stale_store:
  assumes "redis_laws R" "stale_inv R sha rp h L old es t w" "(t, g, Store p) \<in> set es"
  shows "stale_inv R sha rp h L old es t (store_step R sha rp t f p w)"
proof (cases "phases w p")
  case (Fetched raw r)
  have inv: "revoked_in h (table w)" "late sha h w \<subseteq> L"
    "\<And>u doc tok. t \<le> u \<Longrightarrow> rd_get R u (cache_key h) (cells w) = Some doc \<Longrightarrow> decode_cached rp doc = Inr (Hit tok) \<Longrightarrow>
       fresh_enough L es u"
    using assms(2) unfolding stale_inv_def by blast+
  from assms(2) obtain new where new: "answers w = old @ new"
    "\<forall>(t, raw, tok) \<in> set new. sha raw = h \<longrightarrow> fresh_enough L es t" unfolding stale_inv_def by blast
  let ?s = "write_cache R rp f t (cache_key (sha raw)) r (cells w)"
  let ?w = "set_phase p Idle (w\<lparr>cells := ?s\<rparr>)"
  have L: "p \<in> L" if "sha raw = h" "r = Some tok" for tok
    using inv(2) that Fetched by (auto simp: late_def)
  have fr: "fresh_enough L es u" if "p \<in> L" "t \<le> u" "u < t + 60" for u
    using assms(3) that by (force simp: fresh_enough_def TOKEN_CACHE_TTL_SECONDS_def)
  have cell: "fresh_enough L es u"
    if u: "t \<le> u" "rd_get R u (cache_key h) ?s = Some doc" "decode_cached rp doc = Inr (Hit tok)" for u doc tok
  proof -
    from get_write_cache[OF assms(1) u(1,2)] consider "rd_get R u (cache_key h) (cells w) = Some doc"
      | "h = sha raw" "doc = cached_text rp r" "u < t + cached_ttl r" by auto
    then show ?thesis
    proof cases
      case 2
      with u(3) negative_not_hit obtain tok' where "r = Some tok'" by (cases r) auto
      with 2 u(1) L fr show ?thesis by (simp add: cached_ttl_def TOKEN_CACHE_TTL_SECONDS_def)
    qed (use inv(3) u in blast)
  qed
  have late: "late sha h ?w \<subseteq> L" using inv(2) by (auto simp: late_def set_phase_def)
  have w: "stale_inv R sha rp h L old es t ?w"
    using inv(1) late cell new unfolding stale_inv_def by (simp add: set_phase_def)
  show ?thesis
  proof (cases r)
    case None
    with Fetched w show ?thesis by (simp add: store_step_def answer_def)
  next
    case (Some tok)
    have "\<forall>(t, raw, tok) \<in> set (new @ [(t, raw, tok)]). sha raw = h \<longrightarrow> fresh_enough L es t"
      using new(2) L[OF _ Some] fr[of t] by auto
    then have "\<exists>new'. answers (answer t raw r ?w) = old @ new'
        \<and> (\<forall>(t, raw, tok) \<in> set new'. sha raw = h \<longrightarrow> fresh_enough L es t)"
      by (intro exI[of _ "new @ [(t, raw, tok)]"]) (simp add: answer_def Some new(1) set_phase_def)
    with w Fetched show ?thesis by (simp add: store_step_def stale_inv_def answer_def Some late_def)
  qed
qed (simp_all add: store_step_def assms(2))

lemma stale_step:
  assumes "redis_laws R" "stale_inv R sha rp h L old es t w" "(t, f, a) \<in> set es"
  shows "stale_inv R sha rp h L old es t (token_step R sha rp lmt win (t, f, a) w)"
proof (cases a)
  case (Evict h')
  have "rd_get R u k (snd (send (f 0) (\<lambda>s. ((), rd_del R t [cache_key h'] s)) (cells w))) = Some doc \<Longrightarrow>
      rd_get R u k (cells w) = Some doc" if "t \<le> u" for u k doc
    using that assms(1) by (cases "f 0") (auto simp: send_def get_del split: if_splits)
  with assms(2) Evict show ?thesis by (simp add: stale_inv_def late_def)
qed (use assms(2) stale_lookup[OF assms(2)] stale_fetch[OF assms(2)] stale_store[OF assms(1,2)] assms(3) in
      \<open>auto simp: stale_inv_def late_def revoked_revoke revoked_issue\<close>)

lemma stale_run:
  assumes "redis_laws R" "sorted_wrt (\<lambda>a b. fst a \<le> fst b) es" "\<forall>e \<in> set es. now \<le> fst e" "set es \<subseteq> set all"
    and "stale_inv R sha rp h L old all now w"
  shows "\<exists>t. stale_inv R sha rp h L old all t (run_tokens R sha rp lmt win es w)"
  using assms(2-5)
proof (induction es arbitrary: now w)
  case Nil
  then show ?case by (auto simp: run_tokens_def)
next
  case (Cons e es)
  obtain t f a where e: "e = (t, f, a)" by (cases e)
  have "stale_inv R sha rp h L old all t w" using stale_mono[OF Cons.prems(4)] Cons.prems(2) e by auto
  then have "stale_inv R sha rp h L old all t (token_step R sha rp lmt win e w)"
    unfolding e by (rule stale_step[OF assms(1)]) (use Cons.prems(3) e in auto)
  then have "\<exists>x. stale_inv R sha rp h L old all x (run_tokens R sha rp lmt win es (token_step R sha rp lmt win e w))"
    by (rule Cons.IH[rotated 3]) (use Cons.prems e in auto)
  then show ?case by (simp add: run_tokens_def)
qed

text \<open>C18. A revocation takes effect at once, but for answers already on their way.  From a state
in which the token's row is revoked and its cache entry evicted, in every interleaving of
requests, further revocations and new tokens, with any of their commands failing: a request is
accepted for a token of that digest only if a process that had fetched the token before the
revocation stored its answer less than a minute before.  With no such process, never again.\<close>

theorem revocation_takes_effect:
  assumes "redis_laws R" "revoked_in h (table w)"
    and "\<forall>u doc tok. t0 \<le> u \<longrightarrow> rd_get R u (cache_key h) (cells w) = Some doc \<longrightarrow> decode_cached rp doc \<noteq> Inr (Hit tok)"
    and "sorted_wrt (\<lambda>a b. fst a \<le> fst b) es" "\<forall>e \<in> set es. t0 \<le> fst e"
    and "answers (run_tokens R sha rp lmt win es w) = answers w @ new" "(t, raw, tok) \<in> set new" "sha raw = h"
  shows "\<exists>e \<in> set es. stored (late sha h w) e \<and> fst e \<le> t \<and> t < fst e + 60"
proof -
  have "stale_inv R sha rp h (late sha h w) (answers w) es t0 w"
    using assms(2,3) unfolding stale_inv_def by auto
  from stale_run[OF assms(1,4,5) subset_refl this] obtain x where
    "stale_inv R sha rp h (late sha h w) (answers w) es x (run_tokens R sha rp lmt win es w)" by blast
  then obtain new' where "answers (run_tokens R sha rp lmt win es w) = answers w @ new'"
    "\<forall>(t, raw, tok) \<in> set new'. sha raw = h \<longrightarrow> fresh_enough (late sha h w) es t" unfolding stale_inv_def by blast
  with assms(6-8) show ?thesis by (auto simp: fresh_enough_def TOKEN_CACHE_TTL_SECONDS_def)
qed

text \<open>The route revokes the row and evicts the entry, so it leads to such a state when it succeeds.\<close>

lemma revoke_route_settles:
  assumes "redis_laws R" "revoke_my_account_token R f t user i (s, rows) = (Revoked, s', rows')"
    and "distinct (map row_hash rows)"
  shows "\<exists>h. revoked_in h rows' \<and> (\<forall>u. t \<le> u \<longrightarrow> rd_get R u (cache_key h) s' = None)"
proof -
  let ?hit = "\<lambda>r. row_id r = i \<and> row_user r = user \<and> row_status r = ''active''"
  from assms(2) obtain h where h: "fst (revoke_account_token t user i rows) = Some h" "f 0 = Fine"
    "s' = rd_del R t [cache_key h] s" "rows' = snd (revoke_account_token t user i rows)"
    by (cases "f 0") (auto simp: revoke_my_account_token_def send_def split: prod.splits option.splits)
  then obtain r where "find ?hit rows = Some r" "row_hash r = h"
    by (auto simp: revoke_account_token_def Let_def)
  then have r: "r \<in> set rows" "?hit r" "row_hash r = h"
    by (auto simp: find_Some_iff)
  have "row_status x \<noteq> ''active''" if x: "x \<in> set rows'" "row_hash x = h" for x
  proof -
    from x(1) h(4) obtain y where y: "y \<in> set rows" "x = (if ?hit y then y\<lparr>row_status := ''revoked'', row_revoked := Some t\<rparr> else y)"
      by (auto simp: revoke_account_token_def Let_def)
    with x(2) r(3) have "row_hash y = row_hash r" by (simp split: if_splits)
    with y(1) r(1) assms(3) have "y = r" by (metis distinct_map inj_onD)
    with y(2) r(2) show ?thesis by simp
  qed
  moreover have "h \<in> row_hash ` set rows'"
  proof -
    have "map row_hash rows' = map row_hash rows" unfolding h(4) by (simp add: revoke_account_token_def Let_def)
    then have "row_hash ` set rows' = row_hash ` set rows" by (metis list.set_map)
    with r show ?thesis by blast
  qed
  ultimately show ?thesis using assms(1) h(3) by (auto simp: revoked_in_def get_del)
qed

section \<open>The cache\<close>

lemma default_style_ok: "style_ok (default_style rp)" "\<not> js_sort (default_style rp)"
  by (simp_all add: default_style_def style_ok_def json_space_def)

definition token_ok :: "account_token \<Rightarrow> bool" where
  "token_ok tok = (utf8_ok (token_id tok) \<and> utf8_ok (token_user tok)
     \<and> 0 \<le> quota_limit tok \<and> quota_limit tok < max_counter \<and> 0 \<le> quota_window tok \<and> quota_window tok < max_counter)"

lemma token_plain: "token_ok tok \<Longrightarrow> json_plain (token_payload tok)"
  using show_int_bound[of "quota_limit tok"] show_int_bound[of "quota_window tok"]
  by (simp add: token_ok_def token_payload_def ascii_ok)

lemma payload_token_payload: "payload_token rp (token_payload tok) = Inr tok"
  by (simp add: payload_token_def token_payload_def payload_at_def dget_def)

lemma decode_cached_text:
  assumes "\<And>tok. r = Some tok \<Longrightarrow> token_ok tok"
  shows "decode_cached rp (cached_text rp r) = Inr (case r of None \<Rightarrow> Negative | Some tok \<Rightarrow> Hit tok)"
proof (cases r)
  case (Some tok)
  with assms have p: "json_plain (token_payload tok)" by (simp add: token_plain)
  have "hd (json_text (default_style rp) (token_payload tok)) = CHR ''{''" "json_text (default_style rp) (token_payload tok) \<noteq> []"
    by (simp_all add: token_payload_def)
  moreover have "json_loads (json_text (default_style rp) (token_payload tok)) = Some (token_payload tok)"
    using p by (simp add: loads_text_id default_style_ok del: json_text.simps)
  ultimately show ?thesis using Some
    by (auto simp: decode_cached_def cached_text_def negative_sentinel_def payload_token_payload)
qed (simp add: decode_cached_def cached_text_def negative_sentinel_def)

text \<open>The cache of tokens is faithful: what the resolver wrote for a digest, a token as a JSON
document or the mark of an unknown token, the next reader decodes to exactly that answer until it
expires, after a minute or half a minute, and to a miss afterwards; other digests are untouched.\<close>

theorem cached_token_read_back:
  assumes "redis_laws R" "\<And>tok. r = Some tok \<Longrightarrow> token_ok tok" "t \<le> u"
  shows "fst (read_cache R rp Fine u (cache_key h') (write_cache R rp Fine t (cache_key h) r s)) =
           (if h' \<noteq> h then fst (read_cache R rp Fine u (cache_key h') s)
            else if u < t + cached_ttl r then Inr (case r of None \<Rightarrow> Negative | Some tok \<Rightarrow> Hit tok)
            else Inr Miss)"
proof -
  have "0 < cached_ttl r"
    by (cases r) (simp_all add: cached_ttl_def TOKEN_CACHE_TTL_SECONDS_def TOKEN_NEGATIVE_CACHE_TTL_SECONDS_def)
  with assms(1,3) show ?thesis
    using decode_cached_text[OF assms(2), where rp = rp and r = r]
    by (simp add: read_cache_def write_cache_def get_set split: option.split)
qed

section \<open>Who is calling\<close>

text \<open>C19. A presented bearer token decides alone who is calling.  None of the dependencies of the
routes falls back to the session cookie when a token is presented, without a configured resolver
they refuse it, and the user the cached resolver names owns an active token of that digest or
stands in an unexpired document of the cache for it.\<close>

theorem presented_token_decides:
  assumes "bearer_token header = Some raw"
  shows "(\<forall>resolver session'. require_user_identity resolver session header w = require_user_identity resolver session' header w
            \<and> require_identity_within_quota resolver session quota header w = require_identity_within_quota resolver session' quota header w
            \<and> read_only_identity resolver session header w = read_only_identity resolver session' header w)
         \<and> require_user_identity None session header w = (Inl Unauthorized, w)
         \<and> (\<forall>u. fst (require_user_identity (Some (cached_resolve R sha rp (postgres_resolve sha use g now) f f' t t'))
                session' header (s, rows)) = Inr u \<longrightarrow>
              (\<exists>r \<in> set rows. row_hash r = sha raw \<and> row_status r = ''active'' \<and> u = show_int (row_user r))
            \<or> (\<exists>doc tok. rd_get R t (cache_key (sha raw)) s = Some doc \<and> decode_cached rp doc = Inr (Hit tok) \<and> u = token_user tok))"
proof (intro conjI allI impI)
  fix resolver :: "(string \<Rightarrow> 'a \<Rightarrow> account_token option res \<times> 'a) option" and session'
  have r: "\<exists>e w'. resolve_token resolver header w = (Inl e, w') \<or> (\<exists>tok. resolve_token resolver header w = (Inr (Some tok), w'))"
    using assms by (auto simp: resolve_token_def split: option.split prod.split sum.split)
  then show "require_user_identity resolver session header w = require_user_identity resolver session' header w"
    "require_identity_within_quota resolver session quota header w = require_identity_within_quota resolver session' quota header w"
    "read_only_identity resolver session header w = read_only_identity resolver session' header w"
    by (auto simp: require_user_identity_def require_identity_within_quota_def read_only_identity_def)
next
  show "require_user_identity None session header w = (Inl Unauthorized, w)"
    using assms by (simp add: require_user_identity_def resolve_token_def)
next
  fix u
  assume "fst (require_user_identity (Some (cached_resolve R sha rp (postgres_resolve sha use g now) f f' t t'))
            session' header (s, rows)) = Inr u"
  from cached_postgres.cached.identity_has_evidence[OF assms this]
  show "(\<exists>r \<in> set rows. row_hash r = sha raw \<and> row_status r = ''active'' \<and> u = show_int (row_user r))
      \<or> (\<exists>doc tok. rd_get R t (cache_key (sha raw)) s = Some doc \<and> decode_cached rp doc = Inr (Hit tok) \<and> u = token_user tok)"
    by (auto simp: cached_postgres.cached_evidence_def row_evidence_def row_token_def)
qed

section \<open>Concrete runs\<close>

definition sample_row :: token_row where
  "sample_row = \<lparr>row_id = ''a1'', row_user = 7, row_label = None, row_prefix = ''qaai_'', row_hash = ''d'',
     row_limit = 1, row_window = 60, row_status = ''revoked'', row_created = 1, row_revoked = Some 90, row_used = None\<rparr>"

definition sample_system :: "cells token_system" where
  "sample_system = \<lparr>cells = [], table = [sample_row],
     phases = (\<lambda>p. if p = 0 then Fetched ''d'' (Some (row_token sample_row)) else Idle), answers = []\<rparr>"

theorem presented_token_decides_witness:
  "require_user_identity None (\<lambda>w. (Inr ''cookie'', w)) (Some ''Bearer d'') () = (Inl Unauthorized, ())"
proof -
  have "bearer_token (Some ''Bearer d'') = Some ''d''" by code_simp
  from presented_token_decides[OF this, THEN conjunct2, THEN conjunct1] show ?thesis .
qed

theorem cached_token_read_back_witness:
  "fst (read_cache memory_redis (\<lambda>_. []) Fine 100 (cache_key ''d'')
     (write_cache memory_redis (\<lambda>_. []) Fine 50 (cache_key ''d'') (Some (row_token sample_row)) [])) = Inr (Hit (row_token sample_row))"
proof -
  have "token_ok tok" if "Some (row_token sample_row) = Some tok" for tok
    using that by (auto simp: token_ok_def row_token_def sample_row_def ascii_ok max_counter_def show_int_def show_nat.simps)
  from cached_token_read_back[OF memory_laws _, of "Some (row_token sample_row)" 50 100 "\<lambda>_. []" "''d''" "''d''" "[]"] this
  show ?thesis by (simp add: cached_ttl_def TOKEN_CACHE_TTL_SECONDS_def)
qed

text \<open>The late answer of process 0 is accepted, and so is the next request, from the cache.\<close>

theorem revocation_takes_effect_witness:
  "\<exists>e \<in> set [(100, (\<lambda>_. Fine), Store 0)]. stored (late (\<lambda>x. x) ''d'' sample_system) e \<and> fst e \<le> 100 \<and> 100 < fst e + 60"
proof (rule revocation_takes_effect[OF memory_laws, where raw = "''d''" and tok = "row_token sample_row"
      and new = "[(100, ''d'', row_token sample_row)]" and rp = "\<lambda>_. []" and lmt = 1 and win = 60 and ?t0.0 = 100])
  show "answers (run_tokens memory_redis (\<lambda>x. x) (\<lambda>_. []) 1 60 [(100, (\<lambda>_. Fine), Store 0)] sample_system)
      = answers sample_system @ [(100, ''d'', row_token sample_row)]"
    by (simp add: run_tokens_def store_step_def sample_system_def answer_def set_phase_def)
qed (simp_all add: sample_system_def revoked_in_def sample_row_def memory_redis_def cell_at_def)

end
