(* ===== verification/Au_Quota.thy ===== *)
theory Au_Quota
  imports Au_Tokens
begin

text \<open>
  The fixed-window quota over a sequence of requests of any tokens, retries included, while Redis
  answers.  The counter of a token and window holds the number of requests counted so far, so the
  values handed out in a window are 1, 2, 3, ... and at most the limit of them pass.
\<close>

type_synonym quota_request = "int \<times> account_token \<times> string option"

fun quota_run ::
  "'s redis \<Rightarrow> (string \<Rightarrow> string) \<Rightarrow> string \<Rightarrow> quota_request list \<Rightarrow> 's \<Rightarrow> (quota_request \<times> int res) list \<times> 's" where
  "quota_run R sha prefix [] s = ([], s)"
| "quota_run R sha prefix ((t, tok, key) # rs) s =
     (case quota_used R sha (\<lambda>_. Fine) prefix t tok key s of (r, s1) \<Rightarrow>
      (case quota_run R sha prefix rs s1 of (out, s2) \<Rightarrow> (((t, tok, key), r) # out, s2)))"

text \<open>The values counted for a token in a window, in order, and those the limit lets pass.\<close>

definition in_bucket :: "account_token \<Rightarrow> int \<Rightarrow> quota_request \<times> int res \<Rightarrow> bool" where
  "in_bucket tok b x = (case x of ((t, tk, key), r) \<Rightarrow>
     tk = tok \<and> t div token_window tok = b \<and> (case r of Inr u \<Rightarrow> 1 \<le> u | Inl e \<Rightarrow> False))"

fun used_of :: "quota_request \<times> int res \<Rightarrow> int" where
  "used_of (q, Inr u) = u"
| "used_of (q, Inl e) = 0"

definition counted :: "account_token \<Rightarrow> int \<Rightarrow> (quota_request \<times> int res) list \<Rightarrow> int list" where
  "counted tok b out = map used_of (filter (in_bucket tok b) out)"

definition charged :: "account_token \<Rightarrow> int \<Rightarrow> (quota_request \<times> int res) list \<Rightarrow> int list" where
  "charged tok b out = filter (\<lambda>u. u \<le> quota_limit tok) (counted tok b out)"

section \<open>Keys\<close>

lemma split_colon:
  assumes "a @ CHR '':'' # x = b @ CHR '':'' # y" "CHR '':'' \<notin> set a" "CHR '':'' \<notin> set b"
  shows "a = b" "x = y"
proof -
  have t: "takeWhile (\<lambda>c. c \<noteq> CHR '':'') (c @ CHR '':'' # z) = c" if "CHR '':'' \<notin> set c" for c z
    using that by (simp add: takeWhile_append)
  from t[OF assms(2), of x] t[OF assms(3), of y] assms(1) show "a = b" by simp
  with assms(1) show "x = y" by simp
qed

definition plain_id :: "account_token \<Rightarrow> bool" where
  "plain_id tok = (CHR '':'' \<notin> set (token_id tok) \<and> token_id tok \<noteq> ''admission'')"

lemma show_int_inj: "0 \<le> a \<Longrightarrow> 0 \<le> b \<Longrightarrow> show_int a = show_int b \<Longrightarrow> a = b"
proof -
  assume *: "0 \<le> a" "0 \<le> b" "show_int a = show_int b"
  then have "show_nat (nat a) = show_nat (nat b)" by (simp add: show_int_def)
  then have "nat a = nat b" by (metis show_nat_digits)
  with * show "a = b" by simp
qed

lemma quota_key_token:
  "plain_id tok \<Longrightarrow> plain_id tk \<Longrightarrow> quota_key p tok b = quota_key p tk c \<Longrightarrow> token_id tok = token_id tk \<and> show_int b = show_int c"
  using split_colon[of "token_id tok" "show_int b" "token_id tk" "show_int c"] by (simp add: quota_key_def plain_id_def)

lemma quota_key_reservation: "plain_id tok \<Longrightarrow> quota_key p tok b \<noteq> reservation_key sha p tk key"
proof
  assume p: "plain_id tok" and e: "quota_key p tok b = reservation_key sha p tk key"
  have "CHR '':'' \<notin> set ''admission''" by simp
  from split_colon(1)[OF _ _ this, of "token_id tok" "show_int b"] p e show False
    by (auto simp: quota_key_def reservation_key_def plain_id_def)
qed

section \<open>One request\<close>

definition count_core :: "'s redis \<Rightarrow> int \<Rightarrow> string \<Rightarrow> int \<Rightarrow> 's \<Rightarrow> int res \<times> 's" where
  "count_core R t qk window s = (case rd_incr R t qk s of
       (Inl e, s1) \<Rightarrow> (Inl e, s1)
     | (Inr used, s1) \<Rightarrow> (Inr used, if used = 1 then snd (rd_expire R t qk window s1) else s1))"

lemma count_request_core:
  "count_request R Fine Fine p t tok s = count_core R t (quota_key p tok (t div token_window tok)) (token_window tok) s"
  by (simp add: count_request_def count_core_def Let_def split: prod.split sum.split)

lemma consume_once_core:
  "consume_once R sha Fine p t tok key s =
     (let rk = reservation_key sha p tok key in
      if rd_get R t rk s \<noteq> None then (Inr 0, s)
      else case count_core R t (quota_key p tok (t div token_window tok)) (token_window tok) s of
        (Inl e, s1) \<Rightarrow> (Inl e, s1)
      | (Inr used, s2) \<Rightarrow> (Inr used,
           if used > quota_limit tok then s2
           else if rd_get R t rk s2 = None then rd_set R t rk ''1'' (token_window tok) s2 else s2))"
  by (simp add: consume_once_def admission_script_def count_core_def Let_def split: prod.split sum.split)

lemma token_window_pos: "0 < token_window tok"
  by (simp add: token_window_def)

lemma core_other:
  assumes "redis_laws R" "t \<le> u" "k \<noteq> qk"
  shows "rd_get R u k (snd (count_core R t qk w s)) = rd_get R u k s"
  using get_incr_other[OF assms] get_expire[OF assms(1,2), of k qk] assms(3)
  by (auto simp: count_core_def split: prod.split sum.split dest: arg_cong[where f = snd])
     (metis snd_conv)+

text \<open>Windows of the clock.\<close>

lemma same_window_end: "0 < w \<Longrightarrow> u div w = t div w \<Longrightarrow> u < t + (w :: int)"
proof -
  assume w: "0 < w" "u div w = t div w"
  have "u = w * (t div w) + u mod w" "t = w * (t div w) + t mod w" using w(2) by (metis mult_div_mod_eq)+
  moreover have "u mod w < w" "0 \<le> t mod w" using w(1) by simp_all
  ultimately show ?thesis by linarith
qed

lemma core_first:
  assumes "redis_laws R" "0 < w" "rd_get R t qk s = None"
  shows "fst (count_core R t qk w s) = Inr 1"
    and "t \<le> u \<Longrightarrow> u div w = t div w \<Longrightarrow> rd_get R u qk (snd (count_core R t qk w s)) = Some (show_int 1)"
proof -
  obtain s1 where s1: "rd_incr R t qk s = (Inr 1, s1)"
    using incr_first[OF assms(1,3)] by (cases "rd_incr R t qk s") auto
  then show "fst (count_core R t qk w s) = Inr 1" by (simp add: count_core_def)
  assume u: "t \<le> u" "u div w = t div w"
  have "rd_get R t qk s1 = Some (show_int 1)" using get_incr_first[OF assms(1) order_refl assms(3)] s1 by simp
  with s1 same_window_end[OF assms(2) u(2)] show "rd_get R u qk (snd (count_core R t qk w s)) = Some (show_int 1)"
    by (simp add: count_core_def get_expire[OF assms(1) u(1)])
qed

lemma core_next:
  assumes "redis_laws R" "rd_get R t qk s = Some (show_int n)" "1 \<le> n" "n < max_counter"
  shows "fst (count_core R t qk w s) = Inr (n + 1)"
    and "t \<le> u \<Longrightarrow> rd_get R u qk s \<noteq> None \<Longrightarrow> rd_get R u qk (snd (count_core R t qk w s)) = Some (show_int (n + 1))"
proof -
  obtain s1 where s1: "rd_incr R t qk s = (Inr (n + 1), s1)"
    using incr_next[OF assms(1,2)] assms(3,4) by (cases "rd_incr R t qk s") auto
  with assms(3) show "fst (count_core R t qk w s) = Inr (n + 1)" by (simp add: count_core_def)
  assume u: "t \<le> u" "rd_get R u qk s \<noteq> None"
  with get_incr_next[OF assms(1) u(1) assms(2)] s1 assms(3,4)
  show "rd_get R u qk (snd (count_core R t qk w s)) = Some (show_int (n + 1))" by (simp add: count_core_def)
qed

text \<open>A request is let through by its reservation, or it is counted.\<close>

lemma quota_used_cases:
  assumes "redis_laws R"
  obtains (reserved) k where "key = Some k" "rd_get R t (reservation_key sha p tok k) s \<noteq> None"
      "quota_used R sha (\<lambda>_. Fine) p t tok key s = (Inr 0, s)"
    | (counts) s1 where
      "quota_used R sha (\<lambda>_. Fine) p t tok key s =
         (fst (count_core R t (quota_key p tok (t div token_window tok)) (token_window tok) s), s1)"
      "\<And>u k. t \<le> u \<Longrightarrow> (\<And>x. k \<noteq> reservation_key sha p tok x) \<Longrightarrow>
         rd_get R u k s1 = rd_get R u k (snd (count_core R t (quota_key p tok (t div token_window tok)) (token_window tok) s))"
proof (cases "key = None \<or> key = Some []")
  case True
  then have "quota_used R sha (\<lambda>_. Fine) p t tok key s =
      count_core R t (quota_key p tok (t div token_window tok)) (token_window tok) s"
    by (auto simp: quota_used_def count_request_core)
  then show thesis by (intro counts) (auto simp: prod_eq_iff)
next
  case False
  then obtain k where k: "key = Some k" "k \<noteq> []" by (cases key) auto
  let ?rk = "reservation_key sha p tok k"
  let ?c = "count_core R t (quota_key p tok (t div token_window tok)) (token_window tok) s"
  have q: "quota_used R sha (\<lambda>_. Fine) p t tok key s = consume_once R sha Fine p t tok k s"
    by (simp add: quota_used_def k)
  show thesis
  proof (cases "rd_get R t ?rk s = None")
    case False
    with q k reserved show thesis by (simp add: consume_once_core)
  next
    case True
    obtain r s2 where c: "?c = (r, s2)" by (cases ?c)
    define s1 where "s1 = snd (consume_once R sha Fine p t tok k s)"
    have s1: "s1 = s2 \<or> s1 = rd_set R t ?rk ''1'' (token_window tok) s2"
      using True c by (auto simp: s1_def consume_once_core Let_def split: sum.split)
    have "fst (consume_once R sha Fine p t tok k s) = r"
      using True c by (auto simp: consume_once_core Let_def split: sum.split)
    then have "quota_used R sha (\<lambda>_. Fine) p t tok key s = (fst ?c, s1)"
      by (simp add: q c s1_def prod_eq_iff)
    then show thesis
      by (rule counts) (use s1 c get_set[OF assms _ token_window_pos] in auto)
  qed
qed

definition quota_inv ::
  "'s redis \<Rightarrow> string \<Rightarrow> account_token \<Rightarrow> (quota_request \<times> int res) list \<Rightarrow> int \<Rightarrow> 's \<Rightarrow> bool" where
  "quota_inv R p tok hist t s =
     ((\<forall>u \<ge> t. rd_get R u (quota_key p tok (u div token_window tok)) s =
        (let n = length (counted tok (u div token_window tok) hist) in
         if n = 0 then None else Some (show_int (int n))))
      \<and> (\<forall>b. counted tok b hist = map int [1..<Suc (length (counted tok b hist))]))"

lemma counted_snoc:
  "counted tok b (hist @ [x]) = (if in_bucket tok b x then counted tok b hist @ [used_of x] else counted tok b hist)"
  by (simp add: counted_def)

lemma quota_inv_later: "quota_inv R p tok hist t s \<Longrightarrow> t \<le> t' \<Longrightarrow> quota_inv R p tok hist t' s"
  unfolding quota_inv_def by (meson order_trans)

lemma quota_inv_uncounted:
  assumes "quota_inv R p tok hist t s" "\<And>b. \<not> in_bucket tok b x"
    and "\<And>u b. t \<le> u \<Longrightarrow> rd_get R u (quota_key p tok b) s1 = rd_get R u (quota_key p tok b) s"
  shows "quota_inv R p tok (hist @ [x]) t s1"
  using assms unfolding quota_inv_def by (simp add: counted_snoc)

lemma quota_inv_counts:
  assumes L: "redis_laws R" and inv: "quota_inv R p tok hist t s" and t: "0 \<le> t"
    and bound: "int (length hist) < max_counter" and p: "plain_id tok"
    and same: "\<And>u b. t \<le> u \<Longrightarrow> rd_get R u (quota_key p tok b) s1 =
      rd_get R u (quota_key p tok b) (snd (count_core R t (quota_key p tok (t div token_window tok)) (token_window tok) s))"
    and r: "r = fst (count_core R t (quota_key p tok (t div token_window tok)) (token_window tok) s)"
  shows "quota_inv R p tok (hist @ [((t, tok, key), r)]) t s1"
proof -
  let ?w = "token_window tok" let ?b = "t div ?w" let ?k = "quota_key p tok ?b"
  let ?n = "length (counted tok ?b hist)"
  have get: "rd_get R u (quota_key p tok (u div ?w)) s = (if length (counted tok (u div ?w) hist) = 0 then None
      else Some (show_int (int (length (counted tok (u div ?w) hist)))))" if "t \<le> u" for u
    using inv that unfolding quota_inv_def by (simp add: Let_def)
  have n: "int ?n < max_counter" using bound by (simp add: counted_def) (meson length_filter_le of_nat_le_iff order_le_less_trans)
  have new: "r = Inr (int ?n + 1) \<and> (\<forall>u \<ge> t. u div ?w = ?b \<longrightarrow> rd_get R u ?k s1 = Some (show_int (int ?n + 1)))"
  proof (cases "?n = 0")
    case True
    with get[of t] have "rd_get R t ?k s = None" by simp
    from core_first[OF L token_window_pos this] True r same show ?thesis by auto
  next
    case False
    with get[of t] have k: "rd_get R t ?k s = Some (show_int (int ?n))" by simp
    have "rd_get R u ?k s \<noteq> None" if "t \<le> u" "u div ?w = ?b" for u using get[OF that(1)] that(2) False by simp
    with core_next[OF L k _ n, where w = ?w] False r same show ?thesis by auto
  qed
  have ne: "rd_get R u (quota_key p tok (u div ?w)) s1 = rd_get R u (quota_key p tok (u div ?w)) s"
    if "t \<le> u" "u div ?w \<noteq> ?b" for u
  proof -
    have "quota_key p tok (u div ?w) \<noteq> ?k"
      using quota_key_token[OF p p, of p "u div ?w" ?b] show_int_inj[of "u div ?w" ?b] that t token_window_pos[of tok]
      by (auto simp: pos_imp_zdiv_nonneg_iff)
    with core_other[OF L that(1)] same[OF that(1)] show ?thesis by simp
  qed
  have snoc: "counted tok b (hist @ [((t, tok, key), r)]) = (if b = ?b then counted tok b hist @ [int ?n + 1] else counted tok b hist)" for b
    using new by (auto simp: counted_snoc in_bucket_def)
  have "counted tok b hist = map int [1..<Suc (length (counted tok b hist))]" for b
    using inv unfolding quota_inv_def by blast
  then have "counted tok b (hist @ [((t, tok, key), r)]) = map int [1..<Suc (length (counted tok b (hist @ [((t, tok, key), r)])))]" for b
    by (simp add: snoc upt_Suc_append del: upt_Suc)
  moreover have "rd_get R u (quota_key p tok (u div ?w)) s1 =
      (let n = length (counted tok (u div ?w) (hist @ [((t, tok, key), r)])) in if n = 0 then None else Some (show_int (int n)))"
    if "t \<le> u" for u
  proof (cases "u div ?w = ?b")
    case True
    then show ?thesis unfolding snoc True using new that True by (simp add: add.commute)
  next
    case False
    then show ?thesis using ne[OF that False] get[OF that] by (simp add: snoc Let_def)
  qed
  ultimately show ?thesis unfolding quota_inv_def by blast
qed

section \<open>Sequences of requests\<close>

text \<open>
  Requests in the order of time, of tokens whose identifiers are plain (a UUID has no colon) and
  determine the token.
\<close>

definition requests_ok :: "account_token \<Rightarrow> quota_request list \<Rightarrow> bool" where
  "requests_ok tok rs =
     (sorted (map fst rs) \<and> int (length rs) < max_counter
      \<and> (\<forall>(t, tk, key) \<in> set rs. 0 \<le> t \<and> plain_id tk \<and> (token_id tk = token_id tok \<longrightarrow> tk = tok)))"

lemma quota_run_inv:
  assumes L: "redis_laws R" and p: "plain_id tok"
  shows "quota_inv R p tok hist t0 s \<Longrightarrow> sorted (map fst rs) \<Longrightarrow> \<forall>q \<in> set rs. t0 \<le> fst q \<Longrightarrow>
     int (length hist + length rs) < max_counter \<Longrightarrow>
     \<forall>(t, tk, key) \<in> set rs. 0 \<le> t \<and> plain_id tk \<and> (token_id tk = token_id tok \<longrightarrow> tk = tok) \<Longrightarrow>
     \<exists>t. quota_inv R p tok (hist @ fst (quota_run R sha p rs s)) t (snd (quota_run R sha p rs s))"
proof (induction rs arbitrary: hist t0 s)
  case (Cons q rs)
  obtain t tk key where q: "q = (t, tk, key)" by (cases q)
  obtain r s1 where r: "quota_used R sha (\<lambda>_. Fine) p t tk key s = (r, s1)" by fastforce
  have tk: "0 \<le> t" "plain_id tk" "token_id tk = token_id tok \<Longrightarrow> tk = tok" using Cons.prems(5) q by auto
  have inv: "quota_inv R p tok hist t s" using quota_inv_later[OF Cons.prems(1)] Cons.prems(3) q by simp
  have "quota_inv R p tok (hist @ [((t, tk, key), r)]) t s1"
  proof (cases rule: quota_used_cases[OF L, of key t sha p tk s, case_names reserved counts])
    case (reserved k)
    with r have "r = Inr 0" "s1 = s" by simp_all
    then show ?thesis by (intro quota_inv_uncounted[OF inv]) (simp_all add: in_bucket_def)
  next
    case (counts s2)
    with r have s2: "s2 = s1" and r': "r = fst (count_core R t (quota_key p tk (t div token_window tk)) (token_window tk) s)"
      by simp_all
    have key: "rd_get R u (quota_key p tok b) s1 =
        rd_get R u (quota_key p tok b) (snd (count_core R t (quota_key p tk (t div token_window tk)) (token_window tk) s))"
      if "t \<le> u" for u b
      using counts(2)[OF that, of "quota_key p tok b"] quota_key_reservation[OF p] s2 by simp
    show ?thesis
    proof (cases "tk = tok")
      case True
      have "int (length hist) < max_counter" using Cons.prems(4) by simp
      from quota_inv_counts[OF L inv tk(1) this p] key r' show ?thesis unfolding True by blast
    next
      case False
      have "quota_key p tok b \<noteq> quota_key p tk c" for b c using quota_key_token[OF p tk(2)] tk(3) False by metis
      then show ?thesis using key core_other[OF L] False
        by (intro quota_inv_uncounted[OF inv]) (simp_all add: in_bucket_def)
    qed
  qed
  then have "\<exists>x. quota_inv R p tok ((hist @ [((t, tk, key), r)]) @ fst (quota_run R sha p rs s1)) x (snd (quota_run R sha p rs s1))"
    by (rule Cons.IH) (use Cons.prems q in auto)
  then show ?case by (simp add: q r case_prod_beta)
qed auto

lemma counted_run:
  assumes "redis_laws R" "plain_id tok" "requests_ok tok rs" "\<forall>u b. rd_get R u (quota_key p tok b) s = None"
  shows "counted tok b (fst (quota_run R sha p rs s)) = map int [1..<Suc (length (counted tok b (fst (quota_run R sha p rs s))))]"
proof -
  have inv: "quota_inv R p tok [] 0 s" using assms(4) by (simp add: quota_inv_def counted_def)
  have "\<exists>t. quota_inv R p tok ([] @ fst (quota_run R sha p rs s)) t (snd (quota_run R sha p rs s))"
    by (rule quota_run_inv[OF assms(1,2) inv]) (use assms(3) in \<open>auto simp: requests_ok_def\<close>)
  then show ?thesis unfolding quota_inv_def append_Nil by blast
qed

lemma upto_filter: "length (filter (\<lambda>u. u \<le> l) (map int [1..<Suc n])) \<le> nat l"
proof -
  have "distinct (filter (\<lambda>u. u \<le> l) (map int [1..<Suc n]))"
    by (simp add: distinct_map)
  then have "length (filter (\<lambda>u. u \<le> l) (map int [1..<Suc n])) = card (set (filter (\<lambda>u. u \<le> l) (map int [1..<Suc n])))"
    by (simp only: distinct_card)
  also have "\<dots> \<le> card {1..l}" by (rule card_mono) auto
  finally show ?thesis by simp
qed

lemma charged_bound:
  assumes "redis_laws R" "plain_id tok" "requests_ok tok rs" "\<forall>u b. rd_get R u (quota_key p tok b) s = None"
  shows "length (charged tok b (fst (quota_run R sha p rs s))) \<le> nat (quota_limit tok)"
  unfolding charged_def by (subst counted_run[OF assms]) (rule upto_filter)

section \<open>The bounds\<close>

text \<open>The requests of a token that were counted and let through in the window that starts at \<open>a\<close>.\<close>

definition passes :: "account_token \<Rightarrow> int res \<Rightarrow> bool" where
  "passes tok r = (case r of Inr u \<Rightarrow> 1 \<le> u \<and> u \<le> quota_limit tok | Inl e \<Rightarrow> False)"

definition passed_from :: "account_token \<Rightarrow> int \<Rightarrow> (quota_request \<times> int res) list \<Rightarrow> (quota_request \<times> int res) list" where
  "passed_from tok a out =
     filter (\<lambda>((t, tk, key), r). tk = tok \<and> a \<le> t \<and> t < a + token_window tok \<and> passes tok r) out"

lemma passed_charged:
  "length (filter (\<lambda>((t, tk, key), r). tk = tok \<and> t div token_window tok = b \<and> passes tok r) out) = length (charged tok b out)"
proof (induction out)
  case (Cons x out)
  obtain t tk key r where x: "x = ((t, tk, key), r)" by (metis prod_cases3 surj_pair)
  with Cons show ?case by (cases r) (auto simp: charged_def counted_def in_bucket_def passes_def)
qed (simp add: charged_def counted_def)

lemma window_buckets:
  "0 < w \<Longrightarrow> a \<le> t \<Longrightarrow> t < a + w \<Longrightarrow> t div w = a div w \<or> t div w = a div w + (1 :: int)"
proof -
  assume w: "0 < w" "a \<le> t" "t < a + w"
  have "a div w \<le> t div w" "t div w \<le> (a + w) div w" using w by (intro zdiv_mono1; simp)+
  moreover have "(a + w) div w = a div w + 1" using w(1) by simp
  ultimately show ?thesis by linarith
qed

lemma filter_le_sum:
  "(\<And>x. x \<in> set xs \<Longrightarrow> P x \<Longrightarrow> Q x \<or> Q' x) \<Longrightarrow>
     length (filter P xs) \<le> length (filter Q xs) + length (filter Q' xs)"
  by (induction xs) force+

text \<open>C20. The quota of a token holds for any interleaving of its requests with those of other
tokens and with retries.  While Redis answers, at most the limit of a token's requests are charged
and let through in one window of the clock, and at most twice the limit in any span as long as a
window, wherever it starts.\<close>

theorem quota_bounds_requests:
  assumes "redis_laws R" "plain_id tok" "requests_ok tok rs" "\<forall>u b. rd_get R u (quota_key p tok b) s = None"
  shows "length (filter (\<lambda>((t, tk, key), r). tk = tok \<and> t div token_window tok = b \<and> passes tok r)
           (fst (quota_run R sha p rs s))) \<le> nat (quota_limit tok)
         \<and> length (passed_from tok a (fst (quota_run R sha p rs s))) \<le> 2 * nat (quota_limit tok)"
proof
  let ?out = "fst (quota_run R sha p rs s)"
  let ?P = "\<lambda>b. \<lambda>((t, tk, key), r). tk = tok \<and> t div token_window tok = b \<and> passes tok r"
  have one: "length (filter (?P b) ?out) \<le> nat (quota_limit tok)" for b
    unfolding passed_charged by (rule charged_bound[OF assms])
  then show "length (filter (?P b) ?out) \<le> nat (quota_limit tok)" .
  let ?b = "a div token_window tok"
  have "length (passed_from tok a ?out) \<le> length (filter (?P ?b) ?out) + length (filter (?P (?b + 1)) ?out)"
    unfolding passed_from_def
    by (rule filter_le_sum) (use window_buckets[OF token_window_pos[of tok], of a] in auto)
  also have "\<dots> \<le> 2 * nat (quota_limit tok)" using one[of ?b] one[of "?b + 1"] by simp
  finally show "length (passed_from tok a ?out) \<le> 2 * nat (quota_limit tok)" .
qed

text \<open>The check lets a request through when its counter is within the limit or unknown.\<close>

lemma check_passes:
  "fst (check_and_consume R sha f p t tok key s) = Inr () \<longleftrightarrow>
     (case fst (quota_used R sha f p t tok key s) of Inl e \<Rightarrow> True | Inr u \<Rightarrow> u \<le> quota_limit tok)"
  by (auto simp: check_and_consume_def split: prod.split sum.split)

definition sample_token :: account_token where
  "sample_token = \<lparr>token_id = ''a1'', token_user = ''7'', quota_limit = 1, quota_window = 60\<rparr>"

theorem quota_bounds_requests_witness:
  "length (passed_from sample_token 100 (fst (quota_run memory_redis (\<lambda>x. x) ''q''
     [(115, sample_token, None), (118, sample_token, Some ''k''), (120, sample_token, None)] []))) \<le> 2"
  using quota_bounds_requests[OF memory_laws, where tok = sample_token and p = "''q''" and s = "[]" and a = 100
      and sha = "\<lambda>x. x" and rs = "[(115, sample_token, None), (118, sample_token, Some ''k''), (120, sample_token, None)]"]
  by (simp add: requests_ok_def plain_id_def memory_redis_def cell_at_def max_counter_def) (simp add: sample_token_def)

end
