(* ===== verification/Em_Outbox.thy ===== *)
theory Em_Outbox
  imports Au_Sessions
begin

text \<open>
  The queue of report e-mails (\<open>backend/app/db/email_outbox.py\<close>): the rows of
  \<open>app.email_delivery_history\<close> and the statements that create, claim, release, settle and requeue
  them.  A statement runs atomically on the server; it can fail before or after it took effect
  (\<open>fault\<close>), and rows another transaction has locked at that moment (\<open>locked\<close>) are skipped where the
  source says \<open>SKIP LOCKED\<close>.  Instants are microseconds on one clock.  The digest behind \<open>uuid5\<close>, the
  random claim tokens and the pattern-based redaction of error texts are arguments.
\<close>

section \<open>Rows\<close>

text \<open>
  The document \<open>metadata_jsonb\<close>.  A missing key and a \<open>null\<close> read alike, in SQL and in Python, so a
  field is an option.
\<close>

record metadata =
  md_status :: "string option"                 \<comment> \<open>submission_status\<close>
  md_trigger :: "string option"
  md_template :: "string option"
  md_version :: "string option"
  md_key :: "string option"                    \<comment> \<open>idempotency_key\<close>
  md_payload :: pyval
  md_attempts :: "int option"
  md_max :: "int option"
  md_available :: "int option"
  md_correlation :: "string option"
  md_token :: "string option"                  \<comment> \<open>claim_token\<close>
  md_expires :: "int option"                   \<comment> \<open>claim_expires_at\<close>
  md_claimed_by :: "string option"
  md_provider_submission :: "string option"
  md_provider_delivery :: "string option"
  md_checked :: "int option"
  md_event :: "int option"                     \<comment> \<open>provider_event_at\<close>
  md_source :: "string option"
  md_failure :: "string option"                \<comment> \<open>safe_failure_category\<close>
  md_last :: "int option"                      \<comment> \<open>last_event_at\<close>

datatype db_status = DB_draft | DB_sent | DB_failed | DB_resent

fun db_status_text :: "db_status \<Rightarrow> string" where
  "db_status_text DB_draft = ''draft''"
| "db_status_text DB_sent = ''sent''"
| "db_status_text DB_failed = ''failed''"
| "db_status_text DB_resent = ''resent''"

record delivery_row =
  dr_id :: string
  dr_user :: "int option"
  dr_report :: "string option"
  dr_strategy :: "string option"
  dr_recipient :: string
  dr_status :: db_status
  dr_sent :: "int option"
  dr_provider :: "string option"
  dr_message :: "string option"                \<comment> \<open>provider_message_id\<close>
  dr_error :: "string option"
  dr_meta :: metadata
  dr_created :: int

type_synonym delivery_rows = "delivery_row list"

definition coalesce :: "'a option \<Rightarrow> 'a option \<Rightarrow> 'a option" where
  "coalesce a b = (if a = None then b else a)"

definition attempts_of :: "delivery_row \<Rightarrow> int" where
  "attempts_of r = (case md_attempts (dr_meta r) of None \<Rightarrow> 0 | Some n \<Rightarrow> n)"

definition max_attempts_of :: "delivery_row \<Rightarrow> int" where
  "max_attempts_of r = (case md_max (dr_meta r) of None \<Rightarrow> 1 | Some n \<Rightarrow> n)"

definition last_event :: "delivery_row \<Rightarrow> int" where
  "last_event r = (case coalesce (md_last (dr_meta r)) (dr_sent r) of None \<Rightarrow> dr_created r | Some t \<Rightarrow> t)"

section \<open>Texts\<close>

definition iso_instant :: "int \<Rightarrow> int option \<Rightarrow> int" where
  "iso_instant now v = (case v of None \<Rightarrow> now | Some t \<Rightarrow> t)"

text \<open>\<open>isalnum\<close> on ASCII text.\<close>

definition alnum_char :: "char \<Rightarrow> bool" where
  "alnum_char c = (digit_char c \<or> (let n = of_char (lower_char c) :: nat in 97 \<le> n \<and> n \<le> 122))"

definition text_or :: "string option \<Rightarrow> string \<Rightarrow> string" where
  "text_or v d = (case v of None \<Rightarrow> d | Some s \<Rightarrow> if s = [] then d else s)"

definition normalize_error_code :: "string option \<Rightarrow> string" where
  "normalize_error_code v =
     (let s = take 80 (filter (\<lambda>c. alnum_char c \<or> c = CHR ''_'' \<or> c = CHR ''-'')
                         (py_lower (text_or v ''unknown_error'')))
      in if s = [] then ''unknown_error'' else s)"

text \<open>The pattern substitutions: \<open>redact_secrets\<close> and the one of \<open>EMAIL_ADDRESS_PATTERN\<close>.\<close>

record redaction =
  rx_secrets :: "string \<Rightarrow> string"
  rx_emails :: "string \<Rightarrow> string"

definition safe_error :: "redaction \<Rightarrow> string option \<Rightarrow> string option" where
  "safe_error redact v = map_option (\<lambda>s.
     let t = py_strip (rx_emails redact (rx_secrets redact s)) in if 500 < length t then take 497 t @ ''...'' else t) v"

text \<open>\<open>_metadata\<close>: a document, or the text of one.\<close>

definition metadata_dict :: "pyval \<Rightarrow> (string, pyval) dict" where
  "metadata_dict v = (case v of PDict d \<Rightarrow> d
     | PStr s \<Rightarrow> (case json_loads s of Some (PDict d) \<Rightarrow> d | _ \<Rightarrow> [])
     | _ \<Rightarrow> [])"

text \<open>
  \<open>_row_to_delivery\<close>: the row with the fields the code normalises; the other entries of the
  dictionary are copies of the row's own.
\<close>

record delivery =
  dv_row :: delivery_row
  dv_id :: string
  dv_user :: string
  dv_report :: string
  dv_status :: string
  dv_trigger :: string
  dv_template :: string
  dv_version :: string
  dv_payload :: "(string, pyval) dict"
  dv_attempts :: int
  dv_max :: int

fun fallback_status :: "db_status \<Rightarrow> string" where
  "fallback_status DB_sent = ''SENT''"
| "fallback_status DB_failed = ''FAILED''"
| "fallback_status DB_resent = ''SENT''"
| "fallback_status DB_draft = ''PENDING''"

definition int_or :: "int option \<Rightarrow> int \<Rightarrow> int" where
  "int_or v d = (case v of None \<Rightarrow> d | Some n \<Rightarrow> if n = 0 then d else n)"

definition row_to_delivery :: "delivery_row \<Rightarrow> delivery" where
  "row_to_delivery r = (let m = dr_meta r in
     \<lparr>dv_row = r, dv_id = dr_id r,
      dv_user = (case dr_user r of None \<Rightarrow> [] | Some u \<Rightarrow> if u = 0 then [] else show_int u),
      dv_report = text_or (dr_report r) [],
      dv_status = py_upper (text_or (md_status m) (fallback_status (dr_status r))),
      dv_trigger = text_or (md_trigger m) ''report_completed'',
      dv_template = text_or (md_template m) ''report_completed'',
      dv_version = text_or (md_version m) ''v1'',
      dv_payload = metadata_dict (md_payload m),
      dv_attempts = int_or (md_attempts m) 0, dv_max = int_or (md_max m) 1\<rparr>)"

section \<open>Statements\<close>

definition db_failed :: app_error where "db_failed = App 503 ''db_query_failed''"
definition outbox_unavailable :: app_error where "outbox_unavailable = App 503 ''email_delivery_outbox_unavailable''"
definition stale_claim :: app_error where "stale_claim = App 409 ''email_delivery_outbox_stale_claim''"

definition statement :: "fault \<Rightarrow> (delivery_rows \<Rightarrow> 'a \<times> delivery_rows) \<Rightarrow> delivery_rows \<Rightarrow> ('a, delivery_rows) app" where
  "statement f c rows = fail_as db_failed (send f c rows)"

text \<open>\<open>UPDATE ... WHERE ... RETURNING *\<close> on at most one row, the identifier being the primary key.\<close>

definition update_row ::
  "(delivery_row \<Rightarrow> bool) \<Rightarrow> (delivery_row \<Rightarrow> delivery_row) \<Rightarrow> delivery_rows \<Rightarrow> delivery_row option \<times> delivery_rows" where
  "update_row p g rows =
     (map_option g (find p rows), map (\<lambda>r. if p r then g r else r) rows)"

text \<open>\<open>ORDER BY ... FOR UPDATE SKIP LOCKED LIMIT 1\<close>.\<close>

definition candidate ::
  "(delivery_row \<Rightarrow> 'k::linorder) \<Rightarrow> (delivery_row \<Rightarrow> bool) \<Rightarrow> string list \<Rightarrow> delivery_rows \<Rightarrow> string option" where
  "candidate key p locked rows =
     (case sort_key key (filter (\<lambda>r. p r \<and> dr_id r \<notin> set locked) rows) of
        [] \<Rightarrow> None | r # rs \<Rightarrow> Some (dr_id r))"

definition in_scope :: "string option \<Rightarrow> delivery_row \<Rightarrow> bool" where
  "in_scope scope r = (case scope of None \<Rightarrow> True | Some i \<Rightarrow> dr_id r = i)"

definition update_candidate ::
  "string option \<Rightarrow> (delivery_row \<Rightarrow> delivery_row) \<Rightarrow> delivery_rows \<Rightarrow> delivery_row option \<times> delivery_rows" where
  "update_candidate i g rows = (case i of None \<Rightarrow> (None, rows) | Some d \<Rightarrow> update_row (\<lambda>r. dr_id r = d) g rows)"

section \<open>Creating a delivery\<close>

record delivery_request =                      \<comment> \<open>EmailDeliveryCreateRequest\<close>
  rq_user :: string
  rq_report :: string
  rq_trigger :: string
  rq_template :: string
  rq_version :: string
  rq_recipient :: string
  rq_key :: string
  rq_payload :: "(string, pyval) dict"
  rq_provider :: string
  rq_max :: int
  rq_available :: "int option"
  rq_correlation :: "string option"

definition build_email_delivery_idempotency_key :: "int \<Rightarrow> string \<Rightarrow> string \<Rightarrow> string \<Rightarrow> string" where
  "build_email_delivery_idempotency_key user report trigger version =
     ''report-email:'' @ show_int user @ '':'' @ report @ '':'' @ trigger @ '':'' @ version"

definition deterministic_delivery_id :: "(string \<Rightarrow> string) \<Rightarrow> string \<Rightarrow> string" where
  "deterministic_delivery_id uuid5 key = uuid5 (''quantagent-email:'' @ key)"

definition get_delivery :: "fault \<Rightarrow> string \<Rightarrow> delivery_rows \<Rightarrow> (delivery option, delivery_rows) app" where
  "get_delivery f i rows =
     statement f (\<lambda>rows. (map_option row_to_delivery (find (\<lambda>r. dr_id r = i) rows), rows)) rows"

definition new_metadata :: "int \<Rightarrow> delivery_request \<Rightarrow> metadata" where
  "new_metadata now q =
     \<lparr>md_status = Some ''PENDING'', md_trigger = Some (rq_trigger q), md_template = Some (rq_template q),
      md_version = Some (rq_version q), md_key = Some (rq_key q), md_payload = PDict (rq_payload q),
      md_attempts = Some 0, md_max = Some (rq_max q), md_available = Some (iso_instant now (rq_available q)),
      md_correlation = rq_correlation q, md_token = None, md_expires = None, md_claimed_by = None,
      md_provider_submission = None, md_provider_delivery = None, md_checked = None, md_event = None,
      md_source = None, md_failure = None, md_last = None\<rparr>"

text \<open>What a column of type \<open>text\<close> accepts, and the cast of the user to \<open>bigint\<close>.\<close>

definition text_column :: "pyval \<Rightarrow> string option option" where
  "text_column v = (case v of PNone \<Rightarrow> Some None | PStr s \<Rightarrow> Some (Some s) | _ \<Rightarrow> None)"

definition new_row :: "(string \<Rightarrow> string) \<Rightarrow> int \<Rightarrow> delivery_request \<Rightarrow> delivery_row option" where
  "new_row uuid5 now q =
     (case (int_of_text (rq_user q), text_column (pget (rq_payload q) ''strategyId'')) of
        (Some user, Some strategy) \<Rightarrow> Some
          \<lparr>dr_id = deterministic_delivery_id uuid5 (rq_key q), dr_user = Some user, dr_report = Some (rq_report q),
           dr_strategy = strategy, dr_recipient = rq_recipient q, dr_status = DB_draft, dr_sent = None,
           dr_provider = Some (rq_provider q), dr_message = None, dr_error = None,
           dr_meta = new_metadata now q, dr_created = now\<rparr>
      | _ \<Rightarrow> None)"

text \<open>\<open>INSERT ... ON CONFLICT (delivery_id) DO NOTHING RETURNING *\<close>.\<close>

definition insert_row :: "delivery_row \<Rightarrow> delivery_rows \<Rightarrow> delivery_row option \<times> delivery_rows" where
  "insert_row r rows =
     (if find (\<lambda>x. dr_id x = dr_id r) rows = None then (Some r, rows @ [r]) else (None, rows))"

text \<open>The answer says whether the row was created by this call.\<close>

definition create_or_get_delivery ::
  "(string \<Rightarrow> string) \<Rightarrow> (nat \<Rightarrow> fault) \<Rightarrow> int \<Rightarrow> delivery_request \<Rightarrow> delivery_rows \<Rightarrow> (delivery \<times> bool, delivery_rows) app" where
  "create_or_get_delivery uuid5 f now q rows =
     (case new_row uuid5 now q of
        None \<Rightarrow> (Inl db_failed, rows)
      | Some r \<Rightarrow>
          app_bind (statement (f 0) (insert_row r) rows) (\<lambda>created rows.
            case created of
              Some x \<Rightarrow> (Inr (row_to_delivery x, True), rows)
            | None \<Rightarrow>
                app_bind (get_delivery (f 1) (dr_id r) rows) (\<lambda>found rows.
                  case found of
                    None \<Rightarrow> (Inl outbox_unavailable, rows)
                  | Some d \<Rightarrow> (Inr (d, False), rows))))"

section \<open>Requeueing\<close>

definition status_of :: "delivery_row \<Rightarrow> string" where
  "status_of r = (case md_status (dr_meta r) of None \<Rightarrow> py_upper (db_status_text (dr_status r)) | Some s \<Rightarrow> s)"

definition second :: int where "second = 1000000"

definition requeueable :: "string \<Rightarrow> int \<Rightarrow> int \<Rightarrow> delivery_row \<Rightarrow> bool" where
  "requeueable i cooldown now r =
     (dr_id r = i \<and> status_of r \<in> {''SENT'', ''FAILED'', ''CANCELLED''}
      \<and> last_event r \<le> now - max 0 cooldown * second)"

definition requeued_row :: "string option \<Rightarrow> pyval \<Rightarrow> int \<Rightarrow> delivery_row \<Rightarrow> delivery_row" where
  "requeued_row recipient payload now r = r
     \<lparr>dr_status := DB_draft, dr_error := None, dr_sent := None, dr_message := None,
      dr_recipient := (case recipient of None \<Rightarrow> dr_recipient r | Some e \<Rightarrow> e),
      dr_meta := (dr_meta r)
        \<lparr>md_status := Some ''PENDING'', md_attempts := Some 0, md_available := Some now,
         md_payload := (if payload = PNone then md_payload (dr_meta r) else payload),
         md_token := None, md_expires := None, md_claimed_by := None,
         md_provider_submission := None, md_provider_delivery := None, md_checked := None,
         md_event := None, md_source := None, md_failure := None, md_last := Some now\<rparr>\<rparr>"

definition requeue_delivery ::
  "fault \<Rightarrow> int \<Rightarrow> string \<Rightarrow> string option \<Rightarrow> pyval \<Rightarrow> int \<Rightarrow> delivery_rows \<Rightarrow> (delivery option, delivery_rows) app" where
  "requeue_delivery f now i recipient payload cooldown rows =
     app_bind (statement f (update_row (requeueable i cooldown now) (requeued_row recipient payload now)) rows)
       (\<lambda>r rows. (Inr (map_option row_to_delivery r), rows))"

section \<open>Claims\<close>

definition expired_claim :: "int \<Rightarrow> string option \<Rightarrow> delivery_row \<Rightarrow> bool" where
  "expired_claim now scope r =
     (dr_status r = DB_draft \<and> md_status (dr_meta r) = Some ''PROCESSING''
      \<and> (case md_expires (dr_meta r) of None \<Rightarrow> False | Some t \<Rightarrow> t \<le> now) \<and> in_scope scope r)"

definition released_row :: "int \<Rightarrow> delivery_row \<Rightarrow> delivery_row" where
  "released_row now r =
     (let spent = max_attempts_of r \<le> attempts_of r in
      r\<lparr>dr_status := (if spent then DB_failed else DB_draft), dr_error := Some ''claim_expired'',
        dr_meta := (dr_meta r)
          \<lparr>md_status := Some (if spent then ''FAILED'' else ''RETRY_PENDING''), md_available := Some now,
           md_token := None, md_expires := None, md_claimed_by := None,
           md_failure := Some ''claim_expired'', md_last := Some now\<rparr>\<rparr>)"

definition release_one :: "int \<Rightarrow> string option \<Rightarrow> string list \<Rightarrow> delivery_rows \<Rightarrow> delivery_row option \<times> delivery_rows" where
  "release_one now scope locked rows =
     update_candidate (candidate (\<lambda>r. (dr_created r, dr_id r)) (expired_claim now scope) locked rows)
       (released_row now) rows"

definition claimable_row :: "int \<Rightarrow> string option \<Rightarrow> delivery_row \<Rightarrow> bool" where
  "claimable_row now scope r =
     (dr_status r = DB_draft \<and> md_status (dr_meta r) \<in> {Some ''PENDING'', Some ''RETRY_PENDING''}
      \<and> (case md_available (dr_meta r) of None \<Rightarrow> False | Some t \<Rightarrow> t \<le> now)
      \<and> attempts_of r < max_attempts_of r \<and> in_scope scope r)"

definition claimed_row :: "int \<Rightarrow> int \<Rightarrow> string \<Rightarrow> string \<Rightarrow> delivery_row \<Rightarrow> delivery_row" where
  "claimed_row now ttl worker token r = r
     \<lparr>dr_meta := (dr_meta r)
        \<lparr>md_status := Some ''PROCESSING'', md_attempts := Some (attempts_of r + 1), md_token := Some token,
         md_expires := Some (now + max 1 ttl * second), md_claimed_by := Some worker, md_last := Some now\<rparr>\<rparr>"

definition due_order :: "delivery_row \<Rightarrow> int \<times> int \<times> string" where
  "due_order r = (case md_available (dr_meta r) of None \<Rightarrow> 0 | Some t \<Rightarrow> t, dr_created r, dr_id r)"

definition claim_one ::
  "int \<Rightarrow> string option \<Rightarrow> string list \<Rightarrow> int \<Rightarrow> string \<Rightarrow> string \<Rightarrow> delivery_rows \<Rightarrow> delivery_row option \<times> delivery_rows" where
  "claim_one now scope locked ttl worker token rows =
     update_candidate (candidate due_order (claimable_row now scope) locked rows)
       (claimed_row now ttl worker token) rows"

definition claim_next_delivery ::
  "fault \<Rightarrow> int \<Rightarrow> string option \<Rightarrow> string list \<Rightarrow> int \<Rightarrow> string \<Rightarrow> string \<Rightarrow> delivery_rows \<Rightarrow> (delivery option, delivery_rows) app" where
  "claim_next_delivery f now scope locked ttl worker token rows =
     app_bind (statement f (claim_one now scope locked ttl worker token) rows)
       (\<lambda>r rows. (Inr (map_option row_to_delivery r), rows))"

text \<open>
  The loop of \<open>release_expired_claims\<close>: each round releases one row, so the number of rows being
  processed bounds the number of rounds.
\<close>

definition processing_count :: "delivery_rows \<Rightarrow> nat" where
  "processing_count rows = length (filter (\<lambda>r. md_status (dr_meta r) = Some ''PROCESSING'') rows)"

lemma released_not_processing: "md_status (dr_meta (released_row now r)) \<noteq> Some ''PROCESSING''"
  by (simp add: released_row_def Let_def)

lemma candidate_SomeD:
  assumes "candidate key p locked rows = Some i"
  obtains r where "r \<in> set rows" "p r" "dr_id r = i" "i \<notin> set locked"
    "\<forall>x\<in>set rows. p x \<and> dr_id x \<notin> set locked \<longrightarrow> key r \<le> key x"
proof -
  let ?xs = "sort_key key (filter (\<lambda>r. p r \<and> dr_id r \<notin> set locked) rows)"
  obtain r rs where xs: "?xs = r # rs" "dr_id r = i"
    using assms by (auto simp: candidate_def split: list.splits)
  then have r: "r \<in> set ?xs" by simp
  have "sorted (map key ?xs)" by simp
  with xs(1) have "\<forall>x\<in>set ?xs. key r \<le> key x" by (metis (no_types, lifting) dual_order.refl image_eqI list.set_map list.simps(9) set_ConsD sorted_simps(2))
  with r xs(2) show thesis by (intro that[of r]) auto
qed

lemma candidate_NoneD: "candidate key p locked rows = None \<Longrightarrow> x \<in> set rows \<Longrightarrow> p x \<Longrightarrow> dr_id x \<in> set locked"
  unfolding candidate_def by (auto split: list.splits) (metis (mono_tags, lifting) empty_iff list.set(1) mem_Collect_eq set_filter set_sort)

lemma length_filter_map_less:
  assumes "x \<in> set xs" and "P x" and "\<not> P (g x)" and "\<And>y. y \<in> set xs \<Longrightarrow> P (g y) \<Longrightarrow> P y"
  shows "length (filter P (map g xs)) < length (filter P xs)"
  using assms
proof (induction xs)
  case (Cons y ys)
  have "\<forall>z\<in>set ys. P (g z) \<longrightarrow> P z" using Cons.prems(4) by simp
  then have le: "length (filter P (map g ys)) \<le> length (filter P ys)"
    by (induction ys) auto
  show ?case
  proof (cases "x = y")
    case True
    with Cons.prems(2,3) le show ?thesis by simp
  next
    case False
    with Cons have "length (filter P (map g ys)) < length (filter P ys)" by auto
    then show ?thesis using Cons.prems(4)[of y] by auto
  qed
qed simp

lemma release_one_count:
  assumes "release_one now scope locked rows = (Some r, rows')"
  shows "processing_count rows' < processing_count rows"
proof -
  obtain i where c: "candidate (\<lambda>r. (dr_created r, dr_id r)) (expired_claim now scope) locked rows = Some i"
    and rows': "rows' = map (\<lambda>r. if dr_id r = i then released_row now r else r) rows"
    using assms by (auto simp: release_one_def update_candidate_def update_row_def split: option.splits)
  from c obtain x where x: "x \<in> set rows" "expired_claim now scope x" "dr_id x = i" by (rule candidate_SomeD)
  show ?thesis unfolding processing_count_def rows'
    by (rule length_filter_map_less[OF x(1)])
       (use x released_not_processing in \<open>auto simp: expired_claim_def split: if_splits\<close>)
qed

lemma statement_Inr: "statement f c rows = (Inr x, rows') \<Longrightarrow> c rows = (x, rows')"
  by (cases f) (auto simp: statement_def send_def fail_as_def)

function release_expired_claims ::
  "(nat \<Rightarrow> fault) \<Rightarrow> (nat \<Rightarrow> string list) \<Rightarrow> int \<Rightarrow> string option \<Rightarrow> delivery_rows \<Rightarrow> (delivery list, delivery_rows) app" where
  "release_expired_claims f locked now scope rows =
     (case statement (f 0) (release_one now scope (locked 0)) rows of
        (Inl e, rows') \<Rightarrow> (Inl e, rows')
      | (Inr None, rows') \<Rightarrow> (Inr [], rows')
      | (Inr (Some r), rows') \<Rightarrow>
          (case release_expired_claims (\<lambda>n. f (Suc n)) (\<lambda>n. locked (Suc n)) now scope rows' of
             (Inl e, rows'') \<Rightarrow> (Inl e, rows'')
           | (Inr ds, rows'') \<Rightarrow> (Inr (row_to_delivery r # ds), rows'')))"
  by pat_completeness auto

termination
proof (relation "measure (\<lambda>(f, locked, now, scope, rows). processing_count rows)")
qed (auto dest!: sym[of "(Inr _, _)"] statement_Inr release_one_count)

declare release_expired_claims.simps [simp del]

section \<open>Settling a claim\<close>

definition held_by :: "string \<Rightarrow> string \<Rightarrow> delivery_row \<Rightarrow> bool" where
  "held_by i token r =
     (dr_id r = i \<and> md_status (dr_meta r) = Some ''PROCESSING'' \<and> md_token (dr_meta r) = Some token)"

definition settle ::
  "fault \<Rightarrow> string \<Rightarrow> string \<Rightarrow> (delivery_row \<Rightarrow> delivery_row) \<Rightarrow> delivery_rows \<Rightarrow> (delivery, delivery_rows) app" where
  "settle f i token g rows =
     app_bind (statement f (update_row (held_by i token) g) rows) (\<lambda>r rows.
       case r of None \<Rightarrow> (Inl stale_claim, rows) | Some x \<Rightarrow> (Inr (row_to_delivery x), rows))"

definition sent_row :: "int \<Rightarrow> string option \<Rightarrow> delivery_row \<Rightarrow> delivery_row" where
  "sent_row now message r = r
     \<lparr>dr_status := DB_sent, dr_sent := Some now, dr_message := message, dr_error := None,
      dr_meta := (dr_meta r)
        \<lparr>md_status := Some ''SENT'', md_provider_submission := Some ''accepted'',
         md_provider_delivery := Some ''pending'', md_checked := Some now, md_event := None,
         md_source := Some ''provider_response'', md_token := None, md_expires := None,
         md_claimed_by := None, md_failure := None, md_last := Some now\<rparr>\<rparr>"

definition mark_sent :: "fault \<Rightarrow> int \<Rightarrow> string \<Rightarrow> string \<Rightarrow> string option \<Rightarrow> delivery_rows \<Rightarrow> (delivery, delivery_rows) app" where
  "mark_sent f now i token message rows = settle f i token (sent_row now message) rows"

definition retry_row ::
  "redaction \<Rightarrow> int \<Rightarrow> int \<Rightarrow> string option \<Rightarrow> string option \<Rightarrow> string option \<Rightarrow> delivery_row \<Rightarrow> delivery_row" where
  "retry_row redact now available code text message r =
     (let left = attempts_of r < max_attempts_of r in
      r\<lparr>dr_status := (if left then DB_draft else DB_failed), dr_message := coalesce message (dr_message r),
        dr_error := safe_error redact text,
        dr_meta := (dr_meta r)
          \<lparr>md_status := Some (if left then ''RETRY_PENDING'' else ''FAILED''), md_available := Some available,
           md_token := None, md_expires := None, md_claimed_by := None,
           md_failure := Some (normalize_error_code code), md_last := Some now\<rparr>\<rparr>)"

definition mark_retry_pending ::
  "redaction \<Rightarrow> fault \<Rightarrow> int \<Rightarrow> string \<Rightarrow> string \<Rightarrow> int \<Rightarrow> string option \<Rightarrow> string option \<Rightarrow> string option \<Rightarrow>
     delivery_rows \<Rightarrow> (delivery, delivery_rows) app" where
  "mark_retry_pending redact f now i token available code text message rows =
     settle f i token (retry_row redact now available code text message) rows"

definition failed_row ::
  "redaction \<Rightarrow> int \<Rightarrow> string option \<Rightarrow> string option \<Rightarrow> string option \<Rightarrow> delivery_row \<Rightarrow> delivery_row" where
  "failed_row redact now code text message r = r
     \<lparr>dr_status := DB_failed, dr_message := coalesce message (dr_message r), dr_error := safe_error redact text,
      dr_meta := (dr_meta r)
        \<lparr>md_status := Some ''FAILED'', md_token := None, md_expires := None, md_claimed_by := None,
         md_failure := Some (normalize_error_code code), md_last := Some now\<rparr>\<rparr>"

definition mark_failed ::
  "redaction \<Rightarrow> fault \<Rightarrow> int \<Rightarrow> string \<Rightarrow> string \<Rightarrow> string option \<Rightarrow> string option \<Rightarrow> string option \<Rightarrow>
     delivery_rows \<Rightarrow> (delivery, delivery_rows) app" where
  "mark_failed redact f now i token code text message rows =
     settle f i token (failed_row redact now code text message) rows"

definition cancelled_row :: "redaction \<Rightarrow> int \<Rightarrow> string option \<Rightarrow> string option \<Rightarrow> delivery_row \<Rightarrow> delivery_row" where
  "cancelled_row redact now code text r = r
     \<lparr>dr_status := DB_failed, dr_error := safe_error redact text,
      dr_meta := (dr_meta r)
        \<lparr>md_status := Some ''CANCELLED'', md_token := None, md_expires := None, md_claimed_by := None,
         md_failure := Some (normalize_error_code code), md_last := Some now\<rparr>\<rparr>"

definition mark_cancelled ::
  "redaction \<Rightarrow> fault \<Rightarrow> int \<Rightarrow> string \<Rightarrow> string \<Rightarrow> string option \<Rightarrow> string option \<Rightarrow>
     delivery_rows \<Rightarrow> (delivery, delivery_rows) app" where
  "mark_cancelled redact f now i token code text rows =
     settle f i token (cancelled_row redact now code text) rows"

section \<open>Readiness\<close>

record readiness =
  rd_due :: int
  rd_processing :: int
  rd_stale :: int
  rd_outcome :: string

definition due_row :: "int \<Rightarrow> delivery_row \<Rightarrow> bool" where
  "due_row now r =
     (dr_status r = DB_draft \<and> md_status (dr_meta r) \<in> {Some ''PENDING'', Some ''RETRY_PENDING''}
      \<and> (case md_available (dr_meta r) of None \<Rightarrow> False | Some t \<Rightarrow> t \<le> now))"

definition outcome_of :: "delivery_row \<Rightarrow> string" where
  "outcome_of r =
     (case md_failure (dr_meta r) of Some s \<Rightarrow> if s \<noteq> [] then s else text_or (map_option py_lower (md_status (dr_meta r))) (db_status_text (dr_status r))
      | None \<Rightarrow> text_or (map_option py_lower (md_status (dr_meta r))) (db_status_text (dr_status r)))"

text \<open>The newest row; of several with one time stamp, the first of the table.\<close>

definition latest_row :: "delivery_rows \<Rightarrow> delivery_row option" where
  "latest_row rows = (case sort_key (\<lambda>r. - last_event r) rows of [] \<Rightarrow> None | r # rs \<Rightarrow> Some r)"

definition get_queue_readiness_snapshot :: "(nat \<Rightarrow> fault) \<Rightarrow> int \<Rightarrow> delivery_rows \<Rightarrow> (readiness, delivery_rows) app" where
  "get_queue_readiness_snapshot f now rows =
     app_bind (statement (f 0) (\<lambda>rows.
         ((int (length (filter (due_row now) rows)),
           int (length (filter (\<lambda>r. dr_status r = DB_draft \<and> md_status (dr_meta r) = Some ''PROCESSING'') rows)),
           int (length (filter (expired_claim now None) rows))), rows)) rows) (\<lambda>(due, busy, stale) rows.
       app_bind (statement (f 1) (\<lambda>rows. (latest_row rows, rows)) rows) (\<lambda>newest rows.
         (Inr \<lparr>rd_due = due, rd_processing = busy, rd_stale = stale,
               rd_outcome = (case newest of None \<Rightarrow> ''none'' | Some r \<Rightarrow> normalize_error_code (Some (outcome_of r)))\<rparr>, rows)))"

end
