(* ===== verification/Em_Delivery.thy ===== *)
theory Em_Delivery
  imports Em_Outbox
begin

text \<open>
  Who gets a report by e-mail, and what it says: the settings of the rollout (\<open>config.py\<close>), the
  decision and the request of \<open>services/email_delivery.py\<close>, and the text of
  \<open>services/email_templates.py\<close>.  Texts are byte strings in UTF-8; what the context query returns and
  the link to unsubscribe are arguments.
\<close>

section \<open>Settings\<close>

record email_settings =
  es_enabled :: bool                          \<comment> \<open>email_delivery_enabled\<close>
  es_trigger :: bool                          \<comment> \<open>email_report_completed_trigger_enabled\<close>
  es_worker :: bool                           \<comment> \<open>email_delivery_worker_enabled\<close>
  es_mode :: string                           \<comment> \<open>email_rollout_mode\<close>
  es_mode_set :: bool                         \<comment> \<open>the mode is in \<open>model_fields_set\<close>\<close>
  es_live_send :: bool                        \<comment> \<open>email_local_live_send_enabled\<close>
  es_allowlist :: string
  es_provider :: string
  es_api_key :: "string option"
  es_from_address :: "string option"
  es_from_name :: string
  es_public_url :: "string option"
  es_unsubscribe :: bool
  es_max_attempts :: int
  es_cooldown :: int
  es_retry_base :: int
  es_lease :: int
  es_batch :: int

definition email_effective_rollout_mode :: "email_settings \<Rightarrow> string" where
  "email_effective_rollout_mode cfg =
     (if \<not> es_mode_set cfg \<and> es_mode cfg = ''disabled'' \<and> es_live_send cfg then ''allowlist'' else es_mode cfg)"

text \<open>\<open>str.split\<close> at a separator.\<close>

fun split_at :: "char \<Rightarrow> string \<Rightarrow> string list" where
  "split_at c [] = [[]]"
| "split_at c (x # xs) =
     (if x = c then [] # split_at c xs
      else (case split_at c xs of [] \<Rightarrow> [[x]] | w # ws \<Rightarrow> (x # w) # ws))"

definition split_csv :: "string \<Rightarrow> string list" where
  "split_csv raw = (if raw = [] then [] else filter (\<lambda>s. s \<noteq> []) (map py_strip (split_at (CHR '','') raw)))"

definition allowlist_values :: "email_settings \<Rightarrow> string list" where
  "allowlist_values cfg = split_csv (es_allowlist cfg)"

section \<open>The decision\<close>

record report_context =
  rc_user :: "string option"
  rc_report :: "string option"
  rc_recipient :: "string option"
  rc_user_email :: "string option"
  rc_daily :: bool
  rc_action :: bool
  rc_status :: "string option"
  rc_title :: "string option"
  rc_summary :: "string option"
  rc_name :: "string option"
  rc_published :: "string option"             \<comment> \<open>the text of the time stamp\<close>
  rc_strategy :: "string option"
  rc_strategy_name :: "string option"

record decision =                              \<comment> \<open>EmailDeliveryEligibilityDecision\<close>
  ed_allowed :: bool
  ed_reason :: string
  ed_message :: string
  ed_user :: "string option"
  ed_report :: "string option"
  ed_recipient :: "string option"
  ed_payload :: "(string, pyval) dict"

definition normalize_text :: "string option \<Rightarrow> string option" where
  "normalize_text v = (case v of None \<Rightarrow> None
     | Some s \<Rightarrow> let t = py_strip s in if t = [] then None else Some t)"

definition SENDABLE_REPORT_STATUSES :: "string list" where
  "SENDABLE_REPORT_STATUSES = [''completed'', ''published'', ''sent'']"

definition POLICY_SKIP_REASON_CODES :: "string list" where
  "POLICY_SKIP_REASON_CODES =
     [''delivery_disabled'', ''rollout_disabled'', ''trigger_disabled'', ''recipient_not_allowlisted'',
      ''daily_report_email_disabled'', ''action_emails_disabled'', ''report_not_sendable'']"

definition refuse :: "string \<Rightarrow> string \<Rightarrow> decision" where
  "refuse reason message =
     \<lparr>ed_allowed = False, ed_reason = reason, ed_message = message, ed_user = None, ed_report = None,
      ed_recipient = None, ed_payload = []\<rparr>"

definition opt_text :: "string option \<Rightarrow> pyval" where
  "opt_text v = (case v of None \<Rightarrow> PNone | Some s \<Rightarrow> PStr s)"

definition eligible_payload :: "report_context \<Rightarrow> (string, pyval) dict" where
  "eligible_payload c =
     [(''reportTitle'', opt_text (normalize_text (rc_title c))),
      (''reportSummary'', opt_text (normalize_text (rc_summary c))),
      (''userName'', opt_text (normalize_text (rc_name c))),
      (''publishedAt'', opt_text (normalize_text (rc_published c))),
      (''strategyId'', opt_text (normalize_text (rc_strategy c))),
      (''strategyName'', opt_text (normalize_text (rc_strategy_name c)))]"

definition resolve_report_completed_delivery_eligibility :: "email_settings \<Rightarrow> report_context option \<Rightarrow> decision" where
  "resolve_report_completed_delivery_eligibility cfg context =
     (if \<not> es_enabled cfg then refuse ''delivery_disabled'' ''Email delivery is disabled''
      else if email_effective_rollout_mode cfg = ''disabled'' then refuse ''rollout_disabled'' ''Email rollout is disabled''
      else if \<not> es_trigger cfg then refuse ''trigger_disabled'' ''Report-completion email trigger is disabled''
      else case context of
        None \<Rightarrow> refuse ''report_or_user_missing'' ''User or report was not found''
      | Some c \<Rightarrow>
          let user = normalize_text (rc_user c); report = normalize_text (rc_report c);
              recipient = coalesce (normalize_text (rc_recipient c)) (normalize_text (rc_user_email c));
              no = (\<lambda>reason message. (refuse reason message)\<lparr>ed_user := user, ed_report := report\<rparr>)
          in case recipient of
            None \<Rightarrow> no ''recipient_missing'' ''User email is not available''
          | Some e \<Rightarrow>
              if email_effective_rollout_mode cfg = ''allowlist''
                 \<and> py_lower e \<notin> set (map py_lower (allowlist_values cfg))
              then no ''recipient_not_allowlisted'' ''Recipient is not eligible for the controlled rollout''
              else if \<not> rc_daily c
              then (no ''daily_report_email_disabled'' ''Notification settings do not permit report emails'')\<lparr>ed_recipient := Some e\<rparr>
              else if \<not> rc_action c
              then (no ''action_emails_disabled'' ''Notification settings do not permit action emails'')\<lparr>ed_recipient := Some e\<rparr>
              else if normalize_text (rc_status c) \<notin> Some ` set SENDABLE_REPORT_STATUSES
              then (no ''report_not_sendable'' ''Report is not in a sendable state'')\<lparr>ed_recipient := Some e\<rparr>
              else \<lparr>ed_allowed = True, ed_reason = ''eligible'', ed_message = ''Report delivery is eligible'',
                    ed_user = user, ed_report = report, ed_recipient = Some e, ed_payload = eligible_payload c\<rparr>)"

section \<open>The text of the message\<close>

text \<open>\<open>html.escape\<close>, \<open>" ".join(s.split())\<close> and \<open>urllib.parse.quote(s, safe='')\<close>.\<close>

fun escape_char :: "char \<Rightarrow> string" where
  "escape_char c =
     (if c = CHR ''&'' then ''&amp;'' else if c = CHR ''<'' then ''&lt;'' else if c = CHR ''>'' then ''&gt;''
      else if c = CHR 0x22 then ''&quot;'' else if c = CHR 0x27 then ''&#x27;'' else [c])"

definition html_escape :: "string \<Rightarrow> string" where
  "html_escape s = concat (map escape_char s)"

fun words_from :: "string \<Rightarrow> string \<Rightarrow> string list" where
  "words_from w [] = (if w = [] then [] else [rev w])"
| "words_from w (c # cs) =
     (if is_space c then (if w = [] then words_from [] cs else rev w # words_from [] cs)
      else words_from (c # w) cs)"

definition split_words :: "string \<Rightarrow> string list" where
  "split_words s = words_from [] s"

definition normalize_inline_text :: "string option \<Rightarrow> string \<Rightarrow> string" where
  "normalize_inline_text v d =
     (let t = py_strip (join_with '' '' (split_words (text_or v d))) in if t = [] then d else t)"

definition unreserved :: "char \<Rightarrow> bool" where
  "unreserved c = (alnum_char c \<or> c \<in> set ''_.-~'')"

definition upper_hex :: "nat \<Rightarrow> char" where
  "upper_hex n = (if n < 10 then char_of (48 + n) else char_of (55 + n))"

definition quote_char :: "char \<Rightarrow> string" where
  "quote_char c = (if unreserved c then [c]
     else let n = of_char c in [CHR ''%'', upper_hex (n div 16), upper_hex (n mod 16)])"

definition url_quote :: "string \<Rightarrow> string" where
  "url_quote s = concat (map quote_char s)"

text \<open>The scheme and the authority of an absolute URL (\<open>urlsplit\<close>); \<open>None\<close> where it raises \<open>ValueError\<close>.\<close>

definition scheme_char :: "char \<Rightarrow> bool" where
  "scheme_char c = (alnum_char c \<or> c \<in> set ''+-.'')"

definition url_scheme :: "string \<Rightarrow> string \<times> string" where
  "url_scheme s =
     (let w = takeWhile (\<lambda>c. c \<noteq> CHR '':'') s in
      if w = s \<or> w = [] \<or> digit_char (hd w) \<or> \<not> alnum_char (hd w) \<or> \<not> list_all scheme_char w then ([], s)
      else (py_lower w, drop (Suc (length w)) s))"

definition url_clean :: "string \<Rightarrow> string" where
  "url_clean s = filter (\<lambda>c. c \<noteq> CHR 0x09 \<and> c \<noteq> CHR 0x0A \<and> c \<noteq> CHR 0x0D) (dropWhile (\<lambda>c. (of_char c :: nat) \<le> 32) s)"

definition url_authority :: "string \<Rightarrow> string \<times> string" where
  "url_authority s =
     (case url_scheme (url_clean s) of (scheme, rest) \<Rightarrow>
        (scheme, if take 2 rest = ''//'' then takeWhile (\<lambda>c. c \<notin> set ''/?#'') (drop 2 rest) else []))"

definition rstrip_slashes :: "string \<Rightarrow> string" where
  "rstrip_slashes s = rev (dropWhile (\<lambda>c. c = CHR ''/'') (rev s))"

text \<open>The user information of an authority: what stands before the last \<open>@\<close>, cut at the first colon.\<close>

definition has_credentials :: "string \<Rightarrow> bool" where
  "has_credentials authority = (case rsplit_last (CHR ''@'') authority of None \<Rightarrow> False
     | Some (info, host) \<Rightarrow> takeWhile (\<lambda>c. c \<noteq> CHR '':'') info \<noteq> [] \<or> tl (dropWhile (\<lambda>c. c \<noteq> CHR '':'') info) \<noteq> [])"

definition public_report_url :: "string \<Rightarrow> string \<Rightarrow> string res" where
  "public_report_url public report =
     (let base = rstrip_slashes (py_strip public) in
      if base = [] then Inl (ValueError ''public_base_url is required'')
      else case url_authority base of (scheme, authority) \<Rightarrow>
        if scheme \<notin> {''http'', ''https''} \<or> authority = [] \<or> has_credentials authority
        then Inl (ValueError ''public_base_url must be an absolute http(s) URL without credentials'')
        else Inr (base @ ''/me/email-reports/'' @ url_quote report))"

definition newline :: string where "newline = [CHR 0x0A]"
definition dquote :: string where "dquote = [CHR 0x22]"

record template =                              \<comment> \<open>EmailTemplateRenderResult\<close>
  et_subject :: string
  et_html :: string
  et_text :: string

definition html_lines :: "string \<Rightarrow> string \<Rightarrow> string \<Rightarrow> string \<Rightarrow> string option \<Rightarrow> string list" where
  "html_lines name title summary url unsubscribe =
     [''<!doctype html>'', ''<html>'', ''  <body>'',
      ''    <p>Hi '' @ html_escape name @ '',</p>'',
      ''    <p>Your report is ready.</p>'',
      ''    <p><strong>'' @ html_escape title @ ''</strong></p>'',
      ''    <p>'' @ html_escape summary @ ''</p>'',
      ''    <p><a href='' @ dquote @ html_escape url @ dquote @ ''>Open report</a></p>'']
     @ (if text_set unsubscribe
        then [''    <p><a href='' @ dquote @ html_escape (the unsubscribe) @ dquote @ ''>Unsubscribe from action emails</a></p>'']
        else [])
     @ [''  </body>'', ''</html>'']"

definition text_lines :: "string \<Rightarrow> string \<Rightarrow> string \<Rightarrow> string \<Rightarrow> string option \<Rightarrow> string list" where
  "text_lines name title summary url unsubscribe =
     [''Hi '' @ name @ '','', [], ''Your report is ready.'', ''Title: '' @ title, ''Summary: '' @ summary,
      ''Open report: '' @ url]
     @ (if text_set unsubscribe then [''Unsubscribe from action emails: '' @ the unsubscribe] else [])"

definition render_report_completed_template ::
  "string \<Rightarrow> string \<Rightarrow> string option \<Rightarrow> string option \<Rightarrow> string \<Rightarrow> string option \<Rightarrow> string option \<Rightarrow> template res" where
  "render_report_completed_template public report title summary recipient name unsubscribe =
     (let t = normalize_inline_text title ''Your report is ready'';
          s = normalize_inline_text summary ''QuantAgent has prepared your report.'';
          n = normalize_inline_text name recipient
      in rbind (public_report_url public report) (\<lambda>url. Inr
        \<lparr>et_subject = ''QuantAgent report ready: '' @ t,
         et_html = join_with newline (html_lines n t s url unsubscribe),
         et_text = join_with newline (text_lines n t s url unsubscribe)\<rparr>))"

section \<open>The request\<close>

text \<open>
  \<open>link\<close> is \<open>build_unsubscribe_url\<close>; it may raise.  The template is built for an allowed decision.
\<close>

definition build_report_completed_template ::
  "email_settings \<Rightarrow> (string \<Rightarrow> app_error + string) \<Rightarrow> report_context \<Rightarrow> decision \<Rightarrow> app_error + template" where
  "build_report_completed_template cfg link c d =
     (case normalize_text (es_public_url cfg) of
        None \<Rightarrow> Inl (App 503 ''email_public_base_url_missing'')
      | Some public \<Rightarrow>
          if \<not> ed_allowed d \<or> \<not> text_set (ed_recipient d) \<or> \<not> text_set (ed_report d)
          then Inl (App 503 ''email_delivery_not_eligible'')
          else rbind (if es_unsubscribe cfg \<and> text_set (ed_user d)
                      then rbind (link (the (ed_user d))) (\<lambda>u. Inr (Some u)) else Inr None)
            (\<lambda>unsubscribe.
              case render_report_completed_template public (the (ed_report d)) (normalize_text (rc_title c))
                     (normalize_text (rc_summary c)) (the (ed_recipient d)) (normalize_text (rc_name c)) unsubscribe of
                Inl e \<Rightarrow> Inl (Crash e) | Inr t \<Rightarrow> Inr t))"

definition report_request ::
  "email_settings \<Rightarrow> int \<Rightarrow> int \<Rightarrow> string \<Rightarrow> string option \<Rightarrow> decision \<Rightarrow> template \<Rightarrow> delivery_request" where
  "report_request cfg now user report correlation d t =
     \<lparr>rq_user = show_int user, rq_report = report, rq_trigger = ''report_completed'', rq_template = ''report_completed'',
      rq_version = ''v1'', rq_recipient = text_or (ed_recipient d) [],
      rq_key = build_email_delivery_idempotency_key user report ''report_completed'' ''v1'',
      rq_payload = dupdate (ed_payload d)
        [(''subject'', PStr (et_subject t)), (''htmlBody'', PStr (et_html t)), (''textBody'', PStr (et_text t)),
         (''recipientEmail'', opt_text (ed_recipient d)), (''reportId'', PStr report), (''userId'', PStr (show_int user))],
      rq_provider = py_lower (py_strip (if es_provider cfg = [] then ''brevo'' else es_provider cfg)),
      rq_max = es_max_attempts cfg, rq_available = Some now, rq_correlation = correlation\<rparr>"

text \<open>
  The user is an integer here; \<open>load\<close> is the answer of the context query.  The result is the decision
  and, when it allows the message, the request.
\<close>

definition build_report_completed_delivery_request ::
  "email_settings \<Rightarrow> (string \<Rightarrow> app_error + string) \<Rightarrow> int \<Rightarrow> (int \<Rightarrow> string \<Rightarrow> app_error + report_context option)
     \<Rightarrow> int \<Rightarrow> string \<Rightarrow> string option \<Rightarrow> app_error + decision \<times> delivery_request option" where
  "build_report_completed_delivery_request cfg link now load user report correlation =
     (if \<not> es_enabled cfg \<or> \<not> es_trigger cfg \<or> email_effective_rollout_mode cfg = ''disabled''
      then Inr (resolve_report_completed_delivery_eligibility cfg None, None)
      else rbind (load user report) (\<lambda>context.
        let d = resolve_report_completed_delivery_eligibility cfg context in
        case context of None \<Rightarrow> Inr (d, None)
        | Some c \<Rightarrow>
            if \<not> ed_allowed d then Inr (d, None)
            else rbind (build_report_completed_template cfg link c d) (\<lambda>t.
              let corr = (case correlation of None \<Rightarrow> Some (''report:'' @ report) | Some x \<Rightarrow> Some x)
              in Inr (d, Some (report_request cfg now user report corr d t)))))"

record created_delivery =
  cd_decision :: decision
  cd_request :: "delivery_request option"
  cd_delivery :: "(delivery \<times> bool) option"   \<comment> \<open>the delivery and whether this call created it\<close>

definition create_report_completed_delivery ::
  "(string \<Rightarrow> string) \<Rightarrow> email_settings \<Rightarrow> (string \<Rightarrow> app_error + string) \<Rightarrow> (nat \<Rightarrow> fault) \<Rightarrow> int
     \<Rightarrow> (int \<Rightarrow> string \<Rightarrow> app_error + report_context option) \<Rightarrow> int \<Rightarrow> string \<Rightarrow> string option
     \<Rightarrow> delivery_rows \<Rightarrow> (created_delivery, delivery_rows) app" where
  "create_report_completed_delivery uuid5 cfg link f now load user report correlation rows =
     app_bind (build_report_completed_delivery_request cfg link now load user report correlation, rows) (\<lambda>(d, q) rows.
       case q of None \<Rightarrow> (Inr \<lparr>cd_decision = d, cd_request = None, cd_delivery = None\<rparr>, rows)
       | Some r \<Rightarrow> app_bind (create_or_get_delivery uuid5 f now r rows) (\<lambda>x rows.
           (Inr \<lparr>cd_decision = d, cd_request = Some r, cd_delivery = Some x\<rparr>, rows)))"

section \<open>Sending again\<close>

definition REQUEUEABLE_SUBMISSION_STATUSES :: "string list" where
  "REQUEUEABLE_SUBMISSION_STATUSES = [''SENT'', ''FAILED'', ''CANCELLED'']"

datatype resend_action = Resend_queued | Resend_requeue | Resend_noop | Resend_unavailable

definition resolve_resend_action :: "(delivery \<times> bool) option \<Rightarrow> resend_action" where
  "resolve_resend_action delivery = (case delivery of None \<Rightarrow> Resend_unavailable
     | Some (d, created) \<Rightarrow>
         if created then Resend_queued
         else if py_upper (dv_status d) \<in> set REQUEUEABLE_SUBMISSION_STATUSES then Resend_requeue else Resend_noop)"

definition resend_report_completed_delivery ::
  "(string \<Rightarrow> string) \<Rightarrow> email_settings \<Rightarrow> (string \<Rightarrow> app_error + string) \<Rightarrow> (nat \<Rightarrow> fault) \<Rightarrow> (nat \<Rightarrow> int)
     \<Rightarrow> (int \<Rightarrow> string \<Rightarrow> app_error + report_context option) \<Rightarrow> int \<Rightarrow> string \<Rightarrow> string option
     \<Rightarrow> delivery_rows \<Rightarrow> (created_delivery \<times> resend_action, delivery_rows) app" where
  "resend_report_completed_delivery uuid5 cfg link f now load user report correlation rows =
     app_bind (create_report_completed_delivery uuid5 cfg link f (now 0) load user report correlation rows) (\<lambda>r rows.
       case resolve_resend_action (cd_delivery r) of
         Resend_requeue \<Rightarrow>
           app_bind (requeue_delivery (f 2) (now 1) (dv_id (fst (the (cd_delivery r))))
               (map_option rq_recipient (cd_request r))
               (case cd_request r of None \<Rightarrow> PNone | Some q \<Rightarrow> PDict (rq_payload q)) (es_cooldown cfg) rows)
             (\<lambda>again rows. (Inr (case again of
                 None \<Rightarrow> (r, Resend_noop)
               | Some d \<Rightarrow> (r\<lparr>cd_delivery := Some (d, False)\<rparr>, Resend_queued)), rows))
       | action \<Rightarrow> (Inr (r, action), rows))"

text \<open>The status of the answer of \<open>POST /reports/{id}/resend\<close>.\<close>

definition resend_response :: "created_delivery \<times> resend_action \<Rightarrow> app_error + nat" where
  "resend_response r = (case cd_delivery (fst r) of None \<Rightarrow> Inl (App 409 ''email_resend_unavailable'')
     | Some d \<Rightarrow> Inr (if snd r = Resend_queued then 202 else 204))"

end
