(* ===== verification/Em_Provider.thy ===== *)
theory Em_Provider
  imports Em_Delivery
begin

text \<open>
  The client of the e-mail provider (\<open>services/email_provider.py\<close>): its configuration check with the
  check of the sender's mailbox (\<open>config.py\<close>), the rollout guard on the recipient, the request it
  builds and how it reads the answers.  The provider is not part of the repository: its answers are
  arguments.  Case folding is lower case, as on ASCII.
\<close>

section \<open>Mailboxes\<close>

definition atom_char :: "char \<Rightarrow> bool" where
  "atom_char c = (alnum_char c \<or> c = CHR 0x27 \<or> c = CHR 0x60 \<or> c \<in> set ''!#$%&*+/=?^_{|}~-'')"

definition local_part_ok :: "string \<Rightarrow> bool" where
  "local_part_ok s = list_all (\<lambda>w. w \<noteq> [] \<and> list_all atom_char w) (split_at (CHR ''.'') s)"

definition label_ok :: "string \<Rightarrow> bool" where
  "label_ok w = (w \<noteq> [] \<and> length w \<le> 63 \<and> list_all (\<lambda>c. alnum_char c \<or> c = CHR ''-'') w
     \<and> alnum_char (hd w) \<and> alnum_char (last w))"

definition domain_ok :: "string \<Rightarrow> bool" where
  "domain_ok s = (let ws = split_at (CHR ''.'') s in
     length s \<le> 253 \<and> 2 \<le> length ws \<and> list_all label_ok ws \<and> \<not> digit_char (hd (last ws)))"

definition mailbox_space :: "char \<Rightarrow> bool" where
  "mailbox_space c = (let n = of_char c :: nat in is_space c \<or> n < 32 \<or> n = 127)"

definition EXPECTED_EMAIL_SENDER_DOMAIN :: string where "EXPECTED_EMAIL_SENDER_DOMAIN = ''qt-agent.kro.kr''"

text \<open>\<open>validate_sender_mailbox\<close>: the normalised address, or the error code.\<close>

definition validate_sender_mailbox :: "bool \<Rightarrow> string option \<Rightarrow> string + string" where
  "validate_sender_mailbox authenticated v = (case v of
       None \<Rightarrow> Inl ''email_sender_mailbox_missing''
     | Some s \<Rightarrow>
         if s = [] then Inl ''email_sender_mailbox_missing''
         else if s \<noteq> py_strip s \<or> \<not> list_all (\<lambda>c. \<not> mailbox_space c) s then Inl ''email_sender_mailbox_invalid''
         else if length (filter (\<lambda>c. c = CHR ''@'') s) \<noteq> 1 \<or> CHR ''<'' \<in> set s \<or> CHR ''>'' \<in> set s
         then Inl ''email_sender_mailbox_invalid''
         else let box = takeWhile (\<lambda>c. c \<noteq> CHR ''@'') s; domain = tl (dropWhile (\<lambda>c. c \<noteq> CHR ''@'') s) in
           if box = [] \<or> domain = [] \<or> 64 < length box \<or> 254 < length s \<or> \<not> local_part_ok box \<or> \<not> domain_ok domain
           then Inl ''email_sender_mailbox_invalid''
           else if authenticated \<and> py_lower domain \<noteq> EXPECTED_EMAIL_SENDER_DOMAIN
           then Inl ''email_sender_domain_not_authenticated''
           else Inr (box @ ''@'' @ py_lower domain))"

section \<open>Guards\<close>

definition provider_name :: "email_settings \<Rightarrow> string" where
  "provider_name cfg = py_lower (py_strip (if es_provider cfg = [] then ''brevo'' else es_provider cfg))"

definition validate_configuration :: "email_settings \<Rightarrow> app_error + unit" where
  "validate_configuration cfg =
     (if email_effective_rollout_mode cfg = ''disabled'' then Inl (App 503 ''email_rollout_disabled'')
      else if es_provider cfg \<notin> {''brevo'', ''resend''} then Inl (App 503 ''email_provider_invalid'')
      else if \<not> es_enabled cfg then Inl (App 503 ''email_delivery_disabled'')
      else if es_api_key cfg = None then Inl (App 503 ''email_api_key_missing'')
      else if \<not> text_set (es_from_address cfg) then Inl (App 503 ''email_from_address_missing'')
      else case validate_sender_mailbox (provider_name cfg \<noteq> ''brevo'') (es_from_address cfg) of
        Inl e \<Rightarrow> Inl (App 503 ''email_from_address_invalid'')
      | Inr a \<Rightarrow> if es_from_name cfg = [] then Inl (App 503 ''email_from_name_missing'') else Inr ())"

definition assert_rollout_recipient_allowed :: "email_settings \<Rightarrow> string \<Rightarrow> app_error + unit" where
  "assert_rollout_recipient_allowed cfg recipient =
     (if email_effective_rollout_mode cfg = ''disabled'' then Inl (App 403 ''email_rollout_disabled'')
      else if email_effective_rollout_mode cfg = ''production'' then Inr ()
      else let allowed = map py_lower (allowlist_values cfg) in
        if allowed = [] \<or> py_lower (py_strip recipient) \<notin> set allowed
        then Inl (App 403 ''email_recipient_not_allowlisted'') else Inr ())"

section \<open>Answers\<close>

record email_message =                         \<comment> \<open>EmailDeliveryMessage\<close>
  em_recipient :: string
  em_sender :: string
  em_sender_name :: string
  em_subject :: string
  em_html :: string
  em_text :: string
  em_correlation :: "string option"
  em_key :: string                             \<comment> \<open>idempotency_key\<close>
  em_template :: string
  em_version :: string

datatype send_status = Accepted | Retryable_error | Permanent_error

record send_result =                           \<comment> \<open>EmailDeliverySendResult\<close>
  sr_message :: "string option"                \<comment> \<open>provider_message_id\<close>
  sr_status :: send_status
  sr_retryable :: bool
  sr_code :: "string option"
  sr_text :: "string option"

text \<open>
  An HTTP answer has a status and a body, read as JSON or the name and the text of the error that
  reading raises.  A failed request raises an error of httpx (a timeout, a request error) or another.
\<close>

datatype http_reply = No_reply bool string string | Reply nat "(string \<times> string) + pyval"

definition safe_text :: "redaction \<Rightarrow> string \<Rightarrow> string" where
  "safe_text redact v = (let t = rx_emails redact (py_strip (rx_secrets redact v)) in
     if 500 < length t then take 497 t @ ''...'' else t)"

definition safe_code :: "string option \<Rightarrow> string \<Rightarrow> string" where
  "safe_code v d =
     (let s = take 80 (filter (\<lambda>c. alnum_char c \<or> c = CHR ''_'' \<or> c = CHR ''-'')
                         (py_lower (py_strip (text_or v []))))
      in if s = [] then d else s)"

definition first_truthy :: "pyval list \<Rightarrow> pyval" where
  "first_truthy vs = (case filter pv_truthy vs of v # r \<Rightarrow> v | [] \<Rightarrow> if vs = [] then PNone else List.last vs)"

definition is_dict :: "pyval \<Rightarrow> bool" where
  "is_dict v = (case v of PDict d \<Rightarrow> True | _ \<Rightarrow> False)"

definition extract_response_code :: "(pyval \<Rightarrow> string) \<Rightarrow> (string \<times> string) + pyval \<Rightarrow> string option" where
  "extract_response_code rp body = (case body of
       Inr (PDict d) \<Rightarrow>
         let inner = (case pget d ''error'' of PDict e \<Rightarrow> e | _ \<Rightarrow> d);
             code = first_truthy [pget inner ''code'', pget inner ''name'', pget inner ''type'']
         in if code = PNone then None else Some (pv_str rp code)
     | _ \<Rightarrow> None)"

definition send_failed :: "send_status \<Rightarrow> string \<Rightarrow> string \<Rightarrow> send_result" where
  "send_failed st code message =
     \<lparr>sr_message = None, sr_status = st, sr_retryable = (st = Retryable_error), sr_code = Some code, sr_text = Some message\<rparr>"

definition retryable_status :: "nat \<Rightarrow> bool" where
  "retryable_status n = (n = 429 \<or> 500 \<le> n)"

text \<open>\<open>normalize_error\<close>, of an answer and of an exception.\<close>

definition answer_error :: "(pyval \<Rightarrow> string) \<Rightarrow> string \<Rightarrow> nat \<Rightarrow> (string \<times> string) + pyval \<Rightarrow> send_result" where
  "answer_error rp provider n body =
     send_failed (if retryable_status n then Retryable_error else Permanent_error)
       (safe_code (extract_response_code rp body) (provider @ ''_http_'' @ show_nat n))
       (''Email provider request failed with HTTP '' @ show_nat n)"

definition request_error :: "redaction \<Rightarrow> string \<Rightarrow> bool \<Rightarrow> string \<Rightarrow> string \<Rightarrow> send_result" where
  "request_error redact provider httpx kind message =
     (if httpx then send_failed Retryable_error (provider @ ''_request_error'') (safe_text redact (kind @ '': '' @ message))
      else send_failed Permanent_error (provider @ ''_unexpected_error'') (safe_text redact (kind @ '': '' @ message)))"

definition sender_verified :: "(pyval \<Rightarrow> string) \<Rightarrow> string \<Rightarrow> pyval \<Rightarrow> bool" where
  "sender_verified rp address body =
     (case (case body of PDict d \<Rightarrow> pget_or d ''senders'' (PList []) | _ \<Rightarrow> PList []) of
        PList senders \<Rightarrow> list_ex (\<lambda>s. case s of
            PDict d \<Rightarrow> pget d ''active'' = PBool True
              \<and> py_lower (pv_str rp (pget_or d ''email'' (PStr []))) = py_lower address
          | _ \<Rightarrow> False) senders
      | _ \<Rightarrow> False)"

definition normalize_message_id :: "(pyval \<Rightarrow> string) \<Rightarrow> pyval \<Rightarrow> string option" where
  "normalize_message_id rp v = (if v = PNone then None else
     let t = py_strip (pv_str rp v) in if t = [] then None else Some t)"

definition accepted_result :: "(pyval \<Rightarrow> string) \<Rightarrow> string \<Rightarrow> (string \<times> string) + pyval \<Rightarrow> send_result" where
  "accepted_result rp provider body =
     (let d = (case body of Inr (PDict d) \<Rightarrow> d | _ \<Rightarrow> []);
          keys = (if provider = ''brevo'' then [''messageId'', ''message_id'', ''messageID''] else [''id'', ''messageId'', ''message_id''])
      in \<lparr>sr_message = normalize_message_id rp (first_truthy (map (pget d) keys)), sr_status = Accepted,
          sr_retryable = False, sr_code = None, sr_text = None\<rparr>)"

section \<open>The request\<close>

definition template_header :: "email_message \<Rightarrow> string" where
  "template_header m = em_template m @ ''/'' @ em_version m"

definition request_headers :: "email_settings \<Rightarrow> bool \<Rightarrow> email_message \<Rightarrow> string \<Rightarrow> (string, string) dict" where
  "request_headers cfg sandbox m provider =
     [(''accept'', ''application/json''), (''content-type'', ''application/json''), (''Idempotency-Key'', em_key m),
      (''User-Agent'', ''QuantAgentBackend/0.1'')]
     @ (let key = text_or (es_api_key cfg) [] in
        if provider = ''resend'' then [(''Authorization'', ''Bearer '' @ key)] else [(''api-key'', key)])
     @ (if text_set (em_correlation m) then [(''X-QuantAgent-Correlation-Id'', the (em_correlation m))] else [])
     @ [(''X-QuantAgent-Template'', template_header m)]
     @ (if provider = ''brevo'' \<and> sandbox then [(''X-Sib-Sandbox'', ''drop'')] else [])"

definition request_payload :: "email_settings \<Rightarrow> email_message \<Rightarrow> string \<Rightarrow> (string, pyval) dict" where
  "request_payload cfg m provider =
     (let headers = PDict ((''X-QuantAgent-Template'', PStr (template_header m))
            # (if text_set (em_correlation m) then [(''X-QuantAgent-Correlation-Id'', PStr (the (em_correlation m)))] else []));
          address = text_or (es_from_address cfg) []
      in if provider = ''brevo''
         then [(''sender'', PDict [(''name'', PStr (es_from_name cfg)), (''email'', PStr address)]),
               (''to'', PList [PDict [(''email'', PStr (em_recipient m))]]), (''subject'', PStr (em_subject m)),
               (''htmlContent'', PStr (em_html m)), (''textContent'', PStr (em_text m)), (''headers'', headers)]
         else [(''from'', PStr (es_from_name cfg @ '' <'' @ address @ ''>'')), (''to'', PList [PStr (em_recipient m)]),
               (''subject'', PStr (em_subject m)), (''html'', PStr (em_html m)), (''text'', PStr (em_text m)),
               (''headers'', headers)])"

text \<open>
  \<open>send\<close>: whether the message was posted, and the result.  \<open>senders\<close> is the answer to the query of the
  verified senders, \<open>post\<close> the answer to the message.
\<close>

definition post_message ::
  "redaction \<Rightarrow> (pyval \<Rightarrow> string) \<Rightarrow> string \<Rightarrow> http_reply \<Rightarrow> bool \<times> send_result" where
  "post_message redact rp provider post = (True, case post of
       No_reply httpx kind message \<Rightarrow> request_error redact provider httpx kind message
     | Reply n body \<Rightarrow> if 200 \<le> n \<and> n < 300 then accepted_result rp provider body else answer_error rp provider n body)"

definition provider_send ::
  "email_settings \<Rightarrow> redaction \<Rightarrow> (pyval \<Rightarrow> string) \<Rightarrow> http_reply \<Rightarrow> http_reply \<Rightarrow> email_message \<Rightarrow> bool \<times> (app_error + send_result)" where
  "provider_send cfg redact rp senders post m =
     (case rbind (validate_configuration cfg) (\<lambda>u. assert_rollout_recipient_allowed cfg (em_recipient m)) of
        Inl e \<Rightarrow> (False, Inl e)
      | Inr u \<Rightarrow>
          let p = provider_name cfg; sent = map_prod id Inr (post_message redact rp p post) in
          if p \<noteq> ''brevo'' then sent
          else case senders of
            No_reply httpx kind message \<Rightarrow> (False, Inr (request_error redact p httpx kind message))
          | Reply n body \<Rightarrow>
              if \<not> (200 \<le> n \<and> n < 300) then (False, Inr (answer_error rp p n body))
              else case body of
                Inl (kind, message) \<Rightarrow> (False, Inr (request_error redact p False kind message))
              | Inr v \<Rightarrow>
                  if sender_verified rp (text_or (es_from_address cfg) []) v then sent
                  else (False, Inr (send_failed Permanent_error ''email_sender_not_verified''
                     ''The configured sender must be verified and active in Brevo.'')))"

end
