(* ===== verification/Em_Worker.thy ===== *)
theory Em_Worker
  imports Em_Provider
begin

text \<open>
  The worker that sends the queued messages (\<open>workers/email_delivery_worker.py\<close>): one round recovers
  expired claims, claims a batch and processes each claim, checking again that the message may be
  sent.  The answers of the database, of the provider and of the clock are arguments; log events are
  left out.
\<close>

section \<open>Errors\<close>

text \<open>An \<open>AppError\<close>, or another exception by its type and its text.\<close>

datatype worker_exn = App_exn app_error | Other_exn string string

fun app_message :: "app_error \<Rightarrow> string" where
  "app_message (App st code) =
     (case map_of
        [(''email_rollout_disabled'', ''Email rollout is disabled''),
         (''email_provider_invalid'', ''Email provider is not configured for Brevo or Resend compatibility''),
         (''email_delivery_disabled'', ''Email delivery is disabled''),
         (''email_api_key_missing'', ''Brevo API key is required for explicit provider calls''),
         (''email_from_address_missing'', ''Email sender address is required''),
         (''email_from_address_invalid'', ''Email sender address is invalid''),
         (''email_from_name_missing'', ''Email sender name is required''),
         (''email_recipient_not_allowlisted'', ''Recipient is not in the local development allowlist''),
         (''email_delivery_payload_missing'', ''Email delivery payload is incomplete'')] code of
        Some m \<Rightarrow> m | None \<Rightarrow> code)"
| "app_message (Crash e) = []"

fun app_code :: "app_error \<Rightarrow> string" where
  "app_code (App st code) = code"
| "app_code (Crash e) = []"

section \<open>One claim\<close>

definition MAX_BACKOFF_SECONDS :: int where "MAX_BACKOFF_SECONDS = 1800"

definition calculate_retry_delay :: "email_settings \<Rightarrow> int \<Rightarrow> int" where
  "calculate_retry_delay cfg attempts =
     min (max 1 (es_retry_base cfg) * 2 ^ nat (max 0 (attempts - 1))) MAX_BACKOFF_SECONDS"

text \<open>What the world answers while one claim is processed.\<close>

record claim_world =
  cw_context :: "(string \<times> string) + report_context option"
  cw_senders :: http_reply
  cw_post :: http_reply
  cw_fault :: "nat \<Rightarrow> fault"
  cw_now :: "nat \<Rightarrow> int"

definition claim_context :: "claim_world \<Rightarrow> delivery \<Rightarrow> worker_exn + report_context option" where
  "claim_context w d =
     (if int_of_text (dv_user d) = None
      then Inl (Other_exn ''ValueError'' (''invalid literal for int() with base 10: '' @ [CHR 0x27] @ dv_user d @ [CHR 0x27]))
      else case cw_context w of Inl (kind, message) \<Rightarrow> Inl (Other_exn kind message) | Inr c \<Rightarrow> Inr c)"

definition same_recipient :: "string option \<Rightarrow> string option \<Rightarrow> bool" where
  "same_recipient a b = (case (a, b) of (Some x, Some y) \<Rightarrow> py_lower x = py_lower y | _ \<Rightarrow> False)"

definition revalidate_claim :: "email_settings \<Rightarrow> claim_world \<Rightarrow> delivery \<Rightarrow> worker_exn + decision" where
  "revalidate_claim cfg w d =
     rbind (claim_context w d) (\<lambda>context.
       let e = resolve_report_completed_delivery_eligibility cfg context in
       Inr (if ed_allowed e
               \<and> \<not> same_recipient (normalize_text (ed_recipient e)) (normalize_text (Some (dr_recipient (dv_row d))))
            then e\<lparr>ed_allowed := False, ed_reason := ''recipient_changed'',
                   ed_message := ''Notification recipient changed after enqueue''\<rparr>
            else e))"

definition text_value :: "(pyval \<Rightarrow> string) \<Rightarrow> pyval \<Rightarrow> string option" where
  "text_value rp v = (if v = PNone then None else normalize_text (Some (pv_str rp v)))"

definition build_message_from_claim :: "email_settings \<Rightarrow> (pyval \<Rightarrow> string) \<Rightarrow> delivery \<Rightarrow> app_error + email_message" where
  "build_message_from_claim cfg rp d =
     (let p = dv_payload d;
          subject = text_value rp (pget p ''subject'');
          html = text_value rp (first_truthy [pget p ''htmlBody'', pget p ''html'']);
          plain = text_value rp (first_truthy [pget p ''textBody'', pget p ''text'']);
          recipient = coalesce (normalize_text (Some (dr_recipient (dv_row d)))) (text_value rp (pget p ''recipientEmail''))
      in case (subject, html, plain, recipient) of
        (Some s, Some h, Some t, Some e) \<Rightarrow> Inr
          \<lparr>em_recipient = e, em_sender = text_or (normalize_text (es_from_address cfg)) [],
           em_sender_name = es_from_name cfg, em_subject = s, em_html = h, em_text = t,
           em_correlation = normalize_text (md_correlation (dr_meta (dv_row d))),
           em_key = (case md_key (dr_meta (dv_row d)) of None \<Rightarrow> ''None'' | Some k \<Rightarrow> k),
           em_template = dv_template d, em_version = dv_version d\<rparr>
      | _ \<Rightarrow> Inl (App 503 ''email_delivery_payload_missing''))"

definition claim_token :: "delivery \<Rightarrow> string" where
  "claim_token d = (case md_token (dr_meta (dv_row d)) of None \<Rightarrow> ''None'' | Some k \<Rightarrow> k)"

text \<open>Settling swallows its own failure: the claim is lost and waits for its lease to expire.\<close>

definition handle_revalidation_rejection ::
  "redaction \<Rightarrow> claim_world \<Rightarrow> delivery \<Rightarrow> decision \<Rightarrow> delivery_rows \<Rightarrow> delivery_rows" where
  "handle_revalidation_rejection redact w d e rows =
     (if ed_reason e \<in> set POLICY_SKIP_REASON_CODES \<or> ed_reason e = ''recipient_changed''
      then snd (mark_cancelled redact (cw_fault w 0) (cw_now w 0) (dv_id d) (claim_token d) (Some (ed_reason e)) (Some (ed_message e)) rows)
      else snd (mark_failed redact (cw_fault w 0) (cw_now w 0) (dv_id d) (claim_token d) (Some (ed_reason e)) (Some (ed_message e)) None rows))"

definition handle_app_error :: "redaction \<Rightarrow> claim_world \<Rightarrow> delivery \<Rightarrow> app_error \<Rightarrow> delivery_rows \<Rightarrow> delivery_rows" where
  "handle_app_error redact w d e rows =
     snd (mark_failed redact (cw_fault w 0) (cw_now w 0) (dv_id d) (claim_token d) (Some (app_code e)) (Some (app_message e)) None rows)"

definition settle_result ::
  "email_settings \<Rightarrow> redaction \<Rightarrow> claim_world \<Rightarrow> delivery \<Rightarrow> send_result \<Rightarrow> delivery_rows \<Rightarrow> delivery_rows" where
  "settle_result cfg redact w d r rows =
     (if sr_status r = Accepted
      then snd (mark_sent (cw_fault w 0) (cw_now w 0) (dv_id d) (claim_token d) (sr_message r) rows)
      else if sr_retryable r
      then snd (mark_retry_pending redact (cw_fault w 0) (cw_now w 1) (dv_id d) (claim_token d)
             (cw_now w 0 + calculate_retry_delay cfg (dv_attempts d) * second) (sr_code r) (sr_text r) (sr_message r) rows)
      else snd (mark_failed redact (cw_fault w 0) (cw_now w 0) (dv_id d) (claim_token d) (sr_code r) (sr_text r) (sr_message r) rows))"

text \<open>
  \<open>_process_claim\<close>: the message it posted, the exception it lets through, and the table.
\<close>

definition process_claim ::
  "email_settings \<Rightarrow> redaction \<Rightarrow> (pyval \<Rightarrow> string) \<Rightarrow> claim_world \<Rightarrow> delivery \<Rightarrow> delivery_rows
     \<Rightarrow> email_message option \<times> (worker_exn + unit) \<times> delivery_rows" where
  "process_claim cfg redact rp w d rows =
     (if (if dv_status d = [] then ''PROCESSING'' else dv_status d) = ''CANCELLED'' then (None, Inr (), rows)
      else case revalidate_claim cfg w d of
        Inl (App_exn e) \<Rightarrow> (None, Inr (), handle_app_error redact w d e rows)
      | Inl x \<Rightarrow> (None, Inl x, rows)
      | Inr e \<Rightarrow>
          if \<not> ed_allowed e then (None, Inr (), handle_revalidation_rejection redact w d e rows)
          else case build_message_from_claim cfg rp d of
            Inl x \<Rightarrow> (None, Inr (), handle_app_error redact w d x rows)
          | Inr m \<Rightarrow>
              (case provider_send cfg redact rp (cw_senders w) (cw_post w) m of
                 (posted, Inl x) \<Rightarrow> (if posted then Some m else None, Inr (), handle_app_error redact w d x rows)
               | (posted, Inr r) \<Rightarrow> (if posted then Some m else None, Inr (), settle_result cfg redact w d r rows)))"

definition process_claim_guarded ::
  "email_settings \<Rightarrow> redaction \<Rightarrow> (pyval \<Rightarrow> string) \<Rightarrow> claim_world \<Rightarrow> delivery \<Rightarrow> delivery_rows
     \<Rightarrow> email_message option \<times> delivery_rows" where
  "process_claim_guarded cfg redact rp w d rows =
     (case process_claim cfg redact rp w d rows of
        (m, Inr (), rows) \<Rightarrow> (m, rows)
      | (m, Inl x, rows) \<Rightarrow>
          (case x of
             App_exn e \<Rightarrow> (m, snd (mark_retry_pending redact (cw_fault w 1) (cw_now w 3) (dv_id d) (claim_token d)
                 (cw_now w 2 + calculate_retry_delay cfg (dv_attempts d) * second) (Some ''unexpected_worker_error'')
                 (Some (''AppError: '' @ app_message e)) None rows))
           | Other_exn kind message \<Rightarrow>
               (m, snd (mark_retry_pending redact (cw_fault w 1) (cw_now w 3) (dv_id d) (claim_token d)
                 (cw_now w 2 + calculate_retry_delay cfg (dv_attempts d) * second) (Some ''unexpected_worker_error'')
                 (Some (kind @ '': '' @ message)) None rows))))"

section \<open>One round\<close>

definition validate_startup :: "email_settings \<Rightarrow> app_error + unit" where
  "validate_startup cfg =
     (if \<not> es_worker cfg then Inl (App 503 ''email_worker_disabled'')
      else if email_effective_rollout_mode cfg = ''disabled'' then Inl (App 503 ''email_rollout_disabled'')
      else validate_configuration cfg)"

text \<open>What the world answers to one claiming statement; \<open>cc_stop\<close> is the stop event before it.\<close>

record claim_call =
  cc_stop :: bool
  cc_fault :: fault
  cc_now :: int
  cc_locked :: "string list"
  cc_token :: string

fun claim_batch ::
  "email_settings \<Rightarrow> string \<Rightarrow> string option \<Rightarrow> nat \<Rightarrow> (nat \<Rightarrow> claim_call) \<Rightarrow> delivery_rows \<Rightarrow> (delivery list, delivery_rows) app" where
  "claim_batch cfg worker scope 0 calls rows = (Inr [], rows)"
| "claim_batch cfg worker scope (Suc n) calls rows =
     (let c = calls 0 in
      if cc_stop c then (Inr [], rows)
      else app_bind (claim_next_delivery (cc_fault c) (cc_now c) scope (cc_locked c) (es_lease cfg) worker (cc_token c) rows)
        (\<lambda>d rows. case d of None \<Rightarrow> (Inr [], rows)
           | Some d \<Rightarrow> app_bind (claim_batch cfg worker scope n (\<lambda>i. calls (Suc i)) rows)
               (\<lambda>ds rows. (Inr (d # ds), rows))))"

text \<open>
  Each claim is processed unless the time left to shut down is over before it (\<open>skip\<close>); the messages
  posted are collected.
\<close>

fun process_batch ::
  "email_settings \<Rightarrow> redaction \<Rightarrow> (pyval \<Rightarrow> string) \<Rightarrow> (nat \<Rightarrow> bool) \<Rightarrow> (nat \<Rightarrow> claim_world) \<Rightarrow> delivery list \<Rightarrow> delivery_rows
     \<Rightarrow> email_message list \<times> delivery_rows" where
  "process_batch cfg redact rp skip ws [] rows = ([], rows)"
| "process_batch cfg redact rp skip ws (d # ds) rows =
     (case (if skip 0 then (None, rows) else process_claim_guarded cfg redact rp (ws 0) d rows) of
        (m, rows1) \<Rightarrow>
          (case process_batch cfg redact rp (\<lambda>i. skip (Suc i)) (\<lambda>i. ws (Suc i)) ds rows1 of
             (ms, rows2) \<Rightarrow> (case m of None \<Rightarrow> ms | Some x \<Rightarrow> x # ms, rows2)))"

record round_world =
  rw_fault :: "nat \<Rightarrow> fault"
  rw_locked :: "nat \<Rightarrow> string list"
  rw_now :: int
  rw_calls :: "nat \<Rightarrow> claim_call"
  rw_skip :: "nat \<Rightarrow> bool"
  rw_claims :: "nat \<Rightarrow> claim_world"

text \<open>\<open>run_once\<close>: how many claims it took, the messages it posted, and the table.\<close>

definition run_once ::
  "email_settings \<Rightarrow> redaction \<Rightarrow> (pyval \<Rightarrow> string) \<Rightarrow> bool \<Rightarrow> string \<Rightarrow> string option \<Rightarrow> round_world \<Rightarrow> delivery_rows
     \<Rightarrow> (nat \<times> email_message list, delivery_rows) app" where
  "run_once cfg redact rp validated worker scope w rows =
     (case (if validated then Inr () else validate_startup cfg) of
        Inl e \<Rightarrow> (Inl e, rows)
      | Inr u \<Rightarrow>
          app_bind (release_expired_claims (rw_fault w) (rw_locked w) (rw_now w) scope rows) (\<lambda>recovered rows.
            app_bind (claim_batch cfg worker scope (nat (es_batch cfg)) (rw_calls w) rows) (\<lambda>ds rows.
              (case process_batch cfg redact rp (rw_skip w) (rw_claims w) ds rows of
                 (ms, rows) \<Rightarrow> (Inr (length ds, ms), rows)))))"

end
