(* ===== verification/Em_Queue_Props.thy ===== *)
theory Em_Queue_Props
  imports Em_Worker
begin

text \<open>
  The queue under every interleaving: the statements of any number of web processes and workers, in
  any order, at any time, with any failure.  \<open>row_move\<close> is what one statement can do to one row; the
  invariant and the guarantees of a claim are proved on it.
\<close>

section \<open>Histories\<close>

datatype outbox_op =
    Op_Create delivery_request
  | Op_Requeue string "string option" pyval int
  | Op_Release "string option" "string list"
  | Op_Claim_Next "string option" "string list" int string string       \<comment> \<open>scope, locked rows, lease, worker, token\<close>
  | Op_Sent string string "string option"
  | Op_Retry string string int "string option" "string option" "string option"
  | Op_Failed string string "string option" "string option" "string option"
  | Op_Cancelled string string "string option" "string option"

type_synonym outbox_event = "int \<times> fault \<times> outbox_op"

definition outbox_step :: "(string \<Rightarrow> string) \<Rightarrow> redaction \<Rightarrow> outbox_event \<Rightarrow> delivery_rows \<Rightarrow> delivery_rows" where
  "outbox_step uuid5 redact e rows = (case e of (now, f, a) \<Rightarrow> (case a of
       Op_Create q \<Rightarrow> snd (create_or_get_delivery uuid5 (\<lambda>_. f) now q rows)
     | Op_Requeue i recipient payload cooldown \<Rightarrow> snd (requeue_delivery f now i recipient payload cooldown rows)
     | Op_Release scope locked \<Rightarrow> snd (statement f (release_one now scope locked) rows)
     | Op_Claim_Next scope locked ttl worker token \<Rightarrow> snd (claim_next_delivery f now scope locked ttl worker token rows)
     | Op_Sent i token message \<Rightarrow> snd (mark_sent f now i token message rows)
     | Op_Retry i token available code text message \<Rightarrow>
         snd (mark_retry_pending redact f now i token available code text message rows)
     | Op_Failed i token code text message \<Rightarrow> snd (mark_failed redact f now i token code text message rows)
     | Op_Cancelled i token code text \<Rightarrow> snd (mark_cancelled redact f now i token code text rows)))"

definition run_outbox :: "(string \<Rightarrow> string) \<Rightarrow> redaction \<Rightarrow> outbox_event list \<Rightarrow> delivery_rows \<Rightarrow> delivery_rows" where
  "run_outbox uuid5 redact es rows = fold (outbox_step uuid5 redact) es rows"

lemma run_outbox_simps [simp]:
  "run_outbox uuid5 redact [] rows = rows"
  "run_outbox uuid5 redact (e # es) rows = run_outbox uuid5 redact es (outbox_step uuid5 redact e rows)"
  by (simp_all add: run_outbox_def)

lemma run_outbox_append [simp]:
  "run_outbox uuid5 redact (es @ es') rows = run_outbox uuid5 redact es' (run_outbox uuid5 redact es rows)"
  by (simp add: run_outbox_def)

section \<open>What one statement does to one row\<close>

inductive row_move :: "redaction \<Rightarrow> outbox_event \<Rightarrow> delivery_row \<Rightarrow> delivery_row \<Rightarrow> bool" for redact where
  Stay: "row_move redact e r r"
| Requeued: "requeueable i cooldown now r \<Longrightarrow>
    row_move redact (now, f, Op_Requeue i recipient payload cooldown) r (requeued_row recipient payload now r)"
| Released: "expired_claim now scope r \<Longrightarrow> row_move redact (now, f, Op_Release scope locked) r (released_row now r)"
| Claimed: "claimable_row now scope r \<Longrightarrow>
    row_move redact (now, f, Op_Claim_Next scope locked ttl worker token) r (claimed_row now ttl worker token r)"
| Sent: "held_by i token r \<Longrightarrow> row_move redact (now, f, Op_Sent i token message) r (sent_row now message r)"
| Retried: "held_by i token r \<Longrightarrow>
    row_move redact (now, f, Op_Retry i token available code text message) r (retry_row redact now available code text message r)"
| Failed: "held_by i token r \<Longrightarrow>
    row_move redact (now, f, Op_Failed i token code text message) r (failed_row redact now code text message r)"
| Cancelled: "held_by i token r \<Longrightarrow>
    row_move redact (now, f, Op_Cancelled i token code text) r (cancelled_row redact now code text r)"

inductive_cases row_moveE [consumes 1, case_names Stay Requeued Released Claimed Sent Retried Failed Cancelled]:
  "row_move redact e r r'"

lemmas row_updates = requeued_row_def released_row_def claimed_row_def sent_row_def retry_row_def failed_row_def
  cancelled_row_def Let_def

lemma row_move_keeps:
  assumes "row_move redact e r r'"
  shows "dr_id r' = dr_id r \<and> dr_created r' = dr_created r \<and> max_attempts_of r' = max_attempts_of r
    \<and> md_max (dr_meta r') = md_max (dr_meta r) \<and> md_key (dr_meta r') = md_key (dr_meta r)"
  using assms by (cases rule: row_moveE) (simp_all add: row_updates max_attempts_of_def)

section \<open>A statement is a move of every row\<close>

definition fresh_row :: "(string \<Rightarrow> string) \<Rightarrow> outbox_event \<Rightarrow> delivery_rows \<Rightarrow> delivery_row \<Rightarrow> bool" where
  "fresh_row uuid5 e rows x =
     (\<exists>now f q. e = (now, f, Op_Create q) \<and> new_row uuid5 now q = Some x \<and> dr_id x \<notin> dr_id ` set rows)"

definition moved :: "(string \<Rightarrow> string) \<Rightarrow> redaction \<Rightarrow> outbox_event \<Rightarrow> delivery_rows \<Rightarrow> delivery_rows \<Rightarrow> bool" where
  "moved uuid5 redact e rows rows' =
     (\<exists>h new. rows' = map h rows @ new \<and> (\<forall>r\<in>set rows. row_move redact e r (h r))
        \<and> (new = [] \<or> (\<exists>x. new = [x] \<and> fresh_row uuid5 e rows x)))"

lemma moved_stay: "moved uuid5 redact e rows rows"
  unfolding moved_def by (intro exI[of _ "\<lambda>r. r"] exI[of _ "[]"]) (simp add: row_move.Stay)

lemma moved_map: "(\<And>r. r \<in> set rows \<Longrightarrow> row_move redact e r (h r)) \<Longrightarrow> moved uuid5 redact e rows (map h rows)"
  unfolding moved_def by (intro exI[of _ h] exI[of _ "[]"]) simp

lemma statement_state: "snd (statement f c rows) = rows \<or> snd (statement f c rows) = snd (c rows)"
  by (cases f) (simp_all add: statement_def send_def fail_as_def)

lemma moved_statement: "moved uuid5 redact e rows (snd (c rows)) \<Longrightarrow> moved uuid5 redact e rows (snd (statement f c rows))"
  using statement_state[of f c rows] moved_stay by metis

lemma app_bind_same_state:
  "(\<And>x s. snd (k x s) = s) \<Longrightarrow> snd (app_bind m k) = snd m"
  by (auto simp: app_bind_def split: prod.splits sum.splits)

lemma moved_update:
  "(\<And>r. p r \<Longrightarrow> row_move redact e r (g r)) \<Longrightarrow> moved uuid5 redact e rows (snd (update_row p g rows))"
  unfolding update_row_def snd_conv by (rule moved_map) (simp add: row_move.Stay)

lemma moved_candidate:
  assumes "distinct (map dr_id rows)" and "\<And>r. p r \<Longrightarrow> row_move redact e r (g r)"
  shows "moved uuid5 redact e rows (snd (update_candidate (candidate key p locked rows) g rows))"
proof (cases "candidate key p locked rows")
  case None
  then show ?thesis by (simp add: update_candidate_def moved_stay)
next
  case (Some i)
  then obtain x where x: "x \<in> set rows" "p x" "dr_id x = i" by (rule candidate_SomeD)
  have "row_move redact e r (if dr_id r = i then g r else r)" if "r \<in> set rows" for r
    using assms x that row_move.Stay by (metis distinct_map inj_onD)
  then show ?thesis unfolding Some update_candidate_def update_row_def option.case snd_conv by (rule moved_map)
qed

lemma settle_moved:
  assumes "\<And>r. held_by i token r \<Longrightarrow> row_move redact e r (g r)"
  shows "moved uuid5 redact e rows (snd (settle f i token g rows))"
  unfolding settle_def
  by (subst app_bind_same_state) (auto split: option.split intro!: moved_statement moved_update assms)

lemma create_moved:
  "moved uuid5 redact (now, f, Op_Create q) rows (snd (create_or_get_delivery uuid5 g now q rows))"
proof (cases "new_row uuid5 now q")
  case None
  then show ?thesis by (simp add: create_or_get_delivery_def moved_stay)
next
  case (Some r)
  have ins: "moved uuid5 redact (now, f, Op_Create q) rows (snd (insert_row r rows))"
  proof (cases "find (\<lambda>x. dr_id x = dr_id r) rows")
    case None
    then have "dr_id r \<notin> dr_id ` set rows" by (auto simp: find_None_iff)
    with None Some show ?thesis unfolding moved_def insert_row_def fresh_row_def
      by (intro exI[of _ "\<lambda>r. r"] exI[of _ "[r]"]) (simp add: row_move.Stay)
  qed (simp add: insert_row_def moved_stay)
  have read: "snd (app_bind (get_delivery h j s) (\<lambda>found rows. case found of None \<Rightarrow> (Inl outbox_unavailable, rows)
      | Some d \<Rightarrow> (Inr (d, False), rows))) = s" for h j s
    using statement_state[of h "\<lambda>rows. (map_option row_to_delivery (find (\<lambda>r. dr_id r = j) rows), rows)" s]
    by (simp add: app_bind_same_state get_delivery_def split: option.split)
  have "snd (create_or_get_delivery uuid5 g now q rows) = snd (statement (g 0) (insert_row r) rows)"
    unfolding create_or_get_delivery_def Some option.case
    by (rule app_bind_same_state) (simp add: read split: option.split)
  then show ?thesis using moved_statement[where c = "insert_row r", OF ins] by simp
qed

lemma step_moved:
  assumes "distinct (map dr_id rows)"
  shows "moved uuid5 redact e rows (outbox_step uuid5 redact e rows)"
proof -
  obtain now f a where e: "e = (now, f, a)" by (cases e)
  have id: "row_move redact e r r" for r by (rule row_move.Stay)
  show ?thesis
  proof (cases a)
    case (Op_Create q)
    then show ?thesis using create_moved by (simp add: e outbox_step_def)
  next
    case (Op_Requeue i recipient payload cooldown)
    then show ?thesis unfolding e outbox_step_def requeue_delivery_def
      by (simp add: app_bind_same_state moved_statement moved_update row_move.Requeued)
  next
    case (Op_Release scope locked)
    then show ?thesis unfolding e outbox_step_def release_one_def
      by (simp add: moved_statement[where c = "\<lambda>rows. update_candidate (candidate _ _ _ rows) _ rows"]
          moved_candidate assms row_move.Released)
  next
    case (Op_Claim_Next scope locked ttl worker token)
    then show ?thesis unfolding e outbox_step_def claim_next_delivery_def claim_one_def
      by (simp add: app_bind_same_state moved_statement[where c = "\<lambda>rows. update_candidate (candidate _ _ _ rows) _ rows"]
          moved_candidate assms row_move.Claimed)
  next
    case (Op_Sent i token message)
    then show ?thesis by (simp add: e outbox_step_def mark_sent_def settle_moved row_move.Sent)
  next
    case (Op_Retry i token available code reason message)
    then show ?thesis by (simp add: e outbox_step_def mark_retry_pending_def settle_moved row_move.Retried)
  next
    case (Op_Failed i token code reason message)
    then show ?thesis by (simp add: e outbox_step_def mark_failed_def settle_moved row_move.Failed)
  next
    case (Op_Cancelled i token code reason)
    then show ?thesis by (simp add: e outbox_step_def mark_cancelled_def settle_moved row_move.Cancelled)
  qed
qed

text \<open>
  The invariant of the queue and the guarantees of a claim, over every history of statements: the
  life cycle of a row, the protection of a claim while its lease runs, the rejection of a claim
  that is no longer current, and the number of times a message is claimed.
\<close>

section \<open>The life cycle of a row\<close>

definition unclaimed :: "metadata \<Rightarrow> bool" where
  "unclaimed m = (md_token m = None \<and> md_expires m = None \<and> md_claimed_by m = None)"

text \<open>The columns and the document agree, and the attempts stay within their limit.\<close>

definition life_cycle :: "delivery_row \<Rightarrow> bool" where
  "life_cycle r = (let m = dr_meta r; n = attempts_of r in
     0 \<le> n \<and> n \<le> max 0 (max_attempts_of r) \<and>
     (case md_status m of
        None \<Rightarrow> False
      | Some s \<Rightarrow>
          if s = ''PENDING'' then dr_status r = DB_draft \<and> unclaimed m \<and> n = 0 \<and> md_available m \<noteq> None
          else if s = ''RETRY_PENDING''
          then dr_status r = DB_draft \<and> unclaimed m \<and> 0 < n \<and> n < max_attempts_of r \<and> md_available m \<noteq> None
          else if s = ''PROCESSING''
          then dr_status r = DB_draft \<and> md_token m \<noteq> None \<and> md_expires m \<noteq> None \<and> md_claimed_by m \<noteq> None \<and> 0 < n
          else if s = ''SENT'' then dr_status r = DB_sent \<and> unclaimed m \<and> 0 < n \<and> dr_sent r \<noteq> None
          else (s = ''FAILED'' \<or> s = ''CANCELLED'') \<and> dr_status r = DB_failed \<and> unclaimed m \<and> 0 < n))"

lemma new_row_life_cycle: "new_row uuid5 now q = Some r \<Longrightarrow> life_cycle r"
  by (auto simp: new_row_def life_cycle_def new_metadata_def unclaimed_def attempts_of_def max_attempts_of_def
      split: option.splits)

lemma row_move_life_cycle:
  assumes "row_move redact e r r'" and "life_cycle r"
  shows "life_cycle r'"
  using assms(1)
proof (cases rule: row_moveE)
  case (Claimed now scope f locked ttl worker token)
  then show ?thesis using assms(2)
    by (simp add: claimable_row_def life_cycle_def claimed_row_def unclaimed_def attempts_of_def max_attempts_of_def Let_def)
next
  case (Released now scope f locked)
  then have "md_status (dr_meta r) = Some ''PROCESSING''" by (simp add: expired_claim_def)
  with Released assms(2) show ?thesis
    by (simp add: life_cycle_def released_row_def unclaimed_def attempts_of_def max_attempts_of_def Let_def split: option.splits)
next
  case (Retried i token now f available code msg message)
  then have "md_status (dr_meta r) = Some ''PROCESSING''" by (simp add: held_by_def)
  with Retried assms(2) show ?thesis
    by (simp add: life_cycle_def retry_row_def unclaimed_def attempts_of_def max_attempts_of_def Let_def split: option.splits)
qed (use assms(2) in \<open>simp_all add: held_by_def requeueable_def status_of_def life_cycle_def row_updates unclaimed_def
      attempts_of_def max_attempts_of_def split: option.splits\<close>)

definition outbox_ok :: "delivery_rows \<Rightarrow> bool" where
  "outbox_ok rows = (distinct (map dr_id rows) \<and> list_all life_cycle rows)"

lemma outbox_ok_step [inv_intros]:
  assumes "outbox_ok rows"
  shows "outbox_ok (outbox_step uuid5 redact e rows)"
proof -
  have d: "distinct (map dr_id rows)" using assms by (simp add: outbox_ok_def)
  obtain h new where s: "outbox_step uuid5 redact e rows = map h rows @ new"
    and h: "\<forall>r\<in>set rows. row_move redact e r (h r)" and new: "new = [] \<or> (\<exists>x. new = [x] \<and> fresh_row uuid5 e rows x)"
    using step_moved[OF d] unfolding moved_def by blast
  have "\<forall>r\<in>set rows. dr_id (h r) = dr_id r" using h row_move_keeps by blast
  then have ids: "map dr_id (map h rows) = map dr_id rows" by simp
  have "\<forall>r\<in>set rows. life_cycle (h r)"
    using assms h row_move_life_cycle unfolding outbox_ok_def list_all_iff by blast
  then have "list_all life_cycle (map h rows)" by (simp add: list_all_iff)
  moreover have "distinct (map dr_id (map h rows))" unfolding ids by (rule d)
  moreover have "set (map dr_id (map h rows)) = dr_id ` set rows" using ids by (metis set_map)
  ultimately show ?thesis using new unfolding s outbox_ok_def fresh_row_def
    by (auto simp: new_row_life_cycle simp del: map_map set_map) (metis imageI)
qed

lemma outbox_ok_run: "outbox_ok rows \<Longrightarrow> outbox_ok (run_outbox uuid5 redact es rows)"
  by (induction es arbitrary: rows) (simp_all add: outbox_ok_step)

lemma outbox_ok_Nil [simp]: "outbox_ok []"
  by (simp add: outbox_ok_def)

section \<open>One row through a history\<close>

definition row_at :: "delivery_rows \<Rightarrow> string \<Rightarrow> delivery_row option" where
  "row_at rows i = find (\<lambda>r. dr_id r = i) rows"

lemma row_at_iff: "distinct (map dr_id rows) \<Longrightarrow> row_at rows i = Some r \<longleftrightarrow> r \<in> set rows \<and> dr_id r = i"
  by (induction rows) (auto simp: row_at_def)

lemma row_at_ok: "outbox_ok rows \<Longrightarrow> row_at rows i = Some r \<Longrightarrow> life_cycle r \<and> dr_id r = i"
  by (auto simp: row_at_iff outbox_ok_def list_all_iff)

lemma row_at_step:
  assumes "outbox_ok rows" and "row_at rows i = Some r"
  obtains r' where "row_at (outbox_step uuid5 redact e rows) i = Some r'" "row_move redact e r r'"
proof -
  have d: "distinct (map dr_id rows)" "distinct (map dr_id (outbox_step uuid5 redact e rows))"
    using assms(1) outbox_ok_step[OF assms(1)] by (simp_all add: outbox_ok_def)
  obtain h new where s: "outbox_step uuid5 redact e rows = map h rows @ new"
    and h: "\<forall>r\<in>set rows. row_move redact e r (h r)"
    using step_moved[OF d(1)] unfolding moved_def by blast
  from assms(2) d(1) have r: "r \<in> set rows" "dr_id r = i" by (simp_all add: row_at_iff)
  then have "row_move redact e r (h r)" "dr_id (h r) = i" using h row_move_keeps by blast+
  moreover from this r have "row_at (outbox_step uuid5 redact e rows) i = Some (h r)"
    unfolding row_at_iff[OF d(2)] by (simp add: s)
  ultimately show thesis using that by blast
qed

text \<open>A row appears by being created.\<close>

lemma row_at_appears:
  assumes "outbox_ok rows" and "row_at rows i = None" and "row_at (outbox_step uuid5 redact e rows) i = Some r"
  obtains now f q where "e = (now, f, Op_Create q)" "new_row uuid5 now q = Some r"
proof -
  have d: "distinct (map dr_id rows)" "distinct (map dr_id (outbox_step uuid5 redact e rows))"
    using assms(1) outbox_ok_step[OF assms(1)] by (simp_all add: outbox_ok_def)
  obtain h new where s: "outbox_step uuid5 redact e rows = map h rows @ new"
    and h: "\<forall>r\<in>set rows. row_move redact e r (h r)" and new: "new = [] \<or> (\<exists>x. new = [x] \<and> fresh_row uuid5 e rows x)"
    using step_moved[OF d(1)] unfolding moved_def by blast
  from assms(3) have r: "r \<in> set (map h rows @ new)" "dr_id r = i" using row_at_iff[OF d(2)] s by simp_all
  have "r \<notin> h ` set rows"
  proof
    assume "r \<in> h ` set rows"
    then obtain x where "x \<in> set rows" "dr_id x = i" using h row_move_keeps r(2) by fastforce
    with assms(2) row_at_iff[OF d(1), of i x] show False by simp
  qed
  with r new that show thesis by (auto simp: fresh_row_def)
qed

lemma outbox_ok_ids:
  assumes "outbox_ok rows" and "r \<in> set rows" and "r' \<in> set rows" and "dr_id r = dr_id r'"
  shows "r = r'"
  using assms by (auto simp: outbox_ok_def distinct_map inj_on_def)

section \<open>While the lease runs\<close>

text \<open>A statement that leaves the claim \<open>token\<close> of the row \<open>i\<close> alone while it is leased.\<close>

fun keeps_claim :: "string \<Rightarrow> string \<Rightarrow> int \<Rightarrow> outbox_event \<Rightarrow> bool" where
  "keeps_claim i token expiry (now, f, Op_Release scope locked) = (now < expiry)"
| "keeps_claim i token expiry (now, f, Op_Sent j k message) = (j = i \<longrightarrow> k \<noteq> token)"
| "keeps_claim i token expiry (now, f, Op_Retry j k available code txt message) = (j = i \<longrightarrow> k \<noteq> token)"
| "keeps_claim i token expiry (now, f, Op_Failed j k code txt message) = (j = i \<longrightarrow> k \<noteq> token)"
| "keeps_claim i token expiry (now, f, Op_Cancelled j k code txt) = (j = i \<longrightarrow> k \<noteq> token)"
| "keeps_claim i token expiry e = True"

definition claimed_with :: "string \<Rightarrow> int \<Rightarrow> delivery_row \<Rightarrow> bool" where
  "claimed_with token expiry r =
     (md_status (dr_meta r) = Some ''PROCESSING'' \<and> md_token (dr_meta r) = Some token \<and> md_expires (dr_meta r) = Some expiry)"

lemma claim_kept:
  assumes "row_move redact e r r'" and "claimed_with token expiry r" and "dr_id r = i" and "keeps_claim i token expiry e"
  shows "r' = r"
  using assms by (cases rule: row_moveE)
    (auto simp: claimed_with_def requeueable_def status_of_def expired_claim_def claimable_row_def held_by_def)

lemma claim_kept_run:
  assumes "outbox_ok rows" and "row_at rows i = Some r" and "claimed_with token expiry r"
    and "list_all (keeps_claim i token expiry) es"
  shows "row_at (run_outbox uuid5 redact es rows) i = Some r"
  using assms
proof (induction es arbitrary: rows)
  case (Cons e es)
  obtain r' where "row_at (outbox_step uuid5 redact e rows) i = Some r'" "row_move redact e r r'"
    using row_at_step[OF Cons.prems(1,2)] .
  moreover have "dr_id r = i" using row_at_ok[OF Cons.prems(1,2)] by simp
  ultimately have "row_at (outbox_step uuid5 redact e rows) i = Some r"
    using claim_kept[of redact e r r' token expiry i] Cons.prems(3,4) by simp
  with Cons show ?case by (simp add: outbox_ok_step)
qed simp

text \<open>Nobody else claims it.\<close>

lemma claim_one_row:
  assumes "claim_one now scope locked ttl worker token rows = (Some r', rows')" and "distinct (map dr_id rows)"
  obtains r where "row_at rows (dr_id r') = Some r" "claimable_row now scope r" "r' = claimed_row now ttl worker token r"
    "rows' = map (\<lambda>x. if dr_id x = dr_id r' then claimed_row now ttl worker token x else x) rows"
    "\<forall>x\<in>set rows. claimable_row now scope x \<and> dr_id x \<notin> set locked \<longrightarrow> due_order r \<le> due_order x"
proof -
  obtain i where c: "candidate due_order (claimable_row now scope) locked rows = Some i"
    and u: "map_option (claimed_row now ttl worker token) (find (\<lambda>r. dr_id r = i) rows) = Some r'"
      "rows' = map (\<lambda>x. if dr_id x = i then claimed_row now ttl worker token x else x) rows"
    using assms(1) by (auto simp: claim_one_def update_candidate_def update_row_def split: option.splits)
  from u(1) obtain r where r: "row_at rows i = Some r" "r' = claimed_row now ttl worker token r" by (auto simp: row_at_def)
  then have m: "r \<in> set rows" "dr_id r = i" "dr_id r' = i" using row_at_iff[OF assms(2)] by (auto simp: claimed_row_def)
  from c obtain x where x: "x \<in> set rows" "claimable_row now scope x" "dr_id x = i"
    "\<forall>y\<in>set rows. claimable_row now scope y \<and> dr_id y \<notin> set locked \<longrightarrow> due_order x \<le> due_order y"
    by (rule candidate_SomeD)
  then have "x = r" using m assms(2) by (metis distinct_map inj_onD)
  with x r m u(2) that show thesis by simp
qed

section \<open>A claim that is no longer current\<close>

definition gives_token :: "string \<Rightarrow> outbox_event \<Rightarrow> bool" where
  "gives_token token e = (case e of (now, f, Op_Claim_Next scope locked ttl worker k) \<Rightarrow> k = token | _ \<Rightarrow> False)"

lemma token_stays_away:
  assumes "row_move redact e r r'" and "\<not> gives_token token e" and "md_token (dr_meta r) \<noteq> Some token"
  shows "md_token (dr_meta r') \<noteq> Some token"
  using assms by (cases rule: row_moveE) (simp_all add: row_updates gives_token_def)

lemma token_stays_away_run:
  assumes "outbox_ok rows" and "\<forall>r. row_at rows i = Some r \<longrightarrow> md_token (dr_meta r) \<noteq> Some token"
    and "list_all (\<lambda>e. \<not> gives_token token e) es"
  shows "\<forall>r. row_at (run_outbox uuid5 redact es rows) i = Some r \<longrightarrow> md_token (dr_meta r) \<noteq> Some token"
  using assms
proof (induction es arbitrary: rows)
  case (Cons e es)
  have "md_token (dr_meta r) \<noteq> Some token" if r: "row_at (outbox_step uuid5 redact e rows) i = Some r" for r
  proof (cases "row_at rows i")
    case None
    from row_at_appears[OF Cons.prems(1) this r] obtain now f q where "new_row uuid5 now q = Some r" .
    then show ?thesis by (auto simp: new_row_def new_metadata_def split: option.splits)
  next
    case (Some r0)
    then obtain r' where "row_at (outbox_step uuid5 redact e rows) i = Some r'" "row_move redact e r0 r'"
      using row_at_step[OF Cons.prems(1)] by blast
    moreover have "\<not> gives_token token e" "md_token (dr_meta r0) \<noteq> Some token"
      using Cons.prems(2,3) Some by simp_all
    ultimately show ?thesis using r token_stays_away by fastforce
  qed
  then have "\<forall>r. row_at (outbox_step uuid5 redact e rows) i = Some r \<longrightarrow> md_token (dr_meta r) \<noteq> Some token" by blast
  moreover have "list_all (\<lambda>e. \<not> gives_token token e) es" using Cons.prems(3) by simp
  ultimately show ?case unfolding run_outbox_simps by (rule Cons.IH[OF outbox_ok_step[OF Cons.prems(1)]])
qed simp

lemma settle_stale:
  assumes "outbox_ok rows" and "\<forall>r. row_at rows i = Some r \<longrightarrow> md_token (dr_meta r) \<noteq> Some token"
  shows "settle Fine i token g rows = (Inl stale_claim, rows)"
proof -
  have "\<not> held_by i token r" if "r \<in> set rows" for r
    using assms that by (auto simp: held_by_def row_at_iff outbox_ok_def)
  then have "find (held_by i token) rows = None" "map (\<lambda>r. if held_by i token r then g r else r) rows = rows"
    by (auto simp: find_None_iff map_idI)
  then show ?thesis by (simp add: settle_def statement_def fail_as_def update_row_def app_bind_def)
qed

section \<open>How often a message is claimed\<close>

definition takes_claim :: "string \<Rightarrow> outbox_event \<Rightarrow> delivery_rows \<Rightarrow> delivery_rows \<Rightarrow> bool" where
  "takes_claim i e rows rows' =
     (case e of (now, f, Op_Claim_Next scope locked ttl worker k) \<Rightarrow> row_at rows' i \<noteq> row_at rows i | _ \<Rightarrow> False)"

definition takes_requeue :: "string \<Rightarrow> outbox_event \<Rightarrow> delivery_rows \<Rightarrow> delivery_rows \<Rightarrow> bool" where
  "takes_requeue i e rows rows' =
     (case e of (now, f, Op_Requeue j recipient payload cooldown) \<Rightarrow> row_at rows' i \<noteq> row_at rows i | _ \<Rightarrow> False)"

fun count_steps ::
  "(string \<Rightarrow> string) \<Rightarrow> redaction \<Rightarrow> (outbox_event \<Rightarrow> delivery_rows \<Rightarrow> delivery_rows \<Rightarrow> bool) \<Rightarrow> outbox_event list \<Rightarrow> delivery_rows \<Rightarrow> nat" where
  "count_steps uuid5 redact p [] rows = 0"
| "count_steps uuid5 redact p (e # es) rows =
     (let rows' = outbox_step uuid5 redact e rows in
      (if p e rows rows' then 1 else 0) + count_steps uuid5 redact p es rows')"

lemma row_move_attempts:
  assumes "row_move redact e r r'"
  shows "attempts_of r' = (if r' = r then attempts_of r else
     case e of (now, f, Op_Claim_Next scope locked ttl worker k) \<Rightarrow> attempts_of r + 1
       | (now, f, Op_Requeue j recipient payload cooldown) \<Rightarrow> 0 | _ \<Rightarrow> attempts_of r)"
  using assms
proof (cases rule: row_moveE)
  case (Claimed now scope f locked ttl worker token)
  then have "r' \<noteq> r" by (auto simp: claimable_row_def claimed_row_def dest!: arg_cong[of _ _ "\<lambda>r. md_status (dr_meta r)"])
  with Claimed show ?thesis by (simp add: claimed_row_def attempts_of_def)
next
  case (Requeued i cooldown now f recipient payload)
  then have "r' \<noteq> r"
    by (auto simp: requeueable_def status_of_def requeued_row_def dest!: arg_cong[of _ _ status_of])
  with Requeued show ?thesis by (simp add: requeued_row_def attempts_of_def)
qed (simp_all add: row_updates attempts_of_def)

lemma claims_bounded:
  assumes "outbox_ok rows" and "row_at rows i = Some r" and "row_at (run_outbox uuid5 redact es rows) i = Some z"
  shows "int (count_steps uuid5 redact (takes_claim i) es rows) + attempts_of r
    \<le> int (count_steps uuid5 redact (takes_requeue i) es rows) * max 0 (max_attempts_of r) + max 0 (max_attempts_of r)
    \<and> max_attempts_of z = max_attempts_of r"
  using assms
proof (induction es arbitrary: rows r)
  case Nil
  then show ?case using row_at_ok[OF Nil(1,2)] by (auto simp: life_cycle_def Let_def)
next
  case (Cons e es)
  let ?rows' = "outbox_step uuid5 redact e rows"
  let ?M = "max 0 (max_attempts_of r)"
  obtain r' where r': "row_at ?rows' i = Some r'" "row_move redact e r r'" using row_at_step[OF Cons.prems(1,2)] .
  have keeps: "max_attempts_of r' = max_attempts_of r" using row_move_keeps[OF r'(2)] by simp
  note IH = Cons.IH[OF outbox_ok_step[OF Cons.prems(1)] r'(1)] 
  have IH': "int (count_steps uuid5 redact (takes_claim i) es ?rows') + attempts_of r'
      \<le> int (count_steps uuid5 redact (takes_requeue i) es ?rows') * ?M + ?M" "max_attempts_of z = max_attempts_of r"
    using IH Cons.prems(3) keeps by simp_all
  have bounds: "attempts_of r \<le> ?M" "0 \<le> attempts_of r"
    using row_at_ok[OF Cons.prems(1,2)] by (auto simp: life_cycle_def Let_def)
  have claim: "takes_claim i e rows ?rows' \<longleftrightarrow> r' \<noteq> r \<and> (\<exists>now f s l t w k. e = (now, f, Op_Claim_Next s l t w k))"
    and requeue: "takes_requeue i e rows ?rows' \<longleftrightarrow> r' \<noteq> r \<and> (\<exists>now f j rc p c. e = (now, f, Op_Requeue j rc p c))"
    using r'(1) Cons.prems(2) by (auto simp: takes_claim_def takes_requeue_def split: prod.splits outbox_op.splits)
  consider "r' \<noteq> r \<and> (\<exists>now f s l t w k. e = (now, f, Op_Claim_Next s l t w k))"
    | "r' \<noteq> r \<and> (\<exists>now f j rc p c. e = (now, f, Op_Requeue j rc p c))"
    | "\<not> takes_claim i e rows ?rows'" "\<not> takes_requeue i e rows ?rows'" using claim requeue by blast
  then show ?case
  proof cases
    case 1
    then have "attempts_of r' = attempts_of r + 1" using row_move_attempts[OF r'(2)] by auto
    moreover have "takes_claim i e rows ?rows'" "\<not> takes_requeue i e rows ?rows'" using 1 claim requeue by auto
    ultimately show ?thesis using IH' by (simp add: Let_def)
  next
    case 2
    then have "attempts_of r' = 0" using row_move_attempts[OF r'(2)] by auto
    moreover have "\<not> takes_claim i e rows ?rows'" "takes_requeue i e rows ?rows'" using 2 claim requeue by auto
    ultimately show ?thesis using IH' bounds by (simp add: Let_def algebra_simps)
  next
    case 3
    then have "attempts_of r' = attempts_of r"
      using row_move_attempts[OF r'(2)] claim requeue by (auto split: prod.splits outbox_op.splits)
    with 3 IH' show ?thesis by (simp add: Let_def)
  qed
qed

end
