(* ===== verification/Em_Rounds.thy ===== *)
theory Em_Rounds
  imports Em_Queue_Props
begin

text \<open>
  The rounds of a worker: what a run of claims hands out, what the recovery of expired claims does to
  the table, that a round is a sequence of statements of the queue, and on which grounds a message
  is posted.
\<close>

section \<open>Recovering expired claims\<close>

lemma candidate_free:
  "candidate key p [] rows = (case sort_key key (filter p rows) of [] \<Rightarrow> None | r # rs \<Rightarrow> Some (dr_id r))"
  by (simp add: candidate_def)

lemma released_not_expired [simp]: "\<not> expired_claim now scope (released_row t r)"
  by (simp add: expired_claim_def released_row_def Let_def)

lemma update_id_eq:
  assumes "distinct (map dr_id rows)" and "r \<in> set rows"
  shows "map (\<lambda>x. if dr_id x = dr_id r then g x else x) rows = map (\<lambda>x. if x = r then g x else x) rows"
  using assms by (intro map_cong) (auto simp: distinct_map inj_on_def)

lemma mset_split_one:
  assumes "distinct rows" and "r \<in> set rows" and "p r"
  shows "mset (filter p rows) = add_mset r (mset (filter (\<lambda>x. p x \<and> x \<noteq> r) rows))"
  using assms
proof (induction rows)
  case (Cons a rows)
  show ?case
  proof (cases "a = r")
    case True
    then have "filter (\<lambda>x. p x \<and> x \<noteq> r) rows = filter p rows" using Cons.prems(1) by (intro filter_cong) auto
    with True Cons.prems(3) show ?thesis by simp
  qed (use Cons in auto)
qed simp

lemma release_expired_exact:
  assumes "distinct (map dr_id rows)"
  shows "\<exists>ds. release_expired_claims (\<lambda>_. Fine) (\<lambda>_. []) now scope rows
      = (Inr ds, map (\<lambda>r. if expired_claim now scope r then released_row now r else r) rows)
    \<and> mset (map dv_id ds) = mset (map dr_id (filter (expired_claim now scope) rows))"
  using assms
proof (induction "processing_count rows" arbitrary: rows rule: less_induct)
  case less
  let ?one = "release_one now scope [] rows"
  show ?case
  proof (cases "fst ?one")
    case None
    then have "candidate (\<lambda>r. (dr_created r, dr_id r)) (expired_claim now scope) [] rows = None"
    proof (cases "candidate (\<lambda>r. (dr_created r, dr_id r)) (expired_claim now scope) [] rows")
      case (Some i)
      then obtain x where "x \<in> set rows" "dr_id x = i" by (rule candidate_SomeD)
      with None Some show ?thesis by (auto simp: release_one_def update_candidate_def update_row_def find_None_iff)
    qed
    from candidate_NoneD[OF this] have none: "\<forall>x\<in>set rows. \<not> expired_claim now scope x" by auto
    have "?one = (None, rows)" using \<open>candidate _ _ _ _ = None\<close> by (simp add: release_one_def update_candidate_def)
    then have "release_expired_claims (\<lambda>_. Fine) (\<lambda>_. []) now scope rows = (Inr [], rows)"
      by (subst release_expired_claims.simps) (simp add: statement_def fail_as_def)
    with none show ?thesis by (simp add: map_idI)
  next
    case (Some r')
    obtain i where c: "candidate (\<lambda>r. (dr_created r, dr_id r)) (expired_claim now scope) [] rows = Some i"
      using Some by (auto simp: release_one_def update_candidate_def split: option.splits)
    then obtain r where r: "r \<in> set rows" "expired_claim now scope r" "dr_id r = i" by (rule candidate_SomeD)
    have "row_at rows i = Some r" using r row_at_iff[OF less.prems] by simp
    then have one: "?one = (Some (released_row now r), map (\<lambda>x. if x = r then released_row now x else x) rows)"
      using r update_id_eq[OF less.prems r(1)]
      by (simp add: release_one_def c update_candidate_def update_row_def row_at_def)
    let ?rows1 = "map (\<lambda>x. if x = r then released_row now x else x) rows"
    have keep: "dr_id (released_row now x) = dr_id x" for x by (simp add: released_row_def Let_def)
    have ids: "map dr_id ?rows1 = map dr_id rows" by (simp add: keep)
    have "processing_count ?rows1 < processing_count rows" using release_one_count[of now scope "[]" rows] one by simp
    moreover have "distinct (map dr_id ?rows1)" unfolding ids by (rule less.prems)
    ultimately obtain ds where
      IH: "release_expired_claims (\<lambda>_. Fine) (\<lambda>_. []) now scope ?rows1
        = (Inr ds, map (\<lambda>r. if expired_claim now scope r then released_row now r else r) ?rows1)"
      "mset (map dv_id ds) = mset (map dr_id (filter (expired_claim now scope) ?rows1))"
      using less.hyps by blast
    have run: "release_expired_claims (\<lambda>_. Fine) (\<lambda>_. []) now scope rows
        = (Inr (row_to_delivery (released_row now r) # ds), map (\<lambda>r. if expired_claim now scope r then released_row now r else r) ?rows1)"
      by (subst release_expired_claims.simps) (simp add: statement_def fail_as_def one IH(1))
    have same: "map (\<lambda>r. if expired_claim now scope r then released_row now r else r) ?rows1
        = map (\<lambda>r. if expired_claim now scope r then released_row now r else r) rows"
      using r(2) by simp
    have "filter (expired_claim now scope) ?rows1 = filter (\<lambda>x. expired_claim now scope x \<and> x \<noteq> r) rows"
      by (induction rows) auto
    then have "mset (map dv_id (row_to_delivery (released_row now r) # ds)) = mset (map dr_id (filter (expired_claim now scope) rows))"
      using IH(2) mset_split_one[where p = "expired_claim now scope", OF _ r(1,2)] less.prems by (simp add: row_to_delivery_def Let_def keep distinct_map)
    with run[unfolded same] show ?thesis by blast
  qed
qed

section \<open>Handing out what is due\<close>

definition calm_calls :: "int \<Rightarrow> (nat \<Rightarrow> string) \<Rightarrow> nat \<Rightarrow> claim_call" where
  "calm_calls now token n = \<lparr>cc_stop = False, cc_fault = Fine, cc_now = now, cc_locked = [], cc_token = token n\<rparr>"

lemma claimed_not_claimable [simp]: "\<not> claimable_row now scope (claimed_row t ttl worker token r)"
  by (simp add: claimable_row_def claimed_row_def)

lemma inj_due_order: "distinct (map dr_id rows) \<Longrightarrow> inj_on due_order (set rows)"
  by (auto simp: inj_on_def due_order_def distinct_map)

lemma claims_hand_out_due:
  assumes "distinct (map dr_id rows)"
  shows "map dv_id (case fst (claim_batch cfg worker scope n (calm_calls now token) rows) of Inr ds \<Rightarrow> ds | Inl e \<Rightarrow> [])
      = map dr_id (take n (sort_key due_order (filter (claimable_row now scope) rows)))
    \<and> (\<exists>ds. fst (claim_batch cfg worker scope n (calm_calls now token) rows) = Inr ds)"
  using assms
proof (induction n arbitrary: rows token)
  case (Suc n)
  let ?xs = "sort_key due_order (filter (claimable_row now scope) rows)"
  have shift: "(\<lambda>i. calm_calls now token (Suc i)) = calm_calls now (\<lambda>i. token (Suc i))"
    by (simp add: calm_calls_def fun_eq_iff)
  have call: "calm_calls now token 0 = \<lparr>cc_stop = False, cc_fault = Fine, cc_now = now, cc_locked = [], cc_token = token 0\<rparr>"
    by (simp add: calm_calls_def)
  show ?case
  proof (cases ?xs)
    case Nil
    then have "claim_one now scope [] (es_lease cfg) worker (token 0) rows = (None, rows)"
      by (simp add: claim_one_def candidate_free update_candidate_def)
    then show ?thesis using Nil by (simp add: call claim_next_delivery_def statement_def fail_as_def app_bind_def)
  next
    case (Cons r rs)
    then have "r \<in> set ?xs" by simp
    then have r: "r \<in> set rows" "claimable_row now scope r" by simp_all
    let ?g = "claimed_row now (es_lease cfg) worker (token 0)"
    let ?rows1 = "map (\<lambda>x. if x = r then ?g x else x) rows"
    have "row_at rows (dr_id r) = Some r" using r row_at_iff[OF Suc.prems] by simp
    then have one: "claim_one now scope [] (es_lease cfg) worker (token 0) rows = (Some (?g r), ?rows1)"
      using update_id_eq[OF Suc.prems r(1)]
      by (simp add: claim_one_def candidate_free Cons update_candidate_def update_row_def row_at_def)
    have keep: "dr_id (?g x) = dr_id x" for x by (simp add: claimed_row_def)
    have "map dr_id ?rows1 = map dr_id rows" by (simp add: keep)
    then have ids: "distinct (map dr_id ?rows1)" using Suc.prems by metis
    have "filter (claimable_row now scope) ?rows1 = filter (\<lambda>x. x \<noteq> r) (filter (claimable_row now scope) rows)"
      by (induction rows) auto
    then have "sort_key due_order (filter (claimable_row now scope) ?rows1) = filter (\<lambda>x. x \<noteq> r) ?xs"
      using filter_sort[of "\<lambda>x. x \<noteq> r" due_order "filter (claimable_row now scope) rows"] by (rule trans[OF arg_cong sym])
    then have "sort_key due_order (filter (claimable_row now scope) ?rows1) = filter (\<lambda>x. x \<noteq> r) (r # rs)"
      unfolding Cons .
    moreover have "distinct (r # rs)" 
      unfolding Cons[symmetric] using Suc.prems by (simp add: distinct_map)
    ultimately have rest: "sort_key due_order (filter (claimable_row now scope) ?rows1) = rs"
      by (auto simp: filter_id_conv)
    from Suc.IH[OF ids, of "\<lambda>i. token (Suc i)"] obtain ds where
      "fst (claim_batch cfg worker scope n (calm_calls now (\<lambda>i. token (Suc i))) ?rows1) = Inr ds"
      "map dv_id ds = map dr_id (take n rs)" unfolding rest by auto
    then show ?thesis
      by (cases "claim_batch cfg worker scope n (calm_calls now (\<lambda>i. token (Suc i))) ?rows1")
         (simp add: Cons call shift claim_next_delivery_def statement_def fail_as_def app_bind_def one
            row_to_delivery_def Let_def keep)
  qed
qed simp

section \<open>A round is a sequence of statements\<close>

fun worker_event :: "outbox_event \<Rightarrow> bool" where
  "worker_event (now, f, Op_Create q) = False"
| "worker_event (now, f, Op_Requeue i recipient payload cooldown) = False"
| "worker_event e = True"

definition worked :: "(string \<Rightarrow> string) \<Rightarrow> redaction \<Rightarrow> delivery_rows \<Rightarrow> delivery_rows \<Rightarrow> bool" where
  "worked uuid5 redact rows rows' = (\<exists>es. list_all worker_event es \<and> rows' = run_outbox uuid5 redact es rows)"

lemma worked_refl [simp]: "worked uuid5 redact rows rows"
  unfolding worked_def by (intro exI[of _ "[]"]) simp

lemma worked_trans: "worked uuid5 redact a b \<Longrightarrow> worked uuid5 redact b c \<Longrightarrow> worked uuid5 redact a c"
  unfolding worked_def by (metis list_all_append run_outbox_append)

lemma worked_step: "worker_event e \<Longrightarrow> outbox_step uuid5 redact e rows = rows' \<Longrightarrow> worked uuid5 redact rows rows'"
  unfolding worked_def by (intro exI[of _ "[e]"]) simp

lemma settling_worked:
  "worked uuid5 redact rows (snd (mark_sent f now i token message rows))"
  "worked uuid5 redact rows (snd (mark_retry_pending redact f now i token available code reason message rows))"
  "worked uuid5 redact rows (snd (mark_failed redact f now i token code reason message rows))"
  "worked uuid5 redact rows (snd (mark_cancelled redact f now i token code reason rows))"
  by (rule worked_step[of "(now, f, Op_Sent i token message)"] worked_step[of "(now, f, Op_Retry i token available code reason message)"]
      worked_step[of "(now, f, Op_Failed i token code reason message)"] worked_step[of "(now, f, Op_Cancelled i token code reason)"];
      simp add: outbox_step_def)+

lemma release_worked: "worked uuid5 redact rows (snd (release_expired_claims f locked now scope rows))"
proof (induction f locked now scope rows rule: release_expired_claims.induct)
  case (1 f locked now scope rows)
  let ?s = "statement (f 0) (release_one now scope (locked 0)) rows"
  have step: "worked uuid5 redact rows (snd ?s)"
    by (rule worked_step[of "(now, f 0, Op_Release scope (locked 0))"]) (simp_all add: outbox_step_def)
  obtain r rows' where s: "?s = (r, rows')" by fastforce
  show ?case
  proof (cases "\<exists>x. r = Inr (Some x)")
    case True
    then obtain x where x: "r = Inr (Some x)" by blast
    from "1.IH"[OF s[symmetric] x refl] step s
    have "worked uuid5 redact rows (snd (release_expired_claims (\<lambda>n. f (Suc n)) (\<lambda>n. locked (Suc n)) now scope rows'))"
      using worked_trans by fastforce
    then show ?thesis
      by (subst release_expired_claims.simps, cases "release_expired_claims (\<lambda>n. f (Suc n)) (\<lambda>n. locked (Suc n)) now scope rows'")
         (simp add: s x split: sum.split)
  next
    case False
    then show ?thesis using step s
      by (subst release_expired_claims.simps) (auto split: sum.splits option.splits)
  qed
qed

lemma claim_batch_worked: "worked uuid5 redact rows (snd (claim_batch cfg worker scope n calls rows))"
proof (induction n arbitrary: calls rows)
  case (Suc n)
  let ?c = "calls 0"
  let ?s = "claim_next_delivery (cc_fault ?c) (cc_now ?c) scope (cc_locked ?c) (es_lease cfg) worker (cc_token ?c) rows"
  have step: "worked uuid5 redact rows (snd ?s)"
    by (rule worked_step[of "(cc_now ?c, cc_fault ?c, Op_Claim_Next scope (cc_locked ?c) (es_lease cfg) worker (cc_token ?c))"])
       (simp_all add: outbox_step_def)
  have rest: "worked uuid5 redact rows (snd (claim_batch cfg worker scope n (\<lambda>i. calls (Suc i)) (snd ?s)))"
    using step Suc worked_trans by blast
  show ?case using step rest
    by (cases ?s) (auto simp: app_bind_def Let_def split: prod.splits sum.splits option.splits)
qed simp

lemma process_worked: "worked uuid5 redact rows (snd (process_claim_guarded cfg redact rp w d rows))"
proof -
  have one: "worked uuid5 redact rows (snd (snd (process_claim cfg redact rp w d rows)))"
    by (auto simp: process_claim_def handle_app_error_def handle_revalidation_rejection_def settle_result_def
        settling_worked split: prod.splits sum.splits worker_exn.splits)
  obtain m x rows' where p: "process_claim cfg redact rp w d rows = (m, x, rows')" by (cases "process_claim cfg redact rp w d rows")
  with one have "worked uuid5 redact rows rows'" by simp
  then show ?thesis
    by (auto simp: process_claim_guarded_def p intro: worked_trans[OF _ settling_worked(2)]
        split: sum.splits worker_exn.splits unit.splits)
qed

lemma process_batch_Cons:
  "process_batch cfg redact rp skip ws (d # ds) rows =
     (let p = (if skip 0 then (None, rows) else process_claim_guarded cfg redact rp (ws 0) d rows);
          q = process_batch cfg redact rp (\<lambda>i. skip (Suc i)) (\<lambda>i. ws (Suc i)) ds (snd p)
      in (case fst p of None \<Rightarrow> fst q | Some x \<Rightarrow> x # fst q, snd q))"
  unfolding process_batch.simps Let_def by (simp only: case_prod_beta)

lemma process_batch_worked: "worked uuid5 redact rows (snd (process_batch cfg redact rp skip ws ds rows))"
proof (induction ds arbitrary: skip ws rows)
  case (Cons d ds)
  let ?p = "if skip 0 then (None, rows) else process_claim_guarded cfg redact rp (ws 0) d rows"
  have "worked uuid5 redact rows (snd ?p)" by (simp add: process_worked)
  with Cons[of "snd ?p" "\<lambda>i. skip (Suc i)" "\<lambda>i. ws (Suc i)"]
  have "worked uuid5 redact rows (snd (process_batch cfg redact rp (\<lambda>i. skip (Suc i)) (\<lambda>i. ws (Suc i)) ds (snd ?p)))"
    using worked_trans by blast
  then show ?case by (simp only: process_batch_Cons Let_def snd_conv)
qed simp

lemma run_once_worked: "worked uuid5 redact rows (snd (run_once cfg redact rp validated worker scope w rows))"
proof -
  let ?r = "release_expired_claims (rw_fault w) (rw_locked w) (rw_now w) scope rows"
  let ?c = "claim_batch cfg worker scope (nat (es_batch cfg)) (rw_calls w) (snd ?r)"
  have r: "worked uuid5 redact rows (snd ?r)" by (rule release_worked)
  have c: "worked uuid5 redact rows (snd ?c)" using r claim_batch_worked worked_trans by blast
  have p: "worked uuid5 redact rows (snd (process_batch cfg redact rp (rw_skip w) (rw_claims w) ds (snd ?c)))" for ds
    using c process_batch_worked worked_trans by blast
  have p: "process_batch cfg redact rp (rw_skip w) (rw_claims w) ds (snd ?c) = (ms, x) \<Longrightarrow> worked uuid5 redact rows x"
    for ds ms x using p[of ds] by simp
  show ?thesis using r c p
    by (cases ?r; cases ?c) (auto simp: run_once_def app_bind_def split: prod.splits sum.splits)
qed

section \<open>On which grounds a message is posted\<close>

lemma normalize_text_idem: "normalize_text v = Some s \<Longrightarrow> normalize_text (Some s) = Some s"
  by (auto simp: normalize_text_def Let_def py_strip_idem split: option.splits if_splits)

text \<open>The conditions of an allowed decision, on the context it was taken from.\<close>

definition may_send :: "email_settings \<Rightarrow> report_context \<Rightarrow> string \<Rightarrow> bool" where
  "may_send cfg c address =
     (es_enabled cfg \<and> es_trigger cfg \<and> email_effective_rollout_mode cfg \<noteq> ''disabled''
      \<and> rc_daily c \<and> rc_action c \<and> normalize_text (rc_status c) \<in> Some ` set SENDABLE_REPORT_STATUSES
      \<and> (\<exists>e. coalesce (normalize_text (rc_recipient c)) (normalize_text (rc_user_email c)) = Some e
            \<and> py_lower address = py_lower e)
      \<and> (email_effective_rollout_mode cfg = ''allowlist'' \<longrightarrow> py_lower address \<in> set (map py_lower (allowlist_values cfg))))"

lemma allowed_decision:
  assumes "ed_allowed (resolve_report_completed_delivery_eligibility cfg cx)"
  obtains c e where "cx = Some c" "ed_recipient (resolve_report_completed_delivery_eligibility cfg cx) = Some e"
    "normalize_text (Some e) = Some e" "may_send cfg c e"
proof -
  from assms obtain c where c: "cx = Some c"
    by (cases cx) (auto simp: resolve_report_completed_delivery_eligibility_def refuse_def split: if_splits)
  from assms c obtain e where e: "coalesce (normalize_text (rc_recipient c)) (normalize_text (rc_user_email c)) = Some e"
    by (auto simp: resolve_report_completed_delivery_eligibility_def refuse_def Let_def split: if_splits option.splits)
  then have "normalize_text (Some e) = Some e" by (auto simp: coalesce_def normalize_text_idem split: if_splits)
  moreover have "ed_recipient (resolve_report_completed_delivery_eligibility cfg cx) = Some e" "may_send cfg c e"
    using assms unfolding c resolve_report_completed_delivery_eligibility_def may_send_def
    by (auto simp: e refuse_def Let_def split: if_splits)
  ultimately show thesis using that c by blast
qed

lemma process_claim_posted:
  assumes "fst (process_claim cfg redact rp w d rows) = Some m"
  obtains e where "revalidate_claim cfg w d = Inr e" "ed_allowed e" "build_message_from_claim cfg rp d = Inr m"
proof (cases "revalidate_claim cfg w d")
  case (Inl x)
  with assms show thesis by (cases x) (simp_all add: process_claim_def split: if_splits)
next
  case (Inr e)
  with assms that show thesis
    by (cases "build_message_from_claim cfg rp d") (auto simp: process_claim_def split: if_splits prod.splits sum.splits)
qed

lemma guarded_posts: "fst (process_claim_guarded cfg redact rp w d rows) = fst (process_claim cfg redact rp w d rows)"
proof -
  obtain m x rows' where p: "process_claim cfg redact rp w d rows = (m, x, rows')" by (cases "process_claim cfg redact rp w d rows")
  show ?thesis by (simp add: process_claim_guarded_def p split: sum.split worker_exn.split unit.split)
qed

lemma revalidated:
  assumes "revalidate_claim cfg w d = Inr e" and "ed_allowed e"
  obtains c a x where "cw_context w = Inr (Some c)" "may_send cfg c a"
    "normalize_text (Some (dr_recipient (dv_row d))) = Some x" "py_lower a = py_lower x"
proof -
  from assms(1) obtain cx where cx: "claim_context w d = Inr cx"
    and e: "e = (let e = resolve_report_completed_delivery_eligibility cfg cx in
       if ed_allowed e \<and> \<not> same_recipient (normalize_text (ed_recipient e)) (normalize_text (Some (dr_recipient (dv_row d))))
       then e\<lparr>ed_allowed := False, ed_reason := ''recipient_changed'',
              ed_message := ''Notification recipient changed after enqueue''\<rparr> else e)"
    by (auto simp: revalidate_claim_def res_simps Let_def)
  have ctx: "cw_context w = Inr cx"
    using cx by (simp add: claim_context_def split: if_splits sum.splits prod.splits)
  let ?e = "resolve_report_completed_delivery_eligibility cfg cx"
  have dec: "ed_allowed ?e" and same: "same_recipient (normalize_text (ed_recipient ?e)) (normalize_text (Some (dr_recipient (dv_row d))))"
    using e assms(2) by (simp_all add: Let_def split: if_splits)
  obtain c a where c: "cx = Some c" "ed_recipient ?e = Some a" "normalize_text (Some a) = Some a" "may_send cfg c a"
    using allowed_decision[OF dec] .
  then obtain x where "normalize_text (Some (dr_recipient (dv_row d))) = Some x" "py_lower a = py_lower x"
    using same by (auto simp: same_recipient_def split: option.splits)
  with c ctx that show thesis by blast
qed

lemma posted_message:
  assumes "fst (process_claim_guarded cfg redact rp w d rows) = Some m"
  obtains c where "cw_context w = Inr (Some c)" "may_send cfg c (em_recipient m)"
proof -
  obtain e where e: "revalidate_claim cfg w d = Inr e" "ed_allowed e" and m: "build_message_from_claim cfg rp d = Inr m"
    using process_claim_posted assms guarded_posts by metis
  obtain c a x where x: "cw_context w = Inr (Some c)" "may_send cfg c a"
    "normalize_text (Some (dr_recipient (dv_row d))) = Some x" "py_lower a = py_lower x" using revalidated[OF e] .
  have "em_recipient m = x"
    using m x(3) by (auto simp: build_message_from_claim_def Let_def coalesce_def split: option.splits)
  with x that show thesis by (simp add: may_send_def)
qed

lemma posted_in_batch:
  assumes "m \<in> set (fst (process_batch cfg redact rp skip ws ds rows))"
  shows "\<exists>k<length ds. \<exists>c. cw_context (ws k) = Inr (Some c) \<and> may_send cfg c (em_recipient m)"
  using assms
proof (induction ds arbitrary: skip ws rows)
  case (Cons d ds)
  let ?p = "if skip 0 then (None, rows) else process_claim_guarded cfg redact rp (ws 0) d rows"
  let ?q = "process_batch cfg redact rp (\<lambda>i. skip (Suc i)) (\<lambda>i. ws (Suc i)) ds (snd ?p)"
  have "fst (process_batch cfg redact rp skip ws (d # ds) rows) = (case fst ?p of None \<Rightarrow> fst ?q | Some x \<Rightarrow> x # fst ?q)"
    by (simp only: process_batch_Cons Let_def fst_conv)
  with Cons.prems consider "m \<in> set (fst ?q)" | "\<not> skip 0" "fst (process_claim_guarded cfg redact rp (ws 0) d rows) = Some m"
    by (auto split: option.splits if_splits)
  then show ?case
  proof cases
    case 1
    from Cons.IH[OF this] show ?thesis by fastforce
  next
    case 2
    then obtain c where "cw_context (ws 0) = Inr (Some c)" "may_send cfg c (em_recipient m)" using posted_message by metis
    then show ?thesis by force
  qed
qed simp

lemma batch_posts_at_most: "length (fst (process_batch cfg redact rp skip ws ds rows)) \<le> length ds"
proof (induction ds arbitrary: skip ws rows)
  case (Cons d ds)
  let ?p = "if skip 0 then (None, rows) else process_claim_guarded cfg redact rp (ws 0) d rows"
  have "length (fst (process_batch cfg redact rp (\<lambda>i. skip (Suc i)) (\<lambda>i. ws (Suc i)) ds (snd ?p))) \<le> length ds" by (rule Cons)
  then show ?case by (simp only: process_batch_Cons Let_def fst_conv split: option.split) simp
qed simp

end
