(* ===== verification/Em_Properties.thy ===== *)
theory Em_Properties
  imports Em_Queue_Props
begin

text \<open>
  The properties of the e-mail queue, over every history of statements that starts with the empty
  table, each with a run on one message where it has hypotheses.
\<close>

section \<open>A concrete message\<close>

definition demo_mail :: delivery_request where
  "demo_mail = \<lparr>rq_user = ''7'', rq_report = ''r1'', rq_trigger = ''report_completed'', rq_template = ''report_completed'',
     rq_version = ''v1'', rq_recipient = ''a@b.kr'', rq_key = ''k'',
     rq_payload = [(''subject'', PStr ''s''), (''htmlBody'', PStr ''h''), (''textBody'', PStr ''t'')],
     rq_provider = ''brevo'', rq_max = 2, rq_available = None, rq_correlation = None\<rparr>"

definition plain_redaction :: redaction where
  "plain_redaction = \<lparr>rx_secrets = (\<lambda>s. s), rx_emails = (\<lambda>s. s)\<rparr>"

definition demo_created :: "outbox_event list" where
  "demo_created = [(0, Fine, Op_Create demo_mail)]"

definition demo_queue :: "outbox_event list \<Rightarrow> delivery_rows" where
  "demo_queue es = run_outbox (\<lambda>s. s) plain_redaction es []"

definition demo_mail_id :: string where "demo_mail_id = ''quantagent-email:k''"

definition demo_claim :: outbox_event where
  "demo_claim = (10, Fine, Op_Claim_Next None [] 300 ''w'' ''t1'')"

definition answered :: "('a, 's) app \<Rightarrow> 'a option" where
  "answered r = (case fst r of Inr a \<Rightarrow> Some a | Inl e \<Rightarrow> None)"

lemma answered_Some: "answered r = Some a \<longleftrightarrow> fst r = Inr a"
  by (auto simp: answered_def split: sum.splits)

lemma demo_mail_runs:
  "map_option (map_option dv_id) (answered (claim_next_delivery Fine 10 None [] 300 ''w'' ''t1'' (demo_queue demo_created))) = Some (Some demo_mail_id)
   \<and> map_option (\<lambda>r. (md_status (dr_meta r), attempts_of r, max_attempts_of r, md_token (dr_meta r), md_expires (dr_meta r)))
       (row_at (demo_queue (demo_created @ [demo_claim])) demo_mail_id)
      = Some (Some ''PROCESSING'', 1, 2, Some ''t1'', Some 300000010)
   \<and> map_option (\<lambda>r. (md_status (dr_meta r), md_token (dr_meta r)))
       (row_at (demo_queue (demo_created @ [demo_claim, (300000010, Fine, Op_Release None [])])) demo_mail_id)
      = Some (Some ''RETRY_PENDING'', None)
   \<and> count_steps (\<lambda>s. s) plain_redaction (takes_claim demo_mail_id) (demo_created @ [demo_claim]) [] = 1
   \<and> map_option (\<lambda>d. d \<noteq> None) (answered (requeue_delivery Fine 20 demo_mail_id None PNone 600
       (demo_queue (demo_created @ [demo_claim, (11, Fine, Op_Failed demo_mail_id ''t1'' None None None)])))) = Some False
   \<and> map_option (\<lambda>d. d \<noteq> None) (answered (requeue_delivery Fine 600000011 demo_mail_id None PNone 600
       (demo_queue (demo_created @ [demo_claim, (11, Fine, Op_Failed demo_mail_id ''t1'' None None None)])))) = Some True"
  by code_simp

section \<open>The states of a message\<close>

text \<open>C24. The columns of a row and its document agree in every reachable table, identifiers are unique, and no
  message is attempted more often than it may.\<close>

theorem queue_consistent:
  "distinct (map dr_id (run_outbox uuid5 redact es []))
   \<and> (\<forall>r\<in>set (run_outbox uuid5 redact es []).
        0 \<le> attempts_of r \<and> attempts_of r \<le> max 0 (max_attempts_of r)
        \<and> (dr_status r = DB_draft \<longleftrightarrow> md_status (dr_meta r) \<in> {Some ''PENDING'', Some ''RETRY_PENDING'', Some ''PROCESSING''})
        \<and> (dr_status r = DB_sent \<longleftrightarrow> md_status (dr_meta r) = Some ''SENT'')
        \<and> (dr_status r = DB_failed \<longleftrightarrow> md_status (dr_meta r) \<in> {Some ''FAILED'', Some ''CANCELLED''})
        \<and> (md_token (dr_meta r) \<noteq> None \<longleftrightarrow> md_status (dr_meta r) = Some ''PROCESSING'')
        \<and> (md_expires (dr_meta r) \<noteq> None \<longleftrightarrow> md_status (dr_meta r) = Some ''PROCESSING'')
        \<and> (md_status (dr_meta r) = Some ''RETRY_PENDING'' \<longrightarrow> attempts_of r < max_attempts_of r))"
proof -
  have ok: "outbox_ok (run_outbox uuid5 redact es [])" by (rule outbox_ok_run) simp
  have "life_cycle r \<Longrightarrow>
        0 \<le> attempts_of r \<and> attempts_of r \<le> max 0 (max_attempts_of r)
        \<and> (dr_status r = DB_draft \<longleftrightarrow> md_status (dr_meta r) \<in> {Some ''PENDING'', Some ''RETRY_PENDING'', Some ''PROCESSING''})
        \<and> (dr_status r = DB_sent \<longleftrightarrow> md_status (dr_meta r) = Some ''SENT'')
        \<and> (dr_status r = DB_failed \<longleftrightarrow> md_status (dr_meta r) \<in> {Some ''FAILED'', Some ''CANCELLED''})
        \<and> (md_token (dr_meta r) \<noteq> None \<longleftrightarrow> md_status (dr_meta r) = Some ''PROCESSING'')
        \<and> (md_expires (dr_meta r) \<noteq> None \<longleftrightarrow> md_status (dr_meta r) = Some ''PROCESSING'')
        \<and> (md_status (dr_meta r) = Some ''RETRY_PENDING'' \<longrightarrow> attempts_of r < max_attempts_of r)" for r
    by (auto simp: life_cycle_def unclaimed_def Let_def split: option.splits if_splits)
  then show ?thesis using ok by (auto simp: outbox_ok_def list_all_iff)
qed

theorem queue_consistent_witness:
  "list_all (\<lambda>r. attempts_of r \<le> max 0 (max_attempts_of r))
     (run_outbox (\<lambda>s. s) plain_redaction (demo_created @ [demo_claim]) [])"
  unfolding list_all_iff using queue_consistent[of "\<lambda>s. s" plain_redaction "demo_created @ [demo_claim]"] by blast

text \<open>C23. A message is claimed at most as often as it may be attempted, once more for every explicit resend
  that was granted.\<close>

theorem claims_per_resend_bounded:
  assumes "row_at (run_outbox uuid5 redact es []) i = Some r"
  shows "int (count_steps uuid5 redact (takes_claim i) es [])
    \<le> int (count_steps uuid5 redact (takes_requeue i) es [] + 1) * max 0 (max_attempts_of r)"
proof -
  have "int (count_steps uuid5 redact (takes_claim i) es rows)
    \<le> int (count_steps uuid5 redact (takes_requeue i) es rows + 1) * max 0 (max_attempts_of r)"
    if "outbox_ok rows" "row_at rows i = None" "row_at (run_outbox uuid5 redact es rows) i = Some r" for rows
    using that
  proof (induction es arbitrary: rows)
    case (Cons e es)
    let ?rows' = "outbox_step uuid5 redact e rows"
    show ?case
    proof (cases "row_at ?rows' i")
      case None
      with Cons.prems(2) have "\<not> takes_claim i e rows ?rows'" "\<not> takes_requeue i e rows ?rows'"
        by (auto simp: takes_claim_def takes_requeue_def split: prod.splits outbox_op.splits)
      with Cons.IH[OF outbox_ok_step[OF Cons.prems(1)] None] Cons.prems(3) show ?thesis by (simp add: Let_def)
    next
      case (Some x)
      obtain now f q where e: "e = (now, f, Op_Create q)" "new_row uuid5 now q = Some x"
        using row_at_appears[OF Cons.prems(1,2) Some] .
      then have "attempts_of x = 0" by (auto simp: new_row_def new_metadata_def attempts_of_def split: option.splits)
      moreover have "outbox_ok ?rows'" using Cons.prems(1) by (rule outbox_ok_step)
      moreover have "row_at (run_outbox uuid5 redact es ?rows') i = Some r" using Cons.prems(3) by simp
      moreover note claims_bounded[OF calculation(2) Some this]
      moreover have "\<not> takes_claim i e rows ?rows'" "\<not> takes_requeue i e rows ?rows'"
        by (simp_all add: e(1) takes_claim_def takes_requeue_def)
      ultimately show ?thesis by (simp add: Let_def algebra_simps)
    qed
  qed (simp add: row_at_def)
  from this[OF outbox_ok_Nil _ assms] show ?thesis by (simp add: row_at_def)
qed

theorem claims_per_resend_bounded_witness:
  "count_steps (\<lambda>s. s) plain_redaction (takes_claim demo_mail_id) (demo_created @ [demo_claim]) [] = 1
   \<and> 1 \<le> int (count_steps (\<lambda>s. s) plain_redaction (takes_requeue demo_mail_id) (demo_created @ [demo_claim]) [] + 1) * 2"
proof -
  obtain r where r: "row_at (run_outbox (\<lambda>s. s) plain_redaction (demo_created @ [demo_claim]) []) demo_mail_id = Some r"
    "max_attempts_of r = 2"
    using demo_mail_runs unfolding demo_queue_def by auto
  show ?thesis using claims_per_resend_bounded[OF r(1)] r(2) demo_mail_runs by simp
qed

section \<open>Claims\<close>

text \<open>C21. A claim is exclusive while its lease runs: until its holder settles it or somebody releases it after its
  expiry, the row stays as the claim left it whatever else happens, no claim returns the message
  again, and settling it with any other token is refused and changes nothing.\<close>

theorem claim_is_exclusive:
  assumes "rows = run_outbox uuid5 redact es0 []"
    and "claim_next_delivery f now scope locked ttl worker token rows = (Inr (Some d), rows1)"
    and "list_all (keeps_claim (dv_id d) token (now + max 1 ttl * second)) es"
    and "rows2 = run_outbox uuid5 redact es rows1"
  shows "row_at rows2 (dv_id d) = Some (dv_row d) \<and> claimed_with token (now + max 1 ttl * second) (dv_row d)
    \<and> (\<forall>now' scope' locked' ttl' worker' token' d' rows3.
         claim_next_delivery Fine now' scope' locked' ttl' worker' token' rows2 = (Inr (Some d'), rows3) \<longrightarrow> dv_id d' \<noteq> dv_id d)
    \<and> (\<forall>token' message now'. token' \<noteq> token \<longrightarrow>
         mark_sent Fine now' (dv_id d) token' message rows2 = (Inl stale_claim, rows2))"
proof -
  have ok: "outbox_ok rows" using assms(1) outbox_ok_run by simp
  have ok1: "outbox_ok rows1"
    using outbox_ok_step[OF ok, of uuid5 redact "(now, f, Op_Claim_Next scope locked ttl worker token)"] assms(2)
    by (simp add: outbox_step_def)
  from assms(2) obtain r' where c: "claim_one now scope locked ttl worker token rows = (Some r', rows1)" "d = row_to_delivery r'"
    by (auto simp: claim_next_delivery_def app_bind_def split: prod.splits sum.splits dest!: statement_Inr)
  have id: "dv_id d = dr_id r'" "dv_row d = r'" by (simp_all add: c(2) row_to_delivery_def Let_def)
  obtain r where r: "row_at rows (dr_id r') = Some r" "r' = claimed_row now ttl worker token r"
    "rows1 = map (\<lambda>x. if dr_id x = dr_id r' then claimed_row now ttl worker token x else x) rows"
    using claim_one_row[OF c(1)] ok by (auto simp: outbox_ok_def)
  have "r \<in> set rows" "dr_id r = dr_id r'" using row_at_iff[of rows "dr_id r'" r] ok r(1) by (simp_all add: outbox_ok_def)
  then have "r' \<in> set rows1" using r(2,3) by (auto intro: rev_image_eqI)
  then have at1: "row_at rows1 (dr_id r') = Some r'" using ok1 by (simp add: row_at_iff outbox_ok_def)
  have cl: "claimed_with token (now + max 1 ttl * second) r'" by (simp add: claimed_with_def r(2) claimed_row_def)
  from claim_kept_run[OF ok1 at1 cl, of es uuid5 redact] assms(3,4) id
  have at2: "row_at rows2 (dr_id r') = Some r'" by simp
  have ok2: "outbox_ok rows2" using outbox_ok_run[OF ok1] assms(4) by simp
  have none: "dv_id d' \<noteq> dr_id r'"
    if "claim_next_delivery Fine now' scope' locked' ttl' worker' token' rows2 = (Inr (Some d'), rows3)"
    for now' scope' locked' ttl' worker' token' d' rows3
  proof
    assume same: "dv_id d' = dr_id r'"
    from that obtain x where x: "claim_one now' scope' locked' ttl' worker' token' rows2 = (Some x, rows3)" "d' = row_to_delivery x"
      by (auto simp: claim_next_delivery_def app_bind_def split: prod.splits sum.splits dest!: statement_Inr)
    obtain y where "row_at rows2 (dr_id x) = Some y" "claimable_row now' scope' y"
      using claim_one_row[OF x(1)] ok2 by (auto simp: outbox_ok_def)
    moreover have "dr_id x = dr_id r'" using same x(2) by (simp add: row_to_delivery_def Let_def)
    ultimately show False using at2 cl by (auto simp: claimable_row_def claimed_with_def)
  qed
  have "mark_sent Fine now' (dr_id r') token' message rows2 = (Inl stale_claim, rows2)" if "token' \<noteq> token" for token' message now'
    unfolding mark_sent_def using settle_stale[OF ok2, of "dr_id r'" token'] at2 cl that by (simp add: claimed_with_def)
  with at2 cl none show ?thesis by (simp add: id)
qed

theorem claim_is_exclusive_witness:
  "\<exists>d rows1. claim_next_delivery Fine 10 None [] 300 ''w'' ''t1'' (demo_queue demo_created) = (Inr (Some d), rows1)
     \<and> dv_id d = demo_mail_id
     \<and> row_at (run_outbox (\<lambda>s. s) plain_redaction
         [(20, Fine, Op_Release None []), (30, Fine, Op_Claim_Next None [] 300 ''v'' ''t2''), (40, Fine, Op_Sent demo_mail_id ''t2'' None)] rows1)
         demo_mail_id = Some (dv_row d)"
proof -
  obtain d rows1 where c: "claim_next_delivery Fine 10 None [] 300 ''w'' ''t1'' (demo_queue demo_created) = (Inr (Some d), rows1)"
    "dv_id d = demo_mail_id"
    using demo_mail_runs by (cases "claim_next_delivery Fine 10 None [] 300 ''w'' ''t1'' (demo_queue demo_created)") (auto simp: answered_Some)
  let ?es = "[(20, Fine, Op_Release None []), (30, Fine, Op_Claim_Next None [] 300 ''v'' ''t2''), (40, Fine, Op_Sent demo_mail_id ''t2'' None)]"
  have "list_all (keeps_claim (dv_id d) ''t1'' (10 + max 1 300 * second)) ?es" by (simp add: second_def)
  from claim_is_exclusive[OF demo_queue_def c(1) this refl] c show ?thesis by simp
qed

text \<open>C22. A claim that was given up is refused for ever: once the row does not hold the token, and as nobody is
  given the same random token again, every way to settle with it answers 409 and changes nothing.\<close>

theorem stale_claim_refused:
  assumes "rows = run_outbox uuid5 redact es0 []"
    and "row_at rows i = Some r" and "md_token (dr_meta r) \<noteq> Some token"
    and "list_all (\<lambda>e. \<not> gives_token token e) es" and "rows2 = run_outbox uuid5 redact es rows"
  shows "mark_sent Fine now i token message rows2 = (Inl stale_claim, rows2)
    \<and> mark_retry_pending redact Fine now i token available code reason message rows2 = (Inl stale_claim, rows2)
    \<and> mark_failed redact Fine now i token code reason message rows2 = (Inl stale_claim, rows2)
    \<and> mark_cancelled redact Fine now i token code reason rows2 = (Inl stale_claim, rows2)"
proof -
  have ok: "outbox_ok rows" using assms(1) outbox_ok_run by simp
  have "\<forall>x. row_at rows2 i = Some x \<longrightarrow> md_token (dr_meta x) \<noteq> Some token"
    unfolding assms(5) by (rule token_stays_away_run[OF ok _ assms(4)]) (simp add: assms(2,3))
  with outbox_ok_run[OF ok] assms(5) show ?thesis
    unfolding mark_sent_def mark_retry_pending_def mark_failed_def mark_cancelled_def by (metis settle_stale)
qed

theorem stale_claim_refused_witness:
  "mark_sent Fine 300000020 demo_mail_id ''t1'' None
     (demo_queue (demo_created @ [demo_claim, (300000010, Fine, Op_Release None []), (300000015, Fine, Op_Claim_Next None [] 300 ''v'' ''t2'')]))
   = (Inl stale_claim,
      demo_queue (demo_created @ [demo_claim, (300000010, Fine, Op_Release None []), (300000015, Fine, Op_Claim_Next None [] 300 ''v'' ''t2'')]))"
proof -
  obtain r where r: "row_at (demo_queue (demo_created @ [demo_claim, (300000010, Fine, Op_Release None [])])) demo_mail_id = Some r"
    "md_token (dr_meta r) \<noteq> Some ''t1''"
    using demo_mail_runs by auto
  have fresh: "list_all (\<lambda>e. \<not> gives_token ''t1'' e) [(300000015, Fine, Op_Claim_Next None [] 300 ''v'' ''t2'')]"
    by (simp add: gives_token_def)
  have run: "demo_queue (demo_created @ [demo_claim, (300000010, Fine, Op_Release None []), (300000015, Fine, Op_Claim_Next None [] 300 ''v'' ''t2'')])
      = run_outbox (\<lambda>s. s) plain_redaction [(300000015, Fine, Op_Claim_Next None [] 300 ''v'' ''t2'')]
          (demo_queue (demo_created @ [demo_claim, (300000010, Fine, Op_Release None [])]))"
    by (simp add: demo_queue_def)
  from stale_claim_refused[OF demo_queue_def r fresh run] show ?thesis by blast
qed

section \<open>Explicit resends\<close>

lemma last_event_later:
  assumes "row_move redact e r r'" and "t \<le> last_event r" and "t \<le> fst e"
  shows "t \<le> last_event r'"
  using assms by (cases rule: row_moveE) (simp_all add: row_updates last_event_def coalesce_def)

lemma last_event_later_run:
  assumes "outbox_ok rows" and "row_at rows i = Some r" and "t \<le> last_event r" and "list_all (\<lambda>e. t \<le> fst e) es"
  shows "\<exists>r'. row_at (run_outbox uuid5 redact es rows) i = Some r' \<and> t \<le> last_event r'"
  using assms
proof (induction es arbitrary: rows r)
  case (Cons e es)
  obtain r' where r': "row_at (outbox_step uuid5 redact e rows) i = Some r'" "row_move redact e r r'"
    using row_at_step[OF Cons.prems(1,2)] .
  have "t \<le> last_event r'" using last_event_later[OF r'(2) Cons.prems(3)] Cons.prems(4) by simp
  from Cons.IH[OF outbox_ok_step[OF Cons.prems(1)] r'(1) this] Cons.prems(4) show ?case by simp
qed simp

lemma requeue_granted:
  assumes "requeue_delivery f now i recipient payload cooldown rows = (Inr (Some d), rows1)" and "outbox_ok rows"
  obtains r where "row_at rows i = Some r" "requeueable i cooldown now r" "row_at rows1 i = Some (requeued_row recipient payload now r)"
proof -
  from assms(1) obtain r where r: "find (requeueable i cooldown now) rows = Some r"
    and rows1: "rows1 = map (\<lambda>x. if requeueable i cooldown now x then requeued_row recipient payload now x else x) rows"
    by (auto simp: requeue_delivery_def app_bind_def update_row_def split: prod.splits sum.splits dest!: statement_Inr)
  have rr: "r \<in> set rows" "requeueable i cooldown now r" using r by (auto simp: find_Some_iff in_set_conv_nth)
  have d: "distinct (map dr_id rows)" "distinct (map dr_id rows1)"
    using assms(2) outbox_ok_step[OF assms(2), of "\<lambda>s. s" undefined "(now, f, Op_Requeue i recipient payload cooldown)"] assms(1)
    by (simp_all add: outbox_ok_def outbox_step_def)
  have "row_at rows i = Some r" using rr row_at_iff[OF d(1)] by (simp add: requeueable_def)
  moreover have "requeued_row recipient payload now r \<in> set rows1" "dr_id (requeued_row recipient payload now r) = i"
    using rr unfolding rows1 by (auto intro: rev_image_eqI) (simp add: requeueable_def requeued_row_def)
  then have "row_at rows1 i = Some (requeued_row recipient payload now r)" using row_at_iff[OF d(2)] by simp
  ultimately show thesis using that rr(2) by blast
qed

text \<open>C29. Resends are throttled: between two granted resends of one message at least the cooldown passes, whatever
  happens in between, if the clock does not run backwards.\<close>

theorem resends_throttled:
  assumes "rows = run_outbox uuid5 redact es0 []"
    and "requeue_delivery f t i recipient payload cooldown rows = (Inr (Some d), rows1)"
    and "list_all (\<lambda>e. t \<le> fst e) es"
    and "requeue_delivery f' u i recipient' payload' cooldown' (run_outbox uuid5 redact es rows1) = (Inr (Some d'), rows2)"
  shows "t + max 0 cooldown' * second \<le> u"
proof -
  have ok: "outbox_ok rows" using assms(1) outbox_ok_run by simp
  have ok1: "outbox_ok rows1"
    using outbox_ok_step[OF ok, of uuid5 redact "(t, f, Op_Requeue i recipient payload cooldown)"] assms(2)
    by (simp add: outbox_step_def)
  obtain r where "row_at rows1 i = Some (requeued_row recipient payload t r)" using requeue_granted[OF assms(2) ok] .
  from last_event_later_run[OF ok1 this, of t es uuid5 redact] assms(3)
  obtain x where x: "row_at (run_outbox uuid5 redact es rows1) i = Some x" "t \<le> last_event x"
    by (auto simp: requeued_row_def last_event_def coalesce_def)
  obtain y where "row_at (run_outbox uuid5 redact es rows1) i = Some y" "requeueable i cooldown' u y"
    using requeue_granted[OF assms(4) outbox_ok_run[OF ok1]] .
  with x show ?thesis by (simp add: requeueable_def)
qed

definition demo_failed :: delivery_rows where
  "demo_failed = demo_queue (demo_created @ [demo_claim, (11, Fine, Op_Failed demo_mail_id ''t1'' None None None)])"

definition demo_again :: "outbox_event list" where
  "demo_again = [(600000012, Fine, Op_Claim_Next None [] 300 ''w'' ''t3''), (600000013, Fine, Op_Failed demo_mail_id ''t3'' None None None)]"

lemma demo_resends:
  "(let first = requeue_delivery Fine 600000011 demo_mail_id None PNone 600 demo_failed;
        again = requeue_delivery Fine 1200000013 demo_mail_id None PNone 600
          (run_outbox (\<lambda>s. s) plain_redaction demo_again (snd first))
    in map_option (\<lambda>d. d \<noteq> None) (answered first) = Some True \<and> map_option (\<lambda>d. d \<noteq> None) (answered again) = Some True)"
  by code_simp

theorem resends_throttled_witness:
  "\<exists>d rows1 d' rows2.
     requeue_delivery Fine 600000011 demo_mail_id None PNone 600 demo_failed = (Inr (Some d), rows1)
     \<and> requeue_delivery Fine 1200000013 demo_mail_id None PNone 600 (run_outbox (\<lambda>s. s) plain_redaction demo_again rows1)
        = (Inr (Some d'), rows2)
     \<and> 600000011 + max 0 600 * second \<le> 1200000013"
proof -
  let ?first = "requeue_delivery Fine 600000011 demo_mail_id None PNone 600 demo_failed"
  let ?again = "requeue_delivery Fine 1200000013 demo_mail_id None PNone 600
    (run_outbox (\<lambda>s. s) plain_redaction demo_again (snd ?first))"
  obtain d where d: "?first = (Inr (Some d), snd ?first)"
    using demo_resends unfolding Let_def by (cases "?first") (auto simp: answered_Some)
  obtain d' where d': "?again = (Inr (Some d'), snd ?again)"
    using demo_resends unfolding Let_def by (cases "?again") (auto simp: answered_Some)
  have rows: "demo_failed = run_outbox (\<lambda>s. s) plain_redaction
      (demo_created @ [demo_claim, (11, Fine, Op_Failed demo_mail_id ''t1'' None None None)]) []"
    by (simp add: demo_failed_def demo_queue_def)
  have "list_all (\<lambda>e. 600000011 \<le> fst e) demo_again" by (simp add: demo_again_def)
  from resends_throttled[OF rows d this d'] show ?thesis using d d' by blast
qed

end
