(* ===== verification/Em_Round_Properties.thy ===== *)
theory Em_Round_Properties
  imports Em_Rounds Em_Properties
begin

text \<open>
  The properties of a worker's round, of the recovery of claims, of the order messages are handed out
  in, of the text of a message and of the key a resend carries.
\<close>

section \<open>A concrete round\<close>

definition demo_settings :: email_settings where
  "demo_settings = \<lparr>es_enabled = True, es_trigger = True, es_worker = True, es_mode = ''allowlist'', es_mode_set = True,
     es_live_send = False, es_allowlist = '' A@b.kr, c@d.kr'', es_provider = ''brevo'', es_api_key = Some ''key'',
     es_from_address = Some ''q@x.kr'', es_from_name = ''Q'', es_public_url = Some ''https://x.kr'', es_unsubscribe = False,
     es_max_attempts = 5, es_cooldown = 600, es_retry_base = 30, es_lease = 300, es_batch = 10\<rparr>"

definition demo_context :: report_context where
  "demo_context = \<lparr>rc_user = Some ''7'', rc_report = Some ''r1'', rc_recipient = Some ''A@b.kr'', rc_user_email = Some ''A@b.kr'',
     rc_daily = True, rc_action = True, rc_status = Some ''completed'', rc_title = None, rc_summary = None, rc_name = None,
     rc_published = None, rc_strategy = None, rc_strategy_name = None\<rparr>"

definition demo_senders :: pyval where
  "demo_senders = PDict [(''senders'', PList [PDict [(''active'', PBool True), (''email'', PStr ''q@x.kr'')]])]"

definition demo_round :: "nat \<Rightarrow> round_world" where
  "demo_round status = \<lparr>rw_fault = (\<lambda>_. Fine), rw_locked = (\<lambda>_. []), rw_now = 10, rw_calls = calm_calls 10 (\<lambda>n. ''t''),
     rw_skip = (\<lambda>_. False),
     rw_claims = (\<lambda>_. \<lparr>cw_context = Inr (Some demo_context), cw_senders = Reply 200 (Inr demo_senders),
        cw_post = Reply status (Inr (PDict [(''messageId'', PStr ''m1'')])), cw_fault = (\<lambda>_. Fine), cw_now = (\<lambda>_. 20)\<rparr>)\<rparr>"

definition demo_work :: "nat \<Rightarrow> (nat \<times> email_message list, delivery_rows) app" where
  "demo_work status = run_once demo_settings plain_redaction (\<lambda>_. []) False ''w'' None (demo_round status) (demo_queue demo_created)"

lemma demo_rounds:
  "map_option (\<lambda>(n, ms). (n, map em_recipient ms)) (answered (demo_work 201)) = Some (1, [''a@b.kr''])
   \<and> map_option (\<lambda>r. md_status (dr_meta r)) (row_at (snd (demo_work 201)) demo_mail_id) = Some (Some ''SENT'')
   \<and> map_option (\<lambda>r. (md_status (dr_meta r), md_available (dr_meta r))) (row_at (snd (demo_work 503)) demo_mail_id)
      = Some (Some ''RETRY_PENDING'', Some 30000020)
   \<and> list_all (\<lambda>r. 1 \<le> max_attempts_of r) (demo_queue demo_created)
   \<and> length (demo_queue demo_created) = 1
   \<and> map dr_id (sort_key due_order (filter (claimable_row 10 None) (demo_queue demo_created))) = [demo_mail_id]
   \<and> list_all (expired_claim 300000010 None) (demo_queue (demo_created @ [demo_claim]))"
  by code_simp

section \<open>Rounds\<close>

text \<open>C26. A round is nothing but statements of the queue: whatever it meets, the table it leaves is the one some
  sequence of releases, claims and settlements leaves, so the invariants of the queue hold during
  and after it; it posts at most one message per claim, and takes at most a batch of claims.\<close>

theorem round_refines_queue:
  "(\<exists>es. list_all worker_event es
      \<and> snd (run_once cfg redact rp validated worker scope w rows) = run_outbox uuid5 redact es rows)
   \<and> (\<forall>n ms. fst (run_once cfg redact rp validated worker scope w rows) = Inr (n, ms)
        \<longrightarrow> length ms \<le> n \<and> n \<le> nat (es_batch cfg))"
proof -
  have batch: "fst (claim_batch cfg worker scope n calls rows) = Inr ds \<Longrightarrow> length ds \<le> n" for n calls rows ds
  proof (induction n arbitrary: calls rows ds)
    case (Suc n)
    then show ?case
      by (auto simp: app_bind_def Let_def split: prod.splits sum.splits option.splits if_splits) (metis fst_conv)+
  qed simp
  have "length ms \<le> n \<and> n \<le> nat (es_batch cfg)"
    if "fst (run_once cfg redact rp validated worker scope w rows) = Inr (n, ms)" for n ms
    using that batch batch_posts_at_most
    by (auto simp: run_once_def app_bind_def split: prod.splits sum.splits) (metis fst_conv)+
  then show ?thesis using run_once_worked[of uuid5 redact rows cfg rp validated worker scope w] by (auto simp: worked_def)
qed

theorem round_refines_queue_witness:
  "\<exists>n ms. fst (demo_work 201) = Inr (n, ms) \<and> length ms \<le> n \<and> n \<le> 10"
proof -
  obtain r rows' where r: "demo_work 201 = (Inr r, rows')" using demo_rounds by (cases "demo_work 201") (auto simp: answered_Some)
  obtain n ms where "r = (n, ms)" by (cases r)
  with r have round: "fst (demo_work 201) = Inr (n, ms)" by simp
  have "nat (es_batch demo_settings) = 10" by (simp add: demo_settings_def)
  with round round_refines_queue[of demo_settings plain_redaction "\<lambda>_. []" False "''w''" None "demo_round 201"
      "demo_queue demo_created" "\<lambda>s. s"]
  have "length ms \<le> n \<and> n \<le> 10" by (simp add: demo_work_def)
  with round show ?thesis by blast
qed



section \<open>Nothing is stranded\<close>

text \<open>C27. Claims of workers that died are recovered: after the loop no claim is expired, and every message whose
  claim was, and no other, is either due again at once or has failed with its attempts spent.\<close>

theorem expired_claims_recovered:
  assumes "rows = run_outbox uuid5 redact es []"
  shows "\<exists>ds rows'. release_expired_claims (\<lambda>_. Fine) (\<lambda>_. []) now scope rows = (Inr ds, rows')
    \<and> mset (map dv_id ds) = mset (map dr_id (filter (expired_claim now scope) rows))
    \<and> filter (expired_claim now scope) rows' = []
    \<and> (\<forall>i r. row_at rows i = Some r \<longrightarrow> (\<exists>r'. row_at rows' i = Some r' \<and>
         (if expired_claim now scope r
          then claimable_row now None r' \<or> (md_status (dr_meta r') = Some ''FAILED'' \<and> max_attempts_of r \<le> attempts_of r)
          else r' = r)))"
proof -
  have ok: "outbox_ok rows" using assms outbox_ok_run by simp
  then have d: "distinct (map dr_id rows)" by (simp add: outbox_ok_def)
  let ?h = "\<lambda>r. if expired_claim now scope r then released_row now r else r"
  obtain ds where ds: "release_expired_claims (\<lambda>_. Fine) (\<lambda>_. []) now scope rows = (Inr ds, map ?h rows)"
    "mset (map dv_id ds) = mset (map dr_id (filter (expired_claim now scope) rows))"
    using release_expired_exact[OF d] by blast
  have "map dr_id (map ?h rows) = map dr_id rows" by (simp add: released_row_def Let_def)
  then have d': "distinct (map dr_id (map ?h rows))" using d by metis
  have row: "row_at (map ?h rows) i = Some (?h r)" if "row_at rows i = Some r" for i r
    using that unfolding row_at_iff[OF d] row_at_iff[OF d'] by (auto simp: released_row_def Let_def)
  have due: "claimable_row now None (released_row now r)
      \<or> (md_status (dr_meta (released_row now r)) = Some ''FAILED'' \<and> max_attempts_of r \<le> attempts_of r)" for r
    by (simp add: released_row_def claimable_row_def in_scope_def attempts_of_def max_attempts_of_def Let_def)
  have "filter (expired_claim now scope) (map ?h rows) = []" by (induction rows) simp_all
  with ds row due show ?thesis by (intro exI[of _ ds] exI[of _ "map ?h rows"]) auto
qed

theorem expired_claims_recovered_witness:
  "\<exists>ds rows'. release_expired_claims (\<lambda>_. Fine) (\<lambda>_. []) 300000010 None (demo_queue (demo_created @ [demo_claim])) = (Inr ds, rows')
     \<and> filter (expired_claim 300000010 None) rows' = []
     \<and> length ds = length (demo_queue (demo_created @ [demo_claim]))"
proof -
  obtain ds rows' where r: "release_expired_claims (\<lambda>_. Fine) (\<lambda>_. []) 300000010 None (demo_queue (demo_created @ [demo_claim])) = (Inr ds, rows')"
    "filter (expired_claim 300000010 None) rows' = []"
    "mset (map dv_id ds) = mset (map dr_id (filter (expired_claim 300000010 None) (demo_queue (demo_created @ [demo_claim]))))"
    using expired_claims_recovered[OF demo_queue_def, where now = 300000010 and scope = None] by blast
  have "filter (expired_claim 300000010 None) (demo_queue (demo_created @ [demo_claim])) = demo_queue (demo_created @ [demo_claim])"
    using demo_rounds by (simp add: filter_id_conv list_all_iff)
  then have "length ds = length (demo_queue (demo_created @ [demo_claim]))" using arg_cong[OF r(3), of size] by simp
  with r show ?thesis by blast
qed

text \<open>C28. Repeated claims hand out every due message once, the longest due first, and the number the readiness
  check reports is the number of messages they hand out.\<close>

theorem due_messages_handed_out:
  assumes "rows = run_outbox uuid5 redact es []" and "\<forall>r\<in>set rows. 1 \<le> max_attempts_of r" and "length rows \<le> n"
  shows "\<exists>ds. fst (claim_batch cfg worker None n (calm_calls now token) rows) = Inr ds
    \<and> map dv_id ds = map dr_id (sort_key due_order (filter (claimable_row now None) rows))
    \<and> (\<exists>s. get_queue_readiness_snapshot (\<lambda>_. Fine) now rows = (Inr s, rows) \<and> rd_due s = int (length ds))"
proof -
  have ok: "outbox_ok rows" using assms(1) outbox_ok_run by simp
  have "length (filter (claimable_row now None) rows) \<le> n" using assms(3) length_filter_le le_trans by blast
  then obtain ds where ds: "fst (claim_batch cfg worker None n (calm_calls now token) rows) = Inr ds"
    "map dv_id ds = map dr_id (sort_key due_order (filter (claimable_row now None) rows))"
    using claims_hand_out_due[of rows cfg worker None n now token] ok by (auto simp: outbox_ok_def)
  have "claimable_row now None r \<longleftrightarrow> due_row now r" if "r \<in> set rows" for r
  proof -
    have "life_cycle r" using ok that by (simp add: outbox_ok_def list_all_iff)
    moreover have "1 \<le> max_attempts_of r" using assms(2) that by blast
    ultimately show ?thesis
      by (auto simp: life_cycle_def claimable_row_def due_row_def in_scope_def Let_def split: option.splits if_splits)
  qed
  then have "filter (claimable_row now None) rows = filter (due_row now) rows" by (intro filter_cong) auto
  moreover have "length ds = length (filter (claimable_row now None) rows)"
    using arg_cong[OF ds(2), of length] by simp
  ultimately show ?thesis using ds
    by (simp add: get_queue_readiness_snapshot_def statement_def fail_as_def app_bind_def)
qed

theorem due_messages_handed_out_witness:
  "\<exists>ds. fst (claim_batch demo_settings ''w'' None 1 (calm_calls 10 (\<lambda>_. ''t'')) (demo_queue demo_created)) = Inr ds
     \<and> map dv_id ds = [demo_mail_id]"
proof -
  have "\<forall>r\<in>set (demo_queue demo_created). 1 \<le> max_attempts_of r" "length (demo_queue demo_created) \<le> 1"
    using demo_rounds by (auto simp: list_all_iff)
  from due_messages_handed_out[OF demo_queue_def this, of demo_settings "''w''" 10 "\<lambda>_. ''t''"] demo_rounds
  show ?thesis by auto
qed

end
