(* ===== verification/Em_Mail_Properties.thy ===== *)
theory Em_Mail_Properties
  imports Em_Queue_Props Em_Properties
begin

text \<open>
  The properties of the text of a message, of the delay between attempts and of the key a resend
  carries to the provider.
\<close>

section \<open>Markup\<close>

definition markup_char :: "char \<Rightarrow> bool" where
  "markup_char c = (c = CHR ''<'' \<or> c = CHR ''>'' \<or> c = CHR 0x22 \<or> c = CHR 0x27)"

definition markup :: "string \<Rightarrow> string" where
  "markup s = filter markup_char s"

lemma markup_append [simp]: "markup (a @ b) = markup a @ markup b"
  by (simp add: markup_def)

lemma markup_Nil [simp]: "markup [] = []"
  by (simp add: markup_def)

lemma markup_Cons: "markup (c # s) = (if markup_char c then c # markup s else markup s)"
  by (simp add: markup_def)

lemma markup_escape [simp]: "markup (html_escape s) = []"
  by (induction s) (auto simp: html_escape_def markup_def markup_char_def filter_concat)

lemma markup_newline [simp]: "markup newline = []"
  by (simp add: markup_def markup_char_def newline_def)

lemma markup_join: "markup (join_with newline xs) = concat (map markup xs)"
proof (induction xs)
  case (Cons x xs)
  then show ?case by (cases xs) simp_all
qed simp

section \<open>Lines\<close>

lemma words_no_space: "\<forall>c\<in>set w. \<not> is_space c \<Longrightarrow> \<forall>x\<in>set (words_from w s). \<forall>c\<in>set x. \<not> is_space c"
proof (induction s arbitrary: w)
  case (Cons c cs)
  show ?case
  proof (cases "is_space c")
    case True
    with Cons.IH[of "[]"] Cons.prems show ?thesis by (simp del: One_nat_def)
  next
    case False
    with Cons.IH[of "c # w"] Cons.prems show ?thesis by simp
  qed
qed simp

lemma join_chars: "set (join_with sep xs) \<subseteq> set sep \<union> \<Union> (set ` set xs)"
proof (induction xs)
  case (Cons x xs)
  then show ?case by (cases xs) auto
qed simp

lemma py_strip_set: "set (py_strip s) \<subseteq> set s"
  unfolding py_strip_def by (auto dest!: set_dropWhileD)

lemma inline_one_line:
  assumes "c \<in> set (normalize_inline_text v d)" and "is_space c"
  shows "c = CHR '' '' \<or> (c \<in> set d)"
proof (cases "py_strip (join_with '' '' (split_words (text_or v d))) = []")
  case False
  with assms(1) have "c \<in> set (join_with '' '' (split_words (text_or v d)))"
    using py_strip_set by (auto simp: normalize_inline_text_def Let_def)
  with join_chars have "c \<in> set '' '' \<or> (\<exists>x\<in>set (split_words (text_or v d)). c \<in> set x)" by fastforce
  then show ?thesis using words_no_space[of "[]" "text_or v d"] assms(2) by (auto simp: split_words_def)
qed (use assms in \<open>simp add: normalize_inline_text_def\<close>)

text \<open>C30. Nothing a user or a report brings into a message can add markup to it or a line to its subject: the
  angle brackets and quotes of the body, in their order, are those of the template, whatever the
  title, the summary, the name, the address, the links are; and the subject is one line.\<close>

theorem mail_markup_fixed:
  assumes "render_report_completed_template public report title summary recipient name unsubscribe = Inr t"
  shows "markup (et_html t)
      = markup (join_with newline (html_lines [] [] [] [] (if text_set unsubscribe then Some ''u'' else None)))
    \<and> (\<forall>c\<in>set (et_subject t). is_space c \<longrightarrow> c = CHR '' '')"
proof -
  obtain url where t: "et_html t = join_with newline (html_lines (normalize_inline_text name recipient)
        (normalize_inline_text title ''Your report is ready'')
        (normalize_inline_text summary ''QuantAgent has prepared your report.'') url unsubscribe)"
    and s: "et_subject t = ''QuantAgent report ready: '' @ normalize_inline_text title ''Your report is ready''"
    using assms by (auto simp: render_report_completed_template_def Let_def res_simps)
  have "text_set (Some ''u'')" "\<not> text_set None" by (simp_all add: text_set_def)
  then have "markup (et_html t)
      = markup (join_with newline (html_lines [] [] [] [] (if text_set unsubscribe then Some ''u'' else None)))"
    unfolding t markup_join html_lines_def by (cases "text_set unsubscribe") (simp_all add: markup_Cons)
  moreover have "c = CHR '' ''" if c: "c \<in> set (et_subject t)" "is_space c" for c
  proof (cases "c \<in> set (normalize_inline_text title ''Your report is ready'')")
    case True
    with inline_one_line[OF _ c(2)] have "c = CHR '' '' \<or> c \<in> set ''Your report is ready''" .
    then show ?thesis using c(2) by (auto simp: is_space_def)
  next
    case False
    with c(1) s have "c \<in> set ''QuantAgent report ready: ''" by auto
    then show ?thesis using c(2) by (auto simp: is_space_def)
  qed
  ultimately show ?thesis by blast
qed

lemma demo_render:
  "(case render_report_completed_template ''https://x.kr/'' ''r/1'' (Some ''a<b>'') None ''a@b.kr'' (Some ''x & y'') None of
      Inr t \<Rightarrow> Some (et_subject t) | Inl e \<Rightarrow> None) = Some ''QuantAgent report ready: a<b>''"
  by code_simp

theorem mail_markup_fixed_witness:
  "\<exists>t. render_report_completed_template ''https://x.kr/'' ''r/1'' (Some ''a<b>'') None ''a@b.kr'' (Some ''x & y'') None = Inr t
     \<and> markup (et_html t) = markup (join_with newline (html_lines [] [] [] [] None))"
proof -
  obtain t where t: "render_report_completed_template ''https://x.kr/'' ''r/1'' (Some ''a<b>'') None ''a@b.kr'' (Some ''x & y'') None = Inr t"
    using demo_render by (auto split: sum.splits)
  from mail_markup_fixed[OF t] t show ?thesis by (simp add: text_set_def)
qed

section \<open>Delays\<close>

text \<open>The delay before the next attempt never shrinks with the attempts and stays between a second and half
  an hour.\<close>

theorem retry_delay_bounds:
  "1 \<le> calculate_retry_delay cfg n \<and> calculate_retry_delay cfg n \<le> 1800
   \<and> (n \<le> m \<longrightarrow> calculate_retry_delay cfg n \<le> calculate_retry_delay cfg m)"
proof -
  let ?b = "max 1 (es_retry_base cfg)"
  have "1 \<le> ?b * (2::int) ^ k" for k using mult_mono[of 1 ?b 1 "2 ^ k"] by simp
  moreover have "?b * 2 ^ nat (max 0 (n - 1)) \<le> ?b * 2 ^ nat (max 0 (m - 1))" if "n \<le> m"
    using that by (intro mult_left_mono power_increasing nat_mono) auto
  ultimately show ?thesis by (auto simp: calculate_retry_delay_def MAX_BACKOFF_SECONDS_def min_le_iff_disj)
qed

theorem retry_delay_bounds_witness:
  "calculate_retry_delay cfg 3 \<le> calculate_retry_delay cfg 9"
  using retry_delay_bounds[of cfg 3 9] by simp

section \<open>The key of a resend\<close>

lemma key_kept_run:
  assumes "outbox_ok rows" and "row_at rows i = Some r"
  shows "\<exists>r'. row_at (run_outbox uuid5 redact es rows) i = Some r' \<and> md_key (dr_meta r') = md_key (dr_meta r)"
  using assms
proof (induction es arbitrary: rows r)
  case (Cons e es)
  obtain r' where r': "row_at (outbox_step uuid5 redact e rows) i = Some r'" "row_move redact e r r'"
    using row_at_step[OF Cons.prems] .
  from Cons.IH[OF outbox_ok_step[OF Cons.prems(1)] r'(1)] row_move_keeps[OF r'(2)] show ?case by simp
qed simp

lemma header_key: "dget (request_headers cfg sandbox m provider) ''Idempotency-Key'' = Some (em_key m)"
  by (simp add: request_headers_def dget_def)

lemma message_key:
  "build_message_from_claim cfg rp (row_to_delivery r) = Inr m
   \<Longrightarrow> em_key m = (case md_key (dr_meta r) of None \<Rightarrow> ''None'' | Some k \<Rightarrow> k)"
  by (auto simp: build_message_from_claim_def row_to_delivery_def Let_def split: option.splits)

text \<open>Every message ever posted for one delivery, the explicit resends with a new address or text included,
  carries the same \<open>Idempotency-Key\<close>.\<close>

theorem resend_repeats_key:
  assumes "rows = run_outbox uuid5 redact es0 []" and "row_at rows i = Some r"
    and "row_at (run_outbox uuid5 redact es rows) i = Some r'"
    and "build_message_from_claim cfg rp (row_to_delivery r) = Inr m"
    and "build_message_from_claim cfg' rp (row_to_delivery r') = Inr m'"
  shows "dget (request_headers cfg' sandbox' m' provider) ''Idempotency-Key'' = dget (request_headers cfg sandbox m provider) ''Idempotency-Key''"
proof -
  have "outbox_ok rows" using assms(1) outbox_ok_run by simp
  from key_kept_run[OF this assms(2), of uuid5 redact es] assms(3)
  have "md_key (dr_meta r') = md_key (dr_meta r)" by auto
  with message_key[OF assms(4)] message_key[OF assms(5)] show ?thesis by (simp add: header_key)
qed

end
