(* ===== verification/Spec2Isabelle.thy ===== *)
theory Spec2Isabelle
  imports Bt_Properties Bt_Session_Properties Bt_Metric_Properties
    Ai_Events Ai_Aoai_Gate Ai_Job_Properties Ai_Runner_Properties Ai_Graph Ai_Ast_Validator Fs_Properties Fs_Percentiles Fs_Admission
    Au_Session_Properties Au_Token_Properties Au_Quota Em_Round_Properties Em_Mail_Properties
begin

text \<open>
  A verification library for Quant Agent: a service that turns a user's wording of an investment
  strategy into a structured specification, researches and backtests it, and reports the result.
  Five of its subsystems are modelled, each with the composition of its parts: the backtest engine, the
  job layer and the rule engine of the agent, the log-ins and access tokens that the two services share,
  and the queue that mails finished reports.

  \<^bold>\<open>The backtest engine\<close> (\<^verbatim>\<open>src/backtest_module/backtest_module\<close>; theories \<open>Bt_\<close>).  A specification is
  evaluated every session on bars and indicators, its decisions become orders, the orders of one
  session are executed at the opens of the next one, and the ledgers become a summary.

  \<^item> \<open>Bt_Models\<close>: \<^verbatim>\<open>models.py\<close>, the strategy specification with its field constraints and validators.
  \<^item> \<open>Bt_Strategy\<close>: \<^verbatim>\<open>strategy.py\<close>, metric lookup, conditions, rules, decisions and the backtest plan.
  \<^item> \<open>Bt_Records\<close>, \<open>Bt_Metrics\<close>: the records, the run configuration and the indicator plan of \<^verbatim>\<open>backtest.py\<close>.
  \<^item> \<open>Bt_Execution\<close>: \<open>_execute_pending_orders\<close>, \<open>_apply_corporate_actions\<close>, \<open>_write_off_stale_positions\<close>.
  \<^item> \<open>Bt_Signals\<close>: \<open>_generate_signals_for_date\<close> and its compact variant.
  \<^item> \<open>Bt_Engine\<close>: construction, ticker selection, and the loop of \<open>run\<close> (\<open>run_days\<close> over \<open>run_day\<close>,
    closed by \<open>finish_run\<close>); \<open>run_state\<close> is what the loop carries.
  \<^item> \<open>Bt_Summary\<close>, \<open>Bt_Sample\<close>: the summary, the selection metrics and the demo specifications.
  \<^item> \<open>Bt_Ledger\<close> is the abstract specification: a ledger of cash and share counts that only notes,
    sells and buys; \<open>Bt_Refine\<close> shows that a session of the engine is one of its runs.
  \<^item> \<open>Bt_Exec_Props\<close>, \<open>Bt_Audit\<close>, \<open>Bt_Corporate\<close>, \<open>Bt_Engine_Props\<close>, \<open>Bt_Run_Props\<close>,
    \<open>Bt_Run_Returns\<close>, \<open>Bt_Metric_Props\<close>: the invariants of one step, lifted to a session and to a run.
  \<^item> \<open>Bt_Properties\<close> (whole runs: solvency, slots, order accounting, execution dates, no look-ahead,
    termination, stale names), \<open>Bt_Session_Properties\<close> (one session: refinement, cash and share audit,
    termination, errors, corporate actions, write-offs, signals) and \<open>Bt_Metric_Properties\<close>
    (ticker selection, the buy queue, indicators, drawdown): the results.

  \<^bold>\<open>The job layer of the agent\<close> (\<^verbatim>\<open>src/ai/ai_graph\<close>; theories \<open>Ai_\<close>).  A request is admitted with a parse
  token, becomes a job in a store and a message in an outbox, is claimed by a dispatcher, waits for
  a slot, runs the analysis graph under a deadline, reports progress into an event buffer, and ends
  as completed or failed with a typed cause.

  \<^item> \<open>Ai_Events\<close>: \<^verbatim>\<open>job_events.py\<close>, the bounded event buffer; locale \<open>bounded_log\<close>.
  \<^item> \<open>Ai_Gates\<close>, \<open>Ai_Aoai_Gate\<close>: \<^verbatim>\<open>analysis_capacity.py\<close> and \<^verbatim>\<open>llm/concurrency_gate.py\<close>, the two admission
    gates, as step relations over any number of callers; locale \<open>transition_system\<close>.
  \<^item> \<open>Ai_Schemas\<close>: the part of \<^verbatim>\<open>schemas.py\<close> that the job layer reads and writes.
  \<^item> \<open>Ai_Failures\<close>: \<open>classify_failure\<close> of \<^verbatim>\<open>jobs.py\<close>; exceptions live on a heap, linked by their causes.
  \<^item> \<open>Ai_Manifest\<close>: the execution manifest of a job and how the engine's ledger is copied into it.
  \<^item> \<open>Ai_Jobs\<close>: the job records, \<open>InMemoryAnalysisJobStore\<close> and \<open>CancellationRegistry\<close>.
  \<^item> \<open>Ai_Job_Props\<close>: histories of store operations, and the locale \<open>parse_admission\<close> for the contract
    \<open>ParseBoundJobAdmissionStore\<close>, interpreted on the in-memory store.
  \<^item> \<open>Ai_Runner\<close>: \<open>run_job_sync\<close>, \<open>_run_analysis_job\<close>, \<open>reap_interrupted_jobs\<close> and \<^verbatim>\<open>progress.py\<close>.
  \<^item> \<open>Ai_Graph\<close>: \<^verbatim>\<open>graph.py\<close>, the graph, its routes, its node boundaries and the straight-line fallback.
  \<^item> \<open>Ai_Ast_Validator\<close>: \<^verbatim>\<open>security/ast_validator.py\<close>, the check that generated backtest code must pass;
    the visitor is shown to decide a declarative policy on the nodes of the syntax tree.
  \<^item> \<open>Ai_Job_Properties\<close> (tokens, retries, leases, the outbox), \<open>Ai_Runner_Props\<close> and
    \<open>Ai_Runner_Properties\<close> (every run ends, queue time-outs, restarts): the results on them; the
    results on the smaller components stand in the component's theory.

  \<^bold>\<open>The rule engine of the agent\<close> (\<^verbatim>\<open>src/ai/ai_graph/nodes/backtest_features.py\<close> and what it calls; theories
  \<open>Fs_\<close>).  A structured candidate, a rule or a parameter profile, is evaluated on a table of price rows
  and becomes one action and one score per row; a look-ahead check runs it a second time on a truncated table.

  \<^item> \<open>Np_Series\<close>: what is used of numpy, and kernels that read no later bar (\<open>causal\<close>).
  \<^item> \<open>Fs_Conditions\<close>: the rule language of \<^verbatim>\<open>schemas.py\<close> and the metric names of \<^verbatim>\<open>condition_compiler.py\<close>.
  \<^item> \<open>Fs_Store\<close>: \<open>PreparedFeatureStore\<close>, its columns, rows per ticker and sessions; \<open>point_in_time\<close> columns.
  \<^item> \<open>Fs_Indicators\<close>, \<open>Fs_Volume\<close>: the indicator columns, each point in time.
  \<^item> \<open>Fs_Rolling\<close>: \<open>_rolling_metric\<close>; locale \<open>popping\<close> for the monotone queue.
  \<^item> \<open>Fs_Catalog\<close>, \<open>Fs_Metrics\<close>: the names of the metric catalog, the caches, and \<open>_metric_series\<close>, which looks
    metrics up recursively; it ends because every lookup lowers the rank of the name.
  \<^item> \<open>Fs_Evaluate\<close>: conditions, streaks, margins and entry scores on a bar.
  \<^item> \<open>Fs_Actions\<close>, \<open>Fs_Features\<close>, \<open>Fs_Profiles\<close>: \<open>_compiled_actions\<close>, the feature matrix with the factors of
    \<^verbatim>\<open>quant_strategy.py\<close>, \<open>_profile_actions\<close>, \<open>_rotation_profile_actions\<close> and \<open>build_ranked_actions\<close>.
  \<^item> \<open>Fs_Lookahead\<close>: \<^verbatim>\<open>lookahead.py\<close>.
  \<^item> \<open>Fs_Cut\<close>, \<open>Fs_Rule_Cut\<close>, \<open>Fs_Action_Cut\<close>: every step commutes with cutting the history
    at the end of a session, caches included (\<open>agrees\<close>); \<open>Fs_Book\<close>: the position book behind the actions.
  \<^item> \<open>Fs_Compiler\<close>, \<open>Fs_Admission\<close>: the compiler of \<^verbatim>\<open>condition_compiler.py\<close>, which decides what is admitted, the
    availability checks, what an admission promises of the evaluator, and where the two read a rule differently.
  \<^item> \<open>Fs_Properties\<close> (no look-ahead, the book) and \<open>Fs_Percentiles\<close> (cross-sectional ranks), on the history of
    \<open>Fs_Sample\<close>: the results.

  \<^bold>\<open>Log-ins, access tokens and quotas\<close> (\<^verbatim>\<open>src/backend/app/services/session_store.py\<close>,
  \<^verbatim>\<open>src/ai/ai_graph/auth.py\<close>, \<^verbatim>\<open>src/ai/ai_graph/token_auth.py\<close> and the token routes of the backend; theories
  \<open>Py_Json\<close> and \<open>Au_\<close>).  The backend writes a session document to Redis at log-in and both services
  accept its cookie; the backend issues tokens into a table, and the AI service resolves them through a
  cache in the same Redis and counts their requests.

  \<^item> \<open>Py_Json\<close>, \<open>Py_Json_Props\<close>: \<open>json.dumps\<close> and \<open>json.loads\<close>, and their round trip.
  \<^item> \<open>Au_Redis\<close>: Redis as a record of commands with its documented laws, locale \<open>redis_server\<close>, an in-memory
    instance, and commands that fail before or after they took effect.
  \<^item> \<open>Au_Sessions\<close>: \<open>AuthSessionStore\<close> with its Lua script, and the reader of the AI service.
    \<open>Au_Session_Props\<close>: histories of events and the invariant of one session's key.
  \<^item> \<open>Au_Tokens\<close>: resolvers, cache, quota, identity dependencies, and issuing, listing and revoking.
    \<open>Au_Token_Props\<close>: locales \<open>token_resolver\<close> and \<open>caching\<close>, and the steps of concurrent requests.
  \<^item> \<open>Au_Session_Properties\<close> (lifetimes, log-outs), \<open>Au_Token_Properties\<close> (who is calling, the cache,
    revocation) and \<open>Au_Quota\<close> (the bound of every window): the results.

  \<^bold>\<open>Report e-mails\<close> (\<^verbatim>\<open>src/backend/app/db/email_outbox.py\<close>, \<^verbatim>\<open>services/email_delivery.py\<close>,
  \<^verbatim>\<open>services/email_templates.py\<close>, \<^verbatim>\<open>services/email_provider.py\<close>, \<^verbatim>\<open>workers/email_delivery_worker.py\<close>; theories
  \<open>Em_\<close>).  A finished report becomes a row of the outbox if its reader may be written to; workers claim due
  rows for a lease, check again, post the message to the provider, and settle the claim.

  \<^item> \<open>Em_Outbox\<close>: the rows and every statement on them; each is atomic, can fail before or after it took
    effect, and skips the rows another transaction has locked where the source says so.
  \<^item> \<open>Em_Delivery\<close>: the decision who may be written to, the template and the request.
  \<^item> \<open>Em_Provider\<close>, \<open>Em_Worker\<close>: the provider's client, and one round of a worker.
  \<^item> \<open>Em_Queue_Props\<close>: histories of statements of any number of processes (\<open>run_outbox\<close>), what one statement
    can do to a row (\<open>row_move\<close>), and the invariant \<open>outbox_ok\<close>.
  \<^item> \<open>Em_Rounds\<close>: what repeated claims hand out, what recovery releases, and that a round is a history.
  \<^item> \<open>Em_Properties\<close> (consistency, exclusive claims, bounds), \<open>Em_Round_Properties\<close> (refinement, consent,
    recovery, order) and \<open>Em_Mail_Properties\<close> (mark-up, delays, keys): the results.

  \<^bold>\<open>Shared.\<close>  \<open>QA_Prelude\<close> has Python's exceptions as values (\<open>'a res\<close> is an exception or a result),
  dictionaries as insertion-ordered association lists, and the lemma collections; \<open>Py_Float\<close> has
  floats, \<open>Py_Text\<close> the texts that \<open>int\<close> and \<open>float\<close> accept and the dynamic values of documents.  The prelude's locales \<open>guarded_loop\<close> and
  \<open>total_loop\<close> are the contract of a loop body (an invariant kept, no exception), interpreted on every
  loop of the engine; \<open>keyed_store\<close> is the contract of a dictionary.

  \<^bold>\<open>Conventions.\<close>  A float is an exact rational, an infinity or NaN (\<open>pyfloat\<close>): comparison, arithmetic
  with the special values, division by zero and conversion to int are Python's, rounding of finite
  results to 53 bits is not modelled, so the results on cash are exact statements about the formulas of the
  code.  Instants are microseconds since the epoch, dates are day numbers; Redis counts whole seconds.  Every raise of the source
  is a value \<open>Inl\<close>, and an operation that raises half way returns the state it leaves behind.  Loops
  are recursions on the lists they walk over, or decrease a count that the termination proof names, so no
  fuel is needed but in the reader of JSON, whose fuel, the length of the text, is shown to be enough for
  what the writer prints; the only loop that can go on for ever, the wait of the provider gate, is a step
  relation.  An operation that holds a lock
  for its whole body is one step, so interleavings of threads are sequences of operations.  Texts shown to
  users are Korean in the source and English glosses here.

  \<^bold>\<open>Arguments of the model.\<close>  What is not in the repository, or is not code, is an argument: the
  values of TA-Lib, square root, power and the sorting permutation of numpy, the clock and fresh identifiers, digests, the parser of ISO
  timestamps, the debug store, what a graph node computes, and how an analysis run ends; the commands of
  Redis, with their documented laws as the hypothesis \<open>redis_laws\<close>, and \<open>repr\<close>; for the mails the random
  claim tokens, \<open>uuid5\<close>, the redaction of error texts by patterns, the answers of the provider over HTTP, the
  report's context as the database returns it, and the link to unsubscribe.  PostgreSQL's tables are lists of rows.  Following an
  edge is LangGraph's documented meaning of one.

  \<^bold>\<open>Bounds of the rule engine.\<close>  A metric name with a window of zero bars, for which numpy raises, is read as an
  unknown name.  The cache key of a condition is the condition itself, not its JSON text.  The columns
  \<^verbatim>\<open>__true_range__\<close> and \<^verbatim>\<open>__daily_returns__\<close>, which only avoid computing a column twice, are recomputed.

  \<^bold>\<open>Not modelled.\<close>  CSV parsing, output files and command lines; the quantstats report of \<^verbatim>\<open>performance.py\<close>;
  prompts, the calls to the language model and the bodies of the graph nodes; the remaining SQL
  repositories, the HTTP APIs and the rest of the web backend; the data engineering pipelines, which are HTTP
  and SQL; the front end.  Their logic is mostly calls to services and libraries whose code is not here.
  Of the mails, the polling loop around the rounds and cancellation in the middle of a post are left out, and
  the history page and the unsubscribe tokens.  Next in the plan: the public performance contract of the
  agent, the position sizing of its backtest nodes, and the persistent job store.
\<close>

end
